(* ===== verification/Gw_Prelude.thy ===== *)
theory Gw_Prelude
  imports Main "HOL-Library.Word"
begin

text \<open>
  Shared vocabulary of the development: machine words, the ESP-IDF error codes as a
  datatype, the byte-order helpers every protocol of the gateway uses, list lemmas, and the
  \<open>invariant_step\<close> locale, the contract of a state machine whose every step keeps an
  invariant (the charge controller, the LAN handler, the internet monitor interpret it).
\<close>

unbundle bit_operations_syntax

named_theorems gw_frame \<open>which part of the state an operation leaves alone\<close>
named_theorems gw_bytes \<open>lengths and contents of the byte lists the code builds\<close>

section \<open>Machine integers and error codes\<close>

type_synonym u8 = "8 word"
type_synonym u16 = "16 word"
type_synonym u32 = "32 word"

text \<open>The error codes the sources name; every other code of a driver is \<open>ESP_ERR_OTHER\<close>.\<close>

datatype esp_err =
    ESP_OK
  | ESP_FAIL
  | ESP_ERR_NO_MEM
  | ESP_ERR_INVALID_ARG
  | ESP_ERR_INVALID_STATE
  | ESP_ERR_INVALID_SIZE
  | ESP_ERR_NOT_FOUND
  | ESP_ERR_NOT_SUPPORTED
  | ESP_ERR_TIMEOUT
  | ESP_ERR_INVALID_RESPONSE
  | ESP_ERR_NVS_NOT_FOUND
  | ESP_ERR_OTHER int

lemma word_of_nat_eq_u8: "n < 256 \<Longrightarrow> word_of_nat n = (w :: u8) \<longleftrightarrow> n = unat w"
  by (auto simp: unat_of_nat take_bit_nat_eq_self)

lemma unat_u16_of_nat: "n < 65536 \<Longrightarrow> unat (word_of_nat n :: u16) = n"
  by (simp add: unat_of_nat take_bit_nat_eq_self)

section \<open>Byte order\<close>

text \<open>Two bytes as a big-endian 16-bit value, \<open>(hi << 8) | lo\<close>, and back.\<close>

definition be16 :: "u8 \<Rightarrow> u8 \<Rightarrow> u16" where
  "be16 hi lo = push_bit 8 (ucast hi) OR ucast lo"

definition hi8 :: "u16 \<Rightarrow> u8" where
  "hi8 w = ucast (drop_bit 8 w)"

definition lo8 :: "u16 \<Rightarrow> u8" where
  "lo8 w = ucast (w AND 0xFF)"

definition be32 :: "u8 \<Rightarrow> u8 \<Rightarrow> u8 \<Rightarrow> u8 \<Rightarrow> u32" where
  "be32 a b c d =
     push_bit 24 (ucast a) OR push_bit 16 (ucast b) OR push_bit 8 (ucast c) OR ucast d"

definition byte_of32 :: "nat \<Rightarrow> u32 \<Rightarrow> u8" where
  "byte_of32 n w = ucast (drop_bit n w AND 0xFF)"

lemma bit_0xFF: "bit (0xFF :: 'a::len word) n \<longleftrightarrow> n < 8 \<and> n < LENGTH('a)"
proof -
  have "(0xFF :: 'a word) = mask 8"
    by (simp add: mask_eq_exp_minus_1)
  then have "bit (0xFF :: 'a word) n = bit (mask 8 :: 'a word) n" by (simp only:)
  also have "\<dots> \<longleftrightarrow> n < 8 \<and> n < LENGTH('a)"
    by (auto simp only: bit_mask_iff possible_bit_word)
  finally show ?thesis .
qed

lemma bit_lo8: "bit (lo8 w) i \<longleftrightarrow> i < 8 \<and> bit w i"
  unfolding lo8_def
  by (auto simp only: bit_ucast_iff bit_and_iff bit_0xFF len_num0 len_bit0 len_num1)

lemma bit_hi8: "bit (hi8 w) i \<longleftrightarrow> i < 8 \<and> bit w (8 + i)"
  by (auto simp: hi8_def bit_simps)

lemma bit_be16: "bit (be16 h l) i \<longleftrightarrow> (if i < 8 then bit l i else i < 16 \<and> bit h (i - 8))"
  by (auto simp: be16_def bit_simps dest: bit_imp_le_length)

lemma bit_byte_of32: "bit (byte_of32 n w) i \<longleftrightarrow> i < 8 \<and> bit w (n + i)"
  unfolding byte_of32_def
  by (auto simp only: bit_ucast_iff bit_and_iff bit_drop_bit_eq comp_apply bit_0xFF
      len_num0 len_bit0 len_num1)

lemma bit_be32: "bit (be32 a b c d) i \<longleftrightarrow>
   (if i < 8 then bit d i else if i < 16 then bit c (i - 8)
    else if i < 24 then bit b (i - 16) else i < 32 \<and> bit a (i - 24))"
  by (auto simp: be32_def bit_simps dest: bit_imp_le_length)

lemmas bit_bytes = bit_lo8 bit_hi8 bit_be16 bit_byte_of32 bit_be32

lemma be16_hi8_lo8 [simp]: "be16 (hi8 w) (lo8 w) = w"
  by (rule bit_word_eqI) (auto simp: bit_bytes)

lemma hi8_be16 [simp]: "hi8 (be16 h l) = h"
  by (rule bit_word_eqI) (auto simp: bit_bytes)

lemma lo8_be16 [simp]: "lo8 (be16 h l) = l"
  by (rule bit_word_eqI) (auto simp: bit_bytes)

lemma be32_byte_of32 [simp]:
  "be32 (byte_of32 24 w) (byte_of32 16 w) (byte_of32 8 w) (byte_of32 0 w) = w"
  by (rule bit_word_eqI) (auto simp: bit_bytes)

section \<open>Masked updates\<close>

text \<open>
  \<open>(old & ~mask) | (bits & mask)\<close>: the read-modify-write of the register drivers.
\<close>

definition masked :: "'a::len word \<Rightarrow> 'a word \<Rightarrow> 'a word \<Rightarrow> 'a word" where
  "masked m b v = (v AND NOT m) OR (b AND m)"

lemma bit_masked: "bit (masked m b v) i \<longleftrightarrow> (if bit m i then bit b i else bit v i)"
  by (auto simp: masked_def bit_simps dest: bit_imp_le_length)

lemma masked_masked [simp]: "masked m b (masked m b' v) = masked m b v"
  by (rule bit_word_eqI) (simp add: bit_masked)

lemma and_masked: "masked m b v AND m = b AND m"
  by (rule bit_word_eqI) (auto simp: bit_masked bit_simps)

text \<open>\<open>(uint8_t)(1u << k)\<close>, the mask of one pin or flag.\<close>

definition bit8 :: "nat \<Rightarrow> u8" where
  "bit8 k = push_bit k 1"

lemma bit_bit8: "bit (bit8 k) i \<longleftrightarrow> i = k \<and> k < 8"
  by (auto simp: bit8_def bit_simps simp del: push_bit_of_1)

lemma bit8_nonzero [simp]: "bit8 k = 0 \<longleftrightarrow> 8 \<le> k"
proof
  assume "bit8 k = 0"
  then have "bit (bit8 k) k = bit (0 :: u8) k" by (rule arg_cong)
  then show "8 \<le> k" by (simp add: bit_bit8)
next
  assume "8 \<le> k"
  then show "bit8 k = 0" by (intro bit_word_eqI) (simp add: bit_bit8)
qed

lemma and_bit8: "v AND bit8 k = (if bit v k then bit8 k else 0)"
  by (rule bit_word_eqI) (auto simp: bit_bit8 bit_and_iff dest: bit_imp_le_length)

lemma set_clear_and_bit8 [simp]:
  "(v OR bit8 k) AND bit8 k = bit8 k"
  "(v AND NOT (bit8 k)) AND bit8 k = 0"
  by (rule bit_word_eqI; auto simp: bit_bit8 bit_and_iff bit_or_iff bit_not_iff)+

section \<open>Lists\<close>

lemma nth_map_upt_0 [simp]: "i < n \<Longrightarrow> map f [0..<n] ! i = f i"
  by simp

lemma take_replicate_append_same:
  "length xs \<le> n \<Longrightarrow> take (length xs) (xs @ replicate (n - length xs) x) = xs"
  by simp

section \<open>Machines that keep an invariant\<close>

text \<open>
  The contract of a component with state: every step, whatever the event, keeps \<open>inv\<close>.
  A run is the fold of the step over a list of events.
\<close>

locale invariant_step =
  fixes step :: "'e \<Rightarrow> 's \<Rightarrow> 's"
    and inv :: "'s \<Rightarrow> bool"
  assumes step_inv: "inv s \<Longrightarrow> inv (step e s)"
begin

lemma run_inv: "inv s \<Longrightarrow> inv (fold step es s)"
  by (induction es arbitrary: s) (simp_all add: step_inv)

lemma run_prefix_inv: "inv s \<Longrightarrow> inv (fold step (take n es) s)"
  by (rule run_inv)

end

text \<open>
  A machine with a measure that no step lowers: what a run does to a counter.
\<close>

locale monotone_step = invariant_step +
  fixes val :: "'s \<Rightarrow> nat"
  assumes step_val: "inv s \<Longrightarrow> val s \<le> val (step e s)"
begin

lemma run_val: "inv s \<Longrightarrow> val s \<le> val (fold step es s)"
proof (induction es arbitrary: s)
  case Nil
  then show ?case by simp
next
  case (Cons e es)
  from Cons.prems have "val s \<le> val (step e s)" by (rule step_val)
  also from Cons.prems have "\<dots> \<le> val (fold step es (step e s))"
    by (intro Cons.IH step_inv)
  finally show ?case by simp
qed

end

end
