(* ===== verification/I2C_Support.thy ===== *)
theory I2C_Support
  imports Gw_Prelude
begin

text \<open>
  \<open>BSP/i2c_dev_support/src/i2c_dev_support.c\<close>: the layer every I2C chip driver of the
  board goes through. The ESP-IDF master driver below it is not part of the repository: it
  is the parameter \<open>drv\<close>, a function from the history of calls made so far and the
  next call to its result, so any chip and any bus fault is some \<open>drv\<close>. The state
  keeps that history, delays included, and the two statics of the file.
\<close>

section \<open>Calls into the driver\<close>

datatype i2c_txn =
    I2cTx nat "u8 list" nat            \<comment> \<open>i2c_master_transmit: device, data, timeout\<close>
  | I2cRx nat nat nat                  \<comment> \<open>i2c_master_receive: device, length, timeout\<close>
  | I2cTxRx nat "u8 list" nat nat      \<comment> \<open>i2c_master_transmit_receive\<close>
  | I2cAdd nat u8 u32                  \<comment> \<open>i2c_master_bus_add_device: bus, address, speed\<close>
  | I2cRm nat                          \<comment> \<open>i2c_master_bus_rm_device\<close>
  | I2cNewBus
  | I2cDelBus nat
  | I2cProbe nat u8 nat
  | DelayMs nat                        \<comment> \<open>vTaskDelay(pdMS_TO_TICKS(ms)) between calls\<close>

record i2c_resp =
  resp_err :: esp_err
  resp_data :: "nat \<Rightarrow> u8"
  resp_handle :: nat

type_synonym i2c_drv = "i2c_txn list \<Rightarrow> i2c_txn \<Rightarrow> i2c_resp"

record i2c_st =
  is_initialized :: bool
  i2c_bus_handle :: "nat option"
  i2c_hist :: "i2c_txn list"

definition i2c_boot :: i2c_st where
  "i2c_boot = \<lparr>is_initialized = False, i2c_bus_handle = None, i2c_hist = []\<rparr>"

definition i2c_call :: "i2c_drv \<Rightarrow> i2c_txn \<Rightarrow> i2c_st \<Rightarrow> i2c_resp \<times> i2c_st" where
  "i2c_call drv t s = (drv (i2c_hist s) t, s\<lparr>i2c_hist := i2c_hist s @ [t]\<rparr>)"

definition delay_ms :: "nat \<Rightarrow> i2c_st \<Rightarrow> i2c_st" where
  "delay_ms n s = s\<lparr>i2c_hist := i2c_hist s @ [DelayMs n]\<rparr>"

section \<open>The public functions\<close>

definition i2c_dev_support_init :: "i2c_drv \<Rightarrow> i2c_st \<Rightarrow> esp_err \<times> i2c_st" where
  "i2c_dev_support_init drv s =
     (if is_initialized s then (ESP_OK, s)
      else let (r, s1) = i2c_call drv I2cNewBus s
           in if resp_err r \<noteq> ESP_OK then (resp_err r, s1)
              else (ESP_OK, s1\<lparr>i2c_bus_handle := Some (resp_handle r), is_initialized := True\<rparr>))"

definition i2c_dev_support_deinit :: "i2c_drv \<Rightarrow> i2c_st \<Rightarrow> esp_err \<times> i2c_st" where
  "i2c_dev_support_deinit drv s =
     (if \<not> is_initialized s then (ESP_ERR_INVALID_STATE, s)
      else case i2c_bus_handle s of
        Some b \<Rightarrow>
          (let (r, s1) = i2c_call drv (I2cDelBus b) s
           in if resp_err r \<noteq> ESP_OK then (resp_err r, s1)
              else (ESP_OK, s1\<lparr>i2c_bus_handle := None, is_initialized := False\<rparr>))
      | None \<Rightarrow> (ESP_OK, s\<lparr>is_initialized := False\<rparr>))"

text \<open>\<open>dev_handle\<close> is the out pointer: the third component is what it holds afterwards.\<close>

definition i2c_dev_support_add_device ::
  "i2c_drv \<Rightarrow> u8 \<Rightarrow> u32 \<Rightarrow> nat option \<Rightarrow> i2c_st \<Rightarrow> esp_err \<times> nat option \<times> i2c_st" where
  "i2c_dev_support_add_device drv addr speed old s =
     (case i2c_bus_handle s of
        None \<Rightarrow> (ESP_ERR_INVALID_STATE, old, s)
      | Some b \<Rightarrow>
          if \<not> is_initialized s then (ESP_ERR_INVALID_STATE, old, s)
          else let (r, s1) = i2c_call drv (I2cAdd b addr speed) s
               in if resp_err r \<noteq> ESP_OK then (resp_err r, old, s1)
                  else (ESP_OK, Some (resp_handle r), s1))"

definition i2c_dev_support_remove_device ::
  "i2c_drv \<Rightarrow> nat option \<Rightarrow> i2c_st \<Rightarrow> esp_err \<times> i2c_st" where
  "i2c_dev_support_remove_device drv h s =
     (case h of
        None \<Rightarrow> (ESP_ERR_INVALID_ARG, s)
      | Some d \<Rightarrow> (let (r, s1) = i2c_call drv (I2cRm d) s in (resp_err r, s1)))"

text \<open>
  Data pointers are \<open>None\<close> where they are NULL. A read returns the buffer as a list of
  the requested length; where the guard stops the call the buffer is not written, and the
  zeros returned stand for a value no caller looks at.
\<close>

definition i2c_dev_support_write ::
  "i2c_drv \<Rightarrow> nat option \<Rightarrow> u8 list option \<Rightarrow> nat \<Rightarrow> i2c_st \<Rightarrow> esp_err \<times> i2c_st" where
  "i2c_dev_support_write drv h dat tmo s =
     (case (h, dat) of
        (Some d, Some bs) \<Rightarrow> (let (r, s1) = i2c_call drv (I2cTx d bs tmo) s in (resp_err r, s1))
      | _ \<Rightarrow> (ESP_ERR_INVALID_ARG, s))"

definition i2c_dev_support_read ::
  "i2c_drv \<Rightarrow> nat option \<Rightarrow> nat \<Rightarrow> nat \<Rightarrow> i2c_st \<Rightarrow> esp_err \<times> u8 list \<times> i2c_st" where
  "i2c_dev_support_read drv h len tmo s =
     (case h of
        Some d \<Rightarrow> (let (r, s1) = i2c_call drv (I2cRx d len tmo) s
                   in (resp_err r, map (resp_data r) [0..<len], s1))
      | None \<Rightarrow> (ESP_ERR_INVALID_ARG, replicate len 0, s))"

definition i2c_dev_support_write_read ::
  "i2c_drv \<Rightarrow> nat option \<Rightarrow> u8 list option \<Rightarrow> nat \<Rightarrow> nat \<Rightarrow> i2c_st \<Rightarrow>
   esp_err \<times> u8 list \<times> i2c_st" where
  "i2c_dev_support_write_read drv h wdata rlen tmo s =
     (case (h, wdata) of
        (Some d, Some ws) \<Rightarrow>
          (let (r, s1) = i2c_call drv (I2cTxRx d ws rlen tmo) s
           in (resp_err r, map (resp_data r) [0..<rlen], s1))
      | _ \<Rightarrow> (ESP_ERR_INVALID_ARG, replicate rlen 0, s))"

text \<open>The bus scan: the addresses that acknowledge a probe, in the order they are printed.\<close>

fun i2c_scan_loop :: "i2c_drv \<Rightarrow> nat \<Rightarrow> nat list \<Rightarrow> i2c_st \<Rightarrow> nat list \<times> i2c_st" where
  "i2c_scan_loop drv b [] s = ([], s)"
| "i2c_scan_loop drv b (a # as) s =
     (if a < 0x08 \<or> a > 0x77 then i2c_scan_loop drv b as s
      else let (r, s1) = i2c_call drv (I2cProbe b (word_of_nat a) 100) s;
               (found, s2) = i2c_scan_loop drv b as s1
           in (if resp_err r = ESP_OK then a # found else found, s2))"

definition i2c_dev_support_scan :: "i2c_drv \<Rightarrow> i2c_st \<Rightarrow> nat list \<times> i2c_st" where
  "i2c_dev_support_scan drv s =
     (case i2c_bus_handle s of
        None \<Rightarrow> ([], s)
      | Some b \<Rightarrow> if \<not> is_initialized s then ([], s)
                  else i2c_scan_loop drv b [0..<0x80] s)"

section \<open>What every call leaves behind\<close>

lemma i2c_call_simps [simp]:
  "fst (i2c_call drv t s) = drv (i2c_hist s) t"
  "i2c_hist (snd (i2c_call drv t s)) = i2c_hist s @ [t]"
  "is_initialized (snd (i2c_call drv t s)) = is_initialized s"
  "i2c_bus_handle (snd (i2c_call drv t s)) = i2c_bus_handle s"
  by (simp_all add: i2c_call_def)

lemma delay_ms_simps [simp]:
  "i2c_hist (delay_ms n s) = i2c_hist s @ [DelayMs n]"
  "is_initialized (delay_ms n s) = is_initialized s"
  "i2c_bus_handle (delay_ms n s) = i2c_bus_handle s"
  by (simp_all add: delay_ms_def)

lemma i2c_write_Some:
  "i2c_dev_support_write drv (Some d) (Some bs) tmo s =
     (resp_err (drv (i2c_hist s) (I2cTx d bs tmo)),
      s\<lparr>i2c_hist := i2c_hist s @ [I2cTx d bs tmo]\<rparr>)"
  by (simp add: i2c_dev_support_write_def i2c_call_def)

lemma i2c_write_read_Some:
  "i2c_dev_support_write_read drv (Some d) (Some ws) n tmo s =
     (resp_err (drv (i2c_hist s) (I2cTxRx d ws n tmo)),
      map (resp_data (drv (i2c_hist s) (I2cTxRx d ws n tmo))) [0..<n],
      s\<lparr>i2c_hist := i2c_hist s @ [I2cTxRx d ws n tmo]\<rparr>)"
  by (simp add: i2c_dev_support_write_read_def i2c_call_def)

lemma i2c_no_handle [simp]:
  "i2c_dev_support_write drv None dat tmo s = (ESP_ERR_INVALID_ARG, s)"
  "i2c_dev_support_write_read drv None wdata n tmo s = (ESP_ERR_INVALID_ARG, replicate n 0, s)"
  by (simp_all add: i2c_dev_support_write_def i2c_dev_support_write_read_def)

lemmas i2c_ops = i2c_write_Some i2c_write_read_Some

lemma i2c_scan_loop_range:
  "set (fst (i2c_scan_loop drv b as s)) \<subseteq> {a \<in> set as. 0x08 \<le> a \<and> a \<le> 0x77}"
proof (induction "as" arbitrary: s)
  case Nil
  then show ?case by simp
next
  case (Cons a "as")
  let ?s1 = "snd (i2c_call drv (I2cProbe b (word_of_nat a) 100) s)"
  from Cons.IH [of s] Cons.IH [of ?s1] show ?case
    by (auto simp: case_prod_beta Let_def)
qed

section \<open>Chips that are register files\<close>

text \<open>
  The documented behaviour of the chips on this bus, as a law a property may assume of
  \<open>drv\<close>: a write of \<open>a # bs\<close> stores \<open>bs\<close> at the registers from
  \<open>a\<close> on, a write-read of \<open>[a]\<close> returns the registers from \<open>a\<close> on,
  and both are acknowledged. \<open>reg_file\<close> is the content the history of calls leaves.
\<close>

primrec put_bytes :: "nat \<Rightarrow> u8 list \<Rightarrow> (nat \<Rightarrow> u8) \<Rightarrow> nat \<Rightarrow> u8" where
  "put_bytes r [] f = f"
| "put_bytes r (b # bs) f = put_bytes (Suc r) bs (f(r := b))"

fun dev_write :: "nat \<Rightarrow> i2c_txn \<Rightarrow> (nat \<Rightarrow> u8) \<Rightarrow> nat \<Rightarrow> u8" where
  "dev_write d (I2cTx d' (a # bs) tmo) f = (if d' = d then put_bytes (unat a) bs f else f)"
| "dev_write d t f = f"

definition reg_file :: "nat \<Rightarrow> (nat \<Rightarrow> u8) \<Rightarrow> i2c_txn list \<Rightarrow> nat \<Rightarrow> u8" where
  "reg_file d f hist = fold (dev_write d) hist f"

abbreviation regs_of :: "nat \<Rightarrow> (nat \<Rightarrow> u8) \<Rightarrow> i2c_st \<Rightarrow> nat \<Rightarrow> u8" where
  "regs_of d f s \<equiv> reg_file d f (i2c_hist s)"

definition register_device :: "i2c_drv \<Rightarrow> nat \<Rightarrow> (nat \<Rightarrow> u8) \<Rightarrow> bool" where
  "register_device drv d f \<longleftrightarrow>
     (\<forall>hist bs tmo. resp_err (drv hist (I2cTx d bs tmo)) = ESP_OK) \<and>
     (\<forall>hist a n tmo. resp_err (drv hist (I2cTxRx d [a] n tmo)) = ESP_OK \<and>
        (\<forall>i<n. resp_data (drv hist (I2cTxRx d [a] n tmo)) i = reg_file d f hist (unat a + i)))"

text \<open>A driver with such a chip behind every handle, for the witnesses.\<close>

fun chip_drv :: "(nat \<Rightarrow> u8) \<Rightarrow> i2c_drv" where
  "chip_drv f hist (I2cTxRx d [a] n tmo) =
     \<lparr>resp_err = ESP_OK, resp_data = (\<lambda>i. reg_file d f hist (unat a + i)), resp_handle = 0\<rparr>"
| "chip_drv f hist t = \<lparr>resp_err = ESP_OK, resp_data = (\<lambda>i. 0), resp_handle = 0\<rparr>"

lemma chip_drv_register_device: "register_device (chip_drv f) d f"
  by (simp add: register_device_def)

lemma reg_file_append [simp]:
  "reg_file d f (hist @ ts) = fold (dev_write d) ts (reg_file d f hist)"
  by (simp add: reg_file_def)

lemma register_device_write:
  "register_device drv d f \<Longrightarrow>
   i2c_dev_support_write drv (Some d) (Some bs) tmo s =
     (ESP_OK, s\<lparr>i2c_hist := i2c_hist s @ [I2cTx d bs tmo]\<rparr>)"
  by (simp add: register_device_def i2c_ops)

lemma register_device_read:
  "register_device drv d f \<Longrightarrow>
   i2c_dev_support_write_read drv (Some d) (Some [a]) n tmo s =
     (ESP_OK, map (\<lambda>i. reg_file d f (i2c_hist s) (unat a + i)) [0..<n],
      s\<lparr>i2c_hist := i2c_hist s @ [I2cTxRx d [a] n tmo]\<rparr>)"
  by (auto simp: register_device_def i2c_ops)

lemmas register_device_ops = register_device_write register_device_read

section \<open>Byte-register ports\<close>

text \<open>
  The interface the chip drivers build on: read and write one 8-bit register of a device.
  The laws say what each call puts on the bus, whatever the chip answers; the client
  operation is the read-modify-write that all of them use.
\<close>

definition rmw :: "(u8 \<Rightarrow> 's \<Rightarrow> esp_err \<times> u8 \<times> 's) \<Rightarrow> (u8 \<Rightarrow> u8 \<Rightarrow> 's \<Rightarrow> esp_err \<times> 's) \<Rightarrow>
    u8 \<Rightarrow> (u8 \<Rightarrow> u8) \<Rightarrow> 's \<Rightarrow> esp_err \<times> 's" where
  "rmw rd wr r f s =
     (let (e, v, s1) = rd r s in if e \<noteq> ESP_OK then (e, s1) else wr r (f v) s1)"

locale reg8_port =
  fixes rd :: "u8 \<Rightarrow> i2c_st \<Rightarrow> esp_err \<times> u8 \<times> i2c_st"
    and wr :: "u8 \<Rightarrow> u8 \<Rightarrow> i2c_st \<Rightarrow> esp_err \<times> i2c_st"
    and rd_txn :: "u8 \<Rightarrow> i2c_txn"
    and wr_txn :: "u8 \<Rightarrow> u8 \<Rightarrow> i2c_txn"
  assumes rd_hist: "rd r s = (e, v, s1) \<Longrightarrow> i2c_hist s1 = i2c_hist s @ [rd_txn r]"
    and wr_hist: "wr r v s = (e, s1) \<Longrightarrow> i2c_hist s1 = i2c_hist s @ [wr_txn r v]"
begin

lemma rmw_hist:
  assumes "rmw rd wr r f s = (e, s2)" and "rd r s = (e1, v, s1)"
  shows "i2c_hist s2 =
    i2c_hist s @ rd_txn r # (if e1 = ESP_OK then [wr_txn r (f v)] else [])"
  using assms by (auto simp: rmw_def rd_hist wr_hist split: if_splits)

lemma rmw_read_error:
  assumes "rd r s = (e1, v, s1)" and "e1 \<noteq> ESP_OK"
  shows "rmw rd wr r f s = (e1, s1)"
  using assms by (simp add: rmw_def)

lemma rmw_touches_one_register:
  assumes "rmw rd wr r f s = (e, s2)"
  shows "\<exists>ts. i2c_hist s2 = i2c_hist s @ ts \<and> set ts \<subseteq> {rd_txn r} \<union> range (wr_txn r)"
proof -
  obtain e1 v s1 where rd: "rd r s = (e1, v, s1)" by (metis prod_cases3)
  from rmw_hist [OF assms rd] show ?thesis by auto
qed

end

end
