(* ===== verification/PCF8563.thy ===== *)
theory PCF8563
  imports I2C_Support
begin

text \<open>
  \<open>BSP/i2c_dev_support/src/pcf8563_rtc.c\<close>: the battery-backed clock. The static
  \<open>pcf8563_handle\<close> is the argument \<open>h\<close>; an out pointer is an option, NULL being
  \<open>None\<close>, and a call returns what it points to afterwards. The lemmas show that the
  BCD coding round-trips and that the time written is the time a register-file chip
  gives back.
\<close>

section \<open>Registers and BCD\<close>

abbreviation "PCF8563_I2C_ADDR \<equiv> 0x51 :: u8"
abbreviation "PCF8563_I2C_FREQ_HZ \<equiv> 100000 :: u32"
abbreviation "PCF8563_REG_CTRL_STATUS1 \<equiv> 0x00 :: u8"
abbreviation "PCF8563_REG_VL_SECONDS \<equiv> 0x02 :: u8"
abbreviation "PCF8563_CTRL1_STOP \<equiv> 0x20 :: u8"
abbreviation "PCF8563_CTRL1_TESTC \<equiv> 0x08 :: u8"
abbreviation "PCF8563_SECONDS_VL \<equiv> 0x80 :: u8"
abbreviation "PCF8563_MONTH_CENTURY \<equiv> 0x80 :: u8"

text \<open>The \<open>struct tm\<close> of the C library; the driver leaves the last two fields alone.\<close>

record tm =
  tm_sec :: int
  tm_min :: int
  tm_hour :: int
  tm_mday :: int
  tm_mon :: int
  tm_year :: int
  tm_wday :: int
  tm_yday :: int
  tm_isdst :: int

definition bcd_to_dec :: "u8 \<Rightarrow> u8" where
  "bcd_to_dec val = (val AND 0x0F) + drop_bit 4 val * 10"

definition dec_to_bcd :: "u8 \<Rightarrow> u8" where
  "dec_to_bcd val = push_bit 4 (val div 10) OR (val mod 10)"

text \<open>The seven time registers: what \<open>pcf8563_read_time\<close> reads out of them, and what
  \<open>pcf8563_write_time\<close> puts in them (its buffer less the start address).\<close>

definition pcf8563_decode :: "u8 list \<Rightarrow> tm \<Rightarrow> tm" where
  "pcf8563_decode dat t =
     (let month = bcd_to_dec (dat ! 5 AND 0x1F);
          century = (dat ! 5 AND PCF8563_MONTH_CENTURY \<noteq> 0);
          year = bcd_to_dec (dat ! 6)
      in t\<lparr>tm_sec := uint (bcd_to_dec (dat ! 0 AND 0x7F)),
           tm_min := uint (bcd_to_dec (dat ! 1 AND 0x7F)),
           tm_hour := uint (bcd_to_dec (dat ! 2 AND 0x3F)),
           tm_mday := uint (bcd_to_dec (dat ! 3 AND 0x3F)),
           tm_wday := uint (dat ! 4 AND 0x07),
           tm_mon := uint month - 1,
           tm_year := (if century then uint year + 100 else uint year)\<rparr>)"

definition pcf8563_encode :: "tm \<Rightarrow> u8 list" where
  "pcf8563_encode t =
     (let month = dec_to_bcd (word_of_int (tm_mon t + 1))
      in [dec_to_bcd (word_of_int (tm_sec t)) AND 0x7F,
          dec_to_bcd (word_of_int (tm_min t)) AND 0x7F,
          dec_to_bcd (word_of_int (tm_hour t)) AND 0x3F,
          dec_to_bcd (word_of_int (tm_mday t)) AND 0x3F,
          word_of_int (tm_wday t) AND 0x07] @
         (if tm_year t \<ge> 100
          then [month OR PCF8563_MONTH_CENTURY, dec_to_bcd (word_of_int (tm_year t - 100))]
          else [month AND 0x1F, dec_to_bcd (word_of_int (tm_year t))]))"

section \<open>Operations\<close>

definition pcf8563_read_reg :: "i2c_drv \<Rightarrow> nat option \<Rightarrow> u8 \<Rightarrow> i2c_st \<Rightarrow> esp_err \<times> u8 \<times> i2c_st" where
  "pcf8563_read_reg drv h r s =
     (let (ret, bs, s1) = i2c_dev_support_write_read drv h (Some [r]) 1 1000 s in (ret, bs ! 0, s1))"

definition pcf8563_write_reg :: "i2c_drv \<Rightarrow> nat option \<Rightarrow> u8 \<Rightarrow> u8 \<Rightarrow> i2c_st \<Rightarrow> esp_err \<times> i2c_st" where
  "pcf8563_write_reg drv h r v s = i2c_dev_support_write drv h (Some [r, v]) 1000 s"

definition pcf8563_read_time ::
  "i2c_drv \<Rightarrow> nat option \<Rightarrow> tm option \<Rightarrow> i2c_st \<Rightarrow> esp_err \<times> tm option \<times> i2c_st" where
  "pcf8563_read_time drv h timeinfo s =
     (case (h, timeinfo) of
        (Some d, Some t) \<Rightarrow>
          (let (ret, dat, s1) =
             i2c_dev_support_write_read drv h (Some [PCF8563_REG_VL_SECONDS]) 7 1000 s
           in if ret \<noteq> ESP_OK then (ret, Some t, s1)
              else (ESP_OK, Some (pcf8563_decode dat t), s1))
      | _ \<Rightarrow> (ESP_ERR_INVALID_ARG, timeinfo, s))"

definition pcf8563_is_running ::
  "i2c_drv \<Rightarrow> nat option \<Rightarrow> bool option \<Rightarrow> i2c_st \<Rightarrow> esp_err \<times> bool option \<times> i2c_st" where
  "pcf8563_is_running drv h out s =
     (if h = None \<or> out = None then (ESP_ERR_INVALID_ARG, out, s)
      else let (ret, ctrl, s1) = pcf8563_read_reg drv h PCF8563_REG_CTRL_STATUS1 s
           in if ret \<noteq> ESP_OK then (ret, out, s1)
              else (ESP_OK, Some (ctrl AND PCF8563_CTRL1_STOP = 0), s1))"

definition pcf8563_start :: "i2c_drv \<Rightarrow> nat option \<Rightarrow> i2c_st \<Rightarrow> esp_err \<times> i2c_st" where
  "pcf8563_start drv h s =
     (if h = None then (ESP_ERR_INVALID_STATE, s)
      else let (ret, ctrl, s1) = pcf8563_read_reg drv h PCF8563_REG_CTRL_STATUS1 s
           in if ret \<noteq> ESP_OK then (ret, s1)
              else let (ret2, s2) = pcf8563_write_reg drv h PCF8563_REG_CTRL_STATUS1
                                      (ctrl AND NOT PCF8563_CTRL1_STOP) s1
                   in if ret2 = ESP_OK
                      then let (_, _, s3) = pcf8563_read_reg drv h PCF8563_REG_CTRL_STATUS1
                                              (delay_ms 10 s2)
                           in (ret2, s3)
                      else (ret2, s2))"

definition pcf8563_stop :: "i2c_drv \<Rightarrow> nat option \<Rightarrow> i2c_st \<Rightarrow> esp_err \<times> i2c_st" where
  "pcf8563_stop drv h s =
     (if h = None then (ESP_ERR_INVALID_STATE, s)
      else let (ret, ctrl, s1) = pcf8563_read_reg drv h PCF8563_REG_CTRL_STATUS1 s
           in if ret \<noteq> ESP_OK then (ret, s1)
              else pcf8563_write_reg drv h PCF8563_REG_CTRL_STATUS1
                     (ctrl OR PCF8563_CTRL1_STOP) s1)"

text \<open>The read back after the write is only logged; the clock is then restarted, and a
  failure of either does not change the result.\<close>

definition pcf8563_write_time ::
  "i2c_drv \<Rightarrow> nat option \<Rightarrow> tm option \<Rightarrow> i2c_st \<Rightarrow> esp_err \<times> i2c_st" where
  "pcf8563_write_time drv h timeinfo s =
     (case (h, timeinfo) of
        (Some d, Some t) \<Rightarrow>
          (let (ret, s1) = i2c_dev_support_write drv h
                             (Some (PCF8563_REG_VL_SECONDS # pcf8563_encode t)) 1000 s
           in if ret \<noteq> ESP_OK then (ret, s1)
              else let (_, _, s2) = i2c_dev_support_write_read drv h
                                      (Some [PCF8563_REG_VL_SECONDS]) 7 1000 (delay_ms 10 s1);
                       (_, s3) = pcf8563_start drv h s2
                   in (ESP_OK, s3))
      | _ \<Rightarrow> (ESP_ERR_INVALID_ARG, s))"

definition pcf8563_check_voltage_low ::
  "i2c_drv \<Rightarrow> nat option \<Rightarrow> bool option \<Rightarrow> i2c_st \<Rightarrow> esp_err \<times> bool option \<times> i2c_st" where
  "pcf8563_check_voltage_low drv h out s =
     (if h = None \<or> out = None then (ESP_ERR_INVALID_ARG, out, s)
      else let (ret, seconds, s1) = pcf8563_read_reg drv h PCF8563_REG_VL_SECONDS s
           in if ret \<noteq> ESP_OK then (ret, out, s1)
              else (ESP_OK, Some (seconds AND PCF8563_SECONDS_VL \<noteq> 0), s1))"

definition pcf8563_clear_voltage_low :: "i2c_drv \<Rightarrow> nat option \<Rightarrow> i2c_st \<Rightarrow> esp_err \<times> i2c_st" where
  "pcf8563_clear_voltage_low drv h s =
     (if h = None then (ESP_ERR_INVALID_STATE, s)
      else let (ret, seconds, s1) = pcf8563_read_reg drv h PCF8563_REG_VL_SECONDS s
           in if ret \<noteq> ESP_OK then (ret, s1)
              else pcf8563_write_reg drv h PCF8563_REG_VL_SECONDS
                     (seconds AND NOT PCF8563_SECONDS_VL) s1)"

definition pcf8563_clear_voltage_low_flag ::
  "i2c_drv \<Rightarrow> nat option \<Rightarrow> i2c_st \<Rightarrow> esp_err \<times> i2c_st" where
  "pcf8563_clear_voltage_low_flag drv h s =
     (if h = None then (ESP_ERR_INVALID_STATE, s)
      else let (ret, seconds, s1) = pcf8563_read_reg drv h PCF8563_REG_VL_SECONDS s
           in if ret \<noteq> ESP_OK then (ret, s1)
              else if seconds AND PCF8563_SECONDS_VL = 0 then (ESP_OK, s1)
              else pcf8563_write_reg drv h PCF8563_REG_VL_SECONDS
                     (seconds AND NOT PCF8563_SECONDS_VL) s1)"

text \<open>Both set-up calls return the new value of \<open>pcf8563_handle\<close> as well.\<close>

definition pcf8563_init ::
  "i2c_drv \<Rightarrow> nat option \<Rightarrow> i2c_st \<Rightarrow> esp_err \<times> nat option \<times> i2c_st" where
  "pcf8563_init drv h0 s =
     (if \<not> is_initialized s then (ESP_ERR_INVALID_STATE, h0, s)
      else let (ret, h, s1) =
                 i2c_dev_support_add_device drv PCF8563_I2C_ADDR PCF8563_I2C_FREQ_HZ h0 s
           in if ret \<noteq> ESP_OK then (ret, h, s1)
              else let (ret2, ctrl, s2) = pcf8563_read_reg drv h PCF8563_REG_CTRL_STATUS1 s1
                   in if ret2 \<noteq> ESP_OK
                      then (ESP_ERR_NOT_FOUND, None, snd (i2c_dev_support_remove_device drv h s2))
                      else
                        let s3 = (if ctrl AND PCF8563_CTRL1_TESTC \<noteq> 0
                                  then snd (pcf8563_write_reg drv h PCF8563_REG_CTRL_STATUS1
                                              (ctrl AND NOT PCF8563_CTRL1_TESTC) s2)
                                  else s2);
                            (ret4, running, s4) = pcf8563_is_running drv h (Some False) s3;
                            s5 = (if ret4 = ESP_OK \<and> running = Some False
                                  then snd (pcf8563_start drv h s4) else s4);
                            (_, _, s6) = pcf8563_check_voltage_low drv h (Some False) s5
                        in (ESP_OK, h, snd (pcf8563_start drv h s6)))"

definition pcf8563_deinit ::
  "i2c_drv \<Rightarrow> nat option \<Rightarrow> i2c_st \<Rightarrow> esp_err \<times> nat option \<times> i2c_st" where
  "pcf8563_deinit drv h s =
     (case h of
        Some d \<Rightarrow> (let (ret, s1) = i2c_dev_support_remove_device drv h s in (ret, None, s1))
      | None \<Rightarrow> (ESP_OK, None, s))"

section \<open>The coding round-trips\<close>

text \<open>Every two-digit number, by evaluation on the hundred cases.\<close>

lemma bcd_cases: "list_all (\<lambda>n. bcd_to_dec (dec_to_bcd (word_of_nat n)) = word_of_nat n) [0..<100]"
  by code_simp

lemma bcd_mask_cases:
  "list_all (\<lambda>n. (n < 80 \<longrightarrow> dec_to_bcd (word_of_nat n) AND 0x7F = dec_to_bcd (word_of_nat n)) \<and>
     (n < 40 \<longrightarrow> dec_to_bcd (word_of_nat n) AND 0x3F = dec_to_bcd (word_of_nat n)) \<and>
     (n < 20 \<longrightarrow> dec_to_bcd (word_of_nat n) AND 0x1F = dec_to_bcd (word_of_nat n) \<and>
        (dec_to_bcd (word_of_nat n) OR 0x80) AND 0x1F = dec_to_bcd (word_of_nat n) \<and>
        dec_to_bcd (word_of_nat n) AND 0x80 = 0) \<and>
     (n < 8 \<longrightarrow> (word_of_nat n :: u8) AND 0x07 = word_of_nat n)) [0..<100]"
  by code_simp

definition valid_tm :: "tm \<Rightarrow> bool" where
  "valid_tm t \<longleftrightarrow> 0 \<le> tm_sec t \<and> tm_sec t < 60 \<and> 0 \<le> tm_min t \<and> tm_min t < 60 \<and>
     0 \<le> tm_hour t \<and> tm_hour t < 24 \<and> 1 \<le> tm_mday t \<and> tm_mday t \<le> 31 \<and>
     0 \<le> tm_mon t \<and> tm_mon t < 12 \<and> 0 \<le> tm_wday t \<and> tm_wday t < 7 \<and>
     0 \<le> tm_year t \<and> tm_year t < 200"

lemma bcd_roundtrip:
  assumes "0 \<le> i" and "i < 100"
  shows "bcd_to_dec (dec_to_bcd (word_of_int i)) = word_of_int i"
    and "uint (word_of_int i :: u8) = i"
proof -
  from assms obtain n where n: "i = int n" "n < 100"
    by (metis nat_less_numeral_power_cancel_iff nat_0_le of_nat_less_numeral_iff)
  with bcd_cases show "bcd_to_dec (dec_to_bcd (word_of_int i)) = word_of_int i"
    by (simp add: list_all_iff)
  show "uint (word_of_int i :: u8) = i"
    using assms by (simp add: unsigned_of_int take_bit_int_eq_self)
qed

lemma bcd_masks:
  assumes "0 \<le> i"
  shows "i < 80 \<Longrightarrow> dec_to_bcd (word_of_int i) AND 0x7F = dec_to_bcd (word_of_int i)"
    and "i < 40 \<Longrightarrow> dec_to_bcd (word_of_int i) AND 0x3F = dec_to_bcd (word_of_int i)"
    and "i < 20 \<Longrightarrow> dec_to_bcd (word_of_int i) AND 0x1F = dec_to_bcd (word_of_int i)"
    and "i < 20 \<Longrightarrow> (dec_to_bcd (word_of_int i) OR 0x80) AND 0x1F = dec_to_bcd (word_of_int i)"
    and "i < 20 \<Longrightarrow> dec_to_bcd (word_of_int i) AND 0x80 = 0"
    and "i < 8 \<Longrightarrow> (word_of_int i :: u8) AND 0x07 = word_of_int i"
proof -
  obtain n where n: "i = int n" using assms by (metis zero_le_imp_eq_int)
  note cs = bcd_mask_cases [unfolded list_all_iff, THEN bspec, of n]
  show "i < 80 \<Longrightarrow> dec_to_bcd (word_of_int i) AND 0x7F = dec_to_bcd (word_of_int i)"
    and "i < 40 \<Longrightarrow> dec_to_bcd (word_of_int i) AND 0x3F = dec_to_bcd (word_of_int i)"
    and "i < 20 \<Longrightarrow> dec_to_bcd (word_of_int i) AND 0x1F = dec_to_bcd (word_of_int i)"
    and "i < 20 \<Longrightarrow> (dec_to_bcd (word_of_int i) OR 0x80) AND 0x1F = dec_to_bcd (word_of_int i)"
    and "i < 20 \<Longrightarrow> dec_to_bcd (word_of_int i) AND 0x80 = 0"
    and "i < 8 \<Longrightarrow> (word_of_int i :: u8) AND 0x07 = word_of_int i"
    using cs by (simp_all add: n)
qed

lemma or_0x80_and_0x80: "((w :: u8) OR 0x80) AND 0x80 \<noteq> 0"
proof
  assume "(w OR 0x80) AND 0x80 = 0"
  then have "bit ((w OR 0x80) AND (0x80 :: u8)) 7 = bit (0 :: u8) 7" by simp
  moreover have "bit (0x80 :: u8) 7" by code_simp
  ultimately show False by (simp add: bit_and_iff bit_or_iff)
qed

lemma pcf8563_decode_encode:
  assumes "valid_tm t"
  shows "pcf8563_decode (pcf8563_encode t) t0 =
    t\<lparr>tm_yday := tm_yday t0, tm_isdst := tm_isdst t0\<rparr>"
proof -
  note simps = pcf8563_decode_def pcf8563_encode_def Let_def bcd_masks bcd_roundtrip
    or_0x80_and_0x80
  have "pcf8563_decode (pcf8563_encode t) t0 =
    t0\<lparr>tm_sec := tm_sec t, tm_min := tm_min t, tm_hour := tm_hour t, tm_mday := tm_mday t,
       tm_wday := tm_wday t, tm_mon := tm_mon t, tm_year := tm_year t\<rparr>"
    using assms unfolding valid_tm_def
    by (cases "tm_year t \<ge> 100") (simp_all add: simps del: of_int_add of_int_diff of_int_1)
  then show ?thesis by (cases t; cases t0) simp
qed

lemma length_pcf8563_encode [simp]: "length (pcf8563_encode t) = 7"
  by (simp add: pcf8563_encode_def Let_def)

section \<open>What the calls do to a register-file chip\<close>

lemmas pcf_ops = pcf8563_read_reg_def pcf8563_write_reg_def register_device_ops

lemma put_bytes_outside: "i < r \<or> r + length bs \<le> i \<Longrightarrow> put_bytes r bs f i = f i"
  by (induction bs arbitrary: r f) auto

lemma put_bytes_inside: "k < length bs \<Longrightarrow> put_bytes r bs f (r + k) = bs ! k"
proof (induction bs arbitrary: r f k)
  case Nil
  then show ?case by simp
next
  case (Cons b bs)
  show ?case
  proof (cases k)
    case 0
    then show ?thesis by (simp add: put_bytes_outside)
  next
    case (Suc k')
    with Cons.IH [of k' "Suc r"] Cons.prems show ?thesis by simp
  qed
qed

lemma pcf8563_start_effect:
  assumes "register_device drv d f"
  shows "fst (pcf8563_start drv (Some d) s) = ESP_OK"
    and "reg_file d f (i2c_hist (snd (pcf8563_start drv (Some d) s))) =
         (reg_file d f (i2c_hist s))(0 := reg_file d f (i2c_hist s) 0 AND NOT PCF8563_CTRL1_STOP)"
  using assms by (simp_all add: pcf8563_start_def pcf_ops Let_def)

lemma pcf8563_write_time_effect:
  assumes "register_device drv d f"
  shows "fst (pcf8563_write_time drv (Some d) (Some t) s) = ESP_OK"
    and "k < 7 \<Longrightarrow> reg_file d f (i2c_hist (snd (pcf8563_write_time drv (Some d) (Some t) s))) (2 + k) =
         pcf8563_encode t ! k"
    and "reg_file d f (i2c_hist (snd (pcf8563_write_time drv (Some d) (Some t) s))) 0 AND
         PCF8563_CTRL1_STOP = 0"
  using assms put_bytes_inside [of k _ 2]
  by (simp_all add: pcf8563_write_time_def pcf_ops pcf8563_start_effect case_prod_beta Let_def
      and.assoc)

text \<open>
  The time the gateway writes to the clock chip is the time it reads back: for every
  calendar time of the years 1900 to 2099, after \<open>pcf8563_write_time\<close> on a chip that
  keeps its registers (and has not ticked in between), \<open>pcf8563_read_time\<close> succeeds and
  returns the same seconds, minutes, hours, day, weekday, month and year, leaving the other
  fields of the \<open>struct tm\<close> alone.
\<close>

lemma pcf8563_time_roundtrip:
  assumes "register_device drv d f" and "valid_tm t"
    and "pcf8563_write_time drv (Some d) (Some t) s = (ret, s1)"
  shows "ret = ESP_OK \<and>
    (\<exists>s2. pcf8563_read_time drv (Some d) (Some t0) s1 =
       (ESP_OK, Some (t\<lparr>tm_yday := tm_yday t0, tm_isdst := tm_isdst t0\<rparr>), s2))"
proof -
  note w = pcf8563_write_time_effect [OF assms(1), where t = t and s = s, unfolded assms(3)]
  have "map (\<lambda>i. reg_file d f (i2c_hist s1) (2 + i)) [0..<7] = pcf8563_encode t"
    by (rule nth_equalityI) (use w in auto)
  with assms(1,2) w(1) show ?thesis
    by (auto simp: pcf8563_read_time_def register_device_ops pcf8563_decode_encode)
qed

text \<open>A clock holding all zeros, set to 2026-02-28 23:59:07.\<close>

lemma pcf8563_time_roundtrip_applied:
  "let drv = chip_drv (\<lambda>_. 0);
       t = \<lparr>tm_sec = 7, tm_min = 59, tm_hour = 23, tm_mday = 28, tm_mon = 1, tm_year = 126,
            tm_wday = 6, tm_yday = 0, tm_isdst = 0\<rparr>
   in \<exists>s2. pcf8563_read_time drv (Some 3) (Some t)
             (snd (pcf8563_write_time drv (Some 3) (Some t) i2c_boot)) = (ESP_OK, Some t, s2)"
  unfolding Let_def
  using pcf8563_time_roundtrip [OF chip_drv_register_device _ surjective_pairing,
      where f = "\<lambda>_. 0" and d = 3 and s = i2c_boot
        and t = "\<lparr>tm_sec = 7, tm_min = 59, tm_hour = 23, tm_mday = 28, tm_mon = 1,
                  tm_year = 126, tm_wday = 6, tm_yday = 0, tm_isdst = 0\<rparr>"
        and ?t0.0 = "\<lparr>tm_sec = 7, tm_min = 59, tm_hour = 23, tm_mday = 28, tm_mon = 1,
                  tm_year = 126, tm_wday = 6, tm_yday = 0, tm_isdst = 0\<rparr>"]
  by (simp add: valid_tm_def)

text \<open>
  Setting the clock leaves it running: whatever the control register held before (the
  STOP bit included), after a \<open>pcf8563_write_time\<close> on a register-file chip
  \<open>pcf8563_is_running\<close> reports true; after \<open>pcf8563_stop\<close> it reports false.
\<close>

lemma pcf8563_write_time_runs:
  assumes "register_device drv d f"
  shows "fst (snd (pcf8563_is_running drv (Some d) (Some b)
            (snd (pcf8563_write_time drv (Some d) (Some t) s)))) = Some True
       \<and> fst (snd (pcf8563_is_running drv (Some d) (Some b)
            (snd (pcf8563_stop drv (Some d) s)))) = Some False"
proof
  show "fst (snd (pcf8563_is_running drv (Some d) (Some b)
            (snd (pcf8563_write_time drv (Some d) (Some t) s)))) = Some True"
    using assms pcf8563_write_time_effect(3) [OF assms, of t s]
    by (simp add: pcf8563_is_running_def pcf_ops)
  have "(v OR PCF8563_CTRL1_STOP) AND PCF8563_CTRL1_STOP \<noteq> 0" for v
  proof
    assume "(v OR PCF8563_CTRL1_STOP) AND PCF8563_CTRL1_STOP = 0"
    then have "bit ((v OR PCF8563_CTRL1_STOP) AND PCF8563_CTRL1_STOP) 5 = bit (0 :: u8) 5" by simp
    moreover have "bit PCF8563_CTRL1_STOP 5" by code_simp
    ultimately show False by (simp add: bit_and_iff bit_or_iff)
  qed
  then show "fst (snd (pcf8563_is_running drv (Some d) (Some b)
            (snd (pcf8563_stop drv (Some d) s)))) = Some False"
    using assms by (simp add: pcf8563_is_running_def pcf8563_stop_def pcf_ops)
qed

lemma pcf8563_write_time_runs_applied:
  "fst (snd (pcf8563_is_running (chip_drv (\<lambda>_. 0xFF)) (Some 3) (Some False)
      (snd (pcf8563_stop (chip_drv (\<lambda>_. 0xFF)) (Some 3) i2c_boot)))) = Some False"
  using pcf8563_write_time_runs [OF chip_drv_register_device, where d = 3 and s = i2c_boot]
  by blast

end
