(* ===== verification/TCA_Stack.thy ===== *)
theory TCA_Stack
  imports I2C_Support
begin

text \<open>
  \<open>BSP/i2c_dev_support/src/tca_handler.c\<close> and \<open>BSP/stack_handler/src/stack_handler.c\<close>:
  the two TCA6416A port expanders through which the gateway drives the pins of its plug-in
  communication modules. A \<open>tca6416a_inst_t*\<close> argument is always the address of
  \<open>g_tca[slot]\<close>, so it is the instance itself here, returned when it changes; likewise
  the register-value pointers are addresses of locals. The GPIO interrupt set-up inside
  \<open>tca_init_inst\<close> only logs its errors and is left out. The properties give the exact
  effect of pin writes on a register-file chip.
\<close>

section \<open>tca_handler.c\<close>

abbreviation "TCA6416A_I2C_FREQ_HZ \<equiv> 400000 :: u32"
abbreviation "TCA6416A_INPUT_PORT0 \<equiv> 0x00 :: u8"
abbreviation "TCA6416A_INPUT_PORT1 \<equiv> 0x01 :: u8"
abbreviation "TCA6416A_OUTPUT_PORT0 \<equiv> 0x02 :: u8"
abbreviation "TCA6416A_CONFIG_PORT0 \<equiv> 0x06 :: u8"
abbreviation "TCA_PORT_0 \<equiv> 0 :: u8"
abbreviation "TCA_PORT_1 \<equiv> 1 :: u8"

record tca6416a_inst =
  dev_handle :: "nat option"
  int_gpio :: int
  i2c_addr :: u8
  tca_initialized :: bool

definition tca_inst_zero :: tca6416a_inst where
  "tca_inst_zero = \<lparr>dev_handle = None, int_gpio = 0, i2c_addr = 0, tca_initialized = False\<rparr>"

definition tca_write_reg ::
  "i2c_drv \<Rightarrow> tca6416a_inst \<Rightarrow> u8 \<Rightarrow> u8 \<Rightarrow> i2c_st \<Rightarrow> esp_err \<times> i2c_st" where
  "tca_write_reg drv inst reg v s = i2c_dev_support_write drv (dev_handle inst) (Some [reg, v]) 1000 s"

definition tca_read_reg ::
  "i2c_drv \<Rightarrow> tca6416a_inst \<Rightarrow> u8 \<Rightarrow> i2c_st \<Rightarrow> esp_err \<times> u8 \<times> i2c_st" where
  "tca_read_reg drv inst reg s =
     (let (ret, bs, s1) =
        i2c_dev_support_write_read drv (dev_handle inst) (Some [reg]) 1 1000 s
      in (ret, bs ! 0, s1))"

definition tca_test_connection_inst ::
  "i2c_drv \<Rightarrow> tca6416a_inst \<Rightarrow> i2c_st \<Rightarrow> esp_err \<times> i2c_st" where
  "tca_test_connection_inst drv inst s =
     (if dev_handle inst = None then (ESP_ERR_INVALID_STATE, s)
      else let (ret, _, s1) = tca_read_reg drv inst TCA6416A_CONFIG_PORT0 s in (ret, s1))"

definition tca_configure_port_inst ::
  "i2c_drv \<Rightarrow> tca6416a_inst \<Rightarrow> u8 \<Rightarrow> u8 \<Rightarrow> i2c_st \<Rightarrow> esp_err \<times> i2c_st" where
  "tca_configure_port_inst drv inst port config s =
     (if dev_handle inst = None \<or> port > TCA_PORT_1 then (ESP_ERR_INVALID_ARG, s)
      else tca_write_reg drv inst (TCA6416A_CONFIG_PORT0 + port) config s)"

definition tca_read_port_inst ::
  "i2c_drv \<Rightarrow> tca6416a_inst \<Rightarrow> u8 \<Rightarrow> i2c_st \<Rightarrow> esp_err \<times> u8 \<times> i2c_st" where
  "tca_read_port_inst drv inst port s =
     (if dev_handle inst = None \<or> port > TCA_PORT_1 then (ESP_ERR_INVALID_ARG, 0, s)
      else tca_read_reg drv inst (TCA6416A_INPUT_PORT0 + port) s)"

definition tca_write_port_inst ::
  "i2c_drv \<Rightarrow> tca6416a_inst \<Rightarrow> u8 \<Rightarrow> u8 \<Rightarrow> i2c_st \<Rightarrow> esp_err \<times> i2c_st" where
  "tca_write_port_inst drv inst port v s =
     (if dev_handle inst = None \<or> port > TCA_PORT_1 then (ESP_ERR_INVALID_ARG, s)
      else tca_write_reg drv inst (TCA6416A_OUTPUT_PORT0 + port) v s)"

definition tca_set_pin_verified_inst ::
  "i2c_drv \<Rightarrow> tca6416a_inst \<Rightarrow> u8 \<Rightarrow> u8 \<Rightarrow> bool \<Rightarrow> bool \<Rightarrow> i2c_st \<Rightarrow> esp_err \<times> i2c_st" where
  "tca_set_pin_verified_inst drv inst port pin level verify s =
     (if dev_handle inst = None \<or> port > TCA_PORT_1 \<or> pin > 7 then (ESP_ERR_INVALID_ARG, s)
      else
        let reg = TCA6416A_OUTPUT_PORT0 + port;
            b = bit8 (unat pin);
            (ret, current, s1) = tca_read_reg drv inst reg s
        in if ret \<noteq> ESP_OK then (ret, s1)
           else
             let current = (if level then current OR b else current AND NOT b);
                 (ret, s2) = tca_write_reg drv inst reg current s1
             in if ret \<noteq> ESP_OK then (ret, s2)
                else if verify then
                  let (ret, readback, s3) = tca_read_reg drv inst reg (delay_ms 1 s2)
                  in if ret \<noteq> ESP_OK then (ret, s3)
                     else if (readback AND b \<noteq> 0) = level then (ESP_OK, s3)
                     else (ESP_ERR_INVALID_RESPONSE, s3)
                else (ESP_OK, s2))"

text \<open>\<open>level\<close> is the out pointer, \<open>None\<close> when NULL.\<close>

definition tca_read_pin_inst ::
  "i2c_drv \<Rightarrow> tca6416a_inst \<Rightarrow> u8 \<Rightarrow> u8 \<Rightarrow> bool option \<Rightarrow> i2c_st \<Rightarrow> esp_err \<times> bool option \<times> i2c_st" where
  "tca_read_pin_inst drv inst port pin level s =
     (if dev_handle inst = None \<or> port > TCA_PORT_1 \<or> pin > 7 \<or> level = None
      then (ESP_ERR_INVALID_ARG, level, s)
      else let (ret, val, s1) = tca_read_reg drv inst (TCA6416A_INPUT_PORT0 + port) s
           in (ret, if ret = ESP_OK then Some (val AND bit8 (unat pin) \<noteq> 0) else level, s1))"

definition tca_read_config_register_inst ::
  "i2c_drv \<Rightarrow> tca6416a_inst \<Rightarrow> u8 \<Rightarrow> i2c_st \<Rightarrow> esp_err \<times> u8 \<times> i2c_st" where
  "tca_read_config_register_inst drv inst port s =
     (if dev_handle inst = None \<or> port > TCA_PORT_1 then (ESP_ERR_INVALID_ARG, 0, s)
      else tca_read_reg drv inst (TCA6416A_CONFIG_PORT0 + port) s)"

definition tca_read_output_register_inst ::
  "i2c_drv \<Rightarrow> tca6416a_inst \<Rightarrow> u8 \<Rightarrow> i2c_st \<Rightarrow> esp_err \<times> u8 \<times> i2c_st" where
  "tca_read_output_register_inst drv inst port s =
     (if dev_handle inst = None \<or> port > TCA_PORT_1 then (ESP_ERR_INVALID_ARG, 0, s)
      else tca_read_reg drv inst (TCA6416A_OUTPUT_PORT0 + port) s)"

definition tca_write_output_register_inst ::
  "i2c_drv \<Rightarrow> tca6416a_inst \<Rightarrow> u8 \<Rightarrow> u8 \<Rightarrow> i2c_st \<Rightarrow> esp_err \<times> i2c_st" where
  "tca_write_output_register_inst drv inst port v s =
     (if dev_handle inst = None \<or> port > TCA_PORT_1 then (ESP_ERR_INVALID_ARG, s)
      else tca_write_reg drv inst (TCA6416A_OUTPUT_PORT0 + port) v s)"

text \<open>The error exit of \<open>tca_init_inst\<close>, written three times in the code.\<close>

definition tca_init_fail ::
  "i2c_drv \<Rightarrow> tca6416a_inst \<Rightarrow> esp_err \<Rightarrow> i2c_st \<Rightarrow> esp_err \<times> tca6416a_inst \<times> i2c_st" where
  "tca_init_fail drv inst ret s =
     (ret, inst\<lparr>dev_handle := None\<rparr>, snd (i2c_dev_support_remove_device drv (dev_handle inst) s))"

definition tca_init_inst ::
  "i2c_drv \<Rightarrow> tca6416a_inst \<Rightarrow> u8 \<Rightarrow> int \<Rightarrow> i2c_st \<Rightarrow> esp_err \<times> tca6416a_inst \<times> i2c_st" where
  "tca_init_inst drv inst0 addr gpio s =
     (if \<not> is_initialized s then (ESP_ERR_INVALID_STATE, inst0, s)
      else
        let inst1 = inst0\<lparr>int_gpio := gpio, tca_initialized := False, dev_handle := None\<rparr>;
            (ret, h, s1) = i2c_dev_support_add_device drv addr TCA6416A_I2C_FREQ_HZ None s;
            inst = inst1\<lparr>dev_handle := h\<rparr>
        in if ret \<noteq> ESP_OK then (ret, inst, s1)
           else
             let (ret, s2) = tca_test_connection_inst drv inst s1
             in if ret \<noteq> ESP_OK then tca_init_fail drv inst ret s2
                else
                  let (ret, s3) = tca_configure_port_inst drv inst TCA_PORT_0 0xFF s2
                  in if ret \<noteq> ESP_OK then tca_init_fail drv inst ret s3
                     else
                       let (ret, s4) = tca_configure_port_inst drv inst TCA_PORT_1 0xFF
                                         (delay_ms 5 s3)
                       in if ret \<noteq> ESP_OK then tca_init_fail drv inst ret s4
                          else (ESP_OK, inst\<lparr>i2c_addr := addr, tca_initialized := True\<rparr>,
                                delay_ms 5 s4))"

definition tca_deinit_inst ::
  "i2c_drv \<Rightarrow> tca6416a_inst \<Rightarrow> i2c_st \<Rightarrow> esp_err \<times> tca6416a_inst \<times> i2c_st" where
  "tca_deinit_inst drv inst s =
     (if \<not> tca_initialized inst then (ESP_OK, inst, s)
      else let (ret, s1) = i2c_dev_support_remove_device drv (dev_handle inst) s
           in (ret, inst\<lparr>dev_handle := None, tca_initialized := False\<rparr>, s1))"

definition tca_init :: "i2c_st \<Rightarrow> esp_err" where
  "tca_init s = (if \<not> is_initialized s then ESP_ERR_INVALID_STATE else ESP_OK)"

definition tca_probe_slotdet ::
  "i2c_drv \<Rightarrow> u8 \<Rightarrow> bool option \<Rightarrow> i2c_st \<Rightarrow> esp_err \<times> bool option \<times> i2c_st" where
  "tca_probe_slotdet drv addr slotdet s =
     (if slotdet = None then (ESP_ERR_INVALID_ARG, slotdet, s)
      else if \<not> is_initialized s then (ESP_ERR_INVALID_STATE, slotdet, s)
      else
        let (ret, h, s1) = i2c_dev_support_add_device drv addr TCA6416A_I2C_FREQ_HZ None s
        in if ret \<noteq> ESP_OK then (ret, slotdet, s1)
           else
             let (ret, _, s2) =
                   i2c_dev_support_write_read drv h (Some [TCA6416A_CONFIG_PORT0]) 1 100 s1
             in if ret \<noteq> ESP_OK
                then (ESP_ERR_NOT_FOUND, slotdet, snd (i2c_dev_support_remove_device drv h s2))
                else
                  let (ret, bs, s3) =
                        i2c_dev_support_write_read drv h (Some [TCA6416A_INPUT_PORT1]) 1 100 s2
                  in (ret, if ret = ESP_OK then Some (drop_bit 7 (bs ! 0) AND 1 \<noteq> 0) else slotdet,
                      snd (i2c_dev_support_remove_device drv h s3)))"

section \<open>stack_handler.c\<close>

abbreviation "STACK_HANDLER_MAX_STACKS \<equiv> 2 :: nat"
abbreviation "STACK_GPIO_PIN_COUNT \<equiv> 16 :: u8"

record stack_st =
  g_tca :: "tca6416a_inst list"
  g_module_id :: "string list"
  g_slot_present :: "bool list"
  g_initialized :: bool
  stk_i2c :: i2c_st

definition k_addr :: "u8 list" where "k_addr = [0x20, 0x21]"
definition k_int_gpio :: "int list" where "k_int_gpio = [21, -1]"

definition is_valid_stack_id :: "u8 \<Rightarrow> bool" where
  "is_valid_stack_id i \<longleftrightarrow> unat i < STACK_HANDLER_MAX_STACKS"

definition is_valid_pin :: "u8 \<Rightarrow> bool" where
  "is_valid_pin p \<longleftrightarrow> p < STACK_GPIO_PIN_COUNT"

definition get_tca_mapping :: "u8 \<Rightarrow> u8 \<times> u8" where
  "get_tca_mapping pin = (if pin < 8 then TCA_PORT_0 else TCA_PORT_1, pin mod 8)"

text \<open>\<open>snprintf("%03u", id)\<close> for an id below 16.\<close>

definition fmt_03u :: "nat \<Rightarrow> string" where
  "fmt_03u n = map (\<lambda>k. char_of (48 + n div k mod 10)) [100, 10, 1]"

definition read_module_id :: "i2c_drv \<Rightarrow> nat \<Rightarrow> stack_st \<Rightarrow> stack_st" where
  "read_module_id drv slot g =
     (let (ret, port0_val, s1) = tca_read_port_inst drv (g_tca g ! slot) TCA_PORT_0 (stk_i2c g);
          txt = (if ret \<noteq> ESP_OK then ''none'' else fmt_03u (unat (port0_val AND 0x0F)))
      in g\<lparr>g_module_id := (g_module_id g)[slot := txt], stk_i2c := s1\<rparr>)"

text \<open>\<open>mutex_ok i\<close>: whether the i-th \<open>xSemaphoreCreateMutex\<close> returns a handle. The
  mutexes created before a failure are deleted again, which leaves no trace in the state.\<close>

fun init_slots :: "i2c_drv \<Rightarrow> nat list \<Rightarrow> stack_st \<Rightarrow> stack_st" where
  "init_slots drv [] g = g"
| "init_slots drv (slot # slots) g =
     (let (ret, inst, s1) =
            tca_init_inst drv (g_tca g ! slot) (k_addr ! slot) (k_int_gpio ! slot) (stk_i2c g);
          g1 = g\<lparr>g_tca := (g_tca g)[slot := inst], stk_i2c := s1\<rparr>
      in if ret \<noteq> ESP_OK
         then init_slots drv slots (g1\<lparr>g_slot_present := (g_slot_present g1)[slot := False]\<rparr>)
         else init_slots drv slots
                (read_module_id drv slot
                   (g1\<lparr>g_slot_present := (g_slot_present g1)[slot := True]\<rparr>)))"

definition stack_handler_init ::
  "i2c_drv \<Rightarrow> (nat \<Rightarrow> bool) \<Rightarrow> stack_st \<Rightarrow> esp_err \<times> stack_st" where
  "stack_handler_init drv mutex_ok g =
     (if g_initialized g then (ESP_OK, g)
      else
        let g1 = g\<lparr>g_tca := replicate 2 tca_inst_zero,
                   g_slot_present := replicate 2 False,
                   g_module_id := replicate 2 ''none''\<rparr>
        in if \<not> list_all mutex_ok [0..<STACK_HANDLER_MAX_STACKS] then (ESP_ERR_NO_MEM, g1)
           else (ESP_OK,
                 (init_slots drv [0..<STACK_HANDLER_MAX_STACKS] g1)\<lparr>g_initialized := True\<rparr>))"

definition stack_handler_gpio_write ::
  "i2c_drv \<Rightarrow> u8 \<Rightarrow> u8 \<Rightarrow> bool \<Rightarrow> stack_st \<Rightarrow> esp_err \<times> stack_st" where
  "stack_handler_gpio_write drv stack_id pin level g =
     (if \<not> g_initialized g then (ESP_ERR_INVALID_STATE, g)
      else if \<not> is_valid_stack_id stack_id then (ESP_ERR_INVALID_ARG, g)
      else if \<not> g_slot_present g ! unat stack_id then (ESP_ERR_NOT_FOUND, g)
      else if \<not> is_valid_pin pin then (ESP_ERR_INVALID_ARG, g)
      else
        let (port, pin_num) = get_tca_mapping pin;
            (ret, s1) = tca_set_pin_verified_inst drv (g_tca g ! unat stack_id)
                          port pin_num level True (stk_i2c g)
        in (ret, g\<lparr>stk_i2c := s1\<rparr>))"

definition stack_handler_gpio_read ::
  "i2c_drv \<Rightarrow> u8 \<Rightarrow> u8 \<Rightarrow> bool option \<Rightarrow> stack_st \<Rightarrow> esp_err \<times> bool option \<times> stack_st" where
  "stack_handler_gpio_read drv stack_id pin level g =
     (if \<not> g_initialized g then (ESP_ERR_INVALID_STATE, level, g)
      else if \<not> is_valid_stack_id stack_id \<or> level = None then (ESP_ERR_INVALID_ARG, level, g)
      else if \<not> g_slot_present g ! unat stack_id then (ESP_ERR_NOT_FOUND, level, g)
      else if \<not> is_valid_pin pin then (ESP_ERR_INVALID_ARG, level, g)
      else
        let (port, pin_num) = get_tca_mapping pin;
            (ret, level1, s1) = tca_read_pin_inst drv (g_tca g ! unat stack_id)
                                  port pin_num level (stk_i2c g)
        in (ret, level1, g\<lparr>stk_i2c := s1\<rparr>))"

definition stack_handler_gpio_set_direction ::
  "i2c_drv \<Rightarrow> u8 \<Rightarrow> u8 \<Rightarrow> bool \<Rightarrow> stack_st \<Rightarrow> esp_err \<times> stack_st" where
  "stack_handler_gpio_set_direction drv stack_id pin is_output g =
     (if \<not> g_initialized g then (ESP_ERR_INVALID_STATE, g)
      else if \<not> is_valid_stack_id stack_id then (ESP_ERR_INVALID_ARG, g)
      else if \<not> g_slot_present g ! unat stack_id then (ESP_ERR_NOT_FOUND, g)
      else if \<not> is_valid_pin pin then (ESP_ERR_INVALID_ARG, g)
      else
        let (port, pin_num) = get_tca_mapping pin;
            inst = g_tca g ! unat stack_id;
            (ret, cfg, s1) = tca_read_config_register_inst drv inst port (stk_i2c g)
        in if ret \<noteq> ESP_OK then (ret, g\<lparr>stk_i2c := s1\<rparr>)
           else
             let b = bit8 (unat pin_num);
                 cfg = (if is_output then cfg AND NOT b else cfg OR b);
                 (ret, s2) = tca_configure_port_inst drv inst port cfg s1
             in (ret, g\<lparr>stk_i2c := s2\<rparr>))"

text \<open>The action list of \<open>stack_handler_gpio_write_multi\<close>: pin and level. The two arrays
  \<open>port_masks\<close> and \<open>port_states\<close> are functions of the port.\<close>

fun collect_actions ::
  "(u8 \<times> bool) list \<Rightarrow> (u8 \<Rightarrow> u8) \<times> (u8 \<Rightarrow> u8) \<Rightarrow> (u8 \<Rightarrow> u8) \<times> (u8 \<Rightarrow> u8)" where
  "collect_actions [] (masks, states) = (masks, states)"
| "collect_actions ((pin, level) # acts) (masks, states) =
     (if \<not> is_valid_pin pin then collect_actions acts (masks, states)
      else
        let (port, pin_num) = get_tca_mapping pin;
            b = bit8 (unat pin_num)
        in collect_actions acts
             (masks(port := masks port OR b),
              if level then states(port := states port OR b) else states))"

definition write_multi_port ::
  "i2c_drv \<Rightarrow> tca6416a_inst \<Rightarrow> u8 \<Rightarrow> u8 \<Rightarrow> u8 \<Rightarrow> i2c_st \<Rightarrow> esp_err \<times> i2c_st" where
  "write_multi_port drv inst p m st s =
     (if m = 0 then (ESP_OK, s)
      else
        let (ret, cfg, s1) = tca_read_config_register_inst drv inst p s
        in if ret \<noteq> ESP_OK then (ret, s1)
           else
             let (ret, s2) = tca_configure_port_inst drv inst p (cfg AND NOT m) s1
             in if ret \<noteq> ESP_OK then (ret, s2)
                else
                  let (ret, current, s3) = tca_read_output_register_inst drv inst p s2
                  in if ret \<noteq> ESP_OK then (ret, s3)
                     else tca_write_output_register_inst drv inst p (masked m st current) s3)"

definition stack_handler_gpio_write_multi ::
  "i2c_drv \<Rightarrow> u8 \<Rightarrow> (u8 \<times> bool) list option \<Rightarrow> stack_st \<Rightarrow> esp_err \<times> stack_st" where
  "stack_handler_gpio_write_multi drv stack_id actions g =
     (if \<not> g_initialized g then (ESP_ERR_INVALID_STATE, g)
      else if \<not> is_valid_stack_id stack_id \<or> actions = None \<or> actions = Some []
      then (ESP_ERR_INVALID_ARG, g)
      else if \<not> g_slot_present g ! unat stack_id then (ESP_ERR_NOT_FOUND, g)
      else
        let (masks, states) = collect_actions (the actions) (\<lambda>_. 0, \<lambda>_. 0);
            inst = g_tca g ! unat stack_id;
            (ret, s1) = write_multi_port drv inst 0 (masks 0) (states 0) (stk_i2c g);
            (ret, s2) = (if ret = ESP_OK
                         then write_multi_port drv inst 1 (masks 1) (states 1) s1
                         else (ret, s1))
        in (ret, g\<lparr>stk_i2c := s2\<rparr>))"

text \<open>\<open>taken\<close>: whether \<open>xSemaphoreTake\<close> got the mutex within its second.\<close>

definition stack_handler_lock :: "bool \<Rightarrow> u8 \<Rightarrow> stack_st \<Rightarrow> esp_err" where
  "stack_handler_lock taken stack_id g =
     (if \<not> g_initialized g \<or> \<not> is_valid_stack_id stack_id then ESP_ERR_INVALID_ARG
      else if taken then ESP_OK else ESP_ERR_TIMEOUT)"

definition stack_handler_unlock :: "u8 \<Rightarrow> stack_st \<Rightarrow> esp_err" where
  "stack_handler_unlock stack_id g =
     (if \<not> g_initialized g \<or> \<not> is_valid_stack_id stack_id then ESP_ERR_INVALID_ARG else ESP_OK)"

definition stack_handler_get_module_id :: "u8 \<Rightarrow> stack_st \<Rightarrow> string" where
  "stack_handler_get_module_id stack_id g =
     (if \<not> is_valid_stack_id stack_id then ''none'' else g_module_id g ! unat stack_id)"

section \<open>The expander as a byte-register port\<close>

interpretation tca: reg8_port
  "tca_read_reg drv (inst\<lparr>dev_handle := Some d\<rparr>)" "tca_write_reg drv (inst\<lparr>dev_handle := Some d\<rparr>)"
  "\<lambda>r. I2cTxRx d [r] 1 1000" "\<lambda>r v. I2cTx d [r, v] 1000"
  for drv inst d
  by unfold_locales (auto simp: tca_read_reg_def tca_write_reg_def i2c_ops)

text \<open>The pin number as the code splits it.\<close>

lemma get_tca_mapping_pin:
  assumes "is_valid_pin pin"
  obtains port k where "get_tca_mapping pin = (port, k)" and "unat port = unat pin div 8"
    and "unat k = unat pin mod 8" and "port \<le> TCA_PORT_1" and "k \<le> 7"
    and "port = 0 \<or> port = 1"
proof -
  have lt: "unat pin < 16"
    using assms by (simp add: is_valid_pin_def word_less_nat_alt)
  have m: "unat (pin mod 8) = unat pin mod 8"
    by (simp add: unat_mod_distrib)
  have k: "pin mod 8 \<le> 7"
    by (simp add: word_le_nat_alt m)
  show ?thesis
  proof (cases "pin < 8")
    case True
    then have "unat pin div 8 = 0" by (simp add: word_less_nat_alt)
    with True m k show ?thesis
      by (intro that [of 0 "pin mod 8"]) (simp_all add: get_tca_mapping_def)
  next
    case False
    with lt have "unat pin div 8 = 1" by (simp add: word_less_nat_alt)
    with False m k show ?thesis
      by (intro that [of 1 "pin mod 8"]) (simp_all add: get_tca_mapping_def)
  qed
qed

lemma tca_reg_effect:
  assumes "register_device drv d f" and "dev_handle inst = Some d"
  shows "tca_read_reg drv inst r s =
      (ESP_OK, regs_of d f s (unat r), s\<lparr>i2c_hist := i2c_hist s @ [I2cTxRx d [r] 1 1000]\<rparr>)"
    and "tca_write_reg drv inst r v s =
      (ESP_OK, s\<lparr>i2c_hist := i2c_hist s @ [I2cTx d [r, v] 1000]\<rparr>)"
  using assms
  by (simp_all add: tca_read_reg_def tca_write_reg_def register_device_ops)

lemma tca_set_pin_effect:
  assumes "register_device drv d f" and "dev_handle inst = Some d"
    and "port = 0 \<or> port = 1" and "k \<le> 7"
  shows "\<exists>s1. tca_set_pin_verified_inst drv inst port k level verify s = (ESP_OK, s1) \<and>
     regs_of d f s1 = (regs_of d f s)(2 + unat port :=
        (if level then regs_of d f s (2 + unat port) OR bit8 (unat k)
         else regs_of d f s (2 + unat port) AND NOT (bit8 (unat k))))"
proof -
  have k: "unat k < 8" using assms(4) by (simp add: word_le_nat_alt)
  have p: "unat (TCA6416A_OUTPUT_PORT0 + port) = 2 + unat port" "\<not> TCA_PORT_1 < port"
    using assms(3) by auto
  have readback: "((if level then v OR bit8 (unat k) else v AND NOT (bit8 (unat k)))
      AND bit8 (unat k) \<noteq> 0) = level" for v
    using k by (cases level) (simp_all add: set_clear_and_bit8)
  show ?thesis
    using assms(1,2,4) k p readback
    by (simp add: tca_set_pin_verified_inst_def tca_reg_effect Let_def not_less)
qed

text \<open>A pin of the flat numbering 0-15, as bits of the two output or configuration registers
  from \<open>base\<close> on.\<close>

definition pin_bit :: "(nat \<Rightarrow> u8) \<Rightarrow> nat \<Rightarrow> nat \<Rightarrow> bool" where
  "pin_bit R base q = bit (R (base + q div 8)) (q mod 8)"

lemma div_mod_8: "(q div 8 = p div 8 \<and> q mod 8 = p mod 8) \<longleftrightarrow> q = (p :: nat)"
  by (metis div_mult_mod_eq)

definition slot_ready :: "nat \<Rightarrow> u8 \<Rightarrow> stack_st \<Rightarrow> bool" where
  "slot_ready d i g \<longleftrightarrow> g_initialized g \<and> is_valid_stack_id i \<and>
     g_slot_present g ! unat i \<and> dev_handle (g_tca g ! unat i) = Some d"

text \<open>The effect of a pin write, for the properties that rest on it.\<close>

lemma gpio_write_effect:
  assumes "register_device drv d f" and "slot_ready d i g" and "is_valid_pin pin"
    and "stack_handler_gpio_write drv i pin level g = (ret, g1)"
  shows "ret = ESP_OK \<and>
    (\<forall>q < 16. pin_bit (regs_of d f (stk_i2c g1)) 2 q =
       (if q = unat pin then level else pin_bit (regs_of d f (stk_i2c g)) 2 q)) \<and>
    (\<forall>r. r \<notin> {2, 3} \<longrightarrow> regs_of d f (stk_i2c g1) r = regs_of d f (stk_i2c g) r)"
proof -
  from assms(3) obtain port k where map: "get_tca_mapping pin = (port, k)"
    and un: "unat port = unat pin div 8" "unat k = unat pin mod 8"
    and p: "port = 0 \<or> port = 1" and k: "k \<le> 7"
    by (rule get_tca_mapping_pin) blast
  let ?inst = "g_tca g ! unat i"
  from assms(2) have ready: "g_initialized g" "is_valid_stack_id i" "g_slot_present g ! unat i"
    and h: "dev_handle ?inst = Some d" by (auto simp: slot_ready_def)
  from tca_set_pin_effect [OF assms(1) h p k, of level True "stk_i2c g"] obtain s1 where
    set: "tca_set_pin_verified_inst drv ?inst port k level True (stk_i2c g) = (ESP_OK, s1)"
    and R: "regs_of d f s1 = (regs_of d f (stk_i2c g))(2 + unat port :=
        (if level then regs_of d f (stk_i2c g) (2 + unat port) OR bit8 (unat k)
         else regs_of d f (stk_i2c g) (2 + unat port) AND NOT (bit8 (unat k))))"
    by blast
  from assms(4) ready assms(3) have g1: "ret = ESP_OK" "stk_i2c g1 = s1"
    by (auto simp: stack_handler_gpio_write_def map set)
  have k8: "unat k < 8" using un by simp
  have "pin_bit (regs_of d f s1) 2 q =
      (if q = unat pin then level else pin_bit (regs_of d f (stk_i2c g)) 2 q)" if "q < 16" for q
    using div_mod_8 [of q "unat pin"] k8 unfolding pin_bit_def R
    by (auto simp: un bit_and_iff bit_or_iff bit_not_iff bit_bit8)
  moreover have "regs_of d f s1 r = regs_of d f (stk_i2c g) r" if "r \<notin> {2, 3}" for r
    using that p unfolding R by auto
  ultimately show ?thesis using g1 by simp
qed

text \<open>
  Writing one pin changes that pin and nothing else: on a present slot whose expander is
  a register-file chip, \<open>stack_handler_gpio_write\<close> of a valid pin succeeds (its read-back
  verification included), the output bit of the pin is the level asked for, every other
  output pin and every other register keeps its value.
\<close>

lemma stack_gpio_write_exact:
  assumes "register_device drv d f" and "slot_ready d i g" and "is_valid_pin pin"
    and "stack_handler_gpio_write drv i pin level g = (ret, g1)"
  shows "ret = ESP_OK \<and>
    (\<forall>q < 16. pin_bit (regs_of d f (stk_i2c g1)) 2 q =
       (if q = unat pin then level else pin_bit (regs_of d f (stk_i2c g)) 2 q)) \<and>
    (\<forall>r. r \<notin> {2, 3} \<longrightarrow> regs_of d f (stk_i2c g1) r = regs_of d f (stk_i2c g) r)"
  using assms by (rule gpio_write_effect)

definition demo_stack :: stack_st where
  "demo_stack = \<lparr>g_tca = replicate 2 (tca_inst_zero\<lparr>dev_handle := Some 7\<rparr>),
     g_module_id = [''003'', ''none''], g_slot_present = [True, False],
     g_initialized = True, stk_i2c = i2c_boot\<rparr>"

lemma stack_gpio_write_exact_applied:
  "fst (stack_handler_gpio_write (chip_drv (\<lambda>_. 0)) 0 9 True demo_stack) = ESP_OK \<and>
   pin_bit (regs_of 7 (\<lambda>_. 0)
     (stk_i2c (snd (stack_handler_gpio_write (chip_drv (\<lambda>_. 0)) 0 9 True demo_stack)))) 2 9"
  using stack_gpio_write_exact [OF chip_drv_register_device _ _ surjective_pairing,
      where d = 7 and f = "\<lambda>_. 0" and i = 0 and g = demo_stack and pin = 9 and level = True]
  by (simp add: slot_ready_def demo_stack_def is_valid_stack_id_def is_valid_pin_def)

subsection \<open>Batched writes\<close>

lemma add_pin_bit:
  assumes "is_valid_pin pin" and "get_tca_mapping pin = (port, k)" and "q < 16"
  shows "bit ((masks(port := masks port OR bit8 (unat k))) (word_of_nat (q div 8))) (q mod 8) \<longleftrightarrow>
     bit (masks (word_of_nat (q div 8))) (q mod 8) \<or> word_of_nat q = pin"
proof -
  obtain un: "unat port = unat pin div 8" "unat k = unat pin mod 8"
    using get_tca_mapping_pin [OF assms(1)] assms(2) by (metis prod.inject)
  have "(word_of_nat (q div 8) = port) = (q div 8 = unat port)"
    using assms(3) by (auto simp: word_of_nat_eq_u8)
  moreover have "(word_of_nat q = pin) = (q = unat pin)"
    using assms(3) by (auto simp: word_of_nat_eq_u8)
  ultimately show ?thesis
    using div_mod_8 [of q "unat pin"] un by (auto simp: bit_or_iff bit_bit8)
qed

lemma collect_actions_bits:
  assumes "q < 16"
  shows "bit (fst (collect_actions acts (masks, states)) (word_of_nat (q div 8))) (q mod 8) \<longleftrightarrow>
      bit (masks (word_of_nat (q div 8))) (q mod 8) \<or> (\<exists>l. (word_of_nat q, l) \<in> set acts)"
    and "bit (snd (collect_actions acts (masks, states)) (word_of_nat (q div 8))) (q mod 8) \<longleftrightarrow>
      bit (states (word_of_nat (q div 8))) (q mod 8) \<or> (word_of_nat q, True) \<in> set acts"
proof (induction acts arbitrary: masks states)
  case Nil
  { case 1 then show ?case by simp next case 2 then show ?case by simp }
next
  case (Cons a acts)
  obtain pin level where a: "a = (pin, level)" by fastforce
  have nv: "\<not> is_valid_pin pin \<Longrightarrow> word_of_nat q \<noteq> pin"
    using assms by (auto simp: is_valid_pin_def word_less_nat_alt word_of_nat_eq_u8)
  obtain port k where map: "get_tca_mapping pin = (port, k)" by fastforce
  note bits = Cons.IH add_pin_bit [OF _ map assms]
  { case 1 show ?case
      by (cases "is_valid_pin pin") (use nv in \<open>auto simp: a map bits Let_def simp del: fun_upd_apply\<close>)
  next
    case 2 show ?case
      by (cases "is_valid_pin pin") (use nv in \<open>auto simp: a map bits Let_def simp del: fun_upd_apply\<close>) }
qed

lemma write_multi_port_effect:
  assumes "register_device drv d f" and "dev_handle inst = Some d" and "p = 0 \<or> p = 1"
  shows "\<exists>s1. write_multi_port drv inst p m st s = (ESP_OK, s1) \<and>
    regs_of d f s1 = (regs_of d f s)
      (6 + unat p := regs_of d f s (6 + unat p) AND NOT m,
       2 + unat p := masked m st (regs_of d f s (2 + unat p)))"
proof -
  have p: "unat (TCA6416A_OUTPUT_PORT0 + p) = 2 + unat p"
    "unat (TCA6416A_CONFIG_PORT0 + p) = 6 + unat p" "\<not> TCA_PORT_1 < p"
    using assms(3) by auto
  have "masked 0 st v = v" for v :: u8 by (simp add: masked_def)
  with assms(1,2) p show ?thesis
    by (simp add: write_multi_port_def tca_read_config_register_inst_def
        tca_configure_port_inst_def tca_read_output_register_inst_def
        tca_write_output_register_inst_def tca_reg_effect)
qed

text \<open>
  A batched pin write sets exactly the pins it names. On a present slot with a
  register-file expander \<open>stack_handler_gpio_write_multi\<close> of a non-empty list succeeds;
  every pin 0-15 named in the list becomes an output, every other direction bit is kept; the
  output bit of a named pin is set when \<^emph>\<open>some\<close> action on it asks for high (so
  of two opposite actions on one pin the high one wins, in either order) and cleared
  otherwise; all other registers and pins are kept, and invalid pins are skipped.
\<close>

lemma stack_gpio_write_multi_exact:
  assumes "register_device drv d f" and "slot_ready d i g" and "acts \<noteq> []"
    and "stack_handler_gpio_write_multi drv i (Some acts) g = (ret, g1)"
  shows "ret = ESP_OK \<and>
    (\<forall>q < 16. let named = (\<exists>l. (word_of_nat q, l) \<in> set acts) in
       pin_bit (regs_of d f (stk_i2c g1)) 2 q =
         (if named then (word_of_nat q, True) \<in> set acts
          else pin_bit (regs_of d f (stk_i2c g)) 2 q) \<and>
       pin_bit (regs_of d f (stk_i2c g1)) 6 q =
         (if named then False else pin_bit (regs_of d f (stk_i2c g)) 6 q)) \<and>
    (\<forall>r. r \<notin> {2, 3, 6, 7} \<longrightarrow> regs_of d f (stk_i2c g1) r = regs_of d f (stk_i2c g) r)"
proof -
  let ?inst = "g_tca g ! unat i" and ?R = "regs_of d f (stk_i2c g)"
  from assms(2) have ready: "g_initialized g" "is_valid_stack_id i" "g_slot_present g ! unat i"
    and h: "dev_handle ?inst = Some d" by (auto simp: slot_ready_def)
  obtain m st where ms: "collect_actions acts (\<lambda>_. 0, \<lambda>_. 0) = (m, st)" by fastforce
  from write_multi_port_effect [OF assms(1) h, of 0 "m 0" "st 0" "stk_i2c g"] obtain s1 where
    s1: "write_multi_port drv ?inst 0 (m 0) (st 0) (stk_i2c g) = (ESP_OK, s1)"
    and R1: "regs_of d f s1 = ?R(6 := ?R 6 AND NOT (m 0), 2 := masked (m 0) (st 0) (?R 2))"
    by auto
  from write_multi_port_effect [OF assms(1) h, of 1 "m 1" "st 1" s1] obtain s2 where
    s2: "write_multi_port drv ?inst 1 (m 1) (st 1) s1 = (ESP_OK, s2)"
    and R2: "regs_of d f s2 = (regs_of d f s1)
       (7 := regs_of d f s1 7 AND NOT (m 1), 3 := masked (m 1) (st 1) (regs_of d f s1 3))"
    by auto
  from assms(3,4) ready have g1: "ret = ESP_OK" "stk_i2c g1 = s2"
    by (auto simp: stack_handler_gpio_write_multi_def ms s1 s2)
  have bits: "bit (m (word_of_nat (q div 8))) (q mod 8) \<longleftrightarrow> (\<exists>l. (word_of_nat q, l) \<in> set acts)"
    "bit (st (word_of_nat (q div 8))) (q mod 8) \<longleftrightarrow> (word_of_nat q, True) \<in> set acts"
    if "q < 16" for q
    using collect_actions_bits [OF that, of acts "\<lambda>_. 0" "\<lambda>_. 0"] by (simp_all add: ms)
  have R2': "bit (regs_of d f s2 (2 + k)) n = bit (masked (m (word_of_nat k)) (st (word_of_nat k)) (?R (2 + k))) n"
    "bit (regs_of d f s2 (6 + k)) n = (bit (?R (6 + k)) n \<and> \<not> bit (m (word_of_nat k)) n)"
    if "k < 2" "n < 8" for k n
  proof -
    have "k = 0 \<or> k = 1" using that by auto
    then show "bit (regs_of d f s2 (2 + k)) n = bit (masked (m (word_of_nat k)) (st (word_of_nat k)) (?R (2 + k))) n"
      and "bit (regs_of d f s2 (6 + k)) n = (bit (?R (6 + k)) n \<and> \<not> bit (m (word_of_nat k)) n)"
      using that(2) unfolding R1 R2
      by (auto simp: bit_and_iff bit_not_iff numeral_2_eq_2 numeral_3_eq_3)
  qed
  have "let named = (\<exists>l. (word_of_nat q, l) \<in> set acts) in
       pin_bit (regs_of d f s2) 2 q =
         (if named then (word_of_nat q, True) \<in> set acts else pin_bit ?R 2 q) \<and>
       pin_bit (regs_of d f s2) 6 q = (if named then False else pin_bit ?R 6 q)"
    if "q < 16" for q
  proof -
    have "q div 8 < 2" "q mod 8 < 8" using that by auto
    from R2' [OF this] bits [OF that] show ?thesis
      unfolding pin_bit_def Let_def bit_masked by auto
  qed
  moreover have "regs_of d f s2 r = ?R r" if "r \<notin> {2, 3, 6, 7}" for r
    using that unfolding R1 R2 by auto
  ultimately show ?thesis using g1 by simp
qed

text \<open>Pin 5 both low and high in one batch, pin 12 low: pin 5 ends high.\<close>

lemma stack_gpio_write_multi_exact_applied:
  "let g1 = snd (stack_handler_gpio_write_multi (chip_drv (\<lambda>_. 0xFF)) 0
                   (Some [(5, True), (12, False), (5, False)]) demo_stack);
       R = regs_of 7 (\<lambda>_. 0xFF) (stk_i2c g1)
   in pin_bit R 2 5 \<and> \<not> pin_bit R 2 12 \<and> \<not> pin_bit R 6 12 \<and> R 0 = 0xFF"
proof -
  let ?acts = "[(5, True), (12, False), (5, False)] :: (u8 \<times> bool) list"
  let ?r = "stack_handler_gpio_write_multi (chip_drv (\<lambda>_. 0xFF)) 0 (Some ?acts) demo_stack"
  have eq: "?r = (fst ?r, snd ?r)" by simp
  have ready: "slot_ready 7 0 demo_stack"
    by (simp add: slot_ready_def demo_stack_def is_valid_stack_id_def)
  note t = stack_gpio_write_multi_exact [OF chip_drv_register_device [of "\<lambda>_. 0xFF" 7] ready _ eq]
  note pins = t [THEN conjunct2, THEN conjunct1, rule_format]
    and others = t [THEN conjunct2, THEN conjunct2, rule_format]
  have "regs_of 7 (\<lambda>_. 0xFF) (stk_i2c demo_stack) = (\<lambda>_. 0xFF)"
    by (simp add: demo_stack_def i2c_boot_def reg_file_def)
  then show ?thesis
    using pins [of 5] pins [of 12] others [of 0] by (auto simp: Let_def)
qed

end
