(* ===== verification/BQ25892.thy ===== *)
theory BQ25892
  imports I2C_Support
begin

text \<open>
  \<open>BSP/i2c_dev_support/src/bq25892_handler.c\<close>: the battery charger. The static
  \<open>s_dev\<close> is the argument \<open>h\<close> (\<open>None\<close> before \<open>bq25892_init\<close>); an out
  pointer is the result component of a successful call. The properties say which charge
  voltage and which switch bits a call leaves in a register-file charger.
\<close>

abbreviation "BQ25892_I2C_ADDR \<equiv> 0x6B :: u8"
abbreviation "BQ25892_I2C_FREQ_HZ \<equiv> 400000 :: u32"
abbreviation "BQ25892_REG00 \<equiv> 0x00 :: u8"
abbreviation "BQ25892_REG02 \<equiv> 0x02 :: u8"
abbreviation "BQ25892_REG03 \<equiv> 0x03 :: u8"
abbreviation "BQ25892_REG04 \<equiv> 0x04 :: u8"
abbreviation "BQ25892_REG06 \<equiv> 0x06 :: u8"
abbreviation "BQ25892_REG09 \<equiv> 0x09 :: u8"
abbreviation "BQ25892_REG0B \<equiv> 0x0B :: u8"
abbreviation "BQ25892_REG0E \<equiv> 0x0E :: u8"
abbreviation "BQ25892_REG14 \<equiv> 0x14 :: u8"
abbreviation "BQ25892_CHG_CONFIG_BIT \<equiv> 0x10 :: u8"
abbreviation "BQ25892_OTG_CONFIG_BIT \<equiv> 0x20 :: u8"
abbreviation "BQ25892_BATFET_DIS_BIT \<equiv> 0x20 :: u8"
abbreviation "BQ25892_CHRG_STAT_MASK \<equiv> 0x18 :: u8"

datatype bq25892_chrg_status =
    BQ25892_STATUS_NOT_CHARGING
  | BQ25892_STATUS_PRE_CHARGING
  | BQ25892_STATUS_FAST_CHARGING
  | BQ25892_STATUS_CHARGE_DONE

record bq25892_status =
  chrg_status :: bq25892_chrg_status
  power_good :: bool
  chg_vbat_mv :: u16
  charge_enabled :: bool
  fault_reg :: u8

section \<open>Registers\<close>

definition bq25892_reg_read :: "i2c_drv \<Rightarrow> nat option \<Rightarrow> u8 \<Rightarrow> i2c_st \<Rightarrow> esp_err \<times> u8 \<times> i2c_st" where
  "bq25892_reg_read drv h reg s =
     (let (ret, bs, s1) = i2c_dev_support_write_read drv h (Some [reg]) 1 50 s in (ret, bs ! 0, s1))"

definition bq25892_reg_write :: "i2c_drv \<Rightarrow> nat option \<Rightarrow> u8 \<Rightarrow> u8 \<Rightarrow> i2c_st \<Rightarrow> esp_err \<times> i2c_st" where
  "bq25892_reg_write drv h reg v s = i2c_dev_support_write drv h (Some [reg, v]) 50 s"

definition bq25892_reg_modify ::
  "i2c_drv \<Rightarrow> nat option \<Rightarrow> u8 \<Rightarrow> u8 \<Rightarrow> u8 \<Rightarrow> i2c_st \<Rightarrow> esp_err \<times> i2c_st" where
  "bq25892_reg_modify drv h reg m b s =
     (let (ret, v, s1) = bq25892_reg_read drv h reg s
      in if ret \<noteq> ESP_OK then (ret, s1)
         else bq25892_reg_write drv h reg (masked m b v) s1)"

interpretation bq25892: reg8_port
  "bq25892_reg_read drv (Some d)" "bq25892_reg_write drv (Some d)"
  "\<lambda>r. I2cTxRx d [r] 1 50" "\<lambda>r v. I2cTx d [r, v] 50"
  for drv d
  by unfold_locales (auto simp: bq25892_reg_read_def bq25892_reg_write_def i2c_ops)

lemma bq25892_reg_modify_rmw:
  "bq25892_reg_modify drv h reg m b =
     rmw (bq25892_reg_read drv h) (bq25892_reg_write drv h) reg (masked m b)"
  by (rule ext) (simp add: bq25892_reg_modify_def rmw_def)

section \<open>Operations\<close>

definition bq25892_init ::
  "i2c_drv \<Rightarrow> nat option \<Rightarrow> i2c_st \<Rightarrow> esp_err \<times> nat option \<times> i2c_st" where
  "bq25892_init drv h0 s =
     (let (ret, h, s1) = i2c_dev_support_add_device drv BQ25892_I2C_ADDR BQ25892_I2C_FREQ_HZ h0 s
      in if ret \<noteq> ESP_OK then (ret, h, s1)
         else
           let (ret, _, s2) = bq25892_reg_read drv h BQ25892_REG14 s1
           in if ret \<noteq> ESP_OK then (ret, h, s2)
              else
                let (ret, s3) = bq25892_reg_write drv h BQ25892_REG00 0x52 s2
                in if ret \<noteq> ESP_OK then (ret, h, s3)
                   else
                     let (ret, s4) = bq25892_reg_write drv h BQ25892_REG04 0x0F s3
                     in if ret \<noteq> ESP_OK then (ret, h, s4)
                        else
                          let (ret, s5) = bq25892_reg_write drv h BQ25892_REG06 0x42 s4
                          in if ret \<noteq> ESP_OK then (ret, h, s5)
                             else
                               let (ret, s6) = bq25892_reg_write drv h BQ25892_REG03 0x1A s5
                               in (ret, h, s6))"

definition bq25892_set_charge_enable ::
  "i2c_drv \<Rightarrow> nat option \<Rightarrow> bool \<Rightarrow> i2c_st \<Rightarrow> esp_err \<times> i2c_st" where
  "bq25892_set_charge_enable drv h enable s =
     (if h = None then (ESP_ERR_INVALID_STATE, s)
      else bq25892_reg_modify drv h BQ25892_REG03 BQ25892_CHG_CONFIG_BIT
             (if enable then BQ25892_CHG_CONFIG_BIT else 0) s)"

definition clamp_vreg_mv :: "u16 \<Rightarrow> u16" where
  "clamp_vreg_mv v =
     (let v1 = (if v < 3840 then 3840 else v) in if v1 > 4608 then 4608 else v1)"

definition bq25892_set_charge_voltage_mv ::
  "i2c_drv \<Rightarrow> nat option \<Rightarrow> u16 \<Rightarrow> i2c_st \<Rightarrow> esp_err \<times> i2c_st" where
  "bq25892_set_charge_voltage_mv drv h vreg_mv s =
     (if h = None then (ESP_ERR_INVALID_STATE, s)
      else
        let vreg = (ucast ((clamp_vreg_mv vreg_mv - 3840) div 16) :: u8);
            (ret, cur, s1) = bq25892_reg_read drv h BQ25892_REG06 s
        in if ret \<noteq> ESP_OK then (ret, s1)
           else bq25892_reg_write drv h BQ25892_REG06 ((cur AND 0x03) OR push_bit 2 vreg) s1)"

definition bq25892_set_otg ::
  "i2c_drv \<Rightarrow> nat option \<Rightarrow> bool \<Rightarrow> i2c_st \<Rightarrow> esp_err \<times> i2c_st" where
  "bq25892_set_otg drv h enable s =
     (if h = None then (ESP_ERR_INVALID_STATE, s)
      else bq25892_reg_modify drv h BQ25892_REG03 BQ25892_OTG_CONFIG_BIT
             (if enable then BQ25892_OTG_CONFIG_BIT else 0) s)"

definition bq25892_set_batfet_disable ::
  "i2c_drv \<Rightarrow> nat option \<Rightarrow> bool \<Rightarrow> i2c_st \<Rightarrow> esp_err \<times> i2c_st" where
  "bq25892_set_batfet_disable drv h disable s =
     (if h = None then (ESP_ERR_INVALID_STATE, s)
      else bq25892_reg_modify drv h BQ25892_REG09 BQ25892_BATFET_DIS_BIT
             (if disable then BQ25892_BATFET_DIS_BIT else 0) s)"

text \<open>\<open>None\<close> is a NULL out pointer, \<open>Some v\<close> one to a variable holding \<open>v\<close>.\<close>

definition bq25892_read_batv_mv ::
  "i2c_drv \<Rightarrow> nat option \<Rightarrow> u16 option \<Rightarrow> i2c_st \<Rightarrow> esp_err \<times> u16 option \<times> i2c_st" where
  "bq25892_read_batv_mv drv h out s =
     (if h = None \<or> out = None then (ESP_ERR_INVALID_ARG, out, s)
      else
        let (ret, s1) = bq25892_reg_modify drv h BQ25892_REG02 0xC0 0x80 s
        in if ret \<noteq> ESP_OK then (ret, out, s1)
           else
             let (ret, raw, s2) = bq25892_reg_read drv h BQ25892_REG0E (delay_ms 10 s1)
             in if ret \<noteq> ESP_OK then (ret, out, s2)
                else (ESP_OK, Some (2304 + ucast (raw AND 0x7F) * 20), s2))"

definition bq25892_chrg_of :: "u8 \<Rightarrow> bq25892_chrg_status" where
  "bq25892_chrg_of chrg =
     (if chrg = 0x08 then BQ25892_STATUS_PRE_CHARGING
      else if chrg = 0x10 then BQ25892_STATUS_FAST_CHARGING
      else if chrg = 0x18 then BQ25892_STATUS_CHARGE_DONE
      else BQ25892_STATUS_NOT_CHARGING)"

definition bq25892_read_status ::
  "i2c_drv \<Rightarrow> nat option \<Rightarrow> bq25892_status option \<Rightarrow> i2c_st \<Rightarrow>
   esp_err \<times> bq25892_status option \<times> i2c_st" where
  "bq25892_read_status drv h out s =
     (case out of
        None \<Rightarrow> (ESP_ERR_INVALID_ARG, out, s)
      | Some st \<Rightarrow>
          if h = None then (ESP_ERR_INVALID_ARG, out, s)
          else
            let (ret, reg0b, s1) = bq25892_reg_read drv h BQ25892_REG0B s
            in if ret \<noteq> ESP_OK then (ret, out, s1)
               else
                 let (ret, reg09, s2) = bq25892_reg_read drv h BQ25892_REG09 s1
                 in if ret \<noteq> ESP_OK then (ret, out, s2)
                    else
                      let (ret, reg03, s3) = bq25892_reg_read drv h BQ25892_REG03 s2
                      in if ret \<noteq> ESP_OK then (ret, out, s3)
                         else
                           let (ret, v, s4) = bq25892_read_batv_mv drv h (Some (chg_vbat_mv st)) s3
                           in (ESP_OK,
                               Some (st\<lparr>chrg_status :=
                                          bq25892_chrg_of (reg0b AND BQ25892_CHRG_STAT_MASK),
                                        power_good := (reg0b AND 0x04 \<noteq> 0),
                                        charge_enabled := (reg03 AND BQ25892_CHG_CONFIG_BIT \<noteq> 0),
                                        fault_reg := reg09,
                                        chg_vbat_mv := (if ret \<noteq> ESP_OK then 0 else the v)\<rparr>),
                               s4))"

section \<open>Effects on a register-file charger\<close>

lemmas bq25892_ops = bq25892_reg_read_def bq25892_reg_write_def bq25892_reg_modify_def
  register_device_ops

lemma bq25892_modify_effect:
  assumes "register_device drv d f"
  shows "fst (bq25892_reg_modify drv (Some d) reg m b s) = ESP_OK"
    and "regs_of d f (snd (bq25892_reg_modify drv (Some d) reg m b s)) =
         (regs_of d f s)(unat reg := masked m b (regs_of d f s (unat reg)))"
  using assms by (simp_all add: bq25892_ops)

text \<open>The charge voltage a REG06 value asks for: VREG is the field of bits 7:2.\<close>

definition vreg_mv_of :: "u8 \<Rightarrow> nat" where
  "vreg_mv_of r = 3840 + 16 * unat (drop_bit 2 r)"

lemma clamp_vreg_mv_bounds:
  "3840 \<le> unat (clamp_vreg_mv v)" "unat (clamp_vreg_mv v) \<le> 4608"
  by (auto simp: clamp_vreg_mv_def Let_def word_less_nat_alt)

lemma vreg_field:
  assumes "unat w < 64"
  shows "drop_bit 2 ((cur AND 0x03) OR push_bit 2 w) = (w :: u8)"
    and "((cur AND 0x03) OR push_bit 2 w) AND 0x03 = cur AND 0x03"
proof -
  have hi: "i < 6" if "bit w i" for i
  proof -
    have "take_bit 6 (unat w) = unat w" using assms by (simp add: take_bit_nat_eq_self)
    then have "bit (unat w) i \<longleftrightarrow> i < 6 \<and> bit (unat w) i" by (metis bit_take_bit_iff)
    with that show ?thesis by (auto simp: bit_unsigned_iff dest: bit_imp_le_length)
  qed
  have three: "bit (0x03 :: u8) i \<longleftrightarrow> i < 2" for i
  proof -
    have "(0x03 :: u8) = mask 2" by (simp add: mask_eq_exp_minus_1)
    then show ?thesis by (simp only: bit_mask_iff) auto
  qed
  show "drop_bit 2 ((cur AND 0x03) OR push_bit 2 w) = w"
    by (rule bit_word_eqI) (auto simp: bit_simps three dest: hi bit_imp_le_length)
  show "((cur AND 0x03) OR push_bit 2 w) AND 0x03 = cur AND 0x03"
    by (rule bit_word_eqI)
      (auto simp: bit_and_iff bit_or_iff bit_push_bit_iff three simp del: bit_numeral_word_iff)
qed

lemma vreg_of_clamp:
  "unat (ucast ((clamp_vreg_mv v - 3840) div 16) :: u8) = (unat (clamp_vreg_mv v) - 3840) div 16"
proof -
  have "unat ((clamp_vreg_mv v - 3840) div 16) = (unat (clamp_vreg_mv v) - 3840) div 16"
    using clamp_vreg_mv_bounds(1) [of v]
    by (simp add: unat_div_distrib unat_sub word_le_nat_alt)
  moreover have "(unat (clamp_vreg_mv v) - 3840) div 16 < 256"
    using clamp_vreg_mv_bounds(2) [of v] by linarith
  ultimately show ?thesis by (simp add: unsigned_ucast_eq take_bit_nat_eq_self)
qed

lemma unat_clamp_vreg_mv: "unat (clamp_vreg_mv v) = max 3840 (min 4608 (unat v))"
  by (auto simp: clamp_vreg_mv_def Let_def word_less_nat_alt not_less)

text \<open>
  The charge voltage programmed is the one asked for, clamped to 3840-4608 mV and rounded
  down to the charger's 16 mV steps: after \<open>bq25892_set_charge_voltage_mv\<close> on a
  register-file charger REG06 encodes a voltage at most the clamped request and less than
  16 mV below it, the pre-charge and recharge bits of REG06 and all other registers are kept.
\<close>

lemma bq25892_charge_voltage_exact:
  assumes "register_device drv d f"
    and "bq25892_set_charge_voltage_mv drv (Some d) v s = (ret, s1)"
  shows "ret = ESP_OK \<and>
    (let r = regs_of d f s1 6; c = max 3840 (min 4608 (unat v)) in
       vreg_mv_of r \<le> c \<and> c < vreg_mv_of r + 16 \<and> r AND 0x03 = regs_of d f s 6 AND 0x03) \<and>
    (\<forall>k. k \<noteq> 6 \<longrightarrow> regs_of d f s1 k = regs_of d f s k)"
proof -
  let ?w = "ucast ((clamp_vreg_mv v - 3840) div 16) :: u8"
  have w: "unat ?w = (max 3840 (min 4608 (unat v)) - 3840) div 16"
    by (simp only: vreg_of_clamp unat_clamp_vreg_mv)
  then have "unat ?w < 64" by linarith
  note field = vreg_field [OF this]
  from assms have "ret = ESP_OK"
    and R: "regs_of d f s1 = (regs_of d f s)(6 := (regs_of d f s 6 AND 0x03) OR push_bit 2 ?w)"
    by (auto simp: bq25892_set_charge_voltage_mv_def bq25892_ops Let_def)
  moreover have "vreg_mv_of (regs_of d f s1 6) = 3840 + 16 * unat ?w"
    unfolding R vreg_mv_of_def fun_upd_same field ..
  ultimately show ?thesis
    unfolding Let_def using w field(2) by simp linarith
qed

lemma bq25892_charge_voltage_exact_applied:
  "let r = regs_of 9 (\<lambda>_. 0xFF)
         (snd (bq25892_set_charge_voltage_mv (chip_drv (\<lambda>_. 0xFF)) (Some 9) 4100 i2c_boot)) 6
   in vreg_mv_of r \<le> 4100 \<and> 4100 < vreg_mv_of r + 16"
  using bq25892_charge_voltage_exact [OF chip_drv_register_device surjective_pairing,
      of "\<lambda>_. 0xFF" 9 4100 i2c_boot]
  by (simp add: Let_def)

end
