(* ===== verification/INA230.thy ===== *)
theory INA230
  imports I2C_Support "HOL-Library.Signed_Division"
begin

text \<open>
  \<open>BSP/i2c_dev_support/src/ina230_handler.c\<close>: the power monitor of the VSYS rail. Signed
  16- and 32-bit values are integers, converted with \<open>sint\<close> where the code casts;
  \<open>sdiv\<close> is C's division, which truncates. The property bounds the conversions.
\<close>

abbreviation "INA230_I2C_ADDR \<equiv> 0x40 :: u8"
abbreviation "INA230_I2C_FREQ_HZ \<equiv> 400000 :: u32"
abbreviation "INA230_REG_CONFIG \<equiv> 0x00 :: u8"
abbreviation "INA230_REG_BUS_V \<equiv> 0x02 :: u8"
abbreviation "INA230_REG_POWER \<equiv> 0x03 :: u8"
abbreviation "INA230_REG_CURRENT \<equiv> 0x04 :: u8"
abbreviation "INA230_REG_CALIBRATION \<equiv> 0x05 :: u8"
abbreviation "INA230_REG_MANUFACTURER \<equiv> 0xFE :: u8"
abbreviation "INA230_CALIBRATION_VAL \<equiv> 2560 :: u16"
abbreviation "INA230_CURRENT_LSB_UMA \<equiv> 200 :: int"
abbreviation "INA230_POWER_LSB_UW \<equiv> 5000 :: int"
abbreviation "INA230_CONFIG_VAL \<equiv> 0x0327 :: u16"

record ina230_status =
  bus_voltage_mv :: u16
  ina_current_ma :: int
  power_mw :: int

definition ina230_reg_read16 ::
  "i2c_drv \<Rightarrow> nat option \<Rightarrow> u8 \<Rightarrow> i2c_st \<Rightarrow> esp_err \<times> u16 \<times> i2c_st" where
  "ina230_reg_read16 drv h reg s =
     (let (ret, buf, s1) = i2c_dev_support_write_read drv h (Some [reg]) 2 50 s
      in (ret, be16 (buf ! 0) (buf ! 1), s1))"

definition ina230_reg_write16 ::
  "i2c_drv \<Rightarrow> nat option \<Rightarrow> u8 \<Rightarrow> u16 \<Rightarrow> i2c_st \<Rightarrow> esp_err \<times> i2c_st" where
  "ina230_reg_write16 drv h reg v s =
     i2c_dev_support_write drv h (Some [reg, hi8 v, lo8 v]) 50 s"

definition ina230_init ::
  "i2c_drv \<Rightarrow> nat option \<Rightarrow> i2c_st \<Rightarrow> esp_err \<times> nat option \<times> i2c_st" where
  "ina230_init drv h0 s =
     (let (ret, h, s1) = i2c_dev_support_add_device drv INA230_I2C_ADDR INA230_I2C_FREQ_HZ h0 s
      in if ret \<noteq> ESP_OK then (ret, h, s1)
         else
           let (ret, _, s2) = ina230_reg_read16 drv h INA230_REG_MANUFACTURER s1
           in if ret \<noteq> ESP_OK then (ret, h, s2)
              else
                let (ret, s3) = ina230_reg_write16 drv h INA230_REG_CONFIG INA230_CONFIG_VAL s2
                in if ret \<noteq> ESP_OK then (ret, h, s3)
                   else
                     let (ret, s4) =
                       ina230_reg_write16 drv h INA230_REG_CALIBRATION INA230_CALIBRATION_VAL s3
                     in (ret, h, s4))"

text \<open>The conversions: 1.25 mV, 0.2 mA and 5 mW per bit.\<close>

definition ina230_bus_mv :: "u16 \<Rightarrow> u16" where
  "ina230_bus_mv raw = ucast ((ucast raw * 5 :: u32) div 4)"

definition ina230_cur_ma :: "u16 \<Rightarrow> int" where
  "ina230_cur_ma raw = sint (word_of_int (sint raw * INA230_CURRENT_LSB_UMA sdiv 1000) :: u16)"

definition ina230_pwr_mw :: "u16 \<Rightarrow> int" where
  "ina230_pwr_mw raw = uint raw * (INA230_POWER_LSB_UW sdiv 1000)"

definition ina230_read_bus_voltage_mv ::
  "i2c_drv \<Rightarrow> nat option \<Rightarrow> u16 option \<Rightarrow> i2c_st \<Rightarrow> esp_err \<times> u16 option \<times> i2c_st" where
  "ina230_read_bus_voltage_mv drv h out s =
     (if h = None \<or> out = None then (ESP_ERR_INVALID_ARG, out, s)
      else
        let (ret, raw, s1) = ina230_reg_read16 drv h INA230_REG_BUS_V s
        in (ret, if ret = ESP_OK then Some (ina230_bus_mv raw) else out, s1))"

definition ina230_read_current_ma ::
  "i2c_drv \<Rightarrow> nat option \<Rightarrow> int option \<Rightarrow> i2c_st \<Rightarrow> esp_err \<times> int option \<times> i2c_st" where
  "ina230_read_current_ma drv h out s =
     (if h = None \<or> out = None then (ESP_ERR_INVALID_ARG, out, s)
      else
        let (ret, raw, s1) = ina230_reg_read16 drv h INA230_REG_CURRENT s
        in (ret, if ret = ESP_OK then Some (ina230_cur_ma raw) else out, s1))"

definition ina230_read_status ::
  "i2c_drv \<Rightarrow> nat option \<Rightarrow> ina230_status option \<Rightarrow> i2c_st \<Rightarrow>
   esp_err \<times> ina230_status option \<times> i2c_st" where
  "ina230_read_status drv h out s =
     (if h = None \<or> out = None then (ESP_ERR_INVALID_ARG, out, s)
      else
        let (ret, bus_raw, s1) = ina230_reg_read16 drv h INA230_REG_BUS_V s
        in if ret \<noteq> ESP_OK then (ret, out, s1)
           else
             let (ret, cur_raw, s2) = ina230_reg_read16 drv h INA230_REG_CURRENT s1
             in if ret \<noteq> ESP_OK then (ret, out, s2)
                else
                  let (ret, pwr_raw, s3) = ina230_reg_read16 drv h INA230_REG_POWER s2
                  in if ret \<noteq> ESP_OK then (ret, out, s3)
                     else (ESP_OK,
                           Some \<lparr>bus_voltage_mv = ina230_bus_mv bus_raw,
                                 ina_current_ma = ina230_cur_ma cur_raw,
                                 power_mw = ina230_pwr_mw pwr_raw\<rparr>, s3))"

text \<open>No cast loses a current: the scaled value always fits 16 bits; the bus voltage is exact
  up to the 52428 readings that 16 bits of millivolts can hold (the chip's 36 V range stops at
  28800).\<close>

lemma sint_u16_bounds: "- 32768 \<le> sint (w :: u16)" "sint (w :: u16) \<le> 32767"
  using sint_ge [of w] sint_lt [of w] by simp_all

lemma ina230_cur_ma_exact: "ina230_cur_ma raw = sint raw * 200 sdiv 1000"
  and ina230_cur_ma_bounds: "\<bar>ina230_cur_ma raw\<bar> \<le> 6553"
proof -
  have b: "\<bar>sint raw * 200 sdiv 1000\<bar> \<le> 6553"
    using sint_u16_bounds [of raw] by (auto simp: signed_divide_int_def sgn_if abs_if)
  then show e: "ina230_cur_ma raw = sint raw * 200 sdiv 1000"
    by (simp add: ina230_cur_ma_def signed_of_int signed_take_bit_int_eq_self abs_le_iff)
  show "\<bar>ina230_cur_ma raw\<bar> \<le> 6553" unfolding e by (rule b)
qed

lemma ina230_bus_mv_exact:
  assumes "unat raw \<le> 52428"
  shows "unat (ina230_bus_mv raw) = unat raw * 5 div 4"
proof -
  have "unat (ucast raw * 5 :: u32) = unat raw * 5"
    using unsigned_less [of raw, where 'a = nat] by (simp add: unat_word_ariths unsigned_ucast_eq take_bit_nat_eq_self)
  moreover have "unat raw * 5 div 4 < 65536" using assms by linarith
  ultimately show ?thesis
    by (simp add: ina230_bus_mv_def unsigned_ucast_eq unat_div_distrib take_bit_nat_eq_self)
qed

end
