(* ===== verification/BQ27441.thy ===== *)
theory BQ27441
  imports I2C_Support
begin

text \<open>
  \<open>BSP/i2c_dev_support/src/bq27441_handler.c\<close>: the battery fuel gauge. The static
  \<open>s_dev\<close> is the argument \<open>h\<close>. The labels \<open>soft_reset\<close> and \<open>seal\<close> of
  \<open>bq27441_reprogram_capacity\<close> are definitions, a \<open>goto\<close> is a call of one. The
  properties: every path that unsealed the gauge ends with the SEAL command (whose result the code
  does not look at), the block written to its flash is the block just read with the four capacity
  bytes replaced and is followed by the right checksum once acknowledged, and the voltage-to-charge table is a monotone percentage.
\<close>

abbreviation "BQ27441_I2C_ADDR \<equiv> 0x55 :: u8"
abbreviation "BQ27441_I2C_FREQ_HZ \<equiv> 100000 :: u32"
abbreviation "BQ27441_CMD_CONTROL \<equiv> 0x00 :: u8"
abbreviation "BQ27441_CMD_VOLTAGE \<equiv> 0x04 :: u8"
abbreviation "BQ27441_CMD_FLAGS \<equiv> 0x06 :: u8"
abbreviation "BQ27441_CMD_NOM_CAP \<equiv> 0x08 :: u8"
abbreviation "BQ27441_CMD_AVG_POWER \<equiv> 0x18 :: u8"
abbreviation "BQ27441_CMD_SOC \<equiv> 0x1C :: u8"
abbreviation "BQ27441_CMD_AVG_CURRENT \<equiv> 0x10 :: u8"
abbreviation "BQ27441_CMD_DESIGN_CAP \<equiv> 0x3C :: u8"
abbreviation "BQ27441_CMD_BLOCK_DATA_CTRL \<equiv> 0x61 :: u8"
abbreviation "BQ27441_CMD_BLOCK_DATA_CLASS \<equiv> 0x3E :: u8"
abbreviation "BQ27441_CMD_BLOCK_DATA_OFFSET \<equiv> 0x3F :: u8"
abbreviation "BQ27441_CMD_BLOCK_DATA \<equiv> 0x40 :: u8"
abbreviation "BQ27441_CMD_BLOCK_DATA_CHECK \<equiv> 0x60 :: u8"
abbreviation "BQ27441_DF_CLASS_STATE \<equiv> 0x52 :: u8"
abbreviation "BQ27441_CTRL_STATUS \<equiv> 0x0000 :: u16"
abbreviation "BQ27441_CTRL_DEVICE_TYPE \<equiv> 0x0001 :: u16"
abbreviation "BQ27441_CTRL_EXIT_HIBERNATE \<equiv> 0x0011 :: u16"
abbreviation "BQ27441_CTRL_SET_CFGUPDATE \<equiv> 0x0013 :: u16"
abbreviation "BQ27441_CTRL_SEAL \<equiv> 0x0020 :: u16"
abbreviation "BQ27441_CTRL_IT_ENABLE \<equiv> 0x0021 :: u16"
abbreviation "BQ27441_CTRL_EXIT_RESIM \<equiv> 0x0044 :: u16"
abbreviation "BQ27441_CTRL_UNSEAL_KEY \<equiv> 0x8000 :: u16"
abbreviation "BQ27441_FLAG_SOCF \<equiv> 0x0002 :: u16"
abbreviation "BQ27441_FLAG_BAT_DET \<equiv> 0x0008 :: u16"
abbreviation "BQ27441_FLAG_CFGUPD \<equiv> 0x0010 :: u16"
abbreviation "BQ27441_FLAG_FC \<equiv> 0x1000 :: u16"
abbreviation "BQ27441_DESIGN_CAP_OFFSET \<equiv> 10 :: nat"
abbreviation "BQ27441_DESIGN_ENERGY_OFFSET \<equiv> 12 :: nat"

record bq27441_status =
  gauge_voltage_mv :: u16
  soc_pct :: u8
  avg_current_ma :: int
  avg_power_mw :: int
  gauge_flags :: u16
  fully_charged :: bool
  critical_low :: bool
  battery_present :: bool

section \<open>Commands\<close>

text \<open>\<open>v\<close> is the variable behind the out pointer, returned as it is left.\<close>

definition cmd_read16 ::
  "i2c_drv \<Rightarrow> nat option \<Rightarrow> u8 \<Rightarrow> u16 \<Rightarrow> i2c_st \<Rightarrow> esp_err \<times> u16 \<times> i2c_st" where
  "cmd_read16 drv h cmd v s =
     (let (ret, buf, s1) = i2c_dev_support_write_read drv h (Some [cmd]) 2 50 s
      in (ret, if ret = ESP_OK then be16 (buf ! 1) (buf ! 0) else v, s1))"

definition ctrl_write :: "i2c_drv \<Rightarrow> nat option \<Rightarrow> u16 \<Rightarrow> i2c_st \<Rightarrow> esp_err \<times> i2c_st" where
  "ctrl_write drv h sub_cmd s =
     i2c_dev_support_write drv h (Some [BQ27441_CMD_CONTROL, lo8 sub_cmd, hi8 sub_cmd]) 50 s"

definition bq27441_init ::
  "i2c_drv \<Rightarrow> nat option \<Rightarrow> i2c_st \<Rightarrow> esp_err \<times> nat option \<times> i2c_st" where
  "bq27441_init drv h0 s =
     (let (ret, h, s1) = i2c_dev_support_add_device drv BQ27441_I2C_ADDR BQ27441_I2C_FREQ_HZ h0 s
      in if ret \<noteq> ESP_OK then (ret, h, s1)
         else
           let (ret, s2) = ctrl_write drv h BQ27441_CTRL_DEVICE_TYPE s1
           in if ret \<noteq> ESP_OK then (ret, h, s2)
              else
                let (ret, _, s3) = cmd_read16 drv h BQ27441_CMD_CONTROL 0 s2
                in if ret \<noteq> ESP_OK then (ret, h, s3)
                   else
                     let (_, _, s4) = cmd_read16 drv h BQ27441_CMD_FLAGS 0 s3;
                         (_, _, s5) = cmd_read16 drv h BQ27441_CMD_NOM_CAP 0 s4
                     in (ESP_OK, h, s5))"

definition bq27441_read_voltage_mv ::
  "i2c_drv \<Rightarrow> nat option \<Rightarrow> u16 option \<Rightarrow> i2c_st \<Rightarrow> esp_err \<times> u16 option \<times> i2c_st" where
  "bq27441_read_voltage_mv drv h out s =
     (case out of
        Some v \<Rightarrow> if h = None then (ESP_ERR_INVALID_ARG, out, s)
                  else let (ret, v1, s1) = cmd_read16 drv h BQ27441_CMD_VOLTAGE v s
                       in (ret, Some v1, s1)
      | None \<Rightarrow> (ESP_ERR_INVALID_ARG, out, s))"

definition soc_clamp :: "u16 \<Rightarrow> u8" where
  "soc_clamp raw = (if raw > 100 then 100 else ucast raw)"

definition bq27441_read_soc_pct ::
  "i2c_drv \<Rightarrow> nat option \<Rightarrow> u8 option \<Rightarrow> i2c_st \<Rightarrow> esp_err \<times> u8 option \<times> i2c_st" where
  "bq27441_read_soc_pct drv h out s =
     (if h = None \<or> out = None then (ESP_ERR_INVALID_ARG, out, s)
      else let (ret, raw, s1) = cmd_read16 drv h BQ27441_CMD_SOC 0 s
           in (ret, if ret = ESP_OK then Some (soc_clamp raw) else out, s1))"

definition bq27441_read_flags ::
  "i2c_drv \<Rightarrow> nat option \<Rightarrow> u16 option \<Rightarrow> i2c_st \<Rightarrow> esp_err \<times> u16 option \<times> i2c_st" where
  "bq27441_read_flags drv h out s =
     (case out of
        Some v \<Rightarrow> if h = None then (ESP_ERR_INVALID_ARG, out, s)
                  else let (ret, v1, s1) = cmd_read16 drv h BQ27441_CMD_FLAGS v s
                       in (ret, Some v1, s1)
      | None \<Rightarrow> (ESP_ERR_INVALID_ARG, out, s))"

definition bq27441_read_avg_current_ma ::
  "i2c_drv \<Rightarrow> nat option \<Rightarrow> int option \<Rightarrow> i2c_st \<Rightarrow> esp_err \<times> int option \<times> i2c_st" where
  "bq27441_read_avg_current_ma drv h out s =
     (if h = None \<or> out = None then (ESP_ERR_INVALID_ARG, out, s)
      else let (ret, raw, s1) = cmd_read16 drv h BQ27441_CMD_AVG_CURRENT 0 s
           in (ret, if ret = ESP_OK then Some (sint raw) else out, s1))"

text \<open>\<open>rc\<close> is the static \<open>read_count\<close>: every thirtieth call also reads the control
  word for a log line.\<close>

definition bq27441_read_status ::
  "i2c_drv \<Rightarrow> nat option \<Rightarrow> nat \<Rightarrow> bq27441_status option \<Rightarrow> i2c_st \<Rightarrow>
   esp_err \<times> bq27441_status option \<times> nat \<times> i2c_st" where
  "bq27441_read_status drv h rc out s =
     (if h = None \<or> out = None then (ESP_ERR_INVALID_ARG, out, rc, s)
      else
        let (ret, raw_v, s1) = cmd_read16 drv h BQ27441_CMD_VOLTAGE 0 s
        in if ret \<noteq> ESP_OK then (ret, out, rc, s1)
           else
             let (ret, raw_soc, s2) = cmd_read16 drv h BQ27441_CMD_SOC 0 s1
             in if ret \<noteq> ESP_OK then (ret, out, rc, s2)
                else
                  let (ret, raw_cur, s3) = cmd_read16 drv h BQ27441_CMD_AVG_CURRENT 0 s2
                  in if ret \<noteq> ESP_OK then (ret, out, rc, s3)
                     else
                       let (ret, raw_pwr, s4) = cmd_read16 drv h BQ27441_CMD_AVG_POWER 0 s3
                       in if ret \<noteq> ESP_OK then (ret, out, rc, s4)
                          else
                            let (ret, fl, s5) = cmd_read16 drv h BQ27441_CMD_FLAGS 0 s4
                            in if ret \<noteq> ESP_OK then (ret, out, rc, s5)
                               else
                                 let st = \<lparr>gauge_voltage_mv = raw_v, soc_pct = soc_clamp raw_soc,
                                           avg_current_ma = sint raw_cur,
                                           avg_power_mw = sint raw_pwr, gauge_flags = fl,
                                           fully_charged = (fl AND BQ27441_FLAG_FC \<noteq> 0),
                                           critical_low = (fl AND BQ27441_FLAG_SOCF \<noteq> 0),
                                           battery_present = (fl AND BQ27441_FLAG_BAT_DET \<noteq> 0)\<rparr>
                                 in if rc + 1 \<ge> 30
                                    then (ESP_OK, Some st, 0,
                                          snd (snd (cmd_read16 drv h BQ27441_CMD_CONTROL 0 s5)))
                                    else (ESP_OK, Some st, rc + 1, s5))"

section \<open>Capacity reprogramming\<close>

text \<open>Both polling loops: at most \<open>n\<close> rounds of a 50 ms delay and a read of the flags,
  left when a read succeeds and the CFGUPD flag is \<open>want\<close>.\<close>

fun poll_cfgupd ::
  "i2c_drv \<Rightarrow> nat option \<Rightarrow> bool \<Rightarrow> nat \<Rightarrow> u16 \<Rightarrow> i2c_st \<Rightarrow> u16 \<times> i2c_st" where
  "poll_cfgupd drv h want 0 flags s = (flags, s)"
| "poll_cfgupd drv h want (Suc n) flags s =
     (let (ret, flags1, s1) = cmd_read16 drv h BQ27441_CMD_FLAGS flags (delay_ms 50 s)
      in if ret = ESP_OK \<and> (flags1 AND BQ27441_FLAG_CFGUPD \<noteq> 0) = want then (flags1, s1)
         else poll_cfgupd drv h want n flags1 s1)"

definition seal_exit :: "i2c_drv \<Rightarrow> nat option \<Rightarrow> esp_err \<Rightarrow> i2c_st \<Rightarrow> esp_err \<times> i2c_st" where
  "seal_exit drv h ret s =
     (let (_, s1) = ctrl_write drv h BQ27441_CTRL_SEAL s in (ret, delay_ms 100 s1))"

definition soft_reset_exit ::
  "i2c_drv \<Rightarrow> nat option \<Rightarrow> u16 \<Rightarrow> bool \<Rightarrow> u16 \<Rightarrow> esp_err \<Rightarrow> i2c_st \<Rightarrow> esp_err \<times> i2c_st" where
  "soft_reset_exit drv h capacity_mah did_write flags ret s =
     (let (_, s1) = ctrl_write drv h BQ27441_CTRL_IT_ENABLE s;
          (_, s2) = ctrl_write drv h BQ27441_CTRL_EXIT_RESIM (delay_ms 50 s1);
          (_, s3) = poll_cfgupd drv h False 20 flags (delay_ms 500 s2);
          (_, s4) = ctrl_write drv h BQ27441_CTRL_UNSEAL_KEY s3;
          (_, s5) = ctrl_write drv h BQ27441_CTRL_UNSEAL_KEY (delay_ms 50 s4);
          s6 = delay_ms 200 s5
      in if did_write
         then let (r, v_cap, s7) = cmd_read16 drv h BQ27441_CMD_DESIGN_CAP 0 s6
              in seal_exit drv h
                   (if r = ESP_OK \<and> v_cap \<noteq> capacity_mah then ESP_ERR_INVALID_RESPONSE else ret) s7
         else seal_exit drv h ret s6)"

definition design_energy_of :: "u16 \<Rightarrow> u16" where
  "design_energy_of capacity_mah =
     (let e32 = (ucast capacity_mah * 37 :: u32) div 10
      in if e32 > 0xFFFF then 0xFFFF else ucast e32)"

definition patch_block :: "u16 \<Rightarrow> u8 list \<Rightarrow> u8 list" where
  "patch_block capacity_mah block =
     block[BQ27441_DESIGN_CAP_OFFSET := hi8 capacity_mah,
           BQ27441_DESIGN_CAP_OFFSET + 1 := lo8 capacity_mah,
           BQ27441_DESIGN_ENERGY_OFFSET := hi8 (design_energy_of capacity_mah),
           BQ27441_DESIGN_ENERGY_OFFSET + 1 := lo8 (design_energy_of capacity_mah)]"

definition block_checksum :: "u8 list \<Rightarrow> u8" where
  "block_checksum block = 0xFF - foldl (+) 0 block"

definition wr1 :: "i2c_drv \<Rightarrow> nat option \<Rightarrow> u8 \<Rightarrow> u8 \<Rightarrow> i2c_st \<Rightarrow> esp_err \<times> i2c_st" where
  "wr1 drv h reg v s = i2c_dev_support_write drv h (Some [reg, v]) 50 s"

text \<open>Steps 4-6 of the sequence: data-flash class 82, block 0.\<close>

definition df_select_block :: "i2c_drv \<Rightarrow> nat option \<Rightarrow> i2c_st \<Rightarrow> esp_err \<times> i2c_st" where
  "df_select_block drv h s =
     (let (ret, s1) = wr1 drv h BQ27441_CMD_BLOCK_DATA_CTRL 0x00 s
      in if ret \<noteq> ESP_OK then (ret, s1)
         else
           let (ret, s2) = wr1 drv h BQ27441_CMD_BLOCK_DATA_CLASS BQ27441_DF_CLASS_STATE
                             (delay_ms 5 s1)
           in if ret \<noteq> ESP_OK then (ret, s2)
              else
                let (ret, s3) = wr1 drv h BQ27441_CMD_BLOCK_DATA_OFFSET 0x00 (delay_ms 5 s2)
                in if ret \<noteq> ESP_OK then (ret, s3) else (ESP_OK, delay_ms 5 s3))"

text \<open>Steps 9-11: the whole block in one write, then its checksum.\<close>

definition commit_block :: "i2c_drv \<Rightarrow> nat option \<Rightarrow> u8 list \<Rightarrow> i2c_st \<Rightarrow> esp_err \<times> i2c_st" where
  "commit_block drv h block s =
     (let (ret, s1) = i2c_dev_support_write drv h (Some (BQ27441_CMD_BLOCK_DATA # block)) 200 s
      in if ret \<noteq> ESP_OK then (ret, s1)
         else
           let (ret, s2) = wr1 drv h BQ27441_CMD_BLOCK_DATA_CHECK (block_checksum block)
                             (delay_ms 10 s1)
           in if ret \<noteq> ESP_OK then (ret, s2) else (ESP_OK, delay_ms 200 s2))"

definition block_update ::
  "i2c_drv \<Rightarrow> nat option \<Rightarrow> u16 \<Rightarrow> u16 \<Rightarrow> i2c_st \<Rightarrow> esp_err \<times> i2c_st" where
  "block_update drv h capacity_mah flags s =
     (let soft_reset = soft_reset_exit drv h capacity_mah;
          (ret, s1) = df_select_block drv h s
      in if ret \<noteq> ESP_OK then soft_reset False flags ret s1
         else
           let (ret, block, s2) =
                 i2c_dev_support_write_read drv h (Some [BQ27441_CMD_BLOCK_DATA]) 32 200 s1
           in if ret \<noteq> ESP_OK then soft_reset False flags ret s2
              else if be16 (block ! BQ27441_DESIGN_CAP_OFFSET)
                        (block ! (BQ27441_DESIGN_CAP_OFFSET + 1)) = capacity_mah \<and>
                      be16 (block ! BQ27441_DESIGN_ENERGY_OFFSET)
                        (block ! (BQ27441_DESIGN_ENERGY_OFFSET + 1)) = design_energy_of capacity_mah
              then soft_reset False flags ESP_OK s2
              else
                let (ret, s3) = commit_block drv h (patch_block capacity_mah block) s2
                in if ret \<noteq> ESP_OK then soft_reset False flags ret s3
                   else soft_reset True flags ESP_OK s3)"

text \<open>From step 1b on, the gauge being unsealed.\<close>

definition reprogram_unsealed ::
  "i2c_drv \<Rightarrow> nat option \<Rightarrow> u16 \<Rightarrow> i2c_st \<Rightarrow> esp_err \<times> i2c_st" where
  "reprogram_unsealed drv h capacity_mah s2 =
     (let (_, s3) = ctrl_write drv h BQ27441_CTRL_STATUS (delay_ms 200 s2);
          (_, cs, s4) = cmd_read16 drv h BQ27441_CMD_CONTROL 0 (delay_ms 5 s3)
      in if drop_bit 14 cs AND 0x03 = 0x03 then seal_exit drv h ESP_ERR_NOT_SUPPORTED s4
         else
           let (_, s5) = ctrl_write drv h BQ27441_CTRL_EXIT_HIBERNATE s4;
               (ret, s6) = ctrl_write drv h BQ27441_CTRL_SET_CFGUPDATE (delay_ms 50 s5)
           in if ret \<noteq> ESP_OK then seal_exit drv h ret s6
              else
                let (flags, s7) = poll_cfgupd drv h True 60 0 s6
                in if flags AND BQ27441_FLAG_CFGUPD = 0
                   then soft_reset_exit drv h capacity_mah False flags ESP_ERR_TIMEOUT s7
                   else block_update drv h capacity_mah flags s7)"

definition bq27441_reprogram_capacity ::
  "i2c_drv \<Rightarrow> nat option \<Rightarrow> u16 \<Rightarrow> i2c_st \<Rightarrow> esp_err \<times> i2c_st" where
  "bq27441_reprogram_capacity drv h capacity_mah s =
     (if h = None then (ESP_ERR_INVALID_STATE, s)
      else
        let (ret, s1) = ctrl_write drv h BQ27441_CTRL_UNSEAL_KEY s
        in if ret \<noteq> ESP_OK then (ret, s1)
           else
             let (ret, s2) = ctrl_write drv h BQ27441_CTRL_UNSEAL_KEY (delay_ms 50 s1)
             in if ret \<noteq> ESP_OK then (ret, s2) else reprogram_unsealed drv h capacity_mah s2)"

definition bq27441_read_design_capacity ::
  "i2c_drv \<Rightarrow> nat option \<Rightarrow> u16 option \<Rightarrow> i2c_st \<Rightarrow> esp_err \<times> u16 option \<times> i2c_st" where
  "bq27441_read_design_capacity drv h out s =
     (if h = None \<or> out = None then (ESP_ERR_INVALID_ARG, out, s)
      else
        let (ret, s1) = ctrl_write drv h BQ27441_CTRL_UNSEAL_KEY s
        in if ret \<noteq> ESP_OK then (ret, out, s1)
           else
             let (ret, s2) = ctrl_write drv h BQ27441_CTRL_UNSEAL_KEY (delay_ms 50 s1)
             in if ret \<noteq> ESP_OK then (ret, out, s2)
                else
                  let (ret, s3) = df_select_block drv h (delay_ms 200 s2);
                      (ret, out1, s4) =
                        (if ret \<noteq> ESP_OK then (ret, out, s3)
                         else
                           let (ret, block, s4) =
                                 i2c_dev_support_write_read drv h
                                   (Some [BQ27441_CMD_BLOCK_DATA]) 32 200 s3
                           in (ret,
                               if ret \<noteq> ESP_OK then out
                               else Some (be16 (block ! BQ27441_DESIGN_CAP_OFFSET)
                                            (block ! (BQ27441_DESIGN_CAP_OFFSET + 1))), s4));
                      (ret1, s5) = seal_exit drv h ret s4
                  in (ret1, out1, s5))"

section \<open>Charge from voltage\<close>

definition ocv_soc_table :: "(u16 \<times> u8) list" where
  "ocv_soc_table =
     [(3000, 0), (3200, 3), (3400, 5), (3600, 10), (3700, 20),
      (3750, 30), (3800, 40), (3850, 50), (3900, 60), (3950, 70),
      (4000, 80), (4050, 85), (4100, 90), (4150, 95), (4200, 100)]"

text \<open>The interpolation loop over the pairs of neighbours. The products stay below
  \<open>2 ^ 32\<close>, so C's \<open>int\<close> arithmetic is that of the integers; the result is cast to 16
  and then to 8 bits.\<close>

fun ocv_interpolate :: "(u16 \<times> u8) list \<Rightarrow> u16 \<Rightarrow> u8" where
  "ocv_interpolate ((v1, soc1) # (v2, soc2) # rest) v =
     (if v1 \<le> v \<and> v \<le> v2
      then let dv = v2 - v1; ds = (if soc2 > soc1 then uint soc2 - uint soc1 else 0)
           in ucast (word_of_int (uint soc1 + ds * (uint v - uint v1) div uint dv) :: u16)
      else ocv_interpolate ((v2, soc2) # rest) v)"
| "ocv_interpolate _ v = 0"

definition bq27441_estimate_soc_from_ocv :: "u16 \<Rightarrow> u8" where
  "bq27441_estimate_soc_from_ocv v =
     (if v \<le> fst (hd ocv_soc_table) then snd (hd ocv_soc_table)
      else if v \<ge> fst (last ocv_soc_table) then snd (last ocv_soc_table)
      else ocv_interpolate ocv_soc_table v)"

text \<open>A table whose voltages grow strictly and whose percentages never fall.\<close>

fun table_ok :: "(u16 \<times> u8) list \<Rightarrow> bool" where
  "table_ok ((v1, s1) # (v2, s2) # rest) \<longleftrightarrow> v1 < v2 \<and> s1 \<le> s2 \<and> table_ok ((v2, s2) # rest)"
| "table_ok _ = True"

definition seg :: "u16 \<Rightarrow> u8 \<Rightarrow> u16 \<Rightarrow> u8 \<Rightarrow> u16 \<Rightarrow> int" where
  "seg v1 s1 v2 s2 v =
     uint s1 + (uint s2 - uint s1) * (uint v - uint v1) div (uint v2 - uint v1)"

lemma seg_bounds:
  assumes "v1 < v2" and "s1 \<le> s2" and "v1 \<le> v" and "v \<le> v2"
  shows "uint s1 \<le> seg v1 s1 v2 s2 v" and "seg v1 s1 v2 s2 v \<le> uint s2"
proof -
  let ?dv = "uint v2 - uint v1" and ?ds = "uint s2 - uint s1" and ?x = "uint v - uint v1"
  have dv: "0 < ?dv" and ds: "0 \<le> ?ds" and x: "0 \<le> ?x" "?x \<le> ?dv"
    using assms by (simp_all add: word_less_def word_le_def)
  have "0 \<le> ?ds * ?x div ?dv"
    using dv ds x by (simp add: pos_imp_zdiv_nonneg_iff)
  then show "uint s1 \<le> seg v1 s1 v2 s2 v" by (simp add: seg_def)
  have "?ds * ?x div ?dv \<le> ?ds * ?dv div ?dv"
    using dv ds x by (intro zdiv_mono1 mult_left_mono)
  with dv show "seg v1 s1 v2 s2 v \<le> uint s2" by (simp add: seg_def)
qed

lemma seg_mono:
  assumes "v1 < v2" and "s1 \<le> s2" and "v \<le> w"
  shows "seg v1 s1 v2 s2 v \<le> seg v1 s1 v2 s2 w"
  unfolding seg_def using assms
  by (intro add_left_mono zdiv_mono1 mult_left_mono) (simp_all add: word_less_def word_le_def)

lemma ocv_interpolate_seg:
  assumes "v1 < v2" and "s1 \<le> s2" and "v1 \<le> v" and "v \<le> v2"
  shows "uint (ocv_interpolate ((v1, s1) # (v2, s2) # rest) v) = seg v1 s1 v2 s2 v"
proof -
  have dv: "uint (v2 - v1) = uint v2 - uint v1"
    using assms(1) by (simp add: uint_sub_lem [symmetric] word_less_def)
  have ds: "(if s2 > s1 then uint s2 - uint s1 else 0) = uint s2 - uint s1"
    using assms(2) by (auto simp: word_le_less_eq)
  have "0 \<le> seg v1 s1 v2 s2 v" "seg v1 s1 v2 s2 v < 256"
    using seg_bounds [OF assms] unsigned_greater_eq [of s1, where 'a = int]
      unsigned_less [of s2, where 'a = int] by (linarith, simp)
  then have "uint (ucast (word_of_int (seg v1 s1 v2 s2 v) :: u16) :: u8) = seg v1 s1 v2 s2 v"
    by (simp add: unsigned_ucast_eq unsigned_of_int take_bit_int_eq_self)
  with assms(3,4) show ?thesis
    unfolding seg_def by (simp add: Let_def dv ds)
qed

lemma ocv_interpolate_range:
  assumes "table_ok ((v1, s1) # t)" and "t \<noteq> []" and "v1 \<le> v" and "v \<le> fst (last t)"
  shows "s1 \<le> ocv_interpolate ((v1, s1) # t) v \<and>
    ocv_interpolate ((v1, s1) # t) v \<le> snd (last t)"
  using assms
proof (induction t arbitrary: v1 s1)
  case Nil
  then show ?case by simp
next
  case (Cons p t)
  obtain v2 s2 where p: "p = (v2, s2)" by fastforce
  have ok: "v1 < v2" "s1 \<le> s2" "table_ok ((v2, s2) # t)" using Cons.prems(1) by (auto simp: p)
  have last_ge: "s2 \<le> snd (last ((v2, s2) # t))"
    using ok(3)
  proof (induction t arbitrary: v2 s2)
    case (Cons q t)
    then show ?case by (cases q) (auto simp: order_trans)
  qed simp
  show ?case
  proof (cases "v \<le> v2")
    case True
    note seg = seg_bounds [OF ok(1,2) Cons.prems(3) True]
      ocv_interpolate_seg [OF ok(1,2) Cons.prems(3) True, of t]
    then have "s1 \<le> ocv_interpolate ((v1, s1) # p # t) v"
      and "ocv_interpolate ((v1, s1) # p # t) v \<le> s2"
      unfolding p word_le_def by simp_all
    with last_ge show ?thesis by (auto simp: p)
  next
    case False
    then have "t \<noteq> []" using Cons.prems(4) p by auto
    with False have "s2 \<le> ocv_interpolate ((v2, s2) # t) v \<and>
        ocv_interpolate ((v2, s2) # t) v \<le> snd (last t)"
      using Cons.prems(4) p by (intro Cons.IH ok(3)) auto
    with False ok(2) \<open>t \<noteq> []\<close> show ?thesis by (auto simp: p)
  qed
qed

lemma ocv_interpolate_mono:
  assumes "table_ok ((v1, s1) # t)" and "t \<noteq> []" and "v1 \<le> v" and "v \<le> w" and "w \<le> fst (last t)"
  shows "ocv_interpolate ((v1, s1) # t) v \<le> ocv_interpolate ((v1, s1) # t) w"
  using assms
proof (induction t arbitrary: v1 s1)
  case Nil
  then show ?case by simp
next
  case (Cons p t)
  obtain v2 s2 where p: "p = (v2, s2)" by fastforce
  have ok: "v1 < v2" "s1 \<le> s2" "table_ok ((v2, s2) # t)" using Cons.prems(1) by (auto simp: p)
  have w1: "v1 \<le> w" using Cons.prems(3,4) by simp
  consider (both) "w \<le> v2" | (split) "v \<le> v2" "\<not> w \<le> v2" | (rest) "\<not> v \<le> v2" "\<not> w \<le> v2"
    using Cons.prems(4) by fastforce
  then show ?case
  proof cases
    case both
    then have v2: "v \<le> v2" using Cons.prems(4) by simp
    show ?thesis
      unfolding word_le_def p ocv_interpolate_seg [OF ok(1,2) w1 both]
        ocv_interpolate_seg [OF ok(1,2) Cons.prems(3) v2]
      by (rule seg_mono [OF ok(1,2) Cons.prems(4)])
  next
    case split
    then have "t \<noteq> []" using Cons.prems(5) p by auto
    have "ocv_interpolate ((v1, s1) # p # t) v \<le> s2"
      unfolding word_le_def p ocv_interpolate_seg [OF ok(1,2) Cons.prems(3) split(1)]
      by (rule seg_bounds(2) [OF ok(1,2) Cons.prems(3) split(1)])
    also have "s2 \<le> ocv_interpolate ((v2, s2) # t) w"
      using ocv_interpolate_range [OF ok(3) \<open>t \<noteq> []\<close>, of w] split(2) Cons.prems(5) \<open>t \<noteq> []\<close> by simp
    finally show ?thesis using split \<open>t \<noteq> []\<close> by (cases t) (auto simp: p)
  next
    case rest
    then have "t \<noteq> []" using Cons.prems(5) p by auto
    then have "ocv_interpolate ((v2, s2) # t) v \<le> ocv_interpolate ((v2, s2) # t) w"
      using rest Cons.prems p by (intro Cons.IH ok(3)) auto
    with rest show ?thesis by (simp add: p)
  qed
qed

lemma ocv_table_ok: "table_ok ocv_soc_table"
  by code_simp

lemma ocv_estimate_props:
  shows ocv_estimate_le_100: "bq27441_estimate_soc_from_ocv v \<le> 100"
    and ocv_estimate_mono: "v \<le> w \<Longrightarrow>
      bq27441_estimate_soc_from_ocv v \<le> bq27441_estimate_soc_from_ocv w"
proof -
  obtain t where t: "ocv_soc_table = (3000, 0) # t" "t \<noteq> []" "last t = (4200, 100)"
    by (simp add: ocv_soc_table_def)
  have ok: "table_ok ((3000, 0) # t)" using ocv_table_ok by (simp add: t)
  have est: "bq27441_estimate_soc_from_ocv u =
      (if u \<le> 3000 then 0 else if u \<ge> 4200 then 100 else ocv_interpolate ((3000, 0) # t) u)" for u
    by (simp add: bq27441_estimate_soc_from_ocv_def t)
  have r: "ocv_interpolate ((3000, 0) # t) u \<le> 100" if "3000 \<le> u" "u \<le> 4200" for u
    using ocv_interpolate_range [OF ok t(2), of u] that t(3) by simp
  have lin: "u \<le> 3000 \<or> 4200 \<le> u \<or> 3000 \<le> u \<and> u \<le> 4200" for u :: u16 by auto
  show "bq27441_estimate_soc_from_ocv v \<le> 100" for v
    using r [of v] by (auto simp: est)
  show "bq27441_estimate_soc_from_ocv v \<le> bq27441_estimate_soc_from_ocv w" if "v \<le> w" for v w
    using ocv_interpolate_mono [OF ok t(2), of v w] r [of v] that t(3)
    by (auto simp: est)
qed

section \<open>What the gauge calls put on the bus\<close>

definition tx16 :: "nat \<Rightarrow> u16 \<Rightarrow> i2c_txn" where
  "tx16 d c = I2cTx d [BQ27441_CMD_CONTROL, lo8 c, hi8 c] 50"

text \<open>The writes that reach the gauge's data flash: the block buffer and its checksum.\<close>

fun is_flash_write :: "i2c_txn \<Rightarrow> bool" where
  "is_flash_write (I2cTx d (r # bs) tmo) \<longleftrightarrow>
     r = BQ27441_CMD_BLOCK_DATA \<or> r = BQ27441_CMD_BLOCK_DATA_CHECK"
| "is_flash_write t \<longleftrightarrow> False"

abbreviation sealing :: "nat \<Rightarrow> i2c_txn list" where
  "sealing d \<equiv> [tx16 d BQ27441_CTRL_SEAL, DelayMs 100]"

lemma ctrl_write_bus:
  "i2c_hist (snd (ctrl_write drv (Some d) c s)) = i2c_hist s @ [tx16 d c]"
  by (simp add: ctrl_write_def i2c_ops tx16_def)

lemma cmd_read16_bus:
  "i2c_hist (snd (snd (cmd_read16 drv (Some d) c v s))) = i2c_hist s @ [I2cTxRx d [c] 2 50]"
  by (simp add: cmd_read16_def i2c_ops)

lemma wr1_bus: "i2c_hist (snd (wr1 drv (Some d) r v s)) = i2c_hist s @ [I2cTx d [r, v] 50]"
  by (simp add: wr1_def i2c_ops)

lemmas gauge_bus = ctrl_write_bus cmd_read16_bus wr1_bus

lemma seal_exit_bus:
  "fst (seal_exit drv (Some d) ret s) = ret"
  "i2c_hist (snd (seal_exit drv (Some d) ret s)) =
     i2c_hist s @ sealing d"
  by (simp_all add: seal_exit_def case_prod_beta gauge_bus)

lemma no_flash_tx16 [simp]: "\<not> is_flash_write (tx16 d c)"
  by (simp add: tx16_def)

lemma poll_cfgupd_bus:
  "\<exists>ts. i2c_hist (snd (poll_cfgupd drv (Some d) want n flags s)) = i2c_hist s @ ts \<and>
     filter is_flash_write ts = []"
proof (induction n arbitrary: flags s)
  case 0
  show ?case by simp
next
  case (Suc n)
  obtain ret fl s1 where c:
    "cmd_read16 drv (Some d) BQ27441_CMD_FLAGS flags (delay_ms 50 s) = (ret, fl, s1)"
    by (metis prod_cases3)
  then have s1: "i2c_hist s1 = i2c_hist s @ [DelayMs 50, I2cTxRx d [BQ27441_CMD_FLAGS] 2 50]"
    using cmd_read16_bus [of drv d BQ27441_CMD_FLAGS flags "delay_ms 50 s"] by simp
  show ?case using Suc.IH [of fl s1] by (auto simp: c s1)
qed

lemma soft_reset_bus:
  "\<exists>ts. i2c_hist (snd (soft_reset_exit drv (Some d) cap w fl ret s)) =
     i2c_hist s @ ts @ sealing d \<and> filter is_flash_write ts = []"
proof -
  obtain s2 where s2: "soft_reset_exit drv (Some d) cap w fl ret s =
      (let (_, s3) = poll_cfgupd drv (Some d) False 20 fl s2;
          (_, s4) = ctrl_write drv (Some d) BQ27441_CTRL_UNSEAL_KEY s3;
          (_, s5) = ctrl_write drv (Some d) BQ27441_CTRL_UNSEAL_KEY (delay_ms 50 s4);
          s6 = delay_ms 200 s5
      in if w
         then let (r, v_cap, s7) = cmd_read16 drv (Some d) BQ27441_CMD_DESIGN_CAP 0 s6
              in seal_exit drv (Some d)
                   (if r = ESP_OK \<and> v_cap \<noteq> cap then ESP_ERR_INVALID_RESPONSE else ret) s7
         else seal_exit drv (Some d) ret s6)"
    and h2: "i2c_hist s2 = i2c_hist s @ [tx16 d BQ27441_CTRL_IT_ENABLE, DelayMs 50,
       tx16 d BQ27441_CTRL_EXIT_RESIM, DelayMs 500]"
    by (simp add: soft_reset_exit_def case_prod_beta Let_def gauge_bus)
  obtain fl3 s3 where p: "poll_cfgupd drv (Some d) False 20 fl s2 = (fl3, s3)" by fastforce
  with poll_cfgupd_bus [of drv d False 20 fl s2] obtain ts where
    "i2c_hist s3 = i2c_hist s2 @ ts" "filter is_flash_write ts = []" by auto
  then show ?thesis
    unfolding s2 p by (auto simp: case_prod_beta Let_def gauge_bus seal_exit_bus h2)
qed

lemma df_select_bus:
  "\<exists>ts. i2c_hist (snd (df_select_block drv (Some d) s)) = i2c_hist s @ ts \<and>
     filter is_flash_write ts = []"
  by (simp add: df_select_block_def case_prod_beta Let_def gauge_bus)

text \<open>The two writes that commit a block.\<close>

abbreviation block_txn :: "nat \<Rightarrow> u8 list \<Rightarrow> i2c_txn" where
  "block_txn d b \<equiv> I2cTx d (BQ27441_CMD_BLOCK_DATA # b) 200"

abbreviation check_txn :: "nat \<Rightarrow> u8 list \<Rightarrow> i2c_txn" where
  "check_txn d b \<equiv> I2cTx d [BQ27441_CMD_BLOCK_DATA_CHECK, block_checksum b] 50"

lemma commit_block_bus:
  "\<exists>ts. i2c_hist (snd (commit_block drv (Some d) b s)) = i2c_hist s @ block_txn d b # ts \<and>
     filter is_flash_write ts =
       (if resp_err (drv (i2c_hist s) (block_txn d b)) = ESP_OK then [check_txn d b] else [])"
proof (cases "resp_err (drv (i2c_hist s) (block_txn d b)) = ESP_OK")
  case True
  then show ?thesis
    by (simp add: commit_block_def i2c_ops case_prod_beta Let_def gauge_bus)
next
  case False
  then show ?thesis by (simp add: commit_block_def i2c_ops)
qed

text \<open>What a reprogramming run may write to the flash, \<open>hist\<close> being the transactions before
  it: nothing, or one block, directly after a read that was answered, and equal to the block read
  with its capacity bytes patched; the checksum of that block follows exactly when the
  block was acknowledged.\<close>

definition flash_trace_ok :: "i2c_drv \<Rightarrow> nat \<Rightarrow> u16 \<Rightarrow> i2c_txn list \<Rightarrow> i2c_txn list \<Rightarrow> bool" where
  "flash_trace_ok drv d cap hist ts \<longleftrightarrow> filter is_flash_write ts = [] \<or>
     (\<exists>pre post. let rd = I2cTxRx d [BQ27441_CMD_BLOCK_DATA] 32 200;
            answer = drv (hist @ pre) rd;
            b = patch_block cap (map (resp_data answer) [0..<32])
        in ts = pre @ rd # block_txn d b # post \<and> resp_err answer = ESP_OK \<and>
           filter is_flash_write pre = [] \<and>
           filter is_flash_write post =
             (if resp_err (drv (hist @ pre @ [rd]) (block_txn d b)) = ESP_OK
              then [check_txn d b] else []))"

lemma flash_trace_none: "filter is_flash_write ts = [] \<Longrightarrow> flash_trace_ok drv d cap hist ts"
  by (simp add: flash_trace_ok_def)

lemma flash_trace_prefix:
  assumes us: "filter is_flash_write us = []" and ok: "flash_trace_ok drv d cap (hist @ us) ts"
  shows "flash_trace_ok drv d cap hist (us @ ts)"
proof (cases "filter is_flash_write ts = []")
  case True
  with us show ?thesis by (simp add: flash_trace_none)
next
  case False
  with ok obtain pre post where "let rd = I2cTxRx d [BQ27441_CMD_BLOCK_DATA] 32 200;
      answer = drv ((hist @ us) @ pre) rd; b = patch_block cap (map (resp_data answer) [0..<32])
    in ts = pre @ rd # block_txn d b # post \<and> resp_err answer = ESP_OK \<and>
       filter is_flash_write pre = [] \<and> filter is_flash_write post =
         (if resp_err (drv ((hist @ us) @ pre @ [rd]) (block_txn d b)) = ESP_OK
          then [check_txn d b] else [])"
    unfolding flash_trace_ok_def by blast
  with us show ?thesis
    unfolding flash_trace_ok_def Let_def by (intro disjI2 exI [of _ "us @ pre"] exI [of _ post]) simp
qed

lemma flash_trace_suffix:
  assumes vs: "filter is_flash_write vs = []" and ok: "flash_trace_ok drv d cap hist ts"
  shows "flash_trace_ok drv d cap hist (ts @ vs)"
proof (cases "filter is_flash_write ts = []")
  case True
  with vs show ?thesis by (simp add: flash_trace_none)
next
  case False
  with ok obtain pre post where "let rd = I2cTxRx d [BQ27441_CMD_BLOCK_DATA] 32 200;
      answer = drv (hist @ pre) rd; b = patch_block cap (map (resp_data answer) [0..<32])
    in ts = pre @ rd # block_txn d b # post \<and> resp_err answer = ESP_OK \<and>
       filter is_flash_write pre = [] \<and> filter is_flash_write post =
         (if resp_err (drv (hist @ pre @ [rd]) (block_txn d b)) = ESP_OK
          then [check_txn d b] else [])"
    unfolding flash_trace_ok_def by blast
  with vs show ?thesis
    unfolding flash_trace_ok_def Let_def by (intro disjI2 exI [of _ pre] exI [of _ "post @ vs"]) simp
qed

definition sealed_run :: "i2c_drv \<Rightarrow> nat \<Rightarrow> u16 \<Rightarrow> i2c_st \<Rightarrow> i2c_st \<Rightarrow> bool" where
  "sealed_run drv d cap s s1 \<longleftrightarrow>
     (\<exists>ts. i2c_hist s1 = i2c_hist s @ ts @ sealing d \<and> flash_trace_ok drv d cap (i2c_hist s) ts)"

lemma sealed_run_prefix:
  assumes "i2c_hist s1 = i2c_hist s @ us" and "filter is_flash_write us = []"
    and "sealed_run drv d cap s1 s2"
  shows "sealed_run drv d cap s s2"
proof -
  from assms(3) obtain ts where "i2c_hist s2 = i2c_hist s1 @ ts @ sealing d"
    "flash_trace_ok drv d cap (i2c_hist s1) ts" by (auto simp: sealed_run_def)
  with assms(1,2) show ?thesis
    unfolding sealed_run_def by (intro exI [of _ "us @ ts"]) (simp add: flash_trace_prefix)
qed

lemma seal_exit_run: "sealed_run drv d cap s (snd (seal_exit drv (Some d) ret s))"
  by (auto simp: sealed_run_def seal_exit_bus flash_trace_none intro: exI [of _ "[]"])

lemma soft_reset_after:
  assumes "i2c_hist s' = i2c_hist s @ us" and "flash_trace_ok drv d cap (i2c_hist s) us"
  shows "sealed_run drv d cap s (snd (soft_reset_exit drv (Some d) cap w fl ret s'))"
proof -
  obtain vs where "i2c_hist (snd (soft_reset_exit drv (Some d) cap w fl ret s')) =
      i2c_hist s' @ vs @ sealing d" "filter is_flash_write vs = []"
    using soft_reset_bus by blast
  with assms show ?thesis
    unfolding sealed_run_def by (intro exI [of _ "us @ vs"]) (simp add: flash_trace_suffix)
qed

lemma soft_reset_run: "sealed_run drv d cap s (snd (soft_reset_exit drv (Some d) cap w fl ret s))"
  by (rule soft_reset_after [of _ _ "[]"]) (simp_all add: flash_trace_none)

lemma block_update_bus:
  "sealed_run drv d cap s (snd (block_update drv (Some d) cap fl s))"
proof -
  obtain r1 s1 where sel: "df_select_block drv (Some d) s = (r1, s1)" by fastforce
  with df_select_bus [of drv d s] obtain ts1 where
    h1: "i2c_hist s1 = i2c_hist s @ ts1" "filter is_flash_write ts1 = []" by auto
  let ?rd = "I2cTxRx d [BQ27441_CMD_BLOCK_DATA] 32 200"
  let ?b = "map (resp_data (drv (i2c_hist s1) ?rd)) [0..<32]"
  let ?p = "patch_block cap ?b"
  let ?s2 = "s1\<lparr>i2c_hist := i2c_hist s1 @ [?rd]\<rparr>"
  obtain r3 s3 where com: "commit_block drv (Some d) ?p ?s2 = (r3, s3)" by fastforce
  with commit_block_bus [of drv d ?p ?s2] obtain ts3 where
    h3: "i2c_hist s3 = i2c_hist s1 @ ?rd # block_txn d ?p # ts3"
    "filter is_flash_write ts3 = (if resp_err (drv (i2c_hist s1 @ [?rd]) (block_txn d ?p)) = ESP_OK
       then [check_txn d ?p] else [])" by auto
  have reset1: "sealed_run drv d cap s (snd (soft_reset_exit drv (Some d) cap w fl ret s1))" for w ret
    using h1 by (intro soft_reset_after [of _ _ ts1]) (simp_all add: flash_trace_none)
  have reset2: "sealed_run drv d cap s (snd (soft_reset_exit drv (Some d) cap w fl ret ?s2))" for w ret
    using h1 by (intro soft_reset_after [of _ _ "ts1 @ [?rd]"]) (simp_all add: flash_trace_none)
  have reset3: "sealed_run drv d cap s (snd (soft_reset_exit drv (Some d) cap w fl ret s3))"
    if "resp_err (drv (i2c_hist s1) ?rd) = ESP_OK" for w ret
  proof (rule soft_reset_after [of _ _ "ts1 @ ?rd # block_txn d ?p # ts3"])
    show "flash_trace_ok drv d cap (i2c_hist s) (ts1 @ ?rd # block_txn d ?p # ts3)"
      unfolding flash_trace_ok_def Let_def
      by (intro disjI2 exI [of _ ts1] exI [of _ ts3]) (use that h1 h3(2) in simp)
  qed (use h1 h3 in simp)
  show ?thesis
    unfolding block_update_def sel Let_def i2c_ops com prod.case
    by (simp add: reset1 reset2 reset3)
qed

lemma reprogram_unsealed_run:
  "sealed_run drv d cap s (snd (reprogram_unsealed drv (Some d) cap s))"
proof -
  obtain r3 s3 where c3: "ctrl_write drv (Some d) BQ27441_CTRL_STATUS (delay_ms 200 s) = (r3, s3)"
    by fastforce
  obtain r4 cs s4 where c4: "cmd_read16 drv (Some d) BQ27441_CMD_CONTROL 0 (delay_ms 5 s3) = (r4, cs, s4)"
    by (metis prod_cases3)
  obtain r5 s5 where c5: "ctrl_write drv (Some d) BQ27441_CTRL_EXIT_HIBERNATE s4 = (r5, s5)"
    by fastforce
  obtain r6 s6 where c6: "ctrl_write drv (Some d) BQ27441_CTRL_SET_CFGUPDATE (delay_ms 50 s5) = (r6, s6)"
    by fastforce
  obtain fl s7 where c7: "poll_cfgupd drv (Some d) True 60 0 s6 = (fl, s7)" by fastforce
  have h4: "i2c_hist s4 = i2c_hist s @ [DelayMs 200, tx16 d BQ27441_CTRL_STATUS, DelayMs 5,
      I2cTxRx d [BQ27441_CMD_CONTROL] 2 50]"
    using ctrl_write_bus [of drv d BQ27441_CTRL_STATUS "delay_ms 200 s"]
      cmd_read16_bus [of drv d BQ27441_CMD_CONTROL 0 "delay_ms 5 s3"] by (simp add: c3 c4)
  have h6: "i2c_hist s6 = i2c_hist s @ [DelayMs 200, tx16 d BQ27441_CTRL_STATUS, DelayMs 5,
      I2cTxRx d [BQ27441_CMD_CONTROL] 2 50, tx16 d BQ27441_CTRL_EXIT_HIBERNATE, DelayMs 50,
      tx16 d BQ27441_CTRL_SET_CFGUPDATE]"
    using ctrl_write_bus [of drv d BQ27441_CTRL_EXIT_HIBERNATE s4]
      ctrl_write_bus [of drv d BQ27441_CTRL_SET_CFGUPDATE "delay_ms 50 s5"]
    by (simp add: c5 c6 h4)
  obtain us7 where h7: "i2c_hist s7 = i2c_hist s @ us7" "filter is_flash_write us7 = []"
    using poll_cfgupd_bus [of drv d True 60 0 s6] by (auto simp: c7 h6)
  note run = sealed_run_prefix [OF h4 _ seal_exit_run]
    sealed_run_prefix [OF h6 _ seal_exit_run] sealed_run_prefix [OF h7 soft_reset_run]
    sealed_run_prefix [OF h7 block_update_bus]
  show ?thesis
    unfolding reprogram_unsealed_def c3 c4 c5 c6 c7 Let_def prod.case by (simp add: run)
qed

text \<open>
  C17. What \<open>bq27441_reprogram_capacity\<close> sends to the fuel gauge, whatever the chip answers to any
  call. Either an unseal key was refused: then the call fails and nothing but the unseal
  attempts went out. Or the transactions of the call end with the SEAL command and its delay, on
  every path; and the flash writes among them are none, or one write of the 32-byte block, directly after
  a read of the block that was answered, and equal to what this read returned with only the
  capacity and energy bytes replaced, followed by the checksum of that block when the gauge
  acknowledged the block, by no further flash write when it did not. The answer to the SEAL command itself is not looked at: whether the
  gauge is sealed then is the gauge's (see \<open>bq27441_seal_result_ignored\<close>).
\<close>

theorem bq27441_reprogram_seals:
  "case bq27441_reprogram_capacity drv (Some d) cap s of (ret, s1) \<Rightarrow>
     let u = tx16 d BQ27441_CTRL_UNSEAL_KEY
     in ret \<noteq> ESP_OK \<and> i2c_hist s1 \<in> {i2c_hist s @ [u], i2c_hist s @ [u, DelayMs 50, u]} \<or>
        (\<exists>ts. i2c_hist s1 = i2c_hist s @ ts @ [tx16 d BQ27441_CTRL_SEAL, DelayMs 100] \<and>
           flash_trace_ok drv d cap (i2c_hist s) ts)"
proof -
  let ?u = "tx16 d BQ27441_CTRL_UNSEAL_KEY"
  obtain r1 s1 where c1: "ctrl_write drv (Some d) BQ27441_CTRL_UNSEAL_KEY s = (r1, s1)"
    by fastforce
  obtain r2 s2 where c2: "ctrl_write drv (Some d) BQ27441_CTRL_UNSEAL_KEY (delay_ms 50 s1) = (r2, s2)"
    by fastforce
  have h: "i2c_hist s1 = i2c_hist s @ [?u]" "i2c_hist s2 = i2c_hist s @ [?u, DelayMs 50, ?u]"
    using ctrl_write_bus [of drv d BQ27441_CTRL_UNSEAL_KEY s]
      ctrl_write_bus [of drv d BQ27441_CTRL_UNSEAL_KEY "delay_ms 50 s1"] by (simp_all add: c1 c2)
  have "sealed_run drv d cap s (snd (reprogram_unsealed drv (Some d) cap s2))"
    by (rule sealed_run_prefix [OF h(2) _ reprogram_unsealed_run]) simp
  then show ?thesis
    by (auto simp: bq27441_reprogram_capacity_def c1 c2 h sealed_run_def Let_def split: prod.splits)
qed

text \<open>The result of the SEAL command does not reach the caller: the exit returns what it was given,
  also when the gauge has refused the command and stays unsealed.\<close>

lemma bq27441_seal_result_ignored:
  "fst (seal_exit drv (Some d) ret s) = ret \<and>
   fst (ctrl_write (\<lambda>_ _. \<lparr>resp_err = ESP_FAIL, resp_data = \<lambda>_. 0, resp_handle = 0\<rparr>) (Some d) BQ27441_CTRL_SEAL s) \<noteq> ESP_OK \<and>
   fst (seal_exit (\<lambda>_ _. \<lparr>resp_err = ESP_FAIL, resp_data = \<lambda>_. 0, resp_handle = 0\<rparr>) (Some d) ESP_OK s) = ESP_OK"
  by (simp add: seal_exit_bus ctrl_write_def i2c_ops)

lemma foldl_plus_word: "foldl (+) (a :: u8) xs = a + sum_list xs"
  by (induction xs arbitrary: a) (simp_all add: add.assoc)

text \<open>
  The block committed to the gauge is right: the patch of a 32-byte block holds the
  capacity and the energy (3.7 mWh per mAh, saturated at 65535) big-endian in its bytes 10-13
  and keeps every other byte, and its bytes and the checksum sent after them add up to 0xFF.
\<close>

lemma bq27441_patch_block_exact:
  assumes "length block = 32"
  shows "let b = patch_block cap block in
     length b = 32 \<and> be16 (b ! 10) (b ! 11) = cap \<and>
     unat (be16 (b ! 12) (b ! 13)) = min 65535 (unat cap * 37 div 10) \<and>
     (\<forall>i. i \<notin> {10, 11, 12, 13} \<longrightarrow> b ! i = block ! i) \<and>
     sum_list b + block_checksum b = 0xFF"
proof -
  have p: "unat (ucast cap * 37 :: u32) = unat cap * 37"
    using unsigned_less [of cap, where 'a = nat]
    by (simp add: unat_word_ariths unsigned_ucast_eq take_bit_nat_eq_self)
  then have q: "unat ((ucast cap * 37 :: u32) div 10) = unat cap * 37 div 10"
    by (simp add: unat_div_distrib)
  have e: "unat (design_energy_of cap) = min 65535 (unat cap * 37 div 10)"
    using q by (auto simp: design_energy_of_def Let_def word_less_nat_alt unsigned_ucast_eq
        take_bit_nat_eq_self)
  show ?thesis
    using assms e by (simp add: Let_def patch_block_def block_checksum_def foldl_plus_word)
qed

lemma bq27441_patch_block_exact_applied:
  "let b = patch_block 3000 (replicate 32 0xAA)
   in be16 (b ! 10) (b ! 11) = 3000 \<and> unat (be16 (b ! 12) (b ! 13)) = 11100"
  using bq27441_patch_block_exact [of "replicate 32 0xAA" 3000] by (simp add: Let_def)

section \<open>The contract of a charge estimate\<close>

text \<open>What the power manager needs of an estimate: a percentage, monotone in the voltage.\<close>

locale soc_estimator =
  fixes est :: "u16 \<Rightarrow> u8"
  assumes est_le_100: "est v \<le> 100"
    and est_mono: "v \<le> w \<Longrightarrow> est v \<le> est w"
begin

lemma est_pct: "unat (est v) \<le> 100"
  using est_le_100 [of v] by (simp add: word_le_nat_alt)

lemma est_max_voltage: "est (max v w) = max (est v) (est w)"
  by (cases "v \<le> w") (use est_mono [of v w] est_mono [of w v] in \<open>auto simp: max_def\<close>)

lemma est_above: "est v < est w \<Longrightarrow> v < w"
  using est_mono [of w v] by (meson leD linorder_le_less_linear)

end

interpretation ocv: soc_estimator bq27441_estimate_soc_from_ocv
  by unfold_locales (fact ocv_estimate_le_100, fact ocv_estimate_mono)

text \<open>
  The fallback charge estimate is a percentage that never falls as the battery voltage
  rises: \<open>bq27441_estimate_soc_from_ocv\<close> is at most 100, monotone, 0 up to 3000 mV, 100
  from 4200 mV on, and a higher estimate means a higher voltage.
\<close>

lemma ocv_estimate_monotone_percentage:
  "unat (bq27441_estimate_soc_from_ocv v) \<le> 100 \<and>
   bq27441_estimate_soc_from_ocv (max v w) =
     max (bq27441_estimate_soc_from_ocv v) (bq27441_estimate_soc_from_ocv w) \<and>
   bq27441_estimate_soc_from_ocv (min v 3000) = 0 \<and>
   bq27441_estimate_soc_from_ocv (max v 4200) = 100"
proof (intro conjI)
  show "unat (bq27441_estimate_soc_from_ocv v) \<le> 100" by (rule ocv.est_pct)
  show "bq27441_estimate_soc_from_ocv (max v w) =
      max (bq27441_estimate_soc_from_ocv v) (bq27441_estimate_soc_from_ocv w)"
    by (rule ocv.est_max_voltage)
  have "fst (hd ocv_soc_table) = 3000" "snd (hd ocv_soc_table) = 0"
    "fst (last ocv_soc_table) = 4200" "snd (last ocv_soc_table) = 100"
    by (simp_all add: ocv_soc_table_def)
  moreover have "\<not> max v 4200 \<le> (3000 :: u16)" by (simp add: max_def word_le_nat_alt)
  ultimately show "bq27441_estimate_soc_from_ocv (min v 3000) = 0"
    and "bq27441_estimate_soc_from_ocv (max v 4200) = 100"
    by (simp_all add: bq27441_estimate_soc_from_ocv_def)
qed

end
