(* ===== verification/Power_Source.thy ===== *)
theory Power_Source
  imports TCA_Stack BQ25892 INA230 BQ27441
begin

text \<open>
  \<open>main/pwr_source_handler.c\<close>: the power coordinator over charger, system monitor and
  fuel gauge, with the charge controller that decides when charging stops and resumes. The
  statics of the file are \<open>charge_ctl\<close>; \<open>pwr_st\<close> adds the expanders, the I2C bus
  and the driver handles. \<open>ms2t\<close> is \<open>pdMS_TO_TICKS\<close>, \<open>now\<close> the tick count
  \<open>xTaskGetTickCount\<close> returns. The properties: charging stops only after three samples in
  a row that each justify it, resumes only after three samples of a low voltage, toggles keep
  their distance, and both the enable pin and the charger register follow.
\<close>

abbreviation "PWR_BATT_CRITICAL_SOC_PCT \<equiv> 5 :: u8"
abbreviation "PWR_BATT_CHARGE_FULL_SOC_PCT \<equiv> 100 :: u8"
abbreviation "PWR_BATT_CHARGE_MIN_STOP_MV \<equiv> 4100 :: u16"
abbreviation "PWR_BATT_CHARGE_RESUME_MV \<equiv> 4000 :: u16"
abbreviation "PWR_BATT_LOWER_THRESHOLD_MV \<equiv> 3500 :: u16"
abbreviation "CHARGE_DEBOUNCE_COUNT \<equiv> 3 :: nat"
abbreviation "CHARGE_MIN_TOGGLE_INTERVAL_MS \<equiv> 15000 :: u32"
abbreviation "STACK_GPIO_PIN_NONE \<equiv> 0xFF :: u8"
abbreviation "BC_INT_IOX_PIN \<equiv> 1 :: u8"
abbreviation "BC_CE_IOX_PIN \<equiv> 2 :: u8"
abbreviation "BC_PSEL_IOX_PIN \<equiv> 3 :: u8"
abbreviation "BC_STAT_IOX_PIN \<equiv> 4 :: u8"
abbreviation "BC_PG_IOX_PIN \<equiv> 5 :: u8"
abbreviation "BC_OTG_IOX_PIN \<equiv> STACK_GPIO_PIN_NONE"

record charge_ctl =
  s_charge_enabled_state :: bool
  s_battery_enabled_state :: bool
  s_charge_stop_counter :: nat
  s_charge_start_counter :: nat
  s_last_charge_toggle_tick :: u32

record pwr_st =
  ctl :: charge_ctl
  stk :: stack_st
  bq25892_dev :: "nat option"
  ina230_dev :: "nat option"
  bq27441_dev :: "nat option"
  fg_read_count :: nat

definition charge_ctl_boot :: charge_ctl where
  "charge_ctl_boot = \<lparr>s_charge_enabled_state = True, s_battery_enabled_state = True,
     s_charge_stop_counter = 0, s_charge_start_counter = 0, s_last_charge_toggle_tick = 0\<rparr>"

record pwr_source_status =
  vbat_mv :: u16
  ps_soc_pct :: u8
  bat_current_ma :: int
  ps_battery_present :: bool
  ps_fully_charged :: bool
  ps_critical_low :: bool
  ps_chrg_status :: u8
  ps_power_good :: bool
  ps_charge_enabled :: bool
  vsys_mv :: u16
  isys_ma :: int

definition pwr_source_status_zero :: pwr_source_status where
  "pwr_source_status_zero = \<lparr>vbat_mv = 0, ps_soc_pct = 0, bat_current_ma = 0,
     ps_battery_present = False, ps_fully_charged = False, ps_critical_low = False,
     ps_chrg_status = 0, ps_power_good = False, ps_charge_enabled = False,
     vsys_mv = 0, isys_ma = 0\<rparr>"

section \<open>Switching\<close>

abbreviation pwr_i2c :: "pwr_st \<Rightarrow> i2c_st" where
  "pwr_i2c p \<equiv> stk_i2c (stk p)"

definition set_i2c :: "i2c_st \<Rightarrow> pwr_st \<Rightarrow> pwr_st" where
  "set_i2c s p = p\<lparr>stk := (stk p)\<lparr>stk_i2c := s\<rparr>\<rparr>"

definition iox_output_init :: "i2c_drv \<Rightarrow> u8 \<Rightarrow> bool \<Rightarrow> pwr_st \<Rightarrow> pwr_st" where
  "iox_output_init drv pin default_level p =
     (if pin = STACK_GPIO_PIN_NONE then p
      else let (_, g1) = stack_handler_gpio_set_direction drv 0 pin True (stk p);
               (_, g2) = stack_handler_gpio_write drv 0 pin default_level g1
           in p\<lparr>stk := g2\<rparr>)"

definition iox_input_init :: "i2c_drv \<Rightarrow> u8 \<Rightarrow> pwr_st \<Rightarrow> pwr_st" where
  "iox_input_init drv pin p =
     (if pin = STACK_GPIO_PIN_NONE then p
      else let (_, g1) = stack_handler_gpio_set_direction drv 0 pin False (stk p) in p\<lparr>stk := g1\<rparr>)"

text \<open>The three chips fail softly: their errors are only logged. The status reads at the end
  are logged too, but they are bus traffic.\<close>

definition pwr_source_init :: "i2c_drv \<Rightarrow> pwr_st \<Rightarrow> esp_err \<times> pwr_st" where
  "pwr_source_init drv p0 =
     (let p1 = iox_output_init drv BC_CE_IOX_PIN False p0;
          p2 = p1\<lparr>ctl := (ctl p1)\<lparr>s_charge_enabled_state := True\<rparr>\<rparr>;
          p3 = iox_output_init drv BC_OTG_IOX_PIN False p2;
          p4 = iox_output_init drv BC_PSEL_IOX_PIN False p3;
          p5 = iox_input_init drv BC_PG_IOX_PIN
                 (iox_input_init drv BC_STAT_IOX_PIN (iox_input_init drv BC_INT_IOX_PIN p4));
          (_, h1, s1) = bq25892_init drv (bq25892_dev p5) (pwr_i2c p5);
          (_, h2, s2) = ina230_init drv (ina230_dev p5) s1;
          (ret, h3, s3) = bq27441_init drv (bq27441_dev p5) s2;
          s4 = (if ret \<noteq> ESP_OK then s3 else snd (bq27441_reprogram_capacity drv h3 3000 s3));
          (_, _, s5) = bq27441_read_soc_pct drv h3 (Some 0) s4;
          (_, _, s6) = bq27441_read_voltage_mv drv h3 (Some 0) s5
      in (ESP_OK, set_i2c s6 (p5\<lparr>bq25892_dev := h1, ina230_dev := h2, bq27441_dev := h3\<rparr>)))"

definition pwr_source_set_battery_enable ::
  "i2c_drv \<Rightarrow> bool \<Rightarrow> pwr_st \<Rightarrow> esp_err \<times> pwr_st" where
  "pwr_source_set_battery_enable drv enable p =
     (let p1 = p\<lparr>ctl := (ctl p)\<lparr>s_battery_enabled_state := enable\<rparr>\<rparr>;
          (ret, s1) = bq25892_set_batfet_disable drv (bq25892_dev p1) (\<not> enable) (pwr_i2c p1)
      in (ret, set_i2c s1 p1))"

definition pwr_source_set_charge_enable ::
  "i2c_drv \<Rightarrow> bool \<Rightarrow> pwr_st \<Rightarrow> esp_err \<times> pwr_st" where
  "pwr_source_set_charge_enable drv enable p =
     (let p1 = p\<lparr>ctl := (ctl p)\<lparr>s_charge_enabled_state := enable\<rparr>\<rparr>;
          p2 = (if BC_CE_IOX_PIN \<noteq> STACK_GPIO_PIN_NONE
                then p1\<lparr>stk := snd (stack_handler_gpio_write drv 0 BC_CE_IOX_PIN
                                     (if enable then False else True) (stk p1))\<rparr>
                else p1);
          (ret, s1) = bq25892_set_charge_enable drv (bq25892_dev p2) enable (pwr_i2c p2)
      in (ret, set_i2c s1 p2))"

definition pwr_source_set_otg :: "i2c_drv \<Rightarrow> bool \<Rightarrow> pwr_st \<Rightarrow> esp_err \<times> pwr_st" where
  "pwr_source_set_otg drv enable p =
     (let p1 = (if BC_OTG_IOX_PIN \<noteq> STACK_GPIO_PIN_NONE
                then p\<lparr>stk := snd (stack_handler_gpio_write drv 0 BC_OTG_IOX_PIN enable (stk p))\<rparr>
                else p);
          (ret, s1) = bq25892_set_otg drv (bq25892_dev p1) enable (pwr_i2c p1)
      in (ret, set_i2c s1 p1))"

section \<open>The status snapshot\<close>

text \<open>The gauge part of \<open>pwr_source_get_status\<close>: the voltage-based estimate replaces a
  charge of zero, and the critical flag is derived anew.\<close>

definition apply_fuel_gauge :: "bq27441_status \<Rightarrow> pwr_source_status \<Rightarrow> pwr_source_status" where
  "apply_fuel_gauge fg st =
     (let v = gauge_voltage_mv fg;
          soc = (if soc_pct fg = 0 \<and> v > 3000 then bq27441_estimate_soc_from_ocv v else soc_pct fg);
          critical =
            (if battery_present fg
             then if v > 0 \<and> v \<le> PWR_BATT_LOWER_THRESHOLD_MV then True
                  else if soc > 0 \<and> soc \<le> PWR_BATT_CRITICAL_SOC_PCT then True
                  else False
             else False)
      in st\<lparr>vbat_mv := v, ps_soc_pct := soc, bat_current_ma := avg_current_ma fg,
            ps_battery_present := battery_present fg, ps_fully_charged := fully_charged fg,
            ps_critical_low := critical\<rparr>)"

fun chrg_code :: "bq25892_chrg_status \<Rightarrow> u8" where
  "chrg_code BQ25892_STATUS_NOT_CHARGING = 0"
| "chrg_code BQ25892_STATUS_PRE_CHARGING = 1"
| "chrg_code BQ25892_STATUS_FAST_CHARGING = 2"
| "chrg_code BQ25892_STATUS_CHARGE_DONE = 3"

definition bq27441_status_zero :: bq27441_status where
  "bq27441_status_zero = \<lparr>gauge_voltage_mv = 0, soc_pct = 0, avg_current_ma = 0,
     avg_power_mw = 0, gauge_flags = 0, fully_charged = False, critical_low = False,
     battery_present = False\<rparr>"

definition bq25892_status_zero :: bq25892_status where
  "bq25892_status_zero = \<lparr>chrg_status = BQ25892_STATUS_NOT_CHARGING, power_good = False,
     chg_vbat_mv = 0, charge_enabled = False, fault_reg = 0\<rparr>"

definition ina230_status_zero :: ina230_status where
  "ina230_status_zero = \<lparr>bus_voltage_mv = 0, ina_current_ma = 0, power_mw = 0\<rparr>"

definition pwr_source_get_status ::
  "i2c_drv \<Rightarrow> pwr_source_status option \<Rightarrow> pwr_st \<Rightarrow> esp_err \<times> pwr_source_status option \<times> pwr_st" where
  "pwr_source_get_status drv status p =
     (case status of
        None \<Rightarrow> (ESP_ERR_INVALID_ARG, None, p)
      | Some st \<Rightarrow>
          (let (ret, fg, rc, s1) = bq27441_read_status drv (bq27441_dev p) (fg_read_count p)
                                     (Some bq27441_status_zero) (pwr_i2c p);
               st1 = (if ret = ESP_OK then apply_fuel_gauge (the fg) st else st);
               (ret, chg, s2) = bq25892_read_status drv (bq25892_dev p) (Some bq25892_status_zero) s1;
               st2 = (if ret = ESP_OK
                      then st1\<lparr>ps_chrg_status := chrg_code (chrg_status (the chg)),
                               ps_power_good := power_good (the chg),
                               ps_charge_enabled := charge_enabled (the chg)\<rparr>
                      else st1);
               (ret, sys, s3) = ina230_read_status drv (ina230_dev p) (Some ina230_status_zero) s2;
               st3 = (if ret = ESP_OK
                      then st2\<lparr>vsys_mv := bus_voltage_mv (the sys),
                               isys_ma := ina_current_ma (the sys)\<rparr>
                      else st2)
           in (ESP_OK, Some st3, set_i2c s3 (p\<lparr>fg_read_count := rc\<rparr>))))"

section \<open>The charge controller\<close>

text \<open>The sanity check on the gauge's percentage.\<close>

definition sane_soc :: "u8 \<Rightarrow> u16 \<Rightarrow> u8" where
  "sane_soc soc v =
     (if soc \<ge> 100 \<and> v < 3900 then bq27441_estimate_soc_from_ocv v
      else if soc = 0 \<and> v > 3500 then bq27441_estimate_soc_from_ocv v
      else soc)"

definition should_stop :: "u8 \<Rightarrow> u8 \<Rightarrow> u16 \<Rightarrow> bool" where
  "should_stop chrg soc v =
     (let stop = (if chrg = 3 then True
                  else if soc \<ge> PWR_BATT_CHARGE_FULL_SOC_PCT \<and> v \<ge> PWR_BATT_CHARGE_MIN_STOP_MV
                  then True else False)
      in if stop \<and> v < PWR_BATT_CHARGE_MIN_STOP_MV then False else stop)"

definition should_resume :: "u16 \<Rightarrow> bool" where
  "should_resume v \<longleftrightarrow> v > 0 \<and> v < PWR_BATT_CHARGE_RESUME_MV"

definition toggle_allowed :: "(u32 \<Rightarrow> u32) \<Rightarrow> u32 \<Rightarrow> charge_ctl \<Rightarrow> bool" where
  "toggle_allowed ms2t now c \<longleftrightarrow>
     now - s_last_charge_toggle_tick c \<ge> ms2t CHARGE_MIN_TOGGLE_INTERVAL_MS \<or>
     s_last_charge_toggle_tick c = 0"

text \<open>Lines 254-361: one sample through the controller, with charge, voltage and charger
  state read.\<close>

definition charge_control ::
  "i2c_drv \<Rightarrow> (u32 \<Rightarrow> u32) \<Rightarrow> u32 \<Rightarrow> u8 \<Rightarrow> u8 \<Rightarrow> u16 \<Rightarrow> pwr_st \<Rightarrow> pwr_st" where
  "charge_control drv ms2t now chrg soc v p =
     (let c = ctl p; allowed = toggle_allowed ms2t now c
      in if s_charge_enabled_state c
         then
           if should_stop chrg soc v
           then
             let n = s_charge_stop_counter c + 1;
                 c1 = c\<lparr>s_charge_stop_counter := n, s_charge_start_counter := 0\<rparr>
             in if n \<ge> CHARGE_DEBOUNCE_COUNT \<and> allowed
                then let p1 = snd (pwr_source_set_charge_enable drv False
                                     (p\<lparr>ctl := c1\<lparr>s_charge_enabled_state := False\<rparr>\<rparr>))
                     in p1\<lparr>ctl := (ctl p1)\<lparr>s_charge_stop_counter := 0,
                                           s_last_charge_toggle_tick := now\<rparr>\<rparr>
                else p\<lparr>ctl := c1\<rparr>
           else p\<lparr>ctl := c\<lparr>s_charge_stop_counter := 0\<rparr>\<rparr>
         else
           if should_resume v
           then
             let n = s_charge_start_counter c + 1;
                 c1 = c\<lparr>s_charge_start_counter := n, s_charge_stop_counter := 0\<rparr>
             in if n \<ge> CHARGE_DEBOUNCE_COUNT \<and> allowed
                then let p1 = snd (pwr_source_set_charge_enable drv True
                                     (p\<lparr>ctl := c1\<lparr>s_charge_enabled_state := True\<rparr>\<rparr>))
                     in p1\<lparr>ctl := (ctl p1)\<lparr>s_charge_start_counter := 0,
                                           s_last_charge_toggle_tick := now\<rparr>\<rparr>
                else p\<lparr>ctl := c1\<rparr>
           else p\<lparr>ctl := c\<lparr>s_charge_start_counter := 0\<rparr>\<rparr>)"

text \<open>\<open>v0\<close>: what the uninitialised local \<open>vbat_mv\<close> holds, in case its read fails.\<close>

definition pwr_source_charge_monitor_with_status ::
  "i2c_drv \<Rightarrow> (u32 \<Rightarrow> u32) \<Rightarrow> u32 \<Rightarrow> u16 \<Rightarrow> pwr_source_status option \<Rightarrow> pwr_st \<Rightarrow> esp_err \<times> pwr_st" where
  "pwr_source_charge_monitor_with_status drv ms2t now v0 status p =
     (case status of
        Some st \<Rightarrow>
          (ESP_OK, charge_control drv ms2t now (ps_chrg_status st)
                     (sane_soc (ps_soc_pct st) (vbat_mv st)) (vbat_mv st) p)
      | None \<Rightarrow>
          (let (ret, soc, s1) = bq27441_read_soc_pct drv (bq27441_dev p) (Some 0) (pwr_i2c p)
           in if ret \<noteq> ESP_OK then (ret, set_i2c s1 p)
              else
                let (_, v, s2) = bq27441_read_voltage_mv drv (bq27441_dev p) (Some v0) s1;
                    soc1 = (if the soc = 0 \<and> the v > 3000
                            then bq27441_estimate_soc_from_ocv (the v) else the soc)
                in (ESP_OK, charge_control drv ms2t now 0 (sane_soc soc1 (the v)) (the v)
                              (set_i2c s2 p))))"

definition pwr_source_charge_monitor ::
  "i2c_drv \<Rightarrow> (u32 \<Rightarrow> u32) \<Rightarrow> u32 \<Rightarrow> pwr_st \<Rightarrow> esp_err \<times> pwr_st" where
  "pwr_source_charge_monitor drv ms2t now p =
     (let (ret, st, p1) = pwr_source_get_status drv (Some pwr_source_status_zero) p
      in if ret \<noteq> ESP_OK then (ret, p1)
         else pwr_source_charge_monitor_with_status drv ms2t now 0 st p1)"

definition pwr_source_get_soc ::
  "i2c_drv \<Rightarrow> u8 option \<Rightarrow> pwr_st \<Rightarrow> esp_err \<times> u8 option \<times> pwr_st" where
  "pwr_source_get_soc drv out p =
     (if out = None then (ESP_ERR_INVALID_ARG, out, p)
      else let (ret, o1, s1) = bq27441_read_soc_pct drv (bq27441_dev p) out (pwr_i2c p)
           in (ret, o1, set_i2c s1 p))"

section \<open>Lemmas on the controller\<close>

lemma set_i2c_ctl [simp]: "ctl (set_i2c s p) = ctl p"
  by (simp add: set_i2c_def)

lemma set_charge_enable_ctl [gw_frame]:
  "ctl (snd (pwr_source_set_charge_enable drv e p)) = (ctl p)\<lparr>s_charge_enabled_state := e\<rparr>"
  by (simp add: pwr_source_set_charge_enable_def case_prod_beta Let_def)

text \<open>The controller's view of a sample: stop, resume, or neither.\<close>

definition ctl_step :: "(u32 \<Rightarrow> u32) \<Rightarrow> u32 \<times> bool \<times> bool \<Rightarrow> charge_ctl \<Rightarrow> charge_ctl" where
  "ctl_step ms2t e c =
     (case e of (now, stop, resume) \<Rightarrow>
        if s_charge_enabled_state c
        then if \<not> stop then c\<lparr>s_charge_stop_counter := 0\<rparr>
             else if s_charge_stop_counter c + 1 \<ge> 3 \<and> toggle_allowed ms2t now c
             then c\<lparr>s_charge_enabled_state := False, s_charge_stop_counter := 0,
                    s_charge_start_counter := 0, s_last_charge_toggle_tick := now\<rparr>
             else c\<lparr>s_charge_stop_counter := s_charge_stop_counter c + 1,
                    s_charge_start_counter := 0\<rparr>
        else if \<not> resume then c\<lparr>s_charge_start_counter := 0\<rparr>
             else if s_charge_start_counter c + 1 \<ge> 3 \<and> toggle_allowed ms2t now c
             then c\<lparr>s_charge_enabled_state := True, s_charge_start_counter := 0,
                    s_charge_stop_counter := 0, s_last_charge_toggle_tick := now\<rparr>
             else c\<lparr>s_charge_start_counter := s_charge_start_counter c + 1,
                    s_charge_stop_counter := 0\<rparr>)"

lemma charge_control_ctl:
  "ctl (charge_control drv ms2t now chrg soc v p) =
     ctl_step ms2t (now, should_stop chrg soc v, should_resume v) (ctl p)"
  by (simp add: charge_control_def ctl_step_def Let_def gw_frame)

lemma should_stop_iff:
  "should_stop chrg soc v \<longleftrightarrow> PWR_BATT_CHARGE_MIN_STOP_MV \<le> v \<and> (chrg = 3 \<or> 100 \<le> soc)"
  by (auto simp: should_stop_def Let_def not_le)

section \<open>Runs of the monitor task\<close>

text \<open>One cycle of \<open>power_monitor_task\<close>: the tick count and the status it read.\<close>

definition monitor_cycle ::
  "i2c_drv \<Rightarrow> (u32 \<Rightarrow> u32) \<Rightarrow> u32 \<times> pwr_source_status \<Rightarrow> pwr_st \<Rightarrow> pwr_st" where
  "monitor_cycle drv ms2t x p =
     snd (pwr_source_charge_monitor_with_status drv ms2t (fst x) 0 (Some (snd x)) p)"

definition stop_sample :: "u32 \<times> pwr_source_status \<Rightarrow> bool" where
  "stop_sample x = should_stop (ps_chrg_status (snd x))
     (sane_soc (ps_soc_pct (snd x)) (vbat_mv (snd x))) (vbat_mv (snd x))"

definition resume_sample :: "u32 \<times> pwr_source_status \<Rightarrow> bool" where
  "resume_sample x = should_resume (vbat_mv (snd x))"

definition ctl_event :: "u32 \<times> pwr_source_status \<Rightarrow> u32 \<times> bool \<times> bool" where
  "ctl_event x = (fst x, stop_sample x, resume_sample x)"

lemma monitor_cycle_ctl: "ctl (monitor_cycle drv ms2t x p) = ctl_step ms2t (ctl_event x) (ctl p)"
  by (simp add: monitor_cycle_def pwr_source_charge_monitor_with_status_def charge_control_ctl
      ctl_event_def stop_sample_def resume_sample_def)

lemma monitor_run_ctl:
  "ctl (fold (monitor_cycle drv ms2t) xs p) = fold (ctl_step ms2t) (map ctl_event xs) (ctl p)"
  by (induction xs arbitrary: p) (simp_all add: monitor_cycle_ctl)

definition ctl_inv :: "charge_ctl \<Rightarrow> bool" where
  "ctl_inv c \<longleftrightarrow> (if s_charge_enabled_state c then s_charge_start_counter c = 0
                else s_charge_stop_counter c = 0)"

interpretation ctl: invariant_step "ctl_step ms2t" ctl_inv for ms2t
  by unfold_locales (auto simp: ctl_step_def ctl_inv_def split: if_splits)

text \<open>The counters count trailing samples: what lets a toggle look back.\<close>

lemma ctl_counters:
  assumes "s_charge_stop_counter c = 0" and "s_charge_start_counter c = 0"
  shows "s_charge_stop_counter (fold (ctl_step ms2t) (map ctl_event xs) c) \<le>
           length (takeWhile stop_sample (rev xs))
       \<and> s_charge_start_counter (fold (ctl_step ms2t) (map ctl_event xs) c) \<le>
           length (takeWhile resume_sample (rev xs))"
proof (induction xs rule: rev_induct)
  case Nil
  with assms show ?case by simp
next
  case (snoc x xs)
  define c1 where "c1 = fold (ctl_step ms2t) (map ctl_event xs) c"
  have inv: "ctl_inv c1"
    unfolding c1_def by (rule ctl.run_inv) (use assms in \<open>simp add: ctl_inv_def\<close>)
  have eq: "fold (ctl_step ms2t) (map ctl_event (xs @ [x])) c = ctl_step ms2t (ctl_event x) c1"
    by (simp add: c1_def)
  have "s_charge_stop_counter (ctl_step ms2t (ctl_event x) c1) \<le>
      length (takeWhile stop_sample (rev (xs @ [x]))) \<and>
    s_charge_start_counter (ctl_step ms2t (ctl_event x) c1) \<le>
      length (takeWhile resume_sample (rev (xs @ [x])))"
    using snoc.IH [folded c1_def] inv
    by (cases "s_charge_enabled_state c1") (auto simp: ctl_inv_def ctl_step_def ctl_event_def)
  then show ?case unfolding eq .
qed

lemma two_trailing:
  assumes "2 \<le> length (takeWhile P (rev xs))"
  obtains ys a b where "xs = ys @ [a, b]" and "P a" and "P b"
proof -
  from assms obtain b zs where b: "rev xs = b # zs" "P b"
    by (cases "rev xs") (auto split: if_splits)
  with assms obtain a ws where a: "zs = a # ws" "P a"
    by (cases zs) (auto split: if_splits)
  from a b have "xs = rev ws @ [a, b]" by (simp add: rev_swap)
  with a b that show ?thesis by blast
qed

definition charging :: "pwr_st \<Rightarrow> bool" where
  "charging p \<longleftrightarrow> s_charge_enabled_state (ctl p)"

lemma charging_toggle:
  assumes "charging (monitor_cycle drv ms2t x p) \<noteq> charging p"
  shows "(if charging p then stop_sample x \<and> 2 \<le> s_charge_stop_counter (ctl p)
          else resume_sample x \<and> 2 \<le> s_charge_start_counter (ctl p)) \<and>
         toggle_allowed ms2t (fst x) (ctl p) \<and>
         s_last_charge_toggle_tick (ctl (monitor_cycle drv ms2t x p)) = fst x"
  using assms by (auto simp: charging_def monitor_cycle_ctl ctl_step_def ctl_event_def split: if_splits)

lemma charging_no_toggle:
  assumes "charging (monitor_cycle drv ms2t x p) = charging p"
  shows "s_last_charge_toggle_tick (ctl (monitor_cycle drv ms2t x p)) =
    s_last_charge_toggle_tick (ctl p)"
  using assms by (auto simp: charging_def monitor_cycle_ctl ctl_step_def ctl_event_def split: if_splits)

text \<open>
  C7. Charging is switched by the monitor task on solid evidence only. In any run from cleared
  counters, when a cycle stops charging then it and the two cycles before it all saw a battery
  voltage of at least 4100 mV together with the charger's DONE state or a (sanity-checked)
  charge of 100%; when a cycle resumes charging then it and the two before it all saw a voltage
  strictly between 0 and 4000 mV. So a failed gauge reading (voltage 0) never toggles anything.
\<close>

theorem charge_toggle_justified:
  assumes "s_charge_stop_counter (ctl p0) = 0" and "s_charge_start_counter (ctl p0) = 0"
    and "p = fold (monitor_cycle drv ms2t) xs p0"
    and "charging (monitor_cycle drv ms2t x p) \<noteq> charging p"
  shows "\<exists>ys a b. xs = ys @ [a, b] \<and>
    (\<forall>y \<in> {a, b, x}. let v = vbat_mv (snd y) in
       if charging p
       then PWR_BATT_CHARGE_MIN_STOP_MV \<le> v \<and>
            (ps_chrg_status (snd y) = 3 \<or> 100 \<le> sane_soc (ps_soc_pct (snd y)) v)
       else 0 < v \<and> v < PWR_BATT_CHARGE_RESUME_MV)"
proof -
  note now = charging_toggle [OF assms(4)]
  note counts = ctl_counters [OF assms(1,2), of ms2t xs, folded monitor_run_ctl [of drv ms2t xs p0],
      folded assms(3)]
  show ?thesis
  proof (cases "charging p")
    case True
    with now counts have "2 \<le> length (takeWhile stop_sample (rev xs))" by auto
    then obtain ys a b where "xs = ys @ [a, b]" "stop_sample a" "stop_sample b"
      by (rule two_trailing)
    with True now show ?thesis
      by (auto simp: Let_def stop_sample_def should_stop_iff intro!: exI [of _ ys])
  next
    case False
    with now counts have "2 \<le> length (takeWhile resume_sample (rev xs))" by auto
    then obtain ys a b where "xs = ys @ [a, b]" "resume_sample a" "resume_sample b"
      by (rule two_trailing)
    with False now show ?thesis
      by (auto simp: Let_def resume_sample_def should_resume_def intro!: exI [of _ ys])
  qed
qed

definition demo_pwr :: pwr_st where
  "demo_pwr = \<lparr>ctl = charge_ctl_boot, stk = demo_stack, bq25892_dev = Some 9,
     ina230_dev = Some 8, bq27441_dev = Some 5, fg_read_count = 0\<rparr>"

definition full_sample :: "u32 \<Rightarrow> u32 \<times> pwr_source_status" where
  "full_sample now = (now, pwr_source_status_zero\<lparr>vbat_mv := 4120, ps_chrg_status := 3\<rparr>)"

theorem charge_toggle_justified_witness:
  "\<exists>ys a b. [full_sample 1000, full_sample 1100] = ys @ [a, b] \<and>
     PWR_BATT_CHARGE_MIN_STOP_MV \<le> vbat_mv (snd a)"
proof -
  let ?c = "monitor_cycle (chip_drv (\<lambda>_. 0)) (\<lambda>ms. ms div 10)"
  let ?p = "fold ?c [full_sample 1000, full_sample 1100] demo_pwr"
  have "charging ?p \<and> \<not> charging (?c (full_sample 1200) ?p)"
    by (simp add: charging_def monitor_cycle_ctl monitor_run_ctl demo_pwr_def charge_ctl_boot_def
        ctl_step_def ctl_event_def stop_sample_def should_stop_iff full_sample_def toggle_allowed_def)
  then show ?thesis
    using charge_toggle_justified [of demo_pwr ?p "chip_drv (\<lambda>_. 0)" "\<lambda>ms. ms div 10"
        "[full_sample 1000, full_sample 1100]" "full_sample 1200"]
    by (simp add: demo_pwr_def charge_ctl_boot_def Let_def)
qed

text \<open>The ticks of the cycles of a run that switched charging.\<close>

primrec toggle_ticks ::
  "i2c_drv \<Rightarrow> (u32 \<Rightarrow> u32) \<Rightarrow> (u32 \<times> pwr_source_status) list \<Rightarrow> pwr_st \<Rightarrow> u32 list" where
  "toggle_ticks drv ms2t [] p = []"
| "toggle_ticks drv ms2t (x # xs) p =
     (let p1 = monitor_cycle drv ms2t x p
      in (if charging p1 \<noteq> charging p then [fst x] else []) @ toggle_ticks drv ms2t xs p1)"

definition far_apart :: "(u32 \<Rightarrow> u32) \<Rightarrow> u32 \<Rightarrow> u32 \<Rightarrow> bool" where
  "far_apart ms2t t1 t2 \<longleftrightarrow> ms2t CHARGE_MIN_TOGGLE_INTERVAL_MS \<le> t2 - t1 \<or> t1 = 0"

lemma toggle_ticks_far:
  "successively (far_apart ms2t) (s_last_charge_toggle_tick (ctl p) # toggle_ticks drv ms2t xs p)"
proof (induction xs arbitrary: p)
  case Nil
  show ?case by simp
next
  case (Cons x xs)
  let ?p1 = "monitor_cycle drv ms2t x p"
  show ?case
  proof (cases "charging ?p1 = charging p")
    case True
    with Cons.IH [of ?p1] charging_no_toggle [OF True] show ?thesis by (simp add: Let_def)
  next
    case False
    from charging_toggle [OF False] have "far_apart ms2t (s_last_charge_toggle_tick (ctl p)) (fst x)"
      and "s_last_charge_toggle_tick (ctl ?p1) = fst x"
      by (auto simp: far_apart_def toggle_allowed_def)
    with Cons.IH [of ?p1] False show ?thesis by (simp add: Let_def)
  qed
qed

text \<open>
  Charging is never switched twice within the minimum interval: in any run of the monitor
  task from any state, two consecutive switches are at least 15000 ms of ticks apart (counted
  modulo the tick counter's width), unless the earlier one happened at tick 0, which the code
  takes for "never".
\<close>

lemma charge_toggle_distance:
  "successively (\<lambda>t1 t2. ms2t CHARGE_MIN_TOGGLE_INTERVAL_MS \<le> t2 - t1 \<or> t1 = 0)
     (toggle_ticks drv ms2t xs p)"
  using toggle_ticks_far [of ms2t p drv xs]
  by (auto simp: far_apart_def [abs_def] successively_Cons)

section \<open>Both switches of the charger\<close>

lemma tca_set_pin_other_device:
  assumes "dev_handle inst = Some d" and "d' \<noteq> d"
  shows "regs_of d' f' (snd (tca_set_pin_verified_inst drv inst port pin level v s)) = regs_of d' f' s"
  using assms
  by (simp add: tca_set_pin_verified_inst_def tca_read_reg_def tca_write_reg_def i2c_ops Let_def)

lemma bq25892_modify_other_device:
  "d' \<noteq> d \<Longrightarrow> regs_of d' f' (snd (bq25892_reg_modify drv (Some d) reg m b s)) = regs_of d' f' s"
  by (simp add: bq25892_reg_modify_def bq25892_reg_read_def bq25892_reg_write_def i2c_ops Let_def)

text \<open>
  Switching charging drives both controls of the charger. With expander and charger
  behaving as register files at different handles, \<open>pwr_source_set_charge_enable\<close> succeeds;
  afterwards the active-low enable pin P02 of the expander is low and CHG_CONFIG set exactly
  when charging is to be on, the other bits of REG03 and the other registers of the charger are
  kept, and the controller's state records the choice.
\<close>

lemma charge_enable_drives_both:
  assumes "register_device drv d f" and "register_device drv d' f'" and "d' \<noteq> d"
    and "slot_ready d 0 (stk p)" and "bq25892_dev p = Some d'"
    and "pwr_source_set_charge_enable drv e p = (ret, p1)"
  shows "ret = ESP_OK \<and> charging p1 = e \<and>
    pin_bit (regs_of d f (pwr_i2c p1)) 2 2 = (\<not> e) \<and>
    regs_of d' f' (pwr_i2c p1) =
      (regs_of d' f' (pwr_i2c p))(3 :=
         masked BQ25892_CHG_CONFIG_BIT (if e then BQ25892_CHG_CONFIG_BIT else 0)
           (regs_of d' f' (pwr_i2c p) 3))"
proof -
  let ?inst = "g_tca (stk p) ! 0"
  from assms(4) have ready: "g_initialized (stk p)" "g_slot_present (stk p) ! 0"
    and h: "dev_handle ?inst = Some d" by (auto simp: slot_ready_def)
  from tca_set_pin_effect [OF assms(1) h, of 0 2 "\<not> e" True "pwr_i2c p"] obtain s1 where
    set: "tca_set_pin_verified_inst drv ?inst 0 2 (\<not> e) True (pwr_i2c p) = (ESP_OK, s1)"
    and R: "regs_of d f s1 = (regs_of d f (pwr_i2c p))(2 :=
        (if \<not> e then regs_of d f (pwr_i2c p) 2 OR bit8 2
         else regs_of d f (pwr_i2c p) 2 AND NOT (bit8 2)))"
    by auto
  have R': "regs_of d' f' s1 = regs_of d' f' (pwr_i2c p)"
    using tca_set_pin_other_device [OF h assms(3), of f' drv 0 2 "\<not> e" True "pwr_i2c p"]
    by (simp add: set)
  let ?m = "bq25892_reg_modify drv (Some d') 3 BQ25892_CHG_CONFIG_BIT
    (if e then BQ25892_CHG_CONFIG_BIT else 0) s1"
  have "pwr_source_set_charge_enable drv e p =
      (fst ?m, set_i2c (snd ?m) (p\<lparr>ctl := (ctl p)\<lparr>s_charge_enabled_state := e\<rparr>,
         stk := (stk p)\<lparr>stk_i2c := s1\<rparr>\<rparr>))"
    by (cases e; use ready set assms(5) in \<open>simp add: pwr_source_set_charge_enable_def bq25892_set_charge_enable_def
        stack_handler_gpio_write_def is_valid_stack_id_def is_valid_pin_def get_tca_mapping_def
        case_prod_beta Let_def\<close>)
  with assms(6) have p1: "ret = fst ?m" "pwr_i2c p1 = snd ?m" "charging p1 = e"
    by (auto simp: set_i2c_def charging_def)
  moreover have "pin_bit (regs_of d f (snd ?m)) 2 2 = (\<not> e)"
    using assms(3) by (simp add: bq25892_modify_other_device pin_bit_def R bit_or_iff bit_and_iff
        bit_not_iff bit_bit8)
  ultimately show ?thesis
    using bq25892_modify_effect [OF assms(2)] by (simp add: R')
qed

lemma charge_enable_drives_both_applied:
  "let drv = chip_drv (\<lambda>_. 0xFF); p1 = snd (pwr_source_set_charge_enable drv False demo_pwr)
   in \<not> charging p1 \<and> pin_bit (regs_of 7 (\<lambda>_. 0xFF) (pwr_i2c p1)) 2 2 \<and>
      regs_of 9 (\<lambda>_. 0xFF) (pwr_i2c p1) 3 = 0xEF"
proof -
  have "slot_ready 7 0 (stk demo_pwr)" "bq25892_dev demo_pwr = Some 9"
    by (simp_all add: slot_ready_def demo_pwr_def demo_stack_def is_valid_stack_id_def)
  moreover have "regs_of 9 (\<lambda>_. 0xFF) (pwr_i2c demo_pwr) = (\<lambda>_. 0xFF)"
    by (simp add: demo_pwr_def demo_stack_def i2c_boot_def reg_file_def)
  ultimately show ?thesis
    using charge_enable_drives_both [OF chip_drv_register_device [of "\<lambda>_. 0xFF" 7]
        chip_drv_register_device [of "\<lambda>_. 0xFF" 9] _ _ _ surjective_pairing, of demo_pwr False]
    by (simp add: Let_def masked_def)
qed

section \<open>The snapshot is consistent\<close>

definition status_ok :: "pwr_source_status \<Rightarrow> bool" where
  "status_ok st \<longleftrightarrow> ps_soc_pct st \<le> 100 \<and> ps_chrg_status st \<le> 3 \<and> \<bar>isys_ma st\<bar> \<le> 6553 \<and>
     (ps_critical_low st \<longleftrightarrow> ps_battery_present st \<and>
        (0 < vbat_mv st \<and> vbat_mv st \<le> PWR_BATT_LOWER_THRESHOLD_MV \<or>
         0 < ps_soc_pct st \<and> ps_soc_pct st \<le> PWR_BATT_CRITICAL_SOC_PCT))"

lemma soc_clamp_le: "soc_clamp raw \<le> 100"
  by (auto simp: soc_clamp_def word_le_nat_alt unsigned_ucast_eq word_less_nat_alt
      intro: le_trans [OF take_bit_nat_less_eq_self])

lemma bq27441_read_status_soc:
  assumes "bq27441_read_status drv h rc out s = (ESP_OK, Some fg, rc1, s1)"
  shows "soc_pct fg \<le> 100"
  using assms
  by (auto simp: bq27441_read_status_def Let_def soc_clamp_le split: prod.splits if_splits)

lemma apply_fuel_gauge_ok:
  assumes "soc_pct fg \<le> 100" and "status_ok st"
  shows "status_ok (apply_fuel_gauge fg st)"
  using assms ocv.est_le_100 [of "gauge_voltage_mv fg"]
  by (auto simp: status_ok_def apply_fuel_gauge_def Let_def)

lemma chrg_code_le: "chrg_code c \<le> 3"
  by (cases c) simp_all

lemma ina230_read_status_cur:
  assumes "ina230_read_status drv h out s = (ESP_OK, Some st, s1)"
  shows "\<bar>ina_current_ma st\<bar> \<le> 6553"
  using assms ina230_cur_ma_bounds
  by (auto simp: ina230_read_status_def Let_def split: prod.splits if_splits)

lemma read_status_Some:
  "bq27441_read_status drv h rc (Some fg0) s = (ret, fg, rc1, s1) \<Longrightarrow> fg \<noteq> None"
  "bq25892_read_status drv h (Some chg0) s = (ret, chg, s1) \<Longrightarrow> chg \<noteq> None"
  "ina230_read_status drv h (Some sys0) s = (ret, sys, s1) \<Longrightarrow> sys \<noteq> None"
  by (auto simp: bq27441_read_status_def bq25892_read_status_def ina230_read_status_def Let_def
      split: prod.splits if_splits)

text \<open>
  The power status is always consistent, whatever chips fail: from a consistent record
  (the zeroed one the monitor task uses is) \<open>pwr_source_get_status\<close> returns success and a
  record whose charge is at most 100%, whose charger state is one of the four codes, whose
  system current is within the monitor's range, and whose critical flag is raised exactly when
  the battery is present and its voltage is in 1-3500 mV or its charge in 1-5%.
\<close>

lemma pwr_status_consistent:
  assumes "status_ok st" and "pwr_source_get_status drv (Some st) p = (ret, out, p1)"
  shows "ret = ESP_OK \<and> (\<exists>st1. out = Some st1 \<and> status_ok st1)"
proof -
  obtain r1 fg rc s1 where c1: "bq27441_read_status drv (bq27441_dev p) (fg_read_count p)
      (Some bq27441_status_zero) (pwr_i2c p) = (r1, fg, rc, s1)" by (metis prod_cases4)
  obtain r2 chg s2 where c2: "bq25892_read_status drv (bq25892_dev p) (Some bq25892_status_zero) s1 =
      (r2, chg, s2)" by (metis prod_cases3)
  obtain r3 sys s3 where c3: "ina230_read_status drv (ina230_dev p) (Some ina230_status_zero) s2 =
      (r3, sys, s3)" by (metis prod_cases3)
  let ?st1 = "if r1 = ESP_OK then apply_fuel_gauge (the fg) st else st"
  let ?st2 = "if r2 = ESP_OK
      then ?st1\<lparr>ps_chrg_status := chrg_code (chrg_status (the chg)),
                ps_power_good := power_good (the chg), ps_charge_enabled := charge_enabled (the chg)\<rparr>
      else ?st1"
  let ?st3 = "if r3 = ESP_OK
      then ?st2\<lparr>vsys_mv := bus_voltage_mv (the sys), isys_ma := ina_current_ma (the sys)\<rparr> else ?st2"
  from assms(2) have out: "ret = ESP_OK" "out = Some ?st3"
    by (simp_all add: pwr_source_get_status_def c1 c2 c3 Let_def)
  have "status_ok ?st1"
    using assms(1) c1 read_status_Some(1) [OF c1]
    by (auto intro!: apply_fuel_gauge_ok dest: bq27441_read_status_soc)
  then have "status_ok ?st2"
    unfolding status_ok_def [of ?st2] using chrg_code_le [of "chrg_status (the chg)"]
    by (cases "r2 = ESP_OK") (simp_all add: status_ok_def)
  moreover have "\<bar>ina_current_ma (the sys)\<bar> \<le> 6553" if "r3 = ESP_OK"
    using c3 read_status_Some(3) [OF c3] that by (auto dest: ina230_read_status_cur)
  ultimately have "status_ok ?st3"
    by (cases "r3 = ESP_OK") (simp_all add: status_ok_def)
  with out show ?thesis by blast
qed

lemma pwr_status_consistent_applied:
  "\<exists>st1. fst (snd (pwr_source_get_status (chip_drv (\<lambda>_. 0xFF)) (Some pwr_source_status_zero)
            demo_pwr)) = Some st1 \<and> status_ok st1"
  using pwr_status_consistent [of pwr_source_status_zero "chip_drv (\<lambda>_. 0xFF)" demo_pwr]
  by (cases "pwr_source_get_status (chip_drv (\<lambda>_. 0xFF)) (Some pwr_source_status_zero) demo_pwr")
     (auto simp: status_ok_def pwr_source_status_zero_def)

end
