(* ===== verification/Power_Monitor.thy ===== *)
theory Power_Monitor
  imports Power_Source PCF8563
begin

text \<open>
  \<open>main/pwr_monitor_task.c\<close>: the task that reads the power status once a second, runs the
  charge controller on it, publishes it and reports changes of the supply. One cycle of the
  task is \<open>power_monitor_cycle\<close>; what the environment decides in it (the two tick counts
  read and whether the mutex was free) is the record \<open>mon_env\<close>. Calls of the registered
  callback are returned as a list. The HMI refresh at the end of a cycle only reads and is not
  modelled. The property: the callback sees exactly the changes of the supply.
\<close>

record pwr_monitor_status =
  bat_soc_pct :: u8
  bat_voltage_mv :: u16
  mon_bat_current_ma :: int
  bat_present :: bool
  bat_is_charging :: bool
  bat_fully_charged :: bool
  bat_critical_low :: bool
  mon_chrg_status :: u8
  mon_power_good :: bool
  vsys_voltage_mv :: u16
  isys_current_ma :: int
  timestamp_ms :: u32

definition pwr_monitor_status_zero :: pwr_monitor_status where
  "pwr_monitor_status_zero = \<lparr>bat_soc_pct = 0, bat_voltage_mv = 0, mon_bat_current_ma = 0,
     bat_present = False, bat_is_charging = False, bat_fully_charged = False,
     bat_critical_low = False, mon_chrg_status = 0, mon_power_good = False,
     vsys_voltage_mv = 0, isys_current_ma = 0, timestamp_ms = 0\<rparr>"

record mon_st =
  mon_pwr :: pwr_st
  g_pwr_monitor_status :: pwr_monitor_status
  g_pwr_monitor_mutex :: bool      \<comment> \<open>whether the mutex exists\<close>
  s_monitor_task :: bool
  s_monitor_running :: bool
  s_power_good_cb :: bool          \<comment> \<open>whether a callback is registered\<close>
  s_last_power_good :: bool

record mon_env =
  stamp_tick :: u32                \<comment> \<open>xTaskGetTickCount in read_power_status\<close>
  ctl_tick :: u32                  \<comment> \<open>xTaskGetTickCount in the charge controller\<close>
  mutex_free :: bool               \<comment> \<open>xSemaphoreTake within 100 ms\<close>

definition mon_boot :: "pwr_st \<Rightarrow> mon_st" where
  "mon_boot p = \<lparr>mon_pwr = p, g_pwr_monitor_status = pwr_monitor_status_zero,
     g_pwr_monitor_mutex = False, s_monitor_task = False, s_monitor_running = False,
     s_power_good_cb = False, s_last_power_good = True\<rparr>"

definition is_reasonable_time :: "tm option \<Rightarrow> bool" where
  "is_reasonable_time t =
     (case t of None \<Rightarrow> False
      | Some x \<Rightarrow> tm_year x \<ge> 2024 - 1900 \<and> tm_mon x \<ge> 0 \<and> tm_mon x \<le> 11 \<and>
                  tm_mday x \<ge> 1 \<and> tm_mday x \<le> 31)"

definition pwr_monitor_register_power_good_cb :: "bool \<Rightarrow> mon_st \<Rightarrow> mon_st" where
  "pwr_monitor_register_power_good_cb cb m = m\<lparr>s_power_good_cb := cb, s_last_power_good := True\<rparr>"

definition get_soc_color_name :: "u8 \<Rightarrow> string" where
  "get_soc_color_name soc =
     (if soc \<ge> 50 then ''GREEN'' else if soc \<ge> 20 then ''YELLOW''
      else if soc \<ge> 10 then ''ORANGE'' else ''RED'')"

text \<open>\<open>None\<close> is a NULL pointer.\<close>

definition read_power_status ::
  "i2c_drv \<Rightarrow> u32 \<Rightarrow> pwr_monitor_status option \<Rightarrow> pwr_st \<Rightarrow>
   esp_err \<times> pwr_monitor_status option \<times> pwr_st" where
  "read_power_status drv now status p =
     (case status of
        None \<Rightarrow> (ESP_ERR_INVALID_ARG, None, p)
      | Some st \<Rightarrow>
          (let (ret, out, p1) = pwr_source_get_status drv (Some pwr_source_status_zero) p;
               ps = the out
           in if ret \<noteq> ESP_OK then (ret, Some st, p1)
              else (ESP_OK,
                    Some \<lparr>bat_soc_pct = ps_soc_pct ps, bat_voltage_mv = vbat_mv ps,
                          mon_bat_current_ma = bat_current_ma ps,
                          bat_present = ps_battery_present ps,
                          bat_is_charging = (ps_chrg_status ps = 2 \<or> ps_chrg_status ps = 1),
                          bat_fully_charged = ps_fully_charged ps,
                          bat_critical_low = ps_critical_low ps,
                          mon_chrg_status = ps_chrg_status ps,
                          mon_power_good = ps_power_good ps,
                          vsys_voltage_mv = vsys_mv ps, isys_current_ma = isys_ma ps,
                          timestamp_ms = now\<rparr>, p1)))"

text \<open>The record handed to the charge controller; the fields not named are zero.\<close>

definition src_status_of :: "pwr_monitor_status \<Rightarrow> pwr_source_status" where
  "src_status_of n = pwr_source_status_zero
     \<lparr>vbat_mv := bat_voltage_mv n, ps_soc_pct := bat_soc_pct n,
      bat_current_ma := mon_bat_current_ma n, ps_battery_present := bat_present n,
      ps_fully_charged := bat_fully_charged n, ps_critical_low := bat_critical_low n,
      ps_chrg_status := mon_chrg_status n, ps_power_good := mon_power_good n\<rparr>"

definition publish_status :: "bool \<Rightarrow> pwr_monitor_status \<Rightarrow> mon_st \<Rightarrow> mon_st" where
  "publish_status free n m =
     (if g_pwr_monitor_mutex m then (if free then m\<lparr>g_pwr_monitor_status := n\<rparr> else m) else m)"

text \<open>Steps 1 to 6 of one cycle; the list holds the callback's arguments.\<close>

definition power_monitor_cycle ::
  "i2c_drv \<Rightarrow> (u32 \<Rightarrow> u32) \<Rightarrow> mon_env \<Rightarrow> mon_st \<Rightarrow> bool list \<times> mon_st" where
  "power_monitor_cycle drv ms2t env m =
     (let (ret, out, p1) =
            read_power_status drv (stamp_tick env) (Some pwr_monitor_status_zero) (mon_pwr m)
      in if ret \<noteq> ESP_OK then ([], m\<lparr>mon_pwr := p1\<rparr>)
         else
           let n = the out;
               (_, p2) = pwr_source_charge_monitor_with_status drv ms2t (ctl_tick env) 0
                           (Some (src_status_of n)) p1;
               m1 = publish_status (mutex_free env) n (m\<lparr>mon_pwr := p2\<rparr>)
           in if mon_power_good n \<noteq> s_last_power_good m1
              then (if s_power_good_cb m1 then [mon_power_good n] else [],
                    m1\<lparr>s_last_power_good := mon_power_good n\<rparr>)
              else ([], m1))"

text \<open>Step 7: the ticks slept after a cycle that took \<open>elapsed\<close> ticks.\<close>

definition cycle_sleep :: "(u32 \<Rightarrow> u32) \<Rightarrow> u32 \<Rightarrow> u32" where
  "cycle_sleep ms2t elapsed =
     (let update_interval = ms2t 1000
      in if elapsed < update_interval then update_interval - elapsed else 0)"

text \<open>\<open>mutex_ok\<close> and \<open>task_ok\<close>: whether the mutex and the task could be created.\<close>

definition pwr_monitor_task_start :: "bool \<Rightarrow> bool \<Rightarrow> mon_st \<Rightarrow> esp_err \<times> mon_st" where
  "pwr_monitor_task_start mutex_ok task_ok m =
     (if s_monitor_task m then (ESP_OK, m)
      else if \<not> g_pwr_monitor_mutex m \<and> \<not> mutex_ok then (ESP_ERR_NO_MEM, m)
      else
        let m1 = m\<lparr>g_pwr_monitor_mutex := True, s_monitor_running := True\<rparr>
        in if \<not> task_ok then (ESP_FAIL, m1\<lparr>s_monitor_running := False\<rparr>)
           else (ESP_OK, m1\<lparr>s_monitor_task := True\<rparr>))"

text \<open>The wait for the task to leave its loop (at most 20 delays of 50 ms) ends with the
  handle forgotten in any case.\<close>

definition pwr_monitor_task_stop :: "mon_st \<Rightarrow> mon_st" where
  "pwr_monitor_task_stop m =
     (if \<not> s_monitor_task m then m else m\<lparr>s_monitor_running := False, s_monitor_task := False\<rparr>)"

definition pwr_monitor_get_status ::
  "bool \<Rightarrow> pwr_monitor_status option \<Rightarrow> mon_st \<Rightarrow> esp_err \<times> pwr_monitor_status option" where
  "pwr_monitor_get_status free status m =
     (if status = None then (ESP_ERR_INVALID_ARG, None)
      else if \<not> g_pwr_monitor_mutex m then (ESP_ERR_INVALID_STATE, status)
      else if \<not> free then (ESP_ERR_TIMEOUT, status)
      else (ESP_OK, Some (g_pwr_monitor_status m)))"

definition pwr_monitor_update_now ::
  "i2c_drv \<Rightarrow> (u32 \<Rightarrow> u32) \<Rightarrow> mon_env \<Rightarrow> mon_st \<Rightarrow> esp_err \<times> mon_st" where
  "pwr_monitor_update_now drv ms2t env m =
     (let (ret, out, p1) =
            read_power_status drv (stamp_tick env) (Some pwr_monitor_status_zero) (mon_pwr m)
      in if ret \<noteq> ESP_OK then (ret, m\<lparr>mon_pwr := p1\<rparr>)
         else
           let n = the out;
               (_, p2) = pwr_source_charge_monitor_with_status drv ms2t (ctl_tick env) 0
                           (Some (src_status_of n)) p1
           in (ret, publish_status (mutex_free env) n (m\<lparr>mon_pwr := p2\<rparr>)))"

section \<open>Supply changes\<close>

text \<open>A run of the task: the callback's arguments in order, and the final state.\<close>

fun monitor_run ::
  "i2c_drv \<Rightarrow> (u32 \<Rightarrow> u32) \<Rightarrow> mon_env list \<Rightarrow> mon_st \<Rightarrow> bool list \<times> mon_st" where
  "monitor_run drv ms2t [] m = ([], m)"
| "monitor_run drv ms2t (e # es) m =
     (let (cs, m1) = power_monitor_cycle drv ms2t e m; (ds, m2) = monitor_run drv ms2t es m1
      in (cs @ ds, m2))"

lemma power_monitor_cycle_cb:
  assumes "power_monitor_cycle drv ms2t e m = (cs, m1)" and "s_power_good_cb m"
  shows "s_power_good_cb m1"
    and "cs = (if s_last_power_good m1 = s_last_power_good m then [] else [s_last_power_good m1])"
  using assms
  by (auto simp: power_monitor_cycle_def publish_status_def Let_def split: prod.splits if_splits)

text \<open>
  The supply callback sees every change once and nothing else. With a callback registered,
  the arguments of its calls in any run of the monitor task alternate, the first differing from
  the supply state recorded before the run, and the last one (or the recorded state when there
  was no call) is the state recorded at the end.
\<close>

lemma power_good_events_alternate:
  assumes "s_power_good_cb m" and "monitor_run drv ms2t es m = (cs, m1)"
  shows "successively (\<noteq>) (s_last_power_good m # cs) \<and>
    last (s_last_power_good m # cs) = s_last_power_good m1"
  using assms
proof (induction es arbitrary: m cs)
  case Nil
  then show ?case by simp
next
  case (Cons e es)
  obtain bs m' where c: "power_monitor_cycle drv ms2t e m = (bs, m')" by fastforce
  obtain ds where r: "monitor_run drv ms2t es m' = (ds, m1)" and cs: "cs = bs @ ds"
    using Cons.prems(2) by (auto simp: c split: prod.splits)
  note cb = power_monitor_cycle_cb [OF c Cons.prems(1)]
  note IH = Cons.IH [OF cb(1) r]
  show ?case
  proof (cases "s_last_power_good m' = s_last_power_good m")
    case True
    with IH cb(2) cs show ?thesis by simp
  next
    case False
    with IH cb(2) cs show ?thesis by (auto split: if_splits)
  qed
qed

text \<open>VBUS absent for two cycles, the charger answering zeros: one call, with false.\<close>

lemma power_good_events_alternate_applied:
  "let m = (mon_boot demo_pwr)\<lparr>s_power_good_cb := True\<rparr>;
       env = \<lparr>stamp_tick = 10, ctl_tick = 10, mutex_free = True\<rparr>;
       r = monitor_run (chip_drv (\<lambda>_. 0)) (\<lambda>ms. ms div 10) [env, env] m
   in successively (\<noteq>) (True # fst r) \<and> last (True # fst r) = s_last_power_good (snd r)"
  using power_good_events_alternate [of "(mon_boot demo_pwr)\<lparr>s_power_good_cb := True\<rparr>"
      "chip_drv (\<lambda>_. 0)" "\<lambda>ms. ms div 10"
      "[\<lparr>stamp_tick = 10, ctl_tick = 10, mutex_free = True\<rparr>,
        \<lparr>stamp_tick = 10, ctl_tick = 10, mutex_free = True\<rparr>]", OF _ surjective_pairing]
  by (simp add: mon_boot_def Let_def)

end
