(* ===== verification/Frames.thy ===== *)
theory Frames
  imports Gw_Prelude
begin

text \<open>
  \<open>Application/MCU_LAN_Handler/include/frame_types.h\<close>: the headers, identifiers and sizes of
  the frames the two microcontrollers exchange over SPI.
\<close>

abbreviation "HEADER_CF \<equiv> 0x4346 :: u16"
abbreviation "HEADER_DT \<equiv> 0x4454 :: u16"
abbreviation "HEADER_DQ \<equiv> 0x4451 :: u16"
abbreviation "HEADER_CQ \<equiv> 0x4351 :: u16"

definition ascii :: "string \<Rightarrow> u8 list" where
  "ascii s = map of_char s"

text \<open>The C string at the start of a piece of memory.\<close>

definition cstr :: "u8 list \<Rightarrow> u8 list" where
  "cstr bs = takeWhile (\<lambda>b. b \<noteq> 0) bs"

text \<open>Decimal digits, as \<open>printf\<close> writes them.\<close>

fun dec_digits :: "nat \<Rightarrow> string" where
  "dec_digits n = (if n < 10 then [char_of (48 + n)] else dec_digits (n div 10) @ [char_of (48 + n mod 10)])"

declare dec_digits.simps [simp del]

datatype frame_type =
    FRAME_TYPE_HANDSHAKE | FRAME_TYPE_ACK | FRAME_TYPE_RTC | FRAME_TYPE_CONFIG
  | FRAME_TYPE_DATA | FRAME_TYPE_FOTA | FRAME_TYPE_QUERY | FRAME_TYPE_CONFIG_QUERY

datatype ack_type =
    ACK_TYPE_HANDSHAKE | ACK_TYPE_RECEIVED_OK | ACK_TYPE_INTERNET_OK | ACK_TYPE_NO_INTERNET
  | ACK_TYPE_OK | ACK_TYPE_TIMEOUT | ACK_TYPE_ERROR

fun ack_code :: "ack_type \<Rightarrow> u8" where
  "ack_code ACK_TYPE_HANDSHAKE = 0x10"
| "ack_code ACK_TYPE_RECEIVED_OK = 0x11"
| "ack_code ACK_TYPE_INTERNET_OK = 0x12"
| "ack_code ACK_TYPE_NO_INTERNET = 0x13"
| "ack_code ACK_TYPE_OK = 0x14"
| "ack_code ACK_TYPE_TIMEOUT = 0x15"
| "ack_code ACK_TYPE_ERROR = 0x16"

datatype handler_id = HANDLER_CAN | HANDLER_LORA | HANDLER_ZIGBEE | HANDLER_RS485 | HANDLER_UNKNOWN

datatype internet_status = INTERNET_STATUS_OFFLINE | INTERNET_STATUS_ONLINE

fun internet_code :: "internet_status \<Rightarrow> u8" where
  "internet_code INTERNET_STATUS_OFFLINE = 0"
| "internet_code INTERNET_STATUS_ONLINE = 1"

fun handler_id_to_string :: "handler_id \<Rightarrow> u8 list" where
  "handler_id_to_string HANDLER_CAN = ascii ''CAN''"
| "handler_id_to_string HANDLER_LORA = ascii ''LOR''"
| "handler_id_to_string HANDLER_ZIGBEE = ascii ''ZIG''"
| "handler_id_to_string HANDLER_RS485 = ascii ''RS4''"
| "handler_id_to_string HANDLER_UNKNOWN = ascii ''UNK''"

text \<open>The argument is \<open>None\<close> for NULL, else at least three bytes.\<close>

definition handler_string_to_id :: "u8 list option \<Rightarrow> handler_id" where
  "handler_string_to_id str =
     (case str of
        None \<Rightarrow> HANDLER_UNKNOWN
      | Some s \<Rightarrow>
          if take 3 s = ascii ''CAN'' then HANDLER_CAN
          else if take 3 s = ascii ''LOR'' then HANDLER_LORA
          else if take 3 s = ascii ''ZIG'' then HANDLER_ZIGBEE
          else if take 3 s = ascii ''RS4'' then HANDLER_RS485
          else HANDLER_UNKNOWN)"

definition FW_VERSION_MAKE :: "u32 \<Rightarrow> u32 \<Rightarrow> u32 \<Rightarrow> u32 \<Rightarrow> u32" where
  "FW_VERSION_MAKE major minor patch build =
     push_bit 24 major OR push_bit 16 minor OR push_bit 8 patch OR build"

abbreviation "INTER_MCU_PAYLOAD_MAX_LEN \<equiv> 2048 :: nat"
abbreviation "DATA_PACKET_HEADER_SIZE \<equiv> 7 :: nat"
abbreviation "CONFIG_HEADER_SIZE \<equiv> 4 :: nat"

lemma length_ascii [simp, gw_bytes]: "length (ascii s) = length s"
  by (simp add: ascii_def)

lemma handler_id_to_string_length [gw_bytes]: "length (handler_id_to_string i) = 3"
  by (cases i) (simp_all add: gw_bytes)

lemma handler_id_roundtrip: "handler_string_to_id (Some (handler_id_to_string i @ xs)) = i"
  by (cases i) (simp_all add: handler_string_to_id_def ascii_def)

end
