(* ===== verification/Config_Parse.thy ===== *)
theory Config_Parse
  imports Frames
begin

text \<open>
  \<open>Application/Config_Handler/src/config_handler.c\<close>, the parsers of the configuration commands,
  with the structures of \<open>config_handler.h\<close>. A command is the memory it was received in, the
  whole \<open>raw_data\<close> buffer, and its declared length; the producers end the text with a NUL, and
  the end of the list counts as one. Positions are offsets into that memory. A character array
  is the list of all its bytes. A parser that fails leaves a structure nobody reads, so its
  result is \<open>None\<close>.

  The properties: every field stays inside its array and is terminated, whatever the input;
  well-formed commands parse to what they say; what is omitted keeps its value.
\<close>

section \<open>The C library on memory\<close>

definition byte_at :: "u8 list \<Rightarrow> nat \<Rightarrow> u8" where
  "byte_at m i = (if i < length m then m ! i else 0)"

definition chr_u8 :: "char \<Rightarrow> u8" where
  "chr_u8 c = of_char c"

text \<open>\<open>strchr\<close>, from position \<open>p\<close> on: the search ends at the terminating NUL.\<close>

fun find_chr :: "u8 list \<Rightarrow> u8 \<Rightarrow> nat option" where
  "find_chr [] c = None"
| "find_chr (b # bs) c =
     (if b = c then Some 0 else if b = 0 then None else map_option Suc (find_chr bs c))"

definition strchr :: "u8 list \<Rightarrow> nat \<Rightarrow> u8 \<Rightarrow> nat option" where
  "strchr m p c = map_option (\<lambda>i. p + i) (find_chr (drop p m) c)"

text \<open>\<open>memchr\<close>, in the \<open>n\<close> bytes from \<open>p\<close> on.\<close>

fun find_mem :: "u8 list \<Rightarrow> u8 \<Rightarrow> nat option" where
  "find_mem [] c = None"
| "find_mem (b # bs) c = (if b = c then Some 0 else map_option Suc (find_mem bs c))"

definition memchr :: "u8 list \<Rightarrow> nat \<Rightarrow> nat \<Rightarrow> u8 \<Rightarrow> nat option" where
  "memchr m p n c = map_option (\<lambda>i. p + i) (find_mem (take n (drop p m)) c)"

definition bytes_at :: "u8 list \<Rightarrow> nat \<Rightarrow> nat \<Rightarrow> u8 list" where
  "bytes_at m p n = take n (drop p m)"

text \<open>\<open>strncmp(p, s, strlen(s)) == 0\<close>\<close>

definition has_prefix :: "u8 list \<Rightarrow> nat \<Rightarrow> string \<Rightarrow> bool" where
  "has_prefix m p s \<longleftrightarrow> bytes_at m p (length s) = ascii s"

definition is_space :: "u8 \<Rightarrow> bool" where
  "is_space b \<longleftrightarrow> b = 32 \<or> (9 \<le> b \<and> b \<le> 13)"

definition is_digit :: "u8 \<Rightarrow> bool" where
  "is_digit b \<longleftrightarrow> 48 \<le> b \<and> b \<le> 57"

text \<open>\<open>atoi\<close>: blanks, a sign, digits; out of range it saturates, as the 32-bit \<open>strtol\<close> does.\<close>

definition digits_value :: "u8 list \<Rightarrow> int" where
  "digits_value ds = foldl (\<lambda>v d. 10 * v + (uint d - 48)) 0 ds"

definition clamp_long :: "int \<Rightarrow> int" where
  "clamp_long v = (if v > 2147483647 then 2147483647 else if v < -2147483648 then -2147483648 else v)"

definition atoi :: "u8 list \<Rightarrow> int" where
  "atoi bs =
     (let s = dropWhile is_space bs;
          (neg, ds) = (case s of
              b # r \<Rightarrow> if b = 45 then (True, r) else if b = 43 then (False, r) else (False, s)
            | [] \<Rightarrow> (False, s));
          v = digits_value (takeWhile is_digit ds)
      in clamp_long (if neg then - v else v))"

text \<open>\<open>memcpy(a, s, n); a[n] = 0\<close> and \<open>strncpy(a, s, n)\<close> on a character array.\<close>

definition zeros :: "nat \<Rightarrow> u8 list" where
  "zeros n = replicate n 0"

definition put_str :: "u8 list \<Rightarrow> u8 list \<Rightarrow> u8 list" where
  "put_str a s = s @ [0] @ drop (length s + 1) a"

definition strncpy :: "nat \<Rightarrow> u8 list \<Rightarrow> u8 list \<Rightarrow> u8 list" where
  "strncpy n a s = take n (cstr s @ zeros n) @ drop n a"

section \<open>Types\<close>

datatype config_type =
    CONFIG_TYPE_WIFI | CONFIG_TYPE_MQTT | CONFIG_TYPE_LTE | CONFIG_TYPE_INTERNET
  | CONFIG_UPDATE_FIRMWARE | CONFIG_SET_FIRMWARE_URL | CONFIG_TYPE_MCU_LAN | CONFIG_TYPE_SERVER
  | CONFIG_TYPE_HTTP | CONFIG_TYPE_COAP | CONFIG_TYPE_UNKNOWN

datatype internet_type =
    CONFIG_INTERNET_WIFI | CONFIG_INTERNET_LTE | CONFIG_INTERNET_ETHERNET | CONFIG_INTERNET_NBIOT

datatype server_type = CONFIG_SERVERTYPE_MQTT | CONFIG_SERVERTYPE_COAP | CONFIG_SERVERTYPE_HTTP

datatype wifi_auth_mode = WIFI_AUTH_MODE_PERSONAL | WIFI_AUTH_MODE_ENTERPRISE

datatype lte_comm_type = LTE_HANDLER_UART | LTE_HANDLER_USB

record wifi_config_data =
  wf_username :: "u8 list"
  wf_ssid :: "u8 list"
  wf_password :: "u8 list"
  wf_auth_mode :: wifi_auth_mode

record lte_config_data =
  lt_modem_name :: "u8 list"
  lt_apn :: "u8 list"
  lt_username :: "u8 list"
  lt_password :: "u8 list"
  lt_comm_type :: lte_comm_type
  lt_auto_reconnect :: bool
  lt_reconnect_timeout_ms :: u32
  lt_max_reconnect_attempts :: u32
  lt_pwr_pin :: u8
  lt_rst_pin :: u8

record mqtt_config_data =
  mq_broker_uri :: "u8 list"
  mq_device_token :: "u8 list"
  mq_subscribe_topic :: "u8 list"
  mq_attribute_topic :: "u8 list"
  mq_publish_topic :: "u8 list"
  mq_keepalive_s :: u16
  mq_timeout_ms :: u32

record http_config_data =
  hp_server_url :: "u8 list"
  hp_auth_token :: "u8 list"
  hp_port :: u16
  hp_use_tls :: bool
  hp_verify_server :: bool
  hp_timeout_ms :: u32

record coap_config_data =
  cp_host :: "u8 list"
  cp_resource_path :: "u8 list"
  cp_device_token :: "u8 list"
  cp_port :: u16
  cp_use_dtls :: bool
  cp_ack_timeout_ms :: u32
  cp_max_retransmit :: u8
  cp_rpc_poll_interval_ms :: u32

definition config_parse_type :: "u8 list \<Rightarrow> u16 \<Rightarrow> config_type" where
  "config_parse_type cmd len =
     (if len < 2 then CONFIG_TYPE_UNKNOWN
      else
        let c = (byte_at cmd 0, byte_at cmd 1)
        in if c = (chr_u8 (CHR ''W''), chr_u8 (CHR ''F'')) then CONFIG_TYPE_WIFI
           else if c = (chr_u8 (CHR ''M''), chr_u8 (CHR ''Q'')) then CONFIG_TYPE_MQTT
           else if c = (chr_u8 (CHR ''F''), chr_u8 (CHR ''W'')) then CONFIG_UPDATE_FIRMWARE
           else if c = (chr_u8 (CHR ''F''), chr_u8 (CHR ''U'')) then CONFIG_SET_FIRMWARE_URL
           else if c = (chr_u8 (CHR ''L''), chr_u8 (CHR ''T'')) then CONFIG_TYPE_LTE
           else if c = (chr_u8 (CHR ''I''), chr_u8 (CHR ''N'')) then CONFIG_TYPE_INTERNET
           else if c = (chr_u8 (CHR ''M''), chr_u8 (CHR ''L'')) then CONFIG_TYPE_MCU_LAN
           else if c = (chr_u8 (CHR ''S''), chr_u8 (CHR ''V'')) then CONFIG_TYPE_SERVER
           else if c = (chr_u8 (CHR ''H''), chr_u8 (CHR ''P'')) then CONFIG_TYPE_HTTP
           else if c = (chr_u8 (CHR ''C''), chr_u8 (CHR ''P'')) then CONFIG_TYPE_COAP
           else CONFIG_TYPE_UNKNOWN)"

abbreviation "COLON \<equiv> 58 :: u8"
abbreviation "PIPE \<equiv> 124 :: u8"

section \<open>Wi-Fi: WF:SSID:PASSWORD:AUTH\_MODE or WF:SSID:PASSWORD:USERNAME:AUTH\_MODE\<close>

definition wifi_config_zero :: wifi_config_data where
  "wifi_config_zero = \<lparr>wf_username = zeros 64, wf_ssid = zeros 64, wf_password = zeros 64,
     wf_auth_mode = WIFI_AUTH_MODE_PERSONAL\<rparr>"

definition parse_auth_mode :: "u8 list \<Rightarrow> nat \<Rightarrow> nat \<Rightarrow> wifi_auth_mode" where
  "parse_auth_mode m p e =
     (if e > p
      then if has_prefix m p ''ENTERPRISE'' then WIFI_AUTH_MODE_ENTERPRISE
           else WIFI_AUTH_MODE_PERSONAL
      else WIFI_AUTH_MODE_PERSONAL)"

definition config_parse_wifi :: "u8 list \<Rightarrow> u16 \<Rightarrow> wifi_config_data option" where
  "config_parse_wifi m len =
     (if len < 5 then None
      else
        let e = unat len
        in (case strchr m 3 COLON of
             None \<Rightarrow> None
           | Some first \<Rightarrow>
               if first \<ge> e then None
               else
                 let ssid_len = first - 3
                 in if ssid_len = 0 \<or> ssid_len \<ge> 64 then None
                    else
                      let cfg1 = wifi_config_zero\<lparr>wf_ssid := put_str (zeros 64) (bytes_at m 3 ssid_len)\<rparr>
                      in (case strchr m (first + 1) COLON of
                           None \<Rightarrow> None
                         | Some second \<Rightarrow>
                             if second \<ge> e then None
                             else
                               let pass_len = second - first - 1
                               in if pass_len \<ge> 64 then None
                                  else
                                    let cfg2 = (if pass_len > 0
                                          then cfg1\<lparr>wf_password := put_str (zeros 64)
                                                      (bytes_at m (first + 1) pass_len)\<rparr>
                                          else cfg1)
                                    in (case strchr m (second + 1) COLON of
                                         Some third \<Rightarrow>
                                           if third < e
                                           then
                                             let username_len = third - second - 1;
                                                 cfg3 = (if username_len > 0 \<and> username_len < 64
                                                   then cfg2\<lparr>wf_username := put_str (zeros 64)
                                                               (bytes_at m (second + 1) username_len)\<rparr>
                                                   else cfg2)
                                             in Some (cfg3\<lparr>wf_auth_mode := parse_auth_mode m (third + 1) e\<rparr>)
                                           else Some (cfg2\<lparr>wf_auth_mode := parse_auth_mode m (second + 1) e\<rparr>)
                                       | None \<Rightarrow>
                                           Some (cfg2\<lparr>wf_auth_mode := parse_auth_mode m (second + 1) e\<rparr>)))))"

section \<open>LTE: ten fields separated by colons\<close>

definition parse_tca_pin_label :: "u8 list \<Rightarrow> nat \<Rightarrow> nat \<Rightarrow> u8" where
  "parse_tca_pin_label m p n =
     (let a = byte_at m p; b = byte_at m (p + 1)
      in if n = 2 \<and> (a = 48 \<or> a = 49) \<and> 48 \<le> b \<and> b \<le> 55
         then
           let idx = (a - 48) * 8 + (b - 48)
           in if idx \<in> set [4, 5, 6, 7, 9, 10, 11, 12, 13, 14, 15] then idx else 0xFF
         else 0xFF)"

text \<open>The separators found, eleven at most.\<close>

fun find_seps :: "nat \<Rightarrow> u8 list \<Rightarrow> nat \<Rightarrow> nat \<Rightarrow> nat list" where
  "find_seps 0 m p e = []"
| "find_seps (Suc k) m p e =
     (if p < e
      then (case memchr m p (e - p) COLON of None \<Rightarrow> [] | Some c \<Rightarrow> c # find_seps k m (c + 1) e)
      else [])"

definition field_start :: "nat list \<Rightarrow> nat \<Rightarrow> nat" where
  "field_start sep i = (if i = 0 then 3 else sep ! (i - 1) + 1)"

definition field_len :: "nat list \<Rightarrow> nat \<Rightarrow> nat \<Rightarrow> nat" where
  "field_len sep e i = (if i < length sep then sep ! i else e) - field_start sep i"

definition lte_config_zero :: lte_config_data where
  "lte_config_zero = \<lparr>lt_modem_name = zeros 32, lt_apn = zeros 64, lt_username = zeros 32,
     lt_password = zeros 32, lt_comm_type = LTE_HANDLER_UART, lt_auto_reconnect = False,
     lt_reconnect_timeout_ms = 0, lt_max_reconnect_attempts = 0, lt_pwr_pin = 5, lt_rst_pin = 6\<rparr>"

definition lte_number :: "u8 list \<Rightarrow> nat list \<Rightarrow> nat \<Rightarrow> nat \<Rightarrow> u32" where
  "lte_number m sep e i =
     (let fl = field_len sep e i
      in if i \<le> length sep \<and> 0 < fl \<and> fl < 12 then word_of_int (atoi (bytes_at m (field_start sep i) fl)) else 0)"

definition lte_string :: "u8 list \<Rightarrow> nat list \<Rightarrow> nat \<Rightarrow> nat \<Rightarrow> u8 list" where
  "lte_string m sep e i =
     (let fl = field_len sep e i
      in if 0 < fl \<and> fl < 32 then put_str (zeros 32) (bytes_at m (field_start sep i) fl) else zeros 32)"

definition config_parse_lte :: "u8 list \<Rightarrow> u16 \<Rightarrow> lte_config_data option" where
  "config_parse_lte m len =
     (if len < 5 then None
      else
        let e = unat len; sep = find_seps 11 m 3 e; n = length sep
        in if n < 4 then None
           else
             let cfg1 = lte_config_zero\<lparr>lt_modem_name := lte_string m sep e 0\<rparr>; apn_len = field_len sep e 1
             in if apn_len = 0 \<or> apn_len \<ge> 64 then None
                else
                  let s4 = field_start sep 4; l4 = field_len sep e 4;
                      s5 = field_start sep 5; l5 = field_len sep e 5;
                      pin8 = parse_tca_pin_label m (field_start sep 8) (field_len sep e 8);
                      pin9 = parse_tca_pin_label m (field_start sep 9) (field_len sep e 9)
                  in Some (cfg1\<lparr>lt_apn := put_str (zeros 64) (bytes_at m (field_start sep 1) apn_len),
                       lt_username := lte_string m sep e 2, lt_password := lte_string m sep e 3,
                       lt_comm_type :=
                         (if l4 \<ge> 3 \<and> has_prefix m s4 ''USB'' then LTE_HANDLER_USB
                          else if l4 \<ge> 4 \<and> has_prefix m s4 ''UART'' then LTE_HANDLER_UART
                          else LTE_HANDLER_USB),
                       lt_auto_reconnect := (n \<ge> 5 \<and> l5 \<ge> 4 \<and> has_prefix m s5 ''true''),
                       lt_reconnect_timeout_ms := lte_number m sep e 6,
                       lt_max_reconnect_attempts := lte_number m sep e 7,
                       lt_pwr_pin := (if n \<ge> 8 \<and> pin8 \<noteq> 0xFF then pin8 else lt_pwr_pin cfg1),
                       lt_rst_pin := (if n \<ge> 9 \<and> pin9 \<noteq> 0xFF then pin9 else lt_rst_pin cfg1)\<rparr>))"

section \<open>MQTT: fields separated by '|', on top of the current configuration\<close>

text \<open>The optional trailing numbers: keep-alive and timeout. \<open>fifth\<close> is the pipe after the
  attribute topic.\<close>

definition mqtt_numbers :: "u8 list \<Rightarrow> nat \<Rightarrow> nat option \<Rightarrow> mqtt_config_data \<Rightarrow> mqtt_config_data" where
  "mqtt_numbers m e fifth cfg =
     (case fifth of
        None \<Rightarrow> cfg
      | Some q \<Rightarrow>
          let p = q + 1; sixth = strchr m p PIPE;
              ka_len = (case sixth of Some s \<Rightarrow> int s - int p | None \<Rightarrow> int e - int p);
              cfg1 = (if 0 < ka_len \<and> ka_len < 8
                then
                  let ka = atoi (bytes_at m p (nat ka_len))
                  in if ka > 0 then cfg\<lparr>mq_keepalive_s := word_of_int ka\<rparr> else cfg
                else cfg)
          in (case sixth of
               None \<Rightarrow> cfg1
             | Some s \<Rightarrow>
                 let p' = s + 1; tmo_len = int e - int p'
                 in if 0 < tmo_len \<and> tmo_len < 12
                    then
                      let tmo = (word_of_int (atoi (bytes_at m p' (nat tmo_len))) :: u32)
                      in if tmo > 0 then cfg1\<lparr>mq_timeout_ms := tmo\<rparr> else cfg1
                    else cfg1))"

text \<open>The three optional topics; \<open>None\<close> when a separator is missing or a topic too long.\<close>

definition put_topic :: "u8 list \<Rightarrow> u8 list \<Rightarrow> nat \<Rightarrow> nat \<Rightarrow> u8 list" where
  "put_topic a m p n = (if n > 0 then put_str a (bytes_at m p n) else a)"

definition mqtt_topics :: "u8 list \<Rightarrow> nat \<Rightarrow> nat \<Rightarrow> mqtt_config_data \<Rightarrow> mqtt_config_data option" where
  "mqtt_topics m e p cfg =
     (case strchr m p PIPE of
        None \<Rightarrow> None
      | Some third \<Rightarrow>
          if third - p \<ge> 128 then None
          else
            let cfg1 = cfg\<lparr>mq_subscribe_topic := put_topic (mq_subscribe_topic cfg) m p (third - p)\<rparr>;
                p' = third + 1
            in (case strchr m p' PIPE of
                 None \<Rightarrow> None
               | Some fourth \<Rightarrow>
                   if fourth - p' \<ge> 128 then None
                   else
                     let cfg2 = cfg1\<lparr>mq_publish_topic := put_topic (mq_publish_topic cfg1) m p' (fourth - p')\<rparr>;
                         p'' = fourth + 1;
                         fifth = strchr m p'' PIPE;
                         attr_len = (case fifth of None \<Rightarrow> int e - int p'' | Some q \<Rightarrow> int q - int p'')
                     in if attr_len < 0 \<or> attr_len \<ge> 128 then None
                        else
                          Some (mqtt_numbers m e fifth
                            (cfg2\<lparr>mq_attribute_topic :=
                               put_topic (mq_attribute_topic cfg2) m p'' (nat attr_len)\<rparr>))))"

definition config_parse_mqtt ::
  "mqtt_config_data \<Rightarrow> u8 list \<Rightarrow> u16 \<Rightarrow> mqtt_config_data option" where
  "config_parse_mqtt g_mqtt_ctx m len =
     (if len < 5 then None
      else
        let cfg = g_mqtt_ctx; e = unat len
        in (case strchr m 3 PIPE of
             None \<Rightarrow> None
           | Some first \<Rightarrow>
               if first \<ge> e then None
               else
                 let uri_len = first - 3
                 in if uri_len = 0 \<or> uri_len \<ge> 128 then None
                    else
                      let cfg1 = cfg\<lparr>mq_broker_uri := put_str (mq_broker_uri cfg) (bytes_at m 3 uri_len)\<rparr>;
                          p = first + 1
                      in (case strchr m p PIPE of
                           None \<Rightarrow> None
                         | Some second \<Rightarrow>
                             if second \<ge> e then None
                             else
                               let token_len = second - p
                               in if token_len = 0 \<or> token_len \<ge> 65 then None
                                  else
                                    mqtt_topics m e (second + 1)
                                      (cfg1\<lparr>mq_device_token :=
                                         put_str (mq_device_token cfg1) (bytes_at m p token_len)\<rparr>))))"

section \<open>Internet type and fallback: IN:TYPE[:ENABLE[:FALLBACK\_TYPE]]\<close>

record inet_config =
  g_internet_fallback :: bool
  g_internet_fallback_type :: internet_type

text \<open>The result is the type parsed; the globals of the fallback change on the way.\<close>

definition inet_type_of :: "u8 list \<Rightarrow> nat \<Rightarrow> nat \<Rightarrow> internet_type option" where
  "inet_type_of m p n =
     (if n \<ge> 4 \<and> has_prefix m p ''WIFI'' then Some CONFIG_INTERNET_WIFI
      else if n \<ge> 3 \<and> has_prefix m p ''LTE'' then Some CONFIG_INTERNET_LTE
      else if n \<ge> 8 \<and> has_prefix m p ''ETHERNET'' then Some CONFIG_INTERNET_ETHERNET
      else if n \<ge> 5 \<and> has_prefix m p ''NBIOT'' then Some CONFIG_INTERNET_NBIOT
      else None)"

definition auto_fallback :: "u8 list \<Rightarrow> internet_type \<Rightarrow> inet_config \<Rightarrow> inet_config" where
  "auto_fallback g_lte_apn t g =
     (if t = CONFIG_INTERNET_LTE \<or> t = CONFIG_INTERNET_ETHERNET
      then g\<lparr>g_internet_fallback_type := CONFIG_INTERNET_WIFI\<rparr>
      else if t = CONFIG_INTERNET_WIFI
      then g\<lparr>g_internet_fallback_type :=
               (if byte_at g_lte_apn 0 \<noteq> 0 then CONFIG_INTERNET_LTE else CONFIG_INTERNET_ETHERNET)\<rparr>
      else g)"

definition config_parse_internet ::
  "u8 list \<Rightarrow> u8 list \<Rightarrow> u16 \<Rightarrow> inet_config \<Rightarrow> internet_type option \<times> inet_config" where
  "config_parse_internet g_lte_apn m len g =
     (if len < 5 then (None, g)
      else
        let e = unat len; colon = memchr m 3 (e - 3) COLON;
            type_len = (case colon of Some c \<Rightarrow> c - 3 | None \<Rightarrow> e - 3)
        in (case inet_type_of m 3 type_len of
             None \<Rightarrow> (None, g)
           | Some t \<Rightarrow>
               let g1 = auto_fallback g_lte_apn t g
               in (case colon of
                    None \<Rightarrow> (Some t, g1)
                  | Some c \<Rightarrow>
                      if c + 1 < e
                      then
                        let fb_ch = byte_at m (c + 1);
                            g2 = (if fb_ch = 49 then g1\<lparr>g_internet_fallback := True\<rparr>
                                  else if fb_ch = 48 then g1\<lparr>g_internet_fallback := False\<rparr>
                                  else g1)
                        in (case memchr m (c + 1) (e - (c + 1)) COLON of
                             None \<Rightarrow> (Some t, g2)
                           | Some c2 \<Rightarrow>
                               if c2 + 1 < e
                               then
                                 (case inet_type_of m (c2 + 1) (e - (c2 + 1)) of
                                    Some CONFIG_INTERNET_WIFI \<Rightarrow>
                                      (Some t, g2\<lparr>g_internet_fallback_type := CONFIG_INTERNET_WIFI\<rparr>)
                                  | Some CONFIG_INTERNET_LTE \<Rightarrow>
                                      (Some t, g2\<lparr>g_internet_fallback_type := CONFIG_INTERNET_LTE\<rparr>)
                                  | Some CONFIG_INTERNET_ETHERNET \<Rightarrow>
                                      (Some t, g2\<lparr>g_internet_fallback_type := CONFIG_INTERNET_ETHERNET\<rparr>)
                                  | _ \<Rightarrow> (Some t, g2))
                               else (Some t, g2))
                      else (Some t, g1))))"

section \<open>Server type: SV:N\<close>

definition config_parse_server_type :: "u8 list \<Rightarrow> u16 \<Rightarrow> server_type option" where
  "config_parse_server_type m len =
     (if len < 4 then None
      else
        let val = atoi (drop 3 m)
        in if val = 0 then Some CONFIG_SERVERTYPE_MQTT
           else if val = 1 then Some CONFIG_SERVERTYPE_COAP
           else if val = 2 then Some CONFIG_SERVERTYPE_HTTP
           else None)"

section \<open>HTTP and CoAP: positional fields separated by '|'\<close>

text \<open>The end of the field that starts at \<open>p\<close>: the next pipe, or the end of the command.\<close>

definition field_end :: "u8 list \<Rightarrow> nat \<Rightarrow> nat \<Rightarrow> nat" where
  "field_end m p e = (case strchr m p PIPE of Some q \<Rightarrow> if q \<ge> e then e else q | None \<Rightarrow> e)"

definition opt_str :: "nat \<Rightarrow> u8 list \<Rightarrow> nat \<Rightarrow> nat \<Rightarrow> u8 list" where
  "opt_str sz m p n = (if 0 < n \<and> n < sz then put_str (zeros sz) (bytes_at m p n) else zeros sz)"

definition atou32 :: "u8 list \<Rightarrow> nat \<Rightarrow> u32" where
  "atou32 m p = word_of_int (atoi (drop p m))"

definition config_parse_http :: "u8 list \<Rightarrow> u16 \<Rightarrow> http_config_data option" where
  "config_parse_http m len =
     (if len < 5 then None
      else Some (
        let e = unat len;
            cfg0 = \<lparr>hp_server_url = zeros 256, hp_auth_token = zeros 128, hp_port = 80,
                    hp_use_tls = False, hp_verify_server = False, hp_timeout_ms = 10000\<rparr>;
            sep1 = field_end m 3 e;
            cfg1 = cfg0\<lparr>hp_server_url := opt_str 256 m 3 (sep1 - 3)\<rparr>
        in if sep1 \<ge> e then cfg1 else
        let p1 = sep1 + 1; sep2 = field_end m p1 e;
            cfg2 = cfg1\<lparr>hp_auth_token := opt_str 128 m p1 (sep2 - p1)\<rparr>
        in if sep2 \<ge> e then cfg2 else
        let p2 = sep2 + 1; sep3 = field_end m p2 e;
            cfg3 = cfg2\<lparr>hp_port := word_of_int (atoi (drop p2 m))\<rparr>
        in if sep3 \<ge> e then cfg3 else
        let p3 = sep3 + 1; sep4 = field_end m p3 e;
            cfg4 = cfg3\<lparr>hp_use_tls := (atoi (drop p3 m) \<noteq> 0)\<rparr>
        in if sep4 \<ge> e then cfg4 else
        let p4 = sep4 + 1; sep5 = field_end m p4 e;
            cfg5 = cfg4\<lparr>hp_verify_server := (atoi (drop p4 m) \<noteq> 0)\<rparr>
        in if sep5 \<ge> e then cfg5 else
        cfg5\<lparr>hp_timeout_ms := atou32 m (sep5 + 1)\<rparr>))"

definition config_parse_coap :: "u8 list \<Rightarrow> u16 \<Rightarrow> coap_config_data option" where
  "config_parse_coap m len =
     (if len < 5 then None
      else Some (
        let e = unat len;
            cfg0 = \<lparr>cp_host = zeros 128, cp_resource_path = zeros 128, cp_device_token = zeros 65,
                    cp_port = 5683, cp_use_dtls = False, cp_ack_timeout_ms = 2000,
                    cp_max_retransmit = 4, cp_rpc_poll_interval_ms = 0\<rparr>;
            sep1 = field_end m 3 e;
            cfg1 = cfg0\<lparr>cp_host := opt_str 128 m 3 (sep1 - 3)\<rparr>
        in if sep1 \<ge> e then cfg1 else
        let p1 = sep1 + 1; sep2 = field_end m p1 e;
            cfg2 = cfg1\<lparr>cp_resource_path := opt_str 128 m p1 (sep2 - p1)\<rparr>
        in if sep2 \<ge> e then cfg2 else
        let p2 = sep2 + 1; sep3 = field_end m p2 e;
            cfg3 = cfg2\<lparr>cp_device_token := opt_str 65 m p2 (sep3 - p2)\<rparr>
        in if sep3 \<ge> e then cfg3 else
        let p3 = sep3 + 1; sep4 = field_end m p3 e;
            cfg4 = cfg3\<lparr>cp_port := word_of_int (atoi (drop p3 m))\<rparr>
        in if sep4 \<ge> e then cfg4 else
        let p4 = sep4 + 1; sep5 = field_end m p4 e;
            cfg5 = cfg4\<lparr>cp_use_dtls := (atoi (drop p4 m) \<noteq> 0)\<rparr>
        in if sep5 \<ge> e then cfg5 else
        let p5 = sep5 + 1; sep6 = field_end m p5 e;
            cfg6 = cfg5\<lparr>cp_ack_timeout_ms := atou32 m p5\<rparr>
        in if sep6 \<ge> e then cfg6 else
        let p6 = sep6 + 1; sep7 = field_end m p6 e;
            cfg7 = cfg6\<lparr>cp_max_retransmit := word_of_int (atoi (drop p6 m))\<rparr>
        in if sep7 \<ge> e then cfg7 else
        let poll_ms = atou32 m (sep7 + 1)
        in if poll_ms > 0 then cfg7\<lparr>cp_rpc_poll_interval_ms := poll_ms\<rparr> else cfg7))"

section \<open>Fields stay in their arrays\<close>

definition c_array :: "nat \<Rightarrow> u8 list \<Rightarrow> bool" where
  "c_array n a \<longleftrightarrow> length a = n \<and> 0 \<in> set a"

definition wifi_ok :: "wifi_config_data \<Rightarrow> bool" where
  "wifi_ok c \<longleftrightarrow> c_array 64 (wf_username c) \<and> c_array 64 (wf_ssid c) \<and> c_array 64 (wf_password c)"

definition lte_ok :: "lte_config_data \<Rightarrow> bool" where
  "lte_ok c \<longleftrightarrow> c_array 32 (lt_modem_name c) \<and> c_array 64 (lt_apn c) \<and> c_array 32 (lt_username c) \<and>
     c_array 32 (lt_password c) \<and> lt_pwr_pin c < 16 \<and> lt_rst_pin c < 16"

definition mqtt_ok :: "mqtt_config_data \<Rightarrow> bool" where
  "mqtt_ok c \<longleftrightarrow> c_array 128 (mq_broker_uri c) \<and> c_array 65 (mq_device_token c) \<and>
     c_array 128 (mq_subscribe_topic c) \<and> c_array 128 (mq_attribute_topic c) \<and>
     c_array 128 (mq_publish_topic c)"

definition http_ok :: "http_config_data \<Rightarrow> bool" where
  "http_ok c \<longleftrightarrow> c_array 256 (hp_server_url c) \<and> c_array 128 (hp_auth_token c)"

definition coap_ok :: "coap_config_data \<Rightarrow> bool" where
  "coap_ok c \<longleftrightarrow> c_array 128 (cp_host c) \<and> c_array 128 (cp_resource_path c) \<and>
     c_array 65 (cp_device_token c)"

lemma length_bytes_at: "length (bytes_at m p n) \<le> n"
  by (simp add: bytes_at_def)

lemma c_array_zeros [simp]: "0 < n \<Longrightarrow> c_array n (zeros n)"
  by (simp add: c_array_def zeros_def)

lemma c_array_put_str: "length a = n \<Longrightarrow> length s < n \<Longrightarrow> c_array n (put_str a s)"
  by (simp add: c_array_def put_str_def)

lemma c_array_put [simp]: "c_array n a \<Longrightarrow> k < n \<Longrightarrow> c_array n (put_str a (bytes_at m p k))"
  using length_bytes_at [of m p k] by (intro c_array_put_str) (simp_all add: c_array_def)

lemma c_array_put_topic [simp]: "c_array n a \<Longrightarrow> k < n \<Longrightarrow> c_array n (put_topic a m p k)"
  by (simp add: put_topic_def)

lemma c_array_opt_str [simp]: "0 < n \<Longrightarrow> c_array n (opt_str n m p k)"
  by (simp add: opt_str_def)

lemma c_array_lte_string [simp]: "c_array 32 (lte_string m sep e i)"
  by (simp add: lte_string_def Let_def)

lemma parse_pin_range: "parse_tca_pin_label m p n \<noteq> 0xFF \<Longrightarrow> parse_tca_pin_label m p n < 16"
  by (auto simp: parse_tca_pin_label_def Let_def split: if_splits)

lemma wifi_parse_ok: "config_parse_wifi m len = Some c \<Longrightarrow> wifi_ok c"
  by (auto simp: config_parse_wifi_def Let_def wifi_config_zero_def wifi_ok_def
      split: if_splits option.splits)

lemma lte_parse_ok: "config_parse_lte m len = Some c \<Longrightarrow> lte_ok c"
  using parse_pin_range
  by (auto simp: config_parse_lte_def Let_def lte_config_zero_def lte_ok_def split: if_splits)

lemma mqtt_numbers_ok: "mqtt_ok c \<Longrightarrow> mqtt_ok (mqtt_numbers m e f c)"
  by (auto simp: mqtt_numbers_def Let_def mqtt_ok_def split: option.splits)

lemma mqtt_topics_ok: "mqtt_topics m e p c = Some c' \<Longrightarrow> mqtt_ok c \<Longrightarrow> mqtt_ok c'"
  by (auto simp: mqtt_topics_def Let_def split: option.splits if_splits intro!: mqtt_numbers_ok)
     (auto simp: mqtt_ok_def)

lemma mqtt_parse_ok: "config_parse_mqtt g m len = Some c \<Longrightarrow> mqtt_ok g \<Longrightarrow> mqtt_ok c"
  by (auto simp: config_parse_mqtt_def Let_def split: option.splits if_splits
      elim!: mqtt_topics_ok) (auto simp: mqtt_ok_def)

lemma http_parse_ok: "config_parse_http m len = Some c \<Longrightarrow> http_ok c"
  by (auto simp: config_parse_http_def Let_def http_ok_def split: if_splits)

lemma coap_parse_ok: "config_parse_coap m len = Some c \<Longrightarrow> coap_ok c"
  by (auto simp: config_parse_coap_def Let_def coap_ok_def split: if_splits)

section \<open>Searching laid-out text\<close>

text \<open>Text without the separator and without a NUL.\<close>

definition plain :: "u8 \<Rightarrow> u8 list \<Rightarrow> bool" where
  "plain c s \<longleftrightarrow> c \<notin> set s \<and> 0 \<notin> set s"

lemma find_chr_hit: "plain c s \<Longrightarrow> find_chr (s @ c # r) c = Some (length s)"
  by (induction s) (auto simp: plain_def)

lemma find_chr_miss: "plain c s \<Longrightarrow> c \<noteq> 0 \<Longrightarrow> find_chr (s @ 0 # r) c = None"
  by (induction s) (auto simp: plain_def)

lemma find_mem_hit: "c \<notin> set s \<Longrightarrow> find_mem (s @ c # r) c = Some (length s)"
  by (induction s) auto

lemma find_mem_miss: "c \<notin> set s \<Longrightarrow> find_mem s c = None"
  by (induction s) auto

text \<open>\<open>laid m p s x\<close>: memory \<open>m\<close> holds \<open>s\<close> at \<open>p\<close>, followed by \<open>x\<close>.\<close>

definition laid :: "u8 list \<Rightarrow> nat \<Rightarrow> u8 list \<Rightarrow> u8 list \<Rightarrow> bool" where
  "laid m p s x \<longleftrightarrow> drop p m = s @ x"

lemma laid_next: "laid m p s (c # x) \<Longrightarrow> drop (p + length s + 1) m = x"
proof -
  assume "laid m p s (c # x)"
  then have "drop (length s + 1) (drop p m) = x" by (simp add: laid_def)
  then show ?thesis by (simp add: add.commute add.left_commute)
qed

lemma strchr_hit: "laid m p s (c # x) \<Longrightarrow> plain c s \<Longrightarrow> strchr m p c = Some (p + length s)"
  by (simp add: strchr_def laid_def find_chr_hit)

lemma strchr_miss: "laid m p s (0 # x) \<Longrightarrow> plain c s \<Longrightarrow> c \<noteq> 0 \<Longrightarrow> strchr m p c = None"
  by (simp add: strchr_def laid_def find_chr_miss)

lemma bytes_laid: "laid m p s x \<Longrightarrow> bytes_at m p (length s) = s"
  by (simp add: bytes_at_def laid_def)

lemma byte_laid: "laid m p (b # s) x \<Longrightarrow> byte_at m p = b"
proof -
  assume l: "laid m p (b # s) x"
  then have "p < length m" by (metis append_Cons drop_eq_Nil laid_def leI list.distinct(1))
  with l show ?thesis by (simp add: byte_at_def laid_def nth_via_drop)
qed

section \<open>Wi-Fi commands\<close>

abbreviation arr :: "nat \<Rightarrow> u8 list \<Rightarrow> u8 list" where
  "arr n s \<equiv> put_str (zeros n) s"

lemma arr_Nil: "0 < n \<Longrightarrow> arr n [] = zeros n"
  by (cases n) (simp_all add: put_str_def zeros_def)

lemma c_array_arr: "length s < n \<Longrightarrow> c_array n (arr n s)"
  by (auto simp: c_array_def put_str_def zeros_def)

definition wifi_command :: "u8 list \<Rightarrow> u8 list \<Rightarrow> u8 list option \<Rightarrow> u8 list \<Rightarrow> u8 list" where
  "wifi_command ssid pass user auth =
     ascii ''WF:'' @ ssid @ COLON # pass @ COLON #
     (case user of None \<Rightarrow> auth | Some u \<Rightarrow> u @ COLON # auth)"

lemma has_prefix_laid: "laid m p s x \<Longrightarrow> length s = length t \<Longrightarrow> has_prefix m p t \<longleftrightarrow> s = ascii t"
  by (auto simp: has_prefix_def laid_def bytes_at_def)

definition auth_text :: "wifi_auth_mode \<Rightarrow> u8 list" where
  "auth_text a = ascii (case a of WIFI_AUTH_MODE_PERSONAL \<Rightarrow> ''PERSONAL'' | WIFI_AUTH_MODE_ENTERPRISE \<Rightarrow> ''ENTERPRISE'')"

lemma plain_auth [simp]: "plain COLON (auth_text a)" "auth_text a \<noteq> []"
  by (cases a; simp add: auth_text_def plain_def ascii_def)+

lemma parse_auth_text:
  "laid m p (auth_text a) (0 # x) \<Longrightarrow> parse_auth_mode m p (p + length (auth_text a)) = a"
  by (cases a) (simp_all add: parse_auth_mode_def laid_def has_prefix_def bytes_at_def auth_text_def ascii_def)

lemma wifi_command_length:
  fixes a :: wifi_auth_mode
  assumes "length ssid < 64" "length pass < 64" "\<And>u. user = Some u \<Longrightarrow> length u < 64"
  defines "cmd \<equiv> wifi_command ssid pass user (auth_text a)"
  shows "unat (word_of_nat (length cmd) :: u16) = length cmd" "length cmd < 256"
    "length cmd = 3 + length ssid + 1 + length pass + 1 + (case user of None \<Rightarrow> 0 | Some u \<Rightarrow> length u + 1) +
       length (auth_text a)"
proof -
  have "length (auth_text a) \<le> 10" by (cases a) (simp_all add: auth_text_def ascii_def)
  then show b: "length cmd < 256"
    using assms(1-3) by (auto simp: cmd_def wifi_command_def ascii_def split: option.splits)
  show "length cmd = 3 + length ssid + 1 + length pass + 1 + (case user of None \<Rightarrow> 0 | Some u \<Rightarrow> length u + 1) +
       length (auth_text a)"
    by (simp add: cmd_def wifi_command_def ascii_def split: option.split)
  from b show "unat (word_of_nat (length cmd) :: u16) = length cmd" by (intro unat_u16_of_nat) simp
qed

text \<open>The separators and fields the parser finds, and the user name with the mode behind them.\<close>

lemma wifi_command_layout:
  fixes a :: wifi_auth_mode and user :: "u8 list option" and junk :: "u8 list"
  assumes "plain COLON ssid" "plain COLON pass"
  defines "cmd \<equiv> wifi_command ssid pass user (auth_text a)"
  defines "m \<equiv> cmd @ 0 # junk" and "p1 \<equiv> 3 + length ssid" and "p2 \<equiv> 3 + length ssid + 1 + length pass"
  shows "strchr m 3 COLON = Some p1" "strchr m (p1 + 1) COLON = Some p2"
    "bytes_at m 3 (length ssid) = ssid" "bytes_at m (p1 + 1) (length pass) = pass"
    "drop (p2 + 1) m = (case user of None \<Rightarrow> auth_text a | Some u \<Rightarrow> u @ COLON # auth_text a) @ 0 # junk"
proof -
  let ?rest = "(case user of None \<Rightarrow> auth_text a | Some u \<Rightarrow> u @ COLON # auth_text a) @ 0 # junk"
  have l1: "laid m 3 ssid (COLON # pass @ COLON # ?rest)"
    by (simp add: m_def cmd_def wifi_command_def laid_def ascii_def split: option.split)
  then have l2: "laid m (p1 + 1) pass (COLON # ?rest)" by (simp only: laid_def laid_next p1_def)
  from l2 show "drop (p2 + 1) m = ?rest" using laid_next [OF l2] by (simp only: p1_def p2_def)
  show "strchr m 3 COLON = Some p1" using strchr_hit [OF l1 assms(1)] by (simp add: p1_def)
  show "strchr m (p1 + 1) COLON = Some p2" using strchr_hit [OF l2 assms(2)] by (simp add: p1_def p2_def)
  show "bytes_at m 3 (length ssid) = ssid" by (rule bytes_laid [OF l1])
  show "bytes_at m (p1 + 1) (length pass) = pass" by (rule bytes_laid [OF l2])
qed

lemma wifi_command_parses:
  fixes a :: wifi_auth_mode
  assumes "plain COLON ssid" "ssid \<noteq> []" "length ssid < 64" "plain COLON pass" "length pass < 64"
    and user: "\<And>u. user = Some u \<Longrightarrow> plain COLON u \<and> length u < 64"
  defines "cmd \<equiv> wifi_command ssid pass user (auth_text a)"
  shows "config_parse_wifi (cmd @ 0 # junk) (word_of_nat (length cmd)) =
    Some \<lparr>wf_username = (case user of None \<Rightarrow> zeros 64 | Some u \<Rightarrow> arr 64 u), wf_ssid = arr 64 ssid,
          wf_password = arr 64 pass, wf_auth_mode = a\<rparr>"
proof -
  define m where "m = cmd @ 0 # junk"
  define p1 where "p1 = 3 + length ssid"
  define p2 where "p2 = 3 + length ssid + 1 + length pass"
  have len: "unat (word_of_nat (length cmd) :: u16) = length cmd"
    and e: "length cmd = p2 + 1 + (case user of None \<Rightarrow> 0 | Some u \<Rightarrow> length u + 1) + length (auth_text a)"
    using wifi_command_length [of ssid pass user a] assms(3,5) user by (simp_all add: cmd_def p2_def)
  note y = wifi_command_layout [OF assms(1,4), of user a junk, folded cmd_def, folded m_def p1_def p2_def]
  have d: "p1 - 3 = length ssid" "p2 - p1 - 1 = length pass" by (simp_all add: p1_def p2_def)
  have "1 \<le> length ssid" using assms(2) by (cases ssid) simp_all
  then have "5 \<le> length cmd" using e by (simp add: p2_def)
  then have g: "\<not> (word_of_nat (length cmd) :: u16) < 5" "\<not> length cmd \<le> p1" "\<not> length cmd \<le> p2"
    using e len by (simp_all add: word_less_nat_alt p1_def p2_def)
  have b: "\<not> 64 \<le> length ssid" "\<not> 64 \<le> length pass" using assms(3,5) by simp_all
  note base = config_parse_wifi_def Let_def g len y(1) y(2,3,4) [simplified] d [simplified] assms(2) b
  show ?thesis
  proof (cases user)
    case None
    with y(5) have l: "laid m (p2 + 1) (auth_text a) (0 # junk)" by (simp add: laid_def)
    have "strchr m (Suc p2) COLON = None" using strchr_miss [OF l] by simp
    moreover have "parse_auth_mode m (Suc p2) (length cmd) = a" using parse_auth_text [OF l] None e by simp
    ultimately show ?thesis unfolding m_def [symmetric] using None
      by (simp add: base wifi_config_zero_def) (simp add: arr_Nil)
  next
    case (Some u)
    with y(5) have l: "laid m (p2 + 1) u (COLON # auth_text a @ 0 # junk)" by (simp add: laid_def)
    have l': "laid m (p2 + 1 + length u + 1) (auth_text a) (0 # junk)" using laid_next [OF l] by (simp add: laid_def)
    have u: "plain COLON u" "length u < 64" using user Some by simp_all
    have "strchr m (Suc p2) COLON = Some (Suc p2 + length u)" using strchr_hit [OF l u(1)] by simp
    moreover have "parse_auth_mode m (Suc (Suc p2 + length u)) (length cmd) = a"
      using parse_auth_text [OF l'] Some e by (simp add: add.commute add.left_commute)
    moreover have "bytes_at m (Suc p2) (length u) = u" using bytes_laid [OF l] by simp
    moreover have "Suc p2 + length u < length cmd" using e Some by simp
    ultimately show ?thesis unfolding m_def [symmetric] using Some u(2)
      by (simp add: base wifi_config_zero_def) (simp add: arr_Nil)
  qed
qed

text \<open>
  A Wi-Fi command configures what it says: with or without the user name, for every
  network name of 1 to 63 bytes, password and user name of up to 63 bytes, all without colons,
  and both authentication modes, the parser returns exactly those values, each in its array,
  and nothing behind the terminating NUL matters.
\<close>

lemma wifi_command_roundtrip:
  fixes a :: wifi_auth_mode
  assumes "plain COLON ssid" "ssid \<noteq> []" "length ssid < 64" "plain COLON pass" "length pass < 64"
    and "\<And>u. user = Some u \<Longrightarrow> plain COLON u \<and> length u < 64"
  defines "cmd \<equiv> wifi_command ssid pass user (auth_text a)"
  shows "config_parse_wifi (cmd @ 0 # junk) (word_of_nat (length cmd)) =
    Some \<lparr>wf_username = (case user of None \<Rightarrow> zeros 64 | Some u \<Rightarrow> arr 64 u), wf_ssid = arr 64 ssid,
          wf_password = arr 64 pass, wf_auth_mode = a\<rparr>"
  unfolding cmd_def using assms(1-6) by (rule wifi_command_parses)

lemma wifi_command_roundtrip_applied:
  "config_parse_wifi (wifi_command (ascii ''Home'') (ascii ''secret'') None
      (auth_text WIFI_AUTH_MODE_ENTERPRISE) @ 0 # [1, 58]) 25 =
    Some \<lparr>wf_username = zeros 64, wf_ssid = arr 64 (ascii ''Home''),
          wf_password = arr 64 (ascii ''secret''), wf_auth_mode = WIFI_AUTH_MODE_ENTERPRISE\<rparr>"
proof -
  have "plain COLON (ascii ''Home'')" "plain COLON (ascii ''secret'')"
    by (simp_all add: plain_def ascii_def)
  with wifi_command_roundtrip [of "ascii ''Home''" "ascii ''secret''" None WIFI_AUTH_MODE_ENTERPRISE "[1, 58]"]
  show ?thesis by (simp add: wifi_command_def ascii_def auth_text_def)
qed

section \<open>Numbers\<close>

lemma digit_char: "d < 10 \<Longrightarrow> (of_char (char_of (48 + d)) :: u8) = word_of_nat (48 + d)"
proof -
  assume d: "d < 10"
  have "(of_char (char_of (48 + d)) :: u8) = of_nat (of_char (char_of (48 + d) :: char))"
    by (simp only: of_nat_of_char)
  also have "\<dots> = word_of_nat (48 + d)" using d by (simp only: of_char_of) simp
  finally show ?thesis .
qed

lemma digit_range: "d < 10 \<Longrightarrow> is_digit (word_of_nat (48 + d)) \<and> uint (word_of_nat (48 + d) :: u8) = int (48 + d)"
proof -
  assume d: "d < 10"
  have "48 + d < 2 ^ LENGTH(8)" using d by simp
  then have u: "unat (word_of_nat (48 + d) :: u8) = 48 + d"
    by (simp only: unat_of_nat take_bit_nat_eq_self mod_less)
  then have "uint (word_of_nat (48 + d) :: u8) = int (48 + d)" by (metis uint_nat)
  moreover have "is_digit (word_of_nat (48 + d) :: u8)"
    unfolding is_digit_def word_le_nat_alt u using d by simp
  ultimately show ?thesis by blast
qed

lemma ascii_append [simp]: "ascii (a @ b) = ascii a @ ascii b"
  by (simp add: ascii_def)

lemma dec_digits_props:
  "(\<forall>b \<in> set (ascii (dec_digits n)). is_digit b) \<and> dec_digits n \<noteq> [] \<and>
   digits_value (ascii (dec_digits n)) = int n \<and> (n < 10 ^ Suc k \<longrightarrow> length (dec_digits n) \<le> Suc k)"
proof (induction n arbitrary: k rule: dec_digits.induct)
  case (1 n)
  have d: "n mod 10 < 10" by simp
  show ?case
  proof (cases "n < 10")
    case True
    then show ?thesis using digit_char [OF True] digit_range [OF True]
      by (simp add: dec_digits.simps [of n] ascii_def digits_value_def)
  next
    case False
    note IH = "1.IH" [OF False]
    have "n < 10 ^ Suc k \<Longrightarrow> length (dec_digits (n div 10)) \<le> k"
    proof -
      assume n: "n < 10 ^ Suc k"
      with False obtain k' where k: "k = Suc k'" by (cases k) auto
      with n have "n div 10 < 10 ^ Suc k'" by (simp add: less_mult_imp_div_less)
      with IH [of k'] k show ?thesis by simp
    qed
    moreover have "10 * int (n div 10) + int (n mod 10) = int n"
      by (metis mult_div_mod_eq of_nat_add of_nat_mult of_nat_numeral)
    ultimately show ?thesis using False IH digit_char [OF d] digit_range [OF d]
      by (simp add: dec_digits.simps [of n] digits_value_def) (simp add: ascii_def)
  qed
qed

lemma is_digit_not: "is_digit b \<Longrightarrow> b \<noteq> 0 \<and> b \<noteq> COLON \<and> b \<noteq> 45 \<and> b \<noteq> 43 \<and> \<not> is_space b"
  by (auto simp: is_digit_def is_space_def word_le_nat_alt)

definition num_text :: "nat \<Rightarrow> u8 list" where
  "num_text n = ascii (dec_digits n)"

lemma plain_num [simp]: "plain COLON (num_text n)"
  using dec_digits_props [of n 0] is_digit_not by (auto simp: num_text_def plain_def)

lemma num_text_length: "n < 10 ^ Suc k \<Longrightarrow> length (num_text n) \<le> Suc k" "num_text n \<noteq> []"
  using dec_digits_props [of n k] by (simp_all add: num_text_def ascii_def)

lemma atoi_num_text: "n < 2 ^ 31 \<Longrightarrow> atoi (num_text n) = int n"
proof -
  assume n: "n < 2 ^ 31"
  obtain b r where br: "num_text n = b # r" using num_text_length(2) by (cases "num_text n") auto
  have all: "\<forall>b \<in> set (num_text n). is_digit b" "digits_value (num_text n) = int n"
    using dec_digits_props [of n 0] by (simp_all add: num_text_def)
  then have b: "b \<noteq> 45" "b \<noteq> 43" "\<not> is_space b" using is_digit_not [of b] br by simp_all
  have "takeWhile is_digit (b # r) = b # r" using all(1) br by simp
  then show ?thesis using b br all(2) n by (simp add: atoi_def clamp_long_def Let_def)
qed

section \<open>LTE commands\<close>

fun join_fields :: "u8 list list \<Rightarrow> u8 list" where
  "join_fields [] = []"
| "join_fields [f] = f"
| "join_fields (f # g # fs) = f @ COLON # join_fields (g # fs)"

text \<open>Where field \<open>i\<close> starts, the first one starting at \<open>p\<close>.\<close>

fun field_pos :: "nat \<Rightarrow> u8 list list \<Rightarrow> nat \<Rightarrow> nat" where
  "field_pos p fs 0 = p"
| "field_pos p [] (Suc i) = p"
| "field_pos p (f # fs) (Suc i) = field_pos (p + length f + 1) fs i"

lemma memchr_hit:
  "laid m p s (c # x) \<Longrightarrow> c \<notin> set s \<Longrightarrow> length s < n \<Longrightarrow> memchr m p n c = Some (p + length s)"
proof -
  assume "laid m p s (c # x)" "c \<notin> set s" "length s < n"
  moreover obtain k where "n = length s + Suc k" using \<open>length s < n\<close> less_iff_Suc_add by auto
  ultimately show ?thesis by (simp add: memchr_def laid_def find_mem_hit)
qed

lemma memchr_miss: "laid m p s x \<Longrightarrow> c \<notin> set s \<Longrightarrow> memchr m p (length s) c = None"
  by (simp add: memchr_def laid_def find_mem_miss)

lemma find_seps_join:
  assumes "laid m p (join_fields fs) x" "\<forall>f \<in> set fs. COLON \<notin> set f" "fs \<noteq> []" "length fs \<le> k"
    and "e = p + length (join_fields fs)"
  shows "find_seps k m p e = map (\<lambda>i. field_pos p fs (Suc i) - 1) [0..<length fs - 1]"
  using assms
proof (induction fs arbitrary: p k rule: join_fields.induct)
  case (2 f)
  then obtain k' where "k = Suc k'" by (cases k) auto
  moreover have "memchr m p (length f) COLON = None" using 2 by (intro memchr_miss) simp_all
  ultimately show ?case using 2 by simp
next
  case (3 f g fs)
  then obtain k' where k: "k = Suc k'" by (cases k) auto
  have l: "laid m p f (COLON # join_fields (g # fs) @ x)" using "3.prems"(1) by (simp add: laid_def)
  have h: "memchr m p (e - p) COLON = Some (p + length f)"
    using "3.prems" by (intro memchr_hit [OF l]) simp_all
  have "laid m (p + length f + 1) (join_fields (g # fs)) x" using laid_next [OF l] by (simp add: laid_def)
  with "3.prems" k have "find_seps k' m (p + length f + 1) e =
      map (\<lambda>i. field_pos (p + length f + 1) (g # fs) (Suc i) - 1) [0..<length (g # fs) - 1]"
    by (intro "3.IH") simp_all
  moreover have "[0..<length (f # g # fs) - 1] = 0 # map Suc [0..<length (g # fs) - 1]"
    by (simp add: map_Suc_upt upt_conv_Cons del: upt_Suc)
  ultimately show ?case using k h "3.prems"(5) by (simp add: comp_def)
qed simp

lemma field_at:
  assumes "laid m p (join_fields fs) x" "i < length fs"
  shows "\<exists>y. laid m (field_pos p fs i) (fs ! i) y \<and>
    (Suc i < length fs \<longrightarrow> field_pos p fs (Suc i) = field_pos p fs i + length (fs ! i) + 1) \<and>
    (Suc i = length fs \<longrightarrow> p + length (join_fields fs) = field_pos p fs i + length (fs ! i))"
  using assms
proof (induction fs arbitrary: p i rule: join_fields.induct)
  case (2 f)
  then show ?case by auto
next
  case (3 f g fs)
  have l: "laid m p f (COLON # join_fields (g # fs) @ x)" using "3.prems"(1) by (simp add: laid_def)
  show ?case
  proof (cases i)
    case 0
    with l show ?thesis by auto
  next
    case (Suc j)
    have "laid m (p + length f + 1) (join_fields (g # fs)) x" using laid_next [OF l] by (simp add: laid_def)
    from "3.IH" [OF this, of j] "3.prems"(2) Suc show ?thesis by (auto simp del: join_fields.simps(2))
  qed
qed simp

lemma has_prefix_take: "laid m p s x \<Longrightarrow> length t \<le> length s \<Longrightarrow> has_prefix m p t \<longleftrightarrow> take (length t) s = ascii t"
  by (simp add: has_prefix_def laid_def bytes_at_def)

lemma fields_of:
  assumes "laid m 3 (join_fields fs) x" "\<forall>f \<in> set fs. COLON \<notin> set f" "fs \<noteq> []" "length fs \<le> 11"
    and "e = 3 + length (join_fields fs)" and "i < length fs"
  defines "sep \<equiv> find_seps 11 m 3 e"
  shows "length sep = length fs - 1 \<and> field_len sep e i = length (fs ! i) \<and>
    bytes_at m (field_start sep i) (length (fs ! i)) = fs ! i \<and>
    (\<exists>y. laid m (field_start sep i) (fs ! i) y)"
proof -
  note sep = find_seps_join [OF assms(1-5), folded sep_def]
  have len: "length sep = length fs - 1" using sep by simp
  have st: "field_start sep i = field_pos 3 fs i"
  proof (cases i)
    case (Suc j)
    with field_at [OF assms(1), of j] assms(6) have "field_pos 3 fs (Suc j) > 0" by auto
    moreover have "sep ! j = field_pos 3 fs (Suc j) - 1" using sep Suc assms(6) by (simp add: less_diff_conv)
    ultimately show ?thesis using Suc by (simp add: field_start_def)
  qed (simp add: field_start_def)
  from field_at [OF assms(1,6)] obtain y where y: "laid m (field_pos 3 fs i) (fs ! i) y"
    "Suc i < length fs \<Longrightarrow> field_pos 3 fs (Suc i) = field_pos 3 fs i + length (fs ! i) + 1"
    "Suc i = length fs \<Longrightarrow> e = field_pos 3 fs i + length (fs ! i)"
    using assms(5) by auto
  have "field_len sep e i = length (fs ! i)"
  proof (cases "Suc i < length fs")
    case True
    then have "sep ! i = field_pos 3 fs (Suc i) - 1" using sep by (simp add: less_diff_conv)
    with True y(2) len st show ?thesis by (simp add: field_len_def less_diff_conv)
  next
    case False
    with assms(6) have "Suc i = length fs" by simp
    with y(3) len st show ?thesis by (simp add: field_len_def less_diff_conv)
  qed
  with len st y(1) bytes_laid [OF y(1)] show ?thesis by auto
qed

text \<open>\<open>tca_pin_to_label\<close> of \<open>uart_handler.c\<close>, the inverse of the pin parser.\<close>

definition tca_pin_to_label :: "u8 \<Rightarrow> u8 list" where
  "tca_pin_to_label pin =
     (if pin < 16 then ascii (dec_digits (unat (pin div 8)) @ dec_digits (unat (pin mod 8))) else [])"

definition lte_pins :: "u8 list" where
  "lte_pins = [4, 5, 6, 7, 9, 10, 11, 12, 13, 14, 15]"

lemma of_char_of_u8: "(n :: nat) < 256 \<Longrightarrow> (of_char (char_of n) :: u8) = word_of_nat n"
proof -
  assume n: "n < 256"
  have "(of_char (char_of n) :: u8) = of_nat (of_char (char_of n :: char))" by (simp only: of_nat_of_char)
  also have "\<dots> = word_of_nat n" using n by (simp only: of_char_of) simp
  finally show ?thesis .
qed

lemma label_text:
  assumes "pin \<in> set lte_pins"
  shows "tca_pin_to_label pin = [48 + pin div 8, 48 + pin mod 8] \<and>
    parse_tca_pin_label [48 + pin div 8, 48 + pin mod 8] 0 2 = pin \<and> pin \<noteq> 0xFF \<and>
    48 + pin div 8 \<notin> {0, COLON} \<and> 48 + pin mod 8 \<notin> {0, COLON}"
proof -
  have "list_all (\<lambda>pin. tca_pin_to_label pin = [48 + pin div 8, 48 + pin mod 8] \<and>
    parse_tca_pin_label [48 + pin div 8, 48 + pin mod 8] 0 2 = pin \<and> pin \<noteq> 0xFF \<and>
    48 + pin div 8 \<notin> {0, COLON} \<and> 48 + pin mod 8 \<notin> {0, COLON}) lte_pins"
    by (simp add: lte_pins_def tca_pin_to_label_def dec_digits.simps ascii_def of_char_of_u8
        parse_tca_pin_label_def byte_at_def)
  with assms show ?thesis by (simp add: list_all_iff)
qed

lemma pin_label:
  assumes "pin \<in> set lte_pins" and "laid m p (tca_pin_to_label pin) x"
  shows "parse_tca_pin_label m p (length (tca_pin_to_label pin)) = pin \<and> pin \<noteq> 0xFF"
proof -
  note t = label_text [OF assms(1)]
  let ?a = "48 + pin div 8" and ?b = "48 + pin mod 8"
  have "byte_at m p = ?a" using assms(2) t by (simp add: byte_laid)
  moreover have "laid m (p + 1) [?b] x"
  proof -
    have "drop 1 (drop p m) = ?b # x" using assms(2) t by (simp add: laid_def)
    then show ?thesis by (simp add: laid_def add.commute)
  qed
  then have "byte_at m (p + 1) = ?b" by (rule byte_laid)
  ultimately have "parse_tca_pin_label m p 2 = parse_tca_pin_label [?a, ?b] 0 2"
    by (simp add: parse_tca_pin_label_def byte_at_def)
  moreover have "length (tca_pin_to_label pin) = 2" using t by simp
  ultimately show ?thesis using t by (simp only:) blast
qed

definition lte_command ::
  "u8 list \<Rightarrow> u8 list \<Rightarrow> u8 list \<Rightarrow> u8 list \<Rightarrow> lte_comm_type \<Rightarrow> bool \<Rightarrow> nat \<Rightarrow> nat \<Rightarrow> u8 \<Rightarrow> u8 \<Rightarrow> u8 list" where
  "lte_command modem apn user pass comm auto tmo retry pwr rst =
     ascii ''LT:'' @ join_fields [modem, apn, user, pass,
       ascii (case comm of LTE_HANDLER_USB \<Rightarrow> ''USB'' | LTE_HANDLER_UART \<Rightarrow> ''UART''),
       ascii (if auto then ''true'' else ''false''), num_text tmo, num_text retry,
       tca_pin_to_label pwr, tca_pin_to_label rst]"

text \<open>
  An LTE command configures what it says: for every modem name, access point, user name and
  password that fit their arrays and hold no colon (the first two not empty), either interface,
  every timeout and retry count below 2 to the 31 and every pin the board offers, the parser
  returns exactly those values. Pin names are those \<open>tca_pin_to_label\<close> prints, so a printed
  configuration can be sent back.
\<close>

lemma lte_command_roundtrip:
  fixes comm :: lte_comm_type and auto :: bool
  assumes "plain COLON modem" "modem \<noteq> []" "length modem < 32"
    and "plain COLON apn" "apn \<noteq> []" "length apn < 64"
    and "plain COLON user" "length user < 32" and "plain COLON pass" "length pass < 32"
    and "tmo < 2 ^ 31" "retry < 2 ^ 31" and "pwr \<in> set lte_pins" "rst \<in> set lte_pins"
  defines "cmd \<equiv> lte_command modem apn user pass comm auto tmo retry pwr rst"
  shows "config_parse_lte (cmd @ 0 # junk) (word_of_nat (length cmd)) =
    Some \<lparr>lt_modem_name = arr 32 modem, lt_apn = arr 64 apn, lt_username = arr 32 user,
          lt_password = arr 32 pass, lt_comm_type = comm, lt_auto_reconnect = auto,
          lt_reconnect_timeout_ms = word_of_nat tmo, lt_max_reconnect_attempts = word_of_nat retry,
          lt_pwr_pin = pwr, lt_rst_pin = rst\<rparr>"
proof -
  define fs where "fs = [modem, apn, user, pass,
       ascii (case comm of LTE_HANDLER_USB \<Rightarrow> ''USB'' | LTE_HANDLER_UART \<Rightarrow> ''UART''),
       ascii (if auto then ''true'' else ''false''), num_text tmo, num_text retry,
       tca_pin_to_label pwr, tca_pin_to_label rst]"
  define m where "m = cmd @ 0 # junk"
  have c: "cmd = ascii ''LT:'' @ join_fields fs" by (simp add: cmd_def lte_command_def fs_def)
  have l: "laid m 3 (join_fields fs) (0 # junk)" by (simp add: m_def c laid_def ascii_def)
  have pin_free: "COLON \<notin> set (tca_pin_to_label p)" "length (tca_pin_to_label p) = 2"
    if "p \<in> set lte_pins" for p
    using label_text [OF that] by simp_all
  have free: "\<forall>f \<in> set fs. COLON \<notin> set f"
    using assms(1,4,7,9) pin_free(1) [OF assms(13)] pin_free(1) [OF assms(14)]
      plain_num [of tmo] plain_num [of retry]
    by (auto simp: fs_def plain_def ascii_def split: lte_comm_type.splits)
  have n10: "length (num_text tmo) \<le> Suc 9" "length (num_text retry) \<le> Suc 9"
    using assms(11,12) num_text_length(1) [of _ 9] by simp_all
  have len: "length cmd = 3 + length (join_fields fs)" by (simp add: c ascii_def)
  have bound: "length cmd < 65536" "5 \<le> length cmd"
  proof -
    have "length (ascii (case comm of LTE_HANDLER_USB \<Rightarrow> ''USB'' | LTE_HANDLER_UART \<Rightarrow> ''UART'')) \<le> 4"
      by (cases comm) (simp_all add: ascii_def)
    moreover have "length (ascii (if auto then ''true'' else ''false'')) \<le> 5" by (simp add: ascii_def)
    ultimately show "length cmd < 65536"
      using n10 assms(3,6,8,10) pin_free(2) [OF assms(13)] pin_free(2) [OF assms(14)]
      by (simp add: len fs_def)
    show "5 \<le> length cmd" by (simp add: len fs_def)
  qed
  then have u: "unat (word_of_nat (length cmd) :: u16) = length cmd"
    "\<not> (word_of_nat (length cmd) :: u16) < 5"
    by (simp_all add: unat_u16_of_nat word_less_nat_alt)
  define sep where "sep = find_seps 11 m 3 (length cmd)"
  have f: "length sep = 9" "i < 10 \<Longrightarrow> field_len sep (length cmd) i = length (fs ! i) \<and>
      bytes_at m (field_start sep i) (length (fs ! i)) = fs ! i \<and>
      (\<exists>y. laid m (field_start sep i) (fs ! i) y)" for i
    using fields_of [OF l free _ _ len, of 0] fields_of [OF l free _ _ len, of i]
    by (simp_all add: fs_def sep_def)
  have str: "lte_string m sep (length cmd) i = arr 32 (fs ! i)" if "i < 10" "length (fs ! i) < 32" for i
    using f(2) [OF that(1)] that(2) by (simp add: lte_string_def Let_def arr_Nil)
  have num: "lte_number m sep (length cmd) i = word_of_nat n"
    if "i < 10" "fs ! i = num_text n" "length (num_text n) \<le> Suc 9" "n < 2 ^ 31" for i n
    using f(1) f(2) [OF that(1)] that num_text_length(2) [of n]
    by (simp add: lte_number_def Let_def atoi_num_text)
  have pin: "parse_tca_pin_label m (field_start sep i) (field_len sep (length cmd) i) = p \<and> p \<noteq> 0xFF"
    if "i < 10" "fs ! i = tca_pin_to_label p" "p \<in> set lte_pins" for i p
    using f(2) [OF that(1)] pin_label [OF that(3)] that(2) by auto
  have comm: "(if field_len sep (length cmd) 4 \<ge> 3 \<and> has_prefix m (field_start sep 4) ''USB'' then LTE_HANDLER_USB
      else if field_len sep (length cmd) 4 \<ge> 4 \<and> has_prefix m (field_start sep 4) ''UART'' then LTE_HANDLER_UART
      else LTE_HANDLER_USB) = comm"
    using f(2) [of 4] by (cases comm) (auto simp: fs_def ascii_def has_prefix_take)
  have auto: "field_len sep (length cmd) 5 \<ge> 4 \<and> has_prefix m (field_start sep 5) ''true'' \<longleftrightarrow> auto"
    using f(2) [of 5] by (cases auto) (auto simp: fs_def ascii_def has_prefix_take)
  have "config_parse_lte m (word_of_nat (length cmd)) =
    Some \<lparr>lt_modem_name = arr 32 modem, lt_apn = arr 64 apn, lt_username = arr 32 user,
          lt_password = arr 32 pass, lt_comm_type = comm, lt_auto_reconnect = auto,
          lt_reconnect_timeout_ms = word_of_nat tmo, lt_max_reconnect_attempts = word_of_nat retry,
          lt_pwr_pin = pwr, lt_rst_pin = rst\<rparr>"
    using f(1) f(2) [of 1] str [of 0] str [of 2] str [of 3] num [of 6 tmo] num [of 7 retry] n10
      pin [of 8 pwr] pin [of 9 rst] comm auto assms(3,5,6,8,10-14) u
    unfolding config_parse_lte_def
    by (simp add: Let_def fs_def lte_config_zero_def flip: sep_def)
  then show ?thesis by (simp only: m_def)
qed

lemma lte_command_roundtrip_applied:
  "config_parse_lte (lte_command (ascii ''A7600C1'') (ascii ''m-wap'') [] [] LTE_HANDLER_UART True
       30000 7 4 15 @ 0 # [77]) 42 =
    Some \<lparr>lt_modem_name = arr 32 (ascii ''A7600C1''), lt_apn = arr 64 (ascii ''m-wap''),
          lt_username = arr 32 [], lt_password = arr 32 [], lt_comm_type = LTE_HANDLER_UART,
          lt_auto_reconnect = True, lt_reconnect_timeout_ms = 30000, lt_max_reconnect_attempts = 7,
          lt_pwr_pin = 4, lt_rst_pin = 15\<rparr>"
proof -
  let ?modem = "ascii ''A7600C1''" and ?apn = "ascii ''m-wap''"
  let ?cmd = "lte_command ?modem ?apn [] [] LTE_HANDLER_UART True 30000 7 4 15"
  have p: "plain COLON ?modem" "plain COLON ?apn" "plain COLON []" by (simp_all add: plain_def ascii_def)
  have l: "length ?modem = 7" "?modem \<noteq> []" "length ?apn = 5" "?apn \<noteq> []" by (simp_all add: ascii_def)
  have pins: "4 \<in> set lte_pins" "15 \<in> set lte_pins" by (simp_all add: lte_pins_def)
  have "length ?cmd = 42"
    by (simp add: lte_command_def num_text_def tca_pin_to_label_def dec_digits.simps ascii_def)
  then show ?thesis
    using lte_command_roundtrip [of ?modem ?apn "[]" "[]" 30000 7 4 15 LTE_HANDLER_UART True "[77]"]
      p l pins by simp
qed

section \<open>MQTT commands\<close>

definition mqtt_command ::
  "u8 list \<Rightarrow> u8 list \<Rightarrow> u8 list \<Rightarrow> u8 list \<Rightarrow> u8 list \<Rightarrow> (nat \<times> nat option) option \<Rightarrow> u8 list" where
  "mqtt_command uri token sub pub attr nums =
     ascii ''MQ:'' @ uri @ PIPE # token @ PIPE # sub @ PIPE # pub @ PIPE # attr @
     (case nums of None \<Rightarrow> []
      | Some (ka, tmo) \<Rightarrow> PIPE # num_text ka @ (case tmo of None \<Rightarrow> [] | Some t \<Rightarrow> PIPE # num_text t))"

lemma cstr_put_str: "0 \<notin> set s \<Longrightarrow> cstr (put_str a s) = s"
  by (auto simp: cstr_def put_str_def takeWhile_append)

lemma plain_pipe_num [simp]: "plain PIPE (num_text n)"
proof -
  have "is_digit b \<Longrightarrow> b \<noteq> 0 \<and> b \<noteq> PIPE" for b
    by (auto simp: is_digit_def word_le_nat_alt)
  then show ?thesis using dec_digits_props [of n 0] by (auto simp: num_text_def plain_def)
qed

definition mqtt_numbers_spec :: "(nat \<times> nat option) option \<Rightarrow> mqtt_config_data \<Rightarrow> mqtt_config_data" where
  "mqtt_numbers_spec nums c =
     (case nums of None \<Rightarrow> c
      | Some (ka, tmo) \<Rightarrow>
          let c1 = (if ka = 0 then c else c\<lparr>mq_keepalive_s := word_of_nat ka\<rparr>)
          in case tmo of Some t \<Rightarrow> if t = 0 then c1 else c1\<lparr>mq_timeout_ms := word_of_nat t\<rparr>
             | None \<Rightarrow> c1)"

lemma mqtt_numbers_exact:
  assumes "drop p m = (case nums of None \<Rightarrow> []
      | Some (ka, tmo) \<Rightarrow> PIPE # num_text ka @ (case tmo of None \<Rightarrow> [] | Some t \<Rightarrow> PIPE # num_text t)) @ 0 # x"
    and "e = p + length (case nums of None \<Rightarrow> []
      | Some (ka, tmo) \<Rightarrow> PIPE # num_text ka @ (case tmo of None \<Rightarrow> [] | Some t \<Rightarrow> PIPE # num_text t))"
    and "\<And>ka tmo. nums = Some (ka, tmo) \<Longrightarrow> ka < 10 ^ 7 \<and> (\<forall>t. tmo = Some t \<longrightarrow> t < 2 ^ 31)"
  shows "mqtt_numbers m e (if nums = None then None else Some p) c = mqtt_numbers_spec nums c"
proof (cases nums)
  case None
  then show ?thesis by (simp add: mqtt_numbers_def mqtt_numbers_spec_def)
next
  case (Some kt)
  obtain ka tmo where kt: "kt = (ka, tmo)" by (metis surj_pair)
  have ka: "ka < 10 ^ 7" "atoi (num_text ka) = int ka" "length (num_text ka) \<le> 7" "num_text ka \<noteq> []"
    using assms(3) [of ka tmo] Some kt num_text_length(1) [of ka 6] num_text_length(2) [of ka]
    by (simp_all add: atoi_num_text)
  have w: "(word_of_int (int n) :: 'a::len word) = word_of_nat n" for n by simp
  show ?thesis
  proof (cases tmo)
    case None
    have l: "laid m (p + 1) (num_text ka) (0 # x)"
    proof -
      have "drop 1 (drop p m) = num_text ka @ 0 # x" using assms(1) Some kt None by simp
      then show ?thesis by (simp add: laid_def add.commute)
    qed
    have s: "strchr m (Suc p) PIPE = None" using strchr_miss [OF l] by simp
    have "bytes_at m (Suc p) (length (num_text ka)) = num_text ka" using bytes_laid [OF l] by simp
    moreover have "int e - int (Suc p) = int (length (num_text ka))" using assms(2) Some kt None by simp
    ultimately show ?thesis using Some kt None ka s
      by (simp add: mqtt_numbers_def mqtt_numbers_spec_def Let_def)
  next
    case t: (Some t)
    have l: "laid m (p + 1) (num_text ka) (PIPE # num_text t @ 0 # x)"
    proof -
      have "drop 1 (drop p m) = num_text ka @ PIPE # num_text t @ 0 # x" using assms(1) Some kt t by simp
      then show ?thesis by (simp add: laid_def add.commute)
    qed
    let ?q = "p + 1 + length (num_text ka)"
    have l2: "laid m (?q + 1) (num_text t) (0 # x)" using laid_next [OF l] by (simp add: laid_def)
    have tt: "t < 2 ^ 31" using assms(3) [of ka tmo] Some kt t by simp
    have tt2: "atoi (num_text t) = int t" "length (num_text t) \<le> 10" "num_text t \<noteq> []"
      using tt num_text_length(1) [of t 9] num_text_length(2) [of t] by (simp_all add: atoi_num_text)
    have s: "strchr m (Suc p) PIPE = Some (Suc (p + length (num_text ka)))" using strchr_hit [OF l] by simp
    have b: "bytes_at m (Suc p) (length (num_text ka)) = num_text ka" using bytes_laid [OF l] by simp
    have b2: "bytes_at m (Suc (Suc (p + length (num_text ka)))) (length (num_text t)) = num_text t"
      using bytes_laid [OF l2] by simp
    have e: "e = Suc (Suc (p + length (num_text ka))) + length (num_text t)" using assms(2) Some kt t by simp
    have z: "(0 < (word_of_int (int t) :: u32)) = (t \<noteq> 0)"
    proof -
      have "unat (word_of_nat t :: u32) = t"
        using tt by (simp add: unat_of_nat take_bit_nat_eq_self)
      then show ?thesis by (simp add: word_less_nat_alt)
    qed
    show ?thesis using Some kt t ka s b b2 e tt2 z
      by (simp add: mqtt_numbers_def mqtt_numbers_spec_def Let_def)
  qed
qed

abbreviation nums_text :: "(nat \<times> nat option) option \<Rightarrow> u8 list" where
  "nums_text nums \<equiv> (case nums of None \<Rightarrow> []
      | Some (ka, tmo) \<Rightarrow> PIPE # num_text ka @ (case tmo of None \<Rightarrow> [] | Some t \<Rightarrow> PIPE # num_text t))"

lemma put_topic_laid: "laid m p s x \<Longrightarrow> put_topic a m p (length s) = (if s = [] then a else put_str a s)"
  using bytes_laid [of m p s x] by (auto simp: put_topic_def)

lemma mqtt_topics_exact:
  assumes "drop p m = sub @ PIPE # pub @ PIPE # attr @ nums_text nums @ 0 # x"
    and "plain PIPE sub" "plain PIPE pub" "plain PIPE attr"
    and "length sub < 128" "length pub < 128" "length attr < 128"
    and "e = p + length (sub @ PIPE # pub @ PIPE # attr @ nums_text nums)"
    and "\<And>ka tmo. nums = Some (ka, tmo) \<Longrightarrow> ka < 10 ^ 7 \<and> (\<forall>t. tmo = Some t \<longrightarrow> t < 2 ^ 31)"
  shows "mqtt_topics m e p c = Some (mqtt_numbers_spec nums
    (c\<lparr>mq_subscribe_topic := (if sub = [] then mq_subscribe_topic c else put_str (mq_subscribe_topic c) sub),
       mq_publish_topic := (if pub = [] then mq_publish_topic c else put_str (mq_publish_topic c) pub),
       mq_attribute_topic := (if attr = [] then mq_attribute_topic c else put_str (mq_attribute_topic c) attr)\<rparr>))"
proof -
  let ?p1 = "Suc (p + length sub)"
  let ?p2 = "Suc (?p1 + length pub)"
  let ?p3 = "?p2 + length attr"
  have l1: "laid m p sub (PIPE # pub @ PIPE # attr @ nums_text nums @ 0 # x)"
    using assms(1) by (simp add: laid_def)
  then have l2: "laid m ?p1 pub (PIPE # attr @ nums_text nums @ 0 # x)"
    using laid_next [OF l1] by (simp add: laid_def)
  then have d3: "drop ?p2 m = attr @ nums_text nums @ 0 # x" using laid_next [OF l2] by simp
  then have d4: "drop ?p3 m = nums_text nums @ 0 # x"
  proof -
    have "drop (length attr) (drop ?p2 m) = nums_text nums @ 0 # x" using d3 by simp
    then show ?thesis by (simp add: add.commute add.left_commute)
  qed
  have l3: "laid m ?p2 attr (nums_text nums @ 0 # x)" using d3 by (simp add: laid_def)
  have s1: "strchr m p PIPE = Some (p + length sub)" by (rule strchr_hit [OF l1 assms(2)])
  have s2: "strchr m ?p1 PIPE = Some (?p1 + length pub)" by (rule strchr_hit [OF l2 assms(3)])
  have s3: "strchr m ?p2 PIPE = (if nums = None then None else Some ?p3)"
  proof (cases nums)
    case None
    with l3 have "laid m ?p2 attr (0 # x)" by simp
    from strchr_miss [OF this assms(4)] None show ?thesis by simp
  next
    case (Some kt)
    then obtain y where "laid m ?p2 attr (PIPE # y)" using l3 by (auto split: prod.splits)
    from strchr_hit [OF this assms(4)] Some show ?thesis by simp
  qed
  have e: "e = ?p3 + length (nums_text nums)" using assms(8) by simp
  have n: "mqtt_numbers m e (if nums = None then None else Some ?p3) c' = mqtt_numbers_spec nums c'" for c'
    by (rule mqtt_numbers_exact [OF d4 e assms(9)])
  have t: "\<not> 128 \<le> length sub" "\<not> 128 \<le> length pub" "\<not> 128 \<le> length attr" using assms(5-7) by simp_all
  have sub: "mqtt_topics m e p c = Some (mqtt_numbers m e (if nums = None then None else Some ?p3)
    (c\<lparr>mq_subscribe_topic := put_topic (mq_subscribe_topic c) m p (length sub),
       mq_publish_topic := put_topic (mq_publish_topic c) m ?p1 (length pub),
       mq_attribute_topic := put_topic (mq_attribute_topic c) m ?p2 (length attr)\<rparr>))"
    using s1 s2 s3 t by (cases nums) (simp_all add: mqtt_topics_def Let_def e)
  show ?thesis unfolding sub n put_topic_laid [OF l1] put_topic_laid [OF l2] put_topic_laid [OF l3] ..
qed

text \<open>
  An MQTT command changes what it names and nothing else: broker and token are replaced,
  an empty topic keeps its current value, and so do a keep-alive or a timeout that is missing or
  zero. The keep-alive is stored in 16 bits, so 65536 seconds are stored as 0, the default.
\<close>

lemma mqtt_command_exact:
  assumes "plain PIPE uri" "uri \<noteq> []" "length uri < 128" "plain PIPE token" "token \<noteq> []" "length token < 65"
    and "plain PIPE sub" "plain PIPE pub" "plain PIPE attr"
    and "length sub < 128" "length pub < 128" "length attr < 128"
    and "\<And>ka tmo. nums = Some (ka, tmo) \<Longrightarrow> ka < 10 ^ 7 \<and> (\<forall>t. tmo = Some t \<longrightarrow> t < 2 ^ 31)"
  defines "cmd \<equiv> mqtt_command uri token sub pub attr nums"
  shows "\<exists>c. config_parse_mqtt g (cmd @ 0 # junk) (word_of_nat (length cmd)) = Some c \<and>
    cstr (mq_broker_uri c) = uri \<and> cstr (mq_device_token c) = token \<and>
    cstr (mq_subscribe_topic c) = (if sub = [] then cstr (mq_subscribe_topic g) else sub) \<and>
    cstr (mq_publish_topic c) = (if pub = [] then cstr (mq_publish_topic g) else pub) \<and>
    cstr (mq_attribute_topic c) = (if attr = [] then cstr (mq_attribute_topic g) else attr) \<and>
    mq_keepalive_s c = (case nums of Some (ka, _) \<Rightarrow> if ka = 0 then mq_keepalive_s g else word_of_nat ka | None \<Rightarrow> mq_keepalive_s g) \<and>
    mq_timeout_ms c = (case nums of Some (_, Some t) \<Rightarrow> if t = 0 then mq_timeout_ms g else word_of_nat t | _ \<Rightarrow> mq_timeout_ms g)"
proof -
  define m where "m = cmd @ 0 # junk"
  let ?p = "Suc (3 + length uri)"
  let ?topics = "sub @ PIPE # pub @ PIPE # attr @ nums_text nums"
  have l1: "laid m 3 uri (PIPE # token @ PIPE # ?topics @ 0 # junk)"
    by (simp add: m_def cmd_def mqtt_command_def laid_def ascii_def)
  have l2: "laid m ?p token (PIPE # ?topics @ 0 # junk)" using laid_next [OF l1] by (simp add: laid_def)
  let ?q = "Suc (?p + length token)"
  have d: "drop ?q m = sub @ PIPE # pub @ PIPE # attr @ nums_text nums @ 0 # junk"
    using laid_next [OF l2] by simp
  have e: "length cmd = ?q + length ?topics" by (simp add: cmd_def mqtt_command_def ascii_def)
  have "length (nums_text nums) \<le> 20"
  proof (cases nums)
    case (Some kt)
    obtain ka tmo where kt: "kt = (ka, tmo)" by (metis surj_pair)
    have "length (num_text ka) \<le> 7" "\<And>t. tmo = Some t \<Longrightarrow> length (num_text t) \<le> 10"
      using assms(13) [of ka tmo] Some kt num_text_length(1) [of ka 6] num_text_length(1) [of _ 9] by auto
    then show ?thesis using Some kt by (auto split: option.splits)
  qed simp
  then have len: "unat (word_of_nat (length cmd) :: u16) = length cmd"
    using e assms(3,6,10-12) by (intro unat_u16_of_nat) simp
  have "5 \<le> length cmd" using e by simp
  then have g5: "\<not> (word_of_nat (length cmd) :: u16) < 5" unfolding word_less_nat_alt len by simp
  have g: "\<not> length cmd \<le> 3 + length uri"
    "\<not> length cmd \<le> ?p + length token" "\<not> 128 \<le> length uri" "\<not> 65 \<le> length token"
    using e assms(3,6) by simp_all
  have s1: "strchr m 3 PIPE = Some (3 + length uri)" by (rule strchr_hit [OF l1 assms(1)])
  have s2: "strchr m ?p PIPE = Some (?p + length token)" by (rule strchr_hit [OF l2 assms(4)])
  note t = mqtt_topics_exact [OF d assms(7-12) e assms(13)]
  define c where "c = mqtt_numbers_spec nums (g\<lparr>mq_broker_uri := put_str (mq_broker_uri g) uri,
       mq_device_token := put_str (mq_device_token g) token,
       mq_subscribe_topic := (if sub = [] then mq_subscribe_topic g else put_str (mq_subscribe_topic g) sub),
       mq_publish_topic := (if pub = [] then mq_publish_topic g else put_str (mq_publish_topic g) pub),
       mq_attribute_topic := (if attr = [] then mq_attribute_topic g else put_str (mq_attribute_topic g) attr)\<rparr>)"
  have "config_parse_mqtt g m (word_of_nat (length cmd)) = Some c"
    using g g5 s1 s2 bytes_laid [OF l1] bytes_laid [OF l2] assms(2,5) t
    by (simp add: config_parse_mqtt_def Let_def len c_def)
  moreover have "cstr (mq_broker_uri c) = uri \<and> cstr (mq_device_token c) = token \<and>
    cstr (mq_subscribe_topic c) = (if sub = [] then cstr (mq_subscribe_topic g) else sub) \<and>
    cstr (mq_publish_topic c) = (if pub = [] then cstr (mq_publish_topic g) else pub) \<and>
    cstr (mq_attribute_topic c) = (if attr = [] then cstr (mq_attribute_topic g) else attr) \<and>
    mq_keepalive_s c = (case nums of Some (ka, _) \<Rightarrow> if ka = 0 then mq_keepalive_s g else word_of_nat ka | None \<Rightarrow> mq_keepalive_s g) \<and>
    mq_timeout_ms c = (case nums of Some (_, Some t) \<Rightarrow> if t = 0 then mq_timeout_ms g else word_of_nat t | _ \<Rightarrow> mq_timeout_ms g)"
    using assms(1,4,7-9)
    by (auto simp: c_def mqtt_numbers_spec_def plain_def cstr_put_str Let_def split: option.splits nat.splits)
  ultimately show ?thesis by (auto simp: m_def)
qed

definition demo_mqtt :: mqtt_config_data where
  "demo_mqtt = \<lparr>mq_broker_uri = arr 128 (ascii ''mqtt://old''), mq_device_token = arr 65 (ascii ''t0''),
     mq_subscribe_topic = arr 128 (ascii ''sub''), mq_attribute_topic = arr 128 (ascii ''attr''),
     mq_publish_topic = arr 128 (ascii ''pub''), mq_keepalive_s = 30, mq_timeout_ms = 10000\<rparr>"

lemma mqtt_command_exact_applied:
  "\<exists>c. config_parse_mqtt demo_mqtt
      (mqtt_command (ascii ''mqtt://b'') (ascii ''tok'') [] (ascii ''p'') [] (Some (65536, None)) @ 0 # [124])
      25 = Some c \<and> cstr (mq_broker_uri c) = ascii ''mqtt://b'' \<and> cstr (mq_subscribe_topic c) = ascii ''sub'' \<and>
    cstr (mq_publish_topic c) = ascii ''p'' \<and> mq_keepalive_s c = 0 \<and> mq_timeout_ms c = 10000"
proof -
  let ?u = "ascii ''mqtt://b''" and ?t = "ascii ''tok''" and ?p = "ascii ''p''"
  have h: "plain PIPE ?u" "plain PIPE ?t" "plain PIPE ?p" "plain PIPE []" "?u \<noteq> []" "?t \<noteq> []" "?p \<noteq> []"
    by (simp_all add: plain_def ascii_def)
  have l: "length ?u < 128" "length ?t < 65" "length ?p < 128" by (simp_all add: ascii_def)
  have s: "cstr (mq_subscribe_topic demo_mqtt) = ascii ''sub''"
    by (simp add: demo_mqtt_def) (intro cstr_put_str, simp add: ascii_def)
  have len: "length (mqtt_command ?u ?t [] ?p [] (Some (65536, None))) = 25"
    by (simp add: mqtt_command_def num_text_def dec_digits.simps ascii_def)
  show ?thesis
    using mqtt_command_exact [OF h(1,5) l(1) h(2,6) l(2) h(4,3,4) _ l(3), of "Some (65536, None)" demo_mqtt "[124]"]
      len h(7) s by (auto simp: demo_mqtt_def)
qed

text \<open>
  No command overruns a field: whatever bytes arrive and whatever length is declared, every
  character array of an accepted configuration has its declared size and is terminated, and the
  modem pins are pins of the expander. The MQTT parser, which works on the current
  configuration, keeps that.
\<close>

lemma config_fields_in_bounds:
  "(config_parse_wifi m len = Some wifi \<longrightarrow> wifi_ok wifi) \<and>
   (config_parse_lte m len = Some lte \<longrightarrow> lte_ok lte) \<and>
   (config_parse_mqtt g m len = Some mqtt \<longrightarrow> mqtt_ok g \<longrightarrow> mqtt_ok mqtt) \<and>
   (config_parse_http m len = Some http \<longrightarrow> http_ok http) \<and>
   (config_parse_coap m len = Some coap \<longrightarrow> coap_ok coap)"
  using wifi_parse_ok lte_parse_ok mqtt_parse_ok http_parse_ok coap_parse_ok by blast

lemma config_fields_in_bounds_applied:
  "\<exists>c. config_parse_http (ascii ''HP:http://x|tok|70000|1'' @ [0]) 24 = Some c \<and> http_ok c \<and>
     hp_port c = 4464"
proof -
  let ?m = "ascii ''HP:http://x|tok|70000|1'' @ [0]"
  obtain c where c: "config_parse_http ?m 24 = Some c" "hp_port c = 4464"
    by (simp add: config_parse_http_def Let_def field_end_def strchr_def ascii_def opt_str_def
        atoi_def is_space_def is_digit_def digits_value_def clamp_long_def)
  have "config_parse_http ?m 24 = Some c \<longrightarrow> http_ok c"
    using config_fields_in_bounds [of ?m 24] by blast
  with c show ?thesis by blast
qed

section \<open>Internet commands\<close>

definition inet_text :: "internet_type \<Rightarrow> string" where
  "inet_text t = (case t of CONFIG_INTERNET_WIFI \<Rightarrow> ''WIFI'' | CONFIG_INTERNET_LTE \<Rightarrow> ''LTE''
     | CONFIG_INTERNET_ETHERNET \<Rightarrow> ''ETHERNET'' | CONFIG_INTERNET_NBIOT \<Rightarrow> ''NBIOT'')"

definition inet_command :: "internet_type \<Rightarrow> (bool \<times> internet_type option) option \<Rightarrow> u8 list" where
  "inet_command t opt = ascii (''IN:'' @ inet_text t @
     (case opt of None \<Rightarrow> []
      | Some (on, fb) \<Rightarrow> (if on then '':1'' else '':0'') @
          (case fb of None \<Rightarrow> [] | Some f \<Rightarrow> '':'' @ inet_text f)))"

lemma inet_type_text:
  "laid m p (ascii (inet_text t)) x \<Longrightarrow> inet_type_of m p (length (inet_text t)) = Some t"
  by (cases t) (simp_all add: inet_type_of_def has_prefix_take inet_text_def ascii_def)

lemma inet_text_free: "COLON \<notin> set (ascii (inet_text t))" "inet_text t \<noteq> []" "length (inet_text t) \<le> 8"
  "3 \<le> length (inet_text t)"
  by (cases t; simp add: inet_text_def ascii_def)+

text \<open>
  An internet command selects what it names. The fallback switch changes only when given;
  the fallback type is the one given, if it is Wi-Fi, LTE or Ethernet, and otherwise chosen:
  Wi-Fi for LTE and Ethernet, and for Wi-Fi LTE when an access point is configured, else
  Ethernet, so a chosen fallback is never the primary connection (for NB-IoT it keeps its
  value). A fallback given explicitly is not compared with the primary.
\<close>

lemma inet_command_exact:
  "config_parse_internet apn (inet_command t opt @ 0 # junk) (word_of_nat (length (inet_command t opt))) g =
    (Some t,
     g\<lparr>g_internet_fallback := (case opt of None \<Rightarrow> g_internet_fallback g | Some (on, _) \<Rightarrow> on),
       g_internet_fallback_type :=
         (case opt of Some (_, Some f) \<Rightarrow>
            if f = CONFIG_INTERNET_NBIOT then g_internet_fallback_type (auto_fallback apn t g) else f
          | _ \<Rightarrow> g_internet_fallback_type (auto_fallback apn t g))\<rparr>) \<and>
   (t \<noteq> CONFIG_INTERNET_NBIOT \<longrightarrow> g_internet_fallback_type (auto_fallback apn t g) \<noteq> t)"
proof -
  define m where "m = inet_command t opt @ 0 # junk"
  define e where "e = length (inet_command t opt)"
  let ?n = "length (inet_text t)"
  have e: "e = 3 + ?n + (case opt of None \<Rightarrow> 0 | Some (_, fb) \<Rightarrow>
      2 + (case fb of None \<Rightarrow> 0 | Some f \<Rightarrow> 1 + length (inet_text f)))"
    by (simp add: e_def inet_command_def split: option.splits prod.splits)
  have "e \<le> 30"
  proof (cases opt)
    case None
    then show ?thesis using inet_text_free(3) [of t] e by simp
  next
    case (Some r)
    then show ?thesis using inet_text_free(3) [of t] inet_text_free(3) [of "the (snd r)"] e
      by (cases "snd r") (auto split: prod.splits)
  qed
  then have len: "unat (word_of_nat e :: u16) = e" by (intro unat_u16_of_nat) simp
  have "5 \<le> e" using inet_text_free(4) [of t] e by simp
  then have l5: "\<not> (word_of_nat e :: u16) < 5" unfolding word_less_nat_alt len by simp
  note base = config_parse_internet_def Let_def len l5
  have diff: "g_internet_fallback_type (auto_fallback apn t g) \<noteq> t \<or> t = CONFIG_INTERNET_NBIOT"
    by (cases t) (simp_all add: auto_fallback_def)
  have fb: "g_internet_fallback (auto_fallback apn t g) = g_internet_fallback g" by (simp add: auto_fallback_def)
  have "config_parse_internet apn m (word_of_nat e) g = (Some t,
     g\<lparr>g_internet_fallback := (case opt of None \<Rightarrow> g_internet_fallback g | Some (on, _) \<Rightarrow> on),
       g_internet_fallback_type :=
         (case opt of Some (_, Some f) \<Rightarrow>
            if f = CONFIG_INTERNET_NBIOT then g_internet_fallback_type (auto_fallback apn t g) else f
          | _ \<Rightarrow> g_internet_fallback_type (auto_fallback apn t g))\<rparr>)"
  proof (cases opt)
    case None
    then have l: "laid m 3 (ascii (inet_text t)) (0 # junk)"
      by (simp add: m_def inet_command_def laid_def) (simp add: ascii_def)
    have "memchr m 3 (e - 3) COLON = None" using memchr_miss [OF l inet_text_free(1)] e None by simp
    moreover have "e - 3 = ?n" using e None by simp
    ultimately show ?thesis using None inet_type_text [OF l] fb by (simp add: base)
  next
    case (Some r)
    obtain on fbt where o: "r = (on, fbt)" by (metis surj_pair)
    let ?tail = "(case fbt of None \<Rightarrow> [] | Some f \<Rightarrow> COLON # ascii (inet_text f)) @ 0 # junk"
    have l: "laid m 3 (ascii (inet_text t)) (COLON # (if on then 49 else 48) # ?tail)"
      using Some o by (simp add: m_def inet_command_def laid_def split: option.split) (simp add: ascii_def)
    let ?c = "3 + ?n"
    have h1: "memchr m 3 (e - 3) COLON = Some ?c"
      using memchr_hit [OF l inet_text_free(1), of "e - 3"] e Some o by simp
    have l2: "laid m (?c + 1) [if on then 49 else 48] ?tail"
      using laid_next [OF l] by (simp add: laid_def)
    have c: "Suc ?c < e" using e Some o by simp
    have ch: "byte_at m (Suc ?c) = (if on then 49 else 48)" using byte_laid [OF l2] by simp
    show ?thesis
    proof (cases fbt)
      case None
      then have "memchr m (Suc ?c) (e - Suc ?c) COLON = None"
        using memchr_miss [OF l2] e Some o by (simp split: if_splits)
      then show ?thesis using Some o None c h1 ch inet_type_text [OF l] fb by (simp add: base)
    next
      case f: (Some f)
      have l2': "laid m (?c + 1) [if on then 49 else 48] (COLON # ascii (inet_text f) @ 0 # junk)" using l2 f by simp
      have h2: "memchr m (Suc ?c) (e - Suc ?c) COLON = Some (Suc (Suc ?c))"
        using memchr_hit [OF l2', of "e - Suc ?c"] e Some o f by simp
      have l3: "laid m (Suc (Suc (Suc ?c))) (ascii (inet_text f)) (0 # junk)"
        using laid_next [OF l2'] by (simp add: laid_def)
      have len3: "e - Suc (Suc (Suc ?c)) = length (inet_text f)" "Suc (Suc (Suc ?c)) < e"
        using e Some o f inet_text_free(2,4) [of f] by simp_all
      show ?thesis using Some o f c h1 h2 ch inet_type_text [OF l] inet_type_text [OF l3] fb len3
        by (simp add: base split: internet_type.split)
    qed
  qed
  then show ?thesis using diff by (auto simp: m_def e_def)
qed

text \<open>"IN:WIFI:1:WIFI" makes Wi-Fi the fallback of Wi-Fi; without the last field it is LTE.\<close>

lemma inet_command_exact_applied:
  "let g = \<lparr>g_internet_fallback = False, g_internet_fallback_type = CONFIG_INTERNET_NBIOT\<rparr>;
       apn = arr 64 (ascii ''m-wap''); cmd = (\<lambda>fb. inet_command CONFIG_INTERNET_WIFI (Some (True, fb)));
       run = (\<lambda>fb. snd (config_parse_internet apn (cmd fb @ [0]) (word_of_nat (length (cmd fb))) g))
   in g_internet_fallback_type (run (Some CONFIG_INTERNET_WIFI)) = CONFIG_INTERNET_WIFI \<and>
      g_internet_fallback_type (run None) = CONFIG_INTERNET_LTE"
proof -
  let ?g = "\<lparr>g_internet_fallback = False, g_internet_fallback_type = CONFIG_INTERNET_NBIOT\<rparr>"
  have "auto_fallback (arr 64 (ascii ''m-wap'')) CONFIG_INTERNET_WIFI ?g =
      ?g\<lparr>g_internet_fallback_type := CONFIG_INTERNET_LTE\<rparr>"
    by (simp add: auto_fallback_def byte_at_def put_str_def ascii_def)
  then show ?thesis
    using inet_command_exact [of _ CONFIG_INTERNET_WIFI "Some (True, Some CONFIG_INTERNET_WIFI)" "[]" ?g]
      inet_command_exact [of "arr 64 (ascii ''m-wap'')" CONFIG_INTERNET_WIFI "Some (True, None)" "[]" ?g]
    by (simp add: Let_def)
qed

end
