(* ===== verification/Main_App.thy ===== *)
theory Main_App
  imports Power_Monitor Config_Parse
begin

text \<open>
  \<open>main/DA2_esp.c\<close>: the power rails and the status LED on the on-board expander, the buttons with
  their debouncing, and the main loop with the mode changes. The rails are pins of the expander
  modelled in \<open>TCA_Stack\<close>, reached through \<open>pwr_st\<close>, which the battery switch of
  \<open>Power_Source\<close> shares; the tasks the file starts and stops are outputs.

  The properties: the rails follow the external power and the battery switch, the LED shows the
  most urgent condition and every pattern is its own, a button never goes dead.
\<close>

section \<open>State\<close>

datatype app_mode = APP_MODE_NORMAL | APP_MODE_CONFIG

datatype main_out =
    MqttTaskStart | HttpTaskStart | CoapTaskStart | MqttTaskStop | HttpTaskStop | CoapTaskStop
  | LteTaskStart | WifiTaskStart | EthTaskStart | MonitorStop | LightSleepOff
  | WebStop | WifiApStart | WebStartAp | DnsStart | UartSelect bool | Restart

record main_st =
  current_mode :: app_mode
  requested_mode :: int
  battery_source_enabled :: bool
  s_ext_power_ok :: bool
  main_task :: bool                      \<comment> \<open>\<open>main_task_handle\<close> is set\<close>
  notification :: "u32 option"           \<comment> \<open>the value that waits for the main loop\<close>
  pw :: pwr_st
  main_outs :: "main_out list"

text \<open>What the LED task reads: the status \<open>pwr_monitor_get_status\<close> gave, if it did, and the
  state of the connections.\<close>

record rgb_env =
  pwr_status :: "pwr_monitor_status option"
  wan_online :: bool
  server_online :: bool
  rgb_tick :: u32

abbreviation "STACK_GPIO_PIN_04 \<equiv> 4 :: u8"
abbreviation "STACK_GPIO_PIN_10 \<equiv> 8 :: u8"
abbreviation "STACK_GPIO_PIN_11 \<equiv> 9 :: u8"
abbreviation "STACK_GPIO_PIN_12 \<equiv> 10 :: u8"
abbreviation "STACK_GPIO_PIN_13 \<equiv> 11 :: u8"
abbreviation "STACK_GPIO_PIN_14 \<equiv> 12 :: u8"
abbreviation "STACK_GPIO_PIN_15 \<equiv> 13 :: u8"

definition main_emit :: "main_out list \<Rightarrow> main_st \<Rightarrow> main_st" where
  "main_emit os s = s\<lparr>main_outs := main_outs s @ os\<rparr>"

definition gpio_out :: "i2c_drv \<Rightarrow> u8 \<Rightarrow> u8 \<Rightarrow> bool \<Rightarrow> main_st \<Rightarrow> main_st" where
  "gpio_out drv slot pin level s =
     s\<lparr>pw := (pw s)\<lparr>stk := snd (stack_handler_gpio_write drv slot pin level (stk (pw s)))\<rparr>\<rparr>"

definition gpio_dir :: "i2c_drv \<Rightarrow> u8 \<Rightarrow> u8 \<Rightarrow> bool \<Rightarrow> main_st \<Rightarrow> main_st" where
  "gpio_dir drv slot pin is_output s =
     s\<lparr>pw := (pw s)\<lparr>stk := snd (stack_handler_gpio_set_direction drv slot pin is_output (stk (pw s)))\<rparr>\<rparr>"

section \<open>Rails and LED\<close>

definition power_rail_write :: "i2c_drv \<Rightarrow> u8 \<Rightarrow> bool \<Rightarrow> main_st \<Rightarrow> main_st" where
  "power_rail_write drv pin level s =
     (if \<not> s_ext_power_ok s \<and> level \<and> (pin = STACK_GPIO_PIN_15 \<or> pin = STACK_GPIO_PIN_11) then s
      else gpio_out drv 0 pin level s)"

definition rgb_led_apply :: "i2c_drv \<Rightarrow> bool \<Rightarrow> bool \<Rightarrow> bool \<Rightarrow> main_st \<Rightarrow> main_st" where
  "rgb_led_apply drv red_on green_on blue_on s =
     power_rail_write drv STACK_GPIO_PIN_14 (\<not> blue_on)
       (power_rail_write drv STACK_GPIO_PIN_13 (\<not> green_on)
         (power_rail_write drv STACK_GPIO_PIN_12 (\<not> red_on) s))"

abbreviation "RGB_BLINK_FAST_MS \<equiv> 250 :: u32"
abbreviation "RGB_BLINK_SLOW_MS \<equiv> 500 :: u32"
abbreviation "PWR_BATT_LOW_SOC_PCT \<equiv> 25 :: u8"

definition rgb_blink_phase :: "(u32 \<Rightarrow> u32) \<Rightarrow> u32 \<Rightarrow> u32 \<Rightarrow> bool" where
  "rgb_blink_phase ms2t tick period_ms =
     (let period_ticks = (if ms2t period_ms = 0 then 1 else ms2t period_ms)
      in (tick div period_ticks) AND 1 = 0)"

definition battery_critical :: "rgb_env \<Rightarrow> bool" where
  "battery_critical e =
     (case pwr_status e of Some p \<Rightarrow> (if bat_present p then bat_critical_low p else False) | None \<Rightarrow> False)"

definition battery_low :: "rgb_env \<Rightarrow> bool" where
  "battery_low e =
     (case pwr_status e of
        Some p \<Rightarrow> (if bat_present p
                   then battery_critical e \<or> (bat_soc_pct p > 0 \<and> bat_soc_pct p \<le> PWR_BATT_LOW_SOC_PCT)
                   else False)
      | None \<Rightarrow> False)"

definition rgb_status_refresh :: "i2c_drv \<Rightarrow> (u32 \<Rightarrow> u32) \<Rightarrow> rgb_env \<Rightarrow> main_st \<Rightarrow> main_st" where
  "rgb_status_refresh drv ms2t e s =
     (if battery_critical e
      then
        let led_on = rgb_blink_phase ms2t (rgb_tick e) RGB_BLINK_FAST_MS
        in rgb_led_apply drv led_on False False s
      else if \<not> server_online e
      then
        let led_on = rgb_blink_phase ms2t (rgb_tick e)
                       (if wan_online e then RGB_BLINK_SLOW_MS else RGB_BLINK_FAST_MS)
        in if wan_online e then rgb_led_apply drv False False led_on s
           else rgb_led_apply drv led_on False led_on s
      else if battery_low e
      then
        let led_on = rgb_blink_phase ms2t (rgb_tick e) RGB_BLINK_SLOW_MS
        in rgb_led_apply drv led_on led_on False s
      else if current_mode s = APP_MODE_CONFIG
      then
        let led_on = rgb_blink_phase ms2t (rgb_tick e) RGB_BLINK_SLOW_MS
        in rgb_led_apply drv False led_on led_on s
      else rgb_led_apply drv False True False s)"

definition power_rails_apply :: "i2c_drv \<Rightarrow> (u32 \<Rightarrow> u32) \<Rightarrow> rgb_env \<Rightarrow> bool \<Rightarrow> main_st \<Rightarrow> main_st" where
  "power_rails_apply drv ms2t e ext s =
     (if s_ext_power_ok s = ext then s
      else
        let s1 = s\<lparr>s_ext_power_ok := ext\<rparr>;
            s2 = (if \<not> ext
                  then gpio_out drv 0 STACK_GPIO_PIN_11 False (gpio_out drv 0 STACK_GPIO_PIN_15 False s1)
                  else gpio_out drv 0 STACK_GPIO_PIN_11 (battery_source_enabled s1)
                         (gpio_out drv 0 STACK_GPIO_PIN_15 True s1))
        in rgb_status_refresh drv ms2t e s2)"

section \<open>Buttons\<close>

text \<open>One button: the debounce flag, the interrupt enable and the one-shot timer.\<close>

record button =
  debounce_active :: bool
  intr_enabled :: bool
  timer_armed :: bool

definition gpio_isr_handler :: "button \<Rightarrow> button" where
  "gpio_isr_handler b =
     (if debounce_active b then b
      else b\<lparr>debounce_active := True, intr_enabled := False, timer_armed := True\<rparr>)"

text \<open>The sampling loop over the levels read, which ends early at a bouncing pin.\<close>

fun stable_reads :: "int list \<Rightarrow> int \<Rightarrow> nat \<Rightarrow> nat \<times> int" where
  "stable_reads [] pin_state n = (n, pin_state)"
| "stable_reads (current_read # rs) pin_state n =
     (let pin_state = (if pin_state = -1 then current_read else pin_state)
      in if current_read = pin_state then stable_reads rs pin_state (n + 1) else (n, pin_state))"

abbreviation "GPIO_STABLE_SAMPLES \<equiv> 3 :: nat"

definition notify_main :: "u32 \<Rightarrow> main_st \<Rightarrow> main_st" where
  "notify_main v s = (if main_task s then s\<lparr>notification := Some v\<rparr> else s)"

text \<open>The timer's callback: \<open>level i\<close> is the level of the \<open>i\<close>-th read, \<open>v\<close> the button's value.\<close>

definition gpio_debounce_callback :: "u32 \<Rightarrow> (nat \<Rightarrow> int) \<Rightarrow> button \<times> main_st \<Rightarrow> button \<times> main_st" where
  "gpio_debounce_callback v level = (\<lambda>(b, s).
     let (stable_count, pin_state) = stable_reads (map level [0..<GPIO_STABLE_SAMPLES]) (-1) 0;
         s1 = (if stable_count \<ge> GPIO_STABLE_SAMPLES \<and> pin_state = 0 then notify_main v s else s)
     in (b\<lparr>debounce_active := False, intr_enabled := True, timer_armed := False\<rparr>, s1))"

section \<open>Helpers and mode changes\<close>

definition server_connect_stop :: "server_type \<Rightarrow> main_out list" where
  "server_connect_stop t =
     (case t of CONFIG_SERVERTYPE_MQTT \<Rightarrow> [MqttTaskStop] | CONFIG_SERVERTYPE_HTTP \<Rightarrow> [HttpTaskStop]
      | CONFIG_SERVERTYPE_COAP \<Rightarrow> [CoapTaskStop])"

definition server_connect_start :: "server_type \<Rightarrow> main_out list" where
  "server_connect_start t =
     (case t of CONFIG_SERVERTYPE_MQTT \<Rightarrow> [MqttTaskStart] | CONFIG_SERVERTYPE_HTTP \<Rightarrow> [HttpTaskStart]
      | CONFIG_SERVERTYPE_COAP \<Rightarrow> [CoapTaskStart])"

definition internet_connect_start :: "internet_type \<Rightarrow> main_out list" where
  "internet_connect_start t =
     (case t of CONFIG_INTERNET_LTE \<Rightarrow> [LteTaskStart] | CONFIG_INTERNET_WIFI \<Rightarrow> [WifiTaskStart]
      | CONFIG_INTERNET_ETHERNET \<Rightarrow> [EthTaskStart] | _ \<Rightarrow> [])"

definition uart_switch_route_to_lan_mcu :: "main_st \<Rightarrow> main_st" where
  "uart_switch_route_to_lan_mcu s = main_emit [UartSelect False] s"

definition uart_switch_route_to_hmi :: "main_st \<Rightarrow> main_st" where
  "uart_switch_route_to_hmi s = main_emit [UartSelect True] s"

definition uart_mode_switch_callback :: "int \<Rightarrow> main_st \<Rightarrow> main_st" where
  "uart_mode_switch_callback mode s = notify_main 3 (s\<lparr>requested_mode := mode\<rparr>)"

definition switch_to_config_mode :: "bool \<Rightarrow> server_type \<Rightarrow> main_st \<Rightarrow> main_st" where
  "switch_to_config_mode pm_enable srv s =
     (if current_mode s = APP_MODE_CONFIG then s
      else (main_emit ((if pm_enable then [LightSleepOff] else []) @ [MonitorStop] @ server_connect_stop srv @
              [WebStop, WifiApStart, WebStartAp, DnsStart]) s)\<lparr>current_mode := APP_MODE_CONFIG\<rparr>)"

definition switch_to_normal_mode :: "main_st \<Rightarrow> main_st" where
  "switch_to_normal_mode s = (if current_mode s = APP_MODE_NORMAL then s else main_emit [Restart] s)"

section \<open>The main program\<close>

abbreviation "NOTIFY_BUTTON_PRESS \<equiv> 1 :: u32"
abbreviation "NOTIFY_GPIO3_PRESS \<equiv> 2 :: u32"
abbreviation "NOTIFY_UART_MODE_SWITCH \<equiv> 3 :: u32"

text \<open>The part of \<open>app_main\<close> that sets the rails up, and the check of the supply that follows:
  \<open>boot_pwr\<close> is the power-good flag of the first status, if it could be read.\<close>

definition app_main_setup :: "i2c_drv \<Rightarrow> main_st \<Rightarrow> main_st" where
  "app_main_setup drv s =
     (let s = gpio_dir drv 0 STACK_GPIO_PIN_15 True s;
          s = power_rail_write drv STACK_GPIO_PIN_15 True s;
          s = gpio_dir drv 0 STACK_GPIO_PIN_10 True s;
          s = gpio_dir drv 0 STACK_GPIO_PIN_11 True s;
          s = gpio_dir drv 0 STACK_GPIO_PIN_12 True s;
          s = gpio_dir drv 0 STACK_GPIO_PIN_13 True s;
          s = gpio_dir drv 0 STACK_GPIO_PIN_14 True s;
          s = gpio_dir drv 1 STACK_GPIO_PIN_04 True s;
          s = gpio_out drv 0 STACK_GPIO_PIN_10 True s;
          s = power_rail_write drv STACK_GPIO_PIN_11 True s;
          s = power_rail_write drv STACK_GPIO_PIN_12 False s;
          s = power_rail_write drv STACK_GPIO_PIN_13 False s;
          s = power_rail_write drv STACK_GPIO_PIN_14 False s;
          s = gpio_out drv 1 STACK_GPIO_PIN_04 True s
      in s)"

definition app_main_rails ::
  "i2c_drv \<Rightarrow> (u32 \<Rightarrow> u32) \<Rightarrow> rgb_env \<Rightarrow> bool option \<Rightarrow> main_st \<Rightarrow> main_st" where
  "app_main_rails drv ms2t e boot_pwr s0 =
     (let s = app_main_setup drv s0
      in if boot_pwr = Some False
         then power_rails_apply drv ms2t e False (s\<lparr>s_ext_power_ok := True\<rparr>)
         else s)"

definition gpio3_pressed :: "i2c_drv \<Rightarrow> (u32 \<Rightarrow> u32) \<Rightarrow> rgb_env \<Rightarrow> main_st \<Rightarrow> main_st" where
  "gpio3_pressed drv ms2t e s =
     (let s = s\<lparr>battery_source_enabled := \<not> battery_source_enabled s\<rparr>;
          s = s\<lparr>pw := snd (pwr_source_set_battery_enable drv (battery_source_enabled s) (pw s))\<rparr>;
          s = gpio_out drv 0 STACK_GPIO_PIN_10 (battery_source_enabled s) s;
          s = power_rail_write drv STACK_GPIO_PIN_11 (battery_source_enabled s) s;
          s = gpio_out drv 1 STACK_GPIO_PIN_04 (battery_source_enabled s) s
      in rgb_status_refresh drv ms2t e s)"

text \<open>One turn of the main loop with the notification it has waited for.\<close>

definition main_loop_turn ::
  "i2c_drv \<Rightarrow> (u32 \<Rightarrow> u32) \<Rightarrow> bool \<Rightarrow> server_type \<Rightarrow> rgb_env \<Rightarrow> main_st \<Rightarrow> main_st" where
  "main_loop_turn drv ms2t pm_enable srv e s0 =
     (case notification s0 of
        None \<Rightarrow> s0
      | Some notif \<Rightarrow>
          let s = s0\<lparr>notification := None\<rparr>;
              s = (if notif = NOTIFY_BUTTON_PRESS
                   then (if current_mode s = APP_MODE_NORMAL then switch_to_config_mode pm_enable srv s
                         else switch_to_normal_mode s)
                   else s);
              s = (if notif = NOTIFY_GPIO3_PRESS then gpio3_pressed drv ms2t e s else s)
          in if notif = NOTIFY_UART_MODE_SWITCH
             then (if requested_mode s = 0 then switch_to_config_mode pm_enable srv s
                   else if requested_mode s = 1 then switch_to_normal_mode s else s)\<lparr>requested_mode := -1\<rparr>
             else s)"

section \<open>What a write does to the pins\<close>

definition out_pin :: "nat \<Rightarrow> (nat \<Rightarrow> u8) \<Rightarrow> main_st \<Rightarrow> nat \<Rightarrow> bool" where
  "out_pin d f s q = pin_bit (regs_of d f (pwr_i2c (pw s))) 2 q"

text \<open>The on-board expander answers as a register file at the handle \<open>d\<close>, which neither the
  adapter's expander nor the charger shares.\<close>

definition rail_hw :: "i2c_drv \<Rightarrow> nat \<Rightarrow> (nat \<Rightarrow> u8) \<Rightarrow> main_st \<Rightarrow> bool" where
  "rail_hw drv d f s \<longleftrightarrow> register_device drv d f \<and> slot_ready d 0 (stk (pw s)) \<and>
     dev_handle (g_tca (stk (pw s)) ! 1) \<noteq> Some d \<and> bq25892_dev (pw s) \<noteq> Some d"

lemma stack_ops_frame [simp]:
  "g_tca (snd (stack_handler_gpio_write drv i p l g)) = g_tca g"
  "g_slot_present (snd (stack_handler_gpio_write drv i p l g)) = g_slot_present g"
  "g_initialized (snd (stack_handler_gpio_write drv i p l g)) = g_initialized g"
  "g_tca (snd (stack_handler_gpio_set_direction drv i p b g)) = g_tca g"
  "g_slot_present (snd (stack_handler_gpio_set_direction drv i p b g)) = g_slot_present g"
  "g_initialized (snd (stack_handler_gpio_set_direction drv i p b g)) = g_initialized g"
  by (simp_all add: stack_handler_gpio_write_def stack_handler_gpio_set_direction_def case_prod_beta Let_def)

lemma rail_hw_ops [simp]:
  "rail_hw drv d f (gpio_out drv i pin l s) = rail_hw drv d f s"
  "rail_hw drv d f (gpio_dir drv i pin l s) = rail_hw drv d f s"
  by (simp_all add: rail_hw_def gpio_out_def gpio_dir_def slot_ready_def)

lemma gpio_flags [simp]:
  "s_ext_power_ok (gpio_out drv i pin l s) = s_ext_power_ok s"
  "battery_source_enabled (gpio_out drv i pin l s) = battery_source_enabled s"
  "current_mode (gpio_out drv i pin l s) = current_mode s"
  "s_ext_power_ok (gpio_dir drv i pin l s) = s_ext_power_ok s"
  "battery_source_enabled (gpio_dir drv i pin l s) = battery_source_enabled s"
  by (simp_all add: gpio_out_def gpio_dir_def)

lemma out_pin_write:
  assumes "rail_hw drv d f s" and "is_valid_pin pin" and "q < 16"
  shows "out_pin d f (gpio_out drv 0 pin level s) q = (if q = unat pin then level else out_pin d f s q)"
proof -
  obtain r g1 where w: "stack_handler_gpio_write drv 0 pin level (stk (pw s)) = (r, g1)" by (metis prod.collapse)
  have "register_device drv d f" "slot_ready d 0 (stk (pw s))" using assms(1) by (simp_all add: rail_hw_def)
  from gpio_write_effect [OF this assms(2) w] show ?thesis
    using assms(3) by (simp add: out_pin_def gpio_out_def w)
qed

lemma regs_other_slot:
  assumes "dev_handle (g_tca g ! 1) \<noteq> Some d"
  shows "regs_of d f (stk_i2c (snd (stack_handler_gpio_write drv 1 pin level g))) = regs_of d f (stk_i2c g)"
    and "regs_of d f (stk_i2c (snd (stack_handler_gpio_set_direction drv 1 pin b g))) = regs_of d f (stk_i2c g)"
proof -
  have w: "regs_of d f (snd (tca_set_pin_verified_inst drv (g_tca g ! 1) port k level v s)) = regs_of d f s" for port k level v s
  proof (cases "dev_handle (g_tca g ! 1)")
    case (Some d')
    with assms show ?thesis by (intro tca_set_pin_other_device) auto
  qed (simp add: tca_set_pin_verified_inst_def)
  then show "regs_of d f (stk_i2c (snd (stack_handler_gpio_write drv 1 pin level g))) = regs_of d f (stk_i2c g)"
    by (simp add: stack_handler_gpio_write_def case_prod_beta Let_def)
  have r: "regs_of d f (snd (snd (tca_read_reg drv (g_tca g ! 1) a s))) = regs_of d f s"
    "regs_of d f (snd (tca_write_reg drv (g_tca g ! 1) a x s)) = regs_of d f s" for a x s
    using assms by (cases "dev_handle (g_tca g ! 1)"; simp add: tca_read_reg_def tca_write_reg_def i2c_ops i2c_no_handle)+
  show "regs_of d f (stk_i2c (snd (stack_handler_gpio_set_direction drv 1 pin b g))) = regs_of d f (stk_i2c g)"
    by (simp add: stack_handler_gpio_set_direction_def tca_read_config_register_inst_def
        tca_configure_port_inst_def case_prod_beta Let_def r [simplified])
qed

lemma out_pin_other:
  assumes "rail_hw drv d f s"
  shows "out_pin d f (gpio_out drv 1 pin level s) q = out_pin d f s q"
    and "out_pin d f (gpio_dir drv 1 pin b s) q = out_pin d f s q"
  using assms by (simp_all add: rail_hw_def out_pin_def gpio_out_def gpio_dir_def regs_other_slot)

lemma out_pin_dir:
  assumes "rail_hw drv d f s" and "is_valid_pin pin" and "q < 16"
  shows "out_pin d f (gpio_dir drv 0 pin b s) q = out_pin d f s q"
proof -
  from assms(2) obtain port k where map: "get_tca_mapping pin = (port, k)" and p: "port = 0 \<or> port = 1"
    by (rule get_tca_mapping_pin) blast
  have q: "q div 8 < 2" using assms(3) by auto
  show ?thesis
    using assms p q
    by (auto simp: rail_hw_def out_pin_def gpio_dir_def stack_handler_gpio_set_direction_def slot_ready_def map
        tca_read_config_register_inst_def tca_configure_port_inst_def tca_reg_effect pin_bit_def Let_def)
qed

lemma set_battery_rails:
  assumes "rail_hw drv d f s"
  shows "rail_hw drv d f (s\<lparr>pw := snd (pwr_source_set_battery_enable drv b (pw s))\<rparr>)"
    and "out_pin d f (s\<lparr>pw := snd (pwr_source_set_battery_enable drv b (pw s))\<rparr>) q = out_pin d f s q"
proof -
  let ?p = "snd (pwr_source_set_battery_enable drv b (pw s))"
  have f: "bq25892_dev ?p = bq25892_dev (pw s)" "g_tca (stk ?p) = g_tca (stk (pw s))"
    "g_slot_present (stk ?p) = g_slot_present (stk (pw s))" "g_initialized (stk ?p) = g_initialized (stk (pw s))"
    by (simp_all add: pwr_source_set_battery_enable_def set_i2c_def case_prod_beta Let_def)
  then show "rail_hw drv d f (s\<lparr>pw := ?p\<rparr>)" using assms by (simp add: rail_hw_def slot_ready_def)
  have "regs_of d f (pwr_i2c ?p) = regs_of d f (pwr_i2c (pw s))"
  proof (cases "bq25892_dev (pw s)")
    case (Some d')
    with assms have "d \<noteq> d'" by (auto simp: rail_hw_def)
    with Some show ?thesis
      by (simp add: pwr_source_set_battery_enable_def bq25892_set_batfet_disable_def set_i2c_def case_prod_beta Let_def
          bq25892_modify_other_device)
  qed (simp add: pwr_source_set_battery_enable_def bq25892_set_batfet_disable_def set_i2c_def Let_def)
  then show "out_pin d f (s\<lparr>pw := ?p\<rparr>) q = out_pin d f s q" by (simp add: out_pin_def)
qed

section \<open>The rails\<close>

lemma valid_pins [simp]:
  "is_valid_pin 8" "is_valid_pin 9" "is_valid_pin 10" "is_valid_pin 11" "is_valid_pin 12" "is_valid_pin 13"
  by (simp_all add: is_valid_pin_def)

lemma rail_frame [simp]:
  "rail_hw drv d f (power_rail_write drv pin l s) = rail_hw drv d f s"
  "s_ext_power_ok (power_rail_write drv pin l s) = s_ext_power_ok s"
  "battery_source_enabled (power_rail_write drv pin l s) = battery_source_enabled s"
  "current_mode (power_rail_write drv pin l s) = current_mode s"
  by (simp_all add: power_rail_write_def)

lemma out_pin_rail:
  assumes "rail_hw drv d f s" and "is_valid_pin pin" and "q < 16"
  shows "out_pin d f (power_rail_write drv pin level s) q =
    (if q = unat pin \<and> (s_ext_power_ok s \<or> \<not> level \<or> pin \<noteq> 13 \<and> pin \<noteq> 9) then level else out_pin d f s q)"
  using assms by (auto simp: power_rail_write_def out_pin_write)

lemma led_frame [simp]:
  "rail_hw drv d f (rgb_led_apply drv r g b s) = rail_hw drv d f s"
  "s_ext_power_ok (rgb_led_apply drv r g b s) = s_ext_power_ok s"
  "battery_source_enabled (rgb_led_apply drv r g b s) = battery_source_enabled s"
  "current_mode (rgb_led_apply drv r g b s) = current_mode s"
  by (simp_all add: rgb_led_apply_def)

lemma out_pin_led:
  assumes "rail_hw drv d f s" and "q < 16"
  shows "out_pin d f (rgb_led_apply drv r g b s) q =
       (if q = 10 then \<not> r else if q = 11 then \<not> g else if q = 12 then \<not> b else out_pin d f s q)"
  using assms by (simp add: rgb_led_apply_def out_pin_rail)

text \<open>The colours lit at a moment.\<close>

definition rgb_lit :: "(u32 \<Rightarrow> u32) \<Rightarrow> rgb_env \<Rightarrow> app_mode \<Rightarrow> bool \<times> bool \<times> bool" where
  "rgb_lit ms2t e m =
     (let fast = rgb_blink_phase ms2t (rgb_tick e) RGB_BLINK_FAST_MS;
          slow = rgb_blink_phase ms2t (rgb_tick e) RGB_BLINK_SLOW_MS
      in if battery_critical e then (fast, False, False)
         else if \<not> server_online e then (if wan_online e then (False, False, slow) else (fast, False, fast))
         else if battery_low e then (slow, slow, False)
         else if m = APP_MODE_CONFIG then (False, slow, slow)
         else (False, True, False))"

lemma refresh_lit:
  "rgb_status_refresh drv ms2t e s =
     (case rgb_lit ms2t e (current_mode s) of (r, g, b) \<Rightarrow> rgb_led_apply drv r g b s)"
  by (simp add: rgb_status_refresh_def rgb_lit_def Let_def)

lemma refresh_frame [simp]:
  "rail_hw drv d f (rgb_status_refresh drv ms2t e s) = rail_hw drv d f s"
  "s_ext_power_ok (rgb_status_refresh drv ms2t e s) = s_ext_power_ok s"
  "battery_source_enabled (rgb_status_refresh drv ms2t e s) = battery_source_enabled s"
  "current_mode (rgb_status_refresh drv ms2t e s) = current_mode s"
  by (simp_all add: refresh_lit split: prod.split)

lemma out_pin_refresh:
  assumes "rail_hw drv d f s" and "q < 10 \<or> q = 13"
  shows "out_pin d f (rgb_status_refresh drv ms2t e s) q = out_pin d f s q"
  using assms by (auto simp: refresh_lit out_pin_led split: prod.split)

definition rails_ok :: "i2c_drv \<Rightarrow> nat \<Rightarrow> (nat \<Rightarrow> u8) \<Rightarrow> main_st \<Rightarrow> bool" where
  "rails_ok drv d f s \<longleftrightarrow> rail_hw drv d f s \<and> out_pin d f s 13 = s_ext_power_ok s \<and>
     out_pin d f s 9 = (s_ext_power_ok s \<and> battery_source_enabled s) \<and>
     out_pin d f s 8 = battery_source_enabled s"

text \<open>Everything that runs against the state once the program is up.\<close>

datatype main_event =
    EvTurn bool server_type rgb_env      \<comment> \<open>the main loop\<close>
  | EvPowerGood bool rgb_env             \<comment> \<open>the power monitor's callback\<close>
  | EvLed rgb_env                        \<comment> \<open>the LED task\<close>
  | EvNotify u32                         \<comment> \<open>a button\<close>
  | EvUartMode int

fun main_step :: "i2c_drv \<Rightarrow> (u32 \<Rightarrow> u32) \<Rightarrow> main_event \<Rightarrow> main_st \<Rightarrow> main_st" where
  "main_step drv ms2t (EvTurn pm srv e) s = main_loop_turn drv ms2t pm srv e s"
| "main_step drv ms2t (EvPowerGood ext e) s = power_rails_apply drv ms2t e ext s"
| "main_step drv ms2t (EvLed e) s = rgb_status_refresh drv ms2t e s"
| "main_step drv ms2t (EvNotify v) s = notify_main v s"
| "main_step drv ms2t (EvUartMode m) s = uart_mode_switch_callback m s"

lemma rails_upd [simp]:
  "rails_ok drv d f (s\<lparr>notification := n\<rparr>) = rails_ok drv d f s"
  "rails_ok drv d f (s\<lparr>requested_mode := i\<rparr>) = rails_ok drv d f s"
  "rails_ok drv d f (s\<lparr>current_mode := m\<rparr>) = rails_ok drv d f s"
  "rails_ok drv d f (main_emit os s) = rails_ok drv d f s"
  by (simp_all add: rails_ok_def rail_hw_def out_pin_def main_emit_def)

lemma pin_upd [simp]:
  "rail_hw drv d f (s\<lparr>s_ext_power_ok := b\<rparr>) = rail_hw drv d f s"
  "out_pin d f (s\<lparr>s_ext_power_ok := b\<rparr>) = out_pin d f s"
  "rail_hw drv d f (s\<lparr>battery_source_enabled := b\<rparr>) = rail_hw drv d f s"
  "out_pin d f (s\<lparr>battery_source_enabled := b\<rparr>) = out_pin d f s"
  by (simp_all add: rail_hw_def out_pin_def fun_eq_iff)

lemma mode_rails [simp]:
  "rails_ok drv d f (switch_to_config_mode pm srv s) = rails_ok drv d f s"
  "rails_ok drv d f (switch_to_normal_mode s) = rails_ok drv d f s"
  by (simp_all add: switch_to_config_mode_def switch_to_normal_mode_def)

lemma refresh_rails_ok: "rails_ok drv d f s \<Longrightarrow> rails_ok drv d f (rgb_status_refresh drv ms2t e s)"
  by (simp add: rails_ok_def out_pin_refresh)

lemma power_rails_ok:
  assumes "rails_ok drv d f s"
  shows "rails_ok drv d f (power_rails_apply drv ms2t e ext s)"
  using assms
  by (cases ext; cases "s_ext_power_ok s")
    (simp_all add: power_rails_apply_def Let_def rails_ok_def out_pin_refresh out_pin_write)

lemma gpio3_rails_ok:
  assumes "rails_ok drv d f s"
  shows "rails_ok drv d f (gpio3_pressed drv ms2t e s)"
proof -
  let ?b = "\<not> battery_source_enabled s"
  let ?s1 = "s\<lparr>battery_source_enabled := ?b\<rparr>"
  let ?s2 = "?s1\<lparr>pw := snd (pwr_source_set_battery_enable drv ?b (pw s))\<rparr>"
  have h: "rail_hw drv d f ?s2" "\<And>q. out_pin d f ?s2 q = out_pin d f s q"
    using assms set_battery_rails [of drv d f ?s1 ?b] by (simp_all add: rails_ok_def)
  show ?thesis using assms h
    by (cases "battery_source_enabled s"; cases "s_ext_power_ok s")
      (simp_all add: gpio3_pressed_def Let_def rails_ok_def out_pin_refresh out_pin_rail out_pin_write out_pin_other)
qed

lemma main_step_rails: "rails_ok drv d f s \<Longrightarrow> rails_ok drv d f (main_step drv ms2t ev s)"
  by (cases ev) (simp_all add: power_rails_ok refresh_rails_ok notify_main_def uart_mode_switch_callback_def
      main_loop_turn_def gpio3_rails_ok Let_def split: option.split)

interpretation rails: invariant_step "main_step drv ms2t" "rails_ok drv d f" for drv ms2t d f
  by unfold_locales (rule main_step_rails)

text \<open>
  C5. The rails follow the power, whatever happens in whatever order. With the on-board expander answering as a register
  file, from the set-up of the rails at boot on (with external power or without), after any
  sequence of button presses, mode commands, power changes and LED updates the pins of the chip
  stand as they should: the fan is on exactly with external power, the 5 V rail exactly with
  external power and the battery source enabled, the 3.3 V rail exactly with the battery source
  enabled.
\<close>

theorem rails_follow_power:
  fixes boot_pwr :: "bool option" and evs :: "main_event list" and e :: rgb_env and ms2t :: "u32 \<Rightarrow> u32"
  assumes "rail_hw drv d f s" and "s_ext_power_ok s" and "battery_source_enabled s"
  defines "s' \<equiv> fold (main_step drv ms2t) evs (app_main_rails drv ms2t e boot_pwr s)"
  shows "out_pin d f s' 13 = s_ext_power_ok s' \<and>
    out_pin d f s' 9 = (s_ext_power_ok s' \<and> battery_source_enabled s') \<and>
    out_pin d f s' 8 = battery_source_enabled s'"
proof -
  let ?boot = "app_main_setup drv s"
  have boot: "rails_ok drv d f ?boot" "s_ext_power_ok ?boot"
    using assms(1-3)
    by (simp_all add: app_main_setup_def Let_def rails_ok_def out_pin_rail out_pin_write out_pin_dir out_pin_other)
  then have same: "?boot\<lparr>s_ext_power_ok := True\<rparr> = ?boot" by simp
  have "rails_ok drv d f (app_main_rails drv ms2t e boot_pwr s)"
    unfolding app_main_rails_def Let_def same using boot(1) by (simp add: power_rails_ok)
  then have "rails_ok drv d f s'" unfolding s'_def by (rule rails.run_inv)
  then show ?thesis by (simp add: rails_ok_def)
qed

section \<open>The status LED\<close>

text \<open>The conditions of the table in \<open>RGB_LED_STATUS.md\<close>, the most urgent last.\<close>

datatype led_condition = Healthy | ConfigPortal | BatteryLow | NoServer | Offline | BatteryCritical

fun urgency :: "led_condition \<Rightarrow> nat" where
  "urgency Healthy = 0" | "urgency ConfigPortal = 1" | "urgency BatteryLow = 2"
| "urgency NoServer = 3" | "urgency Offline = 4" | "urgency BatteryCritical = 5"

lemma urgency_inj: "urgency a = urgency b \<longleftrightarrow> a = b"
  by (cases a; cases b; simp)

instantiation led_condition :: linorder
begin

definition less_eq_led_condition :: "led_condition \<Rightarrow> led_condition \<Rightarrow> bool" where
  "less_eq_led_condition a b \<longleftrightarrow> urgency a \<le> urgency b"

definition less_led_condition :: "led_condition \<Rightarrow> led_condition \<Rightarrow> bool" where
  "less_led_condition a b \<longleftrightarrow> urgency a < urgency b"

instance
  by standard (auto simp: less_eq_led_condition_def less_led_condition_def urgency_inj)

end

lemmas led_order = less_eq_led_condition_def less_led_condition_def

definition led_conditions :: "rgb_env \<Rightarrow> app_mode \<Rightarrow> led_condition set" where
  "led_conditions e m =
     {Healthy} \<union> (if battery_critical e then {BatteryCritical} else {}) \<union>
     (if \<not> server_online e \<and> \<not> wan_online e then {Offline} else {}) \<union>
     (if \<not> server_online e \<and> wan_online e then {NoServer} else {}) \<union>
     (if battery_low e then {BatteryLow} else {}) \<union>
     (if m = APP_MODE_CONFIG then {ConfigPortal} else {})"

text \<open>The period of the blinking, if any, and the colours.\<close>

fun led_pattern :: "led_condition \<Rightarrow> u32 option \<times> bool \<times> bool \<times> bool" where
  "led_pattern BatteryCritical = (Some 250, True, False, False)"
| "led_pattern Offline = (Some 250, True, False, True)"
| "led_pattern NoServer = (Some 500, False, False, True)"
| "led_pattern BatteryLow = (Some 500, True, True, False)"
| "led_pattern ConfigPortal = (Some 500, False, True, True)"
| "led_pattern Healthy = (None, False, True, False)"

definition led_shown :: "(u32 \<Rightarrow> u32) \<Rightarrow> u32 \<Rightarrow> led_condition \<Rightarrow> bool \<times> bool \<times> bool" where
  "led_shown ms2t tick c =
     (case led_pattern c of
        (None, rgb) \<Rightarrow> rgb
      | (Some period, rgb) \<Rightarrow> if rgb_blink_phase ms2t tick period then rgb else (False, False, False))"

lemma rgb_lit_shown: "rgb_lit ms2t e m = led_shown ms2t (rgb_tick e) (Max (led_conditions e m))"
  by (simp add: rgb_lit_def led_shown_def led_conditions_def Let_def max_def led_order)

text \<open>
  The LED shows the most urgent condition, and can be read. A refresh sets the three LED pins of the
  expander, which are active low, to the pattern of the greatest of the conditions that hold, in the
  order of urgency healthy, configuration portal, battery low, no server, no internet, battery
  critical; no two conditions have a pattern of the same colours.
\<close>

lemma led_shows_most_urgent:
  fixes e :: rgb_env and ms2t :: "u32 \<Rightarrow> u32"
  assumes "rail_hw drv d f s"
  defines "s' \<equiv> rgb_status_refresh drv ms2t e s"
    and "c \<equiv> Max (led_conditions e (current_mode s))"
  shows "(\<not> out_pin d f s' 10, \<not> out_pin d f s' 11, \<not> out_pin d f s' 12) = led_shown ms2t (rgb_tick e) c \<and>
    c \<in> led_conditions e (current_mode s) \<and> (\<forall>c' \<in> led_conditions e (current_mode s). c' \<le> c) \<and>
    (\<forall>a b. snd (led_pattern a) = snd (led_pattern b) \<longrightarrow> a = b)"
proof -
  have fin: "finite (led_conditions e (current_mode s))" "led_conditions e (current_mode s) \<noteq> {}"
    by (simp_all add: led_conditions_def)
  have inj: "snd (led_pattern a) = snd (led_pattern b) \<Longrightarrow> a = b" for a b
    by (cases a; cases b; simp)
  have "(\<not> out_pin d f s' 10, \<not> out_pin d f s' 11, \<not> out_pin d f s' 12) = led_shown ms2t (rgb_tick e) c"
    using assms(1) unfolding s'_def c_def
    by (cases "rgb_lit ms2t e (current_mode s)") (simp add: refresh_lit out_pin_led flip: rgb_lit_shown)
  with fin inj show ?thesis unfolding c_def using Max_in Max_ge by blast
qed

section \<open>The buttons\<close>

datatype button_event = Edge | TimerFires "nat \<Rightarrow> int"

fun button_step :: "u32 \<Rightarrow> button_event \<Rightarrow> button \<times> main_st \<Rightarrow> button \<times> main_st" where
  "button_step v Edge (b, s) = (if intr_enabled b then (gpio_isr_handler b, s) else (b, s))"
| "button_step v (TimerFires level) (b, s) =
     (if timer_armed b then gpio_debounce_callback v level (b, s) else (b, s))"

definition button_idle :: button where
  "button_idle = \<lparr>debounce_active = False, intr_enabled = True, timer_armed = False\<rparr>"

definition button_ok :: "button \<Rightarrow> bool" where
  "button_ok b \<longleftrightarrow> timer_armed b = debounce_active b \<and> intr_enabled b = (\<not> debounce_active b)"

lemma button_step_ok: "button_ok (fst c) \<Longrightarrow> button_ok (fst (button_step v ev c))"
  by (cases c; cases ev) (auto simp: button_ok_def gpio_isr_handler_def gpio_debounce_callback_def Let_def case_prod_beta)

lemma button_idle_ok: "button_ok button_idle"
  by (simp add: button_ok_def button_idle_def)

interpretation button: invariant_step "button_step v" "\<lambda>c. button_ok (fst c)" for v
  by unfold_locales (rule button_step_ok)

lemma upt3: "[0..<3] = [0, 1, 2 :: nat]"
  by (simp add: upt_rec)

text \<open>
  A button never goes dead and is never heard without being pressed. After any sequence of edges and timer events
  the button waits for an edge or its timer runs, exactly one of the two; and when the timer fires,
  the main loop is notified of the press exactly when all three samples are low, otherwise the
  notification that waits is untouched; the button listens again in any case.
\<close>

lemma button_debounced:
  fixes evs :: "button_event list" and s :: main_st and v :: u32
  defines "c \<equiv> fold (button_step v) evs (button_idle, s)"
  assumes "\<forall>i. level i = 0 \<or> level i = 1"
  shows "intr_enabled (fst c) = (\<not> timer_armed (fst c)) \<and>
    (timer_armed (fst c) \<longrightarrow>
      fst (button_step v (TimerFires level) c) = button_idle \<and>
      notification (snd (button_step v (TimerFires level) c)) =
        (if (\<forall>i < 3. level i = 0) \<and> main_task (snd c) then Some v else notification (snd c)))"
proof -
  have ok: "button_ok (fst c)" unfolding c_def by (rule button.run_inv) (simp add: button_idle_ok)
  have three: "(\<forall>i < 3. level i = 0) \<longleftrightarrow> level 0 = 0 \<and> level 1 = 0 \<and> level 2 = 0"
    by (auto simp: less_Suc_eq numeral_3_eq_3 numeral_2_eq_2)
  have "level 0 = 0 \<or> level 0 = 1" "level 1 = 0 \<or> level 1 = 1" "level 2 = 0 \<or> level 2 = 1" using assms(2) by simp_all
  then have "case stable_reads (map level [0..<3]) (-1) 0 of (n, p) \<Rightarrow>
      (n \<ge> 3 \<and> p = 0) = (level 0 = 0 \<and> level 1 = 0 \<and> level 2 = 0)"
    by (auto simp: upt3)
  then show ?thesis using ok three
    by (cases c) (auto simp: button_ok_def gpio_debounce_callback_def button_idle_def notify_main_def Let_def
        split: prod.splits)
qed

section \<open>A concrete device\<close>

definition demo_main :: main_st where
  "demo_main = \<lparr>current_mode = APP_MODE_NORMAL, requested_mode = -1, battery_source_enabled = True,
     s_ext_power_ok = True, main_task = True, notification = None,
     pw = \<lparr>ctl = charge_ctl_boot,
       stk = demo_stack\<lparr>g_tca := [tca_inst_zero\<lparr>dev_handle := Some 7\<rparr>, tca_inst_zero\<lparr>dev_handle := Some 8\<rparr>]\<rparr>,
       bq25892_dev = Some 9, ina230_dev = None, bq27441_dev = None, fg_read_count = 0\<rparr>,
     main_outs = []\<rparr>"

lemma demo_main_hw: "rail_hw (chip_drv (\<lambda>_. 0)) 7 (\<lambda>_. 0) demo_main"
  by (simp add: rail_hw_def demo_main_def slot_ready_def demo_stack_def is_valid_stack_id_def chip_drv_register_device)

definition demo_rgb :: rgb_env where
  "demo_rgb = \<lparr>pwr_status = Some (pwr_monitor_status_zero\<lparr>bat_present := True, bat_soc_pct := 20\<rparr>),
     wan_online = True, server_online = False, rgb_tick = 0\<rparr>"

theorem rails_follow_power_witness:
  "let s' = fold (main_step (chip_drv (\<lambda>_. 0)) id) [EvPowerGood False demo_rgb]
       (app_main_rails (chip_drv (\<lambda>_. 0)) id demo_rgb None demo_main)
   in out_pin 7 (\<lambda>_. 0) s' 13 = s_ext_power_ok s'"
  using rails_follow_power [OF demo_main_hw, where evs = "[EvPowerGood False demo_rgb]" and ms2t = id and e = demo_rgb and boot_pwr = None]
  by (simp add: demo_main_def)

lemma led_shows_most_urgent_applied:
  "\<not> out_pin 7 (\<lambda>_. 0) (rgb_status_refresh (chip_drv (\<lambda>_. 0)) id demo_rgb demo_main) 12"
  using led_shows_most_urgent [OF demo_main_hw, of id demo_rgb]
  by (simp add: demo_main_def led_conditions_def demo_rgb_def battery_critical_def battery_low_def
      pwr_monitor_status_zero_def led_shown_def rgb_blink_phase_def max_def led_order)

lemma button_debounced_applied:
  "notification (snd (button_step 1 (TimerFires (\<lambda>_. 0)) (button_step 1 Edge (button_idle, demo_main)))) = Some 1"
  using button_debounced [of "\<lambda>_. 0" 1 "[Edge]" demo_main]
  by (simp add: button_idle_def gpio_isr_handler_def) (simp add: demo_main_def)

end
