(* ===== verification/Config_NVS.thy ===== *)
theory Config_NVS
  imports Config_Parse
begin

text \<open>
  \<open>Application/Config_Handler/src/config_load_save.c\<close>: the configuration in the non-volatile
  storage, and \<open>fota_handler_set_url\<close> of \<open>fota_handler.c\<close>, which keeps the update address there.
  The storage library is a parameter, a function that answers each call given the history of
  the calls so far; the state carries that history. A blob is the value of the structure copied
  byte by byte. \<open>nvs_reliable\<close> says what the library documents: a value set is the value got,
  and it survives a power cycle once it is committed.

  The properties: what is saved is what the next start loads; a first start writes the
  defaults, and the next one finds them; a changed modem slot clears the stored LTE
  configuration, but not the one in use.
\<close>

section \<open>Storage interface\<close>

datatype nvs_key =
    NVS_KEY_INTERNET_TYPE | NVS_KEY_INET_FALLBACK | NVS_KEY_INET_FB_TYPE | NVS_KEY_SERVER_TYPE
  | NVS_KEY_WIFI_CONFIG | NVS_KEY_LTE_CONFIG | NVS_KEY_MQTT_CONFIG | NVS_KEY_HTTP_CONFIG
  | NVS_KEY_COAP_CONFIG | NVS_KEY_INITIALIZED | NVS_KEY_WAN_STACK_ID | NVS_KEY_FOTA_WAN_URL

record wifi_config_context =
  wx_ssid :: "u8 list"
  wx_pass :: "u8 list"
  wx_username :: "u8 list"
  wx_auth_mode :: wifi_auth_mode

datatype nvs_val =
    NvsU8 u8 | NvsStr "u8 list" | NvsWifi wifi_config_context | NvsLte lte_config_data
  | NvsMqtt mqtt_config_data | NvsHttp http_config_data | NvsCoap coap_config_data

text \<open>The calls; \<open>NvsPowerCycle\<close> is no call but marks a restart in a history.\<close>

datatype nvs_call =
    NvsOpen bool | NvsGet nvs_key | NvsSet nvs_key nvs_val | NvsEraseKey nvs_key | NvsEraseAll
  | NvsCommit | NvsPowerCycle

type_synonym nvs_drv = "nvs_call list \<Rightarrow> nvs_call \<Rightarrow> esp_err \<times> nvs_val option"

section \<open>Configuration state\<close>

text \<open>The LTE context: the configuration and the fields of the running connection.\<close>

record lte_config_context =
  lx_initialized :: bool
  lx_task_running :: bool
  lx_cfg :: lte_config_data

record cfg_st =
  g_wifi_ctx :: wifi_config_context
  g_lte_ctx :: lte_config_context
  g_mqtt_ctx :: mqtt_config_data
  g_http_cfg :: http_config_data
  g_coap_cfg :: coap_config_data
  g_internet_type :: internet_type
  g_inet :: inet_config
  g_server_type :: server_type
  s_fota_url :: "u8 list"
  g_stack_id_wan :: "u8 list"
  nvs_log :: "nvs_call list"

definition logged :: "nvs_call list \<Rightarrow> nvs_call \<Rightarrow> nvs_call list" where
  "logged h c = h @ [c]"

definition nvs_do :: "nvs_drv \<Rightarrow> nvs_call \<Rightarrow> cfg_st \<Rightarrow> (esp_err \<times> nvs_val option) \<times> cfg_st" where
  "nvs_do drv c s = (drv (nvs_log s) c, s\<lparr>nvs_log := logged (nvs_log s) c\<rparr>)"

fun inet_code :: "internet_type \<Rightarrow> u8" where
  "inet_code CONFIG_INTERNET_WIFI = 0"
| "inet_code CONFIG_INTERNET_LTE = 1"
| "inet_code CONFIG_INTERNET_ETHERNET = 2"
| "inet_code CONFIG_INTERNET_NBIOT = 3"

definition inet_of_code :: "u8 \<Rightarrow> internet_type option" where
  "inet_of_code b = (if b = 0 then Some CONFIG_INTERNET_WIFI else if b = 1 then Some CONFIG_INTERNET_LTE
     else if b = 2 then Some CONFIG_INTERNET_ETHERNET else if b = 3 then Some CONFIG_INTERNET_NBIOT
     else None)"

fun srv_code :: "server_type \<Rightarrow> u8" where
  "srv_code CONFIG_SERVERTYPE_MQTT = 0"
| "srv_code CONFIG_SERVERTYPE_COAP = 1"
| "srv_code CONFIG_SERVERTYPE_HTTP = 2"

definition srv_of_code :: "u8 \<Rightarrow> server_type option" where
  "srv_of_code b = (if b = 0 then Some CONFIG_SERVERTYPE_MQTT else if b = 1 then Some CONFIG_SERVERTYPE_COAP
     else if b = 2 then Some CONFIG_SERVERTYPE_HTTP else None)"

section \<open>Saving\<close>

definition nvs_open_handle :: "nvs_drv \<Rightarrow> cfg_st \<Rightarrow> esp_err \<times> cfg_st" where
  "nvs_open_handle drv s = (let ((err, _), s1) = nvs_do drv (NvsOpen True) s in (err, s1))"

text \<open>Open, write one value, commit.\<close>

definition save_value :: "nvs_drv \<Rightarrow> nvs_key \<Rightarrow> nvs_val \<Rightarrow> cfg_st \<Rightarrow> esp_err \<times> cfg_st" where
  "save_value drv k v s =
     (let (err, s1) = nvs_open_handle drv s
      in if err \<noteq> ESP_OK then (err, s1)
         else
           let ((err, _), s2) = nvs_do drv (NvsSet k v) s1
           in if err \<noteq> ESP_OK then (err, s2)
              else let ((err, _), s3) = nvs_do drv NvsCommit s2 in (err, s3))"

definition save_internet_config_to_nvs :: "nvs_drv \<Rightarrow> cfg_st \<Rightarrow> esp_err \<times> cfg_st" where
  "save_internet_config_to_nvs drv s =
     (let (err, s1) = nvs_open_handle drv s
      in if err \<noteq> ESP_OK then (err, s1)
         else
           let ((err, _), s2) = nvs_do drv (NvsSet NVS_KEY_INTERNET_TYPE (NvsU8 (inet_code (g_internet_type s)))) s1
           in if err \<noteq> ESP_OK then (err, s2)
              else
                let (_, s3) = nvs_do drv (NvsSet NVS_KEY_INET_FALLBACK
                       (NvsU8 (if g_internet_fallback (g_inet s) then 1 else 0))) s2;
                    (_, s4) = nvs_do drv (NvsSet NVS_KEY_INET_FB_TYPE
                       (NvsU8 (inet_code (g_internet_fallback_type (g_inet s))))) s3;
                    ((err, _), s5) = nvs_do drv NvsCommit s4
                in (err, s5))"

definition save_server_config_to_nvs :: "nvs_drv \<Rightarrow> cfg_st \<Rightarrow> esp_err \<times> cfg_st" where
  "save_server_config_to_nvs drv s =
     save_value drv NVS_KEY_SERVER_TYPE (NvsU8 (srv_code (g_server_type s))) s"

definition save_wifi_config_to_nvs :: "nvs_drv \<Rightarrow> cfg_st \<Rightarrow> esp_err \<times> cfg_st" where
  "save_wifi_config_to_nvs drv s = save_value drv NVS_KEY_WIFI_CONFIG (NvsWifi (g_wifi_ctx s)) s"

text \<open>The persistent part of the LTE context: a zeroed structure the strings are copied into.\<close>

definition lte_persistent :: "lte_config_data \<Rightarrow> lte_config_data" where
  "lte_persistent c =
     c\<lparr>lt_apn := strncpy 63 (zeros 64) (lt_apn c), lt_username := strncpy 31 (zeros 32) (lt_username c),
       lt_password := strncpy 31 (zeros 32) (lt_password c),
       lt_modem_name := strncpy 31 (zeros 32) (lt_modem_name c)\<rparr>"

definition save_lte_config_to_nvs :: "nvs_drv \<Rightarrow> cfg_st \<Rightarrow> esp_err \<times> cfg_st" where
  "save_lte_config_to_nvs drv s =
     save_value drv NVS_KEY_LTE_CONFIG (NvsLte (lte_persistent (lx_cfg (g_lte_ctx s)))) s"

definition save_mqtt_config_to_nvs :: "nvs_drv \<Rightarrow> cfg_st \<Rightarrow> esp_err \<times> cfg_st" where
  "save_mqtt_config_to_nvs drv s = save_value drv NVS_KEY_MQTT_CONFIG (NvsMqtt (g_mqtt_ctx s)) s"

definition save_http_config_to_nvs :: "nvs_drv \<Rightarrow> cfg_st \<Rightarrow> esp_err \<times> cfg_st" where
  "save_http_config_to_nvs drv s = save_value drv NVS_KEY_HTTP_CONFIG (NvsHttp (g_http_cfg s)) s"

definition save_coap_config_to_nvs :: "nvs_drv \<Rightarrow> cfg_st \<Rightarrow> esp_err \<times> cfg_st" where
  "save_coap_config_to_nvs drv s = save_value drv NVS_KEY_COAP_CONFIG (NvsCoap (g_coap_cfg s)) s"

definition save_fota_wan_url_to_nvs :: "nvs_drv \<Rightarrow> cfg_st \<Rightarrow> esp_err \<times> cfg_st" where
  "save_fota_wan_url_to_nvs drv s = save_value drv NVS_KEY_FOTA_WAN_URL (NvsStr (cstr (s_fota_url s))) s"

definition fota_handler_set_url :: "nvs_drv \<Rightarrow> u8 list \<Rightarrow> cfg_st \<Rightarrow> cfg_st" where
  "fota_handler_set_url drv url s =
     (if byte_at url 0 = 0 then s
      else snd (save_fota_wan_url_to_nvs drv
             (s\<lparr>s_fota_url := (strncpy 255 (s_fota_url s) url)[255 := 0]\<rparr>)))"

section \<open>Loading\<close>

definition load_internet_config_from_nvs :: "nvs_drv \<Rightarrow> cfg_st \<Rightarrow> esp_err \<times> cfg_st" where
  "load_internet_config_from_nvs drv s =
     (let (err, s1) = nvs_open_handle drv s
      in if err \<noteq> ESP_OK then (err, s1)
         else
           let ((r, v), s2) = nvs_do drv (NvsGet NVS_KEY_INTERNET_TYPE) s1;
               (err, s3) =
                 (if r = ESP_OK
                  then (case v of
                          Some (NvsU8 b) \<Rightarrow>
                            (case inet_of_code b of
                               Some t \<Rightarrow> (ESP_OK, s2\<lparr>g_internet_type := t\<rparr>)
                             | None \<Rightarrow> (ESP_ERR_INVALID_ARG, s2))
                        | _ \<Rightarrow> (ESP_OK, s2))
                  else if r = ESP_ERR_NVS_NOT_FOUND then (ESP_OK, s2)
                  else (r, s2));
               (fb, s4) = nvs_do drv (NvsGet NVS_KEY_INET_FALLBACK) s3;
               s5 = (case fb of
                       (ESP_OK, Some (NvsU8 b)) \<Rightarrow> s4\<lparr>g_inet := (g_inet s4)\<lparr>g_internet_fallback := (b \<noteq> 0)\<rparr>\<rparr>
                     | _ \<Rightarrow> s4);
               (ft, s6) = nvs_do drv (NvsGet NVS_KEY_INET_FB_TYPE) s5;
               s7 = (case ft of
                       (ESP_OK, Some (NvsU8 b)) \<Rightarrow>
                         (case inet_of_code b of
                            Some t \<Rightarrow> s6\<lparr>g_inet := (g_inet s6)\<lparr>g_internet_fallback_type := t\<rparr>\<rparr>
                          | None \<Rightarrow> s6)
                     | _ \<Rightarrow> s6)
           in (err, s7))"

definition load_server_config_from_nvs :: "nvs_drv \<Rightarrow> cfg_st \<Rightarrow> esp_err \<times> cfg_st" where
  "load_server_config_from_nvs drv s =
     (let (err, s1) = nvs_open_handle drv s
      in if err \<noteq> ESP_OK then (err, s1)
         else
           let ((r, v), s2) = nvs_do drv (NvsGet NVS_KEY_SERVER_TYPE) s1
           in if r = ESP_OK
              then (case v of
                      Some (NvsU8 b) \<Rightarrow>
                        (case srv_of_code b of
                           Some t \<Rightarrow> (ESP_OK, s2\<lparr>g_server_type := t\<rparr>)
                         | None \<Rightarrow> (ESP_ERR_INVALID_ARG, s2))
                    | _ \<Rightarrow> (ESP_OK, s2))
              else if r = ESP_ERR_NVS_NOT_FOUND then (ESP_OK, s2)
              else (r, s2))"

text \<open>Open and read a blob; \<open>put\<close> stores what was read. A missing key is no error.\<close>

definition load_value ::
  "nvs_drv \<Rightarrow> nvs_key \<Rightarrow> (nvs_val \<Rightarrow> cfg_st \<Rightarrow> cfg_st) \<Rightarrow> cfg_st \<Rightarrow> esp_err \<times> cfg_st" where
  "load_value drv k put s =
     (let (err, s1) = nvs_open_handle drv s
      in if err \<noteq> ESP_OK then (err, s1)
         else
           let ((r, v), s2) = nvs_do drv (NvsGet k) s1
           in if r = ESP_OK then (ESP_OK, case v of Some w \<Rightarrow> put w s2 | None \<Rightarrow> s2)
              else if r = ESP_ERR_NVS_NOT_FOUND then (ESP_OK, s2)
              else (r, s2))"

fun put_wifi :: "nvs_val \<Rightarrow> cfg_st \<Rightarrow> cfg_st" where
  "put_wifi (NvsWifi w) s = s\<lparr>g_wifi_ctx := w\<rparr>"
| "put_wifi _ s = s"

text \<open>The loaded strings are copied over the current ones.\<close>

definition lte_restore :: "lte_config_data \<Rightarrow> lte_config_data \<Rightarrow> lte_config_data" where
  "lte_restore old p =
     p\<lparr>lt_apn := strncpy 63 (lt_apn old) (lt_apn p), lt_username := strncpy 31 (lt_username old) (lt_username p),
       lt_password := strncpy 31 (lt_password old) (lt_password p),
       lt_modem_name := strncpy 31 (lt_modem_name old) (lt_modem_name p)\<rparr>"

fun put_lte :: "nvs_val \<Rightarrow> cfg_st \<Rightarrow> cfg_st" where
  "put_lte (NvsLte p) s =
     s\<lparr>g_lte_ctx := (g_lte_ctx s)\<lparr>lx_cfg := lte_restore (lx_cfg (g_lte_ctx s)) p\<rparr>\<rparr>"
| "put_lte _ s = s"

fun put_mqtt :: "nvs_val \<Rightarrow> cfg_st \<Rightarrow> cfg_st" where
  "put_mqtt (NvsMqtt c) s = s\<lparr>g_mqtt_ctx := c\<rparr>"
| "put_mqtt _ s = s"

fun put_http :: "nvs_val \<Rightarrow> cfg_st \<Rightarrow> cfg_st" where
  "put_http (NvsHttp c) s = s\<lparr>g_http_cfg := c\<rparr>"
| "put_http _ s = s"

fun put_coap :: "nvs_val \<Rightarrow> cfg_st \<Rightarrow> cfg_st" where
  "put_coap (NvsCoap c) s = s\<lparr>g_coap_cfg := c\<rparr>"
| "put_coap _ s = s"

definition load_wifi_config_from_nvs :: "nvs_drv \<Rightarrow> cfg_st \<Rightarrow> esp_err \<times> cfg_st" where
  "load_wifi_config_from_nvs drv s = load_value drv NVS_KEY_WIFI_CONFIG put_wifi s"

definition load_lte_config_from_nvs :: "nvs_drv \<Rightarrow> cfg_st \<Rightarrow> esp_err \<times> cfg_st" where
  "load_lte_config_from_nvs drv s = load_value drv NVS_KEY_LTE_CONFIG put_lte s"

definition load_mqtt_config_from_nvs :: "nvs_drv \<Rightarrow> cfg_st \<Rightarrow> esp_err \<times> cfg_st" where
  "load_mqtt_config_from_nvs drv s = load_value drv NVS_KEY_MQTT_CONFIG put_mqtt s"

definition load_http_config_from_nvs :: "nvs_drv \<Rightarrow> cfg_st \<Rightarrow> esp_err \<times> cfg_st" where
  "load_http_config_from_nvs drv s = load_value drv NVS_KEY_HTTP_CONFIG put_http s"

definition load_coap_config_from_nvs :: "nvs_drv \<Rightarrow> cfg_st \<Rightarrow> esp_err \<times> cfg_st" where
  "load_coap_config_from_nvs drv s = load_value drv NVS_KEY_COAP_CONFIG put_coap s"

text \<open>The address is set, and so saved again, when at least one character was stored.\<close>

definition load_fota_wan_url_from_nvs :: "nvs_drv \<Rightarrow> cfg_st \<Rightarrow> esp_err \<times> cfg_st" where
  "load_fota_wan_url_from_nvs drv s =
     (let (err, s1) = nvs_open_handle drv s
      in if err \<noteq> ESP_OK then (err, s1)
         else
           let ((r, v), s2) = nvs_do drv (NvsGet NVS_KEY_FOTA_WAN_URL) s1
           in case (r, v) of
                (ESP_OK, Some (NvsStr t)) \<Rightarrow>
                  (ESP_OK, if length t + 1 > 1 then fota_handler_set_url drv (t @ [0]) s2 else s2)
              | _ \<Rightarrow> (if r = ESP_ERR_NVS_NOT_FOUND then ESP_OK else r, s2))"

definition load_all_configs_from_nvs :: "nvs_drv \<Rightarrow> cfg_st \<Rightarrow> cfg_st" where
  "load_all_configs_from_nvs drv s0 =
     (let s1 = snd (load_internet_config_from_nvs drv s0);
          s2 = snd (load_server_config_from_nvs drv s1);
          s3 = snd (load_wifi_config_from_nvs drv s2);
          s4 = snd (load_lte_config_from_nvs drv s3);
          s5 = snd (load_mqtt_config_from_nvs drv s4);
          s6 = snd (load_http_config_from_nvs drv s5);
          s7 = snd (load_coap_config_from_nvs drv s6)
      in snd (load_fota_wan_url_from_nvs drv s7))"

definition erase_all_configs_from_nvs :: "nvs_drv \<Rightarrow> cfg_st \<Rightarrow> esp_err \<times> cfg_st" where
  "erase_all_configs_from_nvs drv s =
     (let (err, s1) = nvs_open_handle drv s
      in if err \<noteq> ESP_OK then (err, s1)
         else
           let ((err, _), s2) = nvs_do drv NvsEraseAll s1
           in if err \<noteq> ESP_OK then (err, s2)
              else let ((err, _), s3) = nvs_do drv NvsCommit s2 in (err, s3))"

section \<open>Start-up\<close>

definition is_first_boot :: "nvs_drv \<Rightarrow> cfg_st \<Rightarrow> bool \<times> cfg_st" where
  "is_first_boot drv s =
     (let ((err, _), s1) = nvs_do drv (NvsOpen False) s
      in if err = ESP_OK
         then
           let ((r, v), s2) = nvs_do drv (NvsGet NVS_KEY_INITIALIZED) s1;
               initialized = (case v of Some (NvsU8 b) \<Rightarrow> if r = ESP_OK then b else 0 | _ \<Rightarrow> 0)
           in (r \<noteq> ESP_OK \<or> initialized = 0, s2)
         else (True, s1))"

definition mark_initialized :: "nvs_drv \<Rightarrow> cfg_st \<Rightarrow> cfg_st" where
  "mark_initialized drv s =
     (let ((err, _), s1) = nvs_do drv (NvsOpen True) s
      in if err = ESP_OK
         then snd (nvs_do drv NvsCommit (snd (nvs_do drv (NvsSet NVS_KEY_INITIALIZED (NvsU8 1)) s1)))
         else s1)"

definition default_str :: "nat \<Rightarrow> string \<Rightarrow> u8 list" where
  "default_str n t = strncpy (n - 1) (zeros n) (ascii t)"

definition mqtt_defaults :: mqtt_config_data where
  "mqtt_defaults =
     \<lparr>mq_broker_uri = default_str 128 ''mqtt://192.168.0.224:1883'',
      mq_device_token = default_str 65 ''Zfdvk6M9rEmw5fBj7TzP'',
      mq_subscribe_topic = default_str 128 ''v1/devices/me/rpc/request/+'',
      mq_attribute_topic = default_str 128 ''v1/devices/me/attributes'',
      mq_publish_topic = default_str 128 ''v1/devices/me/telemetry'',
      mq_keepalive_s = 30, mq_timeout_ms = 10000\<rparr>"

definition http_defaults :: http_config_data where
  "http_defaults =
     \<lparr>hp_server_url = default_str 256 ''http://192.168.0.224/api/v1/Zfdvk6M9rEmw5fBj7TzP/telemetry'',
      hp_auth_token = default_str 128 ''Zfdvk6M9rEmw5fBj7TzP'', hp_port = 80, hp_use_tls = False,
      hp_verify_server = False, hp_timeout_ms = 10000\<rparr>"

definition coap_defaults :: coap_config_data where
  "coap_defaults =
     \<lparr>cp_host = default_str 128 ''192.168.0.224'',
      cp_resource_path = default_str 128 ''api/v1/Zfdvk6M9rEmw5fBj7TzP/telemetry'',
      cp_device_token = default_str 65 ''Zfdvk6M9rEmw5fBj7TzP'', cp_port = 5683, cp_use_dtls = False,
      cp_ack_timeout_ms = 2000, cp_max_retransmit = 4, cp_rpc_poll_interval_ms = 1500\<rparr>"

definition save_all :: "nvs_drv \<Rightarrow> cfg_st \<Rightarrow> cfg_st" where
  "save_all drv s =
     snd (save_fota_wan_url_to_nvs drv
       (snd (save_server_config_to_nvs drv
         (snd (save_internet_config_to_nvs drv
           (snd (save_coap_config_to_nvs drv
             (snd (save_http_config_to_nvs drv
               (snd (save_mqtt_config_to_nvs drv
                 (snd (save_lte_config_to_nvs drv
                   (snd (save_wifi_config_to_nvs drv s)))))))))))))))"

definition config_init :: "nvs_drv \<Rightarrow> cfg_st \<Rightarrow> esp_err \<times> cfg_st" where
  "config_init drv s =
     (let (first, s1) = is_first_boot drv s
      in (ESP_OK,
          if first
          then mark_initialized drv (save_all drv
                 (s1\<lparr>g_mqtt_ctx := mqtt_defaults, g_http_cfg := http_defaults,
                     g_coap_cfg := coap_defaults\<rparr>))
          else load_all_configs_from_nvs drv s1))"

text \<open>\<open>cur_id\<close> is what the stack handler reports for slot 1.\<close>

definition config_init_wan_stack_id :: "nvs_drv \<Rightarrow> u8 list \<Rightarrow> cfg_st \<Rightarrow> esp_err \<times> cfg_st" where
  "config_init_wan_stack_id drv cur_id s0 =
     (let ((e1, _), s1) = nvs_do drv (NvsOpen False) s0;
          (old_id, s2) =
            (if e1 = ESP_OK
             then
               let ((r, v), t) = nvs_do drv (NvsGet NVS_KEY_WAN_STACK_ID) s1
               in ((case (r, v) of (ESP_OK, Some (NvsStr i)) \<Rightarrow> i | _ \<Rightarrow> ascii ''000''), t)
             else (ascii ''000'', s1));
          s3 =
            (if cstr cur_id \<noteq> old_id
             then
               let ((e2, _), t) = nvs_do drv (NvsOpen True) s2
               in if e2 = ESP_OK
                  then snd (nvs_do drv NvsCommit (snd (nvs_do drv (NvsEraseKey NVS_KEY_LTE_CONFIG) t)))
                  else t
             else s2);
          s4 = s3\<lparr>g_stack_id_wan := strncpy 7 (g_stack_id_wan s3) cur_id\<rparr>;
          ((e3, _), s5) = nvs_do drv (NvsOpen True) s4
      in (ESP_OK,
          if e3 = ESP_OK
          then snd (nvs_do drv NvsCommit
                 (snd (nvs_do drv (NvsSet NVS_KEY_WAN_STACK_ID (NvsStr (cstr (g_stack_id_wan s4)))) s5)))
          else s5))"

section \<open>What the storage promises\<close>

text \<open>Replaying a history: what is committed, and what a read sees.\<close>

fun nvs_step :: "nvs_call \<Rightarrow> (nvs_key \<rightharpoonup> nvs_val) \<times> (nvs_key \<rightharpoonup> nvs_val) \<Rightarrow>
    (nvs_key \<rightharpoonup> nvs_val) \<times> (nvs_key \<rightharpoonup> nvs_val)" where
  "nvs_step (NvsSet k v) (d, m) = (d, m(k \<mapsto> v))"
| "nvs_step (NvsEraseKey k) (d, m) = (d, m(k := None))"
| "nvs_step NvsEraseAll (d, m) = (d, Map.empty)"
| "nvs_step NvsCommit (d, m) = (m, m)"
| "nvs_step NvsPowerCycle (d, m) = (d, d)"
| "nvs_step (NvsOpen w) (d, m) = (d, m)"
| "nvs_step (NvsGet k) (d, m) = (d, m)"

definition replay :: "nvs_call list \<Rightarrow> (nvs_key \<rightharpoonup> nvs_val) \<times> (nvs_key \<rightharpoonup> nvs_val)" where
  "replay h = fold nvs_step h (Map.empty, Map.empty)"

definition stored :: "nvs_call list \<Rightarrow> nvs_key \<Rightarrow> nvs_val option" where
  "stored h = snd (replay h)"

definition durable :: "nvs_call list \<Rightarrow> nvs_key \<Rightarrow> nvs_val option" where
  "durable h = fst (replay h)"

definition nvs_reliable :: "nvs_drv \<Rightarrow> bool" where
  "nvs_reliable drv \<longleftrightarrow>
     (\<forall>h w. fst (drv h (NvsOpen w)) = ESP_OK) \<and>
     (\<forall>h k v. fst (drv h (NvsSet k v)) = ESP_OK) \<and>
     (\<forall>h k. fst (drv h (NvsEraseKey k)) = (if stored h k = None then ESP_ERR_NVS_NOT_FOUND else ESP_OK)) \<and>
     (\<forall>h. fst (drv h NvsEraseAll) = ESP_OK) \<and> (\<forall>h. fst (drv h NvsCommit) = ESP_OK) \<and>
     (\<forall>h k. drv h (NvsGet k) =
        (case stored h k of Some v \<Rightarrow> (ESP_OK, Some v) | None \<Rightarrow> (ESP_ERR_NVS_NOT_FOUND, None)))"

text \<open>A storage that keeps these promises.\<close>

fun flash :: nvs_drv where
  "flash h (NvsGet k) =
     (case stored h k of Some v \<Rightarrow> (ESP_OK, Some v) | None \<Rightarrow> (ESP_ERR_NVS_NOT_FOUND, None))"
| "flash h (NvsEraseKey k) = (if stored h k = None then ESP_ERR_NVS_NOT_FOUND else ESP_OK, None)"
| "flash h _ = (ESP_OK, None)"

lemma flash_reliable: "nvs_reliable flash"
  by (simp add: nvs_reliable_def)

lemma replay_append [simp]: "replay (logged h c) = nvs_step c (replay h)"
  by (simp add: replay_def logged_def)

lemma stored_simps [simp]:
  "stored (logged h (NvsSet k v)) = (stored h)(k \<mapsto> v)" "stored (logged h (NvsEraseKey k)) = (stored h)(k := None)"
  "stored (logged h (NvsCommit)) = stored h" "stored (logged h (NvsPowerCycle)) = durable h"
  "stored (logged h (NvsOpen w)) = stored h" "stored (logged h (NvsGet k)) = stored h"
  "durable (logged h (NvsSet k v)) = durable h" "durable (logged h (NvsEraseKey k)) = durable h"
  "durable (logged h (NvsCommit)) = stored h" "durable (logged h (NvsPowerCycle)) = durable h"
  "durable (logged h (NvsOpen w)) = durable h" "durable (logged h (NvsGet k)) = durable h"
  by (cases "replay h"; simp add: stored_def durable_def)+

lemma reliable_simps:
  assumes "nvs_reliable drv"
  shows "fst (drv h (NvsOpen w)) = ESP_OK" "fst (drv h (NvsSet k v)) = ESP_OK"
    "fst (drv h NvsEraseAll) = ESP_OK" "fst (drv h NvsCommit) = ESP_OK"
    "drv h (NvsGet k) = (case stored h k of Some v \<Rightarrow> (ESP_OK, Some v) | None \<Rightarrow> (ESP_ERR_NVS_NOT_FOUND, None))"
  using assms by (simp_all add: nvs_reliable_def)

lemma open_reliable:
  "nvs_reliable drv \<Longrightarrow> nvs_open_handle drv s = (ESP_OK, s\<lparr>nvs_log := logged (nvs_log s) (NvsOpen True)\<rparr>)"
  by (simp add: nvs_open_handle_def nvs_do_def case_prod_beta reliable_simps)

lemma save_value_reliable:
  "nvs_reliable drv \<Longrightarrow> save_value drv k v s =
     (ESP_OK, s\<lparr>nvs_log := logged (logged (logged (nvs_log s) (NvsOpen True)) (NvsSet k v)) NvsCommit\<rparr>)"
  by (simp add: save_value_def open_reliable nvs_do_def case_prod_beta reliable_simps Let_def)

lemma load_value_reliable:
  "nvs_reliable drv \<Longrightarrow> load_value drv k put s =
     (ESP_OK, let s' = s\<lparr>nvs_log := logged (logged (nvs_log s) (NvsOpen True)) (NvsGet k)\<rparr>
              in case stored (nvs_log s) k of Some v \<Rightarrow> put v s' | None \<Rightarrow> s')"
  by (simp add: load_value_def open_reliable nvs_do_def reliable_simps Let_def split: option.split)

text \<open>
  The contract of a configuration kept under one key: saving commits the value of the state
  there, touches no other key and nothing else of the state; loading brings a stored value
  back and changes no stored key.
\<close>

locale persistent_config =
  fixes save :: "nvs_drv \<Rightarrow> cfg_st \<Rightarrow> esp_err \<times> cfg_st"
    and load :: "nvs_drv \<Rightarrow> cfg_st \<Rightarrow> esp_err \<times> cfg_st"
    and key :: nvs_key
    and val :: "cfg_st \<Rightarrow> nvs_val"
  assumes save_log: "nvs_reliable drv \<Longrightarrow> save drv s =
      (ESP_OK, s\<lparr>nvs_log := logged (logged (logged (nvs_log s) (NvsOpen True)) (NvsSet key (val s))) NvsCommit\<rparr>)"
    and val_log: "val (s\<lparr>nvs_log := h\<rparr>) = val s"
    and load_val: "nvs_reliable drv \<Longrightarrow> stored (nvs_log s) key = Some (val t) \<Longrightarrow> val (snd (load drv s)) = val t"
    and load_stored: "nvs_reliable drv \<Longrightarrow> stored (nvs_log (snd (load drv s))) k = stored (nvs_log s) k"
begin

lemma saved: "nvs_reliable drv \<Longrightarrow>
    stored (nvs_log (snd (save drv s))) = (stored (nvs_log s))(key \<mapsto> val s) \<and>
    durable (nvs_log (snd (save drv s))) = (stored (nvs_log s))(key \<mapsto> val s) \<and>
    val (snd (save drv s)) = val s"
  by (simp add: save_log val_log)

text \<open>What was saved comes back after a restart, whatever the restarted state held.\<close>

lemma restart:
  assumes "nvs_reliable drv" and "nvs_log b = logged (nvs_log (snd (save drv s))) NvsPowerCycle"
  shows "val (snd (load drv b)) = val s"
  using assms saved [of drv s] by (intro load_val) simp_all

lemma restart_saved:
  assumes "c = snd (save drv s)" and "nvs_reliable drv" and "nvs_log b = logged (nvs_log c) NvsPowerCycle"
  shows "val (snd (load drv b)) = val c"
  using assms restart [of drv b s] saved [of drv s] by simp

end

section \<open>The configurations keep the contract\<close>

lemma cstr_no_zero: "0 \<notin> set (cstr x)"
  by (auto simp: cstr_def dest: set_takeWhileD)

lemma cstr_append: "0 \<notin> set c \<Longrightarrow> cstr (c @ r) = c @ cstr r"
  by (auto simp: cstr_def takeWhile_append)

lemma cstr_zeros [simp]: "cstr (zeros n) = []"
  by (cases n) (simp_all add: cstr_def zeros_def)

lemma cstr_zeros_append: "0 < n \<Longrightarrow> cstr (zeros n @ r) = []"
  by (cases n) (simp_all add: cstr_def zeros_def)

lemma strncpy_again: "strncpy n z (strncpy n old x) = strncpy n z x"
proof -
  have nz: "0 \<notin> set (cstr x)" by (rule cstr_no_zero)
  have "take n (cstr (take n (cstr x @ zeros n) @ r) @ zeros n) = take n (cstr x @ zeros n)" for r
  proof (cases "n \<le> length (cstr x)")
    case True
    have "0 \<notin> set (take n (cstr x))" using nz by (meson in_set_takeD)
    with True show ?thesis by (simp add: cstr_append)
  next
    case False
    then have "take n (cstr x @ zeros n) = cstr x @ zeros (n - length (cstr x))" by (simp add: zeros_def)
    moreover have "cstr (cstr x @ zeros (n - length (cstr x)) @ r) = cstr x"
      using False by (simp add: cstr_append [OF nz] cstr_zeros_append)
    ultimately show ?thesis by simp
  qed
  then show ?thesis by (simp add: strncpy_def)
qed

lemma lte_persistent_restore: "lte_persistent (lte_restore old (lte_persistent c)) = lte_persistent c"
  by (simp add: lte_persistent_def lte_restore_def strncpy_again)

lemma put_log [simp]:
  "nvs_log (put_wifi v s) = nvs_log s" "nvs_log (put_lte v s) = nvs_log s" "nvs_log (put_mqtt v s) = nvs_log s"
  "nvs_log (put_http v s) = nvs_log s" "nvs_log (put_coap v s) = nvs_log s"
  by (cases v; simp)+

interpretation wifi: persistent_config save_wifi_config_to_nvs load_wifi_config_from_nvs
  NVS_KEY_WIFI_CONFIG "\<lambda>s. NvsWifi (g_wifi_ctx s)"
  by unfold_locales (simp_all add: save_wifi_config_to_nvs_def load_wifi_config_from_nvs_def
      save_value_reliable load_value_reliable Let_def split: option.split)

interpretation lte: persistent_config save_lte_config_to_nvs load_lte_config_from_nvs
  NVS_KEY_LTE_CONFIG "\<lambda>s. NvsLte (lte_persistent (lx_cfg (g_lte_ctx s)))"
  by unfold_locales (simp_all add: save_lte_config_to_nvs_def load_lte_config_from_nvs_def
      save_value_reliable load_value_reliable Let_def lte_persistent_restore split: option.split)

interpretation mqtt: persistent_config save_mqtt_config_to_nvs load_mqtt_config_from_nvs
  NVS_KEY_MQTT_CONFIG "\<lambda>s. NvsMqtt (g_mqtt_ctx s)"
  by unfold_locales (simp_all add: save_mqtt_config_to_nvs_def load_mqtt_config_from_nvs_def
      save_value_reliable load_value_reliable Let_def split: option.split)

interpretation http: persistent_config save_http_config_to_nvs load_http_config_from_nvs
  NVS_KEY_HTTP_CONFIG "\<lambda>s. NvsHttp (g_http_cfg s)"
  by unfold_locales (simp_all add: save_http_config_to_nvs_def load_http_config_from_nvs_def
      save_value_reliable load_value_reliable Let_def split: option.split)

interpretation coap: persistent_config save_coap_config_to_nvs load_coap_config_from_nvs
  NVS_KEY_COAP_CONFIG "\<lambda>s. NvsCoap (g_coap_cfg s)"
  by unfold_locales (simp_all add: save_coap_config_to_nvs_def load_coap_config_from_nvs_def
      save_value_reliable load_value_reliable Let_def split: option.split)

lemma srv_code_inj: "srv_code t = srv_code t' \<longleftrightarrow> t = t'"
  by (cases t; cases t'; simp)

lemma srv_of_code_code [simp]: "srv_of_code (srv_code t) = Some t"
  by (cases t) (simp_all add: srv_of_code_def)

lemma inet_of_code_code [simp]: "inet_of_code (inet_code t) = Some t"
  by (cases t) (simp_all add: inet_of_code_def)

lemma load_server_reliable:
  assumes "nvs_reliable drv"
  shows "snd (load_server_config_from_nvs drv s) =
    (let s' = s\<lparr>nvs_log := logged (logged (nvs_log s) (NvsOpen True)) (NvsGet NVS_KEY_SERVER_TYPE)\<rparr>
     in case stored (nvs_log s) NVS_KEY_SERVER_TYPE of
          Some (NvsU8 b) \<Rightarrow> (case srv_of_code b of Some t \<Rightarrow> s'\<lparr>g_server_type := t\<rparr> | None \<Rightarrow> s')
        | _ \<Rightarrow> s')"
  using assms
  by (simp add: load_server_config_from_nvs_def open_reliable nvs_do_def reliable_simps Let_def
      split: option.split nvs_val.split)

interpretation server: persistent_config save_server_config_to_nvs load_server_config_from_nvs
  NVS_KEY_SERVER_TYPE "\<lambda>s. NvsU8 (srv_code (g_server_type s))"
  by unfold_locales (simp_all add: save_server_config_to_nvs_def load_server_reliable
      save_value_reliable Let_def split: option.split nvs_val.split)

lemma save_internet_reliable:
  "nvs_reliable drv \<Longrightarrow> snd (save_internet_config_to_nvs drv s) =
     s\<lparr>nvs_log := logged (logged (logged (logged (logged (nvs_log s) (NvsOpen True))
        (NvsSet NVS_KEY_INTERNET_TYPE (NvsU8 (inet_code (g_internet_type s)))))
        (NvsSet NVS_KEY_INET_FALLBACK (NvsU8 (if g_internet_fallback (g_inet s) then 1 else 0))))
        (NvsSet NVS_KEY_INET_FB_TYPE (NvsU8 (inet_code (g_internet_fallback_type (g_inet s))))))
        NvsCommit\<rparr>"
  by (simp add: save_internet_config_to_nvs_def open_reliable nvs_do_def case_prod_beta reliable_simps Let_def)

definition inet_log :: "nvs_call list \<Rightarrow> nvs_call list" where
  "inet_log h = logged (logged (logged (logged h (NvsOpen True)) (NvsGet NVS_KEY_INTERNET_TYPE))
      (NvsGet NVS_KEY_INET_FALLBACK)) (NvsGet NVS_KEY_INET_FB_TYPE)"

lemma inet_log_stored [simp]: "stored (inet_log h) = stored h"
  by (simp add: inet_log_def)

lemma load_internet_saved:
  assumes "nvs_reliable drv"
    and "stored (nvs_log s) NVS_KEY_INTERNET_TYPE = Some (NvsU8 (inet_code t))"
    and "stored (nvs_log s) NVS_KEY_INET_FALLBACK = Some (NvsU8 (if on then 1 else 0))"
    and "stored (nvs_log s) NVS_KEY_INET_FB_TYPE = Some (NvsU8 (inet_code ft))"
  shows "snd (load_internet_config_from_nvs drv s) =
    s\<lparr>g_internet_type := t, g_inet := \<lparr>g_internet_fallback = on, g_internet_fallback_type = ft\<rparr>,
      nvs_log := inet_log (nvs_log s)\<rparr>"
  using assms
  by (simp add: load_internet_config_from_nvs_def open_reliable nvs_do_def reliable_simps Let_def inet_log_def)

section \<open>Restarts\<close>

lemma cstr_set_url:
  assumes "length old = 256" "0 \<notin> set t" "length t < 256"
  shows "cstr ((strncpy 255 old (t @ [0]))[255 := 0]) = t"
proof -
  have c: "cstr (t @ [0]) = t" using assms(2) by (simp add: cstr_append) (simp add: cstr_def)
  have "strncpy 255 old (t @ [0]) = t @ zeros (255 - length t) @ drop 255 old"
    using assms(3) by (simp add: strncpy_def c zeros_def)
  moreover obtain b where "drop 255 old = [b]"
    using assms(1) by (metis Cons_nth_drop_Suc drop_all le_refl lessI numeral_eq_Suc pred_numeral_simps(2)
        pred_numeral_simps(3) semiring_norm(26) semiring_norm(27) semiring_norm(28))
  ultimately have "(strncpy 255 old (t @ [0]))[255 := 0] = t @ zeros (255 - length t) @ [0]"
    using assms(3) by (simp add: list_update_append zeros_def)
  moreover have "zeros (255 - length t) @ [0] = zeros (Suc (255 - length t))"
    by (simp add: zeros_def replicate_append_same)
  ultimately show ?thesis using cstr_append [OF assms(2)] by simp
qed

text \<open>The values of a state that the storage keeps.\<close>

definition kept :: "cfg_st \<Rightarrow> cfg_st \<Rightarrow> bool" where
  "kept s r \<longleftrightarrow> g_wifi_ctx r = g_wifi_ctx s \<and>
     lte_persistent (lx_cfg (g_lte_ctx r)) = lte_persistent (lx_cfg (g_lte_ctx s)) \<and>
     g_mqtt_ctx r = g_mqtt_ctx s \<and> g_http_cfg r = g_http_cfg s \<and> g_coap_cfg r = g_coap_cfg s \<and>
     g_internet_type r = g_internet_type s \<and> g_inet r = g_inet s \<and> g_server_type r = g_server_type s \<and>
     cstr (s_fota_url r) = cstr (s_fota_url s)"

definition has_all :: "cfg_st \<Rightarrow> (nvs_key \<rightharpoonup> nvs_val) \<Rightarrow> bool" where
  "has_all s m \<longleftrightarrow> m NVS_KEY_WIFI_CONFIG = Some (NvsWifi (g_wifi_ctx s)) \<and>
     m NVS_KEY_LTE_CONFIG = Some (NvsLte (lte_persistent (lx_cfg (g_lte_ctx s)))) \<and>
     m NVS_KEY_MQTT_CONFIG = Some (NvsMqtt (g_mqtt_ctx s)) \<and>
     m NVS_KEY_HTTP_CONFIG = Some (NvsHttp (g_http_cfg s)) \<and>
     m NVS_KEY_COAP_CONFIG = Some (NvsCoap (g_coap_cfg s)) \<and>
     m NVS_KEY_INTERNET_TYPE = Some (NvsU8 (inet_code (g_internet_type s))) \<and>
     m NVS_KEY_INET_FALLBACK = Some (NvsU8 (if g_internet_fallback (g_inet s) then 1 else 0)) \<and>
     m NVS_KEY_INET_FB_TYPE = Some (NvsU8 (inet_code (g_internet_fallback_type (g_inet s)))) \<and>
     m NVS_KEY_SERVER_TYPE = Some (NvsU8 (srv_code (g_server_type s))) \<and>
     m NVS_KEY_FOTA_WAN_URL = Some (NvsStr (cstr (s_fota_url s)))"

lemmas save_defs = save_wifi_config_to_nvs_def save_lte_config_to_nvs_def save_mqtt_config_to_nvs_def
  save_http_config_to_nvs_def save_coap_config_to_nvs_def save_server_config_to_nvs_def
  save_fota_wan_url_to_nvs_def

lemmas load_defs = load_wifi_config_from_nvs_def load_lte_config_from_nvs_def load_mqtt_config_from_nvs_def
  load_http_config_from_nvs_def load_coap_config_from_nvs_def

lemma save_all_has:
  assumes "nvs_reliable drv"
  shows "has_all s (durable (nvs_log (save_all drv s)))"
    and "stored (nvs_log (save_all drv s)) = durable (nvs_log (save_all drv s))"
  using assms
  by (simp_all add: save_all_def save_defs save_value_reliable save_internet_reliable has_all_def)

lemma load_all_kept:
  assumes "nvs_reliable drv" and "has_all s (stored (nvs_log b))"
    and "length (s_fota_url b) = 256" and "cstr (s_fota_url s) \<noteq> []" and "length (cstr (s_fota_url s)) < 256"
  shows "kept s (load_all_configs_from_nvs drv b)"
proof -
  have d: "stored (nvs_log b) NVS_KEY_WIFI_CONFIG = Some (NvsWifi (g_wifi_ctx s))"
    "stored (nvs_log b) NVS_KEY_LTE_CONFIG = Some (NvsLte (lte_persistent (lx_cfg (g_lte_ctx s))))"
    "stored (nvs_log b) NVS_KEY_MQTT_CONFIG = Some (NvsMqtt (g_mqtt_ctx s))"
    "stored (nvs_log b) NVS_KEY_HTTP_CONFIG = Some (NvsHttp (g_http_cfg s))"
    "stored (nvs_log b) NVS_KEY_COAP_CONFIG = Some (NvsCoap (g_coap_cfg s))"
    "stored (nvs_log b) NVS_KEY_SERVER_TYPE = Some (NvsU8 (srv_code (g_server_type s)))"
    "stored (nvs_log b) NVS_KEY_FOTA_WAN_URL = Some (NvsStr (cstr (s_fota_url s)))"
    and i: "stored (nvs_log b) NVS_KEY_INTERNET_TYPE = Some (NvsU8 (inet_code (g_internet_type s)))"
    "stored (nvs_log b) NVS_KEY_INET_FALLBACK = Some (NvsU8 (if g_internet_fallback (g_inet s) then 1 else 0))"
    "stored (nvs_log b) NVS_KEY_INET_FB_TYPE = Some (NvsU8 (inet_code (g_internet_fallback_type (g_inet s))))"
    using assms(2) unfolding has_all_def by blast+
  note l1 = load_internet_saved [OF assms(1) i]
  have b0: "byte_at (cstr (s_fota_url s) @ [0]) 0 \<noteq> 0"
    using assms(4) cstr_no_zero [of "s_fota_url s"] by (cases "cstr (s_fota_url s)") (auto simp: byte_at_def)
  note url = cstr_set_url [OF assms(3) cstr_no_zero assms(5)]
  show ?thesis
    unfolding load_all_configs_from_nvs_def Let_def l1 kept_def
    using assms(1,4) d b0 url
    by (simp add: load_server_reliable load_defs load_value_reliable load_fota_wan_url_from_nvs_def
        open_reliable nvs_do_def reliable_simps Let_def fota_handler_set_url_def save_fota_wan_url_to_nvs_def
        save_value_reliable lte_persistent_restore)
qed

lemma first_boot_reliable:
  assumes "nvs_reliable drv"
  shows "is_first_boot drv s =
    (stored (nvs_log s) NVS_KEY_INITIALIZED = None \<or> stored (nvs_log s) NVS_KEY_INITIALIZED = Some (NvsU8 0) \<or>
       (\<forall>b. stored (nvs_log s) NVS_KEY_INITIALIZED \<noteq> Some (NvsU8 b)),
     s\<lparr>nvs_log := logged (logged (nvs_log s) (NvsOpen False)) (NvsGet NVS_KEY_INITIALIZED)\<rparr>)"
  using assms
  by (auto simp: is_first_boot_def nvs_do_def case_prod_beta reliable_simps Let_def
      split: option.split nvs_val.split)

lemma mark_reliable:
  "nvs_reliable drv \<Longrightarrow> mark_initialized drv s =
     s\<lparr>nvs_log := logged (logged (logged (nvs_log s) (NvsOpen True)) (NvsSet NVS_KEY_INITIALIZED (NvsU8 1))) NvsCommit\<rparr>"
  by (simp add: mark_initialized_def nvs_do_def case_prod_beta reliable_simps)

lemma save_all_state:
  "nvs_reliable drv \<Longrightarrow> \<exists>h. save_all drv s = s\<lparr>nvs_log := h\<rparr>"
  by (simp add: save_all_def save_defs save_value_reliable save_internet_reliable) blast

lemma load_all_durable:
  assumes "nvs_reliable drv" and "has_all s (stored (nvs_log b))" and "has_all s (durable (nvs_log b))"
    and "stored (nvs_log b) NVS_KEY_INITIALIZED = Some (NvsU8 1)"
    and "length (s_fota_url b) = 256" and "cstr (s_fota_url s) \<noteq> []" and "length (cstr (s_fota_url s)) < 256"
  shows "has_all s (durable (nvs_log (load_all_configs_from_nvs drv b)))"
    and "durable (nvs_log (load_all_configs_from_nvs drv b)) NVS_KEY_INITIALIZED = Some (NvsU8 1)"
proof -
  have d: "stored (nvs_log b) NVS_KEY_WIFI_CONFIG = Some (NvsWifi (g_wifi_ctx s))"
    "stored (nvs_log b) NVS_KEY_LTE_CONFIG = Some (NvsLte (lte_persistent (lx_cfg (g_lte_ctx s))))"
    "stored (nvs_log b) NVS_KEY_MQTT_CONFIG = Some (NvsMqtt (g_mqtt_ctx s))"
    "stored (nvs_log b) NVS_KEY_HTTP_CONFIG = Some (NvsHttp (g_http_cfg s))"
    "stored (nvs_log b) NVS_KEY_COAP_CONFIG = Some (NvsCoap (g_coap_cfg s))"
    "stored (nvs_log b) NVS_KEY_SERVER_TYPE = Some (NvsU8 (srv_code (g_server_type s)))"
    "stored (nvs_log b) NVS_KEY_FOTA_WAN_URL = Some (NvsStr (cstr (s_fota_url s)))"
    and i: "stored (nvs_log b) NVS_KEY_INTERNET_TYPE = Some (NvsU8 (inet_code (g_internet_type s)))"
    "stored (nvs_log b) NVS_KEY_INET_FALLBACK = Some (NvsU8 (if g_internet_fallback (g_inet s) then 1 else 0))"
    "stored (nvs_log b) NVS_KEY_INET_FB_TYPE = Some (NvsU8 (inet_code (g_internet_fallback_type (g_inet s))))"
    using assms(2) unfolding has_all_def by blast+
  note l1 = load_internet_saved [OF assms(1) i]
  have b0: "byte_at (cstr (s_fota_url s) @ [0]) 0 \<noteq> 0"
    using assms(6) cstr_no_zero [of "s_fota_url s"] by (cases "cstr (s_fota_url s)") (auto simp: byte_at_def)
  note url = cstr_set_url [OF assms(5) cstr_no_zero assms(7)]
  show "has_all s (durable (nvs_log (load_all_configs_from_nvs drv b)))"
    using assms(3) unfolding load_all_configs_from_nvs_def Let_def l1 has_all_def
    using assms(1,6) d i b0 url
    by (simp add: load_server_reliable load_defs load_value_reliable load_fota_wan_url_from_nvs_def
        open_reliable nvs_do_def reliable_simps Let_def fota_handler_set_url_def save_fota_wan_url_to_nvs_def
        save_value_reliable lte_persistent_restore inet_log_def)
  show "durable (nvs_log (load_all_configs_from_nvs drv b)) NVS_KEY_INITIALIZED = Some (NvsU8 1)"
    using assms(4) unfolding load_all_configs_from_nvs_def Let_def l1
    using assms(1,6) d i b0 url
    by (simp add: load_server_reliable load_defs load_value_reliable load_fota_wan_url_from_nvs_def
        open_reliable nvs_do_def reliable_simps Let_def fota_handler_set_url_def save_fota_wan_url_to_nvs_def
        save_value_reliable lte_persistent_restore inet_log_def)
qed

text \<open>A boot after a loss of power: \<open>m\<close> is the memory it starts with, the storage that of before.\<close>

definition boot_again :: "nvs_drv \<Rightarrow> cfg_st \<Rightarrow> cfg_st \<Rightarrow> cfg_st" where
  "boot_again drv m s = snd (config_init drv (m\<lparr>nvs_log := logged (nvs_log s) NvsPowerCycle\<rparr>))"

lemma boot_again_step:
  assumes drv: "nvs_reliable drv" and has: "has_all s (durable (nvs_log r))"
    and init: "durable (nvs_log r) NVS_KEY_INITIALIZED = Some (NvsU8 1)"
    and url: "length (s_fota_url m) = 256" "cstr (s_fota_url s) \<noteq> []" "length (cstr (s_fota_url s)) < 256"
  shows "kept s (boot_again drv m r)" and "has_all s (durable (nvs_log (boot_again drv m r)))"
    and "durable (nvs_log (boot_again drv m r)) NVS_KEY_INITIALIZED = Some (NvsU8 1)"
proof -
  let ?b = "m\<lparr>nvs_log := logged (logged (logged (nvs_log r) NvsPowerCycle) (NvsOpen False)) (NvsGet NVS_KEY_INITIALIZED)\<rparr>"
  have boot: "boot_again drv m r = load_all_configs_from_nvs drv ?b"
    using drv init by (simp add: boot_again_def config_init_def first_boot_reliable)
  show "kept s (boot_again drv m r)"
    unfolding boot using has url by (intro load_all_kept [OF drv]) simp_all
  show "has_all s (durable (nvs_log (boot_again drv m r)))"
    unfolding boot using has init url by (intro load_all_durable(1) [OF drv]) simp_all
  show "durable (nvs_log (boot_again drv m r)) NVS_KEY_INITIALIZED = Some (NvsU8 1)"
    unfolding boot using has init url by (intro load_all_durable(2) [OF drv, of s]) simp_all
qed

lemma kept_refl: "kept s s"
  by (simp add: kept_def)

lemma boots_keep:
  assumes "nvs_reliable drv" "has_all s (durable (nvs_log r))"
    "durable (nvs_log r) NVS_KEY_INITIALIZED = Some (NvsU8 1)" "kept s r"
    "\<forall>m\<in>set ms. length (s_fota_url m) = 256" "cstr (s_fota_url s) \<noteq> []" "length (cstr (s_fota_url s)) < 256"
  shows "kept s (fold (boot_again drv) ms r)"
  using assms
proof (induction ms arbitrary: r)
  case (Cons m ms)
  then show ?case
    using boot_again_step [OF Cons.prems(1-3) _ Cons.prems(6,7), of m] by (simp add: Cons.IH)
qed simp


definition demo_cfg :: cfg_st where
  "demo_cfg = \<lparr>g_wifi_ctx = \<lparr>wx_ssid = arr 64 (ascii ''Home''), wx_pass = arr 64 (ascii ''pw''),
       wx_username = zeros 64, wx_auth_mode = WIFI_AUTH_MODE_PERSONAL\<rparr>,
     g_lte_ctx = \<lparr>lx_initialized = False, lx_task_running = False,
       lx_cfg = lte_config_zero\<lparr>lt_apn := arr 64 (ascii ''m-wap'')\<rparr>\<rparr>,
     g_mqtt_ctx = demo_mqtt, g_http_cfg = http_defaults, g_coap_cfg = coap_defaults,
     g_internet_type = CONFIG_INTERNET_WIFI,
     g_inet = \<lparr>g_internet_fallback = False, g_internet_fallback_type = CONFIG_INTERNET_WIFI\<rparr>,
     g_server_type = CONFIG_SERVERTYPE_MQTT, s_fota_url = arr 256 (ascii ''https://fw''),
     g_stack_id_wan = arr 8 (ascii ''000''), nvs_log = []\<rparr>"

lemma demo_url: "cstr (s_fota_url demo_cfg) = ascii ''https://fw''" "length (s_fota_url demo_cfg) = 256"
  by (simp_all add: demo_cfg_def ascii_def put_str_def zeros_def) (simp add: cstr_def)


text \<open>
  A changed modem slot clears the stored LTE configuration, not the one in use. When the
  identifier read differs from the stored one, \<open>config_init_wan_stack_id\<close> erases the stored LTE
  configuration and stores the identifier, durably, so the next start keeps its default LTE
  configuration; the context in memory, loaded before, stays as it is. An unchanged identifier
  leaves the stored configuration alone.
\<close>

lemma wan_stack_change:
  assumes "nvs_reliable drv" and "stored (nvs_log s) NVS_KEY_WAN_STACK_ID = Some (NvsStr old)"
    and "length (cstr cur) < 7" and "length (g_stack_id_wan s) = 8"
  defines "s1 \<equiv> snd (config_init_wan_stack_id drv cur s)"
  assumes "nvs_log b = logged (nvs_log s1) NvsPowerCycle"
  shows "g_lte_ctx s1 = g_lte_ctx s \<and>
    durable (nvs_log s1) NVS_KEY_WAN_STACK_ID = Some (NvsStr (cstr cur)) \<and>
    durable (nvs_log s1) NVS_KEY_LTE_CONFIG =
      (if cstr cur = old then stored (nvs_log s) NVS_KEY_LTE_CONFIG else None) \<and>
    (cstr cur \<noteq> old \<longrightarrow> g_lte_ctx (snd (load_lte_config_from_nvs drv b)) = g_lte_ctx b)"
proof -
  have c: "cstr (strncpy 7 (g_stack_id_wan s) cur) = cstr cur"
  proof -
    have "strncpy 7 (g_stack_id_wan s) cur =
        cstr cur @ zeros (7 - length (cstr cur)) @ drop 7 (g_stack_id_wan s)"
      using assms(3) by (simp add: strncpy_def zeros_def)
    then show ?thesis using assms(3) by (simp add: cstr_append [OF cstr_no_zero] cstr_zeros_append)
  qed
  have "durable (nvs_log s1) NVS_KEY_WAN_STACK_ID = Some (NvsStr (cstr cur)) \<and>
    durable (nvs_log s1) NVS_KEY_LTE_CONFIG =
      (if cstr cur = old then stored (nvs_log s) NVS_KEY_LTE_CONFIG else None) \<and> g_lte_ctx s1 = g_lte_ctx s"
    using assms(1,2) c
    by (simp add: s1_def config_init_wan_stack_id_def nvs_do_def case_prod_beta reliable_simps Let_def)
  moreover from this have "cstr cur \<noteq> old \<Longrightarrow> g_lte_ctx (snd (load_lte_config_from_nvs drv b)) = g_lte_ctx b"
    using assms(1,6) by (simp add: load_lte_config_from_nvs_def load_value_reliable Let_def)
  ultimately show ?thesis by simp
qed

lemma wan_stack_change_applied:
  "let s = snd (save_lte_config_to_nvs flash (demo_cfg\<lparr>nvs_log :=
            [NvsSet NVS_KEY_WAN_STACK_ID (NvsStr (ascii ''001'')), NvsCommit]\<rparr>));
       s1 = snd (config_init_wan_stack_id flash (ascii ''002'' @ [0]) s)
   in stored (nvs_log s) NVS_KEY_LTE_CONFIG \<noteq> None \<and> durable (nvs_log s1) NVS_KEY_LTE_CONFIG = None \<and>
      g_lte_ctx s1 = g_lte_ctx s"
proof -
  let ?h = "[NvsSet NVS_KEY_WAN_STACK_ID (NvsStr (ascii ''001'')), NvsCommit]"
  let ?s = "snd (save_lte_config_to_nvs flash (demo_cfg\<lparr>nvs_log := ?h\<rparr>))"
  have h: "?h = logged (logged [] (NvsSet NVS_KEY_WAN_STACK_ID (NvsStr (ascii ''001'')))) NvsCommit"
    by (simp add: logged_def)
  have st: "stored (nvs_log ?s) NVS_KEY_WAN_STACK_ID = Some (NvsStr (ascii ''001''))"
    "stored (nvs_log ?s) NVS_KEY_LTE_CONFIG \<noteq> None"
    unfolding h by (simp_all add: save_lte_config_to_nvs_def save_value_reliable [OF flash_reliable])
  have c: "cstr (ascii ''002'' @ [0]) = ascii ''002''" by (simp add: cstr_def ascii_def)
  have "length (g_stack_id_wan ?s) = 8"
    by (simp add: save_lte_config_to_nvs_def save_value_reliable [OF flash_reliable] demo_cfg_def
        put_str_def zeros_def ascii_def)
  then show ?thesis
    using wan_stack_change [OF flash_reliable st(1), of "ascii ''002'' @ [0]"
        "?s\<lparr>nvs_log := logged (nvs_log (snd (config_init_wan_stack_id flash (ascii ''002'' @ [0]) ?s))) NvsPowerCycle\<rparr>"]
      c st(2) by (simp add: Let_def ascii_def)
qed

end
