(* ===== verification/Internet_Monitor.thy ===== *)
theory Internet_Monitor
  imports Config_NVS "HOL-Library.Sublist"
begin

text \<open>
  \<open>Application/Internet_Monitor_Handler/src/internet_monitor.c\<close>: the task that opens the services
  once the device is online and then moves between the primary connection and its fallback. The
  task sleeps in steps of a second; a step of the model runs it from one sleep to the next. Its
  place in the code is \<open>mon_phase\<close>, its local counters are in \<open>mon_task\<close>, the file's globals in
  \<open>mon_glob\<close>, and what it starts and stops is a list of \<open>mon_act\<close>. What it reads elsewhere (the
  configuration, the state of the links, the probes) is \<open>mon_env\<close>.

  The properties: the counters stay in their bounds, which connections are up in each mode, the switch is
  made after three failed probes in a row and only then, the way back after six good ones, the
  services start in time and once.
\<close>

section \<open>State and inputs\<close>

abbreviation "INTERNET_MONITOR_FAIL_THRESHOLD \<equiv> 3 :: nat"
abbreviation "INTERNET_MONITOR_RECOVER_THRESHOLD \<equiv> 6 :: nat"

definition CHECK_INTERVAL_S :: nat where "CHECK_INTERVAL_S = 10000 div 1000"
definition INITIAL_DELAY_S :: nat where "INITIAL_DELAY_S = 5000 div 1000"
definition FALLBACK_SETTLE_S :: nat where "FALLBACK_SETTLE_S = 60000 div 1000"
definition RESTORE_DELAY_S :: nat where "RESTORE_DELAY_S = 20000 div 1000"

lemmas delay_defs = CHECK_INTERVAL_S_def INITIAL_DELAY_S_def FALLBACK_SETTLE_S_def RESTORE_DELAY_S_def

text \<open>The loop the task sleeps in, with the seconds slept; the start-up gate with its limit;
  \<open>SwitchDelay\<close> is the single sleep of two seconds between the two connections.\<close>

datatype mon_phase =
    Gate nat nat | InitialDelay nat | CheckDelay nat | SwitchDelay | Settle nat | RestoreDelay nat | Exited

record mon_task =
  phase :: mon_phase
  fail_count :: nat
  recover_count :: nat

datatype mon_act =
    ConnStart internet_type | ConnStop internet_type | WebStart | MqttStart | HttpStart | CoapStart

record mon_glob =
  s_monitor_running :: bool
  s_monitor_task_handle :: bool
  s_on_fallback :: bool
  s_services_started :: bool
  acts :: "mon_act list"

record mon_env =
  primary :: internet_type               \<comment> \<open>\<open>g_internet_type\<close>\<close>
  fallback_on :: bool                    \<comment> \<open>\<open>g_internet_fallback\<close>\<close>
  fallback :: internet_type              \<comment> \<open>\<open>g_internet_fallback_type\<close>\<close>
  server :: server_type                  \<comment> \<open>\<open>g_server_type\<close>\<close>
  net_connected :: bool                  \<comment> \<open>\<open>is_internet_connected\<close>\<close>
  lte_synced :: bool
  wifi_synced :: bool
  eth_synced :: bool
  wifi_status :: int
  eth_up :: bool
  probe1 :: bool                         \<comment> \<open>TCP connect to the first host in time\<close>
  probe2 :: bool
  probe1' :: bool                        \<comment> \<open>the same, at the check after a restore\<close>
  probe2' :: bool

section \<open>Operations\<close>

definition internet_monitor_check_connectivity :: "bool \<Rightarrow> bool \<Rightarrow> bool" where
  "internet_monitor_check_connectivity first second = (if first then True else second)"

definition act :: "mon_act list \<Rightarrow> mon_glob \<Rightarrow> mon_glob" where
  "act as g = g\<lparr>acts := acts g @ as\<rparr>"

definition start_connection :: "internet_type \<Rightarrow> mon_glob \<Rightarrow> mon_glob" where
  "start_connection t g =
     (case t of CONFIG_INTERNET_WIFI \<Rightarrow> act [ConnStart CONFIG_INTERNET_WIFI] g
      | CONFIG_INTERNET_LTE \<Rightarrow> act [ConnStart CONFIG_INTERNET_LTE] g
      | CONFIG_INTERNET_ETHERNET \<Rightarrow> act [ConnStart CONFIG_INTERNET_ETHERNET] g
      | _ \<Rightarrow> g)"

definition stop_connection :: "internet_type \<Rightarrow> mon_glob \<Rightarrow> mon_glob" where
  "stop_connection t g =
     (case t of CONFIG_INTERNET_WIFI \<Rightarrow> act [ConnStop CONFIG_INTERNET_WIFI] g
      | CONFIG_INTERNET_LTE \<Rightarrow> act [ConnStop CONFIG_INTERNET_LTE] g
      | CONFIG_INTERNET_ETHERNET \<Rightarrow> act [ConnStop CONFIG_INTERNET_ETHERNET] g
      | _ \<Rightarrow> g)"

definition start_server_by_type :: "server_type \<Rightarrow> mon_glob \<Rightarrow> mon_glob" where
  "start_server_by_type t g =
     (case t of CONFIG_SERVERTYPE_MQTT \<Rightarrow> act [MqttStart] g
      | CONFIG_SERVERTYPE_HTTP \<Rightarrow> act [HttpStart] g
      | CONFIG_SERVERTYPE_COAP \<Rightarrow> act [CoapStart] g)"

definition internet_time_synced :: "internet_type \<Rightarrow> mon_env \<Rightarrow> bool" where
  "internet_time_synced t env =
     (case t of CONFIG_INTERNET_LTE \<Rightarrow> lte_synced env
      | CONFIG_INTERNET_WIFI \<Rightarrow> wifi_synced env
      | CONFIG_INTERNET_ETHERNET \<Rightarrow> eth_synced env
      | _ \<Rightarrow> True)"

text \<open>The link of the primary, as the restore asks for it: for LTE the time synchronisation.\<close>

definition primary_connected :: "mon_env \<Rightarrow> bool" where
  "primary_connected env =
     (case primary env of CONFIG_INTERNET_WIFI \<Rightarrow> wifi_status env \<noteq> 0
      | CONFIG_INTERNET_LTE \<Rightarrow> lte_synced env
      | CONFIG_INTERNET_ETHERNET \<Rightarrow> eth_up env
      | _ \<Rightarrow> False)"

definition task_exit :: "mon_task \<Rightarrow> mon_glob \<Rightarrow> mon_task \<times> mon_glob" where
  "task_exit t g = (t\<lparr>phase := Exited\<rparr>, g\<lparr>s_monitor_task_handle := False\<rparr>)"

text \<open>The head of the \<open>while\<close> loop.\<close>

definition loop_head :: "mon_task \<Rightarrow> mon_glob \<Rightarrow> mon_task \<times> mon_glob" where
  "loop_head t g = (if s_monitor_running g then (t\<lparr>phase := CheckDelay 0\<rparr>, g) else task_exit t g)"

text \<open>After the gate: services, and the initial delay when a fallback is configured.\<close>

definition after_gate :: "mon_env \<Rightarrow> mon_task \<Rightarrow> mon_glob \<Rightarrow> mon_task \<times> mon_glob" where
  "after_gate env t g =
     (if \<not> s_monitor_running g then task_exit t g
      else
        let g1 = (if \<not> s_services_started g
                  then (start_server_by_type (server env) (act [WebStart] g))\<lparr>s_services_started := True\<rparr>
                  else g)
        in if \<not> fallback_on env then task_exit t g1
           else (t\<lparr>phase := InitialDelay 0\<rparr>, g1))"

definition check_primary :: "mon_env \<Rightarrow> bool \<Rightarrow> mon_task \<Rightarrow> mon_glob \<Rightarrow> mon_task \<times> mon_glob" where
  "check_primary env ok t g =
     (if ok then loop_head (t\<lparr>fail_count := 0\<rparr>) g
      else
        let t1 = t\<lparr>fail_count := fail_count t + 1\<rparr>
        in if fail_count t1 \<ge> INTERNET_MONITOR_FAIL_THRESHOLD
           then (t1\<lparr>phase := SwitchDelay\<rparr>, stop_connection (primary env) g)
           else loop_head t1 g)"

text \<open>The rest of the switch, after the two seconds; a stop request is not looked at here.\<close>

definition finish_switch :: "mon_env \<Rightarrow> mon_task \<Rightarrow> mon_glob \<Rightarrow> mon_task \<times> mon_glob" where
  "finish_switch env t g =
     (t\<lparr>fail_count := 0, recover_count := 0, phase := Settle 0\<rparr>,
      (start_connection (fallback env) g)\<lparr>s_on_fallback := True\<rparr>)"

definition check_fallback :: "mon_env \<Rightarrow> bool \<Rightarrow> mon_task \<Rightarrow> mon_glob \<Rightarrow> mon_task \<times> mon_glob" where
  "check_fallback env ok t g =
     (let t1 = t\<lparr>recover_count := (if ok then recover_count t + 1 else 0)\<rparr>
      in if recover_count t1 \<ge> INTERNET_MONITOR_RECOVER_THRESHOLD
         then (t1\<lparr>phase := RestoreDelay 0\<rparr>, start_connection (primary env) g)
         else loop_head t1 g)"

definition finish_restore :: "mon_env \<Rightarrow> mon_task \<Rightarrow> mon_glob \<Rightarrow> mon_task \<times> mon_glob" where
  "finish_restore env t g =
     (let primary_ok = (if primary_connected env
                        then internet_monitor_check_connectivity (probe1' env) (probe2' env) else False);
          g1 = (if primary_ok then (stop_connection (fallback env) g)\<lparr>s_on_fallback := False\<rparr>
                else stop_connection (primary env) g)
      in loop_head (t\<lparr>fail_count := 0, recover_count := 0\<rparr>) g1)"

fun mon_step :: "mon_env \<Rightarrow> mon_task \<times> mon_glob \<Rightarrow> mon_task \<times> mon_glob" where
  "mon_step env (t, g) =
     (case phase t of
        Gate waited timeout_s \<Rightarrow>
          if waited < timeout_s \<and> s_monitor_running g
          then if net_connected env \<and> internet_time_synced (primary env) env
               then after_gate env t g
               else (t\<lparr>phase := Gate (waited + 1) timeout_s\<rparr>, g)
          else after_gate env t g
      | InitialDelay i \<Rightarrow>
          if i < INITIAL_DELAY_S \<and> s_monitor_running g then (t\<lparr>phase := InitialDelay (i + 1)\<rparr>, g)
          else if \<not> s_monitor_running g then task_exit t g
          else loop_head t g
      | CheckDelay i \<Rightarrow>
          if i < CHECK_INTERVAL_S \<and> s_monitor_running g then (t\<lparr>phase := CheckDelay (i + 1)\<rparr>, g)
          else if \<not> s_monitor_running g then task_exit t g
          else
            let ok = internet_monitor_check_connectivity (probe1 env) (probe2 env)
            in if \<not> s_on_fallback g then check_primary env ok t g else check_fallback env ok t g
      | SwitchDelay \<Rightarrow> finish_switch env t g
      | Settle i \<Rightarrow>
          if i < FALLBACK_SETTLE_S \<and> s_monitor_running g then (t\<lparr>phase := Settle (i + 1)\<rparr>, g)
          else loop_head t g
      | RestoreDelay i \<Rightarrow>
          if i < RESTORE_DELAY_S \<and> s_monitor_running g then (t\<lparr>phase := RestoreDelay (i + 1)\<rparr>, g)
          else finish_restore env t g
      | Exited \<Rightarrow> (t, g))"

text \<open>Start and stop; the entry of the task reads the type for the limit of the gate.\<close>

definition task_entry :: "internet_type \<Rightarrow> mon_task" where
  "task_entry t = \<lparr>phase = Gate 0 (if t = CONFIG_INTERNET_LTE then 30 else 10), fail_count = 0, recover_count = 0\<rparr>"

definition internet_monitor_task_start ::
  "bool \<Rightarrow> internet_type \<Rightarrow> mon_glob \<Rightarrow> mon_task option \<times> mon_glob" where
  "internet_monitor_task_start created t g =
     (if s_monitor_running g then (None, g)
      else
        let g1 = g\<lparr>s_monitor_running := True, s_on_fallback := False, s_services_started := False\<rparr>
        in if \<not> created then (None, g1\<lparr>s_monitor_running := False\<rparr>)
           else (Some (task_entry t), g1\<lparr>s_monitor_task_handle := True\<rparr>))"

definition internet_monitor_task_stop :: "mon_glob \<Rightarrow> mon_glob" where
  "internet_monitor_task_stop g =
     (if \<not> s_monitor_running g then g else g\<lparr>s_monitor_running := False\<rparr>)"

section \<open>Runs of the task\<close>

text \<open>The task steps with what it reads; another task may ask it to stop at any moment.\<close>

datatype mon_event = MTick mon_env | MStop

inductive mon_trans :: "mon_task \<times> mon_glob \<Rightarrow> mon_event \<Rightarrow> mon_task \<times> mon_glob \<Rightarrow> bool" where
  mtick: "mon_trans s (MTick env) (mon_step env s)"
| mstop: "mon_trans (t, g) MStop (t, internet_monitor_task_stop g)"

inductive_cases mtick_elim: "mon_trans s (MTick env) s'"
inductive_cases mstop_elim: "mon_trans s MStop s'"
inductive_simps mon_trans_tick: "mon_trans s (MTick env) s'"
inductive_simps mon_trans_stop: "mon_trans s MStop s'"

text \<open>The states a run reaches while the configured types are \<open>p\<close> and \<open>f\<close>; it begins with a
  started task.\<close>

fun event_config :: "internet_type \<Rightarrow> internet_type \<Rightarrow> mon_event \<Rightarrow> bool" where
  "event_config p f (MTick env) \<longleftrightarrow> primary env = p \<and> fallback env = f"
| "event_config p f MStop \<longleftrightarrow> True"

inductive mon_reach :: "internet_type \<Rightarrow> internet_type \<Rightarrow> mon_glob \<Rightarrow> mon_task \<times> mon_glob \<Rightarrow> bool"
  for p f g0 where
  mon_start: "internet_monitor_task_start True p g0 = (Some t, g) \<Longrightarrow> mon_reach p f g0 (t, g)"
| mon_next: "mon_reach p f g0 s \<Longrightarrow> event_config p f ev \<Longrightarrow> mon_trans s ev s' \<Longrightarrow> mon_reach p f g0 s'"

section \<open>Counters and places\<close>

fun phase_ok :: "mon_task \<Rightarrow> mon_glob \<Rightarrow> mon_phase \<Rightarrow> bool" where
  "phase_ok t g (Gate w l) \<longleftrightarrow> w \<le> l \<and> l \<le> 30 \<and> \<not> s_services_started g \<and> \<not> s_on_fallback g \<and>
     fail_count t = 0 \<and> recover_count t = 0"
| "phase_ok t g (InitialDelay i) \<longleftrightarrow> i \<le> 5 \<and> s_services_started g \<and> \<not> s_on_fallback g \<and>
     fail_count t = 0 \<and> recover_count t = 0"
| "phase_ok t g (CheckDelay i) \<longleftrightarrow> i \<le> 10 \<and> s_services_started g \<and> fail_count t < 3 \<and> recover_count t < 6 \<and>
     (s_on_fallback g \<longrightarrow> fail_count t = 0) \<and> (\<not> s_on_fallback g \<longrightarrow> recover_count t = 0)"
| "phase_ok t g SwitchDelay \<longleftrightarrow> s_services_started g \<and> \<not> s_on_fallback g \<and> fail_count t = 3 \<and> recover_count t = 0"
| "phase_ok t g (Settle i) \<longleftrightarrow> i \<le> 60 \<and> s_services_started g \<and> s_on_fallback g \<and>
     fail_count t = 0 \<and> recover_count t = 0"
| "phase_ok t g (RestoreDelay i) \<longleftrightarrow> i \<le> 20 \<and> s_services_started g \<and> s_on_fallback g \<and>
     fail_count t = 0 \<and> recover_count t = 6"
| "phase_ok t g Exited \<longleftrightarrow> fail_count t < 3 \<and> recover_count t < 6"

definition mon_ok :: "mon_task \<times> mon_glob \<Rightarrow> bool" where
  "mon_ok s = (case s of (t, g) \<Rightarrow> phase_ok t g (phase t))"

lemma act_fields [simp]:
  "s_monitor_running (act as g) = s_monitor_running g" "s_on_fallback (act as g) = s_on_fallback g"
  "s_services_started (act as g) = s_services_started g" "acts (act as g) = acts g @ as"
  by (simp_all add: act_def)

lemma connection_fields [simp]:
  "s_monitor_running (start_connection t g) = s_monitor_running g"
  "s_on_fallback (start_connection t g) = s_on_fallback g"
  "s_services_started (start_connection t g) = s_services_started g"
  "s_monitor_running (stop_connection t g) = s_monitor_running g"
  "s_on_fallback (stop_connection t g) = s_on_fallback g"
  "s_services_started (stop_connection t g) = s_services_started g"
  by (simp_all add: start_connection_def stop_connection_def split: internet_type.split)

lemma server_fields [simp]:
  "s_monitor_running (start_server_by_type t g) = s_monitor_running g"
  "s_on_fallback (start_server_by_type t g) = s_on_fallback g"
  by (simp_all add: start_server_by_type_def split: server_type.split)

lemmas body_defs = after_gate_def check_primary_def finish_switch_def check_fallback_def finish_restore_def loop_head_def task_exit_def

lemma mon_step_ok: "mon_ok s \<Longrightarrow> mon_ok (mon_step env s)"
  by (cases s; cases "phase (fst s)") (auto simp: mon_ok_def body_defs delay_defs Let_def)

interpretation mon: invariant_step mon_step mon_ok
  by unfold_locales (rule mon_step_ok)

lemma mon_trans_ok: "mon_trans s ev s' \<Longrightarrow> mon_ok s \<Longrightarrow> mon_ok s'"
proof (induction rule: mon_trans.induct)
  case (mtick s env)
  then show ?case by (rule mon.step_inv)
next
  case (mstop t g)
  then show ?case by (cases "phase t") (simp_all add: mon_ok_def internet_monitor_task_stop_def)
qed

lemma mon_reach_ok: "mon_reach p f g0 s \<Longrightarrow> mon_ok s"
proof (induction rule: mon_reach.induct)
  case (mon_start t g)
  then show ?case by (auto simp: mon_ok_def internet_monitor_task_start_def task_entry_def split: if_splits)
next
  case (mon_next s ev s')
  then show ?case by (blast intro: mon_trans_ok)
qed

section \<open>The failover automaton\<close>

text \<open>What the task promises: it moves between four modes, and each move starts and stops
  exactly these connections.\<close>

datatype link_mode = OnPrimary | Between | OnFallback | Restoring

inductive link_move :: "internet_type \<Rightarrow> internet_type \<Rightarrow> link_mode \<Rightarrow> mon_act list \<Rightarrow> link_mode \<Rightarrow> bool"
  for p f where
  give_up: "link_move p f OnPrimary [ConnStop p] Between"
| take_over: "link_move p f Between [ConnStart f] OnFallback"
| retry: "link_move p f OnFallback [ConnStart p] Restoring"
| come_back: "link_move p f Restoring [ConnStop f] OnPrimary"
| keep_fallback: "link_move p f Restoring [ConnStop p] OnFallback"
| stutter: "link_move p f m [] m"

inductive_cases link_moveE: "link_move p f m as m'"

definition mode_of :: "mon_task \<times> mon_glob \<Rightarrow> link_mode" where
  "mode_of s = (case s of (t, g) \<Rightarrow>
     if \<not> s_on_fallback g then (if phase t = SwitchDelay then Between else OnPrimary)
     else (case phase t of RestoreDelay i \<Rightarrow> Restoring | _ \<Rightarrow> OnFallback))"

fun is_conn :: "mon_act \<Rightarrow> bool" where
  "is_conn (ConnStart t) = True" | "is_conn (ConnStop t) = True" | "is_conn _ = False"

abbreviation linkable :: "internet_type \<Rightarrow> bool" where
  "linkable t \<equiv> t \<noteq> CONFIG_INTERNET_NBIOT"

lemma connection_acts [simp]:
  "linkable t \<Longrightarrow> acts (start_connection t g) = acts g @ [ConnStart t]"
  "linkable t \<Longrightarrow> acts (stop_connection t g) = acts g @ [ConnStop t]"
  by (cases t; simp add: start_connection_def stop_connection_def)+

lemma server_acts: "\<exists>as. acts (start_server_by_type t g) = acts g @ as \<and> filter is_conn as = []"
  by (cases t) (simp_all add: start_server_by_type_def)

lemma mode_of_simps [simp]:
  "\<not> s_on_fallback g \<Longrightarrow> phase t \<noteq> SwitchDelay \<Longrightarrow> mode_of (t, g) = OnPrimary"
  "\<not> s_on_fallback g \<Longrightarrow> phase t = SwitchDelay \<Longrightarrow> mode_of (t, g) = Between"
  "s_on_fallback g \<Longrightarrow> phase t = RestoreDelay i \<Longrightarrow> mode_of (t, g) = Restoring"
  "s_on_fallback g \<Longrightarrow> phase t = CheckDelay i \<Longrightarrow> mode_of (t, g) = OnFallback"
  "s_on_fallback g \<Longrightarrow> phase t = Settle i \<Longrightarrow> mode_of (t, g) = OnFallback"
  "s_on_fallback g \<Longrightarrow> phase t = Exited \<Longrightarrow> mode_of (t, g) = OnFallback"
  by (simp_all add: mode_of_def)

text \<open>A step of the task is a move of the automaton.\<close>

definition simulated :: "internet_type \<Rightarrow> internet_type \<Rightarrow> mon_task \<times> mon_glob \<Rightarrow> mon_task \<times> mon_glob \<Rightarrow> bool" where
  "simulated p f s s' \<longleftrightarrow>
     (\<exists>as. filter is_conn (acts (snd s')) = filter is_conn (acts (snd s)) @ as \<and> link_move p f (mode_of s) as (mode_of s'))"

lemma simulatedI:
  "filter is_conn (acts (snd s')) = filter is_conn (acts (snd s)) @ as \<Longrightarrow>
   link_move p f (mode_of s) as (mode_of s') \<Longrightarrow> simulated p f s s'"
  by (auto simp: simulated_def)

lemma simulated_quiet:
  "acts (snd s') = acts (snd s) \<Longrightarrow> mode_of s' = mode_of s \<Longrightarrow> simulated p f s s'"
  by (rule simulatedI [of _ _ "[]"]) (simp_all add: link_move.stutter)

lemma loop_head_mode:
  "\<nexists>i. phase t = RestoreDelay i \<Longrightarrow> phase t \<noteq> SwitchDelay \<Longrightarrow> mode_of (loop_head t g) = mode_of (t, g)"
  "acts (snd (loop_head t g)) = acts g"
  by (auto simp: loop_head_def task_exit_def mode_of_def split: mon_phase.split)

lemma gate_simulated:
  assumes "mon_ok (t, g)" and "phase t = Gate w l"
  shows "simulated p f (t, g) (after_gate env t g)"
proof -
  obtain as where "acts (start_server_by_type (server env) (act [WebStart] g)) = acts g @ [WebStart] @ as" "filter is_conn as = []"
    using server_acts [of "server env" "act [WebStart] g"] by auto
  then show ?thesis
    using assms
    by (intro simulatedI [where as = "[]"])
      (auto simp: after_gate_def task_exit_def mon_ok_def Let_def intro: link_move.stutter)
qed

lemma check_simulated:
  assumes "mon_ok (t, g)" and "phase t = CheckDelay i" and "linkable p" "linkable f"
    and "primary env = p" "fallback env = f"
  shows "simulated p f (t, g) (if \<not> s_on_fallback g then check_primary env ok t g else check_fallback env ok t g)"
proof (cases "s_on_fallback g")
  case False
  show ?thesis
  proof (cases "ok \<or> fail_count t + 1 < 3")
    case True
    then show ?thesis using False assms
      by (intro simulated_quiet) (auto simp: check_primary_def loop_head_mode Let_def)
  next
    case switch: False
    then show ?thesis using False assms
      by (intro simulatedI [where as = "[ConnStop p]"])
        (auto simp: check_primary_def Let_def intro: link_move.give_up)
  qed
next
  case True
  let ?r = "if ok then recover_count t + 1 else 0"
  show ?thesis
  proof (cases "?r < 6")
    case less: True
    then show ?thesis using True assms
      by (intro simulated_quiet) (auto simp: check_fallback_def loop_head_mode Let_def)
  next
    case False
    then show ?thesis using True assms
      by (intro simulatedI [where as = "[ConnStart p]"]) (auto simp: check_fallback_def Let_def intro: link_move.retry)
  qed
qed

lemma switch_simulated:
  assumes "mon_ok (t, g)" and "phase t = SwitchDelay" and "linkable f" and "fallback env = f"
  shows "simulated p f (t, g) (finish_switch env t g)"
  using assms
  by (intro simulatedI [where as = "[ConnStart f]"])
    (auto simp: finish_switch_def mon_ok_def intro: link_move.take_over)

lemma restore_simulated:
  assumes "mon_ok (t, g)" and "phase t = RestoreDelay i" and "linkable p" "linkable f"
    and "primary env = p" "fallback env = f"
  shows "simulated p f (t, g) (finish_restore env t g)"
proof (cases "primary_connected env \<and> internet_monitor_check_connectivity (probe1' env) (probe2' env)")
  case True
  then show ?thesis using assms
    by (intro simulatedI [where as = "[ConnStop f]"])
      (auto simp: finish_restore_def loop_head_def task_exit_def mon_ok_def Let_def intro: link_move.come_back)
next
  case False
  then show ?thesis using assms
    by (intro simulatedI [where as = "[ConnStop p]"])
      (auto simp: finish_restore_def loop_head_def task_exit_def mon_ok_def Let_def intro: link_move.keep_fallback)
qed

lemma mon_step_simulated:
  assumes "mon_ok (t, g)" and "linkable p" "linkable f" and "primary env = p" "fallback env = f"
  shows "simulated p f (t, g) (mon_step env (t, g))"
proof (cases "phase t")
  case (Gate w l)
  then show ?thesis using assms gate_simulated [OF assms(1) Gate, of p f env]
    by (auto simp: mon_ok_def intro: simulated_quiet)
next
  case (CheckDelay i)
  then show ?thesis using check_simulated [OF assms(1) CheckDelay assms(2-5)] assms(1)
    by (auto simp: mon_ok_def mode_of_def task_exit_def Let_def intro!: simulated_quiet split: mon_phase.split)
next
  case SwitchDelay
  then show ?thesis using switch_simulated [OF assms(1) SwitchDelay assms(3,5)] by simp
next
  case (RestoreDelay i)
  then show ?thesis using restore_simulated [OF assms(1) RestoreDelay assms(2-5)] assms(1)
    by (auto simp: mon_ok_def intro: simulated_quiet)
qed (use assms(1) in \<open>auto simp: mon_ok_def task_exit_def loop_head_mode intro!: simulated_quiet\<close>)

lemma mon_trans_simulated:
  assumes "mon_trans s ev s'" and "mon_ok s" and "event_config p f ev" and "linkable p" "linkable f"
  shows "simulated p f s s'"
  using assms
proof (cases rule: mon_trans.cases)
  case (mtick env)
  then show ?thesis using assms mon_step_simulated [of "fst s" "snd s" p f env] by simp
next
  case (mstop t g)
  then show ?thesis by (simp add: internet_monitor_task_stop_def mode_of_def simulated_quiet)
qed

text \<open>Runs of the automaton.\<close>

inductive link_run :: "internet_type \<Rightarrow> internet_type \<Rightarrow> mon_act list \<Rightarrow> link_mode \<Rightarrow> bool" for p f where
  link_begin: "link_run p f [] OnPrimary"
| link_go: "link_run p f as m \<Longrightarrow> link_move p f m bs m' \<Longrightarrow> link_run p f (as @ bs) m'"

lemma monitor_refines:
  assumes "mon_reach p f g0 s" and "linkable p" "linkable f"
  shows "\<exists>as. filter is_conn (acts (snd s)) = filter is_conn (acts g0) @ as \<and> link_run p f as (mode_of s)"
  using assms(1)
proof (induction rule: mon_reach.induct)
  case (mon_start t g)
  then have "acts g = acts g0" "\<not> s_on_fallback g" "phase t \<noteq> SwitchDelay"
    by (auto simp: internet_monitor_task_start_def task_entry_def split: if_splits)
  then show ?case by (auto intro: link_begin)
next
  case (mon_next s ev s')
  then obtain as where as: "filter is_conn (acts (snd s)) = filter is_conn (acts g0) @ as" "link_run p f as (mode_of s)"
    by blast
  have "simulated p f s s'" using mon_next assms mon_reach_ok by (blast intro: mon_trans_simulated)
  then obtain bs where "filter is_conn (acts (snd s')) = filter is_conn (acts (snd s)) @ bs"
      "link_move p f (mode_of s) bs (mode_of s')"
    by (auto simp: simulated_def)
  with as show ?case by (auto intro!: link_go)
qed

text \<open>
  C19. The monitor is the failover automaton. Whatever the probes, the links, the moments of the steps and
  a stop request bring, the connections a started monitor task has started and stopped are those of
  a run of the four-mode automaton \<open>link_move\<close> (on the primary, between the two, on the fallback, restoring) which ends in
  the mode of the task: it never starts or stops anything outside these moves, and never in
  another order.
\<close>

theorem monitor_refines_failover:
  assumes "mon_reach p f g0 s" and "linkable p" and "linkable f"
  shows "\<exists>as. filter is_conn (acts (snd s)) = filter is_conn (acts g0) @ as \<and> link_run p f as (mode_of s)"
  using assms by (rule monitor_refines)

section \<open>Which connections are up\<close>

text \<open>The connections up after some actions, when those of \<open>A\<close> were up before.\<close>

fun connections :: "internet_type set \<Rightarrow> mon_act list \<Rightarrow> internet_type set" where
  "connections A [] = A"
| "connections A (ConnStart t # as) = connections (insert t A) as"
| "connections A (ConnStop t # as) = connections (A - {t}) as"
| "connections A (_ # as) = connections A as"

lemma connections_append [simp]: "connections A (as @ bs) = connections (connections A as) bs"
  by (induction A as rule: connections.induct) simp_all

lemma connections_filter: "connections A (filter is_conn as) = connections A as"
  by (induction A as rule: connections.induct) simp_all

lemma link_run_connections:
  assumes "link_run p f as m" and "p \<noteq> f"
  shows "connections {p} as = (case m of OnPrimary \<Rightarrow> {p} | Between \<Rightarrow> {} | OnFallback \<Rightarrow> {f} | Restoring \<Rightarrow> {p, f})"
  using assms(1)
proof (induction rule: link_run.induct)
  case (link_go as m bs m')
  from link_go.hyps(2) show ?case
    by cases (use link_go.IH assms(2) in \<open>auto split: link_mode.splits\<close>)
qed simp

lemma link_run_same:
  assumes "link_run p p as m"
  shows "connections {p} as = {p} \<or> connections {p} as = {} \<and> m \<noteq> Restoring"
  using assms
proof (induction rule: link_run.induct)
  case (link_go as m bs m')
  from link_go.hyps(2) show ?case by cases (use link_go.IH in auto)
qed simp

text \<open>
  C3. Which connections are up, counting one as up from its start to its stop by the monitor, is told by the
  monitor's mode. While the primary, which is up when the monitor starts, and the fallback differ, the monitor holds
  exactly the primary, exactly the fallback, both, but only while it tries to restore the primary, or
  none, but only in the single two-second sleep of a switch, after which the next step starts the fallback,
  also when a stop is requested meanwhile. If they are the same (a configuration the parser accepts),
  completing a restore stops the very connection it has just checked: the device is then left without any,
  and the monitor counts itself on the primary.
\<close>

theorem connections_by_mode:
  assumes "mon_reach p f g0 s" and "linkable p" and "linkable f" and "acts g0 = []"
  shows "(p \<noteq> f \<longrightarrow> connections {p} (acts (snd s)) =
      (case mode_of s of OnPrimary \<Rightarrow> {p} | Between \<Rightarrow> {} | OnFallback \<Rightarrow> {f} | Restoring \<Rightarrow> {p, f})) \<and>
    (mode_of s = Between \<and> fallback env = f \<longrightarrow>
       mode_of (mon_step env s) = OnFallback \<and> acts (snd (mon_step env s)) = acts (snd s) @ [ConnStart f]) \<and>
    (mode_of s = Between \<longrightarrow> mode_of (fst s, internet_monitor_task_stop (snd s)) = Between) \<and>
    (p = f \<and> phase (fst s) = RestoreDelay RESTORE_DELAY_S \<and> primary env = p \<and> fallback env = f \<and>
       primary_connected env \<and> probe1' env \<longrightarrow>
     connections {p} (acts (snd (mon_step env s))) = {} \<and> mode_of (mon_step env s) = OnPrimary)"
proof -
  obtain as where as: "filter is_conn (acts (snd s)) = as" "link_run p f as (mode_of s)"
    using monitor_refines [OF assms(1-3)] assms(4) by auto
  have conn: "connections {p} (acts (snd s)) = connections {p} as"
    using connections_filter [of "{p}" "acts (snd s)"] as(1) by simp
  have ok: "mon_ok s" by (rule mon_reach_ok [OF assms(1)])
  have "connections {p} (acts (snd (mon_step env s))) = {} \<and> mode_of (mon_step env s) = OnPrimary"
    if h: "p = f" "phase (fst s) = RestoreDelay RESTORE_DELAY_S" "primary env = p" "fallback env = f"
      "primary_connected env" "probe1' env"
  proof -
    have "mode_of s = Restoring" using ok h(2) by (cases s) (auto simp: mon_ok_def mode_of_def delay_defs)
    then have "connections {p} as = {p}" using link_run_same as(2) h(1) by auto
    with conn h assms(2,3) show ?thesis
      by (cases s) (auto simp: finish_restore_def internet_monitor_check_connectivity_def loop_head_def
          task_exit_def Let_def)
  qed
  moreover have "mode_of (mon_step env s) = OnFallback \<and> acts (snd (mon_step env s)) = acts (snd s) @ [ConnStart f]"
    if "mode_of s = Between" "fallback env = f"
  proof -
    have "phase (fst s) = SwitchDelay" using that(1) by (cases s) (auto simp: mode_of_def split: if_splits mon_phase.splits)
    then show ?thesis using that(2) assms(3) by (cases s) (simp add: finish_switch_def)
  qed
  moreover have "mode_of (fst s, internet_monitor_task_stop (snd s)) = mode_of s"
    by (cases s) (simp add: internet_monitor_task_stop_def mode_of_def)
  ultimately show ?thesis using conn as(2) link_run_connections by auto
qed

section \<open>When the monitor switches\<close>

lemma connection_eq:
  "linkable t \<Longrightarrow> start_connection t g = act [ConnStart t] g"
  "linkable t \<Longrightarrow> stop_connection t g = act [ConnStop t] g"
  by (cases t; simp add: start_connection_def stop_connection_def)+

text \<open>The last results that equal \<open>b\<close>, counted from the end.\<close>

definition streak :: "bool \<Rightarrow> bool list \<Rightarrow> nat" where
  "streak b xs = length (takeWhile ((=) b) (rev xs))"

lemma streak_simps [simp]:
  "streak b [] = 0" "streak b (xs @ [x]) = (if x = b then streak b xs + 1 else 0)"
  by (simp_all add: streak_def eq_commute)

lemma streak_sublist:
  assumes "k \<le> streak b xs"
  shows "sublist (replicate k b) xs"
proof -
  have r: "takeWhile ((=) b) (rev xs) = replicate (streak b xs) b"
    unfolding streak_def by (rule replicate_length_same [symmetric]) (auto dest: set_takeWhileD)
  have "replicate (streak b xs) b = replicate k b @ replicate (streak b xs - k) b"
    using assms by (simp flip: replicate_add)
  then have "rev xs = replicate k b @ replicate (streak b xs - k) b @ dropWhile ((=) b) (rev xs)"
    using takeWhile_dropWhile_id [of "(=) b" "rev xs"] by (simp add: r)
  then have "xs = rev (dropWhile ((=) b) (rev xs)) @ rev (replicate (streak b xs - k) b) @ rev (replicate k b)"
    by (metis append.assoc rev_append rev_rev_ident)
  then show ?thesis by (simp add: sublist_def) (metis append.assoc append_Nil2)
qed

text \<open>One round of the loop: ten sleeps and a check, all with the same surroundings.\<close>

definition round :: "mon_env \<Rightarrow> mon_env list" where
  "round env = replicate (Suc CHECK_INTERVAL_S) env"

definition mon_run :: "mon_env list \<Rightarrow> mon_task \<times> mon_glob \<Rightarrow> mon_task \<times> mon_glob" where
  "mon_run es s = fold mon_step es s"

lemma mon_run_simps [simp]:
  "mon_run [] s = s" "mon_run (e # es) s = mon_run es (mon_step e s)"
  "mon_run (es @ fs) s = mon_run fs (mon_run es s)"
  by (simp_all add: mon_run_def)

definition online :: "mon_env \<Rightarrow> bool" where
  "online env = internet_monitor_check_connectivity (probe1 env) (probe2 env)"

lemma online_iff: "online env \<longleftrightarrow> probe1 env \<or> probe2 env"
  by (simp add: online_def internet_monitor_check_connectivity_def)

lemma sleeps:
  assumes "s_monitor_running g" and "i + n \<le> 10"
  shows "mon_run (replicate n env) (t\<lparr>phase := CheckDelay i\<rparr>, g) = (t\<lparr>phase := CheckDelay (i + n)\<rparr>, g)"
  using assms(2)
proof (induction n arbitrary: i)
  case (Suc n)
  then have "i < CHECK_INTERVAL_S" by (simp add: delay_defs)
  with Suc.IH [of "Suc i"] Suc.prems assms(1) show ?case by simp
qed simp

lemma round_run:
  assumes "s_monitor_running g" and "phase t = CheckDelay 0"
  shows "mon_run (round env) (t, g) =
    (if \<not> s_on_fallback g then check_primary env (online env) (t\<lparr>phase := CheckDelay 10\<rparr>) g
     else check_fallback env (online env) (t\<lparr>phase := CheckDelay 10\<rparr>) g)"
proof -
  have t: "t\<lparr>phase := CheckDelay 0\<rparr> = t" using assms(2) by simp
  have "round env = replicate 10 env @ [env]"
    by (simp add: round_def delay_defs replicate_append_same flip: replicate_Suc)
  then show ?thesis
    using sleeps [OF assms(1), of 0 10 env t] assms(1) by (simp add: t delay_defs online_def)
qed

lemma replicate3: "replicate 3 x = [x, x, x]"
  by (simp add: numeral_3_eq_3)

lemma rounds_on_primary:
  assumes "s_monitor_running g" and "\<not> s_on_fallback g" and "phase t = CheckDelay 0" and "fail_count t = 0"
    and "\<not> sublist [False, False, False] (map online es)"
  shows "mon_run (concat (map round es)) (t, g) = (t\<lparr>fail_count := streak False (map online es)\<rparr>, g)"
  using assms(5)
proof (induction es rule: rev_induct)
  case Nil
  then show ?case using assms(4) by simp
next
  case (snoc e es)
  let ?xs = "map online es"
  have "\<not> sublist [False, False, False] ?xs"
    using snoc.prems by (simp add: sublist_snoc)
  note IH = snoc.IH [OF this]
  have "streak False (?xs @ [online e]) < 3"
    using streak_sublist [of 3 False "?xs @ [online e]"] snoc.prems by (auto simp: replicate3 not_le [symmetric])
  then have "fail_count t + 1 < 3 \<or> True" by simp
  show ?case
    using round_run [OF assms(1), of "t\<lparr>fail_count := streak False ?xs\<rparr>" e] assms(1-3)
      \<open>streak False (?xs @ [online e]) < 3\<close>
    by (cases "online e") (simp_all add: IH check_primary_def loop_head_def)
qed

text \<open>
  The monitor leaves the primary exactly after three failed checks in a row. From the start of the loop on
  the primary, as long as no three consecutive checks (of two probes each) have failed, nothing is started or
  stopped and the counter is the number of failures since the last success; when three consecutive
  checks have failed for the first time, the primary has been stopped, and with the next step the
  fallback is started and the monitor waits for it to settle.
\<close>

lemma failover_exact:
  assumes "s_monitor_running g" and "\<not> s_on_fallback g" and "phase t = CheckDelay 0" and "fail_count t = 0"
    and "\<not> sublist [False, False, False] (map online es)"
    and "linkable (primary e)" and "linkable (fallback e)"
  defines "s \<equiv> mon_run (concat (map round es)) (t, g)"
    and "s' \<equiv> mon_run (concat (map round (es @ [e]))) (t, g)"
  shows "s = (t\<lparr>fail_count := streak False (map online es)\<rparr>, g) \<and>
    (if sublist [False, False, False] (map online (es @ [e]))
     then s' = (t\<lparr>fail_count := streak False (map online (es @ [e])), phase := SwitchDelay\<rparr>,
                g\<lparr>acts := acts g @ [ConnStop (primary e)]\<rparr>) \<and>
          mon_step e s' = (t\<lparr>fail_count := 0, recover_count := 0, phase := Settle 0\<rparr>,
                g\<lparr>acts := acts g @ [ConnStop (primary e), ConnStart (fallback e)], s_on_fallback := True\<rparr>)
     else s' = (t\<lparr>fail_count := streak False (map online (es @ [e]))\<rparr>, g))"
proof (cases "sublist [False, False, False] (map online (es @ [e]))")
  case False
  then show ?thesis
    using rounds_on_primary [OF assms(1-5)] rounds_on_primary [OF assms(1-4), of "es @ [e]"]
    unfolding s_def s'_def by simp
next
  case True
  note s = rounds_on_primary [OF assms(1-5)]
  have "suffix [False, False, False] (map online es @ [online e])"
    using True assms(5) by (simp add: sublist_snoc)
  then obtain ys where ys: "map online es = ys @ [False, False]" "\<not> online e"
    by (auto simp: suffix_def append_eq_append_conv2 Cons_eq_append_conv)
  have "streak False (ys @ [False, False]) \<ge> 2"
    using streak_simps(2) [of False "ys @ [False]" False] by simp
  then have "3 \<le> streak False (map online es) + 1" by (simp add: ys(1))
  then show ?thesis
    using True s round_run [OF assms(1), of "t\<lparr>fail_count := streak False (map online es)\<rparr>" e] ys(2) assms(1-4,6,7)
    unfolding s_def s'_def
    by (simp add: check_primary_def finish_switch_def connection_eq act_def Let_def)
qed

lemma rounds_on_fallback:
  assumes "s_monitor_running g" and "s_on_fallback g" and "phase t = CheckDelay 0" and "recover_count t = 0"
    and "\<not> sublist (replicate 6 True) (map online es)"
  shows "mon_run (concat (map round es)) (t, g) = (t\<lparr>recover_count := streak True (map online es)\<rparr>, g)"
  using assms(5)
proof (induction es rule: rev_induct)
  case Nil
  then show ?case using assms(4) by simp
next
  case (snoc e es)
  let ?xs = "map online es"
  have "\<not> sublist (replicate 6 True) ?xs"
    using snoc.prems by (simp add: sublist_snoc)
  note IH = snoc.IH [OF this]
  have "streak True (?xs @ [online e]) < 6"
    using streak_sublist [of 6 True "?xs @ [online e]"] snoc.prems by (auto simp: not_le [symmetric])
  then show ?case
    using round_run [OF assms(1), of "t\<lparr>recover_count := streak True ?xs\<rparr>" e] assms(1-3)
    by (cases "online e") (simp_all add: IH check_fallback_def loop_head_def)
qed

lemma restore_sleeps:
  assumes "s_monitor_running g" and "i + n \<le> 20"
  shows "mon_run (replicate n env) (t\<lparr>phase := RestoreDelay i\<rparr>, g) = (t\<lparr>phase := RestoreDelay (i + n)\<rparr>, g)"
  using assms(2)
proof (induction n arbitrary: i)
  case (Suc n)
  then have "i < RESTORE_DELAY_S" by (simp add: delay_defs)
  with Suc.IH [of "Suc i"] Suc.prems assms(1) show ?case by simp
qed simp

lemma streak_replicate: "streak b (replicate n b) = n"
  by (simp add: streak_def)

lemma streak_suffix: "streak b (ys @ replicate n b) \<ge> n"
  by (simp add: streak_def takeWhile_append)

text \<open>
  The monitor goes back exactly after six good checks in a row, and only to a primary that works. From the
  start of the loop on the fallback, as long as no six consecutive checks have succeeded, nothing is
  started or stopped; with the sixth the primary is started beside the fallback, and twenty seconds later one
  of the two is stopped: the fallback if the primary's link is up and a probe succeeds, otherwise the
  primary. Either way the loop goes on with both counters at zero.
\<close>

lemma return_exact:
  fixes r' :: mon_env
  assumes "s_monitor_running g" and "s_on_fallback g" and "phase t = CheckDelay 0" and "recover_count t = 0"
    and "\<not> sublist (replicate 6 True) (map online es)" and "sublist (replicate 6 True) (map online (es @ [e]))"
    and "linkable (primary e)" and "linkable (fallback r)" and "primary r = primary e"
  defines "s \<equiv> mon_run (concat (map round es)) (t, g)"
    and "s' \<equiv> mon_run (concat (map round (es @ [e])) @ replicate 20 r' @ [r]) (t, g)"
    and "works \<equiv> primary_connected r \<and> (probe1' r \<or> probe2' r)"
  shows "s = (t\<lparr>recover_count := streak True (map online es)\<rparr>, g) \<and>
    s' = (t\<lparr>phase := CheckDelay 0, fail_count := 0, recover_count := 0\<rparr>,
          g\<lparr>s_on_fallback := \<not> works,
            acts := acts g @ [ConnStart (primary e), ConnStop (if works then fallback r else primary e)]\<rparr>)"
proof -
  note s = rounds_on_fallback [OF assms(1-5)]
  have "suffix (replicate 6 True) (map online es @ [online e])"
    using assms(5,6) by (simp add: sublist_snoc)
  then obtain ys where "map online es @ [online e] = ys @ replicate 6 True" by (auto simp: suffix_def)
  moreover have "replicate 6 True = replicate 5 True @ [True]" by (simp add: numeral_eq_Suc)
  ultimately have ys: "map online es = ys @ replicate 5 True" "online e" by simp_all
  have "5 \<le> streak True (map online es)" unfolding ys(1) by (rule streak_suffix)
  then have six: "6 \<le> streak True (map online es) + 1" by simp
  let ?t = "t\<lparr>recover_count := streak True (map online es) + 1\<rparr>" and ?g = "act [ConnStart (primary e)] g"
  have "mon_run (concat (map round (es @ [e]))) (t, g) = (?t\<lparr>phase := RestoreDelay 0\<rparr>, ?g)"
    using s six round_run [OF assms(1), of "t\<lparr>recover_count := streak True (map online es)\<rparr>" e] ys(2) assms(1-4,7)
    by (simp add: check_fallback_def connection_eq Let_def)
  moreover have "mon_run (replicate 20 r') (?t\<lparr>phase := RestoreDelay 0\<rparr>, ?g) = (?t\<lparr>phase := RestoreDelay 20\<rparr>, ?g)"
    using restore_sleeps [of ?g 0 20 r' ?t] assms(1) by simp
  moreover have "mon_step r (?t\<lparr>phase := RestoreDelay 20\<rparr>, ?g) =
      (t\<lparr>phase := CheckDelay 0, fail_count := 0, recover_count := 0\<rparr>,
       g\<lparr>s_on_fallback := \<not> works,
         acts := acts g @ [ConnStart (primary e), ConnStop (if works then fallback r else primary e)]\<rparr>)"
    using assms(1,2,7-9) unfolding works_def
    by (auto simp: delay_defs finish_restore_def loop_head_def connection_eq act_def
        internet_monitor_check_connectivity_def Let_def)
  ultimately show ?thesis using s unfolding s_def s'_def by simp
qed

section \<open>The start-up gate\<close>

definition gate_limit :: "internet_type \<Rightarrow> nat" where
  "gate_limit p = (if p = CONFIG_INTERNET_LTE then 30 else 10)"

definition ready :: "mon_env \<Rightarrow> bool" where
  "ready env \<longleftrightarrow> net_connected env \<and> internet_time_synced (primary env) env"

definition services :: "mon_glob \<Rightarrow> mon_act list" where
  "services g = filter (\<lambda>a. \<not> is_conn a) (acts g)"

lemma connection_services:
  "services (start_connection t g) = services g" "services (stop_connection t g) = services g"
  by (simp_all add: services_def start_connection_def stop_connection_def split: internet_type.split)

lemma services_upd [simp]:
  "services (g\<lparr>s_monitor_task_handle := b\<rparr>) = services g" "services (g\<lparr>s_on_fallback := b\<rparr>) = services g"
  by (simp_all add: services_def)

lemma services_once_step:
  "s_services_started (snd s) \<Longrightarrow>
     s_services_started (snd (mon_step env s)) \<and> services (snd (mon_step env s)) = services (snd s)"
  by (cases s; cases "phase (fst s)") (auto simp: body_defs connection_services Let_def)

lemma services_once:
  "s_services_started (snd s) \<Longrightarrow> services (snd (mon_run es s)) = services (snd s)"
proof (induction es arbitrary: s)
  case (Cons e es)
  then show ?case using services_once_step [of s e] by (simp add: Cons.IH)
qed simp

lemma gate_waits:
  assumes "s_monitor_running g" and "\<forall>e \<in> set es. \<not> ready e" and "w + length es \<le> l"
  shows "mon_run es (t\<lparr>phase := Gate w l\<rparr>, g) = (t\<lparr>phase := Gate (w + length es) l\<rparr>, g)"
  using assms(2,3)
proof (induction es arbitrary: w)
  case (Cons e es)
  then show ?case using assms(1) Cons.IH [of "Suc w"] by (auto simp: ready_def)
qed simp

text \<open>
  The services start exactly once and in time. A monitor that has been started waits, doing nothing, while
  the device is not online with its time synchronised; at the first second it is, and after ten
  seconds (thirty for LTE) in any case, it starts the web server and the handler of the configured server, in this
  order, and never again. With the fallback switched off it has then ended, but still counts as
  running: it cannot be started again until it has been stopped.
\<close>

lemma services_start_in_time:
  assumes "internet_monitor_task_start True p g0 = (Some t, g)"
    and "\<forall>e \<in> set es. \<not> ready e" and "length es \<le> gate_limit p" and "length es = gate_limit p \<or> ready e"
  defines "s \<equiv> mon_run es (t, g)" and "s' \<equiv> mon_run (es @ [e]) (t, g)"
  shows "acts (snd s) = acts g0 \<and> \<not> s_services_started (snd s) \<and>
    acts (snd s') = acts g0 @ [WebStart, (case server e of CONFIG_SERVERTYPE_MQTT \<Rightarrow> MqttStart
        | CONFIG_SERVERTYPE_HTTP \<Rightarrow> HttpStart | CONFIG_SERVERTYPE_COAP \<Rightarrow> CoapStart)] \<and>
    services (snd (mon_run fs s')) = services (snd s') \<and>
    (if fallback_on e then phase (fst s') = InitialDelay 0
     else phase (fst s') = Exited \<and> internet_monitor_task_start c p' (snd s') = (None, snd s'))"
proof -
  have t: "t = task_entry p" and g: "s_monitor_running g" "\<not> s_services_started g" "acts g = acts g0"
    using assms(1) by (auto simp: internet_monitor_task_start_def split: if_splits)
  have "task_entry p = (task_entry p)\<lparr>phase := Gate 0 (gate_limit p)\<rparr>"
    by (simp add: task_entry_def gate_limit_def)
  then have s: "s = (t\<lparr>phase := Gate (length es) (gate_limit p)\<rparr>, g)"
    using gate_waits [OF g(1) assms(2), of 0 "gate_limit p" t] assms(3) by (simp add: s_def t)
  have "s' = after_gate e (t\<lparr>phase := Gate (length es) (gate_limit p)\<rparr>) g"
    using s assms(3,4) g(1) unfolding s_def s'_def by (auto simp: ready_def)
  moreover have "s_services_started (snd s')"
    unfolding calculation using g by (simp add: after_gate_def task_exit_def Let_def)
  moreover have "services (snd (mon_run fs s')) = services (snd s')" by (rule services_once) fact
  ultimately show ?thesis using s g
    by (auto simp: after_gate_def task_exit_def start_server_by_type_def internet_monitor_task_start_def Let_def
        split: server_type.split)
qed

section \<open>Concrete runs\<close>

definition calm :: mon_env where
  "calm = \<lparr>primary = CONFIG_INTERNET_WIFI, fallback_on = True, fallback = CONFIG_INTERNET_LTE,
     server = CONFIG_SERVERTYPE_HTTP, net_connected = True, lte_synced = True, wifi_synced = True, eth_synced = False,
     wifi_status = 1, eth_up = False, probe1 = True, probe2 = False, probe1' = True, probe2' = False\<rparr>"

definition outage :: mon_env where
  "outage = calm\<lparr>probe1 := False, net_connected := False\<rparr>"

definition mon_glob_boot :: mon_glob where
  "mon_glob_boot = \<lparr>s_monitor_running = False, s_monitor_task_handle = False, s_on_fallback = False,
     s_services_started = False, acts = []\<rparr>"

definition started :: "mon_task \<times> mon_glob" where
  "started = (task_entry CONFIG_INTERNET_WIFI, mon_glob_boot\<lparr>s_monitor_running := True, s_monitor_task_handle := True\<rparr>)"

lemma started_by_start:
  "internet_monitor_task_start True CONFIG_INTERNET_WIFI mon_glob_boot = (Some (fst started), snd started)"
  by (simp add: internet_monitor_task_start_def mon_glob_boot_def started_def)

lemma run_reach:
  "mon_reach p f g0 s \<Longrightarrow> \<forall>e \<in> set es. primary e = p \<and> fallback e = f \<Longrightarrow> mon_reach p f g0 (mon_run es s)"
proof (induction es arbitrary: s)
  case (Cons e es)
  then have "mon_reach p f g0 (mon_step e s)"
    by (intro mon_next [OF Cons.prems(1), of "MTick e"]) (auto intro: mtick)
  with Cons show ?case by simp
qed simp

lemma started_reach: "mon_reach CONFIG_INTERNET_WIFI f mon_glob_boot started"
  using mon_start [OF started_by_start] by simp

text \<open>Gate and initial delay, three failed rounds, and the settling of the fallback.\<close>

definition to_fallback :: "mon_env list" where
  "to_fallback = replicate 7 calm @ concat (replicate 3 (round outage)) @ replicate 62 calm"

lemma to_fallback_reach:
  "mon_reach CONFIG_INTERNET_WIFI CONFIG_INTERNET_LTE mon_glob_boot (mon_run to_fallback started)"
  by (rule run_reach [OF started_reach]) (auto simp: to_fallback_def round_def calm_def outage_def)

lemma settle_sleeps:
  assumes "s_monitor_running g" and "i + n \<le> 60"
  shows "mon_run (replicate n env) (t\<lparr>phase := Settle i\<rparr>, g) = (t\<lparr>phase := Settle (i + n)\<rparr>, g)"
  using assms(2)
proof (induction n arbitrary: i)
  case (Suc n)
  then have "i < FALLBACK_SETTLE_S" by (simp add: delay_defs)
  with Suc.IH [of "Suc i"] Suc.prems assms(1) show ?case by simp
qed simp

definition looping :: "mon_task \<times> mon_glob" where
  "looping = (\<lparr>phase = CheckDelay 0, fail_count = 0, recover_count = 0\<rparr>,
     \<lparr>s_monitor_running = True, s_monitor_task_handle = True, s_on_fallback = False, s_services_started = True,
      acts = [WebStart, HttpStart]\<rparr>)"

definition fallen :: "mon_task \<times> mon_glob" where
  "fallen = (\<lparr>phase = CheckDelay 0, fail_count = 0, recover_count = 0\<rparr>,
     \<lparr>s_monitor_running = True, s_monitor_task_handle = True, s_on_fallback = True, s_services_started = True,
      acts = [WebStart, HttpStart, ConnStop CONFIG_INTERNET_WIFI, ConnStart CONFIG_INTERNET_LTE]\<rparr>)"

lemma to_loop: "mon_run (replicate 7 calm) started = looping"
  by code_simp

lemma outage_offline [simp]: "\<not> online outage" "primary outage = CONFIG_INTERNET_WIFI" "fallback outage = CONFIG_INTERNET_LTE"
  by (simp_all add: online_iff outage_def calm_def)

lemma calm_online [simp]: "online calm" "primary calm = CONFIG_INTERNET_WIFI" "fallback calm = CONFIG_INTERNET_LTE"
  by (simp_all add: online_iff calm_def)

lemma to_fallback_run: "mon_run to_fallback started = fallen"
proof -
  let ?t = "\<lparr>phase = Settle 0, fail_count = 0, recover_count = 0\<rparr>"
  have "mon_step calm (mon_run (concat (replicate 3 (round outage))) looping) = (?t, snd fallen)"
    by (simp add: numeral_3_eq_3 looping_def fallen_def round_run check_primary_def finish_switch_def loop_head_def
        connection_eq act_def Let_def)
  moreover have "mon_run (replicate 60 calm) (?t, snd fallen) = (?t\<lparr>phase := Settle 60\<rparr>, snd fallen)"
    using settle_sleeps [of "snd fallen" 0 60 calm ?t] by (simp add: fallen_def)
  moreover have "mon_step calm (?t\<lparr>phase := Settle 60\<rparr>, snd fallen) = fallen"
    by (simp add: delay_defs loop_head_def fallen_def)
  moreover have "replicate 62 calm = calm # replicate 60 calm @ [calm]"
    by (simp add: replicate_append_same flip: replicate_Suc)
  ultimately show ?thesis by (simp add: to_fallback_def to_loop)
qed

lemma fallen_reach: "mon_reach CONFIG_INTERNET_WIFI CONFIG_INTERNET_LTE mon_glob_boot fallen"
  using to_fallback_reach by (simp add: to_fallback_run)

lemma fallen_mode [simp]: "mode_of fallen = OnFallback" "acts (snd fallen) = [WebStart, HttpStart,
    ConnStop CONFIG_INTERNET_WIFI, ConnStart CONFIG_INTERNET_LTE]" "acts mon_glob_boot = []"
  by (simp_all add: fallen_def mon_glob_boot_def)

theorem monitor_refines_failover_witness:
  "\<exists>as. as = [ConnStop CONFIG_INTERNET_WIFI, ConnStart CONFIG_INTERNET_LTE] \<and>
     link_run CONFIG_INTERNET_WIFI CONFIG_INTERNET_LTE as OnFallback"
  using monitor_refines_failover [OF fallen_reach] by auto

theorem connections_by_mode_witness:
  "connections {CONFIG_INTERNET_WIFI} (acts (snd fallen)) = {CONFIG_INTERNET_LTE}"
  using connections_by_mode [OF fallen_reach, of calm] by simp

lemma failover_exact_applied:
  "snd (mon_run (concat (map round ([outage, outage, calm, outage] @ [outage]))) looping) = snd looping"
proof -
  have l: "s_monitor_running (snd looping)" "\<not> s_on_fallback (snd looping)" "phase (fst looping) = CheckDelay 0"
    "fail_count (fst looping) = 0"
    by (simp_all add: looping_def)
  have n: "\<not> sublist [False, False, False] (map online [outage, outage, calm, outage])"
    and n': "\<not> sublist [False, False, False] (map online ([outage, outage, calm, outage] @ [outage]))"
    by (simp_all add: sublist_code)
  have k: "linkable (primary outage)" "linkable (fallback outage)" by simp_all
  from failover_exact [OF l n k, unfolded prod.collapse] n' show ?thesis by (auto simp only: if_False snd_conv)
qed

lemma return_exact_applied:
  "acts (snd (mon_run (concat (map round (replicate 6 calm)) @ replicate 20 outage @ [calm]) fallen)) =
     acts (snd fallen) @ [ConnStart CONFIG_INTERNET_WIFI, ConnStop CONFIG_INTERNET_LTE]"
proof -
  have six: "replicate 5 calm @ [calm] = replicate 6 calm" by (simp add: replicate_append_same flip: replicate_Suc)
  have five: "\<not> sublist (replicate 6 True) (map online (replicate 5 calm))"
    by (auto dest: sublist_length_le)
  have r: "primary_connected calm \<and> (probe1' calm \<or> probe2' calm)" by (simp add: primary_connected_def calm_def)
  show ?thesis
    using return_exact [of "snd fallen" "fst fallen" "replicate 5 calm" calm calm outage, OF _ _ _ _ five] r
    by (simp add: six) (simp add: fallen_def)
qed

lemma services_start_in_time_applied:
  "acts (snd (mon_run (replicate 10 outage @ [outage]) started)) = [WebStart, HttpStart]"
proof -
  have "\<not> ready outage" by (simp add: ready_def outage_def)
  then show ?thesis
    using services_start_in_time [OF started_by_start, of "replicate 10 outage" outage]
    by (simp add: gate_limit_def) (simp add: outage_def calm_def)
qed

end
