(* ===== verification/Lan_Comm.thy ===== *)
theory Lan_Comm
  imports Frames
begin

text \<open>
  \<open>BSP/MCU_LAN_Communication/src/lan_comm.c\<close>: the SPI slave link to the LAN microcontroller.
  The handle is a record, NULL is \<open>None\<close>; its two DMA buffers are byte lists of the
  configured sizes. The peripheral is the environment: whether the mutex was free, what
  queueing or waiting for a transaction returned, the bytes it moved. The properties describe
  the frame parser exactly, the buffers' invariant, and what a loaded frame looks like to the
  other side.
\<close>

abbreviation "LAN_COMM_DEFAULT_RX_BUFFER \<equiv> 16384 :: nat"
abbreviation "LAN_COMM_DEFAULT_TX_BUFFER \<equiv> 16384 :: nat"
abbreviation "LAN_COMM_HEADER_SIZE \<equiv> 2 :: nat"

datatype lan_comm_status =
    LAN_COMM_OK | LAN_COMM_ERR_INVALID_ARG | LAN_COMM_ERR_NOT_INITIALIZED | LAN_COMM_ERR_NOMEM
  | LAN_COMM_ERR_TIMEOUT | LAN_COMM_ERR_BUS_BUSY | LAN_COMM_ERR_INVALID_STATE
  | LAN_COMM_ERR_DMA_ALIGN | LAN_COMM_ERR_NO_DATA | LAN_COMM_ERR_INVALID_HEADER

record lan_packet =
  header_type :: u16
  payload :: "u8 list"
  payload_length :: u16

record lan_h =
  rx_buffer_size :: nat
  tx_buffer_size :: nat
  gpio_data_ready :: int
  auto_signal_data_ready :: bool
  rx_buffer :: "u8 list"
  tx_buffer :: "u8 list"
  tx_buffer_len :: nat
  lan_initialized :: bool
  transaction_queued :: bool
  gpio_configured :: bool
  last_error :: lan_comm_status
  packets_received :: u32
  packets_sent :: u32
  error_count :: u32
  data_ready_pulses :: nat        \<comment> \<open>pulses put on the data-ready line so far\<close>

text \<open>What \<open>lan_comm_init\<close> is given and meets: \<open>alloc_ok\<close> that the handle, both
  buffers and the mutex were allocated, \<open>spi_ok\<close> and \<open>gpio_ok\<close> the results of the
  peripheral set-up.\<close>

record lan_init_env =
  alloc_ok :: bool
  spi_ok :: bool
  gpio_ok :: bool

record lan_cfg =
  cfg_rx_size :: nat
  cfg_tx_size :: nat
  cfg_data_ready :: int
  cfg_auto_signal :: bool

definition lan_comm_init :: "lan_init_env \<Rightarrow> lan_cfg option \<Rightarrow> lan_comm_status \<times> lan_h option" where
  "lan_comm_init env config =
     (case config of
        None \<Rightarrow> (LAN_COMM_ERR_INVALID_ARG, None)
      | Some c \<Rightarrow>
          if \<not> alloc_ok env then (LAN_COMM_ERR_NOMEM, None)
          else if \<not> spi_ok env then (LAN_COMM_ERR_INVALID_STATE, None)
          else
            let rx = (if cfg_rx_size c = 0 then LAN_COMM_DEFAULT_RX_BUFFER else cfg_rx_size c);
                tx = (if cfg_tx_size c = 0 then LAN_COMM_DEFAULT_TX_BUFFER else cfg_tx_size c)
            in (LAN_COMM_OK,
                Some \<lparr>rx_buffer_size = rx, tx_buffer_size = tx,
                      gpio_data_ready = cfg_data_ready c,
                      auto_signal_data_ready = cfg_auto_signal c,
                      rx_buffer = replicate rx 0, tx_buffer = replicate tx 0, tx_buffer_len = 0,
                      lan_initialized = True, transaction_queued = False,
                      gpio_configured = (cfg_data_ready c \<ge> 0 \<and> gpio_ok env),
                      last_error = LAN_COMM_OK, packets_received = 0, packets_sent = 0,
                      error_count = 0, data_ready_pulses = 0\<rparr>))"

definition lan_comm_deinit :: "lan_h option \<Rightarrow> lan_comm_status \<times> lan_h option" where
  "lan_comm_deinit h =
     (case h of
        None \<Rightarrow> (LAN_COMM_ERR_INVALID_ARG, None)
      | Some x \<Rightarrow> if \<not> lan_initialized x then (LAN_COMM_ERR_INVALID_ARG, h)
                  else (LAN_COMM_OK, None))"

definition lan_comm_report_error :: "lan_comm_status \<Rightarrow> lan_h \<Rightarrow> lan_h" where
  "lan_comm_report_error e x = x\<lparr>last_error := e, error_count := error_count x + 1\<rparr>"

definition lan_ready :: "lan_h option \<Rightarrow> bool" where
  "lan_ready h \<longleftrightarrow> (case h of None \<Rightarrow> False | Some x \<Rightarrow> lan_initialized x)"

text \<open>\<open>free\<close>: the mutex was taken; \<open>queue_ok\<close>: \<open>spi_slave_queue_trans\<close> succeeded.\<close>

definition lan_comm_queue_receive ::
  "bool \<Rightarrow> bool \<Rightarrow> lan_h option \<Rightarrow> lan_comm_status \<times> lan_h option" where
  "lan_comm_queue_receive free queue_ok h =
     (if \<not> lan_ready h then (LAN_COMM_ERR_NOT_INITIALIZED, h)
      else
        let x = the h
        in if transaction_queued x then (LAN_COMM_OK, h)
           else if \<not> free
           then (LAN_COMM_ERR_TIMEOUT, Some (lan_comm_report_error LAN_COMM_ERR_TIMEOUT x))
           else
             let x1 = x\<lparr>rx_buffer := replicate (rx_buffer_size x) 0\<rparr>
             in if \<not> queue_ok
                then (LAN_COMM_ERR_BUS_BUSY, Some (lan_comm_report_error LAN_COMM_ERR_BUS_BUSY x1))
                else (LAN_COMM_OK, Some (x1\<lparr>transaction_queued := True\<rparr>)))"

section \<open>The frame parser\<close>

definition known_header :: "u16 \<Rightarrow> bool" where
  "known_header h \<longleftrightarrow> h = HEADER_CF \<or> h = HEADER_DT \<or> h = HEADER_DQ \<or> h = HEADER_CQ"

text \<open>\<open>skip_zeros\<close> is the loop over the padding; the polling test looks at up to ten bytes
  after the header. On success the packet and the frame size are returned.\<close>

fun skip_zeros :: "u8 list \<Rightarrow> nat" where
  "skip_zeros [] = 0"
| "skip_zeros (b # bs) = (if b = 0 then Suc (skip_zeros bs) else 0)"

definition lan_comm_parse_frame :: "u8 list \<Rightarrow> lan_comm_status \<times> (lan_packet \<times> nat) option" where
  "lan_comm_parse_frame buf =
     (if length buf < LAN_COMM_HEADER_SIZE then (LAN_COMM_ERR_INVALID_ARG, None)
      else
        let offset = skip_zeros buf
        in if offset \<ge> length buf \<or> length buf - offset < LAN_COMM_HEADER_SIZE
           then (LAN_COMM_ERR_NO_DATA, None)
           else
             let header = be16 (buf ! offset) (buf ! (offset + 1));
                 is_polling = list_all (\<lambda>b. b = 0) (take 10 (drop (offset + 2) buf))
             in if header = 0 then (LAN_COMM_ERR_NO_DATA, None)
                else if header = HEADER_CF \<and> is_polling then (LAN_COMM_ERR_NO_DATA, None)
                else if \<not> known_header header then (LAN_COMM_ERR_INVALID_HEADER, None)
                else (LAN_COMM_OK,
                      Some (\<lparr>header_type = header, payload = drop offset buf,
                             payload_length = word_of_nat (length buf - offset)\<rparr>,
                            length buf - offset)))"

lemma parse_frame_empty [simp]: "lan_comm_parse_frame [] = (LAN_COMM_ERR_INVALID_ARG, None)"
  by (simp add: lan_comm_parse_frame_def)

text \<open>The scan of a DMA buffer: the packets handed to the callback, in order.\<close>

function lan_comm_parse_dma_buffer :: "u8 list \<Rightarrow> lan_packet list" where
  "lan_comm_parse_dma_buffer buf =
     (if buf = [] then []
      else case lan_comm_parse_frame buf of
        (LAN_COMM_OK, Some (p, frame_size)) \<Rightarrow>
          if frame_size > 0 then p # lan_comm_parse_dma_buffer (drop frame_size buf)
          else lan_comm_parse_dma_buffer (drop 1 buf)
      | _ \<Rightarrow> lan_comm_parse_dma_buffer (drop 1 buf))"
  by auto
termination
  by (relation "measure length") auto

declare lan_comm_parse_dma_buffer.simps [simp del]

section \<open>Receiving and sending\<close>

text \<open>What \<open>spi_slave_get_trans_result\<close> gave: its code, and on success the bytes the master
  clocked into the buffer (\<open>trans_len / 8\<close> of them). \<open>SpiPartial\<close> is a transaction of one to seven bits, which are no byte.\<close>

datatype spi_result = SpiTimeout | SpiError | SpiPartial | SpiDone "u8 list"

definition lan_comm_get_received_packet ::
  "spi_result \<Rightarrow> lan_h option \<Rightarrow> lan_comm_status \<times> lan_packet option \<times> lan_h option" where
  "lan_comm_get_received_packet res h =
     (if \<not> lan_ready h then (LAN_COMM_ERR_NOT_INITIALIZED, None, h)
      else
        let x = the h
        in if \<not> transaction_queued x then (LAN_COMM_ERR_INVALID_STATE, None, h)
           else case res of
             SpiTimeout \<Rightarrow> (LAN_COMM_ERR_TIMEOUT, None, h)
           | SpiError \<Rightarrow>
               (LAN_COMM_ERR_BUS_BUSY, None,
                Some (lan_comm_report_error LAN_COMM_ERR_BUS_BUSY (x\<lparr>transaction_queued := False\<rparr>)))
           | SpiPartial \<Rightarrow>
               (let status = fst (lan_comm_parse_frame [])
                in (status, None, Some (lan_comm_report_error status (x\<lparr>transaction_queued := False\<rparr>))))
           | SpiDone bs \<Rightarrow>
               let x1 = x\<lparr>transaction_queued := False, rx_buffer := bs @ drop (length bs) (rx_buffer x)\<rparr>
               in if bs = [] then (LAN_COMM_ERR_NO_DATA, None, Some x1)
                  else
                    let (status, out) = lan_comm_parse_frame (take (length bs) (rx_buffer x1))
                    in if status \<noteq> LAN_COMM_OK
                       then (status, None,
                             Some (if status \<noteq> LAN_COMM_ERR_NO_DATA
                                   then lan_comm_report_error status x1 else x1))
                       else (LAN_COMM_OK, map_option fst out,
                             Some (x1\<lparr>packets_received := packets_received x1 + 1\<rparr>)))"

definition lan_comm_signal_data_ready :: "lan_h option \<Rightarrow> lan_comm_status \<times> lan_h option" where
  "lan_comm_signal_data_ready h =
     (if \<not> lan_ready h then (LAN_COMM_ERR_NOT_INITIALIZED, h)
      else
        let x = the h
        in if \<not> gpio_configured x \<or> gpio_data_ready x < 0 then (LAN_COMM_ERR_INVALID_STATE, h)
           else (LAN_COMM_OK, Some (x\<lparr>data_ready_pulses := data_ready_pulses x + 1\<rparr>)))"

text \<open>\<open>bs = None\<close> is a NULL pointer; the \<open>uint16_t\<close> length is the length of the list.\<close>

definition lan_comm_load_tx_data ::
  "bool \<Rightarrow> u8 list option \<Rightarrow> lan_h option \<Rightarrow> lan_comm_status \<times> lan_h option" where
  "lan_comm_load_tx_data free dat h =
     (if \<not> lan_ready h then (LAN_COMM_ERR_NOT_INITIALIZED, h)
      else case dat of
        None \<Rightarrow> (LAN_COMM_ERR_INVALID_ARG, h)
      | Some bs \<Rightarrow>
          let x = the h
          in if bs = [] then (LAN_COMM_ERR_INVALID_ARG, h)
             else if length bs > tx_buffer_size x then (LAN_COMM_ERR_INVALID_ARG, h)
             else if \<not> free
             then (LAN_COMM_ERR_TIMEOUT, Some (lan_comm_report_error LAN_COMM_ERR_TIMEOUT x))
             else
               let x1 = x\<lparr>tx_buffer := bs @ replicate (tx_buffer_size x - length bs) 0,
                          tx_buffer_len := length bs, packets_sent := packets_sent x + 1\<rparr>
               in (LAN_COMM_OK,
                   if gpio_configured x1 \<and> auto_signal_data_ready x1
                   then snd (lan_comm_signal_data_ready (Some x1)) else Some x1))"

definition lan_comm_get_last_error :: "lan_h option \<Rightarrow> lan_comm_status" where
  "lan_comm_get_last_error h = (case h of None \<Rightarrow> LAN_COMM_ERR_INVALID_ARG | Some x \<Rightarrow> last_error x)"

definition lan_comm_get_statistics :: "lan_h option \<Rightarrow> lan_comm_status \<times> (u32 \<times> u32) option" where
  "lan_comm_get_statistics h =
     (if \<not> lan_ready h then (LAN_COMM_ERR_NOT_INITIALIZED, None)
      else (LAN_COMM_OK, Some (packets_received (the h), error_count (the h))))"

definition lan_comm_clear_statistics :: "lan_h option \<Rightarrow> lan_comm_status \<times> lan_h option" where
  "lan_comm_clear_statistics h =
     (if \<not> lan_ready h then (LAN_COMM_ERR_NOT_INITIALIZED, h)
      else (LAN_COMM_OK, Some ((the h)\<lparr>packets_received := 0, packets_sent := 0, error_count := 0\<rparr>)))"

section \<open>What the parser accepts\<close>

lemma skip_zeros_drop: "drop (skip_zeros buf) buf = dropWhile (\<lambda>b. b = 0) buf"
  by (induction buf) simp_all

lemma skip_zeros_le: "skip_zeros buf \<le> length buf"
  by (induction buf) simp_all

lemma skip_zeros_length: "length buf - skip_zeros buf = length (dropWhile (\<lambda>b. b = 0) buf)"
  by (metis length_drop skip_zeros_drop)

lemma nth_skip_zeros:
  assumes "skip_zeros buf + k < length buf"
  shows "buf ! (skip_zeros buf + k) = dropWhile (\<lambda>b. b = 0) buf ! k"
  using assms skip_zeros_le [of buf] by (simp flip: skip_zeros_drop)

text \<open>A frame proper: it starts with a known header and is no polling pattern.\<close>

definition frame_header :: "u8 list \<Rightarrow> u16" where
  "frame_header f = be16 (f ! 0) (f ! 1)"

definition is_frame :: "u8 list \<Rightarrow> bool" where
  "is_frame f \<longleftrightarrow> 2 \<le> length f \<and> f ! 0 \<noteq> 0 \<and> known_header (frame_header f) \<and>
     \<not> (frame_header f = HEADER_CF \<and> list_all (\<lambda>b. b = 0) (take 10 (drop 2 f)))"

definition packet_of :: "u8 list \<Rightarrow> lan_packet" where
  "packet_of f = \<lparr>header_type = frame_header f, payload = f, payload_length = word_of_nat (length f)\<rparr>"

lemma dropWhile_hd_nonzero:
  "dropWhile (\<lambda>b. b = (0 :: u8)) buf \<noteq> [] \<Longrightarrow> dropWhile (\<lambda>b. b = 0) buf ! 0 \<noteq> 0"
  using hd_dropWhile [of "\<lambda>b. b = (0 :: u8)" buf] by (simp add: hd_conv_nth)

lemma parse_frame_eq:
  assumes "2 \<le> length buf"
  defines "f \<equiv> dropWhile (\<lambda>b. b = 0) buf"
  shows "lan_comm_parse_frame buf =
    (if length f < 2 then (LAN_COMM_ERR_NO_DATA, None)
     else if frame_header f = 0 then (LAN_COMM_ERR_NO_DATA, None)
     else if frame_header f = HEADER_CF \<and> list_all (\<lambda>b. b = 0) (take 10 (drop 2 f))
     then (LAN_COMM_ERR_NO_DATA, None)
     else if \<not> known_header (frame_header f) then (LAN_COMM_ERR_INVALID_HEADER, None)
     else (LAN_COMM_OK, Some (packet_of f, length f)))"
proof -
  let ?o = "skip_zeros buf"
  have len: "length f = length buf - ?o" by (simp add: f_def flip: skip_zeros_length)
  have f: "drop ?o buf = f" by (simp add: f_def skip_zeros_drop)
  have "drop (?o + 2) buf = drop 2 f" by (simp add: add.commute flip: f)
  moreover have "buf ! ?o = f ! 0" "buf ! (?o + 1) = f ! 1" if "\<not> length f < 2"
    using that nth_skip_zeros [of buf 0] nth_skip_zeros [of buf 1] len by (simp_all add: f_def)
  moreover have "?o \<ge> length buf \<or> length buf - ?o < 2 \<longleftrightarrow> length f < 2" using len by linarith
  ultimately show ?thesis
    using assms(1) unfolding lan_comm_parse_frame_def Let_def frame_header_def packet_of_def
    by (simp add: len [symmetric] f)
qed

text \<open>
  C36. The frame parser accepts exactly the frames. On any buffer of at least two bytes,
  \<open>lan_comm_parse_frame\<close> succeeds if and only if what follows the leading zero bytes starts
  with one of the four known headers and is not a polling pattern (a CF header with only zeros in
  the ten bytes after it); it then returns the rest of the buffer, header included, with its
  length, and on failure it returns no packet.
\<close>

theorem parse_frame_exact:
  assumes "2 \<le> length buf"
  shows "let f = dropWhile (\<lambda>b. b = 0) buf in
     lan_comm_parse_frame buf = (LAN_COMM_OK, Some (packet_of f, length f)) \<and> is_frame f \<or>
     fst (lan_comm_parse_frame buf) \<in> {LAN_COMM_ERR_NO_DATA, LAN_COMM_ERR_INVALID_HEADER} \<and>
     snd (lan_comm_parse_frame buf) = None \<and> \<not> is_frame f"
proof -
  let ?f = "dropWhile (\<lambda>b. b = 0) buf"
  have "?f ! 0 \<noteq> 0" if "2 \<le> length ?f"
    using that by (intro dropWhile_hd_nonzero) (metis list.size(3) not_numeral_le_zero)
  moreover have "\<not> known_header 0" by (simp add: known_header_def)
  ultimately show ?thesis
    unfolding Let_def parse_frame_eq [OF assms]
    by (cases "length ?f < 2"; cases "frame_header ?f = 0")
       (auto simp: is_frame_def)
qed

theorem parse_frame_exact_witness:
  "\<exists>p. lan_comm_parse_frame [0, 0, 0x44, 0x54, 0x01, 0x00] = (LAN_COMM_OK, Some (p, 4)) \<and>
     payload p = [0x44, 0x54, 0x01, 0x00]"
proof -
  have "is_frame [0x44, 0x54, 0x01, 0x00]"
    by (simp add: is_frame_def frame_header_def known_header_def) code_simp
  with parse_frame_exact [of "[0, 0, 0x44, 0x54, 0x01, 0x00]"] show ?thesis
    by (simp add: packet_of_def Let_def)
qed

section \<open>The buffers\<close>

definition lan_inv :: "lan_h option \<Rightarrow> bool" where
  "lan_inv h \<longleftrightarrow> (case h of None \<Rightarrow> True
     | Some x \<Rightarrow> lan_initialized x \<and> length (rx_buffer x) = rx_buffer_size x \<and>
         length (tx_buffer x) = tx_buffer_size x \<and> tx_buffer_len x \<le> tx_buffer_size x \<and>
         0 < rx_buffer_size x \<and> 0 < tx_buffer_size x)"

text \<open>The events on the link: operations of this file with what the environment decides.\<close>

datatype lan_event =
    EvQueue bool bool | EvGet spi_result | EvLoad bool "u8 list option" | EvSignal | EvClear

fun lan_event_ok :: "lan_event \<Rightarrow> nat \<Rightarrow> bool" where
  "lan_event_ok (EvGet (SpiDone bs)) n \<longleftrightarrow> length bs \<le> n"
| "lan_event_ok e n \<longleftrightarrow> True"

definition lan_step :: "lan_event \<Rightarrow> lan_h option \<Rightarrow> lan_h option" where
  "lan_step e h = (case e of
     EvQueue free ok \<Rightarrow> snd (lan_comm_queue_receive free ok h)
   | EvGet res \<Rightarrow> (case h of
         Some x \<Rightarrow> if lan_event_ok e (rx_buffer_size x)
                   then snd (snd (lan_comm_get_received_packet res h)) else h
       | None \<Rightarrow> None)
   | EvLoad free dat \<Rightarrow> snd (lan_comm_load_tx_data free dat h)
   | EvSignal \<Rightarrow> snd (lan_comm_signal_data_ready h)
   | EvClear \<Rightarrow> snd (lan_comm_clear_statistics h))"

lemmas lan_defs = lan_comm_queue_receive_def lan_comm_load_tx_data_def
  lan_comm_signal_data_ready_def lan_comm_clear_statistics_def lan_comm_report_error_def

lemma get_received_inv:
  assumes "lan_inv (Some x)" and "lan_event_ok (EvGet res) (rx_buffer_size x)"
  shows "lan_inv (snd (snd (lan_comm_get_received_packet res (Some x))))"
proof (cases res)
  case (SpiDone bs)
  obtain st out where "lan_comm_parse_frame (take (length bs) (bs @ drop (length bs) (rx_buffer x))) =
      (st, out)" by fastforce
  with SpiDone assms show ?thesis
    by (auto simp: lan_comm_get_received_packet_def lan_inv_def lan_ready_def Let_def
        lan_comm_report_error_def)
qed (use assms in \<open>auto simp: lan_comm_get_received_packet_def lan_inv_def lan_ready_def Let_def
        lan_comm_report_error_def\<close>)

lemma lan_step_inv: "lan_inv h \<Longrightarrow> lan_inv (lan_step e h)"
proof (cases h)
  case (Some x)
  assume inv: "lan_inv h"
  show ?thesis
  proof (cases e)
    case (EvGet res)
    with Some inv get_received_inv [of x res] show ?thesis by (simp add: lan_step_def)
  qed (use Some inv in \<open>auto simp: lan_step_def lan_defs lan_inv_def lan_ready_def Let_def
         split: option.splits\<close>)
qed (auto simp: lan_step_def lan_defs lan_inv_def lan_ready_def split: lan_event.splits)

interpretation lan: invariant_step lan_step lan_inv
  by unfold_locales (rule lan_step_inv)

text \<open>
  The link never loses its buffers. In every run of receive, send, signal and statistics
  calls on an initialised handle, whatever the peripheral answers and whatever bytes arrive (never
  more than a transaction holds), both DMA buffers keep their configured sizes, the handle stays
  initialised, and the length of the loaded frame stays within the buffer.
\<close>

lemma lan_buffers_invariant:
  assumes "lan_comm_init env (Some cfg) = (LAN_COMM_OK, h)"
  shows "\<exists>x. fold lan_step evs h = Some x \<and> lan_initialized x \<and>
    length (rx_buffer x) = rx_buffer_size x \<and> length (tx_buffer x) = tx_buffer_size x \<and>
    tx_buffer_len x \<le> tx_buffer_size x"
proof -
  from assms have "lan_inv h" and Some: "h \<noteq> None"
    by (auto simp: lan_comm_init_def lan_inv_def Let_def split: if_splits)
  then have "lan_inv (fold lan_step evs h)" by (intro lan.run_inv)
  moreover have "fold lan_step evs h \<noteq> None"
    using Some
  proof (induction evs arbitrary: h)
    case (Cons e evs)
    have "lan_step e h \<noteq> None"
      using Cons.prems
      by (cases e) (auto simp: lan_step_def lan_defs lan_comm_get_received_packet_def Let_def
          split: option.splits spi_result.splits prod.splits if_splits)
    then show ?case by (simp add: Cons.IH)
  qed simp
  ultimately show ?thesis by (auto simp: lan_inv_def)
qed

definition demo_lan_cfg :: lan_cfg where
  "demo_lan_cfg = \<lparr>cfg_rx_size = 0, cfg_tx_size = 16, cfg_data_ready = 8, cfg_auto_signal = False\<rparr>"

definition demo_lan_env :: lan_init_env where
  "demo_lan_env = \<lparr>alloc_ok = True, spi_ok = True, gpio_ok = True\<rparr>"

lemma lan_buffers_invariant_applied:
  "\<exists>x. fold lan_step [EvQueue True True, EvGet (SpiDone [0x44, 0x54, 1])]
         (snd (lan_comm_init demo_lan_env (Some demo_lan_cfg))) = Some x \<and>
     length (rx_buffer x) = rx_buffer_size x"
  using lan_buffers_invariant [of demo_lan_env demo_lan_cfg
      "snd (lan_comm_init demo_lan_env (Some demo_lan_cfg))"
      "[EvQueue True True, EvGet (SpiDone [0x44, 0x54, 1])]"]
  by (auto simp: lan_comm_init_def demo_lan_env_def demo_lan_cfg_def Let_def)

section \<open>The sending interface\<close>

text \<open>What a client of the link relies on: \<open>wire\<close> is what the master will clock out.\<close>

locale tx_port =
  fixes load :: "bool \<Rightarrow> u8 list option \<Rightarrow> 'h \<Rightarrow> lan_comm_status \<times> 'h"
    and wire :: "'h \<Rightarrow> u8 list"
    and cap :: "'h \<Rightarrow> nat"
    and ok :: "'h \<Rightarrow> bool"
  assumes accept: "ok h \<Longrightarrow> bs \<noteq> [] \<Longrightarrow> length bs \<le> cap h \<Longrightarrow> fst (load True (Some bs) h) = LAN_COMM_OK"
    and sent: "ok h \<Longrightarrow> load free (Some bs) h = (LAN_COMM_OK, h1) \<Longrightarrow>
      length bs \<le> cap h \<and> wire h1 = bs @ replicate (cap h - length bs) 0"
    and kept: "load free dat h = (st, h1) \<Longrightarrow> st \<noteq> LAN_COMM_OK \<Longrightarrow> wire h1 = wire h"
    and ok_load: "ok h \<Longrightarrow> ok (snd (load free dat h))"
    and cap_load: "cap (snd (load free dat h)) = cap h"
begin

lemma sent_prefix:
  "ok h \<Longrightarrow> load free (Some bs) h = (LAN_COMM_OK, h1) \<Longrightarrow> take (length bs) (wire h1) = bs"
  using sent by fastforce

lemma overwritten:
  assumes "ok h" and "load free1 (Some bs1) h = (st1, h1)" and "load free2 (Some bs2) h1 = (LAN_COMM_OK, h2)"
  shows "wire h2 = bs2 @ replicate (cap h - length bs2) 0"
proof -
  have "ok h1" "cap h1 = cap h"
    using ok_load [OF assms(1), of free1 "Some bs1"] cap_load [of free1 "Some bs1" h]
    by (simp_all add: assms(2))
  with sent [OF \<open>ok h1\<close> assms(3)] show ?thesis by simp
qed

end

definition tx_wire :: "lan_h option \<Rightarrow> u8 list" where
  "tx_wire h = (case h of None \<Rightarrow> [] | Some x \<Rightarrow> tx_buffer x)"

definition tx_cap :: "lan_h option \<Rightarrow> nat" where
  "tx_cap h = (case h of None \<Rightarrow> 0 | Some x \<Rightarrow> tx_buffer_size x)"

interpretation lan_tx: tx_port lan_comm_load_tx_data tx_wire tx_cap lan_ready
proof unfold_locales
  show "fst (lan_comm_load_tx_data True (Some bs) h) = LAN_COMM_OK"
    if "lan_ready h" "bs \<noteq> []" "length bs \<le> tx_cap h" for h bs
    using that by (cases h) (auto simp: lan_defs tx_cap_def Let_def)
  show "length bs \<le> tx_cap h \<and> tx_wire h1 = bs @ replicate (tx_cap h - length bs) 0"
    if "lan_ready h" "lan_comm_load_tx_data free (Some bs) h = (LAN_COMM_OK, h1)" for h free bs h1
    using that by (cases h) (auto simp: lan_defs tx_cap_def tx_wire_def lan_ready_def Let_def split: if_splits)
  show "tx_wire h1 = tx_wire h"
    if "lan_comm_load_tx_data free dat h = (st, h1)" "st \<noteq> LAN_COMM_OK" for free dat h st h1
    using that by (cases h) (auto simp: lan_defs tx_wire_def lan_ready_def Let_def split: option.splits if_splits)
  show "lan_ready (snd (lan_comm_load_tx_data free dat h))" if "lan_ready h" for free dat h
    using that by (cases h) (auto simp: lan_defs lan_ready_def Let_def split: option.splits)
  show "tx_cap (snd (lan_comm_load_tx_data free dat h)) = tx_cap h" for free dat h
    by (cases h) (auto simp: lan_defs tx_cap_def lan_ready_def Let_def split: option.splits)
qed

text \<open>
  C38. What is sent is what is received. A frame accepted by \<open>lan_comm_load_tx_data\<close> and
  clocked over to a receiver running the same parser comes out as itself, padded with the rest of
  the buffer's zeros; the newest accepted frame replaces an older one completely.
\<close>

theorem lan_loopback:
  assumes "lan_ready h" and "is_frame bs"
    and "lan_comm_load_tx_data free1 (Some old) h = (st, h1)"
    and "lan_comm_load_tx_data free2 (Some bs) h1 = (LAN_COMM_OK, h2)"
  shows "\<exists>p n. lan_comm_parse_frame (tx_wire h2) = (LAN_COMM_OK, Some (p, n)) \<and>
    payload p = bs @ replicate (tx_cap h - length bs) 0 \<and> header_type p = frame_header bs"
proof -
  let ?f = "bs @ replicate (tx_cap h - length bs) (0 :: u8)"
  have wire: "tx_wire h2 = ?f" by (rule lan_tx.overwritten [OF assms(1,3,4)])
  have len: "2 \<le> length bs" and nz: "bs ! 0 \<noteq> 0" using assms(2) by (auto simp: is_frame_def)
  then obtain b bs' where bs: "bs = b # bs'" "b \<noteq> 0" by (cases bs) auto
  have drop: "dropWhile (\<lambda>b. b = 0) ?f = ?f" by (simp add: bs)
  have hd: "frame_header ?f = frame_header bs"
    using len by (auto simp: frame_header_def nth_append)
  have "is_frame ?f"
    using assms(2) len nz unfolding is_frame_def hd
    by (auto simp: nth_append list_all_append)
  then have "lan_comm_parse_frame ?f = (LAN_COMM_OK, Some (packet_of ?f, length ?f))"
    using len parse_frame_eq [of ?f] unfolding drop
    by (auto simp: is_frame_def known_header_def)
  with hd show ?thesis by (simp add: wire packet_of_def)
qed

theorem lan_loopback_witness:
  "let h = snd (lan_comm_init demo_lan_env (Some demo_lan_cfg));
       h1 = snd (lan_comm_load_tx_data True (Some [9, 9, 9, 9, 9]) h);
       h2 = snd (lan_comm_load_tx_data True (Some [0x44, 0x51, 7]) h1)
   in \<exists>p n. lan_comm_parse_frame (tx_wire h2) = (LAN_COMM_OK, Some (p, n)) \<and>
        header_type p = HEADER_DQ"
proof -
  let ?h = "snd (lan_comm_init demo_lan_env (Some demo_lan_cfg))"
  let ?h1 = "snd (lan_comm_load_tx_data True (Some [9, 9, 9, 9, 9]) ?h)"
  have "is_frame [0x44, 0x51, 7]" "frame_header [0x44, 0x51, 7] = HEADER_DQ"
    by (simp_all add: is_frame_def frame_header_def known_header_def) (code_simp+)
  moreover have ready: "lan_ready ?h" "lan_ready ?h1" "tx_cap ?h1 = 16"
    by (simp_all add: lan_comm_init_def demo_lan_env_def demo_lan_cfg_def Let_def lan_ready_def
        lan_defs tx_cap_def)
  moreover have "fst (lan_comm_load_tx_data True (Some [0x44, 0x51, 7]) ?h1) = LAN_COMM_OK"
    using ready by (intro lan_tx.accept) simp_all
  ultimately show ?thesis
    using lan_loopback [OF ready(1), of "[0x44, 0x51, 7]" True "[9, 9, 9, 9, 9]" _ ?h1 True]
    by (force simp: Let_def prod_eq_iff)
qed

section \<open>The buffer scan\<close>

lemma parse_dma_frame:
  assumes "is_frame f"
  shows "lan_comm_parse_dma_buffer (replicate k 0 @ f) =
    packet_of f # lan_comm_parse_dma_buffer (drop (length f) (replicate k 0 @ f))"
proof -
  have len: "2 \<le> length f" and nz: "f ! 0 \<noteq> 0" using assms by (auto simp: is_frame_def)
  then obtain b f' where f: "f = b # f'" "b \<noteq> 0" by (cases f) auto
  have drop: "dropWhile (\<lambda>b. b = 0) (replicate k 0 @ f) = f" using f by (induction k) simp_all
  have "lan_comm_parse_frame (replicate k 0 @ f) = (LAN_COMM_OK, Some (packet_of f, length f))"
    using assms len parse_frame_eq [of "replicate k 0 @ f"] unfolding drop
    by (auto simp: is_frame_def known_header_def)
  with len show ?thesis by (subst lan_comm_parse_dma_buffer.simps) (auto simp: f)
qed

text \<open>
  The scan of a DMA buffer delivers a frame that starts the buffer exactly once; but
  when zero bytes precede the frame, it steps over the frame's length only and scans that many
  last bytes of the frame again, so that a payload ending in a frame of its own is delivered
  twice.
\<close>

lemma parse_dma_rescans_tail:
  assumes "is_frame f"
  shows "lan_comm_parse_dma_buffer f = [packet_of f] \<and>
    (k \<le> length f \<longrightarrow> lan_comm_parse_dma_buffer (replicate k 0 @ f) =
       packet_of f # lan_comm_parse_dma_buffer (drop (length f - k) f))"
proof
  have nil: "lan_comm_parse_dma_buffer [] = []" by (subst lan_comm_parse_dma_buffer.simps) simp
  show "lan_comm_parse_dma_buffer f = [packet_of f]"
    using parse_dma_frame [OF assms, of 0] nil by simp
  show "k \<le> length f \<longrightarrow> lan_comm_parse_dma_buffer (replicate k 0 @ f) =
       packet_of f # lan_comm_parse_dma_buffer (drop (length f - k) f)"
    using parse_dma_frame [OF assms, of k] by simp
qed

text \<open>Two zeros, then a data frame whose payload ends in "DQ": a second packet appears.\<close>

lemma parse_dma_rescans_tail_applied:
  "lan_comm_parse_dma_buffer [0, 0, 0x44, 0x54, 0x01, 0x44, 0x51] =
     [packet_of [0x44, 0x54, 0x01, 0x44, 0x51], packet_of [0x44, 0x51]]"
proof -
  have f: "is_frame [0x44, 0x54, 0x01, 0x44, 0x51]" "is_frame [0x44, 0x51]"
    by (simp_all add: is_frame_def frame_header_def known_header_def) (code_simp+)
  show ?thesis
    using parse_dma_rescans_tail [OF f(1), of 2] parse_dma_frame [OF f(2), of 0]
    by (simp add: numeral_2_eq_2 lan_comm_parse_dma_buffer.simps [of "[]"])
qed

end
