(* ===== verification/Lan_Downlink.thy ===== *)
theory Lan_Downlink
  imports Lan_Comm PCF8563
begin

text \<open>
  \<open>Application/MCU_LAN_Handler/src/mcu_lan_handler_downlink.c\<close>: the side of the LAN handler
  that other tasks call. \<open>lan_app\<close> holds the globals of this file and of
  \<open>mcu_lan_handler_uplink.c\<close>, which shares them; \<open>outs\<close> is the log of calls into other
  parts of the gateway and of levels put on the data-ready line. What the environment decides
  inside a call (a mutex or an allocation granted, a receive result, the tick count, the time of
  day) is the record \<open>lan_env\<close>. A FreeRTOS queue is a list with its capacity.
\<close>

abbreviation "DOWNLINK_QUEUE_SIZE \<equiv> 20 :: nat"
abbreviation "CONFIG_CACHE_SIZE \<equiv> 16384 :: nat"

datatype config_req_state =
    CONFIG_REQ_STATE_IDLE | CONFIG_REQ_STATE_WAIT_DQ_FOR_CFCQ | CONFIG_REQ_STATE_WAIT_CONFIG_RESP

datatype command_source =
    CMD_SOURCE_MQTT | CMD_SOURCE_UART | CMD_SOURCE_USB | CMD_SOURCE_HTTP | CMD_SOURCE_COAP
  | CMD_SOURCE_HTTP_RPC | CMD_SOURCE_UNKNOWN

text \<open>\<open>length\<close> of the C structs is the length of the list.\<close>

type_synonym downlink_item = "handler_id \<times> u8 list"

record config_cache =
  config_data :: "u8 list"
  has_config :: bool
  is_fota :: bool
  cmd_source :: command_source
  result_waiter :: "nat option"

record config_request =
  response_buffer :: "u8 list"
  response_len :: u16
  buffer_size :: u16
  completion_given :: bool
  req_result :: esp_err

datatype lan_out =
    OutGpio bool | OutUart "u8 list" | OutUsb "u8 list" | OutUplink "u8 list"
  | OutPublish command_source "nat option" "u8 list"
  | OutFotaApStart | OutFotaApStop | OutFotaTaskStart | OutServerStop | OutUplinkStart | OutUplinkStop

record lan_app =
  g_lan_handle :: "lan_h option"
  g_handler_running :: bool
  g_internet_status :: internet_status
  g_downlink_queue :: "downlink_item list option"
  g_config_mutex :: bool
  g_config_cache :: config_cache
  g_config_cache_has_config :: bool
  g_fota_request_pending :: bool
  g_pending_downlink :: downlink_item
  g_pending_downlink_valid :: bool
  g_config_req_state :: config_req_state
  g_active_config_request_ptr :: bool    \<comment> \<open>not NULL: it points to the request below\<close>
  g_active_config_request_valid :: bool
  g_config_req_async :: "config_request option"
  g_cached_lan_fw_version :: u32
  g_cached_wan_fw_version :: u32
  g_waiting_for_lan_update :: bool
  g_wan_fota_in_progress :: bool
  g_fota_start_sem :: "bool option"      \<comment> \<open>exists, and whether it has been given\<close>
  g_uplink_task_handle :: bool
  g_fota_task_handle :: bool
  g_fota_pending :: bool
  g_fota_trigger_pending :: bool
  g_fota_pending_internet :: bool
  g_pending_lan_version_for_fota :: u32
  g_prev_internet_status :: internet_status
  g_lan_fota_wait_start_tick :: u32
  rtc_cache :: "(u8 list) option"        \<comment> \<open>the string when valid\<close>
  rtc_mutex :: bool
  outs :: "lan_out list"

record lan_env =
  cfg_free :: bool                       \<comment> \<open>g_config_mutex taken in time\<close>
  src_free :: bool                       \<comment> \<open>the same, when the command source is read\<close>
  waiter_free :: bool                    \<comment> \<open>the same, when the waiter is taken\<close>
  load_free :: bool                      \<comment> \<open>buffer mutex taken in lan_comm_load_tx_data\<close>
  rxq_free :: bool                       \<comment> \<open>buffer mutex taken in lan_comm_queue_receive\<close>
  rxq_ok :: bool                         \<comment> \<open>spi_slave_queue_trans succeeded\<close>
  rx :: spi_result
  ack_rx :: "(bool \<times> bool \<times> spi_result) list"  \<comment> \<open>the same three for the ACK waits\<close>
  malloc_ok :: bool
  io_ok :: bool                          \<comment> \<open>uart_write_bytes or its USB twin wrote the bytes\<close>
  queue_room_ok :: bool                  \<comment> \<open>room (if there is none) appeared within 100 ms\<close>
  tick :: u32
  ap_running :: bool                     \<comment> \<open>fota_ap_is_running\<close>
  local_time :: tm                       \<comment> \<open>localtime_r of the current time\<close>
  beyond :: "nat \<Rightarrow> u8"                  \<comment> \<open>memory after the received payload\<close>

definition out :: "lan_out list \<Rightarrow> lan_app \<Rightarrow> lan_app" where
  "out os g = g\<lparr>outs := outs g @ os\<rparr>"

definition load_tx :: "bool \<Rightarrow> u8 list \<Rightarrow> lan_app \<Rightarrow> lan_app" where
  "load_tx free bs g =
     g\<lparr>g_lan_handle := snd (lan_comm_load_tx_data free (Some bs) (g_lan_handle g))\<rparr>"

section \<open>The data-ready line and the responses\<close>

definition signal_data_ready :: "lan_app \<Rightarrow> lan_app" where
  "signal_data_ready g = out [OutGpio False, OutGpio True] g"

definition clear_data_ready :: "lan_app \<Rightarrow> lan_app" where
  "clear_data_ready g = out [OutGpio False] g"

text \<open>\<open>%0wd\<close>: decimal, padded with zeros to the width.\<close>

definition pad0 :: "nat \<Rightarrow> string \<Rightarrow> string" where
  "pad0 w s = replicate (w - length s) (CHR ''0'') @ s"

definition fmt_0d :: "nat \<Rightarrow> int \<Rightarrow> string" where
  "fmt_0d w i = (if i < 0 then CHR ''-'' # pad0 (w - 1) (dec_digits (nat (- i)))
                 else pad0 w (dec_digits (nat i)))"

definition rtc_text :: "tm \<Rightarrow> string" where
  "rtc_text t =
     (let y0 = tm_year t + 1900;
          year = (if y0 > 9999 then 9999 else if y0 < 2000 then 2000 else y0)
      in fmt_0d 2 (tm_mday t) @ ''/'' @ fmt_0d 2 (tm_mon t + 1) @ ''/'' @ fmt_0d 4 year @ ''-'' @
         fmt_0d 2 (tm_hour t) @ '':'' @ fmt_0d 2 (tm_min t) @ '':'' @ fmt_0d 2 (tm_sec t))"

text \<open>\<open>snprintf\<close> into the 20 bytes: at most 19 characters and a NUL. The text is never
  shorter than 19 characters, so every byte is written.\<close>

definition rtc_response :: "tm \<Rightarrow> internet_status \<Rightarrow> u8 list" where
  "rtc_response t st = ascii ''RT'' @ ascii (take 19 (rtc_text t)) @ [0] @ [internet_code st]"

definition downlink_send_rtc_response :: "lan_env \<Rightarrow> lan_app \<Rightarrow> lan_app" where
  "downlink_send_rtc_response env g =
     load_tx (load_free env) (rtc_response (local_time env) (g_internet_status g)) g"

definition downlink_send_ack_to_lan :: "lan_env \<Rightarrow> ack_type \<Rightarrow> u8 \<Rightarrow> lan_app \<Rightarrow> lan_app" where
  "downlink_send_ack_to_lan env ack flag g = load_tx (load_free env) [0x02, ack_code ack, flag] g"

definition config_packet :: "u8 list \<Rightarrow> u8 list" where
  "config_packet cfg =
     (let n = (word_of_nat (length cfg) :: u16) in [hi8 HEADER_CF, lo8 HEADER_CF, hi8 n, lo8 n] @ cfg)"

text \<open>The load's result is not looked at: the cache counts as delivered in any case.\<close>

definition downlink_handle_config_request :: "lan_env \<Rightarrow> lan_app \<Rightarrow> lan_app" where
  "downlink_handle_config_request env g =
     (if \<not> cfg_free env then g
      else if \<not> has_config (g_config_cache g) then g
      else if \<not> malloc_ok env then g
      else
        let g1 = load_tx (load_free env) (config_packet (config_data (g_config_cache g))) g
        in g1\<lparr>g_config_cache := (g_config_cache g1)\<lparr>has_config := False\<rparr>,
              g_config_cache_has_config := False\<rparr>)"

section \<open>Public operations\<close>

definition mcu_lan_handler_set_internet_status :: "internet_status \<Rightarrow> lan_app \<Rightarrow> lan_app" where
  "mcu_lan_handler_set_internet_status st g =
     (if g_internet_status g \<noteq> st then g\<lparr>g_internet_status := st\<rparr> else g)"

text \<open>\<open>dat = None\<close> is NULL. \<open>xQueueSend\<close> waits 100 ms for room; only a receiver could
  make some.\<close>

definition mcu_lan_enqueue_downlink ::
  "bool \<Rightarrow> handler_id \<Rightarrow> u8 list option \<Rightarrow> lan_app \<Rightarrow> bool \<times> lan_app" where
  "mcu_lan_enqueue_downlink room target dat g =
     (case (g_downlink_queue g, dat) of
        (Some q, Some bs) \<Rightarrow>
          if bs = [] then (False, g)
          else if length bs > INTER_MCU_PAYLOAD_MAX_LEN then (False, g)
          else if length q \<ge> DOWNLINK_QUEUE_SIZE \<and> \<not> room then (False, g)
          else
            (True, signal_data_ready
                     (g\<lparr>g_downlink_queue := Some (q @ [(target, bs)]),
                        g_pending_downlink := (target, bs), g_pending_downlink_valid := True\<rparr>))
      | _ \<Rightarrow> (False, g))"

definition mcu_lan_handler_update_config ::
  "lan_env \<Rightarrow> u8 list option \<Rightarrow> bool \<Rightarrow> command_source \<Rightarrow> nat option \<Rightarrow> lan_app \<Rightarrow> bool \<times> lan_app" where
  "mcu_lan_handler_update_config env cfg fota source waiter g =
     (if \<not> cfg_free env then (False, g)
      else case cfg of
        None \<Rightarrow> (False, g)
      | Some bs \<Rightarrow>
          if bs \<noteq> [] \<and> length bs \<le> CONFIG_CACHE_SIZE
          then (True, signal_data_ready
                  (g\<lparr>g_config_cache := \<lparr>config_data = bs, has_config = True, is_fota = fota,
                       cmd_source = source, result_waiter = waiter\<rparr>,
                     g_config_cache_has_config := True,
                     g_fota_request_pending := (if fota then True else g_fota_request_pending g)\<rparr>))
          else (False, g))"

definition mcu_lan_handler_get_config_source :: "lan_env \<Rightarrow> lan_app \<Rightarrow> command_source" where
  "mcu_lan_handler_get_config_source env g =
     (if src_free env then cmd_source (g_config_cache g) else CMD_SOURCE_UNKNOWN)"

definition mcu_lan_handler_take_config_result_waiter ::
  "lan_env \<Rightarrow> lan_app \<Rightarrow> nat option \<times> lan_app" where
  "mcu_lan_handler_take_config_result_waiter env g =
     (if waiter_free env
      then (result_waiter (g_config_cache g),
            g\<lparr>g_config_cache := (g_config_cache g)\<lparr>result_waiter := None\<rparr>\<rparr>)
      else (None, g))"

text \<open>\<open>mcu_lan_handler_request_config_async\<close> blocks between its two halves: \<open>begin\<close>
  registers the request (\<open>buf\<close> and \<open>have_len\<close>: the pointers are not NULL), \<open>end\<close> is
  reached when the semaphore was given or the time is up.\<close>

definition request_config_begin ::
  "lan_env \<Rightarrow> bool \<Rightarrow> u8 list option \<Rightarrow> bool \<Rightarrow> u16 \<Rightarrow> lan_app \<Rightarrow> (esp_err option) \<times> lan_app" where
  "request_config_begin env sem_ok buf have_len max_len g =
     (if buf = None \<or> \<not> have_len then (Some ESP_ERR_INVALID_ARG, g)
      else if g_active_config_request_valid g then (Some ESP_ERR_INVALID_STATE, g)
      else if \<not> malloc_ok env \<or> \<not> sem_ok then (Some ESP_ERR_NO_MEM, g\<lparr>g_config_req_async := None\<rparr>)
      else
        (None, signal_data_ready
           (g\<lparr>g_config_req_async := Some \<lparr>response_buffer = the buf, response_len = 0,
                buffer_size = max_len, completion_given = False, req_result = ESP_FAIL\<rparr>,
              g_active_config_request_ptr := True, g_active_config_request_valid := True,
              g_config_req_state := CONFIG_REQ_STATE_WAIT_DQ_FOR_CFCQ\<rparr>)))"

definition request_config_end :: "lan_app \<Rightarrow> esp_err \<times> lan_app" where
  "request_config_end g =
     (let (result, g1) =
            (case g_config_req_async g of
               Some r \<Rightarrow> if completion_given r then (req_result r, g)
                         else (ESP_ERR_TIMEOUT, clear_data_ready g)
             | None \<Rightarrow> (ESP_ERR_TIMEOUT, clear_data_ready g))
      in (result, g1\<lparr>g_config_req_async := None, g_active_config_request_valid := False,
                     g_active_config_request_ptr := False,
                     g_config_req_state := CONFIG_REQ_STATE_IDLE\<rparr>))"

definition mcu_lan_handler_get_internet_status :: "lan_app \<Rightarrow> internet_status" where
  "mcu_lan_handler_get_internet_status g = g_internet_status g"

section \<open>What the other side reads\<close>

lemma load_tx_fields [simp, gw_frame]:
  "g_config_cache (load_tx free bs g) = g_config_cache g"
  "g_config_cache_has_config (load_tx free bs g) = g_config_cache_has_config g"
  "g_downlink_queue (load_tx free bs g) = g_downlink_queue g"
  "g_pending_downlink_valid (load_tx free bs g) = g_pending_downlink_valid g"
  "g_wan_fota_in_progress (load_tx free bs g) = g_wan_fota_in_progress g"
  "g_waiting_for_lan_update (load_tx free bs g) = g_waiting_for_lan_update g"
  "g_fota_request_pending (load_tx free bs g) = g_fota_request_pending g"
  "g_fota_trigger_pending (load_tx free bs g) = g_fota_trigger_pending g"
  "g_fota_pending (load_tx free bs g) = g_fota_pending g"
  "g_internet_status (load_tx free bs g) = g_internet_status g"
  "outs (load_tx free bs g) = outs g"
  by (simp_all add: load_tx_def)

lemma out_fields [simp, gw_frame]:
  "g_lan_handle (out os g) = g_lan_handle g"
  "g_config_cache (out os g) = g_config_cache g"
  "g_config_cache_has_config (out os g) = g_config_cache_has_config g"
  "g_downlink_queue (out os g) = g_downlink_queue g"
  "g_pending_downlink_valid (out os g) = g_pending_downlink_valid g"
  "g_wan_fota_in_progress (out os g) = g_wan_fota_in_progress g"
  "g_waiting_for_lan_update (out os g) = g_waiting_for_lan_update g"
  "g_fota_request_pending (out os g) = g_fota_request_pending g"
  "g_fota_trigger_pending (out os g) = g_fota_trigger_pending g"
  "g_fota_pending (out os g) = g_fota_pending g"
  "g_internet_status (out os g) = g_internet_status g"
  "outs (out os g) = outs g @ os"
  by (simp_all add: out_def)

abbreviation app_wire :: "lan_app \<Rightarrow> u8 list" where
  "app_wire g \<equiv> tx_wire (g_lan_handle g)"

lemma load_tx_accepted:
  assumes "lan_ready (g_lan_handle g)" and "bs \<noteq> []" and "length bs \<le> tx_cap (g_lan_handle g)"
  shows "app_wire (load_tx True bs g) =
    bs @ replicate (tx_cap (g_lan_handle g) - length bs) 0"
  using lan_tx.sent [OF assms(1), of True bs] lan_tx.accept [OF assms]
  by (simp add: load_tx_def prod_eq_iff)

lemma load_tx_too_long:
  assumes "tx_cap (g_lan_handle g) < length bs"
  shows "app_wire (load_tx free bs g) = app_wire g"
proof -
  have "fst (lan_comm_load_tx_data free (Some bs) (g_lan_handle g)) \<noteq> LAN_COMM_OK"
    using assms by (cases "g_lan_handle g") (auto simp: lan_defs tx_cap_def lan_ready_def Let_def)
  then show ?thesis using lan_tx.kept by (simp add: load_tx_def prod_eq_iff)
qed

text \<open>
  C4. A configuration handed to \<open>mcu_lan_handler_update_config\<close> reaches the LAN
  microcontroller whole, or is lost, depending on its length alone. With the link up (its
  transmit buffer of 16384 bytes free), an accepted configuration of up to 16380 bytes is what
  the next configuration request loads, behind the header and its exact length; an accepted
  one of 16381 to 16384 bytes is never loaded, and the cache is marked empty all the same.
\<close>

theorem config_delivery:
  assumes "lan_ready (g_lan_handle g)" and "tx_cap (g_lan_handle g) = 16384"
    and "mcu_lan_handler_update_config env (Some cfg) fota src w g = (True, g1)"
    and "cfg_free env'" and "malloc_ok env'" and "load_free env'"
  shows "let g2 = downlink_handle_config_request env' g1 in
    \<not> has_config (g_config_cache g2) \<and> \<not> g_config_cache_has_config g2 \<and>
    app_wire g2 =
      (if length cfg \<le> 16380
       then [0x43, 0x46, hi8 (word_of_nat (length cfg)), lo8 (word_of_nat (length cfg))] @ cfg @
              replicate (16380 - length cfg) 0
       else app_wire g)"
proof -
  have g1: "g_config_cache g1 = \<lparr>config_data = cfg, has_config = True, is_fota = fota,
      cmd_source = src, result_waiter = w\<rparr>" "g_lan_handle g1 = g_lan_handle g"
    using assms(3) by (auto simp: mcu_lan_handler_update_config_def signal_data_ready_def out_def
        split: if_splits)
  let ?p = "config_packet cfg"
  have p: "?p = [0x43, 0x46, hi8 (word_of_nat (length cfg)), lo8 (word_of_nat (length cfg))] @ cfg"
    by (simp add: config_packet_def hi8_def lo8_def Let_def)
  have "downlink_handle_config_request env' g1 =
     (load_tx True ?p g1)\<lparr>g_config_cache := (g_config_cache g1)\<lparr>has_config := False\<rparr>,
        g_config_cache_has_config := False\<rparr>"
    using assms(4-6) by (simp add: downlink_handle_config_request_def g1)
  moreover have "app_wire (load_tx True ?p g1) =
     (if length cfg \<le> 16380 then ?p @ replicate (16380 - length cfg) 0 else app_wire g)"
    using assms(1,2) load_tx_accepted [of g1 ?p] load_tx_too_long [of g1 ?p True]
    by (simp add: g1 p)
  ultimately show ?thesis by (simp add: Let_def p)
qed

text \<open>The globals at boot, and with the link opened as \<open>mcu_lan_handler_start\<close> does.\<close>

definition lan_app_boot :: lan_app where
  "lan_app_boot = \<lparr>g_lan_handle = None, g_handler_running = False,
     g_internet_status = INTERNET_STATUS_OFFLINE, g_downlink_queue = None, g_config_mutex = False,
     g_config_cache = \<lparr>config_data = [], has_config = False, is_fota = False,
       cmd_source = CMD_SOURCE_MQTT, result_waiter = None\<rparr>,
     g_config_cache_has_config = False, g_fota_request_pending = False,
     g_pending_downlink = (HANDLER_UNKNOWN, []), g_pending_downlink_valid = False,
     g_config_req_state = CONFIG_REQ_STATE_IDLE, g_active_config_request_ptr = False,
     g_active_config_request_valid = False, g_config_req_async = None,
     g_cached_lan_fw_version = 0, g_cached_wan_fw_version = 0, g_waiting_for_lan_update = False,
     g_wan_fota_in_progress = False, g_fota_start_sem = None, g_uplink_task_handle = False,
     g_fota_task_handle = False, g_fota_pending = False, g_fota_trigger_pending = False,
     g_fota_pending_internet = False, g_pending_lan_version_for_fota = 0,
     g_prev_internet_status = INTERNET_STATUS_OFFLINE, g_lan_fota_wait_start_tick = 0,
     rtc_cache = None, rtc_mutex = False, outs = []\<rparr>"

definition lan_config :: lan_cfg where
  "lan_config = \<lparr>cfg_rx_size = 16384, cfg_tx_size = 16384, cfg_data_ready = 8,
     cfg_auto_signal = False\<rparr>"

definition demo_app :: lan_app where
  "demo_app = lan_app_boot\<lparr>g_lan_handle := snd (lan_comm_init demo_lan_env (Some lan_config)),
     g_handler_running := True, g_downlink_queue := Some [], g_config_mutex := True\<rparr>"

definition demo_env :: lan_env where
  "demo_env = \<lparr>cfg_free = True, src_free = True, waiter_free = True, load_free = True,
     rxq_free = True, rxq_ok = True, rx = SpiTimeout, ack_rx = [], malloc_ok = True, io_ok = True,
     queue_room_ok = False, tick = 100, ap_running = False,
     local_time = \<lparr>tm_sec = 0, tm_min = 0, tm_hour = 0, tm_mday = 1, tm_mon = 0, tm_year = 126,
       tm_wday = 0, tm_yday = 0, tm_isdst = 0\<rparr>, beyond = (\<lambda>_. 0)\<rparr>"

lemma demo_app_ready: "lan_ready (g_lan_handle demo_app)" "tx_cap (g_lan_handle demo_app) = 16384"
  by (simp_all add: demo_app_def lan_comm_init_def demo_lan_env_def lan_config_def Let_def
      lan_ready_def tx_cap_def)

theorem config_delivery_witness:
  "let g1 = snd (mcu_lan_handler_update_config demo_env (Some (replicate 16384 0x41)) False
                   CMD_SOURCE_HTTP None demo_app);
       g2 = downlink_handle_config_request demo_env g1
   in \<not> g_config_cache_has_config g2 \<and> app_wire g2 = app_wire demo_app"
proof -
  let ?cfg = "replicate 16384 0x41 :: u8 list"
  let ?u = "mcu_lan_handler_update_config demo_env (Some ?cfg) False CMD_SOURCE_HTTP None demo_app"
  have "?u = (True, snd ?u)"
    by (simp add: mcu_lan_handler_update_config_def demo_env_def prod_eq_iff)
  from config_delivery [OF demo_app_ready this, of demo_env] show ?thesis
    by (simp add: Let_def demo_env_def)
qed

end
