(* ===== verification/Lan_Uplink.thy ===== *)
theory Lan_Uplink
  imports Lan_Downlink
begin

text \<open>
  \<open>Application/MCU_LAN_Handler/src/mcu_lan_handler_uplink.c\<close>: the task that answers the LAN
  microcontroller. One iteration of its receive loop is \<open>uplink_iteration\<close>, with the handlers
  it dispatches to; the globals are \<open>lan_app\<close>. A received payload is followed in memory by the
  zeroed rest of the receive buffer, so a C string that starts in it ends with it; memory beyond
  is \<open>beyond\<close>. The properties give the priority order of the data query, what reaches the
  server and the local interfaces, the firmware-update handshake, and the limits of the downlink
  path.
\<close>

abbreviation "MAX_RETRY_COUNT \<equiv> 3 :: nat"
abbreviation "LAN_FOTA_TIMEOUT_MS \<equiv> 300000 :: u32"

definition WAN_FW_VERSION :: u32 where
  "WAN_FW_VERSION = FW_VERSION_MAKE 2 1 1 0"

section \<open>Strings in received memory\<close>

definition starts_with :: "u8 list \<Rightarrow> string \<Rightarrow> bool" where
  "starts_with bs p \<longleftrightarrow> take (length p) (cstr bs) = ascii p"

fun strstr_pos :: "u8 list \<Rightarrow> u8 list \<Rightarrow> nat option" where
  "strstr_pos [] n = (if n = [] then Some 0 else None)"
| "strstr_pos (h # hs) n =
     (if take (length n) (h # hs) = n then Some 0 else map_option Suc (strstr_pos hs n))"

text \<open>The markers are tried one after the other; the first that occurs decides.\<close>

fun find_marker :: "u8 list \<Rightarrow> string list \<Rightarrow> nat option" where
  "find_marker bs [] = None"
| "find_marker bs (m # ms) =
     (case strstr_pos (cstr bs) (ascii m) of Some i \<Rightarrow> Some i | None \<Rightarrow> find_marker bs ms)"

definition result_markers :: "string list" where
  "result_markers = [''CFBL:'', ''CFLR:'', ''CFZB:'', ''CFRS:'', ''CFBG:'', ''BR:'', ''LR:'']"

definition is_config_result_payload :: "u8 list option \<Rightarrow> bool" where
  "is_config_result_payload p =
     (case p of None \<Rightarrow> False
      | Some bs \<Rightarrow> starts_with bs ''CFBL:'' \<or> starts_with bs ''CFLR:'' \<or> starts_with bs ''CFZB:'' \<or>
                   starts_with bs ''CFRS:'' \<or> starts_with bs ''CFBG:'' \<or>
                   starts_with bs ''BR:JSON:'' \<or> starts_with bs ''LR:JSON:'')"

text \<open>\<open>n\<close> bytes of memory from the start of \<open>bs\<close> on.\<close>

definition read_mem :: "lan_env \<Rightarrow> u8 list \<Rightarrow> nat \<Rightarrow> u8 list" where
  "read_mem env bs n = take n (bs @ map (beyond env) [0..<n])"

section \<open>Firmware-update coordination\<close>

definition send_fota_trigger_to_lan :: "lan_app \<Rightarrow> lan_app" where
  "send_fota_trigger_to_lan g =
     out [OutGpio False, OutGpio True] (g\<lparr>g_fota_trigger_pending := True\<rparr>)"

definition start_fota_ap :: "lan_env \<Rightarrow> lan_app \<Rightarrow> lan_app" where
  "start_fota_ap env g = (if \<not> ap_running env then out [OutFotaApStart] g else g)"

definition trigger_lan_fota_if_needed :: "lan_env \<Rightarrow> u32 \<Rightarrow> lan_app \<Rightarrow> lan_app" where
  "trigger_lan_fota_if_needed env lan_version g0 =
     (let g = g0\<lparr>g_cached_lan_fw_version := lan_version, g_cached_wan_fw_version := WAN_FW_VERSION\<rparr>;
          version_mismatch =
            (byte_of32 24 lan_version \<noteq> byte_of32 24 WAN_FW_VERSION \<or>
             byte_of32 16 lan_version \<noteq> byte_of32 16 WAN_FW_VERSION \<or>
             byte_of32 8 lan_version \<noteq> byte_of32 8 WAN_FW_VERSION \<or>
             byte_of32 0 lan_version \<noteq> byte_of32 0 WAN_FW_VERSION);
          server_fota = (if cfg_free env then g_fota_request_pending g else False)
      in if \<not> version_mismatch \<and> \<not> server_fota then g
         else if g_waiting_for_lan_update g \<or> g_wan_fota_in_progress g then g
         else if g_internet_status g \<noteq> INTERNET_STATUS_ONLINE
         then g\<lparr>g_fota_pending_internet := True, g_pending_lan_version_for_fota := lan_version\<rparr>
         else (send_fota_trigger_to_lan (start_fota_ap env g))
                \<lparr>g_waiting_for_lan_update := True, g_lan_fota_wait_start_tick := tick env,
                 g_fota_pending_internet := False, g_wan_fota_in_progress := False\<rparr>)"

definition handshake_response :: "internet_status \<Rightarrow> u8 list" where
  "handshake_response st =
     [0x02, ack_code ACK_TYPE_HANDSHAKE, internet_code st, byte_of32 24 WAN_FW_VERSION,
      byte_of32 16 WAN_FW_VERSION, byte_of32 8 WAN_FW_VERSION, byte_of32 0 WAN_FW_VERSION]"

definition lan_version_of :: "u8 list \<Rightarrow> u32" where
  "lan_version_of p = be32 (p ! 3) (p ! 4) (p ! 5) (p ! 6)"

definition receive_packet ::
  "bool \<Rightarrow> bool \<Rightarrow> spi_result \<Rightarrow> lan_app \<Rightarrow> lan_comm_status \<times> lan_packet option \<times> lan_app" where
  "receive_packet qf qok res g =
     (let h1 = snd (lan_comm_queue_receive qf qok (g_lan_handle g));
          (status, pkt, h2) = lan_comm_get_received_packet res h1
      in (status, pkt, g\<lparr>g_lan_handle := h2\<rparr>))"

definition perform_handshake_slave :: "lan_env \<Rightarrow> lan_app \<Rightarrow> esp_err \<times> lan_app" where
  "perform_handshake_slave env g =
     (let (status, pkt, g1) = receive_packet (rxq_free env) (rxq_ok env) (rx env) g
      in if status \<noteq> LAN_COMM_OK then (ESP_FAIL, g1)
         else
           let p = payload (the pkt); n = payload_length (the pkt)
           in if n \<ge> 7 \<and> p ! 0 = 0x43 \<and> p ! 1 = 0x46 \<and> p ! 2 = 0x01
              then
                let g2 = trigger_lan_fota_if_needed env (lan_version_of p) g1
                in (ESP_OK, load_tx (load_free env) (handshake_response (g_internet_status g2)) g2)
              else (ESP_FAIL, g1))"

definition process_handshake :: "lan_env \<Rightarrow> u8 list \<Rightarrow> u16 \<Rightarrow> lan_app \<Rightarrow> lan_app" where
  "process_handshake env p len g =
     (if len < 7 then g
      else if g_waiting_for_lan_update g
      then out [OutFotaApStop, OutFotaTaskStart]
             (g\<lparr>g_cached_lan_fw_version := lan_version_of p, g_waiting_for_lan_update := False,
                g_lan_fota_wait_start_tick := 0, g_wan_fota_in_progress := True,
                g_fota_request_pending := False\<rparr>)
      else if g_wan_fota_in_progress g then g
      else
        let g1 = trigger_lan_fota_if_needed env (lan_version_of p) g
        in load_tx (load_free env) (handshake_response (g_internet_status g1)) g1)"

section \<open>Data from the LAN side\<close>

definition ack_received :: "lan_env \<Rightarrow> lan_app \<Rightarrow> lan_app" where
  "ack_received env g =
     downlink_send_ack_to_lan env ACK_TYPE_RECEIVED_OK (internet_code (g_internet_status g)) g"

text \<open>The start of the response proper: the offset of the first marker found, and the length
  left, computed in 16 bits.\<close>

definition locate_response :: "u8 list \<Rightarrow> u16 \<Rightarrow> nat \<times> u16" where
  "locate_response dat data_length =
     (case find_marker dat result_markers of
        Some i \<Rightarrow> (i, data_length - word_of_nat i)
      | None \<Rightarrow> (0, data_length))"

definition publish_result :: "lan_env \<Rightarrow> command_source \<Rightarrow> u8 list \<Rightarrow> lan_app \<Rightarrow> lan_app" where
  "publish_result env src resp g =
     (let (w, g1) = mcu_lan_handler_take_config_result_waiter env g
      in out [OutPublish src w (cstr resp)] g1)"

definition process_data_from_lan :: "lan_env \<Rightarrow> u8 list \<Rightarrow> u16 \<Rightarrow> lan_app \<Rightarrow> lan_app" where
  "process_data_from_lan env p len g =
     (if unat len < DATA_PACKET_HEADER_SIZE then g
      else
        let handler_type = [p ! 2, p ! 3, p ! 4];
            data_length = be16 (p ! 5) (p ! 6);
            dat = drop DATA_PACKET_HEADER_SIZE p
        in if unat len < DATA_PACKET_HEADER_SIZE + unat data_length then g
           else
             let src = mcu_lan_handler_get_config_source env g
             in if src = CMD_SOURCE_UART \<or> src = CMD_SOURCE_USB
                then
                  let (off, response_len) = locate_response dat data_length;
                      resp = drop off dat;
                      bytes = read_mem env resp (unat response_len);
                      sent = (io_ok env \<and> response_len > 0);
                      msgs = (if sent then [bytes, [0x0A]] else [bytes]);
                      g1 = out (map (if src = CMD_SOURCE_UART then OutUart else OutUsb) msgs) g;
                      g2 = (if is_config_result_payload (Some resp)
                            then publish_result env src resp g1 else g1)
                  in ack_received env g2
                else if src = CMD_SOURCE_HTTP
                then
                  let (off, response_len) = locate_response dat data_length
                  in ack_received env (publish_result env src (drop off dat) g)
                else if is_config_result_payload (Some dat) then ack_received env g
                else if g_internet_status g = INTERNET_STATUS_ONLINE
                then
                  let g1 = (if malloc_ok env
                            then out [OutUplink (handler_type @ take (unat data_length) dat)] g
                            else g)
                  in downlink_send_ack_to_lan env ACK_TYPE_RECEIVED_OK 1 g1
                else downlink_send_ack_to_lan env ACK_TYPE_RECEIVED_OK 0 g)"

section \<open>Data queries\<close>

definition downlink_packet :: "downlink_item \<Rightarrow> u8 list" where
  "downlink_packet item =
     (let n = (word_of_nat (length (snd item)) :: u16)
      in [hi8 HEADER_DT, lo8 HEADER_DT] @ handler_id_to_string (fst item) @ [hi8 n, lo8 n] @ snd item)"

text \<open>The wait for the acknowledgement: up to \<open>n\<close> receive rounds; the first argument of the
  result says whether an acknowledgement was recognised.\<close>

fun await_ack :: "nat \<Rightarrow> (bool \<times> bool \<times> spi_result) list \<Rightarrow> lan_app \<Rightarrow> bool \<times> lan_app" where
  "await_ack 0 rs g = (False, g)"
| "await_ack (Suc n) rs g =
     (let (qf, qok, res) = (case rs of [] \<Rightarrow> (True, True, SpiTimeout) | r # _ \<Rightarrow> r);
          (status, pkt, g1) = receive_packet qf qok res g
      in if status = LAN_COMM_OK \<and> payload_length (the pkt) \<ge> 2 \<and>
            payload (the pkt) ! 0 = 0x02 \<and> payload (the pkt) ! 1 = ack_code ACK_TYPE_RECEIVED_OK
         then (True, g1)
         else await_ack n (tl rs) g1)"

definition send_downlink_to_lan :: "lan_env \<Rightarrow> downlink_item \<Rightarrow> lan_app \<Rightarrow> lan_app" where
  "send_downlink_to_lan env item g =
     (if \<not> malloc_ok env then g
      else snd (await_ack MAX_RETRY_COUNT (ack_rx env)
                  (load_tx (load_free env) (downlink_packet item) g)))"

definition fota_trigger_frame :: "u8 list" where
  "fota_trigger_frame = [0x43, 0x46, 0x00, 0x04] @ ascii ''CFFW''"

definition process_data_query :: "lan_env \<Rightarrow> lan_app \<Rightarrow> lan_app" where
  "process_data_query env g0 =
     (let served = False;
          (served, g1) =
            (if g_fota_trigger_pending g0
             then (True, (load_tx (load_free env) fota_trigger_frame g0)\<lparr>g_fota_trigger_pending := False\<rparr>)
             else (served, g0));
          (served, g2) =
            (if \<not> served \<and> g_active_config_request_valid g1 \<and>
                g_config_req_state g1 = CONFIG_REQ_STATE_WAIT_DQ_FOR_CFCQ
             then (True, (load_tx (load_free env) [0x43, 0x46, 0x43, 0x51] g1)
                           \<lparr>g_config_req_state := CONFIG_REQ_STATE_WAIT_CONFIG_RESP\<rparr>)
             else (served, g1));
          (served, g3) =
            (if \<not> served \<and> g_config_cache_has_config g2
             then
               let cache_was_fota = g_fota_request_pending g2;
                   h = downlink_handle_config_request env g2
               in (True, if cache_was_fota \<and> \<not> g_waiting_for_lan_update h
                         then h\<lparr>g_waiting_for_lan_update := True,
                                g_lan_fota_wait_start_tick := tick env\<rparr>
                         else h)
             else (served, g2));
          (served, g4) =
            (if \<not> served \<and> g_pending_downlink_valid g3
             then (True, (send_downlink_to_lan env (g_pending_downlink g3) g3)
                           \<lparr>g_pending_downlink_valid := False\<rparr>)
             else (served, g3))
      in if served then clear_data_ready g4 else g4)"

section \<open>Configuration answers\<close>

text \<open>The comparison is C's, on \<open>int\<close>: with \<open>buffer_size = 0\<close> the limit is -1 and the
  assignment wraps to 65535.\<close>

definition process_config_query :: "lan_env \<Rightarrow> lan_packet \<Rightarrow> lan_app \<Rightarrow> lan_app" where
  "process_config_query env pkt g =
     (case g_config_req_async g of
        None \<Rightarrow> g
      | Some r \<Rightarrow>
          if \<not> g_active_config_request_valid g \<or> \<not> g_active_config_request_ptr g \<or>
             g_config_req_state g \<noteq> CONFIG_REQ_STATE_WAIT_CONFIG_RESP
          then g
          else if payload_length pkt < 6 then g
          else
            let len0 = be16 (payload pkt ! 4) (payload pkt ! 5);
                limit = uint (buffer_size r) - 1;
                config_len = (if uint len0 > limit then word_of_int limit else len0);
                n = unat config_len;
                buf = read_mem env (drop 6 (payload pkt)) n @ [0] @ drop (n + 1) (response_buffer r)
            in g\<lparr>g_config_req_async :=
                     Some (r\<lparr>response_buffer := buf, response_len := config_len,
                             req_result := ESP_OK, completion_given := True\<rparr>),
                 g_active_config_request_valid := False, g_active_config_request_ptr := False,
                 g_config_req_state := CONFIG_REQ_STATE_IDLE\<rparr>)"

section \<open>The task\<close>

text \<open>The checks before a receive: the update timeout and the pending update.\<close>

definition check_fota_timeout :: "(u32 \<Rightarrow> u32) \<Rightarrow> lan_env \<Rightarrow> lan_app \<Rightarrow> lan_app" where
  "check_fota_timeout ms2t env g =
     (if g_waiting_for_lan_update g \<and> g_lan_fota_wait_start_tick g > 0
      then
        if tick env - g_lan_fota_wait_start_tick g \<ge> ms2t LAN_FOTA_TIMEOUT_MS
        then out [OutFotaApStop] (g\<lparr>g_waiting_for_lan_update := False, g_lan_fota_wait_start_tick := 0\<rparr>)
        else g
      else g)"

definition check_pending_fota :: "lan_env \<Rightarrow> lan_app \<Rightarrow> lan_app" where
  "check_pending_fota env g =
     (let g1 =
            (if g_fota_pending_internet g \<and> g_internet_status g = INTERNET_STATUS_ONLINE \<and>
                g_prev_internet_status g = INTERNET_STATUS_OFFLINE
             then (send_fota_trigger_to_lan (start_fota_ap env g))
                    \<lparr>g_waiting_for_lan_update := True, g_lan_fota_wait_start_tick := tick env,
                     g_fota_pending_internet := False\<rparr>
             else g)
      in g1\<lparr>g_prev_internet_status := g_internet_status g1\<rparr>)"

definition dispatch_frame :: "lan_env \<Rightarrow> lan_packet \<Rightarrow> lan_app \<Rightarrow> lan_app" where
  "dispatch_frame env pkt g =
     (let p = payload pkt; len = payload_length pkt; header = be16 (p ! 0) (p ! 1)
      in if header = HEADER_CF
         then
           if len \<ge> 4
           then
             if p ! 2 = 0x01 then process_handshake env p len g
             else if p ! 2 = of_char (CHR ''R'') \<and> p ! 3 = of_char (CHR ''T'')
             then if g_config_cache_has_config g \<or> g_active_config_request_valid g \<or>
                     g_pending_downlink_valid g
                  then g else downlink_send_rtc_response env g
             else if p ! 2 = of_char (CHR ''C'') \<and> p ! 3 = of_char (CHR ''F'')
             then downlink_handle_config_request env (clear_data_ready g)
             else if p ! 2 = of_char (CHR ''C'') \<and> p ! 3 = of_char (CHR ''Q'')
             then process_config_query env pkt g
             else g
           else g
         else if header = HEADER_DT then process_data_from_lan env p len g
         else if header = HEADER_DQ then process_data_query env g
         else g)"

definition uplink_iteration :: "(u32 \<Rightarrow> u32) \<Rightarrow> lan_env \<Rightarrow> lan_app \<Rightarrow> lan_app" where
  "uplink_iteration ms2t env g0 =
     (let g = check_pending_fota env (check_fota_timeout ms2t env g0);
          (status, pkt, g1) = receive_packet (rxq_free env) (rxq_ok env) (rx env) g
      in if status \<noteq> LAN_COMM_OK \<or> payload_length (the pkt) < 2 then g1
         else if g_fota_pending g1 \<and> payload_length (the pkt) \<ge> 2 \<and>
                 payload (the pkt) ! 0 = 0x02 \<and> payload (the pkt) ! 1 = ack_code ACK_TYPE_HANDSHAKE
         then g1\<lparr>g_fota_pending := False, g_fota_request_pending := False,
                 g_fota_start_sem := map_option (\<lambda>_. True) (g_fota_start_sem g1)\<rparr>
         else dispatch_frame env (the pkt) g1)"

text \<open>The step between the two phases of the task.\<close>

definition after_handshake :: "lan_env \<Rightarrow> lan_app \<Rightarrow> lan_app" where
  "after_handshake env g =
     (if cfg_free env \<and> g_fota_request_pending g then g\<lparr>g_waiting_for_lan_update := True\<rparr> else g)"

definition fota_task_iteration :: "lan_app \<Rightarrow> lan_app" where
  "fota_task_iteration g =
     (if g_fota_start_sem g = Some True
      then out [OutServerStop, OutFotaTaskStart] (g\<lparr>g_fota_start_sem := Some False\<rparr>) else g)"

text \<open>\<open>mcu_lan_handler_start_uplink_task\<close>: the four booleans say whether the mutex, the uplink
  task's memory, the semaphore and the update task's memory were there.\<close>

definition start_uplink_task :: "bool \<Rightarrow> bool \<Rightarrow> bool \<Rightarrow> bool \<Rightarrow> lan_app \<Rightarrow> esp_err \<times> lan_app" where
  "start_uplink_task mutex_ok task_ok sem_ok fota_ok g =
     (if \<not> mutex_ok then (ESP_FAIL, g\<lparr>rtc_mutex := False\<rparr>)
      else if \<not> task_ok then (ESP_FAIL, g\<lparr>rtc_mutex := True\<rparr>)
      else if \<not> sem_ok
      then (ESP_FAIL, g\<lparr>rtc_mutex := True, g_uplink_task_handle := False, g_fota_start_sem := None\<rparr>)
      else if \<not> fota_ok
      then (ESP_FAIL, g\<lparr>rtc_mutex := True, g_uplink_task_handle := False, g_fota_start_sem := None\<rparr>)
      else (ESP_OK, g\<lparr>rtc_mutex := True, g_uplink_task_handle := True,
                      g_fota_start_sem := Some False, g_fota_task_handle := True\<rparr>))"

definition stop_uplink_task :: "lan_app \<Rightarrow> lan_app" where
  "stop_uplink_task g =
     g\<lparr>g_uplink_task_handle := False, g_fota_task_handle := False, g_fota_start_sem := None,
       rtc_mutex := False\<rparr>"

definition mcu_lan_handler_get_lan_fw_version :: "lan_app \<Rightarrow> u32" where
  "mcu_lan_handler_get_lan_fw_version g = g_cached_lan_fw_version g"

text \<open>\<open>have_buf\<close>: the buffer is not NULL; \<open>free\<close>: the cache mutex was taken.\<close>

definition mcu_lan_handler_get_rtc :: "bool \<Rightarrow> bool \<Rightarrow> lan_app \<Rightarrow> esp_err \<times> u8 list option" where
  "mcu_lan_handler_get_rtc have_buf free g =
     (if \<not> have_buf \<or> \<not> rtc_mutex g then (ESP_ERR_INVALID_ARG, None)
      else case rtc_cache g of
        Some s \<Rightarrow> if free then (ESP_OK, Some s) else (ESP_ERR_NOT_FOUND, None)
      | None \<Rightarrow> (ESP_ERR_NOT_FOUND, None))"

section \<open>Start and stop\<close>

record start_env =
  st_gpio_ok :: bool
  st_lan :: lan_init_env
  st_queue_ok :: bool
  st_mutex_ok :: bool
  st_task :: "bool \<times> bool \<times> bool \<times> bool"

text \<open>The clock part of the start: the chip is initialised and, when it answers, the system time
  is set (\<open>Some\<close> the time) from it.\<close>

definition sync_from_rtc ::
  "i2c_drv \<Rightarrow> nat option \<Rightarrow> tm \<Rightarrow> i2c_st \<Rightarrow> tm option \<times> nat option \<times> i2c_st" where
  "sync_from_rtc drv h junk s =
     (let (ret, h1, s1) = pcf8563_init drv h s
      in if ret \<noteq> ESP_OK then (None, h1, s1)
         else let (ret2, t, s2) = pcf8563_read_time drv h1 (Some junk) s1
              in (if ret2 = ESP_OK then t else None, h1, s2))"

definition mcu_lan_handler_start :: "start_env \<Rightarrow> lan_app \<Rightarrow> esp_err \<times> lan_app" where
  "mcu_lan_handler_start env g =
     (if g_handler_running g then (ESP_OK, g)
      else if \<not> st_gpio_ok env then (ESP_FAIL, g)
      else
        let g0 = out [OutGpio False] g;
            (status, h) = lan_comm_init (st_lan env) (Some lan_config)
        in if status \<noteq> LAN_COMM_OK then (ESP_FAIL, g0)
           else
             let g1 = g0\<lparr>g_lan_handle := h\<rparr>
             in if \<not> st_queue_ok env
                then (ESP_FAIL, g1\<lparr>g_downlink_queue := None\<rparr>)
                else if \<not> st_mutex_ok env
                then (ESP_FAIL, g1\<lparr>g_downlink_queue := Some [], g_config_mutex := False\<rparr>)
                else
                  let (a, b, c, d) = st_task env;
                      (ret, g2) = start_uplink_task a b c d
                        (g1\<lparr>g_downlink_queue := Some [], g_config_mutex := True,
                           g_handler_running := True\<rparr>)
                  in if ret \<noteq> ESP_OK then (ESP_FAIL, g2\<lparr>g_handler_running := False\<rparr>)
                     else (ESP_OK, g2))"

definition mcu_lan_handler_stop :: "lan_app \<Rightarrow> esp_err \<times> lan_app" where
  "mcu_lan_handler_stop g =
     (if \<not> g_handler_running g then (ESP_OK, g)
      else (ESP_OK, (stop_uplink_task (g\<lparr>g_handler_running := False\<rparr>))
                      \<lparr>g_config_mutex := False, g_downlink_queue := None, g_lan_handle := None\<rparr>))"

section \<open>Events of the LAN handler\<close>

text \<open>Everything that runs against the globals once the handler is started: an iteration of the
  receive loop, a turn of the update task, and the calls of other tasks.\<close>

datatype app_event =
    EvIteration lan_env
  | EvFotaTask
  | EvDownlink handler_id "u8 list option"
  | EvConfig lan_env "u8 list option" bool command_source "nat option"
  | EvInternet internet_status
  | EvRequest lan_env bool "u8 list option" bool u16
  | EvRequestEnd

fun app_step :: "(u32 \<Rightarrow> u32) \<Rightarrow> app_event \<Rightarrow> lan_app \<Rightarrow> lan_app" where
  "app_step ms2t (EvIteration env) g = uplink_iteration ms2t env g"
| "app_step ms2t EvFotaTask g = fota_task_iteration g"
| "app_step ms2t (EvDownlink target dat) g = snd (mcu_lan_enqueue_downlink False target dat g)"
| "app_step ms2t (EvConfig env cfg fota src w) g =
     snd (mcu_lan_handler_update_config env cfg fota src w g)"
| "app_step ms2t (EvInternet st) g = mcu_lan_handler_set_internet_status st g"
| "app_step ms2t (EvRequest env sem buf have_len n) g =
     snd (request_config_begin env sem buf have_len n g)"
| "app_step ms2t EvRequestEnd g = snd (request_config_end g)"

text \<open>What no iteration of the receive loop touches.\<close>

definition quiet :: "lan_app \<Rightarrow> downlink_item list option \<times> bool \<times> bool option \<times> u8 list option" where
  "quiet g = (g_downlink_queue g, g_fota_pending g, g_fota_start_sem g, rtc_cache g)"

lemma quiet_simps [gw_frame]:
  "quiet (load_tx f bs g) = quiet g"
  "quiet (out os g) = quiet g"
  "quiet (g\<lparr>g_lan_handle := a1\<rparr>) = quiet g"
  "quiet (g\<lparr>g_config_cache := a2\<rparr>) = quiet g"
  "quiet (g\<lparr>g_config_cache_has_config := a3\<rparr>) = quiet g"
  "quiet (g\<lparr>g_fota_request_pending := a3\<rparr>) = quiet g"
  "quiet (g\<lparr>g_pending_downlink_valid := a3\<rparr>) = quiet g"
  "quiet (g\<lparr>g_config_req_state := a4\<rparr>) = quiet g"
  "quiet (g\<lparr>g_active_config_request_ptr := a3\<rparr>) = quiet g"
  "quiet (g\<lparr>g_active_config_request_valid := a3\<rparr>) = quiet g"
  "quiet (g\<lparr>g_config_req_async := a5\<rparr>) = quiet g"
  "quiet (g\<lparr>g_cached_lan_fw_version := a6\<rparr>) = quiet g"
  "quiet (g\<lparr>g_cached_wan_fw_version := a6\<rparr>) = quiet g"
  "quiet (g\<lparr>g_waiting_for_lan_update := a3\<rparr>) = quiet g"
  "quiet (g\<lparr>g_wan_fota_in_progress := a3\<rparr>) = quiet g"
  "quiet (g\<lparr>g_fota_trigger_pending := a3\<rparr>) = quiet g"
  "quiet (g\<lparr>g_fota_pending_internet := a3\<rparr>) = quiet g"
  "quiet (g\<lparr>g_pending_lan_version_for_fota := a6\<rparr>) = quiet g"
  "quiet (g\<lparr>g_prev_internet_status := a7\<rparr>) = quiet g"
  "quiet (g\<lparr>g_internet_status := a7\<rparr>) = quiet g"
  "quiet (g\<lparr>g_lan_fota_wait_start_tick := a6\<rparr>) = quiet g"
  by (simp_all add: quiet_def load_tx_def out_def)

lemma quiet_receive: "quiet (snd (snd (receive_packet qf qok res g))) = quiet g"
  by (simp add: receive_packet_def case_prod_beta Let_def gw_frame)

lemma quiet_receiveD: "receive_packet qf qok res g = (st, pkt, g1) \<Longrightarrow> quiet g1 = quiet g"
  using quiet_receive [of qf qok res g] by simp

lemma quiet_downlink [gw_frame]:
  "quiet (signal_data_ready g) = quiet g"
  "quiet (clear_data_ready g) = quiet g"
  "quiet (downlink_send_rtc_response env g) = quiet g"
  "quiet (downlink_send_ack_to_lan env a fl g) = quiet g"
  "quiet (downlink_handle_config_request env g) = quiet g"
  "quiet (ack_received env g) = quiet g"
  by (simp_all add: signal_data_ready_def clear_data_ready_def downlink_send_rtc_response_def
      downlink_send_ack_to_lan_def downlink_handle_config_request_def ack_received_def Let_def gw_frame)

lemma quiet_publish [gw_frame]: "quiet (publish_result env src resp g) = quiet g"
  by (simp add: publish_result_def mcu_lan_handler_take_config_result_waiter_def case_prod_beta gw_frame)

lemma quiet_fota [gw_frame]:
  "quiet (send_fota_trigger_to_lan g) = quiet g"
  "quiet (start_fota_ap env g) = quiet g"
  by (simp_all add: send_fota_trigger_to_lan_def start_fota_ap_def gw_frame)

lemma quiet_trigger [gw_frame]: "quiet (trigger_lan_fota_if_needed env v g) = quiet g"
  by (simp add: trigger_lan_fota_if_needed_def Let_def gw_frame)

lemma quiet_handshake [gw_frame]: "quiet (process_handshake env p len g) = quiet g"
  by (simp add: process_handshake_def Let_def gw_frame)

lemma quiet_data [gw_frame]: "quiet (process_data_from_lan env p len g) = quiet g"
  by (simp add: process_data_from_lan_def case_prod_beta Let_def gw_frame)

lemma quiet_await_ack: "quiet (snd (await_ack n rs g)) = quiet g"
proof (induction n arbitrary: rs g)
  case (Suc n)
  show ?case
    by (auto simp: Suc.IH Let_def dest: quiet_receiveD split: list.splits prod.splits)
qed simp

lemma quiet_query [gw_frame]: "quiet (process_data_query env g) = quiet g"
  by (simp add: process_data_query_def send_downlink_to_lan_def quiet_await_ack case_prod_beta Let_def
      gw_frame)

lemma quiet_config_query [gw_frame]: "quiet (process_config_query env pkt g) = quiet g"
  by (simp add: process_config_query_def Let_def gw_frame split: option.splits)

lemma quiet_dispatch [gw_frame]: "quiet (dispatch_frame env pkt g) = quiet g"
  by (simp add: dispatch_frame_def Let_def gw_frame)

lemma quiet_checks [gw_frame]:
  "quiet (check_fota_timeout ms2t env g) = quiet g"
  "quiet (check_pending_fota env g) = quiet g"
  by (simp_all add: check_fota_timeout_def check_pending_fota_def Let_def gw_frame)

lemma quiet_iteration:
  assumes "\<not> g_fota_pending g"
  shows "quiet (uplink_iteration ms2t env g) = quiet g"
proof -
  let ?g = "check_pending_fota env (check_fota_timeout ms2t env g)"
  obtain st pkt g1 where r: "receive_packet (rxq_free env) (rxq_ok env) (rx env) ?g = (st, pkt, g1)"
    by (metis prod_cases3)
  have q: "quiet g1 = quiet g" using quiet_receiveD [OF r] by (simp add: gw_frame)
  then have "\<not> g_fota_pending g1" using assms by (simp add: quiet_def)
  with r q show ?thesis by (simp add: uplink_iteration_def gw_frame Let_def)
qed

section \<open>The downlink queue and the update task\<close>

text \<open>Nothing ever sets \<open>g_fota_pending\<close>, takes an item out of the downlink queue or fills
  the time cache.\<close>

definition app_inv :: "lan_app \<Rightarrow> bool" where
  "app_inv g \<longleftrightarrow> \<not> g_fota_pending g \<and> g_fota_start_sem g \<noteq> Some True \<and> rtc_cache g = None \<and>
     (case g_downlink_queue g of None \<Rightarrow> True | Some q \<Rightarrow> length q \<le> DOWNLINK_QUEUE_SIZE)"

definition queued :: "lan_app \<Rightarrow> nat" where
  "queued g = (case g_downlink_queue g of None \<Rightarrow> 0 | Some q \<Rightarrow> length q)"

lemma app_inv_quiet: "quiet g1 = quiet g \<Longrightarrow> app_inv g1 = app_inv g \<and> queued g1 = queued g"
  by (simp add: quiet_def app_inv_def queued_def)

lemma app_step_other:
  "quiet (snd (mcu_lan_handler_update_config env cfg fota src w g)) = quiet g"
  "quiet (mcu_lan_handler_set_internet_status st g) = quiet g"
  "quiet (snd (request_config_begin env sem buf have_len n g)) = quiet g"
  "quiet (snd (request_config_end g)) = quiet g"
  by (auto simp: mcu_lan_handler_update_config_def mcu_lan_handler_set_internet_status_def
      request_config_begin_def request_config_end_def gw_frame split: option.splits)

lemma enqueue_inv:
  assumes "app_inv g"
  shows "app_inv (snd (mcu_lan_enqueue_downlink False t d g)) \<and>
    queued g \<le> queued (snd (mcu_lan_enqueue_downlink False t d g))"
  using assms
  by (auto simp: mcu_lan_enqueue_downlink_def app_inv_def queued_def signal_data_ready_def out_def
      split: option.splits)

lemma app_step_inv:
  assumes "app_inv g"
  shows "app_inv (app_step ms2t e g) \<and> queued g \<le> queued (app_step ms2t e g)"
proof (cases e)
  case (EvIteration env)
  then show ?thesis using assms app_inv_quiet [OF quiet_iteration] by (auto simp: app_inv_def)
next
  case EvFotaTask
  then show ?thesis using assms by (simp add: fota_task_iteration_def app_inv_def)
next
  case (EvDownlink t d)
  then show ?thesis using enqueue_inv [OF assms] by simp
qed (use assms app_inv_quiet [OF app_step_other(1)] app_inv_quiet [OF app_step_other(2)]
       app_inv_quiet [OF app_step_other(3)] app_inv_quiet [OF app_step_other(4)] in auto)

interpretation app: monotone_step "app_step ms2t" app_inv queued for ms2t
  by unfold_locales (use app_step_inv in blast)+

text \<open>
  The downlink queue is a one-way street: once twenty messages have been accepted, no run
  of the handler, whatever its receive loop, its update task and the other callers do, makes
  room again, and \<open>mcu_lan_enqueue_downlink\<close> refuses every message from then on.
\<close>

lemma downlink_queue_jams:
  assumes "app_inv g" and "queued g = DOWNLINK_QUEUE_SIZE"
  shows "\<not> fst (mcu_lan_enqueue_downlink False target dat (fold (app_step ms2t) evs g))"
proof -
  let ?g = "fold (app_step ms2t) evs g"
  from app.run_val [OF assms(1), where es = evs and ms2t = ms2t] assms(2) have "DOWNLINK_QUEUE_SIZE \<le> queued ?g" by simp
  then obtain q where "g_downlink_queue ?g = Some q" "DOWNLINK_QUEUE_SIZE \<le> length q"
    by (auto simp: queued_def split: option.splits)
  then show ?thesis by (simp add: mcu_lan_enqueue_downlink_def split: option.splits)
qed

definition full_app :: lan_app where
  "full_app = demo_app\<lparr>g_downlink_queue := Some (replicate 20 (HANDLER_CAN, [1]))\<rparr>"

lemma downlink_queue_jams_applied:
  "\<not> fst (mcu_lan_enqueue_downlink False HANDLER_LORA (Some [1, 2])
     (fold (app_step (\<lambda>ms. ms div 10))
        [EvIteration (demo_env\<lparr>rx := SpiDone [0x44, 0x51, 0, 0]\<rparr>), EvFotaTask] full_app))"
proof -
  have "app_inv full_app" "queued full_app = DOWNLINK_QUEUE_SIZE"
    by (simp_all add: app_inv_def queued_def full_app_def demo_app_def lan_app_boot_def)
  then show ?thesis by (rule downlink_queue_jams)
qed

text \<open>
  Two facilities of the handler are dead: from a started handler no run ever releases the
  task that waits for the pre-update handshake, nor fills the cached time, so a turn of that task
  does nothing and \<open>mcu_lan_handler_get_rtc\<close> never succeeds.
\<close>

lemma fota_task_and_rtc_cache_dead:
  assumes "app_inv g" and "g1 = fold (app_step ms2t) evs g"
  shows "fota_task_iteration g1 = g1 \<and> fst (mcu_lan_handler_get_rtc b free g1) \<noteq> ESP_OK"
proof -
  have "app_inv g1" unfolding assms(2) by (rule app.run_inv [OF assms(1)])
  then show ?thesis
    by (simp add: app_inv_def fota_task_iteration_def mcu_lan_handler_get_rtc_def)
qed

lemma fota_task_and_rtc_cache_dead_applied:
  "let g1 = fold (app_step (\<lambda>ms. ms div 10)) [EvIteration demo_env, EvInternet INTERNET_STATUS_ONLINE]
              (demo_app\<lparr>rtc_mutex := True, g_fota_start_sem := Some False\<rparr>)
   in fota_task_iteration g1 = g1 \<and> fst (mcu_lan_handler_get_rtc True True g1) \<noteq> ESP_OK"
proof -
  have "app_inv (demo_app\<lparr>rtc_mutex := True, g_fota_start_sem := Some False\<rparr>)"
    by (simp add: app_inv_def demo_app_def lan_app_boot_def)
  then show ?thesis unfolding Let_def by (rule fota_task_and_rtc_cache_dead) (rule refl)
qed

section \<open>Acknowledgements\<close>

lemma parse_frame_first_byte:
  assumes "lan_comm_parse_frame buf = (LAN_COMM_OK, Some (p, n))"
  shows "payload p ! 0 \<in> {0x43, 0x44}"
proof -
  let ?f = "dropWhile (\<lambda>b. b = 0) buf"
  have "2 \<le> length buf" using assms by (auto simp: lan_comm_parse_frame_def split: if_splits)
  with assms have "p = packet_of ?f" "known_header (frame_header ?f)"
    by (auto simp: parse_frame_eq split: if_splits)
  then have "payload p = ?f" and "hi8 (frame_header ?f) \<in> hi8 ` {HEADER_CF, HEADER_DT, HEADER_DQ, HEADER_CQ}"
    by (auto simp: packet_of_def known_header_def)
  then show ?thesis by (auto simp: frame_header_def hi8_def [of "HEADER_CF"] hi8_def [of HEADER_DT]
      hi8_def [of HEADER_DQ] hi8_def [of HEADER_CQ])
qed

lemma parse_frame_OK:
  "lan_comm_parse_frame buf = (LAN_COMM_OK, r) \<Longrightarrow> \<exists>p n. r = Some (p, n)"
  by (auto simp: lan_comm_parse_frame_def Let_def split: if_splits)

lemma receive_packet_first_byte:
  assumes "receive_packet qf qok res g = (LAN_COMM_OK, pkt, g1)"
  shows "payload (the pkt) ! 0 \<in> {0x43, 0x44}"
proof -
  obtain buf r where "lan_comm_parse_frame buf = (LAN_COMM_OK, r)" "pkt = map_option fst r"
    using assms
    by (auto simp: receive_packet_def lan_comm_get_received_packet_def Let_def
        split: prod.splits spi_result.splits if_splits)
  with parse_frame_OK [of buf r] parse_frame_first_byte [of buf] show ?thesis by auto
qed

text \<open>
  No downlink is ever acknowledged in the eyes of the handler. The receive path only lets
  frames through that start with 'C' or 'D', an acknowledgement starts with byte 2: whatever the
  LAN side sends and the link state is, the wait after a downlink ends without an
  acknowledgement, and the transmission runs through all its receive rounds, dropping every
  frame that arrives in them.
\<close>

lemma downlink_ack_never_seen:
  "\<not> fst (await_ack n rs g) \<and> outs (send_downlink_to_lan env item g) = outs g \<and>
   quiet (send_downlink_to_lan env item g) = quiet g"
proof (intro conjI)
  show "\<not> fst (await_ack n rs g)"
  proof (induction n arbitrary: rs g)
    case (Suc n)
    obtain qf qok res where r: "(case rs of [] \<Rightarrow> (True, True, SpiTimeout) | r # _ \<Rightarrow> r) = (qf, qok, res)"
      by (metis prod_cases3)
    obtain st pkt g1 where p: "receive_packet qf qok res g = (st, pkt, g1)" by (metis prod_cases3)
    have "st = LAN_COMM_OK \<Longrightarrow> payload (the pkt) ! 0 \<noteq> 0x02"
      using receive_packet_first_byte [of qf qok res g pkt g1] p by auto
    then show ?case unfolding await_ack.simps r p Let_def prod.case by (auto simp: Suc.IH)
  qed simp
  have "outs (snd (await_ack k rs h)) = outs h" for k rs h
  proof (induction k arbitrary: rs h)
    case (Suc k)
    show ?case
      by (auto simp: Suc.IH Let_def receive_packet_def split: list.splits prod.splits)
  qed simp
  then show "outs (send_downlink_to_lan env item g) = outs g"
    by (simp add: send_downlink_to_lan_def)
  show "quiet (send_downlink_to_lan env item g) = quiet g"
    by (simp add: send_downlink_to_lan_def quiet_await_ack gw_frame)
qed

section \<open>What a data query serves\<close>

lemma lan_ready_simps [simp]: "\<not> lan_ready None" "lan_ready (Some x) = lan_initialized x"
  by (simp_all add: lan_ready_def)

lemma await_ack_handle:
  obtains h where "snd (await_ack n rs g) = g\<lparr>g_lan_handle := h\<rparr>"
proof -
  have "\<exists>h. snd (await_ack n rs g) = g\<lparr>g_lan_handle := h\<rparr>"
  proof (induction n arbitrary: rs g)
    case 0
    show ?case by (rule exI [of _ "g_lan_handle g"]) simp
  next
    case (Suc n)
    obtain qf qok res where r: "(case rs of [] \<Rightarrow> (True, True, SpiTimeout) | r # _ \<Rightarrow> r) = (qf, qok, res)"
      by (metis prod_cases3)
    obtain st pkt g1 where p: "receive_packet qf qok res g = (st, pkt, g1)" by (metis prod_cases3)
    then obtain h where h: "g1 = g\<lparr>g_lan_handle := h\<rparr>"
      by (auto simp: receive_packet_def Let_def split: prod.splits)
    obtain h' where "snd (await_ack n (tl rs) g1) = g1\<lparr>g_lan_handle := h'\<rparr>" using Suc.IH by blast
    with h show ?case unfolding await_ack.simps r p Let_def prod.case by auto
  qed
  with that show ?thesis by blast
qed

lemma await_ack_wire:
  "app_wire (snd (await_ack n rs g)) = app_wire g"
proof (induction n arbitrary: rs g)
  case (Suc n)
  have q: "tx_wire (snd (lan_comm_queue_receive qf qok h)) = tx_wire h" for qf qok h
    by (cases h) (auto simp: lan_defs tx_wire_def Let_def)
  have r: "tx_wire (snd (snd (lan_comm_get_received_packet res h))) = tx_wire h" for res h
    by (cases h) (auto simp: lan_comm_get_received_packet_def lan_comm_report_error_def tx_wire_def
        Let_def split: spi_result.splits prod.splits)
  have "app_wire (snd (snd (receive_packet qf qok res g))) = app_wire g" for qf qok res
    by (simp add: receive_packet_def case_prod_beta Let_def q r)
  then have "receive_packet qf qok res g = (st, pkt, g1) \<Longrightarrow> app_wire g1 = app_wire g" for qf qok res st pkt g1
    by (metis snd_conv)
  then show ?case by (auto simp: Suc.IH Let_def split: list.splits prod.splits)
qed simp

definition padded :: "u8 list \<Rightarrow> lan_app \<Rightarrow> u8 list" where
  "padded bs g = bs @ replicate (tx_cap (g_lan_handle g) - length bs) 0"

lemma length_downlink_packet: "length (downlink_packet item) = 7 + length (snd item)"
  by (simp add: downlink_packet_def Let_def gw_bytes)

text \<open>
  C1. A data query serves one thing, in a fixed order. With the link up (16 KB transmit buffer,
  its mutex and the memory free), \<open>process_data_query\<close> puts on the wire: the update trigger
  CFFW if one is pending; else the configuration query CQ if a request waits for it; else the
  cached configuration packet (up to 16380 bytes); else the pending downlink's data packet; and
  nothing when nothing is pending. Of the pending flags exactly the one served is cleared.
\<close>

theorem data_query_priority:
  assumes "lan_ready (g_lan_handle g)" and "tx_cap (g_lan_handle g) = 16384"
    and "load_free env" and "malloc_ok env" and "cfg_free env"
    and "g_config_cache_has_config g = has_config (g_config_cache g)"
    and "length (config_data (g_config_cache g)) \<le> 16380"
    and "length (snd (g_pending_downlink g)) \<le> INTER_MCU_PAYLOAD_MAX_LEN"
  defines "trig \<equiv> g_fota_trigger_pending g"
    and "req \<equiv> g_active_config_request_valid g \<and> g_config_req_state g = CONFIG_REQ_STATE_WAIT_DQ_FOR_CFCQ"
    and "conf \<equiv> g_config_cache_has_config g" and "dl \<equiv> g_pending_downlink_valid g"
    and "g1 \<equiv> process_data_query env g"
  shows "app_wire g1 =
      (if trig then padded fota_trigger_frame g
       else if req then padded [0x43, 0x46, 0x43, 0x51] g
       else if conf then padded (config_packet (config_data (g_config_cache g))) g
       else if dl then padded (downlink_packet (g_pending_downlink g)) g
       else app_wire g) \<and>
    \<not> g_fota_trigger_pending g1 \<and>
    (g_config_req_state g1 = CONFIG_REQ_STATE_WAIT_CONFIG_RESP \<longleftrightarrow>
       g_config_req_state g = CONFIG_REQ_STATE_WAIT_CONFIG_RESP \<or> \<not> trig \<and> req) \<and>
    g_config_cache_has_config g1 = (conf \<and> (trig \<or> req)) \<and>
    g_pending_downlink_valid g1 = (dl \<and> (trig \<or> req \<or> conf))"
proof -
  have w: "app_wire (load_tx True bs h) = padded bs g"
    if "g_lan_handle h = g_lan_handle g" "bs \<noteq> []" "length bs \<le> 16384" for bs h
    using load_tx_accepted [of h bs] that assms(1,2) by (simp add: padded_def)
  have wf: "app_wire (load_tx True fota_trigger_frame g) = padded fota_trigger_frame g"
    by (rule w) (simp_all add: fota_trigger_frame_def)
  have wq: "app_wire (load_tx True [0x43, 0x46, 0x43, 0x51] g) = padded [0x43, 0x46, 0x43, 0x51] g"
    by (rule w) simp_all
  have wc: "app_wire (load_tx True (config_packet (config_data (g_config_cache g))) g) =
      padded (config_packet (config_data (g_config_cache g))) g"
    using assms(7) by (intro w) (simp_all add: config_packet_def Let_def)
  have wd: "app_wire (load_tx True (downlink_packet (g_pending_downlink g)) g) =
      padded (downlink_packet (g_pending_downlink g)) g"
    using assms(8) by (intro w) (simp_all add: length_downlink_packet flip: length_greater_0_conv)
  obtain h where h: "snd (await_ack MAX_RETRY_COUNT (ack_rx env)
      (load_tx True (downlink_packet (g_pending_downlink g)) g)) =
      (load_tx True (downlink_packet (g_pending_downlink g)) g)\<lparr>g_lan_handle := h\<rparr>"
    by (rule await_ack_handle)
  have wd': "tx_wire h = padded (downlink_packet (g_pending_downlink g)) g"
    using await_ack_wire [of MAX_RETRY_COUNT "ack_rx env"
        "load_tx True (downlink_packet (g_pending_downlink g)) g"]
    by (simp add: h wd)
  note defs = process_data_query_def trig_def req_def conf_def dl_def g1_def
  consider (trig) trig | (req) "\<not> trig" req | (conf) "\<not> trig" "\<not> req" conf
    | (dl) "\<not> trig" "\<not> req" "\<not> conf" dl | (none) "\<not> trig" "\<not> req" "\<not> conf" "\<not> dl" by blast
  then show ?thesis
  proof cases
    case trig
    then show ?thesis using assms(3)
      by (simp add: defs Let_def clear_data_ready_def wf) (simp add: load_tx_def out_def)
  next
    case req
    then show ?thesis using assms(3)
      by (simp add: defs Let_def clear_data_ready_def wq) (simp add: load_tx_def out_def)
  next
    case conf
    then show ?thesis using assms(3-6)
      by (cases "g_active_config_request_valid g";
          simp add: defs Let_def clear_data_ready_def wc downlink_handle_config_request_def;
          simp add: load_tx_def out_def)
  next
    case dl
    then show ?thesis using assms(3,4)
      by (cases "g_active_config_request_valid g";
          simp add: defs Let_def clear_data_ready_def send_downlink_to_lan_def h wd';
          simp add: load_tx_def out_def)
  next
    case none
    then show ?thesis by (cases "g_active_config_request_valid g"; simp add: defs Let_def)
  qed
qed

theorem data_query_priority_witness:
  "let g = demo_app\<lparr>g_pending_downlink := (HANDLER_LORA, [1, 2]), g_pending_downlink_valid := True\<rparr>;
       g1 = process_data_query demo_env g
   in app_wire g1 = padded (downlink_packet (HANDLER_LORA, [1, 2])) g \<and> \<not> g_pending_downlink_valid g1"
  unfolding Let_def
  using data_query_priority [of "demo_app\<lparr>g_pending_downlink := (HANDLER_LORA, [1, 2]),
      g_pending_downlink_valid := True\<rparr>" demo_env] demo_app_ready
  by (simp add: demo_env_def demo_app_def lan_app_boot_def)

section \<open>Data from the LAN side\<close>

text \<open>A data frame as the LAN side builds it: three type bytes, the length, the data, and
  whatever padding the transaction adds.\<close>

definition dt_frame :: "u8 list \<Rightarrow> u8 list \<Rightarrow> u8 list \<Rightarrow> u8 list" where
  "dt_frame ty dat pad =
     (let n = (word_of_nat (length dat) :: u16)
      in [hi8 HEADER_DT, lo8 HEADER_DT] @ ty @ [hi8 n, lo8 n] @ dat @ pad)"

lemma dt_frame_parts:
  assumes "length ty = 3" and "length dat < 65536"
  shows "[dt_frame ty dat pad ! 2, dt_frame ty dat pad ! 3, dt_frame ty dat pad ! 4] = ty"
    and "be16 (dt_frame ty dat pad ! 5) (dt_frame ty dat pad ! 6) = word_of_nat (length dat)"
    and "drop 7 (dt_frame ty dat pad) = dat @ pad"
    and "length (dt_frame ty dat pad) = 7 + length dat + length pad"
proof -
  obtain a b c where ty: "ty = [a, b, c]"
    using assms(1) by (auto simp: numeral_3_eq_3 length_Suc_conv)
  show "[dt_frame ty dat pad ! 2, dt_frame ty dat pad ! 3, dt_frame ty dat pad ! 4] = ty"
    "be16 (dt_frame ty dat pad ! 5) (dt_frame ty dat pad ! 6) = word_of_nat (length dat)"
    "drop 7 (dt_frame ty dat pad) = dat @ pad"
    "length (dt_frame ty dat pad) = 7 + length dat + length pad"
    by (simp_all add: dt_frame_def ty Let_def)
qed

text \<open>What a complete data frame does.\<close>

lemma data_frame_forwarded:
  assumes "length ty = 3" and "length dat + length pad < 65000" and "malloc_ok env"
    and "mcu_lan_handler_get_config_source env g \<notin> {CMD_SOURCE_UART, CMD_SOURCE_USB, CMD_SOURCE_HTTP}"
    and "\<not> is_config_result_payload (Some (dat @ pad))"
  shows "process_data_from_lan env (dt_frame ty dat pad) (word_of_nat (length (dt_frame ty dat pad))) g =
      (if g_internet_status g = INTERNET_STATUS_ONLINE
       then load_tx (load_free env) [0x02, 0x11, 1] (out [OutUplink (ty @ dat)] g)
       else load_tx (load_free env) [0x02, 0x11, 0] g)"
proof -
  have small: "length dat < 65536" "7 + length dat + length pad < 65536" using assms(2) by auto
  note parts = dt_frame_parts [OF assms(1) small(1), of pad]
  have len: "unat (word_of_nat (length (dt_frame ty dat pad)) :: u16) = 7 + length dat + length pad"
    unfolding parts(4) using small(2) by (rule unat_u16_of_nat)
  have dl: "unat (be16 (dt_frame ty dat pad ! 5) (dt_frame ty dat pad ! 6)) = length dat"
    using small by (simp add: parts(2) unat_u16_of_nat)
  show ?thesis
    using assms(3-5) parts(1,3) len dl
    by (simp add: process_data_from_lan_def downlink_send_ack_to_lan_def Let_def)
qed

text \<open>
  Sensor data reaches the server unchanged. When the gateway is online and the last command
  did not come from a local interface or the web portal, a complete data frame that is no
  configuration result is forwarded as its three type bytes followed by exactly its payload, the
  padding cut off, and acknowledged with the online flag; when the gateway is offline nothing is
  forwarded and the acknowledgement says so; a frame shorter than its length field is ignored.
\<close>

lemma data_forwarded_exactly:
  assumes "length ty = 3" and "length dat + length pad < 65000" and "malloc_ok env"
    and "mcu_lan_handler_get_config_source env g \<notin> {CMD_SOURCE_UART, CMD_SOURCE_USB, CMD_SOURCE_HTTP}"
    and "\<not> is_config_result_payload (Some (dat @ pad))"
  defines "frame \<equiv> dt_frame ty dat pad"
  shows "process_data_from_lan env frame (word_of_nat (length frame)) g =
      (if g_internet_status g = INTERNET_STATUS_ONLINE
       then load_tx (load_free env) [0x02, 0x11, 1] (out [OutUplink (ty @ dat)] g)
       else load_tx (load_free env) [0x02, 0x11, 0] g) \<and>
    (k < length frame - length pad \<longrightarrow>
       process_data_from_lan env (take k frame) (word_of_nat k) g = g)"
proof -
  have small: "length dat < 65536" "7 + length dat + length pad < 65536" using assms(2) by auto
  note parts = dt_frame_parts [OF assms(1) small(1), of pad, folded frame_def]
  have dl: "unat (be16 (frame ! 5) (frame ! 6)) = length dat"
    using small by (simp add: parts(2) unat_u16_of_nat)
  have "process_data_from_lan env frame (word_of_nat (length frame)) g =
      (if g_internet_status g = INTERNET_STATUS_ONLINE
       then load_tx (load_free env) [0x02, 0x11, 1] (out [OutUplink (ty @ dat)] g)
       else load_tx (load_free env) [0x02, 0x11, 0] g)"
    unfolding frame_def by (rule data_frame_forwarded [OF assms(1-5)])
  moreover have "process_data_from_lan env (take k frame) (word_of_nat k) g = g"
    if k: "k < length frame - length pad"
  proof -
    have uk: "unat (word_of_nat k :: u16) = k" using k small parts(4) by (simp add: unat_u16_of_nat)
    show ?thesis
    proof (cases "k < 7")
      case True
      with uk show ?thesis by (simp add: process_data_from_lan_def)
    next
      case False
      then have "take k frame ! 5 = frame ! 5" "take k frame ! 6 = frame ! 6" by simp_all
      with False uk dl k parts(4) show ?thesis by (simp add: process_data_from_lan_def Let_def)
    qed
  qed
  ultimately show ?thesis by simp
qed

lemma data_forwarded_exactly_applied:
  "outs (process_data_from_lan demo_env (dt_frame (ascii ''LOR'') [7, 0, 9] [0, 0])
           (word_of_nat 12) (demo_app\<lparr>g_internet_status := INTERNET_STATUS_ONLINE\<rparr>)) =
     [OutUplink (ascii ''LOR'' @ [7, 0, 9])]"
proof -
  let ?g = "demo_app\<lparr>g_internet_status := INTERNET_STATUS_ONLINE\<rparr>"
  have "mcu_lan_handler_get_config_source demo_env ?g = CMD_SOURCE_MQTT" "outs ?g = []"
    by (simp_all add: mcu_lan_handler_get_config_source_def demo_env_def demo_app_def lan_app_boot_def)
  moreover have "\<not> is_config_result_payload (Some ([7, 0, 9] @ [0, 0]))"
    by (simp add: is_config_result_payload_def starts_with_def cstr_def ascii_def)
  moreover have "length (dt_frame (ascii ''LOR'') [7, 0, 9] [0, 0]) = 12"
    by (simp add: dt_frame_def Let_def)
  moreover have "malloc_ok demo_env" by (simp add: demo_env_def)
  ultimately show ?thesis
    using data_forwarded_exactly [of "ascii ''LOR''" "[7, 0, 9]" "[0, 0]" demo_env ?g] by simp
qed

lemma find_marker_bound:
  "find_marker dat ms = Some i \<Longrightarrow> i \<le> length (cstr dat)"
proof (induction ms)
  case (Cons m ms)
  have "strstr_pos h n = Some k \<Longrightarrow> k \<le> length h" for h n k
    by (induction h arbitrary: k) (auto split: if_splits)
  with Cons show ?case by (auto split: option.splits)
qed simp

text \<open>
  The length of a local response is computed in 16 bits, and a marker found behind the
  declared data makes it wrap: the offset is that of some marker in the C string of the received
  memory, and the length is the declared one less the offset, plus 65536 when the offset is
  larger.
\<close>

lemma local_response_length:
  assumes "length dat < 65536" and "locate_response dat n = (i, len)"
  shows "i \<le> length (cstr dat) \<and>
    unat len = (if i \<le> unat n then unat n - i else 65536 + unat n - i)"
proof -
  have le: "i \<le> length (cstr dat)"
    using assms(2) find_marker_bound by (auto simp: locate_response_def split: option.splits)
  have "length (cstr dat) \<le> length dat" by (simp add: cstr_def length_takeWhile_le)
  with le assms(1) have i: "i < 65536" by linarith
  have len: "len = n - word_of_nat i"
    using assms(2) by (auto simp: locate_response_def split: option.splits)
  have e: "unat (word_of_nat i :: u16) = i" using i by (rule unat_u16_of_nat)
  have "unat len = (if unat (word_of_nat i :: u16) \<le> unat n then unat n - unat (word_of_nat i :: u16)
      else unat n + 2 ^ LENGTH(16) - unat (word_of_nat i :: u16))"
    unfolding len by (rule unat_sub_if')
  also have "\<dots> = (if i \<le> unat n then unat n - i else unat n + 65536 - i)" unfolding e by simp
  also have "unat n + 65536 = 65536 + unat n" by (rule add.commute)
  finally have "unat len = (if i \<le> unat n then unat n - i else 65536 + unat n - i)" .
  with le show ?thesis by simp
qed

text \<open>Two declared bytes, the marker "LR:" starting at the fifth: 65533 bytes go out.\<close>

lemma local_response_length_applied:
  "unat (snd (locate_response ([1, 1, 1, 1, 1] @ ascii ''LR:'' @ [0]) 2)) = 65533"
proof -
  let ?d = "[1, 1, 1, 1, 1] @ ascii ''LR:'' @ [0]"
  have "locate_response ?d 2 = (5, 65533)"
    by (simp add: locate_response_def result_markers_def cstr_def ascii_def)
  with local_response_length [of ?d 2] show ?thesis by (simp add: cstr_def ascii_def)
qed

section \<open>The firmware-update handshake\<close>

text \<open>Once the gateway's own update runs, the flag stays set: nothing clears it.\<close>

definition updating :: "lan_app \<Rightarrow> bool" where
  "updating g \<longleftrightarrow> g_wan_fota_in_progress g"

lemma updating_simps [gw_frame]:
  "updating (load_tx f bs g) = updating g"
  "updating (out os g) = updating g"
  "updating (g\<lparr>g_lan_handle := a1\<rparr>) = updating g"
  "updating (g\<lparr>g_config_cache := a2\<rparr>) = updating g"
  "updating (g\<lparr>g_config_cache_has_config := a3\<rparr>) = updating g"
  "updating (g\<lparr>g_fota_request_pending := a3\<rparr>) = updating g"
  "updating (g\<lparr>g_pending_downlink_valid := a3\<rparr>) = updating g"
  "updating (g\<lparr>g_pending_downlink := a8\<rparr>) = updating g"
  "updating (g\<lparr>g_downlink_queue := a9\<rparr>) = updating g"
  "updating (g\<lparr>g_config_req_state := a4\<rparr>) = updating g"
  "updating (g\<lparr>g_active_config_request_ptr := a3\<rparr>) = updating g"
  "updating (g\<lparr>g_active_config_request_valid := a3\<rparr>) = updating g"
  "updating (g\<lparr>g_config_req_async := a5\<rparr>) = updating g"
  "updating (g\<lparr>g_cached_lan_fw_version := a6\<rparr>) = updating g"
  "updating (g\<lparr>g_cached_wan_fw_version := a6\<rparr>) = updating g"
  "updating (g\<lparr>g_waiting_for_lan_update := a3\<rparr>) = updating g"
  "updating (g\<lparr>g_fota_trigger_pending := a3\<rparr>) = updating g"
  "updating (g\<lparr>g_fota_pending := a3\<rparr>) = updating g"
  "updating (g\<lparr>g_fota_start_sem := a10\<rparr>) = updating g"
  "updating (g\<lparr>g_fota_pending_internet := a3\<rparr>) = updating g"
  "updating (g\<lparr>g_pending_lan_version_for_fota := a6\<rparr>) = updating g"
  "updating (g\<lparr>g_prev_internet_status := a7\<rparr>) = updating g"
  "updating (g\<lparr>g_internet_status := a7\<rparr>) = updating g"
  "updating (g\<lparr>g_lan_fota_wait_start_tick := a6\<rparr>) = updating g"
  "updating (g\<lparr>g_wan_fota_in_progress := True\<rparr>) = True"
  by (simp_all add: updating_def load_tx_def out_def)

lemma updating_receiveD: "receive_packet qf qok res g = (st, pkt, g1) \<Longrightarrow> updating g1 = updating g"
  by (auto simp: receive_packet_def Let_def gw_frame split: prod.splits)

lemma updating_downlink [gw_frame]:
  "updating (signal_data_ready g) = updating g"
  "updating (clear_data_ready g) = updating g"
  "updating (downlink_send_rtc_response env g) = updating g"
  "updating (downlink_send_ack_to_lan env a fl g) = updating g"
  "updating (downlink_handle_config_request env g) = updating g"
  "updating (ack_received env g) = updating g"
  "updating (publish_result env src resp g) = updating g"
  "updating (send_fota_trigger_to_lan g) = updating g"
  "updating (start_fota_ap env g) = updating g"
  by (simp_all add: signal_data_ready_def clear_data_ready_def downlink_send_rtc_response_def
      downlink_send_ack_to_lan_def downlink_handle_config_request_def ack_received_def
      publish_result_def mcu_lan_handler_take_config_result_waiter_def send_fota_trigger_to_lan_def
      start_fota_ap_def case_prod_beta Let_def gw_frame)

lemma updating_trigger: "updating g \<Longrightarrow> updating (trigger_lan_fota_if_needed env v g)"
  by (simp add: trigger_lan_fota_if_needed_def Let_def updating_def)

lemma updating_handshake: "updating g \<Longrightarrow> updating (process_handshake env p len g)"
  by (simp add: process_handshake_def Let_def gw_frame updating_trigger)

lemma updating_query: "updating (process_data_query env g) = updating g"
proof -
  have "updating (snd (await_ack n rs h)) = updating h" for n rs h
    using await_ack_handle [of n rs h] by (metis updating_simps(3))
  then show ?thesis
    by (simp add: process_data_query_def send_downlink_to_lan_def case_prod_beta Let_def gw_frame)
qed

lemma updating_dispatch: "updating g \<Longrightarrow> updating (dispatch_frame env pkt g)"
  by (simp add: dispatch_frame_def Let_def gw_frame updating_handshake updating_query
      process_data_from_lan_def process_config_query_def case_prod_beta split: option.splits)

lemma updating_iteration: "updating g \<Longrightarrow> updating (uplink_iteration ms2t env g)"
proof -
  assume u: "updating g"
  let ?g = "check_pending_fota env (check_fota_timeout ms2t env g)"
  have "updating ?g" using u by (simp add: check_fota_timeout_def check_pending_fota_def Let_def gw_frame)
  moreover obtain st pkt g1 where
    r: "receive_packet (rxq_free env) (rxq_ok env) (rx env) ?g = (st, pkt, g1)" by (metis prod_cases3)
  ultimately have "updating g1" using updating_receiveD by blast
  then show "updating (uplink_iteration ms2t env g)"
    using r by (simp add: uplink_iteration_def Let_def gw_frame updating_dispatch)
qed

lemma updating_step: "updating g \<Longrightarrow> updating (app_step ms2t e g)"
  by (cases e)
     (auto simp: updating_iteration fota_task_iteration_def mcu_lan_enqueue_downlink_def
        mcu_lan_handler_update_config_def mcu_lan_handler_set_internet_status_def
        request_config_begin_def request_config_end_def gw_frame split: option.splits)

interpretation upd: invariant_step "app_step ms2t" updating for ms2t
  by unfold_locales (rule updating_step)

text \<open>
  The gateway updates itself only after the LAN side has, and then goes silent. A handshake
  starts the gateway's own update exactly when the handler was waiting for the LAN update; it is
  not acknowledged. From then on, in every run until the next restart, the update flag stays set
  and no handshake that finds the handler not waiting is acknowledged or triggers anything: it
  leaves the state as it is.
\<close>

lemma fota_handshake_order:
  assumes "length p \<ge> 7" and "unat len \<ge> 7"
  shows "(OutFotaTaskStart \<in> set (drop (length (outs g)) (outs (process_handshake env p len g)))
            \<longleftrightarrow> g_waiting_for_lan_update g) \<and>
    (g_waiting_for_lan_update g \<longrightarrow> app_wire (process_handshake env p len g) = app_wire g \<and>
       (let g1 = fold (app_step ms2t) evs (process_handshake env p len g)
        in updating g1 \<and>
           (\<not> g_waiting_for_lan_update g1 \<longrightarrow> process_handshake env' p len g1 = g1)))"
proof -
  have len: "\<not> len < 7" using assms(2) by (simp add: word_less_nat_alt)
  have trig: "\<exists>os. outs (trigger_lan_fota_if_needed env v g) = outs g @ os \<and> OutFotaTaskStart \<notin> set os" for v
    by (simp add: trigger_lan_fota_if_needed_def Let_def send_fota_trigger_to_lan_def start_fota_ap_def out_def)
  show ?thesis
  proof (cases "g_waiting_for_lan_update g")
    case True
    then have u: "updating (process_handshake env p len g)"
      using len by (simp add: process_handshake_def gw_frame updating_def)
    have "updating (fold (app_step ms2t) evs (process_handshake env p len g))"
      using u by (rule upd.run_inv)
    then show ?thesis
      using True len by (simp add: process_handshake_def Let_def) (simp add: updating_def)
  next
    case False
    with trig [of "lan_version_of p"] len show ?thesis
      by (auto simp: process_handshake_def Let_def)
  qed
qed

text \<open>The LAN side comes back from its update, the gateway starts its own, and the next
  handshake of the LAN side is ignored.\<close>

definition handshake_frame :: "u8 list" where
  "handshake_frame = [0x43, 0x46, 0x01, 2, 1, 1, 0]"

lemma fota_handshake_order_applied:
  "let g = demo_app\<lparr>g_waiting_for_lan_update := True\<rparr>;
       g1 = process_handshake demo_env handshake_frame 7 g
   in OutFotaTaskStart \<in> set (outs g1) \<and> process_handshake demo_env handshake_frame 7 g1 = g1"
proof -
  let ?g = "demo_app\<lparr>g_waiting_for_lan_update := True\<rparr>"
  let ?g1 = "process_handshake demo_env handshake_frame 7 ?g"
  have l: "length handshake_frame \<ge> 7" "unat (7 :: u16) \<ge> 7" by (simp_all add: handshake_frame_def)
  note t = fota_handshake_order [OF l, of ?g demo_env "\<lambda>ms. ms" "[]" demo_env]
  have "outs ?g = []" by (simp add: demo_app_def lan_app_boot_def)
  moreover have "\<not> g_waiting_for_lan_update ?g1" by (simp add: process_handshake_def out_def)
  ultimately show ?thesis using t by (simp add: Let_def)
qed

end
