(* ===== verification/Config_Task.thy ===== *)
theory Config_Task
  imports Config_NVS Lan_Uplink
begin

text \<open>
  \<open>Application/Config_Handler/src/config_handler.c\<close>, the task that executes configuration
  commands, the publication of their results and the access functions of the contexts. A command
  for the LAN side is handed to \<open>mcu_lan_handler_update_config\<close>, and its answer comes with a LAN
  frame (\<open>process_data_from_lan\<close>), which calls \<open>config_handler_publish_result_from_line\<close>.

  The properties: a command this task keeps is answered once on each way its sender has, a refused
  command changes nothing, what a command sets survives a restart, except the MQTT numbers, which are
  dropped.
\<close>

section \<open>Commands, state and outputs\<close>

record config_command =
  cc_type :: config_type
  raw_data :: "u8 list"
  data_len :: u16
  cc_source :: command_source
  cc_waiter :: "nat option"

datatype cfg_out =
    CfgWaiter nat bool "u8 list"        \<comment> \<open>a waiter is filled in and released\<close>
  | CfgUartResult bool "u8 list"
  | CfgWifiQueue wifi_config_data | CfgMqttQueue mqtt_config_data | CfgLteQueue lte_config_data
  | CfgServerStop server_type | CfgServerStart server_type
  | CfgFotaTask | CfgRestart

record task_st =
  cfg :: cfg_st
  lan :: lan_app
  wifi_queue :: bool                    \<comment> \<open>the queue exists\<close>
  mqtt_queue :: bool
  lte_queue :: bool
  handler_queue :: bool
  context_mutex :: bool
  handler_running :: bool
  cfg_outs :: "cfg_out list"

definition cout :: "cfg_out list \<Rightarrow> task_st \<Rightarrow> task_st" where
  "cout os s = s\<lparr>cfg_outs := cfg_outs s @ os\<rparr>"

section \<open>Results\<close>

definition contains :: "u8 list \<Rightarrow> string \<Rightarrow> bool" where
  "contains m t \<longleftrightarrow> strstr_pos (cstr m) (ascii t) \<noteq> None"

definition config_result_is_success_message :: "u8 list option \<Rightarrow> bool" where
  "config_result_is_success_message message =
     (case message of None \<Rightarrow> False
      | Some m \<Rightarrow>
          if byte_at m 0 = 0 then False
          else if contains m '':FAIL'' \<or> contains m ''ERROR'' \<or> contains m ''QUEUE_FULL'' \<or>
                  contains m ''INVALID'' then False
          else contains m '':OK'' \<or> contains m ''SUCCESS'')"

definition config_result_signal_waiter :: "nat option \<Rightarrow> bool \<Rightarrow> u8 list option \<Rightarrow> cfg_out list" where
  "config_result_signal_waiter waiter success message =
     (case waiter of None \<Rightarrow> []
      | Some w \<Rightarrow>
          [CfgWaiter w success
             (case message of
                Some m \<Rightarrow> if byte_at m 0 \<noteq> 0 then take 127 (cstr m) else ascii ''UNKNOWN''
              | None \<Rightarrow> ascii ''UNKNOWN'')])"

definition config_handler_publish_result ::
  "command_source \<Rightarrow> nat option \<Rightarrow> bool \<Rightarrow> u8 list option \<Rightarrow> cfg_out list" where
  "config_handler_publish_result source waiter success message =
     config_result_signal_waiter waiter success message @
     (if source = CMD_SOURCE_UART
      then [CfgUartResult success
              (case message of Some m \<Rightarrow> if byte_at m 0 \<noteq> 0 then cstr m else ascii ''UNKNOWN''
               | None \<Rightarrow> ascii ''UNKNOWN'')]
      else [])"

definition config_handler_publish_result_from_line ::
  "command_source \<Rightarrow> nat option \<Rightarrow> u8 list option \<Rightarrow> cfg_out list" where
  "config_handler_publish_result_from_line source waiter response_line =
     config_result_signal_waiter waiter (config_result_is_success_message response_line) response_line"

section \<open>Access to the contexts\<close>

text \<open>\<open>free\<close>: the mutex was taken within its second. A context is copied out or in whole.\<close>

definition config_get_wifi_safe :: "bool \<Rightarrow> task_st \<Rightarrow> esp_err + wifi_config_context" where
  "config_get_wifi_safe free s =
     (if \<not> context_mutex s then Inl ESP_ERR_INVALID_STATE
      else if free then Inr (g_wifi_ctx (cfg s)) else Inl ESP_ERR_TIMEOUT)"

definition config_get_lte_safe :: "bool \<Rightarrow> task_st \<Rightarrow> esp_err + lte_config_context" where
  "config_get_lte_safe free s =
     (if \<not> context_mutex s then Inl ESP_ERR_INVALID_STATE
      else if free then Inr (g_lte_ctx (cfg s)) else Inl ESP_ERR_TIMEOUT)"

definition config_get_mqtt_safe :: "bool \<Rightarrow> task_st \<Rightarrow> esp_err + mqtt_config_data" where
  "config_get_mqtt_safe free s =
     (if \<not> context_mutex s then Inl ESP_ERR_INVALID_STATE
      else if free then Inr (g_mqtt_ctx (cfg s)) else Inl ESP_ERR_TIMEOUT)"

text \<open>The update of the Wi-Fi context copies the bytes of one structure over another whose
  three arrays of 64 bytes come in a different order.\<close>

definition config_update_wifi_safe :: "bool \<Rightarrow> wifi_config_data \<Rightarrow> task_st \<Rightarrow> esp_err \<times> task_st" where
  "config_update_wifi_safe free new s =
     (if \<not> context_mutex s then (ESP_ERR_INVALID_STATE, s)
      else if free
      then (ESP_OK, s\<lparr>cfg := (cfg s)\<lparr>g_wifi_ctx :=
              \<lparr>wx_ssid = wf_username new, wx_pass = wf_ssid new, wx_username = wf_password new,
               wx_auth_mode = wf_auth_mode new\<rparr>\<rparr>\<rparr>)
      else (ESP_ERR_TIMEOUT, s))"

definition config_update_lte_safe :: "bool \<Rightarrow> lte_config_data \<Rightarrow> task_st \<Rightarrow> esp_err \<times> task_st" where
  "config_update_lte_safe free new s =
     (if \<not> context_mutex s then (ESP_ERR_INVALID_STATE, s)
      else if free
      then
        let ctx = g_lte_ctx (cfg s); old = lx_cfg ctx
        in (ESP_OK, s\<lparr>cfg := (cfg s)\<lparr>g_lte_ctx := ctx\<lparr>lx_cfg :=
              new\<lparr>lt_modem_name := strncpy 31 (lt_modem_name old) (lt_modem_name new),
                  lt_apn := strncpy 63 (lt_apn old) (lt_apn new),
                  lt_username := strncpy 31 (lt_username old) (lt_username new),
                  lt_password := strncpy 31 (lt_password old) (lt_password new)\<rparr>\<rparr>\<rparr>\<rparr>)
      else (ESP_ERR_TIMEOUT, s))"

definition config_update_mqtt_safe :: "bool \<Rightarrow> mqtt_config_data \<Rightarrow> task_st \<Rightarrow> esp_err \<times> task_st" where
  "config_update_mqtt_safe free new s =
     (if \<not> context_mutex s then (ESP_ERR_INVALID_STATE, s)
      else if free then (ESP_OK, s\<lparr>cfg := (cfg s)\<lparr>g_mqtt_ctx := new\<rparr>\<rparr>)
      else (ESP_ERR_TIMEOUT, s))"

section \<open>Executing a command\<close>

text \<open>What a branch leaves behind: success, deferred, restart and the message.\<close>

type_synonym outcome = "bool \<times> bool \<times> bool \<times> u8 list"

definition ok :: "string \<Rightarrow> outcome" where
  "ok m = (True, False, False, ascii m)"

definition failed :: "string \<Rightarrow> outcome" where
  "failed m = (False, False, False, ascii m)"

text \<open>\<open>strncpy(a, s, sizeof(a) - 1); a[sizeof(a) - 1] = 0\<close>\<close>

definition set_str :: "nat \<Rightarrow> u8 list \<Rightarrow> u8 list \<Rightarrow> u8 list" where
  "set_str n a s = (strncpy (n - 1) a s)[n - 1 := 0]"

definition exec_wifi :: "nvs_drv \<Rightarrow> config_command \<Rightarrow> task_st \<Rightarrow> outcome \<times> task_st" where
  "exec_wifi drv cmd s =
     (case config_parse_wifi (raw_data cmd) (data_len cmd) of
        None \<Rightarrow> (failed ''WF:FAIL:PARSE'', s)
      | Some c \<Rightarrow>
          let x = g_wifi_ctx (cfg s);
              x' = \<lparr>wx_ssid = set_str 64 (wx_ssid x) (wf_ssid c), wx_pass = set_str 64 (wx_pass x) (wf_password c),
                    wx_username = set_str 64 (wx_username x) (wf_username c),
                    wx_auth_mode = wf_auth_mode c\<rparr>;
              s1 = s\<lparr>cfg := snd (save_wifi_config_to_nvs drv ((cfg s)\<lparr>g_wifi_ctx := x'\<rparr>))\<rparr>
          in (ok ''WF:OK'', if wifi_queue s1 then cout [CfgWifiQueue c] s1 else s1))"

definition exec_mqtt :: "nvs_drv \<Rightarrow> config_command \<Rightarrow> task_st \<Rightarrow> outcome \<times> task_st" where
  "exec_mqtt drv cmd s =
     (case config_parse_mqtt (g_mqtt_ctx (cfg s)) (raw_data cmd) (data_len cmd) of
        None \<Rightarrow> (failed ''MQ:FAIL:PARSE'', s)
      | Some c \<Rightarrow>
          let x = g_mqtt_ctx (cfg s);
              x' = x\<lparr>mq_broker_uri := set_str 128 (mq_broker_uri x) (mq_broker_uri c),
                     mq_device_token := set_str 65 (mq_device_token x) (mq_device_token c),
                     mq_subscribe_topic := set_str 128 (mq_subscribe_topic x) (mq_subscribe_topic c),
                     mq_publish_topic := set_str 128 (mq_publish_topic x) (mq_publish_topic c),
                     mq_attribute_topic := set_str 128 (mq_attribute_topic x) (mq_attribute_topic c)\<rparr>;
              s1 = s\<lparr>cfg := snd (save_mqtt_config_to_nvs drv ((cfg s)\<lparr>g_mqtt_ctx := x'\<rparr>))\<rparr>
          in (ok ''MQ:OK'', if mqtt_queue s1 then cout [CfgMqttQueue c] s1 else s1))"

definition exec_lte :: "nvs_drv \<Rightarrow> config_command \<Rightarrow> task_st \<Rightarrow> outcome \<times> task_st" where
  "exec_lte drv cmd s =
     (case config_parse_lte (raw_data cmd) (data_len cmd) of
        None \<Rightarrow> (failed ''LT:FAIL:PARSE'', s)
      | Some c \<Rightarrow>
          let ctx = g_lte_ctx (cfg s); x = lx_cfg ctx;
              x' = c\<lparr>lt_apn := set_str 64 (lt_apn x) (lt_apn c),
                     lt_username := set_str 32 (lt_username x) (lt_username c),
                     lt_password := set_str 32 (lt_password x) (lt_password c),
                     lt_modem_name := set_str 32 (lt_modem_name x) (lt_modem_name c)\<rparr>;
              s1 = s\<lparr>cfg := snd (save_lte_config_to_nvs drv ((cfg s)\<lparr>g_lte_ctx := ctx\<lparr>lx_cfg := x'\<rparr>\<rparr>))\<rparr>
          in (ok ''LT:OK'', if lte_queue s1 then cout [CfgLteQueue c] s1 else s1))"

definition exec_set_url :: "nvs_drv \<Rightarrow> config_command \<Rightarrow> task_st \<Rightarrow> outcome \<times> task_st" where
  "exec_set_url drv cmd s =
     (if data_len cmd > 3 \<and> byte_at (raw_data cmd) 2 = COLON
      then
        let url = drop 3 (raw_data cmd)
        in if byte_at url 0 \<noteq> 0
           then (ok ''FU:OK'', s\<lparr>cfg := fota_handler_set_url drv url (cfg s)\<rparr>)
           else (failed ''FU:FAIL:EMPTY'', s)
      else (failed ''FU:FAIL:FORMAT'', s))"

definition exec_update_firmware :: "nvs_drv \<Rightarrow> config_command \<Rightarrow> task_st \<Rightarrow> outcome \<times> task_st" where
  "exec_update_firmware drv cmd s =
     (let s1 =
            (if data_len cmd > 3 \<and> byte_at (raw_data cmd) 2 = COLON
             then
               let url = drop 3 (raw_data cmd)
               in if byte_at url 0 \<noteq> 0 then s\<lparr>cfg := fota_handler_set_url drv url (cfg s)\<rparr> else s
             else s)
      in (ok ''FW:OK'', cout [CfgFotaTask] s1))"

definition exec_internet :: "nvs_drv \<Rightarrow> config_command \<Rightarrow> task_st \<Rightarrow> outcome \<times> task_st" where
  "exec_internet drv cmd s =
     (let (r, inet) = config_parse_internet (lt_apn (lx_cfg (g_lte_ctx (cfg s))))
                        (raw_data cmd) (data_len cmd) (g_inet (cfg s));
          s1 = s\<lparr>cfg := (cfg s)\<lparr>g_inet := inet\<rparr>\<rparr>
      in case r of
           None \<Rightarrow> (failed ''IN:FAIL:PARSE'', s1)
         | Some t \<Rightarrow>
             ((True, False, True, ascii ''IN:OK''),
              s1\<lparr>cfg := snd (save_internet_config_to_nvs drv ((cfg s1)\<lparr>g_internet_type := t\<rparr>))\<rparr>))"

text \<open>A LAN command goes on without its three-byte prefix; one that starts with CFFW starts the
  access point of the LAN update first.\<close>

definition exec_mcu_lan :: "lan_env \<Rightarrow> config_command \<Rightarrow> task_st \<Rightarrow> outcome \<times> task_st" where
  "exec_mcu_lan env cmd s =
     (if data_len cmd > 5
      then
        let n = unat (data_len cmd - 3)
        in if n > 16384 then (failed ''ML:FAIL:TOO_LARGE'', s)
           else if \<not> malloc_ok env then (failed ''ML:FAIL:NO_MEM'', s)
           else
             let command = bytes_at (raw_data cmd) 3 n;
                 fota = (n \<ge> 4 \<and> has_prefix command 0 ''CFFW'');
                 lan1 = (if fota then start_fota_ap env (lan s) else lan s);
                 (accepted, lan2) = mcu_lan_handler_update_config env (Some command) fota
                     (cc_source cmd) (cc_waiter cmd) lan1
             in (if accepted then (False, True, False, ascii ''CONFIG:FAIL:UNKNOWN'')
                 else failed ''ML:FAIL:FORWARD'', s\<lparr>lan := lan2\<rparr>)
      else (failed ''ML:FAIL:FORMAT'', s))"

definition exec_server :: "nvs_drv \<Rightarrow> config_command \<Rightarrow> task_st \<Rightarrow> outcome \<times> task_st" where
  "exec_server drv cmd s =
     (case config_parse_server_type (raw_data cmd) (data_len cmd) of
        None \<Rightarrow> (failed ''SV:FAIL:PARSE'', s)
      | Some t \<Rightarrow>
          (ok ''SV:OK'',
           if t \<noteq> g_server_type (cfg s)
           then
             let s1 = cout [CfgServerStop (g_server_type (cfg s))] s;
                 s2 = s1\<lparr>cfg := snd (save_server_config_to_nvs drv ((cfg s1)\<lparr>g_server_type := t\<rparr>))\<rparr>
             in cout [CfgServerStart (g_server_type (cfg s2))] s2
           else s))"

definition http_handler_update_config :: "http_config_data \<Rightarrow> cfg_st \<Rightarrow> cfg_st" where
  "http_handler_update_config c s = s\<lparr>g_http_cfg := c\<rparr>"

definition coap_handler_update_config :: "coap_config_data \<Rightarrow> cfg_st \<Rightarrow> cfg_st" where
  "coap_handler_update_config c s = s\<lparr>g_coap_cfg := c\<rparr>"

definition exec_http :: "nvs_drv \<Rightarrow> config_command \<Rightarrow> task_st \<Rightarrow> outcome \<times> task_st" where
  "exec_http drv cmd s =
     (case config_parse_http (raw_data cmd) (data_len cmd) of
        None \<Rightarrow> (failed ''HP:FAIL:PARSE'', s)
      | Some c \<Rightarrow>
          let g = snd (save_http_config_to_nvs drv ((cfg s)\<lparr>g_http_cfg := c\<rparr>))
          in (ok ''HP:OK'', s\<lparr>cfg := http_handler_update_config (g_http_cfg g) g\<rparr>))"

definition exec_coap :: "nvs_drv \<Rightarrow> config_command \<Rightarrow> task_st \<Rightarrow> outcome \<times> task_st" where
  "exec_coap drv cmd s =
     (case config_parse_coap (raw_data cmd) (data_len cmd) of
        None \<Rightarrow> (failed ''CP:FAIL:PARSE'', s)
      | Some c \<Rightarrow>
          let g = snd (save_coap_config_to_nvs drv ((cfg s)\<lparr>g_coap_cfg := c\<rparr>))
          in (ok ''CP:OK'', s\<lparr>cfg := coap_handler_update_config (g_coap_cfg g) g\<rparr>))"

fun exec :: "nvs_drv \<Rightarrow> lan_env \<Rightarrow> config_command \<Rightarrow> task_st \<Rightarrow> outcome \<times> task_st" where
  "exec drv env cmd s =
     (case cc_type cmd of
        CONFIG_TYPE_WIFI \<Rightarrow> exec_wifi drv cmd s
      | CONFIG_TYPE_MQTT \<Rightarrow> exec_mqtt drv cmd s
      | CONFIG_SET_FIRMWARE_URL \<Rightarrow> exec_set_url drv cmd s
      | CONFIG_UPDATE_FIRMWARE \<Rightarrow> exec_update_firmware drv cmd s
      | CONFIG_TYPE_INTERNET \<Rightarrow> exec_internet drv cmd s
      | CONFIG_TYPE_LTE \<Rightarrow> exec_lte drv cmd s
      | CONFIG_TYPE_MCU_LAN \<Rightarrow> exec_mcu_lan env cmd s
      | CONFIG_TYPE_SERVER \<Rightarrow> exec_server drv cmd s
      | CONFIG_TYPE_HTTP \<Rightarrow> exec_http drv cmd s
      | CONFIG_TYPE_COAP \<Rightarrow> exec_coap drv cmd s
      | CONFIG_TYPE_UNKNOWN \<Rightarrow> (failed ''CONFIG:FAIL:UNKNOWN_TYPE'', s))"

text \<open>One turn of the task: the command, its answer unless the LAN side gives it, and the
  restart.\<close>

definition config_handler_task :: "nvs_drv \<Rightarrow> lan_env \<Rightarrow> config_command option \<Rightarrow> task_st \<Rightarrow> task_st" where
  "config_handler_task drv env received s =
     (case received of
        None \<Rightarrow> s
      | Some cmd \<Rightarrow>
          let ((success, deferred, restart, message), s1) = exec drv env cmd s;
              s2 = (if \<not> deferred
                    then cout (config_handler_publish_result (cc_source cmd) (cc_waiter cmd) success
                           (Some message)) s1
                    else s1)
          in if restart then cout [CfgRestart] s2 else s2)"

text \<open>Start and stop. The booleans say which queues could be created, and the mutex; the task
  itself may fail to start for lack of memory, the flag stays set.\<close>

definition config_handler_task_start :: "bool \<Rightarrow> bool \<Rightarrow> bool \<Rightarrow> bool \<Rightarrow> bool \<Rightarrow> task_st \<Rightarrow> task_st" where
  "config_handler_task_start q w m l mx s =
     (if handler_running s then s
      else
        let s1 = s\<lparr>handler_queue := handler_queue s \<or> q, wifi_queue := wifi_queue s \<or> w,
                   mqtt_queue := mqtt_queue s \<or> m, lte_queue := lte_queue s \<or> l\<rparr>
        in if \<not> context_mutex s1 \<and> \<not> mx then s1
           else s1\<lparr>context_mutex := True, handler_running := True\<rparr>)"

definition config_handler_task_stop :: "task_st \<Rightarrow> task_st" where
  "config_handler_task_stop s = s\<lparr>handler_running := False, context_mutex := False\<rparr>"

section \<open>One answer on each way\<close>

fun answers :: "cfg_out \<Rightarrow> bool" where
  "answers (CfgWaiter w b m) = True"
| "answers (CfgUartResult b m) = True"
| "answers _ = False"

text \<open>A branch emits neither an answer nor a restart: that is the task's part.\<close>

definition silent :: "task_st \<Rightarrow> task_st \<Rightarrow> bool" where
  "silent s s1 \<longleftrightarrow> (\<exists>os. cfg_outs s1 = cfg_outs s @ os \<and> filter answers os = [] \<and> CfgRestart \<notin> set os)"

lemma silentI: "cfg_outs s1 = cfg_outs s @ os \<Longrightarrow> filter answers os = [] \<Longrightarrow> CfgRestart \<notin> set os \<Longrightarrow> silent s s1"
  by (auto simp: silent_def)

lemma silent_same [simp]: "cfg_outs s1 = cfg_outs s \<Longrightarrow> silent s s1"
  by (simp add: silent_def)

lemmas exec_defs = exec_wifi_def exec_mqtt_def exec_lte_def exec_set_url_def exec_update_firmware_def
  exec_internet_def exec_mcu_lan_def exec_server_def exec_http_def exec_coap_def

lemma cout_fields [simp]:
  "cfg (cout os s) = cfg s" "lan (cout os s) = lan s" "cfg_outs (cout os s) = cfg_outs s @ os"
  by (simp_all add: cout_def)

lemma silent_branches:
  "silent s (snd (exec_wifi drv cmd s))" "silent s (snd (exec_mqtt drv cmd s))"
  "silent s (snd (exec_lte drv cmd s))" "silent s (snd (exec_set_url drv cmd s))"
  "silent s (snd (exec_update_firmware drv cmd s))" "silent s (snd (exec_internet drv cmd s))"
  "silent s (snd (exec_mcu_lan env cmd s))" "silent s (snd (exec_server drv cmd s))"
  "silent s (snd (exec_http drv cmd s))" "silent s (snd (exec_coap drv cmd s))"
  by (auto simp: exec_defs silent_def Let_def split: option.split prod.split)

lemma exec_silent: "silent s (snd (exec drv env cmd s))"
  by (cases "cc_type cmd") (simp_all add: silent_branches)

text \<open>The messages of the branches: short texts, whose wording agrees with the flag.\<close>

definition fair :: "outcome \<Rightarrow> bool" where
  "fair r = (case r of (success, deferred, restart, m) \<Rightarrow>
     0 \<notin> set m \<and> m \<noteq> [] \<and> length m < 128 \<and>
     success = config_result_is_success_message (Some m) \<and> \<not> (success \<and> deferred))"

lemma fair_ok:
  "fair (ok ''WF:OK'')" "fair (ok ''MQ:OK'')" "fair (ok ''LT:OK'')" "fair (ok ''FU:OK'')" "fair (ok ''FW:OK'')"
  "fair (ok ''SV:OK'')" "fair (ok ''HP:OK'')" "fair (ok ''CP:OK'')" "fair (True, False, True, ascii ''IN:OK'')"
  by (code_simp)+

lemma fair_failed:
  "fair (failed ''WF:FAIL:PARSE'')" "fair (failed ''MQ:FAIL:PARSE'')" "fair (failed ''LT:FAIL:PARSE'')"
  "fair (failed ''FU:FAIL:EMPTY'')" "fair (failed ''FU:FAIL:FORMAT'')" "fair (failed ''IN:FAIL:PARSE'')"
  "fair (failed ''ML:FAIL:TOO_LARGE'')" "fair (failed ''ML:FAIL:NO_MEM'')" "fair (failed ''ML:FAIL:FORWARD'')"
  "fair (failed ''ML:FAIL:FORMAT'')" "fair (failed ''SV:FAIL:PARSE'')" "fair (failed ''HP:FAIL:PARSE'')"
  "fair (failed ''CP:FAIL:PARSE'')" "fair (failed ''CONFIG:FAIL:UNKNOWN_TYPE'')"
  "fair (False, True, False, ascii ''CONFIG:FAIL:UNKNOWN'')"
  by (code_simp)+

lemma fair_branches:
  "fair (fst (exec_wifi drv cmd s))" "fair (fst (exec_mqtt drv cmd s))"
  "fair (fst (exec_lte drv cmd s))" "fair (fst (exec_set_url drv cmd s))"
  "fair (fst (exec_update_firmware drv cmd s))" "fair (fst (exec_internet drv cmd s))"
  "fair (fst (exec_mcu_lan env cmd s))" "fair (fst (exec_server drv cmd s))"
  "fair (fst (exec_http drv cmd s))" "fair (fst (exec_coap drv cmd s))"
  by (simp_all add: exec_defs Let_def fair_ok fair_failed split: option.split prod.split)

lemma exec_fair: "fair (fst (exec drv env cmd s))"
  by (cases "cc_type cmd") (simp_all add: fair_branches fair_failed)

lemma cstr_free: "0 \<notin> set m \<Longrightarrow> cstr m = m"
  by (induction m) (auto simp: cstr_def)

lemma publish_fair:
  assumes "fair (success, deferred, restart, m)"
  shows "config_handler_publish_result src w success (Some m) =
    (case w of None \<Rightarrow> [] | Some n \<Rightarrow> [CfgWaiter n success m]) @
    (if src = CMD_SOURCE_UART then [CfgUartResult success m] else [])"
proof -
  have z: "0 \<notin> set m" and ne: "m \<noteq> []" and len: "length m < 128" using assms by (simp_all add: fair_def)
  then have "byte_at m 0 \<noteq> 0" by (cases m) (auto simp: byte_at_def)
  moreover have "take 127 (cstr m) = m" using len by (simp add: cstr_free [OF z])
  ultimately show ?thesis
    by (simp add: config_handler_publish_result_def config_result_signal_waiter_def cstr_free [OF z]
        split: option.split)
qed

text \<open>The command that the LAN side takes over.\<close>

definition ml_accepted :: "lan_env \<Rightarrow> config_command \<Rightarrow> bool" where
  "ml_accepted env cmd \<longleftrightarrow> cc_type cmd = CONFIG_TYPE_MCU_LAN \<and> 5 < data_len cmd \<and>
     unat (data_len cmd - 3) \<le> 16384 \<and> malloc_ok env \<and> cfg_free env \<and> 3 < length (raw_data cmd)"

lemma exec_deferred: "fst (snd (fst (exec drv env cmd s))) = ml_accepted env cmd"
proof (cases "cc_type cmd = CONFIG_TYPE_MCU_LAN")
  case True
  have "unat (data_len cmd - 3) \<le> 16384 \<Longrightarrow>
      length (bytes_at (raw_data cmd) 3 (unat (data_len cmd - 3))) \<le> 16384"
    using length_bytes_at le_trans by blast
  moreover have "5 < data_len cmd \<Longrightarrow> 0 < unat (data_len cmd - 3)" by unat_arith
  ultimately show ?thesis using True
    by (auto simp: exec_mcu_lan_def ml_accepted_def mcu_lan_handler_update_config_def failed_def
        bytes_at_def Let_def split: prod.split)
next
  case False
  then show ?thesis
    by (cases "cc_type cmd")
      (auto simp: exec_defs ok_def failed_def ml_accepted_def Let_def split: option.split prod.split)
qed

text \<open>
  C2. No command is answered twice on the same way, and none is left out that this task keeps. Exactly the
  LAN commands that the LAN handler accepts get no answer in this turn: their content, source and waiter are
  then in its configuration cache. Any other command gets one answer on each way its sender has: its
  waiter, if it brought one, is filled in and released once, and a command from the UART gets one line
  there; a command with a waiter from the UART gets both, one with neither gets none. The answers carry
  the whole message and the success flag, and the flag agrees with what a reader of the message's
  wording would conclude.
\<close>

theorem command_answered_once:
  fixes drv env cmd s
  defines "s' \<equiv> config_handler_task drv env (Some cmd) s"
  shows "\<exists>success message.
      filter answers (cfg_outs s') = filter answers (cfg_outs s) @
        (if ml_accepted env cmd then []
         else (case cc_waiter cmd of None \<Rightarrow> [] | Some w \<Rightarrow> [CfgWaiter w success message]) @
              (if cc_source cmd = CMD_SOURCE_UART then [CfgUartResult success message] else [])) \<and>
      success = config_result_is_success_message (Some message) \<and>
      (ml_accepted env cmd \<longrightarrow> g_config_cache_has_config (lan s') \<and> (\<exists>fota.
         g_config_cache (lan s') =
           \<lparr>config_data = bytes_at (raw_data cmd) 3 (unat (data_len cmd - 3)), has_config = True,
            is_fota = fota, cmd_source = cc_source cmd, result_waiter = cc_waiter cmd\<rparr>))"
proof -
  obtain success deferred restart message s1 where e: "exec drv env cmd s = ((success, deferred, restart, message), s1)"
    by (metis prod.collapse)
  have fair: "fair (success, deferred, restart, message)" using exec_fair [of drv env cmd s] unfolding e by simp
  have d: "deferred = ml_accepted env cmd" using exec_deferred [of drv env cmd s] unfolding e by simp
  obtain os where os: "cfg_outs s1 = cfg_outs s @ os" "filter answers os = []"
    using exec_silent [of s drv env cmd] unfolding e silent_def by auto
  have lan: "lan s' = lan s1" unfolding s'_def config_handler_task_def option.case e prod.case Let_def by simp
  have "ml_accepted env cmd \<Longrightarrow> g_config_cache_has_config (lan s1) \<and> (\<exists>fota.
      g_config_cache (lan s1) =
        \<lparr>config_data = bytes_at (raw_data cmd) 3 (unat (data_len cmd - 3)), has_config = True,
         is_fota = fota, cmd_source = cc_source cmd, result_waiter = cc_waiter cmd\<rparr>)"
    using e d by (auto simp: ml_accepted_def exec_mcu_lan_def mcu_lan_handler_update_config_def
        signal_data_ready_def failed_def Let_def split: if_splits prod.splits option.splits)
  moreover have "filter answers (cfg_outs s') = filter answers (cfg_outs s) @
        (if ml_accepted env cmd then []
         else (case cc_waiter cmd of None \<Rightarrow> [] | Some w \<Rightarrow> [CfgWaiter w success message]) @
              (if cc_source cmd = CMD_SOURCE_UART then [CfgUartResult success message] else []))"
    unfolding s'_def config_handler_task_def option.case e prod.case Let_def publish_fair [OF fair] d
    by (auto simp: os split: option.split)
  moreover have "success = config_result_is_success_message (Some message)" using fair by (simp add: fair_def)
  ultimately show ?thesis unfolding lan by blast
qed

section \<open>What a command leaves behind\<close>

lemma inet_refused: "config_parse_internet a m len g = (None, g') \<Longrightarrow> g' = g"
  by (auto simp: config_parse_internet_def Let_def split: if_splits option.splits internet_type.splits)

lemma refused_branches:
  "\<not> fst (fst (exec_wifi drv cmd s)) \<Longrightarrow> snd (exec_wifi drv cmd s) = s"
  "\<not> fst (fst (exec_mqtt drv cmd s)) \<Longrightarrow> snd (exec_mqtt drv cmd s) = s"
  "\<not> fst (fst (exec_lte drv cmd s)) \<Longrightarrow> snd (exec_lte drv cmd s) = s"
  "\<not> fst (fst (exec_set_url drv cmd s)) \<Longrightarrow> snd (exec_set_url drv cmd s) = s"
  "fst (fst (exec_update_firmware drv cmd s))"
  "\<not> fst (fst (exec_internet drv cmd s)) \<Longrightarrow> snd (exec_internet drv cmd s) = s"
  "\<not> fst (fst (exec_server drv cmd s)) \<Longrightarrow> snd (exec_server drv cmd s) = s"
  "\<not> fst (fst (exec_http drv cmd s)) \<Longrightarrow> snd (exec_http drv cmd s) = s"
  "\<not> fst (fst (exec_coap drv cmd s)) \<Longrightarrow> snd (exec_coap drv cmd s) = s"
  by (auto simp: exec_defs ok_def failed_def Let_def dest: inet_refused split: option.splits prod.splits if_splits)

lemma refused_lan:
  assumes "\<not> fst (snd (fst (exec_mcu_lan env cmd s)))"
  shows "snd (exec_mcu_lan env cmd s) \<in> {s, s\<lparr>lan := start_fota_ap env (lan s)\<rparr>}"
  using assms
  by (auto simp: exec_mcu_lan_def mcu_lan_handler_update_config_def failed_def Let_def
      split: option.splits prod.splits if_splits)

lemma exec_refused:
  assumes "\<not> fst (fst (exec drv env cmd s))" and "\<not> ml_accepted env cmd"
  shows "snd (exec drv env cmd s) \<in> {s, s\<lparr>lan := start_fota_ap env (lan s)\<rparr>} \<and>
    \<not> fst (snd (snd (fst (exec drv env cmd s))))"
proof
  show "snd (exec drv env cmd s) \<in> {s, s\<lparr>lan := start_fota_ap env (lan s)\<rparr>}"
    using assms refused_lan [of env cmd s] exec_deferred [of drv env cmd s]
    by (cases "cc_type cmd") (auto simp: refused_branches)
  show "\<not> fst (snd (snd (fst (exec drv env cmd s))))"
    using assms
    by (cases "cc_type cmd") (auto simp: exec_defs ok_def failed_def Let_def split: option.splits prod.splits)
qed

text \<open>
  C31. A refused command changes nothing. When a command is neither carried out nor taken over
  by the LAN side (a parse error, a wrong length or form, an unknown type, no memory), every
  configuration and the storage are as before (nothing is read or written there), the device does
  not restart, and all that comes out are answers with the failure flag; a LAN command that the
  LAN handler refuses may at most have started the access point for the LAN update.
\<close>

theorem refused_command_harmless:
  assumes "\<not> fst (fst (exec drv env cmd s))" and "\<not> ml_accepted env cmd"
  shows "\<exists>os g. config_handler_task drv env (Some cmd) s = s\<lparr>lan := g, cfg_outs := cfg_outs s @ os\<rparr> \<and>
    g \<in> {lan s, start_fota_ap env (lan s)} \<and>
    (\<forall>o' \<in> set os. (\<exists>w m. o' = CfgWaiter w False m) \<or> (\<exists>m. o' = CfgUartResult False m))"
proof -
  obtain success deferred restart message s1 where e: "exec drv env cmd s = ((success, deferred, restart, message), s1)"
    by (metis prod.collapse)
  have s: "\<not> success" "\<not> deferred" "\<not> restart"
    using assms exec_refused [OF assms] exec_deferred [of drv env cmd s] unfolding e by simp_all
  obtain g where g: "s1 = s\<lparr>lan := g\<rparr>" "g \<in> {lan s, start_fota_ap env (lan s)}"
    using exec_refused [OF assms] unfolding e by (cases "s1 = s") (force intro: that [of "lan s"] that)+
  let ?os = "config_handler_publish_result (cc_source cmd) (cc_waiter cmd) False (Some message)"
  have "config_handler_task drv env (Some cmd) s = s\<lparr>lan := g, cfg_outs := cfg_outs s @ ?os\<rparr>"
    unfolding config_handler_task_def option.case e prod.case Let_def using s by (simp add: g(1) cout_def)
  moreover have "\<forall>o' \<in> set ?os. (\<exists>w m. o' = CfgWaiter w False m) \<or> (\<exists>m. o' = CfgUartResult False m)"
    by (auto simp: config_handler_publish_result_def config_result_signal_waiter_def split: option.split)
  ultimately show ?thesis using g(2) by blast
qed

lemma internet_restart:
  assumes "nvs_reliable drv" and "c = snd (save_internet_config_to_nvs drv x)"
    and "nvs_log b = logged (nvs_log c) NvsPowerCycle"
  shows "g_internet_type (snd (load_internet_config_from_nvs drv b)) = g_internet_type c \<and>
    g_inet (snd (load_internet_config_from_nvs drv b)) = g_inet c"
proof -
  let ?i = "g_inet x"
  have "snd (load_internet_config_from_nvs drv b) =
    b\<lparr>g_internet_type := g_internet_type x,
      g_inet := \<lparr>g_internet_fallback = g_internet_fallback ?i, g_internet_fallback_type = g_internet_fallback_type ?i\<rparr>,
      nvs_log := inet_log (nvs_log b)\<rparr>"
    by (rule load_internet_saved) (simp_all add: assms save_internet_reliable)
  then show ?thesis by (simp add: assms(1,2) save_internet_reliable)
qed

lemma cstr_set_str_take:
  assumes "length old = n" and "0 < n"
  shows "cstr (set_str n old a) = take (n - 1) (cstr a)"
proof -
  let ?k = "n - 1"
  obtain b where b: "drop ?k old = [b]"
    using assms by (metis Cons_nth_drop_Suc Suc_pred' diff_less drop_all le_refl zero_less_one)
  have l: "length (take ?k (cstr a @ zeros ?k)) = ?k" by (simp add: zeros_def)
  have "set_str n old a = (take ?k (cstr a @ zeros ?k) @ [b])[?k := 0]"
    by (simp only: set_str_def strncpy_def b)
  then have "set_str n old a = take ?k (cstr a @ zeros ?k) @ [0]"
    by (metis l list_update_length)
  then have e: "set_str n old a = take ?k (cstr a) @ zeros (?k - length (cstr a)) @ [0]"
    by (simp add: zeros_def)
  have nz: "0 \<notin> set (take ?k (cstr a))" using cstr_no_zero by (meson in_set_takeD)
  have "cstr (zeros k @ [0]) = []" for k by (cases k) (simp_all add: zeros_def cstr_def)
  then show ?thesis unfolding e cstr_append [OF nz] by simp
qed

lemma c_array_short: "c_array n a \<Longrightarrow> length (cstr a) < n"
proof -
  assume "c_array n a"
  then have a: "length a = n" "0 \<in> set a" by (simp_all add: c_array_def)
  have "length (cstr a) \<noteq> length a" using a(2) cstr_no_zero [of a]
    by (metis cstr_def takeWhile_eq_take take_all_iff le_refl)
  moreover have "length (cstr a) \<le> length a" by (simp add: cstr_def length_takeWhile_le)
  ultimately show ?thesis using a by simp
qed

lemma cstr_set_str: "length old = n \<Longrightarrow> c_array n a \<Longrightarrow> cstr (set_str n old a) = cstr a"
  using c_array_short [of n a] by (simp add: cstr_set_str_take)

text \<open>An array whose last byte is NUL, as every array of the contexts is when the device starts.\<close>

definition sealed :: "nat \<Rightarrow> u8 list \<Rightarrow> bool" where
  "sealed n a \<longleftrightarrow> length a = n \<and> a ! (n - 1) = 0"

lemma cstr_strncpy_sealed:
  assumes "sealed (Suc n) old" and "length (cstr a) \<le> n"
  shows "cstr (strncpy n old a) = cstr a"
proof -
  have "drop n old = [0]" using assms(1) by (simp add: sealed_def Cons_nth_drop_Suc [symmetric])
  then have "strncpy n old a = cstr a @ zeros (n - length (cstr a)) @ [0]"
    using assms(2) by (simp add: strncpy_def zeros_def)
  moreover have "cstr (zeros k @ [0]) = []" for k by (cases k) (simp_all add: zeros_def cstr_def)
  ultimately show ?thesis using cstr_append [OF cstr_no_zero] by simp
qed

text \<open>The LTE strings and the update address in memory.\<close>

definition memory_ok :: "cfg_st \<Rightarrow> bool" where
  "memory_ok g \<longleftrightarrow>
     (let x = lx_cfg (g_lte_ctx g) in
      sealed 64 (lt_apn x) \<and> sealed 32 (lt_username x) \<and> sealed 32 (lt_password x) \<and> sealed 32 (lt_modem_name x) \<and>
      length (s_fota_url g) = 256)"

definition same_lte :: "lte_config_data \<Rightarrow> lte_config_data \<Rightarrow> bool" where
  "same_lte x c \<longleftrightarrow>
     cstr (lt_modem_name x) = cstr (lt_modem_name c) \<and> cstr (lt_apn x) = cstr (lt_apn c) \<and>
     cstr (lt_username x) = cstr (lt_username c) \<and> cstr (lt_password x) = cstr (lt_password c) \<and>
     lt_comm_type x = lt_comm_type c \<and> lt_auto_reconnect x = lt_auto_reconnect c \<and>
     lt_reconnect_timeout_ms x = lt_reconnect_timeout_ms c \<and>
     lt_max_reconnect_attempts x = lt_max_reconnect_attempts c \<and>
     lt_pwr_pin x = lt_pwr_pin c \<and> lt_rst_pin x = lt_rst_pin c"

text \<open>The arrays of the contexts have their sizes.\<close>

definition sized_contexts :: "cfg_st \<Rightarrow> bool" where
  "sized_contexts g \<longleftrightarrow>
     (let w = g_wifi_ctx g; q = g_mqtt_ctx g in
      length (wx_ssid w) = 64 \<and> length (wx_pass w) = 64 \<and> length (wx_username w) = 64 \<and> mqtt_ok q)"

lemma mqtt_ok_lengths:
  "mqtt_ok q \<Longrightarrow> length (mq_broker_uri q) = 128 \<and> length (mq_device_token q) = 65 \<and>
     length (mq_subscribe_topic q) = 128 \<and> length (mq_publish_topic q) = 128 \<and> length (mq_attribute_topic q) = 128"
  by (simp add: mqtt_ok_def c_array_def)

lemma task_cfg: "cfg (config_handler_task drv env (Some cmd) s) = cfg (snd (exec drv env cmd s))"
  by (cases "exec drv env cmd s" rule: prod.exhaust) (auto simp: config_handler_task_def Let_def split: prod.split)

text \<open>What comes back after a restart, branch by branch.\<close>

lemma wifi_comes_back:
  assumes rel: "nvs_reliable drv" and carried: "fst (fst (exec_wifi drv cmd s))" and size: "sized_contexts (cfg s)"
    and boot: "nvs_log b = logged (nvs_log (cfg (snd (exec_wifi drv cmd s)))) NvsPowerCycle"
  shows "\<exists>c. config_parse_wifi (raw_data cmd) (data_len cmd) = Some c \<and>
        (let x = g_wifi_ctx (snd (load_wifi_config_from_nvs drv b)) in
         cstr (wx_ssid x) = cstr (wf_ssid c) \<and> cstr (wx_pass x) = cstr (wf_password c) \<and>
         cstr (wx_username x) = cstr (wf_username c) \<and> wx_auth_mode x = wf_auth_mode c)"
proof -
  obtain c where c: "config_parse_wifi (raw_data cmd) (data_len cmd) = Some c"
    using carried by (auto simp: exec_wifi_def failed_def split: option.splits)
  obtain x where "cfg (snd (exec_wifi drv cmd s)) = snd (save_wifi_config_to_nvs drv x)"
    using carried by (auto simp: exec_wifi_def failed_def Let_def split: option.splits)
  note w = wifi.restart_saved [OF this rel boot]
  show ?thesis
    using c w size wifi_parse_ok [OF c] wifi.saved [OF rel]
    by (simp add: exec_wifi_def cstr_set_str wifi_ok_def sized_contexts_def Let_def)
qed

lemma mqtt_comes_back:
  assumes rel: "nvs_reliable drv" and carried: "fst (fst (exec_mqtt drv cmd s))" and size: "sized_contexts (cfg s)"
    and boot: "nvs_log b = logged (nvs_log (cfg (snd (exec_mqtt drv cmd s)))) NvsPowerCycle"
  shows "\<exists>c. config_parse_mqtt (g_mqtt_ctx (cfg s)) (raw_data cmd) (data_len cmd) = Some c \<and>
        (let x = g_mqtt_ctx (snd (load_mqtt_config_from_nvs drv b)) in
         cstr (mq_broker_uri x) = cstr (mq_broker_uri c) \<and> cstr (mq_device_token x) = cstr (mq_device_token c) \<and>
         cstr (mq_subscribe_topic x) = cstr (mq_subscribe_topic c) \<and>
         cstr (mq_publish_topic x) = cstr (mq_publish_topic c) \<and>
         cstr (mq_attribute_topic x) = cstr (mq_attribute_topic c) \<and>
         mq_keepalive_s x = mq_keepalive_s (g_mqtt_ctx (cfg s)) \<and>
         mq_timeout_ms x = mq_timeout_ms (g_mqtt_ctx (cfg s)) \<and> x = g_mqtt_ctx (cfg (snd (exec_mqtt drv cmd s))))"
proof -
  obtain c where c: "config_parse_mqtt (g_mqtt_ctx (cfg s)) (raw_data cmd) (data_len cmd) = Some c"
    using carried by (auto simp: exec_mqtt_def failed_def split: option.splits)
  obtain x where "cfg (snd (exec_mqtt drv cmd s)) = snd (save_mqtt_config_to_nvs drv x)"
    using carried by (auto simp: exec_mqtt_def failed_def Let_def split: option.splits)
  note w = mqtt.restart_saved [OF this rel boot]
  have "mqtt_ok c" using c size by (auto simp: sized_contexts_def Let_def intro: mqtt_parse_ok)
  then show ?thesis
    using c w size mqtt_ok_lengths [of "g_mqtt_ctx (cfg s)"] mqtt.saved [OF rel]
    by (simp add: exec_mqtt_def cstr_set_str mqtt_ok_def sized_contexts_def Let_def)
qed

lemma http_comes_back:
  assumes rel: "nvs_reliable drv" and carried: "fst (fst (exec_http drv cmd s))"
    and boot: "nvs_log b = logged (nvs_log (cfg (snd (exec_http drv cmd s)))) NvsPowerCycle"
  shows "config_parse_http (raw_data cmd) (data_len cmd) = Some (g_http_cfg (snd (load_http_config_from_nvs drv b)))"
proof -
  obtain c where c: "config_parse_http (raw_data cmd) (data_len cmd) = Some c"
    using carried by (auto simp: exec_http_def failed_def split: option.splits)
  then have "cfg (snd (exec_http drv cmd s)) = snd (save_http_config_to_nvs drv ((cfg s)\<lparr>g_http_cfg := c\<rparr>))"
    by (simp add: exec_http_def http_handler_update_config_def http.save_log [OF rel])
  from http.restart_saved [OF this rel boot] show ?thesis
    using c by (simp add: exec_http_def http_handler_update_config_def http.save_log [OF rel])
qed

lemma coap_comes_back:
  assumes rel: "nvs_reliable drv" and carried: "fst (fst (exec_coap drv cmd s))"
    and boot: "nvs_log b = logged (nvs_log (cfg (snd (exec_coap drv cmd s)))) NvsPowerCycle"
  shows "config_parse_coap (raw_data cmd) (data_len cmd) = Some (g_coap_cfg (snd (load_coap_config_from_nvs drv b)))"
proof -
  obtain c where c: "config_parse_coap (raw_data cmd) (data_len cmd) = Some c"
    using carried by (auto simp: exec_coap_def failed_def split: option.splits)
  then have "cfg (snd (exec_coap drv cmd s)) = snd (save_coap_config_to_nvs drv ((cfg s)\<lparr>g_coap_cfg := c\<rparr>))"
    by (simp add: exec_coap_def coap_handler_update_config_def coap.save_log [OF rel])
  from coap.restart_saved [OF this rel boot] show ?thesis
    using c by (simp add: exec_coap_def coap_handler_update_config_def coap.save_log [OF rel])
qed

lemma server_comes_back:
  assumes rel: "nvs_reliable drv" and carried: "fst (fst (exec_server drv cmd s))"
    and boot: "nvs_log b = logged (nvs_log (cfg (snd (exec_server drv cmd s)))) NvsPowerCycle"
  shows "\<exists>t. config_parse_server_type (raw_data cmd) (data_len cmd) = Some t \<and>
        (t \<noteq> g_server_type (cfg s) \<longrightarrow> g_server_type (snd (load_server_config_from_nvs drv b)) = t)"
proof -
  obtain t where t: "config_parse_server_type (raw_data cmd) (data_len cmd) = Some t"
    using carried by (auto simp: exec_server_def failed_def split: option.splits)
  have "g_server_type (snd (load_server_config_from_nvs drv b)) = t" if new: "t \<noteq> g_server_type (cfg s)"
  proof -
    have "cfg (snd (exec_server drv cmd s)) =
        snd (save_server_config_to_nvs drv ((cfg s)\<lparr>g_server_type := t\<rparr>))"
      using t new by (simp add: exec_server_def)
    from server.restart_saved [OF this rel boot] server.save_log [OF rel] show ?thesis
      using t new by (simp add: exec_server_def srv_code_inj)
  qed
  with t show ?thesis by blast
qed

lemma internet_comes_back:
  assumes rel: "nvs_reliable drv" and carried: "fst (fst (exec_internet drv cmd s))"
    and boot: "nvs_log b = logged (nvs_log (cfg (snd (exec_internet drv cmd s)))) NvsPowerCycle"
  shows "let r = snd (load_internet_config_from_nvs drv b) in
    config_parse_internet (lt_apn (lx_cfg (g_lte_ctx (cfg s)))) (raw_data cmd) (data_len cmd) (g_inet (cfg s)) =
      (Some (g_internet_type r), g_inet r)"
proof -
  obtain x where x: "cfg (snd (exec_internet drv cmd s)) = snd (save_internet_config_to_nvs drv x)"
    using carried by (auto simp: exec_internet_def failed_def Let_def split: option.splits prod.splits)
  show ?thesis using carried internet_restart [OF rel x boot]
    by (auto simp: exec_internet_def failed_def save_internet_reliable [OF rel] Let_def
        split: option.splits prod.splits)
qed

lemma lte_comes_back:
  assumes rel: "nvs_reliable drv" and carried: "fst (fst (exec_lte drv cmd s))"
    and mem: "memory_ok (cfg s)" "memory_ok b"
    and boot: "nvs_log b = logged (nvs_log (cfg (snd (exec_lte drv cmd s)))) NvsPowerCycle"
  shows "\<exists>c. config_parse_lte (raw_data cmd) (data_len cmd) = Some c \<and>
    same_lte (lx_cfg (g_lte_ctx (snd (load_lte_config_from_nvs drv b)))) c"
proof -
  obtain c where c: "config_parse_lte (raw_data cmd) (data_len cmd) = Some c"
    using carried by (auto simp: exec_lte_def failed_def split: option.splits)
  let ?x = "lx_cfg (g_lte_ctx (cfg s))" and ?old = "lx_cfg (g_lte_ctx b)"
  let ?x' = "c\<lparr>lt_apn := set_str 64 (lt_apn ?x) (lt_apn c), lt_username := set_str 32 (lt_username ?x) (lt_username c),
     lt_password := set_str 32 (lt_password ?x) (lt_password c),
     lt_modem_name := set_str 32 (lt_modem_name ?x) (lt_modem_name c)\<rparr>"
  have ok: "c_array 64 (lt_apn c)" "c_array 32 (lt_username c)" "c_array 32 (lt_password c)" "c_array 32 (lt_modem_name c)"
    using lte_parse_ok [OF c] by (simp_all add: lte_ok_def)
  have sizes: "length (lt_apn ?x) = 64" "length (lt_username ?x) = 32" "length (lt_password ?x) = 32"
    "length (lt_modem_name ?x) = 32"
    using mem(1) by (simp_all add: memory_ok_def sealed_def Let_def)
  have str: "cstr (set_str 64 (lt_apn ?x) (lt_apn c)) = cstr (lt_apn c)"
    "cstr (set_str 32 (lt_username ?x) (lt_username c)) = cstr (lt_username c)"
    "cstr (set_str 32 (lt_password ?x) (lt_password c)) = cstr (lt_password c)"
    "cstr (set_str 32 (lt_modem_name ?x) (lt_modem_name c)) = cstr (lt_modem_name c)"
    using sizes ok by (simp_all add: cstr_set_str)
  have "cfg (snd (exec_lte drv cmd s)) = snd (save_lte_config_to_nvs drv ((cfg s)\<lparr>g_lte_ctx := (g_lte_ctx (cfg s))\<lparr>lx_cfg := ?x'\<rparr>\<rparr>))"
    using c by (simp add: exec_lte_def Let_def)
  then have "stored (nvs_log b) NVS_KEY_LTE_CONFIG = Some (NvsLte (lte_persistent ?x'))"
    using boot lte.saved [OF rel, of "(cfg s)\<lparr>g_lte_ctx := (g_lte_ctx (cfg s))\<lparr>lx_cfg := ?x'\<rparr>\<rparr>"] by simp
  then have "lx_cfg (g_lte_ctx (snd (load_lte_config_from_nvs drv b))) = lte_restore ?old (lte_persistent ?x')"
    by (simp add: load_lte_config_from_nvs_def load_value_reliable [OF rel] Let_def)
  moreover have "same_lte (lte_restore ?old (lte_persistent ?x')) c"
    using mem(2) str ok [THEN c_array_short]
    by (simp add: same_lte_def lte_restore_def lte_persistent_def strncpy_again memory_ok_def cstr_strncpy_sealed Let_def)
  ultimately show ?thesis using c by auto
qed

lemma url_comes_back:
  assumes rel: "nvs_reliable drv" and mem: "memory_ok (cfg s)" "memory_ok b" and url: "byte_at url 0 \<noteq> 0"
    and boot: "nvs_log b = logged (nvs_log (fota_handler_set_url drv url (cfg s))) NvsPowerCycle"
  shows "cstr (s_fota_url (snd (load_fota_wan_url_from_nvs drv b))) = take 255 (cstr url)"
proof -
  let ?t = "take 255 (cstr url)"
  have nz: "0 \<notin> set ?t" using cstr_no_zero by (meson in_set_takeD)
  have "cstr ((strncpy 255 (s_fota_url (cfg s)) url)[255 := 0]) = ?t"
    using cstr_set_str_take [of "s_fota_url (cfg s)" 256 url] mem(1) by (simp add: set_str_def memory_ok_def Let_def)
  then have st: "stored (nvs_log b) NVS_KEY_FOTA_WAN_URL = Some (NvsStr ?t)"
    using url boot by (simp add: fota_handler_set_url_def save_fota_wan_url_to_nvs_def save_value_reliable [OF rel] Let_def)
  have ne: "?t \<noteq> []" using url by (cases url) (auto simp: cstr_def byte_at_def)
  then have "byte_at (?t @ [0]) 0 \<noteq> 0" using nz by (cases ?t) (auto simp: byte_at_def)
  moreover have "cstr ((strncpy 255 (s_fota_url b) (?t @ [0]))[255 := 0]) = ?t"
    by (rule cstr_set_url) (use mem(2) nz in \<open>simp_all add: memory_ok_def Let_def\<close>)
  ultimately show ?thesis using ne st rel
    by (simp add: load_fota_wan_url_from_nvs_def open_reliable nvs_do_def reliable_simps fota_handler_set_url_def
        save_fota_wan_url_to_nvs_def save_value_reliable Let_def)
qed

text \<open>
  C18. What a command sets is still set after a power failure. When a command has been carried out and
  the device restarts, with the arrays of its memory terminated but any contents in them, loading
  brings back what the command said: the Wi-Fi credentials and method, the MQTT strings, every field
  of the LTE, HTTP and CoAP configurations, a server type that is new, the internet type with its
  fallback, and of a firmware address, set alone or with an update, the first 255 bytes. The two numbers
  of an MQTT command are the exception: the keepalive and the timeout stay those of before, in memory
  and after the restart. LAN commands and unknown ones are never carried out by this task.
\<close>

theorem command_survives_restart:
  fixes drv env cmd s
  defines "s1 \<equiv> config_handler_task drv env (Some cmd) s"
  assumes rel: "nvs_reliable drv" and carried: "fst (fst (exec drv env cmd s))" and size: "sized_contexts (cfg s)"
    and mem: "memory_ok (cfg s)" "memory_ok b" and boot: "nvs_log b = logged (nvs_log (cfg s1)) NvsPowerCycle"
  shows "case cc_type cmd of
      CONFIG_TYPE_WIFI \<Rightarrow> (\<exists>c. config_parse_wifi (raw_data cmd) (data_len cmd) = Some c \<and>
        (let x = g_wifi_ctx (snd (load_wifi_config_from_nvs drv b)) in
         cstr (wx_ssid x) = cstr (wf_ssid c) \<and> cstr (wx_pass x) = cstr (wf_password c) \<and>
         cstr (wx_username x) = cstr (wf_username c) \<and> wx_auth_mode x = wf_auth_mode c))
    | CONFIG_TYPE_MQTT \<Rightarrow>
        (\<exists>c. config_parse_mqtt (g_mqtt_ctx (cfg s)) (raw_data cmd) (data_len cmd) = Some c \<and>
        (let x = g_mqtt_ctx (snd (load_mqtt_config_from_nvs drv b)) in
         cstr (mq_broker_uri x) = cstr (mq_broker_uri c) \<and> cstr (mq_device_token x) = cstr (mq_device_token c) \<and>
         cstr (mq_subscribe_topic x) = cstr (mq_subscribe_topic c) \<and>
         cstr (mq_publish_topic x) = cstr (mq_publish_topic c) \<and>
         cstr (mq_attribute_topic x) = cstr (mq_attribute_topic c) \<and>
         mq_keepalive_s x = mq_keepalive_s (g_mqtt_ctx (cfg s)) \<and>
         mq_timeout_ms x = mq_timeout_ms (g_mqtt_ctx (cfg s)) \<and> x = g_mqtt_ctx (cfg s1)))
    | CONFIG_TYPE_LTE \<Rightarrow> (\<exists>c. config_parse_lte (raw_data cmd) (data_len cmd) = Some c \<and>
        same_lte (lx_cfg (g_lte_ctx (snd (load_lte_config_from_nvs drv b)))) c)
    | CONFIG_TYPE_HTTP \<Rightarrow>
        config_parse_http (raw_data cmd) (data_len cmd) = Some (g_http_cfg (snd (load_http_config_from_nvs drv b)))
    | CONFIG_TYPE_COAP \<Rightarrow>
        config_parse_coap (raw_data cmd) (data_len cmd) = Some (g_coap_cfg (snd (load_coap_config_from_nvs drv b)))
    | CONFIG_TYPE_SERVER \<Rightarrow> (\<exists>t. config_parse_server_type (raw_data cmd) (data_len cmd) = Some t \<and>
        (t \<noteq> g_server_type (cfg s) \<longrightarrow> g_server_type (snd (load_server_config_from_nvs drv b)) = t))
    | CONFIG_TYPE_INTERNET \<Rightarrow> (let r = snd (load_internet_config_from_nvs drv b) in
        config_parse_internet (lt_apn (lx_cfg (g_lte_ctx (cfg s)))) (raw_data cmd) (data_len cmd) (g_inet (cfg s)) =
        (Some (g_internet_type r), g_inet r) \<and> last (cfg_outs s1) = CfgRestart)
    | CONFIG_SET_FIRMWARE_URL \<Rightarrow>
        cstr (s_fota_url (snd (load_fota_wan_url_from_nvs drv b))) = take 255 (cstr (drop 3 (raw_data cmd)))
    | CONFIG_UPDATE_FIRMWARE \<Rightarrow>
        3 < data_len cmd \<and> byte_at (raw_data cmd) 2 = COLON \<and> byte_at (drop 3 (raw_data cmd)) 0 \<noteq> 0 \<longrightarrow>
        cstr (s_fota_url (snd (load_fota_wan_url_from_nvs drv b))) = take 255 (cstr (drop 3 (raw_data cmd)))
    | CONFIG_TYPE_MCU_LAN \<Rightarrow> False
    | CONFIG_TYPE_UNKNOWN \<Rightarrow> False"
proof -
  have boot': "nvs_log b = logged (nvs_log (cfg (snd (exec drv env cmd s)))) NvsPowerCycle"
    using boot by (simp add: s1_def task_cfg)
  have restart: "cc_type cmd = CONFIG_TYPE_INTERNET \<Longrightarrow> last (cfg_outs s1) = CfgRestart"
    using carried by (auto simp: s1_def config_handler_task_def exec_internet_def failed_def Let_def
        split: option.splits prod.splits)
  have url: "cc_type cmd = CONFIG_SET_FIRMWARE_URL \<Longrightarrow>
      cfg (snd (exec drv env cmd s)) = fota_handler_set_url drv (drop 3 (raw_data cmd)) (cfg s) \<and>
      byte_at (drop 3 (raw_data cmd)) 0 \<noteq> 0"
    using carried by (auto simp: exec_set_url_def failed_def Let_def split: if_splits)
  have update: "cc_type cmd = CONFIG_UPDATE_FIRMWARE \<Longrightarrow> 3 < data_len cmd \<Longrightarrow> byte_at (raw_data cmd) 2 = COLON \<Longrightarrow>
      byte_at (drop 3 (raw_data cmd)) 0 \<noteq> 0 \<Longrightarrow>
      cfg (snd (exec drv env cmd s)) = fota_handler_set_url drv (drop 3 (raw_data cmd)) (cfg s)"
    by (simp add: exec_update_firmware_def Let_def)
  have lan: "cc_type cmd \<noteq> CONFIG_TYPE_MCU_LAN"
    using carried by (auto simp: exec_mcu_lan_def failed_def Let_def split: if_splits prod.splits)
  note returns = wifi_comes_back mqtt_comes_back http_comes_back coap_comes_back server_comes_back internet_comes_back
  show ?thesis
    using returns [OF rel, of cmd s] lte_comes_back [OF rel _ mem, of cmd] url_comes_back [OF rel mem] carried size boot'
      restart url update lan
    by (cases "cc_type cmd") (simp_all add: s1_def task_cfg Let_def failed_def)
qed

section \<open>Commands from a port\<close>

abbreviation "CONFIG_CMD_MAX_LEN \<equiv> 16384 :: nat"

text \<open>A zeroed array of \<open>n\<close> bytes after bytes have been copied to its start, and how many of
  them went past its end. C leaves everything after such a write undefined; the model goes on as
  if the bytes had been dropped.\<close>

definition fill_array :: "nat \<Rightarrow> u8 list \<Rightarrow> u8 list \<times> nat" where
  "fill_array n bs = (take n (bs @ zeros n), length bs - n)"

text \<open>A command as every port builds it: zeroed, filled in, the text copied and terminated.\<close>

definition make_command :: "config_type \<Rightarrow> u8 list \<Rightarrow> command_source \<Rightarrow> config_command \<times> nat" where
  "make_command t cmd_data source =
     (let (raw, beyond) = fill_array CONFIG_CMD_MAX_LEN (cmd_data @ [0])
      in (\<lparr>cc_type = t, raw_data = raw, data_len = word_of_nat (length cmd_data),
           cc_source = source, cc_waiter = None\<rparr>, beyond))"

lemma fill_array_string: "fill_array n (d @ [0]) = (take n (d @ zeros n), Suc (length d) - n)"
proof -
  have "take n (d @ 0 # zeros n) = take n (d @ zeros n)"
    by (cases n) (simp_all add: zeros_def replicate_append_same [symmetric] take_Cons' flip: replicate_Suc)
  then show ?thesis by (simp add: fill_array_def)
qed

lemma raw_short: "length d < CONFIG_CMD_MAX_LEN \<Longrightarrow>
    take CONFIG_CMD_MAX_LEN (d @ zeros CONFIG_CMD_MAX_LEN) = d @ 0 # zeros (CONFIG_CMD_MAX_LEN - 1 - length d)"
proof -
  assume "length d < CONFIG_CMD_MAX_LEN"
  then have "CONFIG_CMD_MAX_LEN - length d = Suc (CONFIG_CMD_MAX_LEN - 1 - length d)" "length d \<le> CONFIG_CMD_MAX_LEN" by simp_all
  then show ?thesis by (simp add: zeros_def)
qed

lemma wifi_command_type:
  "config_parse_type (wifi_command ssid pass user auth) (word_of_nat (length (wifi_command ssid pass user auth))) =
     CONFIG_TYPE_WIFI" if "length (wifi_command ssid pass user auth) < 65536"
proof -
  have "unat (word_of_nat (length (wifi_command ssid pass user auth)) :: u16) \<ge> 2"
    using that by (simp only: unat_u16_of_nat) (simp add: wifi_command_def ascii_def)
  then show ?thesis
    by (simp add: config_parse_type_def word_less_nat_alt wifi_command_def ascii_def byte_at_def chr_u8_def)
qed

text \<open>
  The contract of a port that forwards commands: \<open>command d\<close> is what the task receives for a
  text of at most \<open>limit\<close> bytes, terminated, with its length and type.
\<close>

locale command_port =
  fixes command :: "u8 list \<Rightarrow> config_command" and limit :: nat
  assumes port_raw: "length d \<le> limit \<Longrightarrow> \<exists>junk. raw_data (command d) = d @ 0 # junk"
    and port_len: "length d \<le> limit \<Longrightarrow> data_len (command d) = word_of_nat (length d)"
    and port_type: "length d \<le> limit \<Longrightarrow> cc_type (command d) = config_parse_type d (word_of_nat (length d))"
begin

lemma network_stored:
  fixes a :: wifi_auth_mode and user :: "u8 list option"
  assumes fields: "plain COLON ssid" "ssid \<noteq> []" "length ssid < 64" "plain COLON pass" "length pass < 64"
      "\<forall>u. user = Some u \<longrightarrow> plain COLON u \<and> length u < 64"
    and limit: "length (wifi_command ssid pass user (auth_text a)) \<le> limit"
    and store: "nvs_reliable drv" "sized_contexts (cfg s)"
    and c: "c = command (wifi_command ssid pass user (auth_text a))"
    and boot: "nvs_log b = logged (nvs_log (cfg (config_handler_task drv env (Some c) s))) NvsPowerCycle"
  shows "cc_type c = CONFIG_TYPE_WIFI \<and> fst (exec_wifi drv c s) = ok ''WF:OK'' \<and>
    (let x = g_wifi_ctx (snd (load_wifi_config_from_nvs drv b)) in
     cstr (wx_ssid x) = ssid \<and> cstr (wx_pass x) = pass \<and>
     cstr (wx_username x) = (case user of None \<Rightarrow> [] | Some u \<Rightarrow> u) \<and> wx_auth_mode x = a)"
proof -
  let ?d = "wifi_command ssid pass user (auth_text a)"
  obtain junk where raw: "raw_data c = ?d @ 0 # junk" using port_raw [OF limit] c by blast
  have "length ?d < 256"
    using fields by (intro wifi_command_length) auto
  then have ty: "cc_type c = CONFIG_TYPE_WIFI" using port_type [OF limit] wifi_command_type by (simp add: c)
  have p: "config_parse_wifi (raw_data c) (data_len c) =
    Some \<lparr>wf_username = (case user of None \<Rightarrow> zeros 64 | Some u \<Rightarrow> arr 64 u), wf_ssid = arr 64 ssid,
          wf_password = arr 64 pass, wf_auth_mode = a\<rparr>"
    using wifi_command_parses [of ssid pass user a junk, OF fields(1-5)] fields(6) port_len [OF limit] by (simp add: raw) (simp add: c)
  then have w: "fst (exec_wifi drv c s) = ok ''WF:OK''" by (simp add: exec_wifi_def Let_def)
  then have "fst (fst (exec_wifi drv c s))" by (simp add: ok_def)
  from wifi_comes_back [OF store(1) this store(2), of b] boot
  show ?thesis
    using p w ty fields by (auto simp: task_cfg cstr_put_str plain_def split: option.splits)
qed

lemma network_handed_over:
  fixes a :: wifi_auth_mode and user :: "u8 list option"
  assumes fields: "plain COLON ssid" "ssid \<noteq> []" "length ssid < 64" "plain COLON pass" "length pass < 64"
      "\<forall>u. user = Some u \<longrightarrow> plain COLON u \<and> length u < 64"
    and limit: "length (wifi_command ssid pass user (auth_text a)) \<le> limit" and queue: "wifi_queue s"
    and c: "c = command (wifi_command ssid pass user (auth_text a))"
  shows "\<exists>os. cfg_outs (config_handler_task drv env (Some c) s) = cfg_outs s @
    CfgWifiQueue \<lparr>wf_username = (case user of None \<Rightarrow> zeros 64 | Some u \<Rightarrow> arr 64 u), wf_ssid = arr 64 ssid,
          wf_password = arr 64 pass, wf_auth_mode = a\<rparr> # os"
proof -
  let ?d = "wifi_command ssid pass user (auth_text a)"
  let ?n = "\<lparr>wf_username = (case user of None \<Rightarrow> zeros 64 | Some u \<Rightarrow> arr 64 u), wf_ssid = arr 64 ssid,
          wf_password = arr 64 pass, wf_auth_mode = a\<rparr>"
  obtain junk where raw: "raw_data c = ?d @ 0 # junk" using port_raw [OF limit] c by blast
  have "length ?d < 256" using fields by (intro wifi_command_length) auto
  then have ty: "cc_type c = CONFIG_TYPE_WIFI" using port_type [OF limit] wifi_command_type by (simp add: c)
  have "config_parse_wifi (raw_data c) (data_len c) = Some ?n"
    using wifi_command_parses [of ssid pass user a junk, OF fields(1-5)] fields(6) port_len [OF limit] by (simp add: raw) (simp add: c)
  then have "cfg_outs (snd (exec_wifi drv c s)) = cfg_outs s @ [CfgWifiQueue ?n]"
    using queue by (simp add: exec_wifi_def Let_def)
  with ty show ?thesis by (auto simp: config_handler_task_def Let_def split: prod.split)
qed

end

definition demo_task :: task_st where
  "demo_task = \<lparr>cfg = demo_cfg, lan = lan_app_boot, wifi_queue = True, mqtt_queue = True, lte_queue = True,
     handler_queue = True, context_mutex = True, handler_running = True, cfg_outs = []\<rparr>"

definition demo_command :: "config_type \<Rightarrow> string \<Rightarrow> command_source \<Rightarrow> nat option \<Rightarrow> config_command" where
  "demo_command t text src w = \<lparr>cc_type = t, raw_data = ascii text @ zeros 8,
     data_len = word_of_nat (length text), cc_source = src, cc_waiter = w\<rparr>"

lemma demo_sized: "sized_contexts (cfg demo_task)"
  by code_simp

lemma demo_memory: "memory_ok (cfg demo_task)" "memory_ok (demo_cfg\<lparr>nvs_log := h\<rparr>)"
  by code_simp (simp add: memory_ok_def sealed_def demo_cfg_def lte_config_zero_def put_str_def zeros_def ascii_def)

lemma demo_mqtt_carried:
  "fst (fst (exec flash env (demo_command CONFIG_TYPE_MQTT ''MQ:mqtt://h|tok|s|p|a|60|700'' src w) demo_task))"
proof -
  have "config_parse_mqtt demo_mqtt (ascii ''MQ:mqtt://h|tok|s|p|a|60|700'' @ zeros 8) 28 \<noteq> None"
    by code_simp
  then show ?thesis
    by (auto simp: demo_command_def demo_task_def demo_cfg_def exec_mqtt_def ok_def Let_def split: option.split)
qed

theorem command_survives_restart_witness:
  "let s1 = config_handler_task flash demo_env
         (Some (demo_command CONFIG_TYPE_MQTT ''MQ:mqtt://h|tok|s|p|a|60|700'' CMD_SOURCE_UART None)) demo_task;
       x = g_mqtt_ctx (snd (load_mqtt_config_from_nvs flash
             (demo_cfg\<lparr>nvs_log := logged (nvs_log (cfg s1)) NvsPowerCycle\<rparr>)))
   in cstr (mq_broker_uri x) = ascii ''mqtt://h'' \<and> mq_keepalive_s x = 30"
proof -
  let ?cmd = "demo_command CONFIG_TYPE_MQTT ''MQ:mqtt://h|tok|s|p|a|60|700'' CMD_SOURCE_UART None"
  let ?b = "demo_cfg\<lparr>nvs_log := logged (nvs_log (cfg (config_handler_task flash demo_env (Some ?cmd) demo_task))) NvsPowerCycle\<rparr>"
  have c: "map_option (\<lambda>c. cstr (mq_broker_uri c))
      (config_parse_mqtt (g_mqtt_ctx (cfg demo_task)) (raw_data ?cmd) (data_len ?cmd)) = Some (ascii ''mqtt://h'')"
    by code_simp
  have k: "mq_keepalive_s (g_mqtt_ctx (cfg demo_task)) = 30" by code_simp
  have t: "cc_type ?cmd = CONFIG_TYPE_MQTT" by (simp add: demo_command_def)
  have "nvs_log ?b = logged (nvs_log (cfg (config_handler_task flash demo_env (Some ?cmd) demo_task))) NvsPowerCycle"
    by simp
  from command_survives_restart [OF flash_reliable demo_mqtt_carried demo_sized demo_memory this, unfolded t config_type.case] c k
  show ?thesis by (auto simp: Let_def)
qed

theorem refused_command_harmless_witness:
  "cfg (config_handler_task flash demo_env
      (Some (demo_command CONFIG_TYPE_WIFI ''WF:Home'' CMD_SOURCE_UART (Some 7))) demo_task) = demo_cfg"
proof -
  let ?cmd = "demo_command CONFIG_TYPE_WIFI ''WF:Home'' CMD_SOURCE_UART (Some 7)"
  have p: "config_parse_wifi (raw_data ?cmd) (data_len ?cmd) = None" by code_simp
  have t: "cc_type ?cmd = CONFIG_TYPE_WIFI" by (simp add: demo_command_def)
  have "\<not> fst (fst (exec flash demo_env ?cmd demo_task))" "\<not> ml_accepted demo_env ?cmd"
    by (simp_all add: t exec_wifi_def p failed_def ml_accepted_def)
  from refused_command_harmless [OF this] show ?thesis by (auto simp: demo_task_def)
qed

theorem command_answered_once_witness:
  "let s' = config_handler_task flash demo_env
         (Some (demo_command CONFIG_TYPE_MCU_LAN ''ML:CFLR:7'' CMD_SOURCE_HTTP (Some 7))) demo_task
   in filter answers (cfg_outs s') = [] \<and> result_waiter (g_config_cache (lan s')) = Some 7"
proof -
  let ?cmd = "demo_command CONFIG_TYPE_MCU_LAN ''ML:CFLR:7'' CMD_SOURCE_HTTP (Some 7)"
  have "ml_accepted demo_env ?cmd" by code_simp
  moreover have "cc_waiter ?cmd = Some 7" "cfg_outs demo_task = []" by (simp_all add: demo_command_def demo_task_def)
  ultimately show ?thesis
    using command_answered_once [of flash demo_env ?cmd demo_task] by (auto simp: Let_def)
qed

end
