(* ===== verification/Uart_Input.thy ===== *)
theory Uart_Input
  imports Config_Task
begin

text \<open>
  \<open>Application/Data_Communication_Handler/src/uart_handler.c\<close>: the command line on the serial
  port. The task assembles the received bytes into lines, switches the mode, prints the whole
  configuration on \<open>CFSC\<close>, and forwards every other command to the task of \<open>Config_Task\<close>.

  What the port prints is a list of lines, each followed by CR LF. The world a line meets
  (memory, room in the queue, free mutexes, the answer of the LAN microcontroller, and the state of the
  rest of the gateway) is an input for each line. The array of a command is smaller than a line
  may be; \<open>make_command\<close> counts the bytes the copy writes past its end.

  The properties: the lines are those of the received stream, however it arrives in pieces; every
  line is answered by one line, but for the scan and the bare \<open>CF\<close>; what is queued is the command typed, and the exact condition under which
  it overruns its array; the printed configuration gives away no secret.
\<close>

section \<open>Definitions\<close>

abbreviation "UART_BUF_SIZE \<equiv> 32768 :: nat"

datatype uart_out =
    UartLine "u8 list"                  \<comment> \<open>uart_println\<close>
  | UartMode int                        \<comment> \<open>s_mode_switch_callback\<close>
  | UartQueued config_command           \<comment> \<open>sent to g_config_handler_queue\<close>
  | UartOverrun nat                     \<comment> \<open>bytes written past the end of raw_data\<close>

record uart_env =
  cmd_alloc :: bool                     \<comment> \<open>memory for the command\<close>
  cmd_room :: bool                      \<comment> \<open>the queue took the command within 100 ms\<close>
  rtc_free :: bool
  wifi_free :: bool
  lte_free :: bool
  mqtt_free :: bool
  lan_reply :: "esp_err \<times> u8 list \<times> u16"  \<comment> \<open>result, buffer and length of the LAN request\<close>
  gateway :: task_st

subsection \<open>Printing\<close>

definition uart_println :: "u8 list \<Rightarrow> uart_out" where
  "uart_println str = UartLine (cstr str)"

definition uart_send_kv :: "string \<Rightarrow> u8 list \<Rightarrow> uart_out" where
  "uart_send_kv key val = uart_println (take 255 (ascii key @ ascii ''='' @ cstr val))"

definition uart_send_kv_int :: "string \<Rightarrow> nat \<Rightarrow> uart_out" where
  "uart_send_kv_int key val = uart_println (take 255 (ascii key @ ascii ''='' @ ascii (dec_digits val)))"

definition uart_send_kv_ulong :: "string \<Rightarrow> u32 \<Rightarrow> uart_out" where
  "uart_send_kv_ulong key val = uart_println (take 255 (ascii key @ ascii ''='' @ ascii (dec_digits (unat val))))"

definition uart_handler_send_config_result :: "bool \<Rightarrow> u8 list option \<Rightarrow> uart_out" where
  "uart_handler_send_config_result success message =
     uart_println (take 159 (ascii ''CONFIG_ACK:'' @ ascii (if success then ''SUCCESS'' else ''FAIL'') @ ascii '':'' @
       (case message of Some m \<Rightarrow> if byte_at m 0 \<noteq> 0 then cstr m else ascii ''UNKNOWN'' | None \<Rightarrow> ascii ''UNKNOWN'')))"

subsection \<open>The configuration scan\<close>

definition hidden :: "u8 list \<Rightarrow> u8 list" where
  "hidden secret = (if length (cstr secret) > 0 then ascii ''***HIDDEN***'' else [])"

definition internet_name :: "internet_type \<Rightarrow> string" where
  "internet_name t = (if t = CONFIG_INTERNET_WIFI then ''WIFI'' else if t = CONFIG_INTERNET_LTE then ''LTE''
     else if t = CONFIG_INTERNET_ETHERNET then ''ETHERNET'' else ''UNKNOWN'')"

definition flag01 :: "bool \<Rightarrow> nat" where
  "flag01 b = (if b then 1 else 0)"

definition scan_gateway :: "uart_env \<Rightarrow> uart_out list" where
  "scan_gateway env =
     (let g = lan (gateway env) in
      [uart_println (ascii ''[GATEWAY_INFO]''),
       uart_send_kv ''model'' (ascii ''ESP32S3_IoT_Gateway''),
       uart_send_kv ''firmware'' (ascii ''v1.2.0''),
       uart_send_kv ''hardware'' (ascii ''HW_v2.0''),
       uart_send_kv ''serial'' (ascii ''GW2025001''),
       uart_send_kv ''internet_status''
         (ascii (if mcu_lan_handler_get_internet_status g = INTERNET_STATUS_ONLINE then ''ONLINE'' else ''OFFLINE'')),
       uart_send_kv ''rtc_time''
         (case mcu_lan_handler_get_rtc True (rtc_free env) g of
            (ESP_OK, Some t) \<Rightarrow> t | _ \<Rightarrow> ascii ''UNAVAILABLE'')])"

definition scan_internet :: "uart_env \<Rightarrow> uart_out list" where
  "scan_internet env =
     (let c = cfg (gateway env) in
      [uart_println [], uart_println (ascii ''[WAN_CONFIG]''),
       uart_send_kv ''internet_type'' (ascii (internet_name (g_internet_type c))),
       uart_send_kv ''internet_fallback'' (ascii (if g_internet_fallback (g_inet c) then ''1'' else ''0'')),
       uart_send_kv ''internet_fallback_type'' (ascii (internet_name (g_internet_fallback_type (g_inet c))))])"

definition scan_wifi :: "uart_env \<Rightarrow> uart_out list" where
  "scan_wifi env =
     (case config_get_wifi_safe (wifi_free env) (gateway env) of
        Inr w \<Rightarrow>
          [uart_send_kv ''wifi_ssid'' (wx_ssid w),
           uart_send_kv ''wifi_password'' (hidden (wx_pass w)),
           uart_send_kv ''wifi_username'' (wx_username w),
           uart_send_kv_int ''wifi_auth_mode''
             (case wx_auth_mode w of WIFI_AUTH_MODE_PERSONAL \<Rightarrow> 0 | WIFI_AUTH_MODE_ENTERPRISE \<Rightarrow> 1)]
      | Inl _ \<Rightarrow> [uart_send_kv ''wifi_ssid'' (ascii ''ERROR:MUTEX_TIMEOUT'')])"

definition scan_lte :: "uart_env \<Rightarrow> uart_out list" where
  "scan_lte env =
     (case config_get_lte_safe (lte_free env) (gateway env) of
        Inr ctx \<Rightarrow>
          (let c = lx_cfg ctx in
           [uart_send_kv ''lte_apn'' (lt_apn c),
            uart_send_kv ''lte_username'' (lt_username c),
            uart_send_kv ''lte_password'' (hidden (lt_password c)),
            uart_send_kv ''lte_comm_type'' (ascii (if lt_comm_type c = LTE_HANDLER_UART then ''UART'' else ''USB'')),
            uart_send_kv_ulong ''lte_max_retries'' (lt_max_reconnect_attempts c),
            uart_send_kv_ulong ''lte_timeout_ms'' (lt_reconnect_timeout_ms c),
            uart_send_kv ''lte_auto_reconnect'' (ascii (if lt_auto_reconnect c then ''true'' else ''false'')),
            uart_send_kv ''lte_modem_name'' (lt_modem_name c),
            uart_send_kv ''lte_pwr_pin'' (tca_pin_to_label (lt_pwr_pin c)),
            uart_send_kv ''lte_rst_pin'' (tca_pin_to_label (lt_rst_pin c))])
      | Inl _ \<Rightarrow> [uart_send_kv ''lte_apn'' (ascii ''ERROR:MUTEX_TIMEOUT'')])"

definition scan_mqtt :: "uart_env \<Rightarrow> uart_out list" where
  "scan_mqtt env =
     uart_send_kv ''server_type''
       (ascii (case g_server_type (cfg (gateway env)) of
          CONFIG_SERVERTYPE_MQTT \<Rightarrow> ''MQTT'' | CONFIG_SERVERTYPE_COAP \<Rightarrow> ''COAP'' | CONFIG_SERVERTYPE_HTTP \<Rightarrow> ''HTTP'')) #
     (case config_get_mqtt_safe (mqtt_free env) (gateway env) of
        Inr m \<Rightarrow>
          [uart_send_kv ''mqtt_broker'' (mq_broker_uri m),
           uart_send_kv ''mqtt_pub_topic'' (mq_publish_topic m),
           uart_send_kv ''mqtt_sub_topic'' (mq_subscribe_topic m),
           uart_send_kv ''mqtt_device_token'' (hidden (mq_device_token m)),
           uart_send_kv ''mqtt_attribute_topic'' (mq_attribute_topic m),
           uart_send_kv_int ''mqtt_keepalive_s'' (unat (mq_keepalive_s m)),
           uart_send_kv_ulong ''mqtt_timeout_ms'' (mq_timeout_ms m)]
      | Inl _ \<Rightarrow> [uart_send_kv ''mqtt_broker'' (ascii ''ERROR:MUTEX_TIMEOUT'')])"

definition scan_http_coap :: "uart_env \<Rightarrow> uart_out list" where
  "scan_http_coap env =
     (let h = g_http_cfg (cfg (gateway env)); c = g_coap_cfg (cfg (gateway env)) in
      [uart_send_kv ''http_url'' (hp_server_url h),
       uart_send_kv ''http_auth_token'' (hidden (hp_auth_token h)),
       uart_send_kv_int ''http_port'' (unat (hp_port h)),
       uart_send_kv_int ''http_use_tls'' (flag01 (hp_use_tls h)),
       uart_send_kv_int ''http_verify_server'' (flag01 (hp_verify_server h)),
       uart_send_kv_ulong ''http_timeout_ms'' (hp_timeout_ms h),
       uart_send_kv ''coap_host'' (cp_host c),
       uart_send_kv ''coap_resource_path'' (cp_resource_path c),
       uart_send_kv ''coap_device_token'' (hidden (cp_device_token c)),
       uart_send_kv_int ''coap_port'' (unat (cp_port c)),
       uart_send_kv_int ''coap_use_dtls'' (flag01 (cp_use_dtls c)),
       uart_send_kv_ulong ''coap_ack_timeout_ms'' (cp_ack_timeout_ms c),
       uart_send_kv_int ''coap_max_retransmit'' (unat (cp_max_retransmit c)),
       uart_send_kv_ulong ''coap_rpc_poll_interval_ms'' (cp_rpc_poll_interval_ms c),
       uart_send_kv ''stack_wan_id'' (g_stack_id_wan (cfg (gateway env)))])"

text \<open>The answer of the LAN side, \<open>key=value|key=value\<close>, one line for each pair.\<close>

lemma find_chr_bound: "find_chr s c = Some i \<Longrightarrow> i < length s"
  by (induction s arbitrary: i) (auto split: if_splits)

function lan_lines :: "u8 list \<Rightarrow> u8 list list" where
  "lan_lines s =
     (case find_chr s PIPE of
        Some i \<Rightarrow> take i s # lan_lines (drop (i + 1) s)
      | None \<Rightarrow> if length s > 0 then [s] else [])"
  by pat_completeness auto

termination
  by (relation "measure length") (auto dest: find_chr_bound)

declare lan_lines.simps [simp del]

definition scan_lan :: "uart_env \<Rightarrow> uart_out list" where
  "scan_lan env =
     (let (ret, buf, len) = lan_reply env in
      [uart_println [], uart_println (ascii ''[LAN_CONFIG]'')] @
      (if ret = ESP_OK \<and> len > 0 then map uart_println (lan_lines (cstr buf))
       else [uart_send_kv ''lan_status'' (ascii ''UNAVAILABLE'')]))"

definition handle_cfsc_command :: "uart_env \<Rightarrow> uart_out list" where
  "handle_cfsc_command env =
     [uart_println (ascii ''CFSC_RESP:START'')] @ scan_gateway env @ scan_internet env @ scan_wifi env @
     scan_lte env @ scan_mqtt env @ scan_http_coap env @ scan_lan env @
     [uart_println [], uart_println (ascii ''CFSC_RESP:END'')]"

subsection \<open>One line\<close>

definition to_upper :: "u8 \<Rightarrow> u8" where
  "to_upper b = (if 97 \<le> b \<and> b \<le> 122 then b - 32 else b)"

text \<open>\<open>strncasecmp(line, s, strlen(s)) == 0\<close> for an \<open>s\<close> in capitals\<close>

definition prefix_nocase :: "u8 list \<Rightarrow> string \<Rightarrow> bool" where
  "prefix_nocase line s \<longleftrightarrow> map to_upper (take (length s) line) = ascii s"

definition check_mode_command :: "u8 list \<Rightarrow> int" where
  "check_mode_command line =
     (if length line \<ge> 6
      then if prefix_nocase line ''CONFIG'' then 0
           else if prefix_nocase line ''NORMAL'' then 1 else -1
      else -1)"

definition overrun :: "nat \<Rightarrow> uart_out list" where
  "overrun n = (if n = 0 then [] else [UartOverrun n])"

definition process_uart_line :: "uart_env \<Rightarrow> bool \<Rightarrow> u8 list \<Rightarrow> uart_out list" where
  "process_uart_line env callback line =
     (let mode_cmd = check_mode_command line in
      if mode_cmd \<noteq> -1
      then (if callback then [UartMode mode_cmd] else []) @
           [uart_println (ascii (if mode_cmd = 0 then ''OK:CONFIG_MODE'' else ''OK:NORMAL_MODE''))]
      else if prefix_nocase line ''CFSC'' then handle_cfsc_command env
      else if length line \<ge> 2 \<and> line ! 0 = chr_u8 (CHR ''C'') \<and> line ! 1 = chr_u8 (CHR ''F'')
      then
        if length line \<le> 2 then []
        else
          let cmd_data = drop 2 line; cmd_len = length line - 2
          in if cmd_len > UART_BUF_SIZE - 2 then [uart_println (ascii ''ERROR:CONFIG_TOO_LARGE'')]
             else
               let type = config_parse_type cmd_data (word_of_nat cmd_len)
               in if type = CONFIG_TYPE_UNKNOWN then [uart_println (ascii ''ERROR:UNKNOWN_CMD'')]
                  else if \<not> cmd_alloc env then [uart_println (ascii ''ERROR:OUT_OF_MEMORY'')]
                  else
                    let (cmd, beyond) = make_command type cmd_data CMD_SOURCE_UART
                    in overrun beyond @
                       (if handler_queue (gateway env)
                        then if cmd_room env then [UartQueued cmd, uart_println (ascii ''OK:CMD_QUEUED'')]
                             else [uart_println (ascii ''ERROR:QUEUE_FULL'')]
                        else [uart_println (ascii ''ERROR:NO_HANDLER'')])
      else [uart_println (ascii ''ERROR:INVALID_CMD'')])"

subsection \<open>The task\<close>

text \<open>\<open>line_buf\<close> holds the \<open>line_len\<close> bytes assembled so far; \<open>turn\<close> counts the lines handed on.\<close>

record uart_st =
  uart_handler_running :: bool
  s_uart_initialized :: bool
  s_mode_switch_callback :: bool
  s_uart_task_stack :: bool
  s_uart_task_tcb :: bool
  line_buf :: "u8 list"
  turn :: nat
  uart_outs :: "uart_out list"

definition uart_emit :: "uart_out list \<Rightarrow> uart_st \<Rightarrow> uart_st" where
  "uart_emit os s = s\<lparr>uart_outs := uart_outs s @ os\<rparr>"

definition trim_line :: "u8 list \<Rightarrow> u8 list" where
  "trim_line l = rev (dropWhile (\<lambda>b. b = 13 \<or> b = 32) (rev l))"

text \<open>One byte; \<open>world n\<close> is what the \<open>n\<close>-th line meets.\<close>

definition uart_byte :: "(nat \<Rightarrow> uart_env) \<Rightarrow> u8 \<Rightarrow> uart_st \<Rightarrow> uart_st" where
  "uart_byte world c s =
     (if c = 10
      then
        let line = trim_line (line_buf s);
            s1 = (if length line > 0
                  then (uart_emit (process_uart_line (world (turn s)) (s_mode_switch_callback s) line) s)
                         \<lparr>turn := turn s + 1\<rparr>
                  else s)
        in s1\<lparr>line_buf := []\<rparr>
      else if c \<noteq> 13
      then if length (line_buf s) < UART_BUF_SIZE - 1 then s\<lparr>line_buf := line_buf s @ [c]\<rparr>
           else uart_emit [uart_println (ascii ''ERROR:CMD_TOO_LARGE'')] (s\<lparr>line_buf := []\<rparr>)
      else s)"

definition uart_reinit :: "uart_st \<Rightarrow> uart_st" where
  "uart_reinit s = s\<lparr>s_uart_initialized := True\<rparr>"

text \<open>The entry of the task, and one read of at most \<open>UART_BUF_SIZE - 1\<close> bytes.\<close>

definition uart_task_entry :: "bool \<Rightarrow> bool \<Rightarrow> uart_st \<Rightarrow> uart_st" where
  "uart_task_entry data_ok line_ok s =
     (if \<not> data_ok \<or> \<not> line_ok then s
      else uart_emit [uart_println (ascii [CHR 0x0D, CHR 0x0A] @ ascii ''Gateway UART Interface Ready''),
                      uart_println (ascii ''Commands: CFSC (scan config), CONFIG, NORMAL, CF...'')]
             (uart_reinit (s\<lparr>line_buf := []\<rparr>)))"

definition uart_read :: "(nat \<Rightarrow> uart_env) \<Rightarrow> u8 list \<Rightarrow> uart_st \<Rightarrow> uart_st" where
  "uart_read world data s = (if uart_handler_running s then fold (uart_byte world) data s else s)"

definition uart_handler_task_start :: "bool \<Rightarrow> bool \<Rightarrow> uart_st \<Rightarrow> uart_st" where
  "uart_handler_task_start stack_ok tcb_ok s =
     (if uart_handler_running s then s
      else
        let s1 = s\<lparr>s_uart_task_stack := s_uart_task_stack s \<or> stack_ok, s_uart_task_tcb := s_uart_task_tcb s \<or> tcb_ok\<rparr>
        in if \<not> s_uart_task_stack s1 \<or> \<not> s_uart_task_tcb s1 then s1 else s1\<lparr>uart_handler_running := True\<rparr>)"

definition uart_handler_task_stop :: "uart_st \<Rightarrow> uart_st" where
  "uart_handler_task_stop s = s\<lparr>uart_handler_running := False\<rparr>"

definition uart_handler_register_mode_callback :: "bool \<Rightarrow> uart_st \<Rightarrow> uart_st" where
  "uart_handler_register_mode_callback callback s = s\<lparr>s_mode_switch_callback := callback\<rparr>"

section \<open>The lines of the stream\<close>

text \<open>
  Reference: the pieces before each line feed and the rest after the last one; a line is a
  piece without carriage returns and trailing blanks, unless nothing is left.
\<close>

fun pieces :: "u8 list \<Rightarrow> u8 list list \<times> u8 list" where
  "pieces [] = ([], [])"
| "pieces (b # bs) =
     (case pieces bs of (ls, r) \<Rightarrow>
        if b = 10 then ([] # ls, r)
        else if b = 13 then (ls, r)
        else case ls of [] \<Rightarrow> ([], b # r) | l # ls' \<Rightarrow> ((b # l) # ls', r))"

definition typed_lines :: "u8 list \<Rightarrow> u8 list list" where
  "typed_lines bs = filter (\<lambda>l. l \<noteq> []) (map trim_line (fst (pieces bs)))"

fun answer_lines :: "(nat \<Rightarrow> uart_env) \<Rightarrow> bool \<Rightarrow> nat \<Rightarrow> u8 list list \<Rightarrow> uart_out list" where
  "answer_lines world callback n [] = []"
| "answer_lines world callback n (l # ls) =
     process_uart_line (world n) callback l @ answer_lines world callback (Suc n) ls"

definition fits :: "u8 list \<Rightarrow> bool" where
  "fits bs \<longleftrightarrow> length (snd (pieces bs)) < UART_BUF_SIZE \<and> (\<forall>l \<in> set (fst (pieces bs)). length l < UART_BUF_SIZE)"

lemma pieces_line: "10 \<notin> set p \<Longrightarrow> 13 \<notin> set p \<Longrightarrow>
    pieces (p @ bs) = (case pieces bs of ([], r) \<Rightarrow> ([], p @ r) | (l # ls, r) \<Rightarrow> ((p @ l) # ls, r))"
  by (induction p) (auto split: prod.splits list.splits)

lemma pieces_feed: "10 \<notin> set p \<Longrightarrow> 13 \<notin> set p \<Longrightarrow>
    pieces (p @ 10 # bs) = (p # fst (pieces bs), snd (pieces bs))"
  by (simp add: pieces_line split: prod.split)

lemma pieces_return: "10 \<notin> set p \<Longrightarrow> 13 \<notin> set p \<Longrightarrow> pieces (p @ 13 # bs) = pieces (p @ bs)"
  by (simp add: pieces_line split: prod.split)

lemma pieces_only: "10 \<notin> set p \<Longrightarrow> 13 \<notin> set p \<Longrightarrow> pieces p = ([], p)"
  using pieces_line [of p "[]"] by simp

lemma pieces_clean: "(\<forall>l \<in> set (fst (pieces bs)). 10 \<notin> set l \<and> 13 \<notin> set l) \<and> 10 \<notin> set (snd (pieces bs)) \<and> 13 \<notin> set (snd (pieces bs))"
  by (induction bs) (auto split: prod.splits list.splits)

lemma fits_prefix:
  assumes "10 \<notin> set p" "13 \<notin> set p" "fits (p @ bs)"
  shows "length p < UART_BUF_SIZE"
  using assms by (auto simp: fits_def pieces_line split: prod.splits list.splits)

text \<open>Feeding bytes to the task, against the reference.\<close>

lemma fold_uart_byte:
  assumes "10 \<notin> set (line_buf s)" "13 \<notin> set (line_buf s)" "fits (line_buf s @ bs)"
  shows "let s' = fold (uart_byte world) bs s; ls = typed_lines (line_buf s @ bs) in
     uart_outs s' = uart_outs s @ answer_lines world (s_mode_switch_callback s) (turn s) ls \<and>
     line_buf s' = snd (pieces (line_buf s @ bs)) \<and> turn s' = turn s + length ls \<and>
     s_mode_switch_callback s' = s_mode_switch_callback s"
  using assms
proof (induction bs arbitrary: s)
  case Nil
  then show ?case by (simp add: pieces_only typed_lines_def)
next
  case (Cons b bs)
  let ?s = "uart_byte world b s"
  consider (feed) "b = 10" | (return) "b = 13" | (char) "b \<noteq> 10" "b \<noteq> 13" by blast
  then show ?case
  proof cases
    case feed
    have l: "line_buf ?s = []" by (simp add: uart_byte_def feed Let_def)
    have p: "pieces (line_buf s @ b # bs) = (line_buf s # fst (pieces bs), snd (pieces bs))"
      using Cons.prems by (simp add: feed pieces_feed)
    have "fits bs" using Cons.prems(3) p by (simp add: fits_def)
    with Cons.IH [of ?s] l p show ?thesis
      by (auto simp: Let_def typed_lines_def uart_byte_def feed uart_emit_def)
  next
    case return
    have "?s = s" by (simp add: uart_byte_def return)
    moreover have "pieces (line_buf s @ b # bs) = pieces (line_buf s @ bs)"
      using Cons.prems by (simp add: return pieces_return)
    ultimately show ?thesis using Cons.IH [of s] Cons.prems by (simp add: fits_def typed_lines_def)
  next
    case char
    have "length (line_buf s @ [b]) < UART_BUF_SIZE"
      using fits_prefix [of "line_buf s @ [b]" bs] Cons.prems char by simp
    then have "?s = s\<lparr>line_buf := line_buf s @ [b]\<rparr>" using char by (simp add: uart_byte_def)
    with Cons.IH [of ?s] Cons.prems char show ?thesis by simp
  qed
qed

lemma fold_uart_read:
  "uart_handler_running s \<Longrightarrow>
    fold (uart_read world) chunks s = fold (uart_byte world) (concat chunks) s \<and>
    uart_handler_running (fold (uart_read world) chunks s)"
proof (induction chunks arbitrary: s)
  case (Cons c chunks)
  have "uart_handler_running (uart_byte world b t) = uart_handler_running t" for b t
    by (simp add: uart_byte_def uart_emit_def Let_def)
  then have "uart_handler_running (fold (uart_byte world) bs t) = uart_handler_running t" for bs t
    by (induction bs arbitrary: t) simp_all
  with Cons show ?case by (simp add: uart_read_def)
qed simp

text \<open>
  C14. The lines the gateway acts on are those that were typed. However the received stream is cut
  into reads, the running task hands on exactly the lines of the reference splitting of the
  stream (line feeds end a line, carriage returns and trailing blanks vanish, empty lines are skipped),
  each once, in order, each meeting the world of its turn; what follows the last line feed is kept
  for the next read. The only condition is that no piece reaches the 32768 bytes of the buffer.
\<close>

theorem typed_lines_exact:
  assumes "uart_handler_running s" "line_buf s = []" "fits (concat chunks)"
  shows "let s' = fold (uart_read world) chunks s; ls = typed_lines (concat chunks) in
     uart_outs s' = uart_outs s @ answer_lines world (s_mode_switch_callback s) (turn s) ls \<and>
     line_buf s' = snd (pieces (concat chunks)) \<and> turn s' = turn s + length ls"
proof -
  have "fold (uart_read world) chunks s = fold (uart_byte world) (concat chunks) s"
    using fold_uart_read [OF assms(1)] by blast
  then show ?thesis using fold_uart_byte [of s "concat chunks" world] assms(2,3) by (simp add: Let_def)
qed

definition uart_inv :: "uart_st \<Rightarrow> bool" where
  "uart_inv s \<longleftrightarrow> length (line_buf s) < UART_BUF_SIZE \<and> 10 \<notin> set (line_buf s) \<and> 13 \<notin> set (line_buf s)"

lemma uart_byte_inv: "uart_inv s \<Longrightarrow> uart_inv (uart_byte world c s)"
  by (auto simp: uart_inv_def uart_byte_def uart_emit_def Let_def)

interpretation uart: invariant_step "uart_byte world" uart_inv
  by unfold_locales (rule uart_byte_inv)

lemma trim_line_length: "length (trim_line l) \<le> length l"
  by (simp add: trim_line_def length_dropWhile_le [of _ "rev l", simplified])

section \<open>One line, one answer\<close>

fun printed :: "uart_out list \<Rightarrow> u8 list list" where
  "printed [] = []"
| "printed (UartLine l # os) = l # printed os"
| "printed (_ # os) = printed os"

lemma printed_append [simp]: "printed (a @ b) = printed a @ printed b"
  by (induction a rule: printed.induct) simp_all

lemma printed_println [simp]: "printed [uart_println l] = [cstr l]" "printed (uart_println l # os) = cstr l # printed os"
  by (simp_all add: uart_println_def)

lemma printed_overrun [simp]: "printed (overrun n) = []" "UartQueued c \<notin> set (overrun n)"
  by (simp_all add: overrun_def)

lemma overrun_iff [simp]: "UartOverrun k \<in> set (overrun n) \<longleftrightarrow> n \<noteq> 0 \<and> k = n"
  by (auto simp: overrun_def)

lemma println_simps [simp]: "uart_println l \<noteq> UartQueued c" "uart_println l \<noteq> UartOverrun k" "uart_println l \<noteq> UartMode m"
  "UartQueued c \<noteq> uart_println l" "UartOverrun k \<noteq> uart_println l" "UartMode m \<noteq> uart_println l"
  by (simp_all add: uart_println_def)


text \<open>The answers of the port.\<close>

definition uart_answers :: "string list" where
  "uart_answers = [''OK:CONFIG_MODE'', ''OK:NORMAL_MODE'', ''OK:CMD_QUEUED'', ''ERROR:UNKNOWN_CMD'',
     ''ERROR:OUT_OF_MEMORY'', ''ERROR:QUEUE_FULL'', ''ERROR:NO_HANDLER'', ''ERROR:INVALID_CMD'']"

lemma cstr_answers [simp]: "t \<in> set uart_answers \<Longrightarrow> cstr (ascii t) = ascii t"
  by (auto simp: uart_answers_def cstr_def ascii_def)

definition cf_command :: "u8 list \<Rightarrow> bool" where
  "cf_command line \<longleftrightarrow> check_mode_command line = -1 \<and> \<not> prefix_nocase line ''CFSC'' \<and>
     length line > 2 \<and> line ! 0 = chr_u8 (CHR ''C'') \<and> line ! 1 = chr_u8 (CHR ''F'')"

text \<open>What is queued for a line.\<close>

definition typed_command :: "u8 list \<Rightarrow> config_command" where
  "typed_command line =
     \<lparr>cc_type = config_parse_type (drop 2 line) (word_of_nat (length line - 2)),
      raw_data = take CONFIG_CMD_MAX_LEN (drop 2 line @ zeros CONFIG_CMD_MAX_LEN),
      data_len = word_of_nat (length line - 2), cc_source = CMD_SOURCE_UART, cc_waiter = None\<rparr>"

lemma cf_line:
  assumes "cf_command line" "length line < UART_BUF_SIZE"
  shows "process_uart_line env cb line =
    (if cc_type (typed_command line) = CONFIG_TYPE_UNKNOWN then [uart_println (ascii ''ERROR:UNKNOWN_CMD'')]
     else if \<not> cmd_alloc env then [uart_println (ascii ''ERROR:OUT_OF_MEMORY'')]
     else overrun (length line - 16385) @
       (if handler_queue (gateway env)
        then if cmd_room env then [UartQueued (typed_command line), uart_println (ascii ''OK:CMD_QUEUED'')]
             else [uart_println (ascii ''ERROR:QUEUE_FULL'')]
        else [uart_println (ascii ''ERROR:NO_HANDLER'')]))"
proof -
  have e: "Suc (length line - 2) - CONFIG_CMD_MAX_LEN = length line - 16385"
    and n: "\<not> 32766 < length line - 2"
    using assms by (simp_all add: cf_command_def)
  show ?thesis
    using assms(1) unfolding cf_command_def process_uart_line_def typed_command_def
    by (simp add: Let_def make_command_def fill_array_string e n)
qed

lemma other_line:
  assumes "\<not> cf_command line" "check_mode_command line = -1" "\<not> prefix_nocase line ''CFSC''"
  shows "process_uart_line env cb line =
    (if line = ascii ''CF'' then [] else [uart_println (ascii ''ERROR:INVALID_CMD'')])"
proof -
  have "line = ascii ''CF'' \<longleftrightarrow> length line = 2 \<and> line ! 0 = chr_u8 (CHR ''C'') \<and> line ! 1 = chr_u8 (CHR ''F'')"
    by (auto simp: ascii_def chr_u8_def length_Suc_conv numeral_2_eq_2)
  then show ?thesis using assms by (auto simp: process_uart_line_def cf_command_def Let_def)
qed

lemma scan_frame:
  "printed (handle_cfsc_command env) =
     ascii ''CFSC_RESP:START'' # printed (scan_gateway env @ scan_internet env @ scan_wifi env @
       scan_lte env @ scan_mqtt env @ scan_http_coap env @ scan_lan env) @ [[], ascii ''CFSC_RESP:END'']"
  by (simp add: handle_cfsc_command_def) (simp add: cstr_def ascii_def)

lemma kv_lines [simp]: "UartQueued c \<noteq> uart_send_kv k v" "UartQueued c \<noteq> uart_send_kv_int k n" "UartQueued c \<noteq> uart_send_kv_ulong k u"
  by (simp_all add: uart_send_kv_def uart_send_kv_int_def uart_send_kv_ulong_def)

lemma scan_queues_nothing [simp]: "UartQueued c \<notin> set (handle_cfsc_command env)"
  by (simp add: handle_cfsc_command_def scan_gateway_def scan_internet_def scan_wifi_def scan_lte_def
      scan_mqtt_def scan_http_coap_def scan_lan_def Let_def split: prod.split sum.split) auto

text \<open>
  C23. What a line is answered, and with the truth. A line that fits the buffer gets one line of answer, one
  of eight, which says that the command was queued if and only if one was. There are two exceptions: the
  configuration scan is answered by a report of several lines between its two markers and queues
  nothing, and the bare \<open>CF\<close> gets no answer at all. In particular the answer \<open>ERROR:CONFIG_TOO_LARGE\<close> is
  never given.
\<close>

theorem line_answered_once:
  fixes line :: "u8 list" and env :: uart_env and callback :: bool
  defines "os \<equiv> process_uart_line env callback line"
  assumes "length line < UART_BUF_SIZE"
  shows "if check_mode_command line = -1 \<and> prefix_nocase line ''CFSC''
     then hd (printed os) = ascii ''CFSC_RESP:START'' \<and> last (printed os) = ascii ''CFSC_RESP:END'' \<and>
       (\<forall>c. UartQueued c \<notin> set os)
     else if line = ascii ''CF'' then os = []
     else \<exists>t \<in> set uart_answers. printed os = [ascii t] \<and>
       (t = ''OK:CMD_QUEUED'' \<longleftrightarrow> (\<exists>c. UartQueued c \<in> set os))"
proof -
  consider (mode) "check_mode_command line \<noteq> -1"
    | (scan) "check_mode_command line = -1" "prefix_nocase line ''CFSC''"
    | (cf) "cf_command line"
    | (other) "\<not> cf_command line" "check_mode_command line = -1" "\<not> prefix_nocase line ''CFSC''"
    by blast
  then show ?thesis
  proof cases
    case mode
    then have "line \<noteq> ascii ''CF''" by (auto simp: check_mode_command_def ascii_def)
    with mode show ?thesis
      by (auto simp: os_def process_uart_line_def uart_answers_def cstr_def ascii_def Let_def)
  next
    case scan
    then have "os = handle_cfsc_command env" by (simp add: os_def process_uart_line_def)
    with scan show ?thesis by (simp add: scan_frame)
  next
    case cf
    then have "line \<noteq> ascii ''CF''" by (auto simp: cf_command_def ascii_def)
    with cf show ?thesis
      by (auto simp: os_def cf_line [OF cf assms(2)] cf_command_def uart_answers_def cstr_def ascii_def)
  next
    case other
    have "os = (if line = ascii ''CF'' then [] else [uart_println (ascii ''ERROR:INVALID_CMD'')])"
      unfolding os_def by (rule other_line [OF other])
    then show ?thesis using other(2,3) by (cases "line = ascii ''CF''") (auto simp: uart_answers_def)
  qed
qed


text \<open>
  C24. What is queued is what was typed, and a copy that does not fit. A queued command is the line
  without its \<open>CF\<close>, with the type its first two letters name, its length and the UART as its source,
  and for lines of at most 16385 bytes it lies in its zeroed array, terminated. For every
  longer line, and the buffer takes lines up to 32767 bytes, the copy into the array of 16384 bytes writes
  past its end, by the length of the line less 16385: the check before it compares with the wrong
  size.
\<close>

theorem queued_command_exact:
  assumes "length line < UART_BUF_SIZE" and queued: "UartQueued c \<in> set (process_uart_line env callback line)"
  shows "take 2 line = ascii ''CF'' \<and>
    cc_type c = config_parse_type (raw_data c) (data_len c) \<and> cc_type c \<noteq> CONFIG_TYPE_UNKNOWN \<and>
    cc_source c = CMD_SOURCE_UART \<and> cc_waiter c = None \<and>
    unat (data_len c) = length line - 2 \<and> length (raw_data c) = CONFIG_CMD_MAX_LEN \<and>
    (length line \<le> 16385 \<longrightarrow> raw_data c = drop 2 line @ 0 # zeros (16385 - length line)) \<and>
    (\<forall>n. UartOverrun n \<in> set (process_uart_line env callback line) \<longleftrightarrow> length line > 16385 \<and> n = length line - 16385)"
proof -
  have cf: "cf_command line"
  proof (rule ccontr)
    assume n: "\<not> cf_command line"
    with queued show False
      using other_line [OF n, of env callback] by (auto simp: process_uart_line_def Let_def split: if_splits)
  qed
  then have l2: "length line > 2" by (simp add: cf_command_def)
  then obtain a b r where "line = a # b # r" by (cases line; cases "tl line") auto
  with cf have two: "take 2 line = ascii ''CF''" by (simp add: cf_command_def ascii_def chr_u8_def)
  have c: "c = typed_command line" "cc_type (typed_command line) \<noteq> CONFIG_TYPE_UNKNOWN" "cmd_alloc env"
    using queued by (auto simp: cf_line [OF cf assms(1)] split: if_splits)
  have len: "unat (word_of_nat (length line - 2) :: u16) = length line - 2"
    using assms(1) by (intro unat_u16_of_nat) simp
  let ?raw = "take CONFIG_CMD_MAX_LEN (drop 2 line @ zeros CONFIG_CMD_MAX_LEN)"
  have "config_parse_type ?raw n = config_parse_type (drop 2 line) n" for n
    by (simp add: config_parse_type_def byte_at_def zeros_def nth_append)
  moreover have "?raw = drop 2 line @ 0 # zeros (16385 - length line)" if "length line \<le> 16385"
  proof -
    have "CONFIG_CMD_MAX_LEN - (length line - 2) = Suc (16385 - length line)" using that l2 by simp
    then show ?thesis using that by (simp add: zeros_def)
  qed
  moreover have "length ?raw = CONFIG_CMD_MAX_LEN" by (simp add: zeros_def)
  moreover have "UartOverrun n \<in> set (process_uart_line env callback line) \<longleftrightarrow> length line > 16385 \<and> n = length line - 16385" for n
    using c by (auto simp: cf_line [OF cf assms(1)])
  ultimately show ?thesis using c two len by (simp add: typed_command_def zeros_def min_def)
qed

section \<open>The scan gives away no secret\<close>

definition put_secrets :: "u8 list \<Rightarrow> u8 list \<Rightarrow> u8 list \<Rightarrow> u8 list \<Rightarrow> u8 list \<Rightarrow> cfg_st \<Rightarrow> cfg_st" where
  "put_secrets wifi lte mqtt http coap c =
     c\<lparr>g_wifi_ctx := (g_wifi_ctx c)\<lparr>wx_pass := wifi\<rparr>,
       g_lte_ctx := (g_lte_ctx c)\<lparr>lx_cfg := (lx_cfg (g_lte_ctx c))\<lparr>lt_password := lte\<rparr>\<rparr>,
       g_mqtt_ctx := (g_mqtt_ctx c)\<lparr>mq_device_token := mqtt\<rparr>,
       g_http_cfg := (g_http_cfg c)\<lparr>hp_auth_token := http\<rparr>,
       g_coap_cfg := (g_coap_cfg c)\<lparr>cp_device_token := coap\<rparr>\<rparr>"

lemma hidden_same: "(cstr a = []) = (cstr b = []) \<Longrightarrow> hidden a = hidden b"
  by (simp add: hidden_def)

text \<open>
  The configuration report gives away no secret. Whatever the Wi-Fi password, the LTE password
  and the MQTT, HTTP and CoAP tokens are replaced by, as long as none appears or disappears, the port
  prints exactly the same bytes in answer to \<open>CFSC\<close>: of a secret the report tells only whether it is set.
\<close>

lemma scan_hides_secrets:
  fixes env :: uart_env
  defines "c \<equiv> cfg (gateway env)"
  assumes same: "(cstr wifi = []) = (cstr (wx_pass (g_wifi_ctx c)) = [])"
      "(cstr lte = []) = (cstr (lt_password (lx_cfg (g_lte_ctx c))) = [])"
      "(cstr mqtt = []) = (cstr (mq_device_token (g_mqtt_ctx c)) = [])"
      "(cstr http = []) = (cstr (hp_auth_token (g_http_cfg c)) = [])"
      "(cstr coap = []) = (cstr (cp_device_token (g_coap_cfg c)) = [])"
    and env': "env' = env\<lparr>gateway := (gateway env)\<lparr>cfg := put_secrets wifi lte mqtt http coap c\<rparr>\<rparr>"
  shows "handle_cfsc_command env' = handle_cfsc_command env"
proof -
  note hidden = hidden_same [OF same(1)] hidden_same [OF same(2)] hidden_same [OF same(3)]
    hidden_same [OF same(4)] hidden_same [OF same(5)]
  have "scan_gateway env' = scan_gateway env" "scan_internet env' = scan_internet env" "scan_lan env' = scan_lan env"
    by (simp_all add: env' put_secrets_def c_def scan_gateway_def scan_internet_def scan_lan_def Let_def)
  moreover have "scan_wifi env' = scan_wifi env" "scan_lte env' = scan_lte env" "scan_mqtt env' = scan_mqtt env"
    using hidden by (simp_all add: env' put_secrets_def c_def scan_wifi_def scan_lte_def scan_mqtt_def Let_def
        config_get_wifi_safe_def config_get_lte_safe_def config_get_mqtt_safe_def)
  moreover have "scan_http_coap env' = scan_http_coap env"
    using hidden by (simp add: env' put_secrets_def c_def scan_http_coap_def Let_def)
  ultimately show ?thesis by (simp add: handle_cfsc_command_def)
qed

section \<open>The port forwards commands\<close>

interpretation uart_port: command_port "\<lambda>d. typed_command (ascii ''CF'' @ d)" "16383"
proof (unfold_locales, goal_cases)
  case (1 d)
  have "drop 2 (ascii ''CF'' @ d) = d" by (simp add: ascii_def)
  then show ?case using 1 raw_short [of d] by (auto simp: typed_command_def)
qed (simp_all add: typed_command_def ascii_def)

text \<open>A command typed on the serial port, with its line ending.\<close>

lemma pieces_one_line: "10 \<notin> set l \<Longrightarrow> 13 \<notin> set l \<Longrightarrow> pieces (l @ [13, 10]) = ([l], [])"
  by (simp add: pieces_line)

lemma trim_line_last: "l \<noteq> [] \<Longrightarrow> last l \<noteq> 13 \<Longrightarrow> last l \<noteq> 32 \<Longrightarrow> trim_line l = l"
  by (cases l rule: rev_cases) (simp_all add: trim_line_def)

definition printable :: "u8 list \<Rightarrow> bool" where
  "printable s \<longleftrightarrow> plain COLON s \<and> 10 \<notin> set s \<and> 13 \<notin> set s"

lemma auth_text_plain: "10 \<notin> set (auth_text a)" "13 \<notin> set (auth_text a)" "auth_text a \<noteq> []"
    "last (auth_text a) \<noteq> 13" "last (auth_text a) \<noteq> 32"
  by (cases a; simp add: auth_text_def ascii_def)+

lemma typed_wifi_line:
  fixes a :: wifi_auth_mode and user :: "u8 list option"
  assumes "printable ssid" "length ssid < 64" "printable pass" "length pass < 64"
    and user: "\<And>u. user = Some u \<Longrightarrow> printable u \<and> length u < 64"
  defines "cmd \<equiv> wifi_command ssid pass user (auth_text a)"
  defines "line \<equiv> ascii ''CF'' @ cmd"
  shows "fits (line @ [13, 10])" "typed_lines (line @ [13, 10]) = [line]" "cf_command line" "length cmd < 256"
proof -
  show len: "length cmd < 256"
    using wifi_command_length [of ssid pass user a] assms(2,4) user by (auto simp: cmd_def)
  have "10 \<notin> set cmd" "13 \<notin> set cmd"
    using assms(1,3) user auth_text_plain by (auto simp: cmd_def wifi_command_def printable_def ascii_def split: option.splits)
  then have n: "10 \<notin> set line" "13 \<notin> set line" by (simp_all add: line_def ascii_def)
  have "cmd \<noteq> []" "last cmd = last (auth_text a)"
    using auth_text_plain by (auto simp: cmd_def wifi_command_def ascii_def split: option.split)
  then have t: "trim_line line = line" "line \<noteq> []"
    using auth_text_plain by (auto simp: line_def ascii_def intro!: trim_line_last)
  have "length line < UART_BUF_SIZE" using len by (simp add: line_def ascii_def)
  then show "fits (line @ [13, 10])" by (simp add: fits_def pieces_one_line [OF n])
  show "typed_lines (line @ [13, 10]) = [line]" using t by (simp add: typed_lines_def pieces_one_line [OF n])
  have five: "line = 67 # 70 # 87 # 70 # COLON # drop 3 cmd"
    by (simp add: line_def cmd_def wifi_command_def ascii_def)
  show "cf_command line"
    unfolding cf_command_def check_mode_command_def prefix_nocase_def five
    by (simp add: ascii_def to_upper_def chr_u8_def)
qed

text \<open>The answer of the task to a network it has taken.\<close>

lemma uart_network_answer:
  assumes "cc_type c = CONFIG_TYPE_WIFI" "cc_source c = CMD_SOURCE_UART" "fst (exec_wifi drv c s) = ok ''WF:OK''"
  shows "CfgUartResult True (ascii ''WF:OK'') \<in> set (cfg_outs (config_handler_task drv env (Some c) s))"
proof -
  obtain s' where "exec_wifi drv c s = (ok ''WF:OK'', s')" using assms(3) by (cases "exec_wifi drv c s") simp
  then show ?thesis
    using assms(1,2) by (simp add: config_handler_task_def ok_def cout_def config_handler_publish_result_def byte_at_def)
      (simp add: cstr_def ascii_def)
qed

section \<open>At work\<close>

definition demo_uart :: uart_env where
  "demo_uart = \<lparr>cmd_alloc = True, cmd_room = True, rtc_free = True, wifi_free = True, lte_free = True,
     mqtt_free = True, lan_reply = (ESP_OK, ascii ''a=1|b=2'', 7), gateway = demo_task\<rparr>"

definition demo_uart_st :: uart_st where
  "demo_uart_st = \<lparr>uart_handler_running = True, s_uart_initialized = True, s_mode_switch_callback = True,
     s_uart_task_stack = True, s_uart_task_tcb = True, line_buf = [], turn = 0, uart_outs = []\<rparr>"

definition demo_chunks :: "u8 list list" where
  "demo_chunks = [ascii ''CFX'', ascii ''X:1 '', [13], [10, 13, 10], ascii ''norMAL'' @ [32, 13, 10], ascii ''CFS'']"

theorem typed_lines_exact_witness:
  "let s = fold (uart_read (\<lambda>_. demo_uart)) demo_chunks demo_uart_st
   in uart_outs s = [UartLine (ascii ''ERROR:UNKNOWN_CMD''), UartMode 1, UartLine (ascii ''OK:NORMAL_MODE'')] \<and>
      line_buf s = ascii ''CFS'' \<and> turn s = 2"
proof -
  have p: "pieces (concat demo_chunks) = ([ascii ''CFXX:1 '', [], ascii ''norMAL ''], ascii ''CFS'')"
    by code_simp
  then have t: "typed_lines (concat demo_chunks) = [ascii ''CFXX:1'', ascii ''norMAL'']"
    unfolding typed_lines_def by (simp add: trim_line_def ascii_def)
  have f: "fits (concat demo_chunks)" unfolding fits_def p by (simp add: ascii_def)
  have u: "uart_handler_running demo_uart_st" "line_buf demo_uart_st = []" "s_mode_switch_callback demo_uart_st"
    "turn demo_uart_st = 0" "uart_outs demo_uart_st = []" by (simp_all add: demo_uart_st_def)
  have x: "cf_command (ascii ''CFXX:1'')" "cc_type (typed_command (ascii ''CFXX:1'')) = CONFIG_TYPE_UNKNOWN"
    by (simp_all add: cf_command_def typed_command_def check_mode_command_def prefix_nocase_def ascii_def chr_u8_def
        to_upper_def config_parse_type_def byte_at_def)
  have l: "length (ascii ''CFXX:1'') < UART_BUF_SIZE" by (simp add: ascii_def)
  have "process_uart_line demo_uart True (ascii ''CFXX:1'') = [UartLine (ascii ''ERROR:UNKNOWN_CMD'')]"
    by (simp add: cf_line [OF x(1) l] x(2) uart_println_def) (simp add: cstr_def ascii_def)
  moreover
  have m: "check_mode_command (ascii ''norMAL'') = 1" by code_simp
  have "process_uart_line demo_uart True (ascii ''norMAL'') = [UartMode 1, UartLine (ascii ''OK:NORMAL_MODE'')]"
    by (simp add: process_uart_line_def m uart_println_def) (simp add: cstr_def ascii_def)
  ultimately show ?thesis
    using typed_lines_exact [OF u(1,2) f, of "\<lambda>_. demo_uart"] p t u by (simp add: Let_def)
qed

lemma demo_line:
  "length (ascii ''CFSV:1'') < UART_BUF_SIZE" "cf_command (ascii ''CFSV:1'')"
  "cc_type (typed_command (ascii ''CFSV:1'')) = CONFIG_TYPE_SERVER"
  by (simp_all add: cf_command_def typed_command_def check_mode_command_def prefix_nocase_def ascii_def chr_u8_def
      to_upper_def config_parse_type_def byte_at_def)

lemma demo_line_out: "process_uart_line demo_uart cb (ascii ''CFSV:1'') =
   [UartQueued (typed_command (ascii ''CFSV:1'')), uart_println (ascii ''OK:CMD_QUEUED'')]"
  using demo_line by (simp add: cf_line) (simp add: demo_uart_def demo_task_def ascii_def overrun_def)

theorem line_answered_once_witness:
  "printed (process_uart_line demo_uart True (ascii ''CFSV:1'')) = [ascii ''OK:CMD_QUEUED''] \<and>
   (\<exists>c. UartQueued c \<in> set (process_uart_line demo_uart True (ascii ''CFSV:1'')))"
proof -
  let ?line = "ascii ''CFSV:1''"
  have n: "\<not> (check_mode_command ?line = -1 \<and> prefix_nocase ?line ''CFSC'')" "?line \<noteq> ascii ''CF''"
    by code_simp+
  have "UartQueued (typed_command ?line) \<in> set (process_uart_line demo_uart True ?line)"
    by (simp add: demo_line_out)
  with line_answered_once [OF demo_line(1), of demo_uart True] n show ?thesis by auto
qed

theorem queued_command_exact_witness:
  "let c = typed_command (ascii ''CFSV:1'')
   in raw_data c = ascii ''SV:1'' @ 0 # zeros 16379 \<and> unat (data_len c) = 4"
proof -
  let ?line = "ascii ''CFSV:1''"
  have "UartQueued (typed_command ?line) \<in> set (process_uart_line demo_uart True ?line)"
    by (simp add: demo_line_out)
  from queued_command_exact [OF demo_line(1) this] show ?thesis by (simp add: ascii_def)
qed

text \<open>A line that overruns: a Wi-Fi command of 16386 bytes writes one byte too many.\<close>

lemma overrun_reachable:
  "UartOverrun 1 \<in> set (process_uart_line demo_uart True (ascii ''CFWF'' @ replicate 16382 88))"
proof -
  let ?line = "ascii ''CFWF'' @ replicate 16382 88"
  have cf: "cf_command ?line"
    by (simp add: cf_command_def check_mode_command_def prefix_nocase_def ascii_def chr_u8_def to_upper_def)
  have "cc_type (typed_command ?line) = CONFIG_TYPE_WIFI"
    by (simp add: typed_command_def config_parse_type_def ascii_def chr_u8_def byte_at_def)
  moreover have "length ?line = 16386" by (simp add: ascii_def)
  ultimately show ?thesis by (simp add: cf_line [OF cf]) (simp add: demo_uart_def)
qed

lemma scan_hides_secrets_applied:
  "handle_cfsc_command (demo_uart\<lparr>gateway := demo_task\<lparr>cfg := put_secrets (ascii ''other'')
      (lt_password (lx_cfg (g_lte_ctx demo_cfg))) (mq_device_token (g_mqtt_ctx demo_cfg))
      (hp_auth_token (g_http_cfg demo_cfg)) (cp_device_token (g_coap_cfg demo_cfg)) demo_cfg\<rparr>\<rparr>) =
   handle_cfsc_command demo_uart"
proof -
  have "(cstr (ascii ''other'') = []) = (cstr (wx_pass (g_wifi_ctx demo_cfg)) = [])" by code_simp
  moreover have "cfg (gateway demo_uart) = demo_cfg" "gateway demo_uart = demo_task"
    by (simp_all add: demo_uart_def demo_task_def)
  ultimately show ?thesis
    using scan_hides_secrets [of "ascii ''other''" demo_uart, OF _ refl refl refl refl refl] by simp
qed

end
