(* ===== verification/Captive_Dns.thy ===== *)
theory Captive_Dns
  imports Gw_Prelude
begin

text \<open>
  \<open>Application/Web_Config_Handler/src/captive_dns.c\<close>: the name server of the configuration access
  point, which answers every query with the gateway's own address so that phones open the
  portal. A datagram is the list of its bytes, \<open>recvfrom\<close> an input of the loop. The answer is
  built in an array of 512 bytes; \<open>tx_overrun\<close> counts the bytes written past its end, after
  which C leaves the behaviour undefined.

  The property reads the answers as a resolver does, by the message format of RFC 1035: a query without
  additional records gets the address; with one, as the extension mechanism EDNS sends, it does
  not; and the largest datagrams overrun the array.
\<close>

section \<open>The server\<close>

abbreviation "DNS_MAX_PACKET \<equiv> 512 :: nat"
abbreviation "DNS_HEADER_SIZE \<equiv> 12 :: nat"

definition CAPTIVE_IP :: "u8 list" where
  "CAPTIVE_IP = [192, 168, 4, 1]"

text \<open>\<open>*(uint16_t *)(p + i) = htons(v)\<close>\<close>

definition put16 :: "nat \<Rightarrow> u16 \<Rightarrow> u8 list \<Rightarrow> u8 list" where
  "put16 i v p = p[i := hi8 v, i + 1 := lo8 v]"

definition answer_record :: "u8 list" where
  "answer_record = [0xC0, 0x0C, 0x00, 0x01, 0x00, 0x01, 0x00, 0x00, 0x00, 0x3C, 0x00, 0x04] @ CAPTIVE_IP"

text \<open>The answer to one received query, and how far it goes past the end of \<open>tx_buf\<close>.\<close>

definition dns_respond :: "u8 list \<Rightarrow> u8 list option" where
  "dns_respond rx =
     (if length rx < DNS_HEADER_SIZE then None
      else
        let tx = put16 10 0 (put16 8 0 (put16 6 1 (put16 2 0x8580 rx)))
        in Some (tx @ answer_record))"

definition tx_overrun :: "u8 list \<Rightarrow> nat" where
  "tx_overrun rx = length rx + length answer_record - DNS_MAX_PACKET"

record dns_st =
  s_running :: bool
  s_dns_task :: bool                    \<comment> \<open>the handle is set\<close>
  serving :: bool                       \<comment> \<open>the task is in its loop\<close>
  sent :: "u8 list list"

text \<open>The task up to its loop, then one turn of the loop: a datagram of at most 512 bytes or,
  with \<open>None\<close>, the time-out of two seconds.\<close>

definition dns_server_task :: "bool \<Rightarrow> bool \<Rightarrow> dns_st \<Rightarrow> dns_st" where
  "dns_server_task socket_ok bind_ok s = s\<lparr>serving := socket_ok \<and> bind_ok\<rparr>"

definition dns_turn :: "u8 list option \<Rightarrow> dns_st \<Rightarrow> dns_st" where
  "dns_turn received s =
     (if \<not> serving s then s
      else if \<not> s_running s then s\<lparr>serving := False\<rparr>
      else case received of
        None \<Rightarrow> s
      | Some rx \<Rightarrow>
          (case dns_respond (take DNS_MAX_PACKET rx) of
             None \<Rightarrow> s
           | Some tx \<Rightarrow> s\<lparr>sent := sent s @ [tx]\<rparr>))"

definition captive_dns_start :: "bool \<Rightarrow> dns_st \<Rightarrow> dns_st" where
  "captive_dns_start create_ok s =
     (if s_running s then s else s\<lparr>s_running := True, s_dns_task := s_dns_task s \<or> create_ok\<rparr>)"

definition captive_dns_stop :: "dns_st \<Rightarrow> dns_st" where
  "captive_dns_stop s =
     (if \<not> s_running s then s else s\<lparr>s_running := False, s_dns_task := False\<rparr>)"

section \<open>Reading a message\<close>

function skip_name :: "u8 list \<Rightarrow> u8 list option" where
  "skip_name [] = None"
| "skip_name (b # bs) =
     (if b = 0 then Some bs
      else if b < 64 then if length bs < unat b then None else skip_name (drop (unat b) bs)
      else if b \<ge> 192 then (case bs of [] \<Rightarrow> None | _ # r \<Rightarrow> Some r)
      else None)"
  by pat_completeness auto

termination
  by (relation "measure length") auto

declare skip_name.simps(2) [simp del]

text \<open>Identifier, type and data of the first answer of a message with one question.\<close>

definition first_answer :: "u8 list \<Rightarrow> (u16 \<times> u16 \<times> u8 list) option" where
  "first_answer m =
     (if length m < DNS_HEADER_SIZE \<or> \<not> bit (m ! 2) 7 \<or> be16 (m ! 4) (m ! 5) \<noteq> 1 \<or> be16 (m ! 6) (m ! 7) = 0 then None
      else case skip_name (drop DNS_HEADER_SIZE m) of
        None \<Rightarrow> None
      | Some q \<Rightarrow>
          (case skip_name (drop 4 q) of
             None \<Rightarrow> None
           | Some a \<Rightarrow>
               if length a < 10 then None
               else Some (be16 (m ! 0) (m ! 1), be16 (a ! 0) (a ! 1), take (unat (be16 (a ! 8) (a ! 9))) (drop 10 a))))"

definition dns_name :: "u8 list list \<Rightarrow> u8 list" where
  "dns_name ls = concat (map (\<lambda>l. word_of_nat (length l) # l) ls) @ [0]"

definition labels :: "u8 list list \<Rightarrow> bool" where
  "labels ls \<longleftrightarrow> (\<forall>l \<in> set ls. l \<noteq> [] \<and> length l < 64)"

lemma skip_name_dns: "labels ls \<Longrightarrow> skip_name (dns_name ls @ r) = Some r"
proof (induction ls)
  case Nil
  then show ?case by (simp add: dns_name_def skip_name.simps(2))
next
  case (Cons l ls)
  have l: "0 < length l" "length l < 64" using Cons.prems by (auto simp: labels_def)
  have u: "unat (word_of_nat (length l) :: u8) = length l"
    using l(2) by (simp add: unat_of_nat take_bit_nat_eq_self)
  have w: "(word_of_nat (length l) :: u8) \<noteq> 0" "(word_of_nat (length l) :: u8) < 64"
    using l u by (simp_all add: word_less_nat_alt unat_eq_0 [symmetric] del: unat_eq_0)
  have "dns_name (l # ls) @ r = word_of_nat (length l) # l @ dns_name ls @ r" by (simp add: dns_name_def)
  moreover have "labels ls" using Cons.prems by (simp add: labels_def)
  ultimately show ?case using Cons.IH w u by (simp add: skip_name.simps(2))
qed

text \<open>A query: identifier, flags, one question, \<open>extra\<close> additional records.\<close>

definition dns_query :: "u8 \<Rightarrow> u8 \<Rightarrow> u8 \<Rightarrow> u8 \<Rightarrow> u8 list list \<Rightarrow> u16 \<Rightarrow> u16 \<Rightarrow> u16 \<Rightarrow> u8 list \<Rightarrow> u8 list" where
  "dns_query id1 id2 f1 f2 ls qtype qclass extras extra =
     [id1, id2, f1, f2, 0, 1, 0, 0, 0, 0, hi8 extras, lo8 extras] @ dns_name ls @
     [hi8 qtype, lo8 qtype, hi8 qclass, lo8 qclass] @ extra"

text \<open>The pseudo-record of EDNS: root name, type 41, payload size, flags, no data.\<close>

definition edns_record :: "u16 \<Rightarrow> u8 list" where
  "edns_record limit = [0, 0, 41, hi8 limit, lo8 limit, 0, 0, 0, 0, 0, 0]"

lemma dns_respond_query:
  "dns_respond (dns_query id1 id2 f1 f2 ls qtype qclass extras extra) =
     Some ([id1, id2, 0x85, 0x80, 0, 1, 0, 1, 0, 0, 0, 0] @ dns_name ls @
       [hi8 qtype, lo8 qtype, hi8 qclass, lo8 qclass] @ extra @ answer_record)"
  by (simp add: dns_respond_def dns_query_def put16_def hi8_def lo8_def)

text \<open>
  What the captive portal's name server answers. A query for any name and type without
  additional records gets its own identifier and the address 192.168.4.1, in a record of type A. A query with an EDNS
  record gets that record back as its only answer, of type 41 and without an address:
  the answer is appended behind it and the count of additional records cleared. In both cases,
  for datagrams of up to 496 bytes the answer is 16 bytes longer than the query and stays in the
  array; each byte more is written past its end.
\<close>

lemma captive_answer_exact:
  fixes id1 id2 f1 f2 :: u8 and qtype qclass extras :: u16
  assumes ls: "labels ls" and extra: "extra = [] \<or> extra = edns_record limit"
  defines "q \<equiv> dns_query id1 id2 f1 f2 ls qtype qclass extras extra"
  assumes s: "s_running s" "serving s" and len: "length q \<le> DNS_MAX_PACKET"
  shows "\<exists>tx. sent (dns_turn (Some q) s) = sent s @ [tx] \<and>
     first_answer tx = Some (be16 id1 id2, if extra = [] then (1, CAPTIVE_IP) else (41, [])) \<and>
     length tx = length q + 16 \<and> tx_overrun q = length q - 496"
proof -
  let ?q4 = "[hi8 qtype, lo8 qtype, hi8 qclass, lo8 qclass]"
  define tx where "tx = [id1, id2, 0x85, 0x80, 0, 1, 0, 1, 0, 0, 0, 0] @ dns_name ls @ ?q4 @ extra @ answer_record"
  have r: "dns_respond q = Some tx" by (simp add: q_def dns_respond_query tx_def)
  have "sent (dns_turn (Some q) s) = sent s @ [tx]" using s len by (simp add: dns_turn_def r)
  moreover have "length tx = length q + 16" by (simp add: tx_def q_def dns_query_def answer_record_def CAPTIVE_IP_def)
  moreover have "tx_overrun q = length q - 496" by (simp add: tx_overrun_def answer_record_def CAPTIVE_IP_def)
  moreover have "first_answer tx = Some (be16 id1 id2, if extra = [] then (1, CAPTIVE_IP) else (41, []))"
  proof -
    have n: "skip_name (dns_name ls @ ?q4 @ extra @ answer_record) = Some (?q4 @ extra @ answer_record)"
      by (rule skip_name_dns [OF ls])
    have b: "be16 0 1 = 1" "be16 0 4 = 4" "be16 0 0 = 0" "be16 0 41 = 41" "unat (4 :: u16) = 4" "bit (0x85 :: u8) 7"
      by (simp_all add: be16_def)
    have "skip_name (extra @ answer_record) = Some (if extra = [] then drop 2 answer_record else drop 1 extra @ answer_record)"
      using extra by (auto simp: skip_name.simps(2) answer_record_def edns_record_def)
    with extra n b show ?thesis
      by (auto simp: first_answer_def tx_def answer_record_def edns_record_def CAPTIVE_IP_def)
  qed
  ultimately show ?thesis by blast
qed

definition demo_dns :: dns_st where
  "demo_dns = \<lparr>s_running = True, s_dns_task = True, serving = True, sent = []\<rparr>"

lemma captive_answer_exact_applied:
  "\<exists>tx. sent (dns_turn (Some (dns_query 7 9 1 0 [[97, 98], [99]] 1 1 0 [])) demo_dns) = [tx] \<and>
     first_answer tx = Some (be16 7 9, 1, [192, 168, 4, 1]) \<and> length tx = 38"
proof -
  have "labels [[97, 98], [99]]" by (simp add: labels_def)
  moreover have "length (dns_query 7 9 1 0 [[97, 98], [99]] 1 1 0 []) = 22"
    by (simp add: dns_query_def dns_name_def)
  ultimately show ?thesis
    using captive_answer_exact [of "[[97, 98], [99]]" "[]" 0 demo_dns 7 9 1 0 1 1 0]
    by (auto simp: demo_dns_def CAPTIVE_IP_def)
qed

text \<open>A datagram of 512 bytes writes sixteen bytes past the end.\<close>

lemma overrun_at_most: "length q \<le> DNS_MAX_PACKET \<Longrightarrow> tx_overrun q \<le> 16"
  by (simp add: tx_overrun_def answer_record_def CAPTIVE_IP_def)

end
