(* ===== verification/Text_Search.thy ===== *)
theory Text_Search
  imports Config_Task
begin

text \<open>
  Facts on \<open>strstr\<close> and \<open>strchr\<close> (\<open>strstr_pos\<close>, \<open>find_chr\<close>) and on the positions they give, shared by
  the theories that read JSON bodies, addresses and paths.
\<close>

lemma strstr_no_head:
  "c \<notin> set m \<Longrightarrow> strstr_pos (m @ x) (c # n) = map_option (\<lambda>i. i + length m) (strstr_pos x (c # n))"
  by (induction m) (auto simp: option.map_comp comp_def option.map_ident)

lemma takeWhile_stop: "c \<notin> set k \<Longrightarrow> takeWhile (\<lambda>b. b \<noteq> c) (k @ c # r) = k"
  by (induction k) auto

lemma strstr_pos_bound: "strstr_pos h n = Some k \<Longrightarrow> k \<le> length h"
  by (induction h n arbitrary: k rule: strstr_pos.induct) (auto split: if_splits)

lemma drop_next: "drop n xs = y # ys \<Longrightarrow> drop (n + 0 + 1) xs = ys"
  by (metis drop_Suc tl_drop list.sel(3) add_0_right Suc_eq_plus1)

lemma drop_length_plus: "drop (length xs + n) (xs @ ys) = drop n ys"
  by simp

lemma strstr_step: "take (length n) (h # hs) \<noteq> n \<Longrightarrow> strstr_pos (h # hs) n = map_option Suc (strstr_pos hs n)"
  by simp

lemma strstr_other: "c \<noteq> d \<Longrightarrow> strstr_pos (c # z) (d # v) = map_option Suc (strstr_pos z (d # v))"
  by simp

lemma find_chr_plain: "plain c x \<Longrightarrow> find_chr (x @ r) c = map_option (\<lambda>i. length x + i) (find_chr r c)"
  by (cases "find_chr r c"; induction x) (auto simp: plain_def)

end
