(* ===== verification/Fota.thy ===== *)
theory Fota
  imports Text_Search
begin

text \<open>
  \<open>Application/FOTA/src/fota_handler.c\<close>, the gateway's own firmware update, and \<open>fota_ap.c\<close>, the access
  point over which the LAN side loads its firmware. The address and its storage are in \<open>Config_NVS\<close>.

  The HTTP client, the OTA library, sockets and the Wi-Fi driver are outside: \<open>ota_world\<close> is what they answer in one
  attempt, a list of outputs what they are asked for. A failed \<open>ESP_ERROR_CHECK\<close>, which restarts the chip, is left out. The code for
  resumption and version checks is not compiled (its switches are 0) or not called.

  The properties: only a whole image is booted; an update ends, with a restart; which server is asked; what
  the access point leaves behind.
\<close>

section \<open>The address\<close>

text \<open>Host and port of the address, as the arrays \<open>host\<close> and \<open>port_str\<close> of \<open>server_reachable\<close> hold them. \<open>port_str\<close>
  begins as \<open>80\<close>, and a port is copied over it without a terminator.\<close>

definition fota_target :: "u8 list \<Rightarrow> (u8 list \<times> u8 list) option" where
  "fota_target url =
     (case strstr_pos url (ascii ''://'') of
        None \<Rightarrow> None
      | Some i \<Rightarrow>
          let after_scheme = drop (i + 3) url;
              slash = find_chr after_scheme 47;
              colon = find_chr after_scheme 58;
              to_slash = (case slash of Some j \<Rightarrow> j | None \<Rightarrow> length after_scheme)
          in case colon of
               Some c \<Rightarrow>
                 if slash = None \<or> c < to_slash
                 then
                   let plen = to_slash - (c + 1);
                       port_str = ascii ''80'' @ zeros 6
                   in Some (take (min c 127) after_scheme,
                        cstr (if 0 < plen \<and> plen < 8
                              then take plen (drop (c + 1) after_scheme) @ drop plen port_str else port_str))
                 else Some (take (min to_slash 127) after_scheme,
                        if take 5 url = ascii ''https'' then ascii ''443'' else ascii ''80'')
             | None \<Rightarrow> Some (take (min to_slash 127) after_scheme,
                        if take 5 url = ascii ''https'' then ascii ''443'' else ascii ''80''))"

text \<open>\<open>reach\<close>: the name resolves and a connection comes up within five seconds.\<close>

definition server_reachable :: "(u8 list \<Rightarrow> u8 list \<Rightarrow> bool) \<Rightarrow> u8 list \<Rightarrow> bool" where
  "server_reachable reach url = (case fota_target url of None \<Rightarrow> False | Some (host, port) \<Rightarrow> reach host port)"

section \<open>The download\<close>

record ota_probe =
  probe_init :: bool
  probe_status :: int
  probe_location :: "u8 list"           \<comment> \<open>the header \<open>Location\<close>, empty if there was none\<close>

datatype ota_read =
    OtaChunk "u8 list" bool             \<comment> \<open>bytes read, and whether \<open>esp_ota_write\<close> took them\<close>
  | OtaReadFailed

record ota_world =
  ota_partition :: bool
  ota_buffer :: bool
  ota_probes :: "nat \<Rightarrow> u8 list \<Rightarrow> ota_probe"
  ota_client :: bool
  ota_open :: bool
  ota_status :: int
  ota_begin :: bool
  ota_reads :: "ota_read list"          \<comment> \<open>until \<open>esp_http_client_read\<close> returns 0\<close>
  ota_end :: esp_err
  ota_set_boot :: esp_err

datatype ota_out =
    OtaProbe "u8 list" | OtaGet "u8 list" | OtaBegin | OtaWrite "u8 list" | OtaAbort | OtaEnd | OtaSetBoot | OtaRestart

definition strlcpy_2048 :: "u8 list \<Rightarrow> u8 list" where
  "strlcpy_2048 s = take 2047 s"

text \<open>The loop over redirections, \<open>n\<close> rounds left.\<close>

fun ota_redirects :: "ota_world \<Rightarrow> nat \<Rightarrow> u8 list \<Rightarrow> u8 list option \<times> ota_out list" where
  "ota_redirects w 0 url = (Some url, [])"
| "ota_redirects w (Suc n) url =
     (let p = ota_probes w n url
      in if \<not> probe_init p then (None, [])
         else if probe_status p \<in> {301, 302, 307, 308}
         then
           if probe_location p = [] then (None, [OtaProbe url])
           else (let (r, os) = ota_redirects w n (strlcpy_2048 (probe_location p)) in (r, OtaProbe url # os))
         else (Some url, [OtaProbe url]))"

fun ota_receive :: "ota_read list \<Rightarrow> nat \<Rightarrow> nat option \<times> ota_out list" where
  "ota_receive [] n = (Some n, [])"
| "ota_receive (OtaReadFailed # rs) n = (None, [])"
| "ota_receive (OtaChunk d written # rs) n =
     (if \<not> written then (None, [OtaWrite d])
      else (let (r, os) = ota_receive rs (n + length d) in (r, OtaWrite d # os)))"

definition ota_download :: "ota_world \<Rightarrow> u8 list \<Rightarrow> esp_err \<times> ota_out list" where
  "ota_download w fw_url =
     (if \<not> ota_partition w then (ESP_FAIL, [])
      else if \<not> ota_buffer w then (ESP_ERR_NO_MEM, [])
      else case ota_redirects w 5 (strlcpy_2048 fw_url) of
        (None, os) \<Rightarrow> (ESP_FAIL, os)
      | (Some final_url, os) \<Rightarrow>
          if \<not> ota_client w then (ESP_FAIL, os)
          else if \<not> ota_open w then (ESP_FAIL, os)
          else
            let os1 = os @ [OtaGet final_url]
            in if ota_status w \<noteq> 200 then (ESP_FAIL, os1)
               else if \<not> ota_begin w then (ESP_FAIL, os1)
               else case ota_receive (ota_reads w) 0 of
                 (None, ws) \<Rightarrow> (ESP_FAIL, os1 @ OtaBegin # ws @ [OtaAbort])
               | (Some n, ws) \<Rightarrow>
                   if n = 0 then (ESP_FAIL, os1 @ OtaBegin # ws @ [OtaAbort])
                   else if ota_end w \<noteq> ESP_OK then (ota_end w, os1 @ OtaBegin # ws @ [OtaEnd])
                   else (ota_set_boot w, os1 @ OtaBegin # ws @ OtaEnd # (if ota_set_boot w = ESP_OK then [OtaSetBoot] else [])))"

text \<open>The attempts of the task, \<open>n\<close> left.\<close>

fun ota_attempts :: "nat \<Rightarrow> (nat \<Rightarrow> (u8 list \<Rightarrow> u8 list \<Rightarrow> bool) \<times> ota_world) \<Rightarrow> u8 list \<Rightarrow> ota_out list" where
  "ota_attempts 0 world url = [OtaRestart]"
| "ota_attempts (Suc n) world url =
     (let (reach, w) = world n
      in if \<not> server_reachable reach url then ota_attempts n world url
         else
           let (err, os) = ota_download w url
           in if err = ESP_OK then os @ [OtaRestart] else os @ ota_attempts n world url)"

definition advanced_ota_task :: "(nat \<Rightarrow> (u8 list \<Rightarrow> u8 list \<Rightarrow> bool) \<times> ota_world) \<Rightarrow> cfg_st \<Rightarrow> ota_out list" where
  "advanced_ota_task world s = ota_attempts 5 world (cstr (s_fota_url s))"

section \<open>The access point for the LAN side\<close>

datatype wifi_mode = WIFI_MODE_NULL | WIFI_MODE_STA | WIFI_MODE_AP | WIFI_MODE_APSTA

text \<open>The state of the driver is its mode, \<open>WIFI_MODE_NULL\<close> while it is not initialised; what is asked of it is the list
  \<open>ap_outs\<close>.\<close>

datatype ap_out = ApConnect | ApNaptOn | ApDns | ApNetifDestroyed

record fota_ap_st =
  s_fota_ap_netif :: bool
  s_fota_ap_running :: bool
  s_was_apsta :: bool
  wifi_now :: wifi_mode
  ap_listening :: bool                  \<comment> \<open>the handler for WIFI_EVENT_AP_START is registered\<close>
  ap_outs :: "ap_out list"

record fota_ap_env =
  ap_netif_ok :: bool
  ap_sem_ok :: bool
  ap_init_ret :: esp_err                \<comment> \<open>ESP_OK also for ESP_ERR_WIFI_INIT_STATE\<close>
  ap_napt_ret :: esp_err

definition fota_ap_started :: "fota_ap_env \<Rightarrow> fota_ap_st \<Rightarrow> fota_ap_st" where
  "fota_ap_started env s =
     s\<lparr>ap_listening := False, s_fota_ap_running := True,
       ap_outs := ap_outs s @ (if ap_napt_ret env = ESP_OK then [ApNaptOn] else []) @ [ApDns]\<rparr>"

definition fota_ap_start :: "fota_ap_env \<Rightarrow> fota_ap_st \<Rightarrow> esp_err \<times> fota_ap_st" where
  "fota_ap_start env s =
     (if s_fota_ap_running s then (ESP_OK, s)
      else if \<not> s_fota_ap_netif s \<and> \<not> ap_netif_ok env then (ESP_FAIL, s)
      else
        let s1 = s\<lparr>s_fota_ap_netif := True\<rparr>;
            wait_for_ap_start = (wifi_now s = WIFI_MODE_STA \<or> wifi_now s = WIFI_MODE_NULL);
            s2 = (if wait_for_ap_start \<and> ap_sem_ok env then s1\<lparr>ap_listening := True\<rparr> else s1)
        in if wifi_now s = WIFI_MODE_STA
           then (ESP_OK, fota_ap_started env (s2\<lparr>wifi_now := WIFI_MODE_APSTA, s_was_apsta := True\<rparr>))
           else if wifi_now s = WIFI_MODE_NULL
           then
             if ap_init_ret env \<noteq> ESP_OK then (ap_init_ret env, s2\<lparr>ap_listening := False\<rparr>)
             else (ESP_OK, fota_ap_started env (s2\<lparr>wifi_now := WIFI_MODE_AP, s_was_apsta := False\<rparr>))
           else (ESP_OK, fota_ap_started env (s2\<lparr>s_was_apsta := (wifi_now s = WIFI_MODE_APSTA)\<rparr>)))"

definition fota_ap_stop :: "fota_ap_st \<Rightarrow> esp_err \<times> fota_ap_st" where
  "fota_ap_stop s =
     (if \<not> s_fota_ap_running s then (ESP_OK, s)
      else
        let s1 = (if s_was_apsta s then s\<lparr>wifi_now := WIFI_MODE_STA, ap_outs := ap_outs s @ [ApConnect]\<rparr>
                  else s\<lparr>wifi_now := WIFI_MODE_NULL\<rparr>);
            s2 = (if s_fota_ap_netif s1 then s1\<lparr>s_fota_ap_netif := False, ap_outs := ap_outs s1 @ [ApNetifDestroyed]\<rparr> else s1)
        in (ESP_OK, s2\<lparr>s_fota_ap_running := False, s_was_apsta := False\<rparr>))"

definition fota_ap_is_running :: "fota_ap_st \<Rightarrow> bool" where
  "fota_ap_is_running s = s_fota_ap_running s"

section \<open>Updates\<close>

lemma redirects_probes: "\<exists>ps. snd (ota_redirects w n url) = map OtaProbe ps \<and> length ps \<le> n"
proof (induction n arbitrary: url)
  case (Suc n)
  obtain r os where r: "ota_redirects w n (strlcpy_2048 (probe_location (ota_probes w n url))) = (r, os)"
    by (cases "ota_redirects w n (strlcpy_2048 (probe_location (ota_probes w n url)))")
  then obtain ps where "os = map OtaProbe ps" "length ps \<le> n" using Suc [of "strlcpy_2048 (probe_location (ota_probes w n url))"] by auto
  then have "snd (ota_redirects w (Suc n) url) \<in> {[], map OtaProbe [url], map OtaProbe (url # ps)}"
    using r by (auto simp: Let_def)
  then show ?case using \<open>length ps \<le> n\<close>
    by (metis insertE empty_iff length_Cons list.size(3) Suc_le_mono le0 list.simps(8))
qed simp

lemma receive_all:
  "ota_receive rs n = (Some m, ws) \<Longrightarrow> \<exists>ds. rs = map (\<lambda>d. OtaChunk d True) ds \<and> ws = map OtaWrite ds \<and> m = n + length (concat ds)"
proof (induction rs arbitrary: n ws)
  case (Cons x rs)
  obtain d where x: "x = OtaChunk d True" using Cons.prems by (cases x) (auto split: if_splits)
  obtain m' ws' where r: "ota_receive rs (n + length d) = (m', ws')" by (cases "ota_receive rs (n + length d)")
  with Cons.prems x have m: "ota_receive rs (n + length d) = (Some m, ws')" "ws = OtaWrite d # ws'" by auto
  from Cons.IH [OF m(1)] obtain ds where "rs = map (\<lambda>d. OtaChunk d True) ds" "ws' = map OtaWrite ds" "m = n + length d + length (concat ds)"
    by blast
  then show ?case using x m(2) by (intro exI [of _ "d # ds"]) simp
qed simp

lemma receive_writes: "\<exists>ds. snd (ota_receive rs n) = map OtaWrite ds"
proof (induction rs arbitrary: n)
  case (Cons x rs)
  show ?case
  proof (cases x)
    case (OtaChunk d k)
    obtain ds where "snd (ota_receive rs (n + length d)) = map OtaWrite ds" using Cons.IH by blast
    then have "snd (ota_receive (x # rs) n) \<in> {map OtaWrite [d], map OtaWrite (d # ds)}"
      using OtaChunk by (cases "ota_receive rs (n + length d)") auto
    then show ?thesis by blast
  qed simp
qed simp

text \<open>The handle of the update and what is done with it.\<close>

definition handles :: "ota_out list \<Rightarrow> ota_out list" where
  "handles os = filter (\<lambda>x. x \<in> {OtaBegin, OtaEnd, OtaAbort, OtaSetBoot, OtaRestart}) os"

lemma handles_simps [simp]:
  "handles (map OtaProbe ps) = []" "handles (map OtaWrite ds) = []" "handles (a @ b) = handles a @ handles b" "handles [] = []"
  "handles (OtaGet u # os) = handles os"
  "handles (OtaBegin # os) = OtaBegin # handles os" "handles (OtaEnd # os) = OtaEnd # handles os"
  "handles (OtaAbort # os) = OtaAbort # handles os" "handles (OtaSetBoot # os) = OtaSetBoot # handles os"
  "handles (OtaRestart # os) = OtaRestart # handles os"
  by (auto simp: handles_def filter_empty_conv)

lemma download_handles:
  "fst (ota_download w url) = ESP_OK \<and> handles (snd (ota_download w url)) = [OtaBegin, OtaEnd, OtaSetBoot] \<or>
   fst (ota_download w url) \<noteq> ESP_OK \<and> handles (snd (ota_download w url)) \<in> {[], [OtaBegin, OtaAbort], [OtaBegin, OtaEnd]}"
proof -
  obtain r os where r: "ota_redirects w 5 (strlcpy_2048 url) = (r, os)" by (cases "ota_redirects w 5 (strlcpy_2048 url)")
  then obtain ps where os: "os = map OtaProbe ps" using redirects_probes [of w 5 "strlcpy_2048 url"] by auto
  obtain m ws where m: "ota_receive (ota_reads w) 0 = (m, ws)" by (cases "ota_receive (ota_reads w) 0")
  then obtain ds where "ws = map OtaWrite ds" using receive_writes [of "ota_reads w" 0] by auto
  then show ?thesis by (auto simp: ota_download_def r os m Let_def split: option.split)
qed

text \<open>
  C6. Only a whole image is ever booted. When the boot partition is changed, the download has gone through: the last address answered
  200, every read before the end of the response succeeded, and was written, in order and nothing else; the image is
  not empty, and the library has checked it. In every other case the download is an error.
\<close>

theorem update_boots_whole_image:
  "(OtaSetBoot \<in> set (snd (ota_download w url)) \<longleftrightarrow> fst (ota_download w url) = ESP_OK) \<and>
   (fst (ota_download w url) = ESP_OK \<longrightarrow> (\<exists>ps final ds.
     snd (ota_download w url) = map OtaProbe ps @ OtaGet final # OtaBegin # map OtaWrite ds @ [OtaEnd, OtaSetBoot] \<and>
     length ps \<le> 5 \<and> ota_reads w = map (\<lambda>d. OtaChunk d True) ds \<and> concat ds \<noteq> [] \<and> ota_status w = 200 \<and> ota_end w = ESP_OK))"
proof -
  obtain r os where r: "ota_redirects w 5 (strlcpy_2048 url) = (r, os)" by (cases "ota_redirects w 5 (strlcpy_2048 url)")
  then obtain ps where os: "os = map OtaProbe ps" "length ps \<le> 5" using redirects_probes [of w 5 "strlcpy_2048 url"] by auto
  obtain m ws where m: "ota_receive (ota_reads w) 0 = (m, ws)" by (cases "ota_receive (ota_reads w) 0")
  have boot: "OtaSetBoot \<in> set os \<longleftrightarrow> OtaSetBoot \<in> set (handles os)" for os by (simp add: handles_def)
  have "\<exists>ps final ds.
     snd (ota_download w url) = map OtaProbe ps @ OtaGet final # OtaBegin # map OtaWrite ds @ [OtaEnd, OtaSetBoot] \<and>
     length ps \<le> 5 \<and> ota_reads w = map (\<lambda>d. OtaChunk d True) ds \<and> concat ds \<noteq> [] \<and> ota_status w = 200 \<and> ota_end w = ESP_OK"
    if ok: "fst (ota_download w url) = ESP_OK"
  proof -
    from ok obtain n final where n: "m = Some n" "n \<noteq> 0" "r = Some final" "ota_status w = 200" "ota_end w = ESP_OK" "ota_set_boot w = ESP_OK"
      and out: "snd (ota_download w url) = os @ OtaGet final # OtaBegin # ws @ [OtaEnd, OtaSetBoot]"
      by (auto simp: ota_download_def r m Let_def split: if_splits option.splits)
    from receive_all [OF m [unfolded n(1)]] obtain ds where
      "ota_reads w = map (\<lambda>d. OtaChunk d True) ds" "ws = map OtaWrite ds" "n = length (concat ds)" by auto
    with n out os show ?thesis by (intro exI [of _ ps] exI [of _ final] exI [of _ ds]) auto
  qed
  then show ?thesis using download_handles [of w url] boot [of "snd (ota_download w url)"] by auto
qed

lemma attempts_handles:
  "\<exists>xs. handles (ota_attempts n world url) = concat xs @ [OtaRestart] \<and> length xs \<le> n \<and>
     (\<forall>x \<in> set xs. x \<in> {[], [OtaBegin, OtaAbort], [OtaBegin, OtaEnd], [OtaBegin, OtaEnd, OtaSetBoot]}) \<and>
     (\<forall>x \<in> set (butlast xs). OtaSetBoot \<notin> set x)"
proof (induction n)
  case 0
  then show ?case by (intro exI [of _ "[]"]) simp
next
  case (Suc n)
  then obtain xs where xs: "handles (ota_attempts n world url) = concat xs @ [OtaRestart]" "length xs \<le> n"
    "\<forall>x \<in> set xs. x \<in> {[], [OtaBegin, OtaAbort], [OtaBegin, OtaEnd], [OtaBegin, OtaEnd, OtaSetBoot]}"
    "\<forall>x \<in> set (butlast xs). OtaSetBoot \<notin> set x" by blast
  obtain reach w where w: "world n = (reach, w)" by (cases "world n")
  obtain e os where d: "ota_download w url = (e, os)" by (cases "ota_download w url")
  show ?case
  proof (cases "server_reachable reach url")
    case False
    with xs w show ?thesis by (intro exI [of _ xs]) simp
  next
    case True
    then have a: "ota_attempts (Suc n) world url = (if e = ESP_OK then os @ [OtaRestart] else os @ ota_attempts n world url)"
      by (simp add: w d)
    show ?thesis
    proof (cases "e = ESP_OK")
      case True
      with a download_handles [of w url] show ?thesis by (intro exI [of _ "[[OtaBegin, OtaEnd, OtaSetBoot]]"]) (simp add: d)
    next
      case False
      with download_handles [of w url] have h: "handles os \<in> {[], [OtaBegin, OtaAbort], [OtaBegin, OtaEnd]}" by (simp add: d)
      with a False xs show ?thesis by (intro exI [of _ "handles os # xs"]) auto
    qed
  qed
qed

lemma ota_attempts_nonempty: "ota_attempts n world url \<noteq> []"
  by (induction n) (auto simp: Let_def split: prod.split)

text \<open>
  C20. An update ends, with a restart. Whatever the network does, the task makes at most five attempts, each of
  which closes the update it has opened, by finishing or by aborting it, before the next begins;
  an attempt that changes the boot partition is the last one; and after the last one the
  gateway restarts, once, whether the update has succeeded or not.
\<close>

theorem update_ends_with_restart:
  "\<exists>attempts. handles (advanced_ota_task world s) = concat attempts @ [OtaRestart] \<and> length attempts \<le> 5 \<and>
     (\<forall>a \<in> set attempts. a \<in> {[], [OtaBegin, OtaAbort], [OtaBegin, OtaEnd], [OtaBegin, OtaEnd, OtaSetBoot]}) \<and>
     (\<forall>a \<in> set (butlast attempts). OtaSetBoot \<notin> set a) \<and>
     last (advanced_ota_task world s) = OtaRestart"
proof -
  have "last (ota_attempts n world url) = OtaRestart" for n url
    by (induction n) (auto simp: Let_def split: prod.split, (metis last_appendR ota_attempts_nonempty)+)
  then show ?thesis using attempts_handles [of 5 world "cstr (s_fota_url s)"] by (auto simp: advanced_ota_task_def)
qed

section \<open>The address\<close>

lemma strstr_scheme:
  assumes "58 \<notin> set scheme"
  shows "strstr_pos (scheme @ ascii ''://'' @ rest) (ascii ''://'') = Some (length scheme)"
proof -
  have "ascii ''://'' = 58 # ascii ''//''" by (simp add: ascii_def)
  moreover have "strstr_pos (ascii ''://'' @ rest) (ascii ''://'') = Some 0" by (simp add: ascii_def)
  ultimately show ?thesis using strstr_no_head [OF assms, of "ascii ''://'' @ rest" "ascii ''//''"] by simp
qed

lemma port_text:
  assumes "n \<noteq> 0" "n < 65536"
  shows "0 < length (dec_digits n) \<and> length (dec_digits n) < 8 \<and>
    cstr (ascii (dec_digits n) @ drop (length (dec_digits n)) (ascii ''80'' @ zeros 6)) = ascii (dec_digits (if n < 10 then 10 * n else n))"
proof -
  note d = dec_digits_props [of n 0] dec_digits_props [of n 4]
  have zero: "char_of (48 :: nat) = CHR ''0''" by code_simp
  have z: "0 \<notin> set (ascii (dec_digits n))" using d(1) is_digit_not by auto
  have len: "0 < length (dec_digits n)" "length (dec_digits n) \<le> 5" using d assms by auto
  have one: "n < 10 \<longleftrightarrow> length (dec_digits n) = 1"
  proof
    assume "length (dec_digits n) = 1"
    show "n < 10"
    proof (rule ccontr)
      assume "\<not> n < 10"
      then have "length (dec_digits n) = Suc (length (dec_digits (n div 10)))" by (simp add: dec_digits.simps [of n])
      with \<open>length (dec_digits n) = 1\<close> dec_digits_props [of "n div 10" 0] show False by simp
    qed
  qed (simp add: dec_digits.simps [of n])
  have c: "cstr (ascii (dec_digits n) @ x) = ascii (dec_digits n) @ cstr x" for x by (rule cstr_append [OF z])
  show ?thesis
  proof (cases "n < 10")
    case True
    then have "dec_digits (10 * n) = dec_digits n @ ''0''"
      using assms(1) zero by (subst dec_digits.simps) (simp add: dec_digits.simps [of n])
    moreover have "cstr (drop 1 (ascii ''80'' @ zeros 6)) = ascii ''0''" by code_simp
    ultimately show ?thesis using True one len by (simp add: c)
  next
    case False
    then have "2 \<le> length (dec_digits n)" using one len(1) by linarith
    then obtain j where j: "length (dec_digits n) = Suc (Suc j)" by (metis add_2_eq_Suc le_Suc_ex)
    have "drop (length (dec_digits n)) (ascii ''80'' @ zeros 6) = zeros (8 - length (dec_digits n))"
      by (simp add: j ascii_def zeros_def)
    with False len show ?thesis by (simp add: c)
  qed
qed

text \<open>
  The check asks the server of the address. For an address of a scheme, a host of up to 127 characters, a port or none, and a path or
  none, the check connects to that host, and to that port; without a port, to 443 for \<open>https\<close> and to 80
  otherwise. Except that a port of one digit is taken for ten times its number: the digit is put over the first one of the
  default \<open>80\<close>, of which the second remains.
\<close>

lemma update_server_exact:
  fixes port :: "nat option" and scheme host path :: "u8 list"
  assumes scheme: "58 \<notin> set scheme" "0 \<notin> set scheme"
    and host: "plain 58 host" "47 \<notin> set host" "length host \<le> 127"
    and port: "port \<noteq> Some 0" "\<forall>p. port = Some p \<longrightarrow> p < 65536" and path: "path = [] \<or> hd path = 47" "0 \<notin> set path"
  defines "p \<equiv> (case port of None \<Rightarrow> [] | Some n \<Rightarrow> 58 # ascii (dec_digits n))"
  shows "server_reachable reach (scheme @ ascii ''://'' @ host @ p @ path) =
    reach host (case port of
       None \<Rightarrow> if take 5 (scheme @ ascii ''://'' @ host @ path) = ascii ''https'' then ascii ''443'' else ascii ''80''
     | Some n \<Rightarrow> ascii (dec_digits (if n < 10 then 10 * n else n)))"
proof -
  let ?rest = "host @ p @ path" and ?url = "scheme @ ascii ''://'' @ host @ p @ path"
  have l: "length (ascii ''://'') = 3" by (simp add: ascii_def)
  have after: "drop (length scheme + 3) ?url = ?rest" by (simp add: l)
  have no_colon: "plain 58 host" "plain 47 host" using host(1,2) by (simp_all add: plain_def)
  have path_slash: "find_chr path 47 = (if path = [] then None else Some 0)" using path(1) by (cases path) auto
  show ?thesis
  proof (cases port)
    case None
    then have p: "p = []" by (simp add: p_def)
    have slash: "find_chr ?rest 47 = (if path = [] then None else Some (length host))"
      by (simp add: p find_chr_plain [OF no_colon(2)] path_slash)
    have colon: "find_chr ?rest 58 = None \<or> path \<noteq> [] \<and> (\<exists>c > length host. find_chr ?rest 58 = Some c)"
      using path(1) find_chr_plain [OF no_colon(1), of path]
      by (cases path; cases "find_chr (tl path) 58") (simp_all add: p)
    have t: "fota_target ?url = Some (host, if take 5 (scheme @ ascii ''://'' @ host @ path) = ascii ''https'' then ascii ''443'' else ascii ''80'')"
      using colon slash host(3)
      by (auto simp: fota_target_def strstr_scheme [OF scheme(1)] after Let_def l p split: option.split)
    show ?thesis by (simp add: server_reachable_def t None)
  next
    case (Some n)
    let ?d = "ascii (dec_digits n)"
    have p: "p = 58 # ?d" by (simp add: p_def Some)
    have n: "n \<noteq> 0" "n < 65536" using port Some by auto
    note t = port_text [OF n]
    have pd: "plain 47 (host @ 58 # ?d)" using no_colon(2) dec_digits_props [of n 0] is_digit_not by (auto simp: plain_def is_digit_def)
    have colon: "find_chr ?rest 58 = Some (length host)" by (simp add: p find_chr_plain [OF no_colon(1)])
    have slash: "find_chr ?rest 47 = (if path = [] then None else Some (length host + Suc (length ?d)))"
      using find_chr_plain [OF pd, of path] by (simp add: p path_slash)
    have d: "take (length ?d) (drop (length host + 1) ?rest) = ?d" by (simp add: p)
    have "length ?rest = length host + Suc (length ?d)" if "path = []" using that by (simp add: p)
    then have "fota_target ?url = Some (host, ascii (dec_digits (if n < 10 then 10 * n else n)))"
      using t host(3) d unfolding fota_target_def strstr_scheme [OF scheme(1)] option.case Let_def after colon slash
      by (auto simp: p)
    then show ?thesis by (simp add: server_reachable_def Some)
  qed
qed

section \<open>The access point\<close>

text \<open>
  What the access point leaves behind. A start that fails changes nothing of the Wi-Fi driver and leaves no
  handler; one that succeeds has an access point up, beside the station where there was one. After the stop a driver that was a station is
  one again, and one that was off is off. But one that was already an access point is switched
  off, and one that was both is left a station: the access point that was there before is gone.
\<close>

lemma fota_ap_restores:
  fixes s :: fota_ap_st and env env' :: fota_ap_env
  assumes "\<not> s_fota_ap_running s" "\<not> ap_listening s"
  defines "res \<equiv> fota_ap_start env s"
  defines "s2 \<equiv> snd (fota_ap_stop (snd res))"
  shows "(if fst res = ESP_OK
      then fota_ap_is_running (snd res) \<and> wifi_now (snd res) \<in> {WIFI_MODE_AP, WIFI_MODE_APSTA} \<and> \<not> fota_ap_is_running s2 \<and>
        \<not> s_fota_ap_netif s2 \<and>
        wifi_now s2 = (case wifi_now s of WIFI_MODE_STA \<Rightarrow> WIFI_MODE_STA | WIFI_MODE_APSTA \<Rightarrow> WIFI_MODE_STA | _ \<Rightarrow> WIFI_MODE_NULL)
      else \<not> fota_ap_is_running (snd res) \<and> wifi_now (snd res) = wifi_now s \<and> s2 = snd res) \<and>
    \<not> ap_listening (snd res) \<and> fota_ap_start env' (snd res) = (if fst res = ESP_OK then (ESP_OK, snd res) else fota_ap_start env' (snd res))"
  using assms(1,2)
  by (cases "wifi_now s") (auto simp: res_def s2_def fota_ap_start_def fota_ap_started_def fota_ap_stop_def fota_ap_is_running_def Let_def)

section \<open>At work\<close>

definition demo_ota :: "ota_read list \<Rightarrow> ota_world" where
  "demo_ota rs = \<lparr>ota_partition = True, ota_buffer = True,
     ota_probes = (\<lambda>n u. \<lparr>probe_init = True, probe_status = (if n = 4 then 302 else 200), probe_location = ascii ''http://b/x''\<rparr>),
     ota_client = True, ota_open = True, ota_status = 200, ota_begin = True, ota_reads = rs, ota_end = ESP_OK, ota_set_boot = ESP_OK\<rparr>"

theorem update_boots_whole_image_witness:
  "OtaSetBoot \<in> set (snd (ota_download (demo_ota [OtaChunk [1, 2] True, OtaChunk [3] True]) (ascii ''https://a/x''))) \<and>
   OtaSetBoot \<notin> set (snd (ota_download (demo_ota [OtaChunk [1, 2] True, OtaReadFailed]) (ascii ''https://a/x'')))"
proof -
  have "fst (ota_download (demo_ota [OtaChunk [1, 2] True, OtaChunk [3] True]) (ascii ''https://a/x'')) = ESP_OK"
    "fst (ota_download (demo_ota [OtaChunk [1, 2] True, OtaReadFailed]) (ascii ''https://a/x'')) = ESP_FAIL"
    by code_simp+
  then show ?thesis
    using update_boots_whole_image [of "demo_ota [OtaChunk [1, 2] True, OtaChunk [3] True]" "ascii ''https://a/x''"]
      update_boots_whole_image [of "demo_ota [OtaChunk [1, 2] True, OtaReadFailed]" "ascii ''https://a/x''"] by simp
qed

theorem update_ends_with_restart_witness:
  "last (advanced_ota_task (\<lambda>n. (\<lambda>host port. n = 3, demo_ota [OtaReadFailed])) demo_cfg) = OtaRestart"
  using update_ends_with_restart [of "\<lambda>n. (\<lambda>host port. n = 3, demo_ota [OtaReadFailed])" demo_cfg] by blast

lemma update_server_exact_applied:
  "server_reachable (\<lambda>h p. h = ascii ''fw'' \<and> p = ascii (dec_digits 8080)) (ascii ''http'' @ ascii ''://'' @ ascii ''fw'' @ (58 # ascii (dec_digits 8080)) @ ascii ''/v1'') \<and>
   server_reachable (\<lambda>h p. p = ascii (dec_digits 70)) (ascii ''http'' @ ascii ''://'' @ ascii ''fw'' @ (58 # ascii (dec_digits 7)) @ [])"
proof -
  have t: "58 \<notin> set (ascii ''http'')" "0 \<notin> set (ascii ''http'')" "plain 58 (ascii ''fw'')" "47 \<notin> set (ascii ''fw'')" "length (ascii ''fw'') \<le> 127"
    "ascii ''/v1'' = [] \<or> hd (ascii ''/v1'') = 47" "0 \<notin> set (ascii ''/v1'')"
    by (simp_all add: ascii_def plain_def)
  have p: "Some 8080 \<noteq> Some (0 :: nat)" "\<forall>p. Some 8080 = Some p \<longrightarrow> p < (65536 :: nat)"
    "Some 7 \<noteq> Some (0 :: nat)" "\<forall>p. Some 7 = Some p \<longrightarrow> p < (65536 :: nat)" "\<not> (8080 :: nat) < 10" "(7 :: nat) < 10" "10 * 7 = (70 :: nat)"
    by simp_all
  note x = update_server_exact [OF t(1-5) p(1,2) t(6,7), unfolded option.case if_not_P [OF p(5)]]
  note y = update_server_exact [OF t(1-5) p(3,4) disjI1 [OF refl], unfolded option.case if_P [OF p(6)] p(7)]
  show ?thesis by (intro conjI x [THEN iffD2] y [THEN iffD2]) simp_all
qed

lemma fota_ap_restores_applied:
  "let s = \<lparr>s_fota_ap_netif = False, s_fota_ap_running = False, s_was_apsta = False, wifi_now = WIFI_MODE_AP, ap_listening = False, ap_outs = []\<rparr>;
       env = \<lparr>ap_netif_ok = True, ap_sem_ok = True, ap_init_ret = ESP_OK, ap_napt_ret = ESP_OK\<rparr>
   in wifi_now (snd (fota_ap_stop (snd (fota_ap_start env s)))) = WIFI_MODE_NULL"
  using fota_ap_restores [of "\<lparr>s_fota_ap_netif = False, s_fota_ap_running = False, s_was_apsta = False, wifi_now = WIFI_MODE_AP, ap_listening = False, ap_outs = []\<rparr>"
      "\<lparr>ap_netif_ok = True, ap_sem_ok = True, ap_init_ret = ESP_OK, ap_napt_ret = ESP_OK\<rparr>"]
  by (simp add: fota_ap_start_def Let_def)

end
