(* ===== verification/Telemetry_Port.thy ===== *)
theory Telemetry_Port
  imports Text_Search
begin

text \<open>
  What the three server clients owe the LAN handler: a queue of 32 messages of up to 2048 bytes, whose
  elements the publishing task sends one by one. The locale states the contract of the two
  operations; the interpretations are in \<open>Mqtt_Client\<close>, \<open>Http_Client\<close> and \<open>Coap_Client\<close>.

  \<open>ready\<close> is the state in which the task publishes, \<open>good\<close> an outcome of the outside world in which the
  message is handed to the network, \<open>message\<close> what is then sent.
\<close>

abbreviation "PUBLISH_QUEUE_DEPTH \<equiv> 32 :: nat"
abbreviation "PUBLISH_MAX_LEN \<equiv> 2048 :: nat"

locale telemetry_port =
  fixes queue :: "'s \<Rightarrow> u8 list list option"
    and enqueue :: "bool \<Rightarrow> u8 list option \<Rightarrow> 's \<Rightarrow> bool \<times> 's"
    and turn :: "'e \<Rightarrow> 's \<Rightarrow> 's"
    and ready :: "'s \<Rightarrow> bool"
    and good :: "'e \<Rightarrow> bool"
    and sent :: "'s \<Rightarrow> 'o list"
    and message :: "'s \<Rightarrow> u8 list \<Rightarrow> 'o list"
  assumes takes: "queue s = Some q \<Longrightarrow> d \<noteq> [] \<Longrightarrow> length q < PUBLISH_QUEUE_DEPTH \<Longrightarrow>
      fst (enqueue room (Some d) s) \<and> queue (snd (enqueue room (Some d) s)) = Some (q @ [take PUBLISH_MAX_LEN d])"
    and keeps: "ready (snd (enqueue room d' s)) = ready s" "sent (snd (enqueue room d' s)) = sent s"
      "message (snd (enqueue room d' s)) = message s"
    and refuses: "queue s = Some q \<Longrightarrow> PUBLISH_QUEUE_DEPTH \<le> length q \<Longrightarrow> enqueue False d' s = (False, s)"
    and publishes: "ready s \<Longrightarrow> good e \<Longrightarrow> queue s = Some (d # q) \<Longrightarrow> d \<noteq> [] \<Longrightarrow>
      queue (turn e s) = Some q \<and> sent (turn e s) = sent s @ message s d \<and> ready (turn e s) \<and> message (turn e s) = message s"
begin

definition put :: "bool \<Rightarrow> u8 list list \<Rightarrow> 's \<Rightarrow> 's" where
  "put room ds s = fold (\<lambda>d s. snd (enqueue room (Some d) s)) ds s"

lemma put_all:
  assumes "queue s = Some q" "length q + length ds \<le> PUBLISH_QUEUE_DEPTH" "\<forall>d \<in> set ds. d \<noteq> []"
  shows "queue (put room ds s) = Some (q @ map (take PUBLISH_MAX_LEN) ds) \<and> ready (put room ds s) = ready s \<and>
    sent (put room ds s) = sent s \<and> message (put room ds s) = message s"
  using assms
proof (induction ds arbitrary: s q)
  case (Cons d ds)
  let ?s = "snd (enqueue room (Some d) s)"
  have "queue ?s = Some (q @ [take PUBLISH_MAX_LEN d])" using takes [of s q d room] Cons.prems by simp
  from Cons.IH [OF this] Cons.prems keeps [of room "Some d" s] show ?case by (simp add: put_def)
qed (simp add: put_def)

lemma turns_all:
  assumes "ready s" "queue s = Some (ds @ q)" "\<forall>d \<in> set ds. d \<noteq> []" "length es = length ds" "list_all good es"
  shows "sent (fold turn es s) = sent s @ concat (map (message s) ds) \<and> queue (fold turn es s) = Some q \<and>
    ready (fold turn es s) \<and> message (fold turn es s) = message s"
  using assms
proof (induction ds arbitrary: s es)
  case (Cons d ds)
  then obtain e es' where es: "es = e # es'" by (cases es) auto
  have t: "queue (turn e s) = Some (ds @ q) \<and> sent (turn e s) = sent s @ message s d \<and> ready (turn e s) \<and>
      message (turn e s) = message s"
    using Cons.prems by (intro publishes) (simp_all add: es)
  with Cons.IH [of "turn e s" es'] Cons.prems show ?case by (simp add: es)
qed simp

lemma in_order:
  assumes "ready s" "queue s = Some []" "length ds \<le> PUBLISH_QUEUE_DEPTH" "\<forall>d \<in> set ds. d \<noteq> []"
    and "length es = length ds" "list_all good es"
  shows "sent (fold turn es (put room ds s)) = sent s @ concat (map (\<lambda>d. message s (take PUBLISH_MAX_LEN d)) ds) \<and>
    queue (fold turn es (put room ds s)) = Some []"
proof -
  have p: "queue (put room ds s) = Some (map (take PUBLISH_MAX_LEN) ds @ [])" "ready (put room ds s)"
    "sent (put room ds s) = sent s" "message (put room ds s) = message s"
    using put_all [of s "[]" ds room] assms by simp_all
  have "sent (fold turn es (put room ds s)) = sent (put room ds s) @ concat (map (message (put room ds s)) (map (take PUBLISH_MAX_LEN) ds)) \<and>
    queue (fold turn es (put room ds s)) = Some []"
    using turns_all [OF p(2,1)] assms by auto
  then show ?thesis by (simp add: p comp_def)
qed

end

end
