(* ===== verification/Mqtt_Client.thy ===== *)
theory Mqtt_Client
  imports Telemetry_Port
begin

text \<open>
  \<open>Application/Server_Communication_Handler/mqtt_handler/src/mqtt_handler.c\<close>: the client of the MQTT server. It
  publishes what the LAN side sends as hexadecimal text in a JSON object, takes commands and downlink
  messages in the same form from remote procedure calls, and follows the configuration.

  The ESP-MQTT library is outside: what the code asks of it (subscriptions, publications, a
  client started or stopped) is the list \<open>mqtt_outs\<close>, the events it delivers are inputs. A received
  message is the memory from its first byte on, which the library does not terminate, with
  its length; \<open>strlen\<close> and \<open>strstr\<close> read on to the next NUL. The state \<open>gw\<close> is that of the
  command task and the LAN handler the code calls into. One iteration of a task's loop is a step.

  The properties: what is published is the data, in order, but for one byte in 2048; an RPC is
  answered on its own topic by whatever is published next; a command in an RPC reaches the
  command task as it was sent, if it is short enough.
\<close>

section \<open>State\<close>

abbreviation "DATA_BUFFER_SIZE \<equiv> 2048 :: nat"
abbreviation "JSON_TX_BUFFER_SIZE \<equiv> 4224 :: nat"
abbreviation "HEX_STRING_BUFFER_SIZE \<equiv> 4097 :: nat"

record mqtt_client_config =
  mc_uri :: "u8 list"
  mc_username :: "u8 list"
  mc_keepalive :: nat
  mc_timeout_ms :: nat

datatype mqtt_out =
    MqttSubscribe "u8 list"
  | MqttPublish "u8 list" "u8 list"     \<comment> \<open>topic, payload\<close>
  | MqttStart mqtt_client_config
  | MqttStop
  | MqttCommand config_command          \<comment> \<open>sent to g_config_handler_queue\<close>

record mqtt_st =
  m_client :: bool
  m_pub_task :: bool
  m_mqtt_connected :: bool
  g_mqtt_publish_queue :: "u8 list list option"
  mqtt_task_close :: bool
  g_last_rpc_id :: int
  gw :: task_st
  mqtt_outs :: "mqtt_out list"

definition mqtt_emit :: "mqtt_out list \<Rightarrow> mqtt_st \<Rightarrow> mqtt_st" where
  "mqtt_emit os s = s\<lparr>mqtt_outs := mqtt_outs s @ os\<rparr>"

abbreviation mqtt_ctx :: "mqtt_st \<Rightarrow> mqtt_config_data" where
  "mqtt_ctx s \<equiv> g_mqtt_ctx (cfg (gw s))"

definition set_online :: "internet_status \<Rightarrow> mqtt_st \<Rightarrow> mqtt_st" where
  "set_online st s = s\<lparr>gw := (gw s)\<lparr>lan := mcu_lan_handler_set_internet_status st (lan (gw s))\<rparr>\<rparr>"

section \<open>Hexadecimal text\<close>

definition hex_digit :: "u8 \<Rightarrow> u8" where
  "hex_digit n = (if n < 10 then 48 + n else 55 + n)"

text \<open>\<open>snprintf("%02X")\<close>\<close>

definition hex2 :: "u8 \<Rightarrow> u8 list" where
  "hex2 b = [hex_digit (drop_bit 4 b), hex_digit (b AND 0xF)]"

text \<open>The loop stops when fewer than four bytes are left in the buffer.\<close>

fun hex_loop :: "nat \<Rightarrow> u8 list \<Rightarrow> u8 list \<Rightarrow> u8 list" where
  "hex_loop sz [] acc = acc"
| "hex_loop sz (b # bs) acc =
     (if length acc < sz - 3 then hex_loop sz bs (acc @ hex2 b) else acc)"

definition binary_to_hex_string :: "u8 list \<Rightarrow> nat \<Rightarrow> u8 list" where
  "binary_to_hex_string dat hex_buf_size = hex_loop hex_buf_size dat []"

definition hex_value :: "u8 \<Rightarrow> u8 option" where
  "hex_value c =
     (if is_digit c then Some (c - 48)
      else if 65 \<le> c \<and> c \<le> 70 then Some (c - 55)
      else if 97 \<le> c \<and> c \<le> 102 then Some (c - 87)
      else None)"

text \<open>\<open>sscanf(s, "%02X", &v)\<close> on a string of two characters that does not begin with a blank,
  the low byte of \<open>v\<close>: a leading white space, a sign and the prefix \<open>0x\<close> are accepted, as in newlib.\<close>

definition scan_hex2 :: "u8 \<Rightarrow> u8 \<Rightarrow> u8 option" where
  "scan_hex2 a b =
     (if is_space a \<or> a = 43 then hex_value b
      else if a = 45 then map_option uminus (hex_value b)
      else case hex_value a of
        None \<Rightarrow> None
      | Some h \<Rightarrow> Some (case hex_value b of None \<Rightarrow> h | Some l \<Rightarrow> push_bit 4 h OR l))"

fun hex_decode :: "nat \<Rightarrow> u8 list \<Rightarrow> u8 list" where
  "hex_decode 0 s = []"
| "hex_decode (Suc n) [] = []"
| "hex_decode (Suc n) (a # s) =
     (if a = 32 then hex_decode (Suc n) s
      else case s of
        [] \<Rightarrow> []
      | b # r \<Rightarrow> (case scan_hex2 a b of Some v \<Rightarrow> v # hex_decode n r | None \<Rightarrow> hex_decode (Suc n) r))"

definition hex_string_to_binary :: "u8 list \<Rightarrow> nat \<Rightarrow> u8 list" where
  "hex_string_to_binary hex_str binary_size = hex_decode binary_size (cstr hex_str)"

section \<open>Received messages\<close>

record mqtt_env =
  mq_alloc :: bool                      \<comment> \<open>memory for the command\<close>
  mq_room :: bool                       \<comment> \<open>the command queue took it within 100 ms\<close>
  mq_dl_room :: bool                    \<comment> \<open>room appeared in a full downlink queue\<close>

definition mqtt_config_command :: "mqtt_env \<Rightarrow> u8 list \<Rightarrow> mqtt_st \<Rightarrow> mqtt_st" where
  "mqtt_config_command env cmd_data s =
     (let cmd_len = length cmd_data; t = config_parse_type cmd_data (word_of_nat cmd_len) in
      if cmd_len \<le> 0 then s
      else if t \<noteq> CONFIG_TYPE_UNKNOWN
      then
        if \<not> mq_alloc env then s
        else if handler_queue (gw s) \<and> mq_room env
        then mqtt_emit [MqttCommand (fst (make_command t cmd_data CMD_SOURCE_MQTT))] s
        else s
      else s)"

definition mqtt_target :: "u8 list \<Rightarrow> handler_id option" where
  "mqtt_target handler_type =
     (if handler_type = ascii ''ZIG'' then Some HANDLER_ZIGBEE
      else if handler_type = ascii ''LOR'' then Some HANDLER_LORA
      else if handler_type = ascii ''CAN'' then Some HANDLER_CAN
      else if handler_type = ascii ''RS4'' then Some HANDLER_RS485
      else None)"

definition mqtt_receive_enqueue :: "mqtt_env \<Rightarrow> u8 list option \<Rightarrow> nat \<Rightarrow> mqtt_st \<Rightarrow> mqtt_st" where
  "mqtt_receive_enqueue env dat len s =
     (case dat of
        None \<Rightarrow> s
      | Some m \<Rightarrow>
          if len = 0 then s
          else
            let binary = hex_string_to_binary m 512
            in if length binary = 0 then s
               else if length binary \<ge> 2 \<and> binary ! 0 = 0x43 \<and> binary ! 1 = 0x46
               then mqtt_config_command env (drop 2 binary) s
               else if length binary \<ge> 7 \<and> binary ! 0 = 0x44 \<and> binary ! 1 = 0x54
               then
                 (case mqtt_target (take 3 (drop 2 binary)) of
                    None \<Rightarrow> s
                  | Some target \<Rightarrow>
                      s\<lparr>gw := (gw s)\<lparr>lan :=
                         snd (mcu_lan_enqueue_downlink (mq_dl_room env) target (Some (drop 7 binary)) (lan (gw s)))\<rparr>\<rparr>)
               else s)"

definition PARAMS_KEY :: "u8 list" where
  "PARAMS_KEY = ascii [CHR 0x22] @ ascii ''params'' @ ascii [CHR 0x22] @ ascii '':'' @ ascii [CHR 0x22]"

definition extract_params_from_json :: "u8 list \<Rightarrow> nat \<Rightarrow> u8 list option" where
  "extract_params_from_json json hex_out_size =
     (case strstr_pos (cstr json) PARAMS_KEY of
        None \<Rightarrow> None
      | Some i \<Rightarrow>
          let params = drop (i + length PARAMS_KEY) (cstr json)
          in (case find_chr params 34 of
                None \<Rightarrow> None
              | Some hex_len \<Rightarrow>
                  if hex_len = 0 \<or> hex_len \<ge> hex_out_size then None else Some (take hex_len params)))"

text \<open>\<open>sscanf(topic, "v1/devices/me/rpc/request/%d", &id) == 1\<close>\<close>

definition scan_int :: "u8 list \<Rightarrow> int option" where
  "scan_int bs =
     (let s = dropWhile is_space bs;
          ds = (case s of b # r \<Rightarrow> if b = 45 \<or> b = 43 then r else s | [] \<Rightarrow> s)
      in if takeWhile is_digit ds = [] then None else Some (atoi bs))"

definition RPC_REQUEST_PREFIX :: "u8 list" where
  "RPC_REQUEST_PREFIX = ascii ''v1/devices/me/rpc/request/''"

definition rpc_id_of_topic :: "u8 list \<Rightarrow> int option" where
  "rpc_id_of_topic topic_buf =
     (let n = length RPC_REQUEST_PREFIX in
      if take n topic_buf = RPC_REQUEST_PREFIX then scan_int (drop n topic_buf) else None)"

datatype mqtt_event =
    MQTT_EVENT_CONNECTED | MQTT_EVENT_DISCONNECTED | MQTT_EVENT_ERROR
  | MQTT_EVENT_DATA "u8 list" nat "u8 list" nat   \<comment> \<open>topic, topic_len, data, data_len\<close>
  | MQTT_EVENT_OTHER

definition BIRTH_MESSAGE :: "u8 list" where
  "BIRTH_MESSAGE = ascii [CHR 0x7B, CHR 0x22] @ ascii ''chip_type'' @ ascii [CHR 0x22, CHR 0x3A, CHR 0x22] @
     ascii ''esp32s3'' @ ascii [CHR 0x22, CHR 0x2C, CHR 0x20, CHR 0x22] @ ascii ''fw'' @
     ascii [CHR 0x22, CHR 0x3A, CHR 0x22] @ ascii ''1.0.1'' @ ascii [CHR 0x22, CHR 0x7D]"

fun mqtt_event_handler :: "mqtt_env \<Rightarrow> mqtt_event \<Rightarrow> mqtt_st \<Rightarrow> mqtt_st" where
  "mqtt_event_handler env MQTT_EVENT_CONNECTED s =
     mqtt_emit [MqttSubscribe (cstr (mq_attribute_topic (mqtt_ctx s))), MqttSubscribe (cstr (mq_subscribe_topic (mqtt_ctx s))),
                MqttPublish (cstr (mq_attribute_topic (mqtt_ctx s))) BIRTH_MESSAGE]
       (set_online INTERNET_STATUS_ONLINE (s\<lparr>m_mqtt_connected := True\<rparr>))"
| "mqtt_event_handler env MQTT_EVENT_DISCONNECTED s =
     set_online INTERNET_STATUS_OFFLINE (s\<lparr>m_mqtt_connected := False\<rparr>)"
| "mqtt_event_handler env MQTT_EVENT_ERROR s =
     set_online INTERNET_STATUS_OFFLINE (s\<lparr>m_mqtt_connected := False\<rparr>)"
| "mqtt_event_handler env (MQTT_EVENT_DATA topic topic_len dat n) s =
     (let topic_buf = cstr (take (if topic_len < 127 then topic_len else 127) topic);
          s1 = (case rpc_id_of_topic topic_buf of Some rpc_id \<Rightarrow> s\<lparr>g_last_rpc_id := rpc_id\<rparr> | None \<Rightarrow> s)
      in if n > 0 \<and> byte_at dat 0 = 123
         then
           (case extract_params_from_json dat 512 of
              Some hex_string \<Rightarrow> mqtt_receive_enqueue env (Some hex_string) (length hex_string) s1
            | None \<Rightarrow> s1)
         else mqtt_receive_enqueue env (Some dat) n s1)"
| "mqtt_event_handler env MQTT_EVENT_OTHER s = s"

section \<open>Publishing\<close>

definition json_string :: "string \<Rightarrow> u8 list \<Rightarrow> u8 list" where
  "json_string key val = 34 # ascii key @ [34, 58, 34] @ val @ [34]"

definition mqtt_publish_firmware_status :: "u8 list \<Rightarrow> u8 list \<Rightarrow> mqtt_st \<Rightarrow> mqtt_st" where
  "mqtt_publish_firmware_status status fw_version s =
     (if \<not> m_mqtt_connected s \<or> \<not> m_client s then s
      else
        let payload = [123] @ json_string ''fw_state'' status @ [44] @ json_string ''fw_version'' fw_version @ [125]
        in if length payload \<ge> 256 then s
           else mqtt_emit [MqttPublish (cstr (mq_attribute_topic (mqtt_ctx s))) payload] s)"

text \<open>Before its loop the publishing task waits for a connection; \<open>connected\<close> is what it finds
  after the wait.\<close>

definition mqtt_publish_entry :: "bool \<Rightarrow> bool \<Rightarrow> mqtt_st \<Rightarrow> mqtt_st" where
  "mqtt_publish_entry buffers_ok connected s =
     (if \<not> buffers_ok then s\<lparr>m_pub_task := False\<rparr>
      else if connected then mqtt_publish_firmware_status (ascii ''success'') (ascii ''2.1.1'') s
      else s)"

definition telemetry_json :: "u8 list \<Rightarrow> u8 list" where
  "telemetry_json dat =
     (let hex = binary_to_hex_string (take DATA_BUFFER_SIZE dat) HEX_STRING_BUFFER_SIZE
      in take (JSON_TX_BUFFER_SIZE - 1) ([123] @ json_string ''data'' hex @ [125]))"

definition rpc_response_topic :: "u8 list \<Rightarrow> int \<Rightarrow> u8 list" where
  "rpc_response_topic subscribe_topic rpc_id =
     (let base = take 127 (cstr subscribe_topic);
          base_topic = (case strstr_pos base (ascii ''/request'') of Some i \<Rightarrow> take i base | None \<Rightarrow> base)
      in take 159 (base_topic @ ascii ''/response/'' @ ascii (dec_digits (nat rpc_id))))"

text \<open>One iteration. \<open>reconnected\<close>: a connection that was down came up within ten seconds.\<close>

definition mqtt_publish_turn :: "bool \<Rightarrow> mqtt_st \<Rightarrow> mqtt_st" where
  "mqtt_publish_turn reconnected s =
     (if mqtt_task_close s then s\<lparr>m_pub_task := False\<rparr>
      else case g_mqtt_publish_queue s of
        None \<Rightarrow> s
      | Some [] \<Rightarrow> s
      | Some (item # q) \<Rightarrow>
          let s1 = s\<lparr>g_mqtt_publish_queue := Some q\<rparr>
          in if \<not> m_mqtt_connected s \<and> \<not> reconnected then s1
             else if length item = 0 then s1
             else
               let json = telemetry_json item
               in if g_last_rpc_id s1 \<ge> 0
                  then mqtt_emit [MqttPublish (rpc_response_topic (mq_subscribe_topic (mqtt_ctx s1)) (g_last_rpc_id s1)) json]
                         (s1\<lparr>g_last_rpc_id := -1\<rparr>)
                  else mqtt_emit [MqttPublish (cstr (mq_publish_topic (mqtt_ctx s1))) json] s1)"

text \<open>\<open>room\<close>: room in a full queue within 250 ms.\<close>

definition mqtt_enqueue_telemetry :: "bool \<Rightarrow> u8 list option \<Rightarrow> mqtt_st \<Rightarrow> bool \<times> mqtt_st" where
  "mqtt_enqueue_telemetry room dat s =
     (case (g_mqtt_publish_queue s, dat) of
        (Some q, Some d) \<Rightarrow>
          if length d = 0 then (False, s)
          else if length q < PUBLISH_QUEUE_DEPTH \<or> room
          then (True, s\<lparr>g_mqtt_publish_queue := Some (q @ [take PUBLISH_MAX_LEN d])\<rparr>)
          else (False, s)
      | _ \<Rightarrow> (False, s))"

section \<open>Client and tasks\<close>

definition mqtt_session :: "mqtt_st \<Rightarrow> mqtt_client_config" where
  "mqtt_session s =
     (let x = mqtt_ctx s;
          ka = (if mq_keepalive_s x \<noteq> 0 then mq_keepalive_s x else 30);
          tmo = (if mq_timeout_ms x \<noteq> 0 then mq_timeout_ms x else 30000);
          ka' = (if g_internet_type (cfg (gw s)) = CONFIG_INTERNET_LTE \<and> ka > 30 then 30 else ka)
      in \<lparr>mc_uri = cstr (mq_broker_uri x), mc_username = cstr (mq_device_token x),
          mc_keepalive = unat ka', mc_timeout_ms = unat tmo\<rparr>)"

definition mqtt_reinit :: "bool \<Rightarrow> mqtt_st \<Rightarrow> mqtt_st" where
  "mqtt_reinit init_ok s0 =
     (let s = s0\<lparr>m_mqtt_connected := False\<rparr>;
          s1 = (if m_client s then mqtt_emit [MqttStop] (s\<lparr>m_client := False\<rparr>) else s)
      in if init_ok then mqtt_emit [MqttStart (mqtt_session s1)] (s1\<lparr>m_client := True\<rparr>) else s1)"

definition mqtt_config_turn :: "bool \<Rightarrow> mqtt_config_data option \<Rightarrow> mqtt_st \<Rightarrow> mqtt_st" where
  "mqtt_config_turn init_ok received s =
     (if mqtt_task_close s then s
      else case received of
        None \<Rightarrow> s
      | Some c \<Rightarrow>
          let x = mqtt_ctx s;
              x1 = x\<lparr>mq_broker_uri := set_str 128 (mq_broker_uri x) (mq_broker_uri c),
                     mq_device_token := set_str 65 (mq_device_token x) (mq_device_token c),
                     mq_subscribe_topic := set_str 128 (mq_subscribe_topic x) (mq_subscribe_topic c),
                     mq_attribute_topic := set_str 128 (mq_attribute_topic x) (mq_attribute_topic c),
                     mq_publish_topic := set_str 128 (mq_publish_topic x) (mq_publish_topic c)\<rparr>;
              x2 = (if mq_keepalive_s c \<noteq> 0 then x1\<lparr>mq_keepalive_s := mq_keepalive_s c\<rparr> else x1);
              x3 = (if mq_timeout_ms c \<noteq> 0 then x2\<lparr>mq_timeout_ms := mq_timeout_ms c\<rparr> else x2)
          in mqtt_reinit init_ok (s\<lparr>gw := (gw s)\<lparr>cfg := (cfg (gw s))\<lparr>g_mqtt_ctx := x3\<rparr>\<rparr>\<rparr>))"

text \<open>Start and stop; the booleans say which allocations succeeded.\<close>

definition mqtt_handler_task_start :: "bool \<Rightarrow> bool \<Rightarrow> bool \<Rightarrow> mqtt_st \<Rightarrow> mqtt_st" where
  "mqtt_handler_task_start init_ok queue_ok pub_ok s0 =
     (let s = s0\<lparr>mqtt_task_close := False\<rparr>;
          s1 = (if init_ok then mqtt_emit [MqttStart (mqtt_session s)] (s\<lparr>m_client := True\<rparr>)
                else s\<lparr>m_client := False\<rparr>);
          s2 = (if g_mqtt_publish_queue s1 = None \<and> queue_ok then s1\<lparr>g_mqtt_publish_queue := Some []\<rparr> else s1)
      in s2\<lparr>m_pub_task := m_pub_task s2 \<or> pub_ok\<rparr>)"

definition mqtt_handler_task_stop :: "mqtt_st \<Rightarrow> mqtt_st" where
  "mqtt_handler_task_stop s0 =
     (let s = s0\<lparr>mqtt_task_close := True, m_mqtt_connected := False\<rparr>;
          s1 = (if m_client s then mqtt_emit [MqttStop] (s\<lparr>m_client := False\<rparr>) else s)
      in s1\<lparr>g_mqtt_publish_queue := None\<rparr>)"

definition mqtt_handler_is_connected :: "mqtt_st \<Rightarrow> bool" where
  "mqtt_handler_is_connected s \<longleftrightarrow> m_mqtt_connected s \<and> m_client s"

section \<open>Hexadecimal text there and back\<close>

lemma nibbles: "\<forall>k < 16. let n = word_of_nat k :: u8; c = hex_digit n in
    hex_value c = Some n \<and> c \<noteq> 32 \<and> c \<noteq> 0 \<and> c \<noteq> 34 \<and> \<not> is_space c \<and> c \<noteq> 43 \<and> c \<noteq> 45"
  by code_simp

lemma nibble:
  assumes "(n :: u8) < 16"
  shows "hex_value (hex_digit n) = Some n" "hex_digit n \<noteq> 32" "hex_digit n \<noteq> 0" "hex_digit n \<noteq> 34"
    "\<not> is_space (hex_digit n)" "hex_digit n \<noteq> 43" "hex_digit n \<noteq> 45"
proof -
  have "unat n < 16" using assms by (simp add: word_less_nat_alt)
  with nibbles have "let c = hex_digit n in hex_value c = Some n \<and> c \<noteq> 32 \<and> c \<noteq> 0 \<and> c \<noteq> 34 \<and> \<not> is_space c \<and> c \<noteq> 43 \<and> c \<noteq> 45"
  proof -
    have "n = word_of_nat (unat n)" by simp
    with nibbles \<open>unat n < 16\<close> show ?thesis by metis
  qed
  then show "hex_value (hex_digit n) = Some n" "hex_digit n \<noteq> 32" "hex_digit n \<noteq> 0" "hex_digit n \<noteq> 34"
    "\<not> is_space (hex_digit n)" "hex_digit n \<noteq> 43" "hex_digit n \<noteq> 45"
    by (simp_all add: Let_def)
qed

lemma unat_less_u8: "unat (b :: u8) < 256"
  using unsigned_less [of b, where 'a = nat] by simp

lemma nibble_range: "drop_bit 4 (b :: u8) < 16" "(b :: u8) AND 0xF < 16"
proof -
  have "unat (drop_bit 4 b) = drop_bit 4 (unat b)" by (rule unat_drop_bit_eq)
  then have "unat (drop_bit 4 b) = unat b div 2 ^ 4" by (simp only: drop_bit_eq_div)
  then show "drop_bit 4 b < 16" using unat_less_u8 [of b] by (simp add: word_less_nat_alt less_mult_imp_div_less)
  have "b AND 0xF \<le> 0xF" by (rule word_and_le1)
  then show "b AND 0xF < 16" by (simp add: word_le_nat_alt word_less_nat_alt)
qed

lemma scan_hex2_hex2: "scan_hex2 (hex_digit (drop_bit 4 b)) (hex_digit (b AND 0xF)) = Some b"
proof -
  have "push_bit 4 (drop_bit 4 b) OR (b AND 0xF) = b"
  proof (rule bit_word_eqI)
    have m: "(0xF :: u8) = mask 4" by (simp add: mask_eq_exp_minus_1)
    fix i assume "i < LENGTH(8)"
    then show "bit (push_bit 4 (drop_bit 4 b) OR b AND 0xF) i = bit b i"
      unfolding m bit_or_iff bit_push_bit_iff bit_drop_bit_eq bit_and_iff bit_mask_iff by auto
  qed
  then show ?thesis
    using nibble [OF nibble_range(1), of b] nibble [OF nibble_range(2), of b] by (simp add: scan_hex2_def)
qed

definition to_hex :: "u8 list \<Rightarrow> u8 list" where
  "to_hex bs = concat (map hex2 bs)"

lemma to_hex_simps [simp]: "to_hex [] = []" "to_hex (b # bs) = hex2 b @ to_hex bs" "to_hex (xs @ ys) = to_hex xs @ to_hex ys"
  by (simp_all add: to_hex_def)

lemma to_hex_length [simp]: "length (to_hex bs) = 2 * length bs"
  by (induction bs) (simp_all add: hex2_def)

lemma to_hex_plain: "0 \<notin> set (to_hex bs)" "34 \<notin> set (to_hex bs)"
proof (induction bs)
  case (Cons b bs)
  note n = nibble(3,4) [OF nibble_range(1), of b] nibble(3,4) [OF nibble_range(2), of b]
  {
    case 1
    show ?case using Cons(1) n by (auto simp: hex2_def)
  next
    case 2
    show ?case using Cons(2) n by (auto simp: hex2_def)
  }
qed simp_all

lemma hex_decode_to_hex: "hex_decode n (to_hex bs) = take n bs"
proof (induction bs arbitrary: n)
  case Nil
  then show ?case by (cases n) simp_all
next
  case (Cons b bs)
  then show ?case
    using nibble(2) [OF nibble_range(1), of b] by (cases n) (simp_all add: hex2_def scan_hex2_hex2)
qed

lemma hex_loop_short: "length acc + 2 * length bs < sz - 1 \<Longrightarrow> hex_loop sz bs acc = acc @ to_hex bs"
  by (induction bs arbitrary: acc) (auto simp: hex2_def)

lemma hex_loop_to_hex:
  assumes "sz = 4096 \<or> sz = 4097"
  shows "length acc = 2 * j \<Longrightarrow> hex_loop sz bs acc = acc @ to_hex (take (2047 - j) bs)"
proof (induction bs arbitrary: acc j)
  case (Cons b bs)
  show ?case
  proof (cases "j < 2047")
    case True
    have "length (acc @ hex2 b) = 2 * Suc j" using Cons.prems by (simp add: hex2_def)
    note IH = Cons.IH [OF this]
    obtain k where k: "2047 - j = Suc k" using True by (cases "2047 - j") auto
    then have "2047 - Suc j = k" by simp
    with IH k True Cons.prems assms show ?thesis by auto
  qed (use Cons.prems assms in auto)
qed simp

lemma binary_to_hex_string_2047: "binary_to_hex_string bs HEX_STRING_BUFFER_SIZE = to_hex (take 2047 bs)"
  using hex_loop_to_hex [of HEX_STRING_BUFFER_SIZE "[]" 0 bs] by (simp add: binary_to_hex_string_def)

lemma telemetry_json_exact: "telemetry_json d = [123] @ json_string ''data'' (to_hex (take 2047 d)) @ [125]"
  by (simp add: telemetry_json_def binary_to_hex_string_2047 json_string_def ascii_def)

section \<open>The publishing queue\<close>

definition publishing :: "mqtt_st \<Rightarrow> bool" where
  "publishing s \<longleftrightarrow> m_mqtt_connected s \<and> \<not> mqtt_task_close s"

definition mqtt_message :: "mqtt_st \<Rightarrow> u8 list \<Rightarrow> mqtt_out list" where
  "mqtt_message s d = [MqttPublish (cstr (mq_publish_topic (mqtt_ctx s))) (telemetry_json d)]"

text \<open>A message of the queue is published as telemetry while no call is waiting for its answer.\<close>

interpretation mqtt_queue: telemetry_port g_mqtt_publish_queue mqtt_enqueue_telemetry mqtt_publish_turn
  "\<lambda>s. publishing s \<and> g_last_rpc_id s < 0" "\<lambda>_. True" mqtt_outs mqtt_message
  by unfold_locales
    (auto simp: mqtt_enqueue_telemetry_def mqtt_publish_turn_def mqtt_message_def [abs_def] publishing_def mqtt_emit_def
      Let_def split: option.split)

lemma turns_replicate: "fold f (replicate n x) = f x ^^ n"
  by (induction n) (simp_all add: funpow_swap1 fun_eq_iff)

text \<open>
  C15. Telemetry reaches the server unchanged and in order. From an empty queue, with a connection and no
  pending call, up to 32 messages that are put into the queue are published one by one,
  in the order they came, on the telemetry topic, each as \<open>{"data":"..."}\<close> with hexadecimal text that
  decodes to the message. For a message of 2048 bytes or more it decodes to the first 2047: the queue holds
  2048 bytes, but the conversion stops one byte early.
\<close>

theorem telemetry_published_exactly:
  fixes r room :: bool and ds :: "u8 list list" and s :: mqtt_st
  assumes "publishing s" "g_mqtt_publish_queue s = Some []" "g_last_rpc_id s < 0"
    and ds: "length ds \<le> PUBLISH_QUEUE_DEPTH" "\<forall>d \<in> set ds. d \<noteq> []"
  defines "s1 \<equiv> fold (\<lambda>d s. snd (mqtt_enqueue_telemetry room (Some d) s)) ds s"
  defines "s2 \<equiv> (mqtt_publish_turn r ^^ length ds) s1"
  shows "\<exists>hex. mqtt_outs s2 = mqtt_outs s @ map (\<lambda>d. MqttPublish (cstr (mq_publish_topic (mqtt_ctx s)))
        ([123] @ json_string ''data'' (hex d) @ [125])) ds \<and>
      (\<forall>d. hex_decode 4096 (hex d) = take 2047 d) \<and> g_mqtt_publish_queue s2 = Some []"
proof -
  have "mqtt_outs s2 = mqtt_outs s @ concat (map (\<lambda>d. mqtt_message s (take PUBLISH_MAX_LEN d)) ds) \<and>
      g_mqtt_publish_queue s2 = Some []"
    using mqtt_queue.in_order [of s ds "replicate (length ds) r" room] assms
    by (simp add: s2_def s1_def mqtt_queue.put_def turns_replicate list_all_iff)
  then have "mqtt_outs s2 = mqtt_outs s @ map (\<lambda>d. MqttPublish (cstr (mq_publish_topic (mqtt_ctx s)))
        ([123] @ json_string ''data'' (to_hex (take 2047 d)) @ [125])) ds \<and> g_mqtt_publish_queue s2 = Some []"
    by (simp add: mqtt_message_def telemetry_json_exact concat_map_singleton)
  moreover have "hex_decode 4096 (to_hex (take 2047 d)) = take 2047 d" for d
    by (simp add: hex_decode_to_hex)
  ultimately show ?thesis by (intro exI [of _ "\<lambda>d. to_hex (take 2047 d)"]) blast
qed

section \<open>Remote procedure calls\<close>

lemma set_online_fields [simp]:
  "mqtt_outs (set_online st s) = mqtt_outs s" "g_mqtt_publish_queue (set_online st s) = g_mqtt_publish_queue s"
  "cfg (gw (set_online st s)) = cfg (gw s)" "m_mqtt_connected (set_online st s) = m_mqtt_connected s"
  "mqtt_task_close (set_online st s) = mqtt_task_close s" "g_last_rpc_id (set_online st s) = g_last_rpc_id s"
  by (simp_all add: set_online_def)

text \<open>What receiving a message leaves alone.\<close>

lemma receive_fields [simp]:
  "g_mqtt_publish_queue (mqtt_receive_enqueue env d n s) = g_mqtt_publish_queue s"
  "cfg (gw (mqtt_receive_enqueue env d n s)) = cfg (gw s)"
  "m_mqtt_connected (mqtt_receive_enqueue env d n s) = m_mqtt_connected s"
  "mqtt_task_close (mqtt_receive_enqueue env d n s) = mqtt_task_close s"
  "g_last_rpc_id (mqtt_receive_enqueue env d n s) = g_last_rpc_id s"
  by (auto simp: mqtt_receive_enqueue_def mqtt_config_command_def mqtt_emit_def Let_def split: option.split)

lemma atoi_digits: "k < 2147483648 \<Longrightarrow> atoi (ascii (dec_digits k)) = int k"
proof -
  assume k: "k < 2147483648"
  note d = dec_digits_props [of k 9]
  obtain b r where s: "ascii (dec_digits k) = b # r" using d by (cases "dec_digits k") (auto simp: ascii_def)
  then have "is_digit b" using d by (metis list.set_intros(1))
  note b = is_digit_not [OF this]
  have "takeWhile is_digit (b # r) = b # r" using d s by (metis takeWhile_eq_all_conv)
  moreover have "digits_value (b # r) = int k" using d s by simp
  ultimately show ?thesis using b k s by (simp add: atoi_def clamp_long_def)
qed

lemma scan_int_digits: "k < 2147483648 \<Longrightarrow> scan_int (ascii (dec_digits k)) = Some (int k)"
proof -
  assume k: "k < 2147483648"
  note d = dec_digits_props [of k 9]
  obtain b r where s: "ascii (dec_digits k) = b # r" using d by (cases "dec_digits k") (auto simp: ascii_def)
  then have "is_digit b" using d by (metis list.set_intros(1))
  note b = is_digit_not [OF this]
  show ?thesis using atoi_digits [OF k] b \<open>is_digit b\<close> s by (simp add: scan_int_def)
qed

definition rpc_topic :: "nat \<Rightarrow> u8 list" where
  "rpc_topic k = RPC_REQUEST_PREFIX @ ascii (dec_digits k)"

lemma digits_short: "k < 2147483648 \<Longrightarrow> length (ascii (dec_digits k)) \<le> 10 \<and> 0 \<notin> set (ascii (dec_digits k))"
  using dec_digits_props [of k 9] is_digit_not by (auto simp: ascii_def)

lemma rpc_topic_id:
  assumes "k < 2147483648"
  shows "rpc_id_of_topic (cstr (take (if length (rpc_topic k) < 127 then length (rpc_topic k) else 127) (rpc_topic k @ rest))) =
    Some (int k)"
proof -
  have l: "length (rpc_topic k) < 127" using digits_short [OF assms] by (simp add: rpc_topic_def RPC_REQUEST_PREFIX_def ascii_def)
  have "cstr (rpc_topic k) = rpc_topic k"
    using digits_short [OF assms] by (intro cstr_free) (auto simp: rpc_topic_def RPC_REQUEST_PREFIX_def ascii_def)
  with l show ?thesis using scan_int_digits [OF assms] by (simp add: rpc_id_of_topic_def Let_def) (simp add: rpc_topic_def)
qed

lemma data_event_fields:
  fixes env :: mqtt_env and s :: mqtt_st and dat rest :: "u8 list" and n :: nat
  assumes "k < 2147483648"
  defines "s' \<equiv> mqtt_event_handler env (MQTT_EVENT_DATA (rpc_topic k @ rest) (length (rpc_topic k)) dat n) s"
  shows "g_mqtt_publish_queue s' = g_mqtt_publish_queue s" "cfg (gw s') = cfg (gw s)" "g_last_rpc_id s' = int k"
    "publishing s' = publishing s"
proof -
  have "s' = (if n > 0 \<and> byte_at dat 0 = 123
      then case extract_params_from_json dat 512 of
          Some h \<Rightarrow> mqtt_receive_enqueue env (Some h) (length h) (s\<lparr>g_last_rpc_id := int k\<rparr>)
        | None \<Rightarrow> s\<lparr>g_last_rpc_id := int k\<rparr>
      else mqtt_receive_enqueue env (Some dat) n (s\<lparr>g_last_rpc_id := int k\<rparr>))"
    unfolding s'_def by (simp only: mqtt_event_handler.simps Let_def rpc_topic_id [OF assms(1)] option.case)
  then show "g_mqtt_publish_queue s' = g_mqtt_publish_queue s" "cfg (gw s') = cfg (gw s)" "g_last_rpc_id s' = int k"
    "publishing s' = publishing s"
    by (auto simp: publishing_def split: option.split)
qed

text \<open>
  C30. Who gets the answer to a remote procedure call. A request with any identifier on the request
  topic makes the next message that is published, whatever it is, go to the response topic
  of that identifier, and every message after it to the telemetry topic. So the answer of the gateway is
  routed to its request only if nothing else was waiting in the queue: of the messages already in the
  queue the first takes its place, and the answer goes out as telemetry.
\<close>

theorem rpc_answer_is_next_message:
  fixes env :: mqtt_env and s :: mqtt_st and dat rest :: "u8 list" and r :: bool and n :: nat
  assumes k: "k < 2147483648" and s: "publishing s" "g_mqtt_publish_queue s = Some (d # ds)" "\<forall>x \<in> set (d # ds). x \<noteq> []"
    and sub: "cstr (mq_subscribe_topic (mqtt_ctx s)) = base @ ascii ''/request/+''" "length base \<le> 100"
      "strstr_pos (base @ ascii ''/request/+'') (ascii ''/request'') = Some (length base)"
  defines "s1 \<equiv> mqtt_event_handler env (MQTT_EVENT_DATA (rpc_topic k @ rest) (length (rpc_topic k)) dat n) s"
  shows "mqtt_outs ((mqtt_publish_turn r ^^ Suc (length ds)) s1) = mqtt_outs s1 @
    MqttPublish (base @ ascii ''/response/'' @ ascii (dec_digits k)) (telemetry_json d) #
    map (\<lambda>x. MqttPublish (cstr (mq_publish_topic (mqtt_ctx s))) (telemetry_json x)) ds"
proof -
  note f = data_event_fields [OF k, where env = env and rest = rest and dat = dat and n = n and s = s, folded s1_def]
  have t: "rpc_response_topic (mq_subscribe_topic (mqtt_ctx s)) (int k) = base @ ascii ''/response/'' @ ascii (dec_digits k)"
  proof -
    have "length (dec_digits k) \<le> 10" using digits_short [OF k] by (simp add: ascii_def)
    then have "10 + length (dec_digits k) \<le> 159 - length base" using sub(2) by simp
    then show ?thesis using sub by (simp add: rpc_response_topic_def ascii_def)
  qed
  let ?s2 = "mqtt_publish_turn r s1"
  have s2: "?s2 = mqtt_emit [MqttPublish (base @ ascii ''/response/'' @ ascii (dec_digits k)) (telemetry_json d)]
      (s1\<lparr>g_mqtt_publish_queue := Some ds, g_last_rpc_id := -1\<rparr>)"
    using s f t by (simp add: mqtt_publish_turn_def publishing_def Let_def)
  have "(mqtt_publish_turn r ^^ Suc (length ds)) s1 = (mqtt_publish_turn r ^^ length ds) ?s2"
    by (simp add: funpow_swap1)
  moreover have "mqtt_outs ((mqtt_publish_turn r ^^ length ds) ?s2) = mqtt_outs ?s2 @ concat (map (mqtt_message ?s2) ds)"
    using mqtt_queue.turns_all [of ?s2 ds "[]" "replicate (length ds) r"] s f
    by (simp add: turns_replicate s2 publishing_def mqtt_emit_def list_all_iff)
  ultimately show ?thesis using f by (simp add: s2 mqtt_emit_def mqtt_message_def [abs_def] concat_map_singleton)
qed

section \<open>Commands and messages in calls\<close>

text \<open>The body of a call as the server writes it.\<close>

definition rpc_json :: "u8 list \<Rightarrow> u8 list \<Rightarrow> u8 list" where
  "rpc_json m params = [123] @ json_string ''method'' m @ [44] @ json_string ''params'' params @ [125]"

lemma key_mismatch:
  assumes "34 \<notin> set m" "34 \<notin> set k"
  shows "take (length k + 3) (m @ 34 # 44 # r) \<noteq> k @ [34, 58, 34 :: u8]"
proof
  assume t: "take (length k + 3) (m @ 34 # 44 # r) = k @ [34, 58, 34]"
  let ?r = "drop (length k + 3) (m @ 34 # 44 # r)"
  have e: "m @ 34 # 44 # r = k @ 34 # 58 # 34 # ?r"
    using append_take_drop_id [of "length k + 3" "m @ 34 # 44 # r"] unfolding t by simp
  have "m = k"
    using arg_cong [OF e, of "takeWhile (\<lambda>b. b \<noteq> 34)"]
    by (simp only: takeWhile_stop [OF assms(1)] takeWhile_stop [OF assms(2)])
  with e show False by simp
qed

lemma params_found:
  assumes "34 \<notin> set m"
  shows "strstr_pos (rpc_json m params @ rest) PARAMS_KEY = Some (13 + length m)"
proof -
  let ?p = "ascii ''params''"
  have key: "PARAMS_KEY = 34 # ?p @ [34, 58, 34]" by (simp add: PARAMS_KEY_def ascii_def)
  let ?tail = "34 # 44 # 34 # ?p @ [34, 58, 34] @ params @ [34, 125] @ rest"
  have j: "rpc_json m params @ rest = [123] @ 34 # ascii ''method'' @ [34, 58] @ 34 # m @ ?tail"
    by (simp add: rpc_json_def json_string_def)
  have a: "strstr_pos ?tail PARAMS_KEY = Some 2" by (simp add: key ascii_def)
  have "strstr_pos (m @ ?tail) PARAMS_KEY = Some (2 + length m)"
    using strstr_no_head [OF assms, of ?tail "?p @ [34, 58, 34]"] a by (simp add: key)
  moreover have "take (length PARAMS_KEY) (34 # m @ ?tail) \<noteq> PARAMS_KEY"
  proof -
    have l: "length PARAMS_KEY = Suc (length ?p + 3)" by (simp add: key ascii_def)
    have "34 \<notin> set ?p" by (simp add: ascii_def)
    from key_mismatch [OF assms this, of "34 # ?p @ [34, 58, 34] @ params @ [34, 125] @ rest"]
    show ?thesis by (simp only: l take_Suc_Cons) (simp add: key)
  qed
  ultimately have "strstr_pos (34 # m @ ?tail) PARAMS_KEY = Some (3 + length m)" by simp
  then show ?thesis unfolding j by (simp add: key ascii_def)
qed

lemma params_extracted:
  assumes "34 \<notin> set m" "0 \<notin> set m" "34 \<notin> set params" "0 \<notin> set params" "params \<noteq> []"
  shows "extract_params_from_json (rpc_json m params @ rest) 512 = (if length params < 512 then Some params else None)"
proof -
  have "0 \<notin> set (rpc_json m params)" using assms by (simp add: rpc_json_def json_string_def ascii_def)
  then have c: "cstr (rpc_json m params @ rest) = rpc_json m params @ cstr rest" by (rule cstr_append)
  have l: "length PARAMS_KEY = 10" by (simp add: PARAMS_KEY_def ascii_def)
  have d: "drop (23 + length m) (rpc_json m params @ cstr rest) = params @ 34 # 125 # cstr rest"
  proof -
    let ?pre = "[123] @ 34 # ascii ''method'' @ [34, 58, 34] @ m @ [34, 44] @ PARAMS_KEY"
    have "length ?pre = 23 + length m" by (simp add: l)
    moreover have "rpc_json m params @ cstr rest = ?pre @ params @ 34 # 125 # cstr rest"
      by (simp add: rpc_json_def json_string_def PARAMS_KEY_def ascii_def)
    ultimately show ?thesis by (metis append_eq_conv_conj)
  qed
  have "13 + length m + 10 = 23 + length m" by simp
  then have d': "drop (13 + length m + 10) (rpc_json m params @ cstr rest) = params @ 34 # 125 # cstr rest"
    using d by (simp only:)
  have f: "find_chr (params @ 34 # 125 # cstr rest) 34 = Some (length params)"
    using assms by (intro find_chr_hit) (simp add: plain_def)
  show ?thesis
    unfolding extract_params_from_json_def c params_found [OF assms(1)] option.case Let_def l d' f
    using assms(5) by simp
qed

text \<open>What a call with a hexadecimal parameter does.\<close>

lemma rpc_event:
  assumes "k < 2147483648" "34 \<notin> set m" "0 \<notin> set m" "bs \<noteq> []"
  shows "mqtt_event_handler env (MQTT_EVENT_DATA (rpc_topic k @ rest) (length (rpc_topic k))
      (rpc_json m (to_hex bs) @ junk) (length (rpc_json m (to_hex bs)))) s =
    (let s1 = s\<lparr>g_last_rpc_id := int k\<rparr> in
     if length bs < 256 then mqtt_receive_enqueue env (Some (to_hex bs)) (2 * length bs) s1 else s1)"
proof -
  have ne: "to_hex bs \<noteq> []" using assms(4) by (metis length_0_conv mult_is_0 to_hex_length zero_neq_numeral)
  note x = params_extracted [OF assms(2,3) to_hex_plain(2,1) ne, of junk]
  have b: "byte_at (rpc_json m (to_hex bs) @ junk) 0 = 123" "length (rpc_json m (to_hex bs)) > 0"
    by (simp_all add: rpc_json_def byte_at_def)
  show ?thesis
    unfolding mqtt_event_handler.simps rpc_topic_id [OF assms(1)] Let_def x using b by simp
qed

lemma receive_hex:
  assumes "bs \<noteq> []" "length bs \<le> 512"
  shows "hex_string_to_binary (to_hex bs) 512 = bs"
  using assms by (simp add: hex_string_to_binary_def cstr_free [OF to_hex_plain(1)] hex_decode_to_hex)

lemma rpc_config_effect:
  fixes env :: mqtt_env and s :: mqtt_st and rest junk :: "u8 list"
  assumes call: "k < 2147483648" "34 \<notin> set m" "0 \<notin> set m" and len: "length cmd < 65536"
  shows "mqtt_event_handler env (MQTT_EVENT_DATA (rpc_topic k @ rest) (length (rpc_topic k))
      (rpc_json m (to_hex (ascii ''CF'' @ cmd)) @ junk) (length (rpc_json m (to_hex (ascii ''CF'' @ cmd))))) s = mqtt_emit
      (if length cmd \<le> 253 \<and> config_parse_type cmd (word_of_nat (length cmd)) \<noteq> CONFIG_TYPE_UNKNOWN \<and>
         mq_alloc env \<and> mq_room env \<and> handler_queue (gw s)
       then [MqttCommand \<lparr>cc_type = config_parse_type cmd (word_of_nat (length cmd)),
               raw_data = cmd @ 0 # zeros (16383 - length cmd), data_len = word_of_nat (length cmd),
               cc_source = CMD_SOURCE_MQTT, cc_waiter = None\<rparr>]
       else []) (s\<lparr>g_last_rpc_id := int k\<rparr>)"
proof -
  let ?bs = "ascii ''CF'' @ cmd" and ?s = "s\<lparr>g_last_rpc_id := int k\<rparr>"
  have bs: "?bs \<noteq> []" "length ?bs = Suc (Suc (length cmd))" "?bs = 67 # 70 # cmd" by (simp_all add: ascii_def)
  have none: "mqtt_emit [] ?s = ?s" by (cases s) (simp add: mqtt_emit_def)
  have e: "mqtt_event_handler env (MQTT_EVENT_DATA (rpc_topic k @ rest) (length (rpc_topic k))
      (rpc_json m (to_hex ?bs) @ junk) (length (rpc_json m (to_hex ?bs)))) s = (if length cmd \<le> 253 then mqtt_receive_enqueue env (Some (to_hex ?bs)) (2 * length ?bs) ?s else ?s)"
    unfolding rpc_event [OF call bs(1)] by (auto simp: Let_def bs(2))
  show ?thesis
  proof (cases "length cmd \<le> 253")
    case True
    then have h: "hex_string_to_binary (to_hex ?bs) 512 = ?bs" by (intro receive_hex bs) (simp add: bs(2))
    have "mqtt_receive_enqueue env (Some (to_hex ?bs)) (2 * length ?bs) ?s = mqtt_config_command env cmd ?s"
      by (simp only: mqtt_receive_enqueue_def option.case Let_def h) (simp add: bs(3))
    moreover have "cmd = [] \<Longrightarrow> config_parse_type cmd (word_of_nat (length cmd)) = CONFIG_TYPE_UNKNOWN"
      by (simp add: config_parse_type_def)
    ultimately show ?thesis
      using True e none raw_short [of cmd]
      by (auto simp: mqtt_config_command_def make_command_def fill_array_string Let_def)
  qed (use e none in simp)
qed

text \<open>
  C25. A configuration command sent in a call is forwarded as it was sent, if it is short enough. For
  any method name and any identifier, a call whose parameter is the hexadecimal text of
  \<open>CF\<close> and a command of up to 253 bytes gives exactly that command, terminated and marked with
  its type and the source MQTT, to the command task, when its type is known and there is memory and
  room; otherwise, and for every longer command, the call has no effect beyond
  its identifier.
\<close>

theorem rpc_command_forwarded:
  fixes env :: mqtt_env and s :: mqtt_st and rest junk :: "u8 list"
  assumes call: "k < 2147483648" "34 \<notin> set m" "0 \<notin> set m" and len: "length cmd < 65536"
  defines "json \<equiv> rpc_json m (to_hex (ascii ''CF'' @ cmd))"
  defines "s' \<equiv> mqtt_event_handler env (MQTT_EVENT_DATA (rpc_topic k @ rest) (length (rpc_topic k)) (json @ junk) (length json)) s"
  shows "s' = mqtt_emit
      (if length cmd \<le> 253 \<and> config_parse_type cmd (word_of_nat (length cmd)) \<noteq> CONFIG_TYPE_UNKNOWN \<and>
         mq_alloc env \<and> mq_room env \<and> handler_queue (gw s)
       then [MqttCommand \<lparr>cc_type = config_parse_type cmd (word_of_nat (length cmd)),
               raw_data = cmd @ 0 # zeros (16383 - length cmd), data_len = word_of_nat (length cmd),
               cc_source = CMD_SOURCE_MQTT, cc_waiter = None\<rparr>]
       else []) (s\<lparr>g_last_rpc_id := int k\<rparr>)"
  unfolding s'_def json_def using call len by (rule rpc_config_effect)

text \<open>
  A message sent in a call reaches its radio. A call whose parameter is the hexadecimal text of
  \<open>DT\<close>, the name of a radio, any two bytes and a payload of 1 to 248 bytes puts exactly that payload for
  that radio at the end of the downlink queue, when it has room, and makes it the pending one; the two bytes, which the format calls
  the length of the payload, are not looked at.
\<close>

lemma rpc_message_enqueued:
  fixes env :: mqtt_env and s :: mqtt_st and rest junk :: "u8 list" and l1 l2 :: u8
  assumes call: "k < 2147483648" "34 \<notin> set m" "0 \<notin> set m"
    and target: "h \<noteq> HANDLER_UNKNOWN" and payload: "p \<noteq> []" "length p \<le> 248"
    and q: "g_downlink_queue (lan (gw s)) = Some q" "length q < DOWNLINK_QUEUE_SIZE"
  defines "json \<equiv> rpc_json m (to_hex (ascii ''DT'' @ handler_id_to_string h @ [l1, l2] @ p))"
  defines "s' \<equiv> mqtt_event_handler env (MQTT_EVENT_DATA (rpc_topic k @ rest) (length (rpc_topic k)) (json @ junk) (length json)) s"
  shows "g_downlink_queue (lan (gw s')) = Some (q @ [(h, p)]) \<and>
    g_pending_downlink (lan (gw s')) = (h, p) \<and> g_pending_downlink_valid (lan (gw s')) \<and> cfg (gw s') = cfg (gw s) \<and> mqtt_outs s' = mqtt_outs s"
proof -
  let ?bs = "ascii ''DT'' @ handler_id_to_string h @ [l1, l2] @ p" and ?s = "s\<lparr>g_last_rpc_id := int k\<rparr>"
  have name: "length (handler_id_to_string h) = 3" "mqtt_target (handler_id_to_string h) = Some h"
    using target by (cases h; simp add: mqtt_target_def ascii_def)+
  then have bs: "?bs \<noteq> []" "length ?bs = 7 + length p" "?bs = 68 # 84 # handler_id_to_string h @ [l1, l2] @ p"
    by (simp_all add: ascii_def)
  have "s' = mqtt_receive_enqueue env (Some (to_hex ?bs)) (2 * length ?bs) ?s"
    using payload(2) name unfolding s'_def json_def rpc_event [OF call bs(1)] by (simp add: Let_def bs(2))
  also have h: "hex_string_to_binary (to_hex ?bs) 512 = ?bs" using payload name by (intro receive_hex bs) (simp add: bs(2))
  have "mqtt_receive_enqueue env (Some (to_hex ?bs)) (2 * length ?bs) ?s = ?s\<lparr>gw := (gw ?s)\<lparr>lan :=
      snd (mcu_lan_enqueue_downlink (mq_dl_room env) h (Some p) (lan (gw ?s)))\<rparr>\<rparr>"
    using name payload by (simp only: mqtt_receive_enqueue_def option.case Let_def h) (simp add: ascii_def)
  finally show ?thesis using q payload by (simp add: mcu_lan_enqueue_downlink_def signal_data_ready_def out_def)
qed

section \<open>Reconfiguration\<close>

text \<open>
  A new MQTT configuration takes effect at once, within safe limits. The configuration
  task stops the running client and starts one with the address and the token of the message; the
  keep-alive time is the new one, or the old one where the message leaves it zero, or 30 s where both are,
  and on an LTE connection never more than 30 s; the time-out likewise with 30000 ms. Neither is
  ever zero. The client counts as disconnected until its next event, but the status the LAN side is
  given stays as it was.
\<close>

lemma mqtt_reconfigured:
  fixes c :: mqtt_config_data and s :: mqtt_st
  defines "s' \<equiv> mqtt_config_turn True (Some c) s"
  defines "ka \<equiv> (if mq_keepalive_s c \<noteq> 0 then mq_keepalive_s c
     else if mq_keepalive_s (mqtt_ctx s) \<noteq> 0 then mq_keepalive_s (mqtt_ctx s) else 30)"
    and "tmo \<equiv> (if mq_timeout_ms c \<noteq> 0 then mq_timeout_ms c
     else if mq_timeout_ms (mqtt_ctx s) \<noteq> 0 then mq_timeout_ms (mqtt_ctx s) else 30000)"
  assumes open_task: "\<not> mqtt_task_close s" and "mqtt_ok c" "mqtt_ok (mqtt_ctx s)"
  shows "\<exists>ses. mqtt_outs s' = mqtt_outs s @ (if m_client s then [MqttStop] else []) @ [MqttStart ses] \<and>
     mc_uri ses = cstr (mq_broker_uri c) \<and> mc_username ses = cstr (mq_device_token c) \<and>
     mc_keepalive ses = (if g_internet_type (cfg (gw s)) = CONFIG_INTERNET_LTE then min 30 (unat ka) else unat ka) \<and>
     mc_timeout_ms ses = unat tmo \<and> 0 < mc_keepalive ses \<and> 0 < mc_timeout_ms ses \<and>
     \<not> mqtt_handler_is_connected s' \<and> m_client s' \<and> lan (gw s') = lan (gw s)"
proof -
  let ?x = "mqtt_ctx s'"
  have cfg': "g_internet_type (cfg (gw s')) = g_internet_type (cfg (gw s))" "lan (gw s') = lan (gw s)"
    "\<not> m_mqtt_connected s'" "m_client s'"
    using open_task by (simp_all add: s'_def mqtt_config_turn_def mqtt_reinit_def mqtt_emit_def Let_def)
  have out: "mqtt_outs s' = mqtt_outs s @ (if m_client s then [MqttStop] else []) @ [MqttStart (mqtt_session s')]"
    using open_task by (simp add: s'_def mqtt_config_turn_def mqtt_reinit_def mqtt_emit_def mqtt_session_def Let_def)
  have ctx: "cstr (mq_broker_uri ?x) = cstr (mq_broker_uri c)" "cstr (mq_device_token ?x) = cstr (mq_device_token c)"
    "mq_keepalive_s ?x = (if mq_keepalive_s c \<noteq> 0 then mq_keepalive_s c else mq_keepalive_s (mqtt_ctx s))"
    "mq_timeout_ms ?x = (if mq_timeout_ms c \<noteq> 0 then mq_timeout_ms c else mq_timeout_ms (mqtt_ctx s))"
    using assms(4-6) mqtt_ok_lengths [of "mqtt_ctx s"]
    by (simp_all add: s'_def mqtt_config_turn_def mqtt_reinit_def mqtt_emit_def Let_def mqtt_ok_def cstr_set_str)
  have pos: "0 < unat ka" "0 < unat tmo" by (simp_all add: ka_def tmo_def unat_gt_0)
  have "mc_keepalive (mqtt_session s') = (if g_internet_type (cfg (gw s)) = CONFIG_INTERNET_LTE then min 30 (unat ka) else unat ka)"
    by (simp add: mqtt_session_def ctx(3) cfg'(1) ka_def Let_def word_less_nat_alt min_def)
  moreover have "mc_timeout_ms (mqtt_session s') = unat tmo" by (simp add: mqtt_session_def ctx(4) tmo_def Let_def)
  moreover have "mc_uri (mqtt_session s') = cstr (mq_broker_uri c)" "mc_username (mqtt_session s') = cstr (mq_device_token c)"
    by (simp_all add: mqtt_session_def ctx Let_def)
  ultimately show ?thesis using out cfg' pos by (auto simp: mqtt_handler_is_connected_def)
qed

section \<open>The port of the calls\<close>

definition rpc_command :: "u8 list \<Rightarrow> config_command" where
  "rpc_command d = fst (make_command (config_parse_type d (word_of_nat (length d))) d CMD_SOURCE_MQTT)"

interpretation mqtt_port: command_port rpc_command 253
proof (unfold_locales, goal_cases)
  case (1 d)
  then show ?case using raw_short [of d] by (auto simp: rpc_command_def make_command_def fill_array_string)
qed (simp_all add: rpc_command_def make_command_def fill_array_string)

section \<open>At work\<close>

definition demo_mqtt_st :: mqtt_st where
  "demo_mqtt_st = \<lparr>m_client = True, m_pub_task = True, m_mqtt_connected = True,
     g_mqtt_publish_queue = Some [], mqtt_task_close = False, g_last_rpc_id = -1, gw = demo_task, mqtt_outs = []\<rparr>"

definition demo_mqtt_env :: mqtt_env where
  "demo_mqtt_env = \<lparr>mq_alloc = True, mq_room = True, mq_dl_room = False\<rparr>"

lemma demo_ctx: "mqtt_ctx demo_mqtt_st = demo_mqtt" "mqtt_ok demo_mqtt"
  by code_simp+

theorem telemetry_published_exactly_witness:
  "\<exists>hex. mqtt_outs ((mqtt_publish_turn False ^^ 2) (fold (\<lambda>d s. snd (mqtt_enqueue_telemetry False (Some d) s))
       [[1, 255], [7]] demo_mqtt_st)) =
     map (\<lambda>d. MqttPublish (cstr (mq_publish_topic demo_mqtt)) ([123] @ json_string ''data'' (hex d) @ [125])) [[1, 255], [7 :: u8]] \<and>
     hex_decode 4096 (hex [1, 255]) = [1, 255]"
proof -
  have "publishing demo_mqtt_st" "g_mqtt_publish_queue demo_mqtt_st = Some []" "g_last_rpc_id demo_mqtt_st < 0"
    "mqtt_outs demo_mqtt_st = []"
    by (simp_all add: publishing_def demo_mqtt_st_def)
  then obtain hex where "mqtt_outs ((mqtt_publish_turn False ^^ 2) (fold (\<lambda>d s. snd (mqtt_enqueue_telemetry False (Some d) s))
       [[1, 255], [7]] demo_mqtt_st)) =
     map (\<lambda>d. MqttPublish (cstr (mq_publish_topic demo_mqtt)) ([123] @ json_string ''data'' (hex d) @ [125])) [[1, 255], [7]]"
    "\<forall>d. hex_decode 4096 (hex d) = take 2047 d"
    using telemetry_published_exactly [of demo_mqtt_st "[[1, 255], [7]]" False False] demo_ctx(1)
    by (auto simp: numeral_2_eq_2)
  then show ?thesis by (intro exI [of _ hex]) simp
qed

definition demo_sub :: "u8 list" where
  "demo_sub = ascii ''v1/devices/me/rpc''"

theorem rpc_answer_is_next_message_witness:
  "let s = demo_mqtt_st\<lparr>g_mqtt_publish_queue := Some [[1], [2]], gw := demo_task\<lparr>cfg := demo_cfg\<lparr>g_mqtt_ctx :=
         demo_mqtt\<lparr>mq_subscribe_topic := arr 128 (demo_sub @ ascii ''/request/+'')\<rparr>\<rparr>\<rparr>\<rparr>;
       s1 = mqtt_event_handler demo_mqtt_env (MQTT_EVENT_DATA (rpc_topic 7) (length (rpc_topic 7)) [0] 1) s
   in mqtt_outs ((mqtt_publish_turn False ^^ 2) s1) = mqtt_outs s1 @
      [MqttPublish (demo_sub @ ascii ''/response/7'') (telemetry_json [1]),
       MqttPublish (cstr (mq_publish_topic demo_mqtt)) (telemetry_json [2])]"
proof -
  let ?s = "demo_mqtt_st\<lparr>g_mqtt_publish_queue := Some [[1], [2]], gw := demo_task\<lparr>cfg := demo_cfg\<lparr>g_mqtt_ctx :=
         demo_mqtt\<lparr>mq_subscribe_topic := arr 128 (demo_sub @ ascii ''/request/+'')\<rparr>\<rparr>\<rparr>\<rparr>"
  have p: "publishing ?s" "g_mqtt_publish_queue ?s = Some [[1], [2]]" "\<forall>x \<in> set [[1], [2 :: u8]]. x \<noteq> []"
    by (simp_all add: publishing_def demo_mqtt_st_def)
  have "0 \<notin> set (demo_sub @ ascii ''/request/+'')" by (simp add: demo_sub_def ascii_def)
  then have c: "cstr (mq_subscribe_topic (mqtt_ctx ?s)) = demo_sub @ ascii ''/request/+''"
    by (simp add: cstr_put_str)
  have l: "length demo_sub \<le> 100" "strstr_pos (demo_sub @ ascii ''/request/+'') (ascii ''/request'') = Some (length demo_sub)"
    by code_simp+
  have d: "ascii ''/response/'' @ ascii (dec_digits 7) = ascii ''/response/7''" by code_simp
  show ?thesis
    using rpc_answer_is_next_message [OF _ p c l, where k = 7 and env = demo_mqtt_env and rest = "[]" and dat = "[0]" and n = 1 and r = False] d
    by (simp add: Let_def numeral_2_eq_2)
qed

theorem rpc_command_forwarded_witness:
  "mqtt_outs (mqtt_event_handler demo_mqtt_env (MQTT_EVENT_DATA (rpc_topic 3 @ []) (length (rpc_topic 3))
      (rpc_json (ascii ''set'') (to_hex (ascii ''CF'' @ ascii ''SV:1'')) @ [])
      (length (rpc_json (ascii ''set'') (to_hex (ascii ''CF'' @ ascii ''SV:1''))))) demo_mqtt_st) =
   [MqttCommand \<lparr>cc_type = CONFIG_TYPE_SERVER, raw_data = ascii ''SV:1'' @ 0 # zeros 16379, data_len = 4,
      cc_source = CMD_SOURCE_MQTT, cc_waiter = None\<rparr>]"
proof -
  have l: "34 \<notin> set (ascii ''set'')" "0 \<notin> set (ascii ''set'')" "length (ascii ''SV:1'') < 65536" "length (ascii ''SV:1'') = 4"
    by (simp_all add: ascii_def)
  have t: "config_parse_type (ascii ''SV:1'') 4 = CONFIG_TYPE_SERVER" by code_simp
  have e: "mq_alloc demo_mqtt_env" "mq_room demo_mqtt_env" "handler_queue (gw demo_mqtt_st)" "mqtt_outs demo_mqtt_st = []"
    by (simp_all add: demo_mqtt_env_def demo_mqtt_st_def demo_task_def)
  show ?thesis
    using rpc_command_forwarded [OF _ l(1-3), of 3 demo_mqtt_env "[]" "[]" demo_mqtt_st] e l(4) t
    by (simp add: mqtt_emit_def)
qed

lemma rpc_message_enqueued_applied:
  "g_downlink_queue (lan (gw (mqtt_event_handler demo_mqtt_env (MQTT_EVENT_DATA (rpc_topic 3 @ []) (length (rpc_topic 3))
      (rpc_json [] (to_hex (ascii ''DT'' @ handler_id_to_string HANDLER_CAN @ [9, 9] @ [1, 2, 3])) @ [])
      (length (rpc_json [] (to_hex (ascii ''DT'' @ handler_id_to_string HANDLER_CAN @ [9, 9] @ [1, 2, 3])))))
      (demo_mqtt_st\<lparr>gw := demo_task\<lparr>lan := lan_app_boot\<lparr>g_downlink_queue := Some []\<rparr>\<rparr>\<rparr>)))) =
   Some [(HANDLER_CAN, [1, 2, 3])]"
  using rpc_message_enqueued [where k = 3 and m = "[]" and h = HANDLER_CAN and p = "[1, 2, 3]" and q = "[]" and
      s = "demo_mqtt_st\<lparr>gw := demo_task\<lparr>lan := lan_app_boot\<lparr>g_downlink_queue := Some []\<rparr>\<rparr>\<rparr>" and
      env = demo_mqtt_env and rest = "[]" and junk = "[]" and ?l1.0 = 9 and ?l2.0 = 9]
  by simp

lemma mqtt_reconfigured_applied:
  "\<exists>ses. mqtt_outs (mqtt_config_turn True (Some (demo_mqtt\<lparr>mq_keepalive_s := 0, mq_timeout_ms := 5000\<rparr>)) demo_mqtt_st) =
      [MqttStop, MqttStart ses] \<and> mc_keepalive ses = 30 \<and> mc_timeout_ms ses = 5000"
proof -
  let ?c = "demo_mqtt\<lparr>mq_keepalive_s := 0, mq_timeout_ms := 5000\<rparr>"
  have k: "mq_keepalive_s demo_mqtt = 30" by code_simp
  have ok: "mqtt_ok ?c" using demo_ctx(2) by (simp add: mqtt_ok_def)
  have s: "\<not> mqtt_task_close demo_mqtt_st" "m_client demo_mqtt_st" "mqtt_outs demo_mqtt_st = []"
    by (simp_all add: demo_mqtt_st_def)
  have "mqtt_ok (mqtt_ctx demo_mqtt_st)" using demo_ctx by simp
  from mqtt_reconfigured [OF s(1) ok this] show ?thesis using s demo_ctx(1) k by auto
qed

end
