(* ===== verification/Http_Client.thy ===== *)
theory Http_Client
  imports Mqtt_Client
begin

text \<open>
  \<open>Application/Server_Communication_Handler/http_handler/src/http_handler.c\<close>: the HTTP client. One
  task publishes the queued messages by POST, the other polls the server for remote procedure
  calls by long GET requests and forwards their commands.

  The HTTP library is outside. A request is an element of \<open>http_outs\<close>; its outcome, with the
  pieces in which the body arrives, is the input \<open>http_reply\<close>. URLs and JSON are C strings in
  buffers of the code's sizes. One iteration of a task's loop is a step, but for a publication that
  answers a call: it is one step up to its POST, in which the task waits (\<open>s_answering\<close>), and one from
  the end of the POST, where it writes the identifiers the polling task reads. Between the two the polling task may take calls.

  The properties: when a call is taken again, namely, unless it came in while an earlier one was
  being answered, only the cooldown of fifteen seconds after its own answer; the address is the configured one with the token in its place; the answer, read as JSON, is the
  payload without control characters; which commands of a call are forwarded, and how. The choice of the
  transport by the scheme of the address is not modelled; a new configuration comes from the command task.
\<close>

section \<open>State\<close>

datatype http_out =
    HttpPost "u8 list" "u8 list"        \<comment> \<open>URL, body\<close>
  | HttpGet "u8 list"
  | HttpCommand config_command          \<comment> \<open>sent to g_config_handler_queue\<close>

record http_reply =
  init_ok :: bool                       \<comment> \<open>esp_http_client_init\<close>
  perform :: esp_err                    \<comment> \<open>esp_http_client_perform\<close>
  status :: int
  chunked :: bool
  pieces_of_body :: "u8 list list"

record http_st =
  g_http_publish_queue :: "u8 list list option"
  publish_task :: bool                  \<comment> \<open>the task exists\<close>
  poll_task :: bool
  s_task_running :: bool
  s_polling_running :: bool
  s_http_server_connected :: bool
  s_answering :: bool                   \<comment> \<open>the publishing task is in the POST of an answer\<close>
  s_last_rpc_id :: int
  s_processing_rpc_id :: int
  s_cooldown_rpc_id :: int
  s_cooldown_rpc_ts :: u32
  hgw :: task_st
  http_outs :: "http_out list"

definition http_emit :: "http_out list \<Rightarrow> http_st \<Rightarrow> http_st" where
  "http_emit os s = s\<lparr>http_outs := http_outs s @ os\<rparr>"

definition http_online :: "internet_status \<Rightarrow> http_st \<Rightarrow> http_st" where
  "http_online st s = s\<lparr>hgw := (hgw s)\<lparr>lan := mcu_lan_handler_set_internet_status st (lan (hgw s))\<rparr>\<rparr>"

abbreviation http_cfg :: "http_st \<Rightarrow> http_config_data" where
  "http_cfg s \<equiv> g_http_cfg (cfg (hgw s))"

section \<open>Addresses\<close>

text \<open>The C string that \<open>build_url\<close> leaves in \<open>out\<close>.\<close>

definition build_url :: "u8 list \<Rightarrow> u8 list \<Rightarrow> nat \<Rightarrow> u8 list" where
  "build_url url_template token out_size0 =
     (let url = cstr url_template; placeholder = ascii [CHR 0x7B] @ ascii ''token'' @ ascii [CHR 0x7D]
      in case strstr_pos url placeholder of
           None \<Rightarrow> take (out_size0 - 1) url
         | Some before \<Rightarrow>
             let tok = cstr token; rest = drop (before + length placeholder) url;
                 out_size = (if before + length tok + length rest + 1 > out_size0 then out_size0 - 1 else out_size0);
                 out1 = (if before < out_size - 1 then take before url else []);
                 out2 = (if length tok < out_size - length out1 - 1 then out1 @ tok else out1)
             in out2 @ take (out_size - length out2 - 1) rest)"

definition replace_telemetry :: "u8 list \<Rightarrow> u8 list \<Rightarrow> u8 list option" where
  "replace_telemetry url tail =
     map_option (\<lambda>i. take i url @ tail) (strstr_pos url (ascii ''/telemetry''))"

definition poll_url :: "http_config_data \<Rightarrow> u8 list" where
  "poll_url c =
     (let url = build_url (hp_server_url c) (hp_auth_token c) 512
      in case replace_telemetry url (ascii ''/rpc?timeout=20000'') of
           Some u \<Rightarrow> u
         | None \<Rightarrow> take 511 (url @ ascii ''/rpc?timeout=20000''))"

definition rpc_url :: "http_config_data \<Rightarrow> int \<Rightarrow> u8 list" where
  "rpc_url c rpc_id =
     (let url = build_url (hp_server_url c) (hp_auth_token c) 512
      in case replace_telemetry url (ascii ''/rpc/'' @ ascii (dec_digits (nat rpc_id))) of
           Some u \<Rightarrow> take 511 u
         | None \<Rightarrow> url)"

section \<open>Posting\<close>

definition http_post_payload :: "http_reply \<Rightarrow> u8 list \<Rightarrow> http_st \<Rightarrow> esp_err \<times> http_st" where
  "http_post_payload r body s =
     (if \<not> init_ok r then (ESP_FAIL, s)
      else
        let s1 = http_emit [HttpPost (build_url (hp_server_url (http_cfg s)) (hp_auth_token (http_cfg s)) 512) body] s
        in if perform r = ESP_OK
           then
             let s2 = s1\<lparr>s_http_server_connected := True\<rparr>
             in if status r \<ge> 200 \<and> status r < 300 then (ESP_OK, http_online INTERNET_STATUS_ONLINE s2)
                else (ESP_FAIL, s2)
           else (perform r, http_online INTERNET_STATUS_OFFLINE (s1\<lparr>s_http_server_connected := False\<rparr>)))"

text \<open>The same conversion as that of the MQTT client, with its own bound.\<close>

definition http_telemetry_json :: "u8 list \<Rightarrow> u8 list" where
  "http_telemetry_json dat =
     take 4223 ([123] @ json_string ''data'' (hex_loop 4096 (take 2048 dat) []) @ [125])"

text \<open>The payload of a message from a Bluetooth radio follows its name and a time of 19 characters.\<close>

definition result_payload :: "u8 list \<Rightarrow> u8 list" where
  "result_payload dat =
     (let result_str = take 1023 dat
      in if length result_str > 22 \<and> take 3 result_str = ascii ''BLE'' \<and> result_str ! 5 = 47 \<and> result_str ! 13 = 45
         then drop 22 result_str else result_str)"

fun json_escape :: "u8 list \<Rightarrow> u8 list" where
  "json_escape [] = []"
| "json_escape (c # cs) =
     (if c = 0x1E then [92, 110]
      else if c = 34 then [92, 34]
      else if c = 92 then [92, 92]
      else if c \<ge> 0x20 then [c]
      else []) @ json_escape cs"

definition response_json :: "u8 list \<Rightarrow> u8 list" where
  "response_json dat = take 2299 ([123] @ json_string ''result'' (json_escape (result_payload dat)) @ [125])"

text \<open>Answering a call, up to the POST; \<open>client_ok\<close>: the HTTP client could be initialised.\<close>

definition http_answer_rpc :: "bool \<Rightarrow> u8 list \<Rightarrow> http_st \<Rightarrow> http_st" where
  "http_answer_rpc client_ok dat s0 =
     (let url = rpc_url (http_cfg s0) (s_last_rpc_id s0); s = s0\<lparr>s_last_rpc_id := -1\<rparr>
      in if \<not> client_ok then s
         else http_emit [HttpPost url (response_json dat)] (s\<lparr>s_answering := True\<rparr>))"

text \<open>The end of that POST, with its outcome.\<close>

definition http_answer_done :: "http_reply \<Rightarrow> u32 \<Rightarrow> http_st \<Rightarrow> http_st" where
  "http_answer_done r now s0 =
     (if \<not> s_answering s0 then s0
      else
        let s = s0\<lparr>s_answering := False\<rparr>
        in if perform r = ESP_OK \<and> (status r = 200 \<or> status r = 406)
           then s\<lparr>s_cooldown_rpc_id := (if s_processing_rpc_id s \<ge> 0 then s_processing_rpc_id s else s_last_rpc_id s),
                  s_cooldown_rpc_ts := now, s_processing_rpc_id := -1\<rparr>
           else s)"

text \<open>One turn of the publishing task, which does nothing while it waits in a POST; \<open>esc_ok\<close>: memory for the escaped text.\<close>

definition http_publish_turn :: "bool \<Rightarrow> http_reply \<Rightarrow> http_st \<Rightarrow> http_st" where
  "http_publish_turn esc_ok r s =
     (if \<not> publish_task s \<or> s_answering s then s
      else if \<not> s_task_running s then s\<lparr>publish_task := False\<rparr>
      else case g_http_publish_queue s of
        Some (item # q) \<Rightarrow>
          let s1 = s\<lparr>g_http_publish_queue := Some q\<rparr>
          in if length item = 0 then s1
             else if s_last_rpc_id s1 \<ge> 0 then (if esc_ok then http_answer_rpc (init_ok r) item s1 else s1\<lparr>publish_task := False\<rparr>)
             else snd (http_post_payload r (http_telemetry_json item) s1)
      | _ \<Rightarrow> s)"

definition http_enqueue_telemetry :: "bool \<Rightarrow> u8 list option \<Rightarrow> http_st \<Rightarrow> bool \<times> http_st" where
  "http_enqueue_telemetry room dat s =
     (case (dat, g_http_publish_queue s) of
        (Some d, Some q) \<Rightarrow>
          if length d = 0 then (False, s)
          else if length q < PUBLISH_QUEUE_DEPTH \<or> room
          then (True, s\<lparr>g_http_publish_queue := Some (q @ [take PUBLISH_MAX_LEN d])\<rparr>)
          else (False, s)
      | _ \<Rightarrow> (False, s))"

section \<open>Polling for calls\<close>

text \<open>The capture of the body: a buffer of 2048 bytes, its last one kept for the NUL.\<close>

definition rpc_http_event_handler :: "bool \<Rightarrow> u8 list \<Rightarrow> u8 list \<Rightarrow> u8 list" where
  "rpc_http_event_handler is_chunked dat buf =
     (if length dat > 0 \<and> \<not> is_chunked then buf @ take (2048 - length buf - 1) dat else buf)"

definition captured :: "http_reply \<Rightarrow> u8 list" where
  "captured r = fold (rpc_http_event_handler (chunked r)) (pieces_of_body r) []"

definition http_extract_rpc_params :: "u8 list \<Rightarrow> nat \<Rightarrow> u8 list option" where
  "http_extract_rpc_params json_response hex_out_size =
     (let json = cstr json_response; key = ascii [CHR 0x22] @ ascii ''params'' @ ascii [CHR 0x22]
      in case strstr_pos json key of
           None \<Rightarrow> None
         | Some i \<Rightarrow>
             (case find_chr (drop (i + 8) json) 58 of
                None \<Rightarrow> None
              | Some j \<Rightarrow>
                  let p = dropWhile (\<lambda>b. b = 32 \<or> b = 9) (drop (i + 8 + j + 1) json)
                  in case p of
                       [] \<Rightarrow> None
                     | b # v \<Rightarrow>
                         if b \<noteq> 34 then None
                         else case find_chr v 34 of
                                None \<Rightarrow> None
                              | Some n \<Rightarrow> if n \<ge> hex_out_size then None else Some (take n v)))"

text \<open>\<open>sscanf(s, "%2hhx", &b) == 1\<close>: blanks are skipped first, then at most two characters count.\<close>

definition scan_hhx :: "u8 list \<Rightarrow> u8 option" where
  "scan_hhx s =
     (case dropWhile is_space s of
        [] \<Rightarrow> None
      | [a] \<Rightarrow> scan_hex2 a 0
      | a # b # _ \<Rightarrow> scan_hex2 a b)"

fun http_hex_decode :: "nat \<Rightarrow> u8 list \<Rightarrow> u8 list" where
  "http_hex_decode n [] = []"
| "http_hex_decode 0 s = []"
| "http_hex_decode (Suc n) (a # s) =
     (case scan_hhx (a # s) of
        Some v \<Rightarrow> v # http_hex_decode n (drop 1 s)
      | None \<Rightarrow> http_hex_decode (Suc n) (drop 1 s))"

definition remap_cfml :: "u8 list \<Rightarrow> u8 list" where
  "remap_cfml bs = (if length bs \<ge> 4 \<and> take 4 bs = ascii ''CFML'' then drop 2 bs else bs)"

definition http_forward :: "bool \<Rightarrow> bool \<Rightarrow> u8 list \<Rightarrow> http_st \<Rightarrow> http_st" where
  "http_forward alloc room hex_string s =
     (let enqueue_cmd = remap_cfml (http_hex_decode 256 hex_string);
          t = config_parse_type enqueue_cmd (word_of_nat (length enqueue_cmd))
      in if \<not> alloc then s
         else if t = CONFIG_TYPE_UNKNOWN then s
         else if handler_queue (hgw s) \<and> room
         then http_emit [HttpCommand (fst (make_command t enqueue_cmd CMD_SOURCE_HTTP_RPC))] s
         else s)"

definition RPC_ID_PREFIX :: "u8 list" where
  "RPC_ID_PREFIX = ascii [CHR 0x7B, CHR 0x22] @ ascii ''id'' @ ascii [CHR 0x22, CHR 0x3A]"

definition rpc_id_of_body :: "u8 list \<Rightarrow> int option" where
  "rpc_id_of_body body =
     (let n = length RPC_ID_PREFIX; s = cstr body in
      if take n s = RPC_ID_PREFIX then scan_int (drop n s) else None)"

text \<open>A call that is neither in flight nor in its cooldown of 15 s (\<open>cooldown\<close> in ticks) is new.\<close>

definition rpc_new :: "u32 \<Rightarrow> u32 \<Rightarrow> int \<Rightarrow> http_st \<Rightarrow> bool" where
  "rpc_new cooldown now rpc_id s \<longleftrightarrow>
     rpc_id \<noteq> s_processing_rpc_id s \<and>
     (rpc_id \<noteq> s_cooldown_rpc_id s \<or> \<not> now - s_cooldown_rpc_ts s < cooldown)"

definition http_handle_rpc :: "u32 \<Rightarrow> u32 \<Rightarrow> bool \<Rightarrow> bool \<Rightarrow> u8 list \<Rightarrow> int \<Rightarrow> http_st \<Rightarrow> http_st" where
  "http_handle_rpc cooldown now alloc room body rpc_id s =
     (if \<not> rpc_new cooldown now rpc_id s then s
      else
        let s1 = s\<lparr>s_cooldown_rpc_id := (if rpc_id = s_cooldown_rpc_id s then -1 else s_cooldown_rpc_id s),
                   s_processing_rpc_id := rpc_id, s_last_rpc_id := rpc_id\<rparr>
        in case http_extract_rpc_params body 512 of
             Some hex_string \<Rightarrow> http_forward alloc room hex_string s1
           | None \<Rightarrow> s1)"

definition http_poll_rpc :: "u32 \<Rightarrow> u32 \<Rightarrow> bool \<Rightarrow> bool \<Rightarrow> bool \<Rightarrow> http_reply \<Rightarrow> http_st \<Rightarrow> esp_err \<times> http_st" where
  "http_poll_rpc cooldown now buf_ok alloc room r s =
     (if \<not> buf_ok \<or> \<not> init_ok r then (ESP_FAIL, s)
      else
        let s1 = http_emit [HttpGet (poll_url (http_cfg s))] s
        in if perform r \<noteq> ESP_OK
           then (perform r, http_online INTERNET_STATUS_OFFLINE (s1\<lparr>s_http_server_connected := False\<rparr>))
           else
             let body = captured r;
                 s2 = http_online INTERNET_STATUS_ONLINE (s1\<lparr>s_http_server_connected := True\<rparr>)
             in (ESP_OK,
                 if status r = 200 \<and> length body > 0
                 then (case rpc_id_of_body body of
                         Some rpc_id \<Rightarrow> http_handle_rpc cooldown now alloc room body rpc_id s2
                       | None \<Rightarrow> s2)
                 else s2))"

definition http_polling_turn :: "u32 \<Rightarrow> u32 \<Rightarrow> bool \<Rightarrow> bool \<Rightarrow> bool \<Rightarrow> http_reply \<Rightarrow> http_st \<Rightarrow> http_st" where
  "http_polling_turn cooldown now buf_ok alloc room r s =
     (if \<not> poll_task s then s
      else if s_polling_running s then snd (http_poll_rpc cooldown now buf_ok alloc room r s)
      else s\<lparr>poll_task := False\<rparr>)"

section \<open>Start and stop\<close>

text \<open>Memory for the queue, for each task, and for the buffers of the publishing task.\<close>

definition http_handler_task_start :: "bool \<Rightarrow> bool \<Rightarrow> bool \<Rightarrow> bool \<Rightarrow> http_st \<Rightarrow> http_st" where
  "http_handler_task_start queue_ok pub_ok buffers_ok poll_ok s =
     (if s_task_running s then s
      else if g_http_publish_queue s = None \<and> \<not> queue_ok then s
      else s\<lparr>g_http_publish_queue := (case g_http_publish_queue s of None \<Rightarrow> Some [] | q \<Rightarrow> q),
             s_http_server_connected := False, s_task_running := True,
             publish_task := publish_task s \<or> pub_ok \<and> buffers_ok, s_polling_running := True,
             poll_task := poll_task s \<or> poll_ok\<rparr>)"

definition http_handler_task_stop :: "http_st \<Rightarrow> http_st" where
  "http_handler_task_stop s =
     s\<lparr>s_task_running := False, s_polling_running := False, s_http_server_connected := False,
       g_http_publish_queue := None\<rparr>"

definition http_handler_is_connected :: "http_st \<Rightarrow> bool" where
  "http_handler_is_connected s = s_http_server_connected s"

section \<open>When a call is taken\<close>

text \<open>The steps of the two tasks, and what of a step concerns calls: a call taken as new, an
  answer the server accepted. Times are ticks.\<close>

datatype http_event =
    EvPoll u32 bool bool bool http_reply
  | EvPublish bool http_reply
  | EvAnswered http_reply u32
  | EvEnqueue bool "u8 list"

fun http_step :: "u32 \<Rightarrow> http_event \<Rightarrow> http_st \<Rightarrow> http_st" where
  "http_step cooldown (EvPoll now buf_ok alloc room r) s = http_polling_turn cooldown now buf_ok alloc room r s"
| "http_step cooldown (EvPublish esc_ok r) s = http_publish_turn esc_ok r s"
| "http_step cooldown (EvAnswered r now) s = http_answer_done r now s"
| "http_step cooldown (EvEnqueue room d) s = snd (http_enqueue_telemetry room (Some d) s)"

datatype call_entry = Accept int u32 | Ack u32

fun call_log :: "u32 \<Rightarrow> http_event \<Rightarrow> http_st \<Rightarrow> call_entry list" where
  "call_log cooldown (EvPoll now buf_ok alloc room r) s =
     (if poll_task s \<and> s_polling_running s \<and> buf_ok \<and> init_ok r \<and> perform r = ESP_OK \<and> status r = 200 \<and> captured r \<noteq> []
      then case rpc_id_of_body (captured r) of
             Some k \<Rightarrow> if rpc_new cooldown now k s then [Accept k now] else []
           | None \<Rightarrow> []
      else [])"
| "call_log cooldown (EvAnswered r now) s =
     (if s_answering s \<and> perform r = ESP_OK \<and> (status r = 200 \<or> status r = 406) then [Ack now] else [])"
| "call_log cooldown _ s = []"

fun run_log :: "u32 \<Rightarrow> http_event list \<Rightarrow> http_st \<Rightarrow> call_entry list" where
  "run_log cooldown [] s = []"
| "run_log cooldown (e # es) s = call_log cooldown e s @ run_log cooldown es (http_step cooldown e s)"

definition rpc_ids :: "http_st \<Rightarrow> int \<times> int \<times> int \<times> u32 \<times> bool" where
  "rpc_ids s = (s_processing_rpc_id s, s_last_rpc_id s, s_cooldown_rpc_id s, s_cooldown_rpc_ts s, s_answering s)"

lemma rpc_ids_simps [simp]:
  "rpc_ids (http_emit os s) = rpc_ids s" "rpc_ids (http_online st s) = rpc_ids s"
  "rpc_ids (s\<lparr>g_http_publish_queue := q\<rparr>) = rpc_ids s" "rpc_ids (s\<lparr>s_http_server_connected := b\<rparr>) = rpc_ids s"
  "rpc_ids (s\<lparr>publish_task := b\<rparr>) = rpc_ids s" "rpc_ids (s\<lparr>poll_task := b\<rparr>) = rpc_ids s"
  "rpc_ids (snd (http_post_payload r d s)) = rpc_ids s" "rpc_ids (http_forward alloc room h s) = rpc_ids s"
  by (auto simp: rpc_ids_def http_emit_def http_online_def http_post_payload_def http_forward_def Let_def)

lemma rpc_ids_new: "rpc_ids s = rpc_ids s' \<Longrightarrow> rpc_new c now k s = rpc_new c now k s'"
  by (simp add: rpc_ids_def rpc_new_def)

lemma handle_rpc_ids:
  "rpc_ids (http_handle_rpc c now alloc room body k s) =
     (if rpc_new c now k s then (k, k, if k = s_cooldown_rpc_id s then -1 else s_cooldown_rpc_id s, s_cooldown_rpc_ts s, s_answering s)
      else rpc_ids s)"
  by (auto simp: http_handle_rpc_def Let_def split: option.split) (auto simp: rpc_ids_def)

text \<open>What a step does to the identifiers is what the log says.\<close>

lemma poll_ids:
  assumes "poll_task s" "s_polling_running s" "buf_ok" "init_ok r" "perform r = ESP_OK"
  shows "rpc_ids (http_polling_turn c now buf_ok alloc room r s) =
    (case (if status r = 200 \<and> captured r \<noteq> [] then rpc_id_of_body (captured r) else None) of
       Some k \<Rightarrow>
         if rpc_new c now k s then (k, k, if k = s_cooldown_rpc_id s then -1 else s_cooldown_rpc_id s, s_cooldown_rpc_ts s, s_answering s)
         else rpc_ids s
     | None \<Rightarrow> rpc_ids s)"
proof -
  let ?s2 = "http_online INTERNET_STATUS_ONLINE ((http_emit [HttpGet (poll_url (http_cfg s))] s)\<lparr>s_http_server_connected := True\<rparr>)"
  have same: "rpc_ids ?s2 = rpc_ids s" by simp
  then have f: "s_cooldown_rpc_id ?s2 = s_cooldown_rpc_id s" "s_cooldown_rpc_ts ?s2 = s_cooldown_rpc_ts s"
    "s_answering ?s2 = s_answering s" by (simp_all only: rpc_ids_def prod.inject)
  note n = rpc_ids_new [OF same]
  show ?thesis
    using assms by (simp add: http_polling_turn_def http_poll_rpc_def handle_rpc_ids n f same Let_def split: option.split)
qed

lemma log_nothing:
  assumes "call_log c e s = []"
  shows "s_processing_rpc_id (http_step c e s) = s_processing_rpc_id s" "s_cooldown_rpc_id (http_step c e s) = s_cooldown_rpc_id s"
    "s_cooldown_rpc_ts (http_step c e s) = s_cooldown_rpc_ts s"
    "s_last_rpc_id (http_step c e s) = s_last_rpc_id s \<or> s_last_rpc_id (http_step c e s) = -1 \<and> \<not> s_answering s"
    "s_answering (http_step c e s) \<Longrightarrow> s_answering s \<or> s_last_rpc_id (http_step c e s) = -1 \<and> s_last_rpc_id s \<ge> 0"
proof -
  have "case (rpc_ids (http_step c e s), rpc_ids s) of ((p', l', k', t', a'), (p, l, k, t, a)) \<Rightarrow>
      p' = p \<and> k' = k \<and> t' = t \<and> (l' = l \<or> l' = -1 \<and> \<not> a) \<and> (a' \<longrightarrow> a \<or> l' = -1 \<and> l \<ge> 0)"
  proof (cases e)
    case (EvPoll now buf_ok alloc room r)
    show ?thesis
    proof (cases "poll_task s \<and> s_polling_running s \<and> buf_ok \<and> init_ok r \<and> perform r = ESP_OK")
      case True
      then show ?thesis using assms poll_ids [of s buf_ok r c now alloc room]
        by (auto simp: EvPoll split: option.splits if_splits)
    next
      case False
      then show ?thesis by (auto simp: EvPoll http_polling_turn_def http_poll_rpc_def Let_def split: prod.split)
    qed
  next
    case (EvPublish esc_ok r)
    show ?thesis using assms
      by (auto simp: EvPublish http_publish_turn_def http_answer_rpc_def Let_def split: list.splits option.splits if_splits prod.splits)
        (auto simp: rpc_ids_def http_emit_def)
  next
    case (EvAnswered r now)
    show ?thesis using assms by (auto simp: EvAnswered http_answer_done_def rpc_ids_def Let_def split: if_splits)
  next
    case (EvEnqueue room d)
    show ?thesis by (auto simp: EvEnqueue http_enqueue_telemetry_def split: option.split prod.split)
  qed
  then show "s_processing_rpc_id (http_step c e s) = s_processing_rpc_id s" "s_cooldown_rpc_id (http_step c e s) = s_cooldown_rpc_id s"
    "s_cooldown_rpc_ts (http_step c e s) = s_cooldown_rpc_ts s"
    "s_last_rpc_id (http_step c e s) = s_last_rpc_id s \<or> s_last_rpc_id (http_step c e s) = -1 \<and> \<not> s_answering s"
    "s_answering (http_step c e s) \<Longrightarrow> s_answering s \<or> s_last_rpc_id (http_step c e s) = -1 \<and> s_last_rpc_id s \<ge> 0"
    by (auto simp: rpc_ids_def)
qed

lemma log_accept:
  assumes "call_log c e s = [Accept k t]"
  shows "s_processing_rpc_id (http_step c e s) = k" "rpc_new c t k s" "s_answering (http_step c e s) = s_answering s"
proof -
  obtain buf_ok alloc room r where e: "e = EvPoll t buf_ok alloc room r"
    using assms by (cases e) (auto split: option.splits if_splits)
  show "s_processing_rpc_id (http_step c e s) = k" "rpc_new c t k s" "s_answering (http_step c e s) = s_answering s"
    using assms poll_ids [of s buf_ok r c t alloc room] by (auto simp: e rpc_ids_def split: option.splits if_splits)
qed

lemma log_ack:
  assumes "call_log c e s = [Ack t]"
  shows "s_answering s" "\<not> s_answering (http_step c e s)" "s_last_rpc_id (http_step c e s) = s_last_rpc_id s"
    "s_processing_rpc_id (http_step c e s) = -1" "s_cooldown_rpc_ts (http_step c e s) = t"
    "s_processing_rpc_id s \<ge> 0 \<Longrightarrow> s_cooldown_rpc_id (http_step c e s) = s_processing_rpc_id s"
proof -
  obtain r where e: "e = EvAnswered r t"
    using assms by (cases e) (auto split: option.splits if_splits)
  show "s_answering s" "\<not> s_answering (http_step c e s)" "s_last_rpc_id (http_step c e s) = s_last_rpc_id s"
    "s_processing_rpc_id (http_step c e s) = -1" "s_cooldown_rpc_ts (http_step c e s) = t"
    "s_processing_rpc_id s \<ge> 0 \<Longrightarrow> s_cooldown_rpc_id (http_step c e s) = s_processing_rpc_id s"
    using assms by (auto simp: e http_answer_done_def Let_def split: if_splits)
qed

lemma log_one: "call_log c e s = [] \<or> (\<exists>x. call_log c e s = [x])"
  by (cases e) (auto split: option.split list.split)

text \<open>The run up to the next call that is taken, from the three kinds of states a call goes through: with no
  answer under way and none to come; after an answer; in flight. \<open>next_call\<close> is the part they share.\<close>

definition next_call :: "u32 \<Rightarrow> http_event list \<Rightarrow> http_st \<Rightarrow> call_entry list \<Rightarrow> int \<Rightarrow> u32 \<Rightarrow> bool" where
  "next_call c es s ys k t2 \<longleftrightarrow> run_log c es s = ys @ [Accept k t2] \<and> (\<forall>j t. Accept j t \<notin> set ys)"

lemma next_call_cases:
  assumes "next_call c es s ys k t2"
  obtains (quiet) e es' where "es = e # es'" "call_log c e s = []" "next_call c es' (http_step c e s) ys k t2"
  | (accept) e es' where "es = e # es'" "call_log c e s = [Accept k t2]" "ys = []"
  | (ack) e es' t ys' where "es = e # es'" "call_log c e s = [Ack t]" "ys = Ack t # ys'"
      "next_call c es' (http_step c e s) ys' k t2"
proof (cases es)
  case Nil
  with assms show ?thesis by (simp add: next_call_def)
next
  case (Cons e es')
  consider "call_log c e s = []" | x where "call_log c e s = [x]" using log_one by blast
  then show ?thesis
  proof cases
    case 1
    with assms Cons show ?thesis by (intro quiet [of e es']) (simp_all add: next_call_def)
  next
    case (2 x)
    show ?thesis
    proof (cases x)
      case (Accept j t)
      with assms Cons 2 have "j = k \<and> t = t2 \<and> ys = []" by (cases ys) (auto simp: next_call_def)
      with Cons 2 Accept show ?thesis by (intro accept [of e es']) simp_all
    next
      case (Ack t)
      with assms Cons 2 obtain ys' where "ys = Ack t # ys'" "next_call c es' (http_step c e s) ys' k t2"
        by (cases ys) (auto simp: next_call_def)
      with Cons 2 Ack show ?thesis by (intro ack [of e es' t ys']) simp_all
    qed
  qed
qed

lemma no_answer_to_come:
  assumes "next_call c es s ys k t2" "s_last_rpc_id s = -1" "\<not> s_answering s"
  shows "ys = []"
  using assms
proof (induction es arbitrary: s ys)
  case Nil
  then show ?case by (simp add: next_call_def)
next
  case (Cons e es)
  from Cons.prems(1) show ?case
  proof (cases rule: next_call_cases)
    case (quiet e' es')
    with quiet(1,3) Cons.IH [of "http_step c e s" ys] log_nothing [OF quiet(2)] Cons.prems(2,3) show ?thesis by auto
  next
    case (ack e' es' t ys')
    with log_ack(1) [OF ack(2)] Cons.prems(3) show ?thesis by auto
  qed simp
qed

lemma after_answer:
  assumes "next_call c es s ys k t2" "s_processing_rpc_id s = -1" "s_cooldown_rpc_id s = k" "s_cooldown_rpc_ts s = t0"
    and "s_answering s \<longrightarrow> s_last_rpc_id s = -1"
  shows "ys = [] \<and> c \<le> t2 - t0 \<or> (s_last_rpc_id s \<noteq> -1 \<or> s_answering s) \<and> (\<exists>t. ys = [Ack t])"
  using assms
proof (induction es arbitrary: s ys)
  case Nil
  then show ?case by (simp add: next_call_def)
next
  case (Cons e es)
  from Cons.prems(1) show ?case
  proof (cases rule: next_call_cases)
    case (quiet e' es')
    then have q: "call_log c e s = []" "next_call c es (http_step c e s) ys k t2" by simp_all
    note n = log_nothing [OF q(1)]
    have "s_answering (http_step c e s) \<longrightarrow> s_last_rpc_id (http_step c e s) = -1" using n(4,5) Cons.prems(5) by auto
    with Cons.IH [OF q(2), unfolded n(1-3), OF Cons.prems(2-4)] n(4,5) show ?thesis by auto
  next
    case (accept e' es')
    with log_accept(2) [OF accept(2)] Cons.prems(2-) show ?thesis by (auto simp: rpc_new_def not_less)
  next
    case (ack e' es' t ys')
    then have "ys' = []"
      using log_ack [OF ack(2)] Cons.prems(5) by (intro no_answer_to_come [OF ack(4)]) auto
    with ack log_ack(1) [OF ack(2)] show ?thesis by auto
  qed
qed

lemma in_flight:
  assumes "next_call c es s ys k t2" "s_processing_rpc_id s = k" "k \<ge> 0"
  shows "(\<exists>t0. ys = [Ack t0] \<and> c \<le> t2 - t0) \<or>
    s_answering s \<and> s_last_rpc_id s \<noteq> -1 \<and> (\<exists>t0 t. ys = [Ack t0, Ack t])"
  using assms
proof (induction es arbitrary: s ys)
  case Nil
  then show ?case by (simp add: next_call_def)
next
  case (Cons e es)
  from Cons.prems(1) show ?case
  proof (cases rule: next_call_cases)
    case (quiet e' es')
    with quiet(1,3) Cons.IH [of "http_step c e s" ys] log_nothing [OF quiet(2)] Cons.prems(2,3) show ?thesis by auto
  next
    case (accept e' es')
    with log_accept(2) [OF accept(2)] Cons.prems(2) show ?thesis by (auto simp: rpc_new_def)
  next
    case (ack e' es' t ys')
    have "ys' = [] \<and> c \<le> t2 - t \<or> s_last_rpc_id s \<noteq> -1 \<and> (\<exists>t. ys' = [Ack t])"
      using after_answer [OF ack(4), of t] log_ack [OF ack(2)] ack(1) Cons.prems(2,3) by auto
    with ack log_ack(1) [OF ack(2)] show ?thesis by auto
  qed
qed

fun http_commands :: "http_out list \<Rightarrow> config_command list" where
  "http_commands [] = []"
| "http_commands (HttpCommand c # os) = c # http_commands os"
| "http_commands (_ # os) = http_commands os"

lemma http_commands_append [simp]: "http_commands (a @ b) = http_commands a @ http_commands b"
  by (induction a rule: http_commands.induct) simp_all

lemma commands_fields [simp]:
  "http_outs (http_online st s) = http_outs s" "http_outs (http_emit os s) = http_outs s @ os"
  "http_commands (http_outs (snd (http_post_payload r d s))) = http_commands (http_outs s)"
  "http_commands (http_outs (http_answer_rpc b d s)) = http_commands (http_outs s)"
  "http_outs (http_answer_done r now s) = http_outs s"
  by (auto simp: http_online_def http_emit_def http_post_payload_def http_answer_rpc_def http_answer_done_def Let_def)

lemma handle_rpc_commands:
  "http_commands (http_outs (http_handle_rpc c now alloc room body k s)) = http_commands (http_outs s) \<or>
   rpc_new c now k s \<and> (\<exists>cmd. http_commands (http_outs (http_handle_rpc c now alloc room body k s)) = http_commands (http_outs s) @ [cmd])"
  by (auto simp: http_handle_rpc_def http_forward_def Let_def split: option.split)

lemma step_commands:
  "http_commands (http_outs (http_step c e s)) = http_commands (http_outs s) \<or>
   (\<exists>k t cmd. call_log c e s = [Accept k t] \<and>
      http_commands (http_outs (http_step c e s)) = http_commands (http_outs s) @ [cmd])"
proof (cases e)
  case (EvPoll now buf_ok alloc room r)
  let ?s2 = "http_online INTERNET_STATUS_ONLINE ((http_emit [HttpGet (poll_url (http_cfg s))] s)\<lparr>s_http_server_connected := True\<rparr>)"
  have n: "rpc_new c now k ?s2 = rpc_new c now k s" for k by (rule rpc_ids_new) simp
  have o: "http_commands (http_outs ?s2) = http_commands (http_outs s)" by simp
  show ?thesis
  proof (cases "poll_task s \<and> s_polling_running s \<and> buf_ok \<and> init_ok r \<and> perform r = ESP_OK \<and> status r = 200 \<and> captured r \<noteq> []")
    case True
    show ?thesis
    proof (cases "rpc_id_of_body (captured r)")
      case None
      with True show ?thesis by (simp add: EvPoll http_polling_turn_def http_poll_rpc_def Let_def)
    next
      case (Some k)
      with True have "http_step c e s = http_handle_rpc c now alloc room (captured r) k ?s2"
        by (simp add: EvPoll http_polling_turn_def http_poll_rpc_def Let_def)
      with True Some handle_rpc_commands [of c now alloc room "captured r" k ?s2] show ?thesis
        unfolding n o by (auto simp: EvPoll)
    qed
  next
    case False
    then show ?thesis by (auto simp: EvPoll http_polling_turn_def http_poll_rpc_def Let_def)
  qed
next
  case (EvPublish esc_ok r)
  then show ?thesis by (auto simp: http_publish_turn_def Let_def split: option.split list.split)
next
  case (EvAnswered r now)
  then show ?thesis by simp
next
  case (EvEnqueue room d)
  then show ?thesis by (auto simp: http_enqueue_telemetry_def split: option.split)
qed

text \<open>
  C26. When a call is taken again. A command goes to the command task only in a step that takes a call as new, and then one.
  Let a call with a nonnegative identifier have been taken and the next call that is taken have the same identifier, the two
  tasks having done whatever they do in between, in whatever order. Then the server has accepted exactly one
  answer in between and since then at least the cooldown has passed, so that its repetitions of the call, before or shortly after the
  answer, are not carried out again; with one exception: the call was taken while the answer to an earlier one was
  being posted. Then the server may have accepted two, that one and the call's own, and no cooldown need have passed
  (\<open>http_call_taken_at_once\<close>: the acknowledgement of the earlier answer puts the new call into the cooldown, that of its own ends it).
\<close>

theorem http_call_taken_again:
  assumes "k \<ge> 0" and taken: "call_log c e s = [Accept k t1]"
    and again: "run_log c es (http_step c e s) = ys @ [Accept k t2]" "\<forall>j t. Accept j t \<notin> set ys"
  shows "((\<exists>t0. ys = [Ack t0] \<and> c \<le> t2 - t0) \<or> s_answering s \<and> (\<exists>t0 t. ys = [Ack t0, Ack t])) \<and>
    (\<forall>e s. http_commands (http_outs (http_step c e s)) = http_commands (http_outs s) \<or>
       (\<exists>k t cmd. call_log c e s = [Accept k t] \<and>
          http_commands (http_outs (http_step c e s)) = http_commands (http_outs s) @ [cmd]))"
  using in_flight [of c es "http_step c e s" ys k t2] log_accept [OF taken] assms(1) again step_commands
  by (auto simp: next_call_def)

text \<open>The other side of the guard: a call whose answer the server refused once is neither
  answered nor taken again.\<close>

lemma refused_call_stuck:
  assumes "s_processing_rpc_id s = k" "s_last_rpc_id s = -1" "\<not> s_answering s"
    and "\<forall>j t. Accept j t \<in> set (run_log c es s) \<longrightarrow> j = k"
  shows "run_log c es s = []"
  using assms
proof (induction es arbitrary: s)
  case (Cons e es)
  have "call_log c e s = []"
  proof (rule ccontr)
    assume "call_log c e s \<noteq> []"
    then obtain x where x: "call_log c e s = [x]" using log_one [of c e s] by auto
    show False
    proof (cases x)
      case (Accept j t)
      then have "j = k" using Cons.prems(4) x by auto
      then show False using log_accept(2) [OF x [unfolded Accept]] Cons.prems(1) by (simp add: rpc_new_def)
    next
      case (Ack t)
      then show False using log_ack(1) [OF x [unfolded Ack]] Cons.prems(3) by simp
    qed
  qed
  with Cons log_nothing [OF this] show ?case by auto
qed simp

section \<open>Addresses and answers\<close>

text \<open>
  The addresses are the configured one. For a configured URL and token, arrays of 256 and
  128 bytes, the placeholder is replaced by the token in full: nothing is cut, and the polling and the
  answering addresses, in which \<open>/telemetry\<close> and what follows it give way to the endpoint of the calls,
  fit into their 512 bytes, so the unchecked copy behind it stays inside.
\<close>

lemma http_addresses_exact:
  fixes cf :: http_config_data
  defines "url \<equiv> cstr (hp_server_url cf)"
  defines "u \<equiv> build_url (hp_server_url cf) (hp_auth_token cf) 512"
  assumes ok: "http_ok cf" and i: "strstr_pos url (ascii [CHR 0x7B] @ ascii ''token'' @ ascii [CHR 0x7D]) = Some i"
    and j: "strstr_pos u (ascii ''/telemetry'') = Some j" and k: "k < 2147483648"
  shows "u = take i url @ cstr (hp_auth_token cf) @ drop (i + 7) url \<and>
    poll_url cf = take j u @ ascii ''/rpc?timeout=20000'' \<and> length (poll_url cf) < 512 \<and>
    rpc_url cf (int k) = take j u @ ascii ''/rpc/'' @ ascii (dec_digits k) \<and> length (rpc_url cf (int k)) < 512"
proof -
  have l: "length url \<le> 256" "length (cstr (hp_auth_token cf)) \<le> 128"
    using ok by (auto simp: http_ok_def c_array_def url_def cstr_def intro: order_trans [OF length_takeWhile_le])
  let ?p = "ascii [CHR 0x7B] @ ascii ''token'' @ ascii [CHR 0x7D]"
  have p: "length ?p = 7" by (simp add: ascii_def)
  have "i + length (cstr (hp_auth_token cf)) + (length url - (i + 7)) \<le> 384" "length (cstr (hp_auth_token cf)) < 511 - i"
    using strstr_pos_bound [OF i] l by auto
  then have u: "u = take i url @ cstr (hp_auth_token cf) @ drop (i + 7) url"
    using l i strstr_pos_bound [OF i] unfolding u_def build_url_def url_def [symmetric] Let_def p i option.case
    by simp
  then have lu: "length (take j u) \<le> 384" using l by simp
  have d: "length (ascii (dec_digits k)) \<le> 10" using digits_short [OF k] by simp
  have r: "replace_telemetry u t = Some (take j u @ t)" for t by (simp add: replace_telemetry_def j)
  have x: "length (ascii ''/rpc?timeout=20000'') = 18" "length (ascii ''/rpc/'') = 5" by (simp_all add: ascii_def)
  have poll: "poll_url cf = take j u @ ascii ''/rpc?timeout=20000''"
    unfolding poll_url_def u_def [symmetric] Let_def r option.case ..
  have short: "length (take j u @ ascii ''/rpc/'' @ ascii (dec_digits k)) < 400"
    using lu d unfolding length_append x by linarith
  have rpc: "rpc_url cf (int k) = take j u @ ascii ''/rpc/'' @ ascii (dec_digits k)"
    unfolding rpc_url_def u_def [symmetric] Let_def r option.case nat_int
    by (rule take_all) (use short in linarith)
  have fits: "length (take j u @ ascii ''/rpc?timeout=20000'') < 512"
    using lu unfolding length_append x by linarith
  show ?thesis
    unfolding poll rpc
    by (intro conjI u refl fits) (use short in linarith)
qed

section \<open>Commands in calls\<close>

text \<open>The body of a call as the server writes it.\<close>

definition http_call :: "nat \<Rightarrow> u8 list \<Rightarrow> u8 list \<Rightarrow> u8 list" where
  "http_call k m params = RPC_ID_PREFIX @ ascii (dec_digits k) @ [44] @ drop 1 (rpc_json m params)"

lemma take_take_append: "take n (take n xs @ ys) = take n (xs @ ys)"
  by (simp add: min_def)

lemma captured_body:
  assumes "\<not> chunked r"
  shows "captured r = take 2047 (concat (pieces_of_body r))"
proof -
  have "length b \<le> 2047 \<Longrightarrow> fold (rpc_http_event_handler False) ps b = take 2047 (b @ concat ps)" for ps b
  proof (induction ps arbitrary: b)
    case (Cons p ps)
    have "rpc_http_event_handler False p b = take 2047 (b @ p)" using Cons.prems by (auto simp: rpc_http_event_handler_def)
    moreover have "take 2047 (take 2047 (b @ p) @ concat ps) = take 2047 ((b @ p) @ concat ps)" by (rule take_take_append)
    ultimately show ?case using Cons.IH [of "take 2047 (b @ p)"] by simp
  qed simp
  from this [of "[]"] assms show ?thesis by (simp add: captured_def)
qed

lemma http_call_plain:
  assumes "k < 2147483648" "0 \<notin> set m" "0 \<notin> set params"
  shows "0 \<notin> set (http_call k m params)"
  using assms digits_short [of k] by (auto simp: http_call_def RPC_ID_PREFIX_def rpc_json_def json_string_def ascii_def)

lemma atoi_prefix: "k < 2147483648 \<Longrightarrow> \<not> is_digit c \<Longrightarrow> atoi (ascii (dec_digits k) @ c # r) = int k"
proof -
  assume k: "k < 2147483648" and c: "\<not> is_digit c"
  note d = dec_digits_props [of k 9]
  obtain b ds where s: "ascii (dec_digits k) = b # ds" using d by (cases "dec_digits k") (auto simp: ascii_def)
  then have "is_digit b" using d by (metis list.set_intros(1))
  note b = is_digit_not [OF this]
  have "\<forall>x \<in> set ds. is_digit x" using d s by (metis list.set_intros(2))
  then have t: "takeWhile is_digit (ds @ c # r) = ds" "takeWhile is_digit ds = ds" using c by (simp_all add: takeWhile_append)
  then have "atoi (ascii (dec_digits k) @ c # r) = atoi (ascii (dec_digits k))"
    using b \<open>is_digit b\<close> by (simp add: s atoi_def t)
  then show ?thesis using atoi_digits [OF k] by simp
qed

lemma scan_int_prefix: "k < 2147483648 \<Longrightarrow> \<not> is_digit c \<Longrightarrow> scan_int (ascii (dec_digits k) @ c # r) = Some (int k)"
proof -
  assume k: "k < 2147483648" and c: "\<not> is_digit c"
  obtain b ds where s: "ascii (dec_digits k) = b # ds"
    using dec_digits_props [of k 9] by (cases "dec_digits k") (auto simp: ascii_def)
  then have "is_digit b" using dec_digits_props [of k 9] by (metis list.set_intros(1))
  with is_digit_not [OF this] atoi_prefix [OF k c, of r] s show ?thesis by (simp add: scan_int_def)
qed

lemma http_call_id: "k < 2147483648 \<Longrightarrow> 0 \<notin> set m \<Longrightarrow> 0 \<notin> set params \<Longrightarrow> rpc_id_of_body (http_call k m params) = Some (int k)"
proof -
  assume a: "k < 2147483648" "0 \<notin> set m" "0 \<notin> set params"
  have "\<not> is_digit 44" by (simp add: is_digit_def)
  from scan_int_prefix [OF a(1) this] show ?thesis
    unfolding rpc_id_of_body_def cstr_free [OF http_call_plain [OF a]] Let_def
    by (simp add: http_call_def)
qed

lemma params_not_before:
  assumes "34 \<notin> set d"
  shows "strstr_pos (RPC_ID_PREFIX @ d @ [44] @ 34 # ascii ''method'' @ [34, 58] @ x) (34 # ascii ''params'' @ [34]) =
    map_option (\<lambda>i. i + length (RPC_ID_PREFIX @ d @ [44] @ 34 # ascii ''method'' @ [34, 58])) (strstr_pos x (34 # ascii ''params'' @ [34]))"
  using strstr_no_head [OF assms, where n = "ascii ''params'' @ [34]"]
  by (simp add: RPC_ID_PREFIX_def ascii_def option.map_comp comp_def)

lemma http_params_found:
  assumes m: "34 \<notin> set m" "0 \<notin> set m"
  shows "\<exists>i j. strstr_pos (http_call k m params) (34 # ascii ''params'' @ [34]) = Some i \<and>
    find_chr (drop (i + 8) (http_call k m params)) 58 = Some j \<and>
    drop (i + 8 + j + 1) (http_call k m params) = 34 # params @ [34, 125]"
proof -
  let ?p = "ascii ''params''" and ?d = "ascii (dec_digits k)"
  let ?v = "[34] @ params @ [34, 125]"
  let ?tail = "[34, 44, 34] @ ?p @ [34, 58] @ ?v"
  let ?pre = "RPC_ID_PREFIX @ ?d @ [44] @ 34 # ascii ''method'' @ [34, 58]"
  have call: "http_call k m params = ?pre @ [34] @ m @ ?tail"
    by (simp add: http_call_def rpc_json_def json_string_def)
  have d: "34 \<notin> set ?d" using dec_digits_props [of k 0] by (auto simp: is_digit_def)
  have p8: "length ?p = 6" "34 \<notin> set ?p" by (simp_all add: ascii_def)
  have pre: "strstr_pos (?pre @ x) (34 # ?p @ [34]) = map_option (\<lambda>i. i + length ?pre) (strstr_pos x (34 # ?p @ [34]))" for x
    using params_not_before [OF d, of x] by simp
  have drops: "drop (length ?pre + n) (http_call k m params) = drop n ([34] @ m @ ?tail)" for n
    unfolding call by (simp only: drop_append) simp
  show ?thesis
  proof (cases "m = ?p")
    case True
    have "strstr_pos ([34] @ m @ ?tail) (34 # ?p @ [34]) = Some 0" by (simp add: True ascii_def)
    then have "strstr_pos (http_call k m params) (34 # ?p @ [34]) = Some (length ?pre)" unfolding call pre by simp
    moreover have "drop 8 ([34] @ m @ ?tail) = [44, 34] @ ?p @ [34, 58] @ ?v"
      "drop (8 + 9 + 1) ([34] @ m @ ?tail) = ?v" by (simp_all add: True ascii_def)
    moreover have "find_chr ([44, 34] @ ?p @ [34, 58] @ ?v) 58 = Some 9" by (simp add: ascii_def)
    ultimately show ?thesis using drops [of 8] drops [of "8 + 9 + 1"]
      by (intro exI [of _ "length ?pre"] exI [of _ 9]) (simp only: add.assoc append_Cons append_Nil simp_thms)
  next
    case False
    have t: "strstr_pos ?tail (34 # ?p @ [34]) = Some 2" by (simp add: ascii_def)
    have "takeWhile (\<lambda>b. b \<noteq> 34) (m @ ?tail) = m" using takeWhile_stop [OF m(1)] by simp
    moreover have "takeWhile (\<lambda>b. b \<noteq> 34) (?p @ 34 # z) = ?p" for z by (rule takeWhile_stop [OF p8(2)])
    ultimately have ne: "take 8 ([34] @ m @ ?tail) \<noteq> 34 # ?p @ [34]"
      using False append_take_drop_id [of 8 "[34] @ m @ ?tail"]
      by (metis append.assoc append_Cons append_Nil list.inject)
    have "length (34 # ?p @ [34]) = 8" by (simp add: p8)
    from strstr_step [of "34 # ?p @ [34]" 34 "m @ ?tail", unfolded this] ne
    have "strstr_pos ([34] @ m @ ?tail) (34 # ?p @ [34]) = map_option Suc (strstr_pos (m @ ?tail) (34 # ?p @ [34]))"
      by (simp only: append_Cons append_Nil simp_thms)
    moreover have "strstr_pos (m @ ?tail) (34 # ?p @ [34]) = Some (2 + length m)"
      unfolding strstr_no_head [OF m(1)] t by simp
    ultimately have "strstr_pos ([34] @ m @ ?tail) (34 # ?p @ [34]) = Some (3 + length m)" by simp
    then have "strstr_pos (http_call k m params) (34 # ?p @ [34]) = Some (length ?pre + (3 + length m))"
      unfolding call pre by simp
    moreover have "drop (length ([34] @ m) + 10) (([34] @ m) @ ?tail) = 58 # ?v"
      by (subst drop_length_plus) (simp add: ascii_def)
    then have "drop (3 + length m + 8) ([34] @ m @ ?tail) = 58 # ?v" by (simp del: drop_append)
    ultimately have e: "strstr_pos (http_call k m params) (34 # ?p @ [34]) = Some (length ?pre + (3 + length m))"
      "drop (length ?pre + (3 + length m) + 8) (http_call k m params) = 58 # ?v"
      using drops [of "3 + length m + 8"] by (simp_all only: add.assoc)
    then have "drop (length ?pre + (3 + length m) + 8 + 0 + 1) (http_call k m params) = ?v"
      by (intro drop_next)
    with e show ?thesis
      by (intro exI [of _ "length ?pre + (3 + length m)"] exI [of _ 0]) (simp only: find_chr.simps if_True append_Cons append_Nil simp_thms)
  qed
qed

lemma http_params_extracted:
  assumes "k < 2147483648" "34 \<notin> set m" "0 \<notin> set m" "34 \<notin> set params" "0 \<notin> set params"
  shows "http_extract_rpc_params (http_call k m params) 512 = (if length params < 512 then Some params else None)"
proof -
  obtain i j where f: "strstr_pos (http_call k m params) (34 # ascii ''params'' @ [34]) = Some i"
    "find_chr (drop (i + 8) (http_call k m params)) 58 = Some j"
    "drop (i + 8 + j + 1) (http_call k m params) = 34 # params @ [34, 125]"
    using http_params_found [OF assms(2,3)] by blast
  have key: "ascii [CHR 0x22] @ ascii ''params'' @ ascii [CHR 0x22] = 34 # ascii ''params'' @ [34]" by (simp add: ascii_def)
  have v: "find_chr (params @ [34, 125]) 34 = Some (length params)"
    using assms(4,5) by (intro find_chr_hit) (simp add: plain_def)
  show ?thesis
    unfolding http_extract_rpc_params_def cstr_free [OF http_call_plain [OF assms(1,3,5)]] Let_def key f option.case
    using v by (simp add: not_less)
qed

lemma http_hex_decode_to_hex: "http_hex_decode n (to_hex bs) = take n bs"
proof (induction bs arbitrary: n)
  case Nil
  then show ?case by simp
next
  case (Cons b bs)
  show ?case
    using Cons nibble(2,5) [OF nibble_range(1), of b] nibble(5) [OF nibble_range(2), of b]
    by (cases n) (simp_all add: hex2_def scan_hhx_def scan_hex2_hex2)
qed

lemma http_polling_body:
  assumes "poll_task s" "s_polling_running s" "init_ok r" "perform r = ESP_OK" "status r = 200"
    and "captured r = body" "body \<noteq> []" "rpc_id_of_body body = Some k"
  shows "http_polling_turn c now True alloc room r s = http_handle_rpc c now alloc room body k
    (http_online INTERNET_STATUS_ONLINE ((http_emit [HttpGet (poll_url (http_cfg s))] s)\<lparr>s_http_server_connected := True\<rparr>))"
  using assms by (simp add: http_polling_turn_def http_poll_rpc_def Let_def)

text \<open>
  A command in a call is forwarded as it was sent. A reply that is a new call with the
  hexadecimal text of some bytes as its parameter, whatever its method and however the reply is cut into
  pieces, gives these bytes to the command task, terminated and marked with their type and
  the source, but for \<open>CF\<close> of \<open>CFML\<close>, which is taken off; provided they are at most 255, their type is known, there is
  memory, and there is room for the command. In every other case nothing is forwarded; the call is in flight all the same.
\<close>

lemma http_command_forwarded:
  fixes s :: http_st and r :: http_reply and alloc room :: bool and bs :: "u8 list" and c now :: u32
  assumes polled: "poll_task s" "s_polling_running s" "init_ok r" "perform r = ESP_OK" "status r = 200" "\<not> chunked r"
    and body: "concat (pieces_of_body r) = http_call k m (to_hex bs)" "length (http_call k m (to_hex bs)) \<le> 2047"
    and call: "k < 2147483648" "34 \<notin> set m" "0 \<notin> set m" and new: "rpc_new c now (int k) s"
  defines "cmd \<equiv> remap_cfml bs" and "s' \<equiv> http_polling_turn c now True alloc room r s"
  shows "http_outs s' = http_outs s @ HttpGet (poll_url (http_cfg s)) #
      (if length bs \<le> 255 \<and> config_parse_type cmd (word_of_nat (length cmd)) \<noteq> CONFIG_TYPE_UNKNOWN \<and>
         alloc \<and> room \<and> handler_queue (hgw s)
       then [HttpCommand \<lparr>cc_type = config_parse_type cmd (word_of_nat (length cmd)),
               raw_data = cmd @ 0 # zeros (16383 - length cmd), data_len = word_of_nat (length cmd),
               cc_source = CMD_SOURCE_HTTP_RPC, cc_waiter = None\<rparr>]
       else []) \<and> s_processing_rpc_id s' = int k \<and> s_last_rpc_id s' = int k"
proof -
  let ?h = "to_hex bs" and ?b = "http_call k m (to_hex bs)"
  let ?s2 = "http_online INTERNET_STATUS_ONLINE ((http_emit [HttpGet (poll_url (http_cfg s))] s)\<lparr>s_http_server_connected := True\<rparr>)"
  have "captured r = ?b" unfolding captured_body [OF polled(6)] body(1) by (rule take_all [OF body(2)])
  moreover have "?b \<noteq> []" by (simp add: http_call_def)
  ultimately have s': "s' = http_handle_rpc c now alloc room ?b (int k) ?s2"
    unfolding s'_def by (intro http_polling_body polled http_call_id call to_hex_plain) simp_all
  have n: "rpc_new c now (int k) ?s2" using new rpc_ids_new [of ?s2 s c now "int k"] by simp
  have x: "http_extract_rpc_params ?b 512 = (if length bs \<le> 255 then Some ?h else None)"
    using http_params_extracted [OF call to_hex_plain(2,1)] by auto
  have "length cmd \<le> length bs" by (simp add: cmd_def remap_cfml_def)
  moreover have "length bs \<le> 255 \<Longrightarrow> remap_cfml (http_hex_decode 256 ?h) = cmd" by (simp add: http_hex_decode_to_hex cmd_def)
  ultimately show ?thesis
    using n x raw_short [of cmd]
    by (auto simp: s' http_handle_rpc_def http_forward_def make_command_def fill_array_string http_emit_def http_online_def Let_def)
qed

section \<open>Answers\<close>

text \<open>Reading a JSON string up to its closing quote: the text and what follows it.\<close>

fun json_read :: "u8 list \<Rightarrow> (u8 list \<times> u8 list) option" where
  "json_read [] = None"
| "json_read (c # cs) =
     (if c = 34 then Some ([], cs)
      else if c < 0x20 then None
      else if c = 92
      then case cs of
          [] \<Rightarrow> None
        | e # r \<Rightarrow>
            if e = 110 \<or> e = 34 \<or> e = 92
            then map_option (\<lambda>(t, z). ((if e = 110 then 10 else e) # t, z)) (json_read r) else None
      else map_option (\<lambda>(t, z). (c # t, z)) (json_read cs))"

lemma json_read_escape:
  "json_read (json_escape d @ 34 # r) =
     Some (map (\<lambda>b. if b = 0x1E then 10 else b) (filter (\<lambda>b. b \<ge> 0x20 \<or> b = 0x1E) d), r)"
  by (induction d) (auto simp: not_le)

lemma json_escape_length: "length (json_escape d) \<le> 2 * length d"
  by (induction d) auto

lemma result_payload_length: "length (result_payload d) \<le> 1023"
  by (auto simp: result_payload_def Let_def)

text \<open>
  The answer to a call can be read back. The message that is taken from the queue while a call
  is open is posted to the address of that call, as a complete JSON object: nothing of it is cut by the buffer, its
  string ends at the last quote, and read back it is the payload, its record separators as
  line ends, and without the other control characters. The payload is the message up to its 1023rd byte, without the
  name and the time in front of it where it comes from a Bluetooth radio.
\<close>

lemma http_answer_readable:
  fixes s :: http_st and r :: http_reply and q :: "u8 list list"
  assumes "publish_task s" "s_task_running s \<and> \<not> s_answering s" "s_last_rpc_id s \<ge> 0" "g_http_publish_queue s = Some (d # q)" "d \<noteq> []" "init_ok r"
  defines "s' \<equiv> http_publish_turn True r s"
    and "head \<equiv> ascii [CHR 0x7B, CHR 0x22] @ ascii ''result'' @ ascii [CHR 0x22, CHR 0x3A, CHR 0x22]"
  shows "\<exists>e. http_outs s' = http_outs s @ [HttpPost (rpc_url (http_cfg s) (s_last_rpc_id s)) (head @ e @ ascii [CHR 0x22, CHR 0x7D])] \<and>
    json_read (e @ ascii [CHR 0x22, CHR 0x7D]) =
      Some (map (\<lambda>b. if b = 0x1E then 10 else b) (filter (\<lambda>b. b \<ge> 0x20 \<or> b = 0x1E) (result_payload d)), ascii [CHR 0x7D]) \<and>
    s_last_rpc_id s' = -1 \<and> g_http_publish_queue s' = Some q"
proof -
  let ?e = "json_escape (result_payload d)"
  have "length ?e \<le> 2046" using json_escape_length [of "result_payload d"] result_payload_length [of d] by simp
  then have j: "response_json d = head @ ?e @ ascii [CHR 0x22, CHR 0x7D]"
    by (simp add: response_json_def json_string_def head_def ascii_def)
  have s': "s' = http_answer_rpc (init_ok r) d (s\<lparr>g_http_publish_queue := Some q\<rparr>)"
    using assms(1-5) by (simp add: s'_def http_publish_turn_def)
  have "json_read (?e @ ascii [CHR 0x22, CHR 0x7D]) =
      Some (map (\<lambda>b. if b = 0x1E then 10 else b) (filter (\<lambda>b. b \<ge> 0x20 \<or> b = 0x1E) (result_payload d)), ascii [CHR 0x7D])"
    using json_read_escape by (simp add: ascii_def)
  then show ?thesis
    using assms(6) by (intro exI [of _ ?e]) (simp add: s' j http_answer_rpc_def http_emit_def Let_def)
qed

section \<open>The port of the calls\<close>

definition http_rpc_command :: "u8 list \<Rightarrow> config_command" where
  "http_rpc_command d = fst (make_command (config_parse_type d (word_of_nat (length d))) d CMD_SOURCE_HTTP_RPC)"

interpretation http_port: command_port http_rpc_command 255
proof (unfold_locales, goal_cases)
  case (1 d)
  then show ?case using raw_short [of d] by (auto simp: http_rpc_command_def make_command_def fill_array_string)
qed (simp_all add: http_rpc_command_def make_command_def fill_array_string)

section \<open>At work\<close>

definition demo_http_st :: http_st where
  "demo_http_st = \<lparr>g_http_publish_queue = Some [[1, 34, 65, 0x1E]], publish_task = True, poll_task = True, s_task_running = True, s_polling_running = True,
     s_http_server_connected = False, s_answering = False, s_last_rpc_id = -1, s_processing_rpc_id = -1, s_cooldown_rpc_id = -1,
     s_cooldown_rpc_ts = 0, hgw = demo_task, http_outs = []\<rparr>"

definition demo_reply :: "u8 list \<Rightarrow> http_reply" where
  "demo_reply b = \<lparr>init_ok = True, perform = ESP_OK, status = 200, chunked = False, pieces_of_body = [take 9 b, drop 9 b]\<rparr>"

definition demo_call :: "u8 list" where
  "demo_call = http_call 3 (ascii ''set'') (to_hex (ascii ''CFML:1''))"

lemma demo_call_captured: "captured (demo_reply demo_call) = demo_call" "rpc_id_of_body demo_call = Some 3" "demo_call \<noteq> []"
  by code_simp+

definition demo_rounds :: "http_event list" where
  "demo_rounds = [EvPoll 6 True True False (demo_reply demo_call), EvPublish True (demo_reply []), EvAnswered (demo_reply []) 7,
     EvPoll 9 True True False (demo_reply demo_call), EvPoll 1600 True True False (demo_reply demo_call)]"

lemma demo_log: "run_log 1500 demo_rounds (http_step 1500 (EvPoll 5 True True False (demo_reply demo_call)) demo_http_st) = [Ack 7, Accept 3 1600]"
  by code_simp

lemma demo_first: "call_log 1500 (EvPoll 5 True True False (demo_reply demo_call)) demo_http_st = [Accept 3 5]"
  by code_simp

theorem http_call_taken_again_witness:
  "let s1 = http_step 1500 (EvPoll 5 True True False (demo_reply demo_call)) demo_http_st
   in \<exists>t0. run_log 1500 demo_rounds s1 = [Ack t0, Accept 3 1600] \<and> 1500 \<le> 1600 - t0"
  using http_call_taken_again [OF _ demo_first, of demo_rounds "[Ack 7]" 1600] demo_log by (auto simp: Let_def)

text \<open>A call 4 that is taken while the answer to call 3 is being posted, and answered at once, is taken a second time one tick after its answer.\<close>

definition demo_call4 :: "u8 list" where
  "demo_call4 = http_call 4 (ascii ''set'') (to_hex (ascii ''CFML:1''))"

lemma http_call_taken_at_once:
  "run_log 1500 [EvPoll 5 True True False (demo_reply demo_call), EvPublish True (demo_reply []),
      EvPoll 6 True True False (demo_reply demo_call4), EvAnswered (demo_reply []) 7,
      EvEnqueue False [65], EvPublish True (demo_reply []), EvAnswered (demo_reply []) 8,
      EvPoll 9 True True False (demo_reply demo_call4)] demo_http_st =
    [Accept 3 5, Accept 4 6, Ack 7, Ack 8, Accept 4 9]"
  by code_simp

definition demo_http :: http_config_data where
  "demo_http = http_defaults\<lparr>hp_server_url := arr 256 (ascii ''http://s/api/v1/'' @ ascii [CHR 0x7B] @ ascii ''token'' @ ascii [CHR 0x7D] @ ascii ''/telemetry''),
     hp_auth_token := arr 128 (ascii ''T7'')\<rparr>"

lemma http_addresses_exact_applied:
  "poll_url demo_http = ascii ''http://s/api/v1/T7/rpc?timeout=20000'' \<and> rpc_url demo_http 5 = ascii ''http://s/api/v1/T7/rpc/5''"
proof -
  have five: "dec_digits 5 = ''5''" by code_simp
  have d: "http_ok demo_http" "cstr (hp_auth_token demo_http) = ascii ''T7''"
    "cstr (hp_server_url demo_http) = ascii ''http://s/api/v1/'' @ ascii [CHR 0x7B] @ ascii ''token'' @ ascii [CHR 0x7D] @ ascii ''/telemetry''"
    "strstr_pos (cstr (hp_server_url demo_http)) (ascii [CHR 0x7B] @ ascii ''token'' @ ascii [CHR 0x7D]) = Some 16"
    "strstr_pos (build_url (hp_server_url demo_http) (hp_auth_token demo_http) 512) (ascii ''/telemetry'') = Some 18"
    by code_simp+
  show ?thesis
    using http_addresses_exact [OF d(1,4,5), of 5] d(2,3) five by (simp add: ascii_def)
qed

lemma http_command_forwarded_applied:
  "http_outs (http_polling_turn 1500 5 True True True (demo_reply demo_call) demo_http_st) =
    [HttpGet (poll_url (http_cfg demo_http_st)),
     HttpCommand \<lparr>cc_type = config_parse_type (ascii ''ML:1'') 4, raw_data = ascii ''ML:1'' @ 0 # zeros 16379, data_len = 4,
       cc_source = CMD_SOURCE_HTTP_RPC, cc_waiter = None\<rparr>]"
proof -
  have c: "remap_cfml (ascii ''CFML:1'') = ascii ''ML:1''" "config_parse_type (ascii ''ML:1'') 4 \<noteq> CONFIG_TYPE_UNKNOWN"
    "length (ascii ''CFML:1'') = 6" "length (ascii ''ML:1'') = 4" "34 \<notin> set (ascii ''set'')" "0 \<notin> set (ascii ''set'')"
    "length demo_call \<le> 2047" "rpc_new 1500 5 3 demo_http_st"
    by code_simp+
  have r: "init_ok (demo_reply demo_call)" "perform (demo_reply demo_call) = ESP_OK" "status (demo_reply demo_call) = 200"
    "\<not> chunked (demo_reply demo_call)" "concat (pieces_of_body (demo_reply demo_call)) = demo_call"
    by (simp_all add: demo_reply_def)
  have s: "poll_task demo_http_st" "s_polling_running demo_http_st" "handler_queue (hgw demo_http_st)" "http_outs demo_http_st = []"
    by (simp_all add: demo_http_st_def demo_task_def)
  show ?thesis
    using http_command_forwarded [where k = 3 and m = "ascii ''set''" and bs = "ascii ''CFML:1''" and r = "demo_reply demo_call" and
      s = demo_http_st and c = 1500 and now = 5 and alloc = True and room = True, folded demo_call_def,
      OF s(1,2) r c(7) _ c(5,6)] c s
    by simp
qed

lemma http_answer_readable_applied:
  "\<exists>b. http_outs (http_publish_turn True (demo_reply []) (demo_http_st\<lparr>s_last_rpc_id := 3\<rparr>)) =
      [HttpPost (rpc_url (http_cfg demo_http_st) 3) (ascii [CHR 0x7B, CHR 0x22] @ ascii ''result'' @ ascii [CHR 0x22, CHR 0x3A, CHR 0x22] @ b @ ascii [CHR 0x22, CHR 0x7D])] \<and>
      json_read (b @ ascii [CHR 0x22, CHR 0x7D]) = Some ([34, 65, 10], ascii [CHR 0x7D])"
proof -
  have f: "map (\<lambda>b. if b = 0x1E then 10 else b) (filter (\<lambda>b. b \<ge> 0x20 \<or> b = 0x1E) (result_payload [1, 34, 65, 0x1E])) = [34, 65, 10 :: u8]"
    by code_simp
  let ?s = "demo_http_st\<lparr>s_last_rpc_id := 3\<rparr>"
  have s: "publish_task ?s" "s_task_running ?s \<and> \<not> s_answering ?s" "s_last_rpc_id ?s \<ge> 0" "g_http_publish_queue ?s = Some [[1, 34, 65, 0x1E]]"
    "init_ok (demo_reply [])" "http_outs ?s = []" "s_last_rpc_id ?s = 3"
    by (simp_all add: demo_http_st_def demo_reply_def)
  show ?thesis using http_answer_readable [OF s(1-4) _ s(5)] unfolding f s(6,7) by auto
qed

section \<open>The queue\<close>

definition http_message :: "http_st \<Rightarrow> u8 list \<Rightarrow> http_out list" where
  "http_message s d =
     [HttpPost (build_url (hp_server_url (http_cfg s)) (hp_auth_token (http_cfg s)) 512) (http_telemetry_json d)]"

lemma http_post_message:
  assumes "init_ok r"
  shows "http_outs (snd (http_post_payload r (http_telemetry_json d) s)) = http_outs s @ http_message s d"
    "g_http_publish_queue (snd (http_post_payload r b s)) = g_http_publish_queue s"
    "publish_task (snd (http_post_payload r b s)) = publish_task s"
    "s_task_running (snd (http_post_payload r b s)) = s_task_running s"
    "s_last_rpc_id (snd (http_post_payload r b s)) = s_last_rpc_id s"
    "s_answering (snd (http_post_payload r b s)) = s_answering s"
    "http_cfg (snd (http_post_payload r b s)) = http_cfg s"
  using assms by (simp_all add: http_post_payload_def http_message_def http_online_def http_emit_def Let_def)

text \<open>A message is posted as telemetry, whatever becomes of the request, while no call is open or being answered.\<close>

interpretation http_queue: telemetry_port g_http_publish_queue http_enqueue_telemetry "\<lambda>r. http_publish_turn True r"
  "\<lambda>s. publish_task s \<and> s_task_running s \<and> s_last_rpc_id s < 0 \<and> \<not> s_answering s" "\<lambda>r. init_ok r" http_outs http_message
proof (unfold_locales, goal_cases)
  case (6 s r d q)
  have t: "http_publish_turn True r s = snd (http_post_payload r (http_telemetry_json d) (s\<lparr>g_http_publish_queue := Some q\<rparr>))"
    using 6 by (simp add: http_publish_turn_def)
  show ?case using 6 by (simp add: t http_post_message http_message_def [abs_def])
qed (auto simp: http_enqueue_telemetry_def http_message_def [abs_def] split: option.split)

lemma http_json_exact: "http_telemetry_json d = [123] @ json_string ''data'' (to_hex (take 2047 d)) @ [125]"
  using hex_loop_to_hex [of 4096 "[]" 0 "take 2048 d"] by (simp add: http_telemetry_json_def json_string_def ascii_def)

end
