(* ===== verification/Coap_Client.thy ===== *)
theory Coap_Client
  imports Http_Client
begin

text \<open>
  \<open>Application/Server_Communication_Handler/coap_handler/src/coap_handler.c\<close>: the CoAP client. One
  task posts the queued messages, and posts them again as answers to the last remote procedure
  call; the other asks for calls with an observing GET and forwards their commands.

  The library libcoap is outside. A request that was handed to it is an element of \<open>coap_outs\<close>; how far it got is the input
  \<open>coap_exchange\<close>; responses and rejections arrive at the handlers of the code as steps of their own. Both tasks wait in the middle of
  their work, the polling task for notifications, the publishing task for the response to a POST. A step ends where a task begins to wait
  (\<open>co_waiting\<close>, \<open>co_post\<close>) and a new one begins where the wait is over, so arrivals for both and
  the steps of the other task fall in between, in any order. The payload of a response is staged in a buffer of
  512 bytes that both tasks' responses share. A new configuration comes from the command task.

  The properties: every message is posted unchanged, in full and in order, and while a call is open also as the answer to it; of
  the payloads of one wait exactly the last is looked at, and its command forwarded as it was sent; a repeated call is not carried out
  twice in a row; the paths are the configured ones.
\<close>

section \<open>State\<close>

abbreviation "COAP_JSON_PAYLOAD_CAP \<equiv> PUBLISH_MAX_LEN * 2 + 128"
abbreviation "COAP_RPC_POLL_INTERVAL_DEFAULT_MS \<equiv> 200 :: u32"

record coap_peer =
  peer_host :: "u8 list"
  peer_port :: u16
  peer_dtls :: bool

datatype coap_out =
    CoapPost coap_peer "u8 list list" "u8 list"   \<comment> \<open>Uri-Path options, payload\<close>
  | CoapObserve coap_peer "u8 list list"          \<comment> \<open>GET with Observe: 0\<close>
  | CoapCommand config_command                    \<comment> \<open>sent to g_config_handler_queue\<close>

datatype coap_arrival =
    CoapResponse nat "u8 list"                    \<comment> \<open>class of the code, payload\<close>
  | CoapNack

record coap_exchange =
  resolved :: bool                                \<comment> \<open>getaddrinfo\<close>
  context_ok :: bool
  session_ok :: bool
  pdu_ok :: bool
  send_ok :: bool

text \<open>The POST in whose wait the publishing task is: with what follows it, the path and the body.\<close>

datatype coap_post = PostTelemetry "u8 list" "u8 list" | PostAnswer

record coap_st =
  g_coap_publish_queue :: "u8 list list option"
  co_publish_task :: bool                         \<comment> \<open>the task exists\<close>
  co_poll_task :: bool
  co_task_running :: bool
  co_polling_running :: bool
  s_coap_server_connected :: bool
  co_last_rpc_id :: int
  s_rpc_payload_buf :: "u8 list"
  s_rpc_payload_ready :: bool
  co_waiting :: bool                              \<comment> \<open>the polling task waits for notifications\<close>
  co_post :: "coap_post option"
  co_responded :: bool                            \<comment> \<open>response_received of the POST\<close>
  cgw :: task_st
  coap_outs :: "coap_out list"

definition coap_emit :: "coap_out list \<Rightarrow> coap_st \<Rightarrow> coap_st" where
  "coap_emit os s = s\<lparr>coap_outs := coap_outs s @ os\<rparr>"

definition coap_online :: "internet_status \<Rightarrow> coap_st \<Rightarrow> coap_st" where
  "coap_online st s = s\<lparr>cgw := (cgw s)\<lparr>lan := mcu_lan_handler_set_internet_status st (lan (cgw s))\<rparr>\<rparr>"

abbreviation coap_cfg :: "coap_st \<Rightarrow> coap_config_data" where
  "coap_cfg s \<equiv> g_coap_cfg (cfg (cgw s))"

definition coap_peer_of :: "coap_config_data \<Rightarrow> coap_peer" where
  "coap_peer_of c = \<lparr>peer_host = cstr (cp_host c), peer_port = cp_port c, peer_dtls = cp_use_dtls c\<rparr>"

section \<open>Paths\<close>

definition build_resource_path :: "u8 list \<Rightarrow> u8 list \<Rightarrow> nat \<Rightarrow> u8 list" where
  "build_resource_path path_template token out_size =
     (let path = cstr path_template; placeholder = ascii [CHR 0x7B] @ ascii ''token'' @ ascii [CHR 0x7D]
      in case strstr_pos path placeholder of
           None \<Rightarrow> take (out_size - 1) path
         | Some before \<Rightarrow>
             let out1 = take (min before (out_size - 1)) path;
                 out2 = out1 @ take (out_size - length out1 - 1) (cstr token)
             in out2 @ take (out_size - length out2 - 1) (drop (before + length placeholder) path))"

text \<open>The tokens \<open>strtok\<close> gives one after the other.\<close>

fun strtok :: "u8 \<Rightarrow> u8 list \<Rightarrow> u8 list \<Rightarrow> u8 list list" where
  "strtok c acc [] = (if acc = [] then [] else [acc])"
| "strtok c acc (b # bs) =
     (if b = c then (if acc = [] then strtok c [] bs else acc # strtok c [] bs)
      else strtok c (acc @ [b]) bs)"

definition path_segments :: "u8 list \<Rightarrow> u8 list list" where
  "path_segments resource_path = strtok 47 [] (take 255 resource_path)"

definition coap_telemetry_path :: "coap_config_data \<Rightarrow> u8 list" where
  "coap_telemetry_path c = build_resource_path (cp_resource_path c) (cp_device_token c) 256"

definition coap_poll_path :: "coap_config_data \<Rightarrow> u8 list" where
  "coap_poll_path c =
     (case replace_telemetry (coap_telemetry_path c) (ascii ''/rpc'') of
        Some p \<Rightarrow> p
      | None \<Rightarrow> take 255 (coap_telemetry_path c @ ascii ''/rpc''))"

definition answer_path :: "u8 list \<Rightarrow> int \<Rightarrow> u8 list" where
  "answer_path telem_path rpc_id =
     (case replace_telemetry (take 255 telem_path) (ascii ''/rpc/'' @ ascii (dec_digits (nat rpc_id))) of
        Some p \<Rightarrow> take 255 p
      | None \<Rightarrow> take 255 telem_path)"

definition coap_answer_path :: "coap_config_data \<Rightarrow> int \<Rightarrow> u8 list" where
  "coap_answer_path c rpc_id = answer_path (coap_telemetry_path c) rpc_id"

section \<open>Exchanges\<close>

definition coap_response_handler :: "nat \<Rightarrow> u8 list \<Rightarrow> coap_st \<Rightarrow> coap_st" where
  "coap_response_handler cls dat s =
     (let s1 = s\<lparr>s_coap_server_connected := True\<rparr>
      in if cls \<noteq> 2 then s1
         else
           let s2 = coap_online INTERNET_STATUS_ONLINE s1
           in if length dat > 0 \<and> length dat < 511
              then s2\<lparr>s_rpc_payload_buf := dat @ 0 # drop (length dat + 1) (s_rpc_payload_buf s2),
                      s_rpc_payload_ready := True\<rparr>
              else s2)"

definition coap_nack_handler :: "coap_st \<Rightarrow> coap_st" where
  "coap_nack_handler s = s\<lparr>s_coap_server_connected := False\<rparr>"

text \<open>What arrives for a POST is the business of its context, which is gone after the wait.\<close>

definition coap_post_arrival :: "coap_arrival \<Rightarrow> coap_st \<Rightarrow> coap_st" where
  "coap_post_arrival a s =
     (if co_post s = None then s
      else (case a of CoapResponse cls dat \<Rightarrow> coap_response_handler cls dat s | CoapNack \<Rightarrow> coap_nack_handler s)
             \<lparr>co_responded := True\<rparr>)"

text \<open>\<open>coap_post_to_resource\<close> up to its wait, and from the end of the wait.\<close>

definition coap_post_to_resource :: "coap_exchange \<Rightarrow> u8 list \<Rightarrow> u8 list \<Rightarrow> coap_st \<Rightarrow> esp_err \<times> coap_st" where
  "coap_post_to_resource x resource_path body s =
     (if \<not> resolved x then (ESP_FAIL, coap_online INTERNET_STATUS_OFFLINE s)
      else if \<not> context_ok x then (ESP_FAIL, s)
      else if \<not> session_ok x then (ESP_FAIL, s)
      else if \<not> pdu_ok x then (ESP_FAIL, s)
      else if \<not> send_ok x
      then (ESP_FAIL, coap_online INTERNET_STATUS_OFFLINE (s\<lparr>s_coap_server_connected := False\<rparr>))
      else (ESP_OK, coap_emit [CoapPost (coap_peer_of (coap_cfg s)) (path_segments resource_path) body]
              (s\<lparr>co_responded := False\<rparr>)))"

definition coap_post_wait_over :: "coap_st \<Rightarrow> coap_st" where
  "coap_post_wait_over s =
     coap_online INTERNET_STATUS_ONLINE (if co_responded s then s else s\<lparr>s_coap_server_connected := False\<rparr>)"

section \<open>Publishing\<close>

definition coap_json :: "u8 list \<Rightarrow> u8 list" where
  "coap_json dat =
     take (COAP_JSON_PAYLOAD_CAP - 1)
       (hex_loop COAP_JSON_PAYLOAD_CAP (take PUBLISH_MAX_LEN dat) ([123, 34] @ ascii ''data'' @ [34, 58, 34]) @ [34, 125])"

text \<open>The turn of the publishing task, from wait to wait: it takes a message and posts it as telemetry; with that behind
  it, failed or not, it posts it as an answer.\<close>

definition coap_answer_turn :: "coap_exchange \<Rightarrow> u8 list \<Rightarrow> u8 list \<Rightarrow> coap_st \<Rightarrow> coap_st" where
  "coap_answer_turn x telem_path json s =
     (if co_last_rpc_id s \<ge> 0
      then let (rc, s1) = coap_post_to_resource x (answer_path telem_path (co_last_rpc_id s)) json s
           in s1\<lparr>co_post := (if rc = ESP_OK then Some PostAnswer else None)\<rparr>
      else s\<lparr>co_post := None\<rparr>)"

definition coap_publish_turn :: "coap_exchange \<Rightarrow> coap_exchange \<Rightarrow> coap_st \<Rightarrow> coap_st" where
  "coap_publish_turn x1 x2 s =
     (if \<not> co_publish_task s \<or> co_post s \<noteq> None then s
      else if \<not> co_task_running s then s\<lparr>co_publish_task := False\<rparr>
      else case g_coap_publish_queue s of
        Some (item # q) \<Rightarrow>
          let s1 = s\<lparr>g_coap_publish_queue := Some q\<rparr>
          in if length item = 0 then s1
             else
               let json = coap_json item; telem_path = coap_telemetry_path (coap_cfg s1);
                   (rc, s2) = coap_post_to_resource x1 telem_path json s1
               in if rc = ESP_OK then s2\<lparr>co_post := Some (PostTelemetry telem_path json)\<rparr>
                  else coap_answer_turn x2 telem_path json s2
      | _ \<Rightarrow> s)"

definition coap_post_done :: "coap_exchange \<Rightarrow> coap_st \<Rightarrow> coap_st" where
  "coap_post_done x2 s =
     (case co_post s of
        None \<Rightarrow> s
      | Some (PostTelemetry telem_path json) \<Rightarrow> coap_answer_turn x2 telem_path json (coap_post_wait_over s)
      | Some PostAnswer \<Rightarrow> (coap_post_wait_over s)\<lparr>co_post := None\<rparr>)"

text \<open>A whole turn, when no step of the other task falls into it: the two exchanges, each with what
  arrives until its wait is over.\<close>

type_synonym coap_turn_input = "(coap_exchange \<times> coap_arrival list) \<times> coap_exchange \<times> coap_arrival list"

definition coap_publish_whole :: "coap_turn_input \<Rightarrow> coap_st \<Rightarrow> coap_st" where
  "coap_publish_whole e s = (case e of ((x1, as1), (x2, as2)) \<Rightarrow>
     coap_post_done x2 (fold coap_post_arrival as2
       (coap_post_done x2 (fold coap_post_arrival as1 (coap_publish_turn x1 x2 s)))))"

definition coap_enqueue_telemetry :: "bool \<Rightarrow> u8 list option \<Rightarrow> coap_st \<Rightarrow> bool \<times> coap_st" where
  "coap_enqueue_telemetry room dat s =
     (case (dat, g_coap_publish_queue s) of
        (Some d, Some q) \<Rightarrow>
          if length d = 0 then (False, s)
          else if length q < PUBLISH_QUEUE_DEPTH \<or> room
          then (True, s\<lparr>g_coap_publish_queue := Some (q @ [take PUBLISH_MAX_LEN d])\<rparr>)
          else (False, s)
      | _ \<Rightarrow> (False, s))"

section \<open>Polling for calls\<close>

text \<open>\<open>strtol\<close> on a string of two characters, base 16, the low byte of the result.\<close>

definition strtol_hex2 :: "u8 \<Rightarrow> u8 \<Rightarrow> u8" where
  "strtol_hex2 a b = (case scan_hex2 a b of Some v \<Rightarrow> v | None \<Rightarrow> 0)"

fun coap_hex_decode :: "nat \<Rightarrow> u8 list \<Rightarrow> u8 list" where
  "coap_hex_decode (Suc n) (a # b # s) = strtol_hex2 a b # coap_hex_decode n s"
| "coap_hex_decode _ _ = []"

text \<open>\<open>cmd_buf\<close> has 256 bytes, zero at first; what is compared with \<open>CF\<close> are its first two.\<close>

definition coap_command_text :: "u8 list \<Rightarrow> u8 list" where
  "coap_command_text params =
     (let cmd_buf = coap_hex_decode 255 params
      in if byte_at cmd_buf 0 = 67 \<and> byte_at cmd_buf 1 = 70 then drop 2 cmd_buf else cmd_buf)"

definition coap_params :: "u8 list \<Rightarrow> nat \<Rightarrow> u8 list option" where
  "coap_params text params_pos =
     (let p = dropWhile (\<lambda>b. b = 32 \<or> b = 34) (drop (params_pos + 9) text)
      in map_option (\<lambda>n. take n p) (find_chr p 34))"

definition coap_forward :: "bool \<Rightarrow> bool \<Rightarrow> u8 list \<Rightarrow> coap_st \<Rightarrow> coap_st" where
  "coap_forward alloc room cmd_data s =
     (let t = config_parse_type cmd_data (word_of_nat (length cmd_data))
      in if t \<noteq> CONFIG_TYPE_UNKNOWN \<and> handler_queue (cgw s) \<and> alloc \<and> room
         then coap_emit [CoapCommand (fst (make_command t cmd_data CMD_SOURCE_COAP))] s
         else s)"

definition coap_rpc_id :: "u8 list \<Rightarrow> int option" where
  "coap_rpc_id text =
     map_option (\<lambda>i. atoi (drop (i + 5) text)) (strstr_pos text ([34] @ ascii ''id'' @ [34, 58]))"

definition coap_handle_rpc :: "bool \<Rightarrow> bool \<Rightarrow> coap_st \<Rightarrow> coap_st" where
  "coap_handle_rpc alloc room s =
     (let text = cstr (s_rpc_payload_buf s);
          params_pos = strstr_pos text ([34] @ ascii ''params'' @ [34, 58]);
          rpc_id = (case coap_rpc_id text of None \<Rightarrow> -1 | Some k \<Rightarrow> k)
      in if rpc_id \<ge> 0 \<and> rpc_id = co_last_rpc_id s then s\<lparr>s_rpc_payload_buf := zeros 512\<rparr>
         else
           let s1 = (if coap_rpc_id text \<noteq> None then s\<lparr>co_last_rpc_id := rpc_id\<rparr> else s)
           in case params_pos of
                None \<Rightarrow> s1
              | Some i \<Rightarrow> (case coap_params text i of
                    None \<Rightarrow> s1
                  | Some params \<Rightarrow> coap_forward alloc room (coap_command_text params) s1))"

text \<open>The polling context has a handler for responses only.\<close>

definition coap_poll_arrival :: "coap_arrival \<Rightarrow> coap_st \<Rightarrow> coap_st" where
  "coap_poll_arrival a s =
     (if \<not> co_waiting s then s
      else case a of CoapResponse cls dat \<Rightarrow> coap_response_handler cls dat s | CoapNack \<Rightarrow> s)"

text \<open>\<open>coap_poll_rpc\<close> up to its wait of two seconds, and from the end of the wait.\<close>

definition coap_poll_rpc :: "coap_exchange \<Rightarrow> coap_st \<Rightarrow> esp_err \<times> coap_st" where
  "coap_poll_rpc x s =
     (if \<not> resolved x then (ESP_FAIL, coap_online INTERNET_STATUS_OFFLINE s)
      else if \<not> context_ok x then (ESP_FAIL, s)
      else if \<not> session_ok x then (ESP_FAIL, s)
      else if \<not> pdu_ok x then (ESP_FAIL, s)
      else
        let s1 = s\<lparr>s_rpc_payload_ready := False\<rparr>
        in if \<not> send_ok x then (ESP_FAIL, coap_online INTERNET_STATUS_OFFLINE s1)
           else (ESP_OK, coap_emit [CoapObserve (coap_peer_of (coap_cfg s)) (path_segments (coap_poll_path (coap_cfg s)))]
                   (s1\<lparr>co_waiting := True\<rparr>)))"

definition coap_poll_done :: "bool \<Rightarrow> bool \<Rightarrow> coap_st \<Rightarrow> coap_st" where
  "coap_poll_done alloc room s0 =
     (if \<not> co_waiting s0 then s0
      else
        let s = s0\<lparr>co_waiting := False\<rparr>
        in if s_rpc_payload_ready s then coap_handle_rpc alloc room (s\<lparr>s_rpc_payload_ready := False\<rparr>) else s)"

definition coap_polling_turn :: "coap_exchange \<Rightarrow> coap_st \<Rightarrow> coap_st" where
  "coap_polling_turn x s =
     (if \<not> co_poll_task s \<or> co_waiting s then s
      else if co_polling_running s then snd (coap_poll_rpc x s)
      else s\<lparr>co_poll_task := False\<rparr>)"

definition coap_poll_interval_ms :: "coap_st \<Rightarrow> u32" where
  "coap_poll_interval_ms s =
     (if cp_rpc_poll_interval_ms (coap_cfg s) > 0 then cp_rpc_poll_interval_ms (coap_cfg s)
      else COAP_RPC_POLL_INTERVAL_DEFAULT_MS)"

section \<open>Start and stop\<close>

definition coap_handler_task_start :: "bool \<Rightarrow> bool \<Rightarrow> bool \<Rightarrow> bool \<Rightarrow> coap_st \<Rightarrow> coap_st" where
  "coap_handler_task_start queue_ok pub_ok buffers_ok poll_ok s =
     (if co_task_running s then s
      else if g_coap_publish_queue s = None \<and> \<not> queue_ok then s
      else s\<lparr>g_coap_publish_queue := (case g_coap_publish_queue s of None \<Rightarrow> Some [] | q \<Rightarrow> q),
             s_coap_server_connected := False, co_task_running := True,
             co_publish_task := co_publish_task s \<or> pub_ok \<and> buffers_ok, co_polling_running := True,
             co_poll_task := co_poll_task s \<or> poll_ok\<rparr>)"

definition coap_handler_task_stop :: "coap_st \<Rightarrow> coap_st" where
  "coap_handler_task_stop s =
     s\<lparr>co_task_running := False, co_polling_running := False, s_coap_server_connected := False,
       g_coap_publish_queue := None\<rparr>"

definition coap_handler_is_connected :: "coap_st \<Rightarrow> bool" where
  "coap_handler_is_connected s = s_coap_server_connected s"

section \<open>The queue\<close>

definition coap_message :: "coap_st \<Rightarrow> u8 list \<Rightarrow> coap_out list" where
  "coap_message s d =
     CoapPost (coap_peer_of (coap_cfg s)) (path_segments (coap_telemetry_path (coap_cfg s))) (coap_json d) #
     (if co_last_rpc_id s \<ge> 0
      then [CoapPost (coap_peer_of (coap_cfg s)) (path_segments (coap_answer_path (coap_cfg s) (co_last_rpc_id s))) (coap_json d)]
      else [])"

definition coap_delivered :: "coap_exchange \<Rightarrow> bool" where
  "coap_delivered x \<longleftrightarrow> resolved x \<and> context_ok x \<and> session_ok x \<and> pdu_ok x \<and> send_ok x"

text \<open>What an arrival leaves alone.\<close>

definition coap_core :: "coap_st \<Rightarrow> _" where
  "coap_core s = (g_coap_publish_queue s, co_publish_task s, co_task_running s, co_poll_task s, co_polling_running s,
     co_last_rpc_id s, cfg (cgw s), handler_queue (cgw s), co_waiting s, co_post s)"

lemma coap_core_simps [simp]:
  "coap_core (coap_online st s) = coap_core s" "coap_core (coap_emit os s) = coap_core s"
  "coap_core (coap_response_handler cls dat s) = coap_core s" "coap_core (coap_nack_handler s) = coap_core s"
  "coap_core (s\<lparr>s_coap_server_connected := b\<rparr>) = coap_core s" "coap_core (s\<lparr>s_rpc_payload_ready := b\<rparr>) = coap_core s"
  "coap_core (s\<lparr>co_responded := b\<rparr>) = coap_core s"
  "coap_outs (coap_online st s) = coap_outs s" "coap_outs (coap_response_handler cls dat s) = coap_outs s"
  "coap_outs (coap_nack_handler s) = coap_outs s" "coap_outs (coap_emit os s) = coap_outs s @ os"
  by (simp_all add: coap_core_def coap_online_def coap_emit_def coap_response_handler_def coap_nack_handler_def Let_def)

lemma coap_arrival [simp]:
  "coap_core (coap_post_arrival a s) = coap_core s" "coap_outs (coap_post_arrival a s) = coap_outs s"
  "coap_core (coap_poll_arrival a s) = coap_core s" "coap_outs (coap_poll_arrival a s) = coap_outs s"
  "coap_core (coap_post_wait_over s) = coap_core s" "coap_outs (coap_post_wait_over s) = coap_outs s"
  by (simp_all add: coap_post_arrival_def coap_poll_arrival_def coap_post_wait_over_def split: coap_arrival.split)

lemma coap_arrivals [simp]:
  "coap_core (fold coap_post_arrival as s) = coap_core s" "coap_outs (fold coap_post_arrival as s) = coap_outs s"
  by (induction as arbitrary: s) simp_all

lemma coap_post_effect:
  "coap_core (snd (coap_post_to_resource x p b s)) = coap_core s"
  "coap_delivered x \<Longrightarrow> fst (coap_post_to_resource x p b s) = ESP_OK"
  "coap_delivered x \<Longrightarrow> coap_outs (snd (coap_post_to_resource x p b s)) =
     coap_outs s @ [CoapPost (coap_peer_of (coap_cfg s)) (path_segments p) b]"
  by (auto simp: coap_post_to_resource_def coap_delivered_def)

lemma coap_core_fields:
  assumes "coap_core s = coap_core s'"
  shows "g_coap_publish_queue s = g_coap_publish_queue s'" "co_publish_task s = co_publish_task s'"
    "co_task_running s = co_task_running s'" "co_last_rpc_id s = co_last_rpc_id s'" "coap_cfg s = coap_cfg s'"
    "co_poll_task s = co_poll_task s'" "co_polling_running s = co_polling_running s'" "handler_queue (cgw s) = handler_queue (cgw s')"
    "co_waiting s = co_waiting s'" "co_post s = co_post s'"
  using assms by (simp_all add: coap_core_def)

text \<open>A POST that gets as far as sending, then the answer, each from wait to wait.\<close>

lemma core_post: "coap_core s = coap_core s' \<Longrightarrow> coap_core (s\<lparr>co_post := p\<rparr>) = coap_core (s'\<lparr>co_post := p\<rparr>)"
  by (simp add: coap_core_def)

lemma coap_telemetry_sent:
  assumes "co_publish_task s" "co_task_running s" "co_post s = None" "g_coap_publish_queue s = Some (d # q)" "d \<noteq> []"
    and "coap_delivered x1"
  defines "telem \<equiv> coap_telemetry_path (coap_cfg s)"
  shows "coap_core (coap_publish_turn x1 x2 s) =
      coap_core (s\<lparr>g_coap_publish_queue := Some q, co_post := Some (PostTelemetry telem (coap_json d))\<rparr>)"
    "coap_outs (coap_publish_turn x1 x2 s) =
      coap_outs s @ [CoapPost (coap_peer_of (coap_cfg s)) (path_segments telem) (coap_json d)]"
proof -
  let ?s1 = "s\<lparr>g_coap_publish_queue := Some q\<rparr>"
  obtain s2 where p: "coap_post_to_resource x1 telem (coap_json d) ?s1 = (ESP_OK, s2)"
    using coap_post_effect(2) [OF assms(6), of telem "coap_json d" ?s1] by (metis prod.collapse)
  then have e: "coap_core s2 = coap_core ?s1" "coap_outs s2 = coap_outs s @ [CoapPost (coap_peer_of (coap_cfg s)) (path_segments telem) (coap_json d)]"
    using coap_post_effect(1,3) [of x1 telem "coap_json d" ?s1] assms(6) by simp_all
  have t: "coap_publish_turn x1 x2 s = s2\<lparr>co_post := Some (PostTelemetry telem (coap_json d))\<rparr>"
    using assms(1-5) p by (simp add: coap_publish_turn_def telem_def)
  show "coap_core (coap_publish_turn x1 x2 s) =
      coap_core (s\<lparr>g_coap_publish_queue := Some q, co_post := Some (PostTelemetry telem (coap_json d))\<rparr>)"
    using core_post [OF e(1)] by (simp add: t)
  show "coap_outs (coap_publish_turn x1 x2 s) =
      coap_outs s @ [CoapPost (coap_peer_of (coap_cfg s)) (path_segments telem) (coap_json d)]"
    using e(2) by (simp add: t)
qed

lemma coap_answer_sent:
  assumes "coap_delivered x"
  shows "coap_core (coap_answer_turn x telem json s) =
      coap_core (s\<lparr>co_post := (if co_last_rpc_id s \<ge> 0 then Some PostAnswer else None)\<rparr>)"
    "coap_outs (coap_answer_turn x telem json s) = coap_outs s @
      (if co_last_rpc_id s \<ge> 0
       then [CoapPost (coap_peer_of (coap_cfg s)) (path_segments (answer_path telem (co_last_rpc_id s))) json] else [])"
  using core_post [OF coap_post_effect(1)] coap_post_effect(2,3) [OF assms]
  by (simp_all add: coap_answer_turn_def case_prod_beta)

lemma coap_post_over:
  "co_post s = None \<Longrightarrow> coap_post_done x s = s"
  "co_post s = Some PostAnswer \<Longrightarrow> coap_core (coap_post_done x s) = coap_core (s\<lparr>co_post := None\<rparr>)"
  "co_post s = Some PostAnswer \<Longrightarrow> coap_outs (coap_post_done x s) = coap_outs s"
  "co_post s = Some (PostTelemetry telem json) \<Longrightarrow> coap_post_done x s = coap_answer_turn x telem json (coap_post_wait_over s)"
  using core_post [of "coap_post_wait_over s" s None] by (simp_all add: coap_post_done_def)

lemma coap_turn_item:
  assumes "co_publish_task s" "co_task_running s" "co_post s = None" "g_coap_publish_queue s = Some (d # q)" "d \<noteq> []"
    "coap_delivered x1" "coap_delivered x2"
  shows "coap_core (coap_publish_whole ((x1, as1), (x2, as2)) s) = coap_core (s\<lparr>g_coap_publish_queue := Some q\<rparr>) \<and>
    coap_outs (coap_publish_whole ((x1, as1), (x2, as2)) s) = coap_outs s @ coap_message s d"
proof -
  let ?t = "coap_telemetry_path (coap_cfg s)" and ?j = "coap_json d"
  let ?s1 = "fold coap_post_arrival as1 (coap_publish_turn x1 x2 s)"
  let ?s2 = "fold coap_post_arrival as2 (coap_post_done x2 ?s1)"
  note sent = coap_telemetry_sent [OF assms(1-6), of x2]
  have c1: "coap_core ?s1 = coap_core (s\<lparr>g_coap_publish_queue := Some q, co_post := Some (PostTelemetry ?t ?j)\<rparr>)"
    by (simp add: sent(1))
  note f1 = coap_core_fields [OF c1]
  have d1: "coap_post_done x2 ?s1 = coap_answer_turn x2 ?t ?j (coap_post_wait_over ?s1)"
    by (rule coap_post_over(4)) (simp add: f1(10))
  have w: "coap_core (coap_post_wait_over ?s1) = coap_core ?s1" by simp
  note fw = coap_core_fields [OF w]
  have c2: "coap_core ?s2 = coap_core (s\<lparr>g_coap_publish_queue := Some q, co_post := (if co_last_rpc_id s \<ge> 0 then Some PostAnswer else None)\<rparr>)"
    unfolding coap_arrivals(1) d1 coap_answer_sent(1) [OF assms(7)] fw(4)
    using core_post [OF w] core_post [OF c1] f1(4) by simp
  have o2: "coap_outs ?s2 = coap_outs s @ coap_message s d"
    unfolding coap_arrivals(2) d1 coap_answer_sent(2) [OF assms(7)] fw(4,5)
    using sent(2) f1(4,5) by (simp add: coap_message_def coap_answer_path_def)
  note f2 = coap_core_fields [OF c2]
  have none: "s\<lparr>g_coap_publish_queue := Some q, co_post := None\<rparr> = s\<lparr>g_coap_publish_queue := Some q\<rparr>" using assms(3) by simp
  have "coap_core (coap_post_done x2 ?s2) = coap_core (s\<lparr>g_coap_publish_queue := Some q\<rparr>) \<and>
      coap_outs (coap_post_done x2 ?s2) = coap_outs ?s2"
  proof (cases "co_last_rpc_id s \<ge> 0")
    case True
    then have p: "co_post ?s2 = Some PostAnswer" unfolding f2(10) by simp
    show ?thesis
      unfolding coap_post_over(2,3) [OF p] core_post [OF c2] using none by simp
  next
    case False
    then have p: "co_post ?s2 = None" unfolding f2(10) by simp
    show ?thesis
      unfolding coap_post_over(1) [OF p] c2 using none False by simp
  qed
  then show ?thesis unfolding coap_publish_whole_def prod.case o2 by blast
qed

text \<open>A message is posted whatever the server answers, if the exchanges get as far as sending.\<close>

interpretation coap_queue: telemetry_port g_coap_publish_queue coap_enqueue_telemetry coap_publish_whole
  "\<lambda>s. co_publish_task s \<and> co_task_running s \<and> co_post s = None" "\<lambda>((x1, as1), (x2, as2)). coap_delivered x1 \<and> coap_delivered x2"
  coap_outs coap_message
proof (unfold_locales, goal_cases)
  case (6 s e d q)
  obtain x1 as1 x2 as2 where e: "e = ((x1, as1), (x2, as2))" by (cases e) auto
  have t: "coap_core (coap_publish_whole e s) = coap_core (s\<lparr>g_coap_publish_queue := Some q\<rparr>)"
    "coap_outs (coap_publish_whole e s) = coap_outs s @ coap_message s d"
    using coap_turn_item [of s d q x1 x2 as1 as2] 6 by (simp_all add: e)
  show ?case using t(2) coap_core_fields [OF t(1)] 6 by (simp add: coap_message_def [abs_def] cong: if_cong)
qed (auto simp: coap_enqueue_telemetry_def coap_message_def [abs_def] split: option.split)

lemma coap_json_exact: "coap_json d = [123] @ json_string ''data'' (to_hex (take 2048 d)) @ [125]"
proof -
  have l: "length (take 2048 d) \<le> 2048" by simp
  then show ?thesis
    using hex_loop_short [of "[123, 34] @ ascii ''data'' @ [34, 58, 34]" "take 2048 d" COAP_JSON_PAYLOAD_CAP]
    by (simp add: coap_json_def json_string_def ascii_def)
qed

text \<open>Only the end of a poll changes the identifier of the open call.\<close>

lemma coap_id_kept:
  "co_last_rpc_id (snd (coap_post_to_resource x p b s)) = co_last_rpc_id s"
  "co_last_rpc_id (coap_post_arrival a s) = co_last_rpc_id s"
  "co_last_rpc_id (fold coap_post_arrival as s) = co_last_rpc_id s"
  "co_last_rpc_id (coap_post_wait_over s) = co_last_rpc_id s"
  by (rule coap_core_fields(4), simp add: coap_post_effect(1))+

lemma coap_id_turns:
  "co_last_rpc_id (coap_answer_turn x telem json s) = co_last_rpc_id s"
  "co_last_rpc_id (coap_publish_turn x1 x2 s) = co_last_rpc_id s"
  "co_last_rpc_id (coap_post_done x2 s) = co_last_rpc_id s"
  "co_last_rpc_id (snd (coap_enqueue_telemetry room d s)) = co_last_rpc_id s"
proof -
  show a: "co_last_rpc_id (coap_answer_turn x telem json s) = co_last_rpc_id s" for x telem json s
    by (simp add: coap_answer_turn_def case_prod_beta coap_id_kept)
  show "co_last_rpc_id (coap_publish_turn x1 x2 s) = co_last_rpc_id s"
    by (auto simp: coap_publish_turn_def case_prod_beta coap_id_kept a Let_def split: option.split list.split)
  show "co_last_rpc_id (coap_post_done x2 s) = co_last_rpc_id s"
    by (auto simp: coap_post_done_def coap_id_kept a split: option.split coap_post.split)
  show "co_last_rpc_id (snd (coap_enqueue_telemetry room d s)) = co_last_rpc_id s"
    by (auto simp: coap_enqueue_telemetry_def split: option.split)
qed

lemma coap_id_runs:
  "co_last_rpc_id (fold coap_publish_whole xs s) = co_last_rpc_id s"
  "co_last_rpc_id (fold (\<lambda>d s. snd (coap_enqueue_telemetry room (Some d) s)) ds s) = co_last_rpc_id s"
proof -
  show "co_last_rpc_id (fold coap_publish_whole xs s) = co_last_rpc_id s"
    by (induction xs arbitrary: s) (simp_all add: coap_publish_whole_def coap_id_turns coap_id_kept case_prod_beta)
  show "co_last_rpc_id (fold (\<lambda>d s. snd (coap_enqueue_telemetry room (Some d) s)) ds s) = co_last_rpc_id s"
    by (induction ds arbitrary: s) (simp_all add: coap_id_turns)
qed

text \<open>
  C28. Telemetry over CoAP is complete and in order, and while a call is open each message is also an answer to it. From an empty
  queue, with the publishing task between two turns, up to 32 messages are posted one by one in the order they came, as hexadecimal text
  that decodes to the message, up to its 2048th byte, provided both exchanges of each turn get as far as sending and no poll
  falls between the turns. If the identifier of the last call is not negative, each message is posted a
  second time, to the address of that call's answer. No number of answers closes the call: the identifier is the same after the messages as before.
\<close>

theorem coap_telemetry_exact:
  fixes s :: coap_st and ds :: "u8 list list" and room :: bool and xs :: "coap_turn_input list"
  assumes "co_publish_task s" "co_task_running s" "co_post s = None" "g_coap_publish_queue s = Some []"
    and ds: "length ds \<le> PUBLISH_QUEUE_DEPTH" "\<forall>d \<in> set ds. d \<noteq> []"
    and xs: "length xs = length ds" "\<forall>((x1, as1), (x2, as2)) \<in> set xs. coap_delivered x1 \<and> coap_delivered x2"
  defines "s' \<equiv> fold coap_publish_whole xs (fold (\<lambda>d s. snd (coap_enqueue_telemetry room (Some d) s)) ds s)"
    and "post \<equiv> \<lambda>p hex. CoapPost (coap_peer_of (coap_cfg s)) (path_segments p) ([123] @ json_string ''data'' hex @ [125])"
  shows "\<exists>hex. coap_outs s' = coap_outs s @ concat (map (\<lambda>d. post (coap_telemetry_path (coap_cfg s)) (hex d) #
      (if co_last_rpc_id s \<ge> 0 then [post (coap_answer_path (coap_cfg s) (co_last_rpc_id s)) (hex d)] else [])) ds) \<and>
    (\<forall>d. hex_decode 4096 (hex d) = take 2048 d) \<and> g_coap_publish_queue s' = Some [] \<and> co_last_rpc_id s' = co_last_rpc_id s"
proof -
  have "list_all (\<lambda>((x1, as1), (x2, as2)). coap_delivered x1 \<and> coap_delivered x2) xs" using xs(2) by (auto simp: list_all_iff)
  then have "coap_outs s' = coap_outs s @ concat (map (\<lambda>d. coap_message s (take PUBLISH_MAX_LEN d)) ds) \<and>
      g_coap_publish_queue s' = Some []"
    using coap_queue.in_order [of s ds xs room] assms(1-4) ds xs(1) by (simp add: s'_def coap_queue.put_def)
  then show ?thesis
    by (intro exI [of _ "\<lambda>d. to_hex (take 2048 d)"])
      (simp add: coap_message_def coap_json_exact post_def hex_decode_to_hex coap_id_runs s'_def cong: if_cong)
qed

section \<open>Paths\<close>

definition path_of :: "u8 list list \<Rightarrow> u8 list" where
  "path_of segs = concat (map (Cons 47) segs)"

lemma strtok_seg: "c \<notin> set x \<Longrightarrow> strtok c acc (x @ r) = strtok c (acc @ x) r"
  by (induction x arbitrary: acc) auto

lemma strtok_path_rest:
  assumes "\<forall>x \<in> set segs. x \<noteq> [] \<and> 47 \<notin> set x" "acc \<noteq> []"
  shows "strtok 47 acc (path_of segs) = acc # segs"
  using assms
proof (induction segs arbitrary: acc)
  case (Cons x xs)
  then show ?case by (simp add: path_of_def strtok_seg)
qed (simp add: path_of_def)

lemma strtok_path:
  assumes "\<forall>x \<in> set segs. x \<noteq> [] \<and> 47 \<notin> set x"
  shows "strtok 47 [] (path_of segs) = segs"
proof (cases segs)
  case (Cons x xs)
  then have "strtok 47 x (path_of xs) = x # xs" using assms by (intro strtok_path_rest) auto
  then show ?thesis using Cons assms by (simp add: path_of_def strtok_seg)
qed (simp add: path_of_def)

lemma path_of_simps [simp]: "path_of [] = []" "path_of (x # xs) = 47 # x @ path_of xs" "path_of (xs @ ys) = path_of xs @ path_of ys"
  by (simp_all add: path_of_def)

text \<open>
  The requests go to the configured resource. For a configured path that ends in the placeholder
  for the token and \<open>telemetry\<close>, telemetry is posted to the path with the token in its place, calls are asked for
  at \<open>rpc\<close> in the place of \<open>telemetry\<close>, and the call \<open>k\<close> is answered at \<open>rpc/k\<close>, as
  the segments of the path in order, none lost to a buffer: the longest path fits into its 256 bytes.
\<close>

lemma coap_paths_exact:
  fixes c :: coap_config_data and segs :: "u8 list list"
  defines "token \<equiv> cstr (cp_device_token c)" and "slot \<equiv> ascii [CHR 0x7B] @ ascii ''token'' @ ascii [CHR 0x7D]"
  assumes ok: "coap_ok c" and path: "cstr (cp_resource_path c) = path_of (segs @ [slot, ascii ''telemetry''])"
    and segs: "\<forall>x \<in> set (segs @ [token]). x \<noteq> [] \<and> 47 \<notin> set x"
    and i: "strstr_pos (path_of (segs @ [slot, ascii ''telemetry''])) slot = Some (Suc (length (path_of segs)))"
    and j: "strstr_pos (path_of (segs @ [token, ascii ''telemetry''])) (ascii ''/telemetry'') = Some (length (path_of (segs @ [token])))"
    and k: "k < 2147483648"
  shows "path_segments (coap_telemetry_path c) = segs @ [token, ascii ''telemetry''] \<and>
    path_segments (coap_poll_path c) = segs @ [token, ascii ''rpc''] \<and>
    path_segments (coap_answer_path c (int k)) = segs @ [token, ascii ''rpc'', ascii (dec_digits k)]"
proof -
  let ?p = "path_of (segs @ [token])" and ?tel = "ascii ''/telemetry''"
  have tel: "?tel = 47 # ascii ''telemetry''" "length ?tel = 10" by (simp_all add: ascii_def)
  have slot: "length slot = 7" by (simp add: slot_def ascii_def)
  have "length (cstr (cp_resource_path c)) \<le> 128" "length token \<le> 65"
    using ok by (auto simp: coap_ok_def c_array_def token_def cstr_def intro: order_trans [OF length_takeWhile_le])
  then have l: "length (path_of segs) + 18 \<le> 128" "length token \<le> 65"
    unfolding path using tel slot by simp_all
  have t: "coap_telemetry_path c = ?p @ ?tel"
  proof -
    have "path_of (segs @ [slot, ascii ''telemetry'']) = (path_of segs @ [47]) @ slot @ ?tel" by (simp add: tel)
    then have d: "drop (Suc (length (path_of segs)) + 7) (path_of (segs @ [slot, ascii ''telemetry''])) = ?tel"
      "take (Suc (length (path_of segs))) (path_of (segs @ [slot, ascii ''telemetry''])) = path_of segs @ [47]"
      using slot by simp_all
    show ?thesis
      unfolding coap_telemetry_path_def build_resource_path_def path slot_def [symmetric] Let_def i option.case slot d
      using l d(2) tel(2) by (simp add: token_def [symmetric] min_def)
  qed
  have lp: "length ?p \<le> 176" using l by simp
  have full: "take 255 (?p @ x) = ?p @ x" if "length x \<le> 70" for x using lp that by simp
  have r: "replace_telemetry (?p @ ?tel) x = Some (?p @ x)" for x
    using j by (simp add: replace_telemetry_def tel)
  have dig: "length (ascii (dec_digits k)) \<le> 10" "ascii (dec_digits k) \<noteq> []" "47 \<notin> set (ascii (dec_digits k))"
    using digits_short [OF k] dec_digits_props [of k 0] by (auto simp: is_digit_def ascii_def)
  have seg: "path_segments (path_of ys) = ys" if "\<forall>x \<in> set ys. x \<noteq> [] \<and> 47 \<notin> set x" "length (path_of ys) \<le> 255" for ys
    using strtok_path [OF that(1)] that(2) by (simp add: path_segments_def)
  have w: "ascii ''telemetry'' \<noteq> []" "47 \<notin> set (ascii ''telemetry'')" "ascii ''rpc'' \<noteq> []" "47 \<notin> set (ascii ''rpc'')"
    "length (ascii ''telemetry'') = 9" "length (ascii ''rpc'') = 3" "ascii ''/rpc'' = 47 # ascii ''rpc''"
    "ascii ''/rpc/'' = 47 # ascii ''rpc'' @ [47]"
    by (simp_all add: ascii_def)
  have "coap_poll_path c = path_of (segs @ [token, ascii ''rpc''])"
    unfolding coap_poll_path_def t r option.case by (simp add: w)
  moreover have f: "take 255 (?p @ ?tel) = ?p @ ?tel"
    "take 255 (?p @ ascii ''/rpc/'' @ ascii (dec_digits k)) = ?p @ ascii ''/rpc/'' @ ascii (dec_digits k)"
    using dig(1) by (intro full; simp add: tel w)+
  moreover have "coap_answer_path c (int k) = path_of (segs @ [token, ascii ''rpc'', ascii (dec_digits k)])"
    unfolding coap_answer_path_def answer_path_def t f(1) r option.case nat_int f(2) by (simp add: w)
  moreover have "coap_telemetry_path c = path_of (segs @ [token, ascii ''telemetry''])" by (simp add: t tel)
  moreover have "path_segments (path_of (segs @ [token, ascii ''telemetry''])) = segs @ [token, ascii ''telemetry'']"
    "path_segments (path_of (segs @ [token, ascii ''rpc''])) = segs @ [token, ascii ''rpc'']"
    "path_segments (path_of (segs @ [token, ascii ''rpc'', ascii (dec_digits k)])) = segs @ [token, ascii ''rpc'', ascii (dec_digits k)]"
    using segs dig w l by (intro seg; auto)+
  ultimately show ?thesis by (simp only: simp_thms)
qed

section \<open>Calls\<close>

text \<open>A key in a text of quoted strings: searching for \<open>"w":\<close> goes from quote to quote.\<close>

lemma quoted_skip:
  assumes "34 \<notin> set x" "34 \<notin> set w" "x \<noteq> w \<or> take 1 z \<noteq> [58]"
  shows "strstr_pos (34 # x @ 34 # z) (34 # w @ [34, 58]) = map_option (\<lambda>i. i + Suc (length x)) (strstr_pos (34 # z) (34 # w @ [34, 58]))"
proof -
  have "take (length (34 # w @ [34, 58])) (34 # x @ 34 # z) \<noteq> 34 # w @ [34, 58]"
  proof
    assume "take (length (34 # w @ [34, 58])) (34 # x @ 34 # z) = 34 # w @ [34, 58]"
    then obtain r where e: "x @ 34 # z = w @ 34 # 58 # r"
      by (metis append_take_drop_id append.assoc append_Cons append_Nil list.inject)
    from arg_cong [OF e, of "takeWhile (\<lambda>b. b \<noteq> 34)"] have "x = w"
      by (simp only: takeWhile_stop [OF assms(1)] takeWhile_stop [OF assms(2)])
    with e assms(3) show False by simp
  qed
  then have "strstr_pos (34 # x @ 34 # z) (34 # w @ [34, 58]) = map_option Suc (strstr_pos (x @ 34 # z) (34 # w @ [34, 58]))"
    by (rule strstr_step)
  then show ?thesis
    unfolding strstr_no_head [OF assms(1)] by (simp only: option.map_comp comp_def add_Suc_right)
qed

lemma quoted_hit: "strstr_pos (34 # w @ 34 # 58 # z) (34 # w @ [34, 58]) = Some 0"
  by simp

text \<open>The notification of a call as the server writes it.\<close>

definition coap_call :: "nat \<Rightarrow> u8 list \<Rightarrow> u8 list \<Rightarrow> u8 list" where
  "coap_call k m params = [123] @ json_string ''method'' m @ [44] @ json_string ''params'' params @ [44] @
     [34] @ ascii ''id'' @ [34, 58] @ ascii (dec_digits k) @ [125]"

lemma brace: "(123 :: u8) \<noteq> 34"
  by simp

lemma quoted_next:
  assumes "strstr_pos u (34 # w @ [34, 58]) = Some i" "u = 34 # z" "34 \<notin> set x" "34 \<notin> set w" "x \<noteq> w \<or> take 1 z \<noteq> [58]"
  shows "strstr_pos (34 # x @ u) (34 # w @ [34, 58]) = Some (i + Suc (length x))"
  using quoted_skip [OF assms(3-5)] assms(1,2) by simp

lemma coap_call_keys:
  assumes "34 \<notin> set m" "34 \<notin> set params"
  shows "strstr_pos (coap_call k m params) ([34] @ ascii ''params'' @ [34, 58]) = Some (13 + length m)"
    "strstr_pos (coap_call k m params) ([34] @ ascii ''id'' @ [34, 58]) = Some (25 + length m + length params)"
proof -
  let ?p = "ascii ''params''" and ?i = "ascii ''id''"
  let ?t9 = "34 # ?i @ 34 # 58 # ascii (dec_digits k) @ [125]"
  let ?t8 = "34 # [44] @ ?t9"
  let ?t7 = "34 # params @ ?t8"
  let ?t6 = "34 # [58] @ ?t7"
  let ?t5 = "34 # ?p @ ?t6"
  let ?t4 = "34 # [44] @ ?t5"
  let ?t3 = "34 # m @ ?t4"
  let ?t2 = "34 # [58] @ ?t3"
  let ?t1 = "34 # ascii ''method'' @ ?t2"
  have t: "coap_call k m params = 123 # ?t1" by (simp add: coap_call_def json_string_def)
  have w: "34 \<notin> set (ascii ''method'')" "34 \<notin> set ?p" "34 \<notin> set ?i" "34 \<notin> set [58 :: u8]" "34 \<notin> set [44 :: u8]"
    "ascii ''method'' \<noteq> ?p" "ascii ''method'' \<noteq> ?i" "?p \<noteq> ?i"
    "[58] \<noteq> ?p" "[58] \<noteq> ?i" "[44] \<noteq> ?p" "[44] \<noteq> ?i" "length (ascii ''method'') = 6" "length ?p = 6"
    by (simp_all add: ascii_def)
  have p5: "strstr_pos ?t5 (34 # ?p @ [34, 58]) = Some 0" using quoted_hit by simp
  note p4 = quoted_next [OF p5 refl w(5,2) disjI1 [OF w(11)]]
  have p3: "strstr_pos ?t3 (34 # ?p @ [34, 58]) = Some (0 + Suc (length [44 :: u8]) + Suc (length m))"
    by (rule quoted_next [OF p4 refl assms(1) w(2)]) simp
  note p2 = quoted_next [OF p3 refl w(4,2) disjI1 [OF w(9)]]
  note p1 = quoted_next [OF p2 refl w(1,2) disjI1 [OF w(6)]]
  show "strstr_pos (coap_call k m params) ([34] @ ?p @ [34, 58]) = Some (13 + length m)"
    unfolding t append_Cons append_Nil strstr_other [OF brace] p1 [unfolded append_Cons append_Nil] by (simp add: w)
  have i9: "strstr_pos ?t9 (34 # ?i @ [34, 58]) = Some 0" using quoted_hit by simp
  note i8 = quoted_next [OF i9 refl w(5,3) disjI1 [OF w(12)]]
  have i7: "strstr_pos ?t7 (34 # ?i @ [34, 58]) = Some (0 + Suc (length [44 :: u8]) + Suc (length params))"
    by (rule quoted_next [OF i8 refl assms(2) w(3)]) simp
  note i6 = quoted_next [OF i7 refl w(4,3) disjI1 [OF w(10)]]
  note i5 = quoted_next [OF i6 refl w(2,3) disjI1 [OF w(8)]]
  note i4 = quoted_next [OF i5 refl w(5,3) disjI1 [OF w(12)]]
  have i3: "strstr_pos ?t3 (34 # ?i @ [34, 58]) = Some (0 + Suc (length [44 :: u8]) + Suc (length params) + Suc (length [58 :: u8]) +
      Suc (length ?p) + Suc (length [44 :: u8]) + Suc (length m))"
    by (rule quoted_next [OF i4 refl assms(1) w(3)]) simp
  note i2 = quoted_next [OF i3 refl w(4,3) disjI1 [OF w(10)]]
  note i1 = quoted_next [OF i2 refl w(1,3) disjI1 [OF w(7)]]
  show "strstr_pos (coap_call k m params) ([34] @ ?i @ [34, 58]) = Some (25 + length m + length params)"
    unfolding t append_Cons append_Nil strstr_other [OF brace] i1 [unfolded append_Cons append_Nil] by (simp add: w)
qed

lemma coap_call_parts:
  assumes "k < 2147483648" "34 \<notin> set m" "34 \<notin> set params" "params \<noteq> []" "hd params \<noteq> 32" "0 \<notin> set params"
  shows "coap_rpc_id (coap_call k m params) = Some (int k)"
    "coap_params (coap_call k m params) (13 + length m) = Some params"
proof -
  let ?pre = "[123, 34] @ ascii ''method'' @ [34, 58, 34] @ m @ [34, 44]"
  let ?id = "ascii (dec_digits k) @ [125]"
  have a: "coap_call k m params = (?pre @ 34 # ascii ''params'' @ [34, 58]) @ 34 # params @ 34 # 44 # 34 # ascii ''id'' @ [34, 58] @ ?id"
    and b: "coap_call k m params = (?pre @ 34 # ascii ''params'' @ [34, 58, 34] @ params @ [34, 44, 34] @ ascii ''id'' @ [34, 58]) @ ?id"
    by (simp_all add: coap_call_def json_string_def)
  have l: "length (?pre @ 34 # ascii ''params'' @ [34, 58]) = 13 + length m + 9"
    "length (?pre @ 34 # ascii ''params'' @ [34, 58, 34] @ params @ [34, 44, 34] @ ascii ''id'' @ [34, 58]) = 25 + length m + length params + 5"
    by (simp_all add: ascii_def)
  have p: "drop (13 + length m + 9) (coap_call k m params) = 34 # params @ 34 # 44 # 34 # ascii ''id'' @ [34, 58] @ ?id"
    unfolding a l(1) [symmetric] by (rule append_eq_conv_conj [THEN iffD1, THEN conjunct2, OF refl, symmetric])
  have i: "drop (25 + length m + length params + 5) (coap_call k m params) = ?id"
    unfolding b l(2) [symmetric] by (rule append_eq_conv_conj [THEN iffD1, THEN conjunct2, OF refl, symmetric])
  have "\<not> is_digit 125" by (simp add: is_digit_def)
  from atoi_prefix [OF assms(1) this] show "coap_rpc_id (coap_call k m params) = Some (int k)"
    unfolding coap_rpc_id_def coap_call_keys(2) [OF assms(2,3)] option.map i by simp
  obtain c cs where c: "params = c # cs" "c \<noteq> 34" "c \<noteq> 32" using assms(3-5) by (cases params) auto
  have f: "find_chr (params @ 34 # 44 # z) 34 = Some (length params)" for z
    using assms(3,6) by (intro find_chr_hit) (simp add: plain_def)
  have "dropWhile (\<lambda>b. b = 32 \<or> b = 34) (34 # params @ z) = params @ z" for z using c by simp
  then show "coap_params (coap_call k m params) (13 + length m) = Some params"
    unfolding coap_params_def p by (simp only: Let_def f option.map) simp
qed

lemma coap_hex_decode_to_hex: "coap_hex_decode n (to_hex bs) = take n bs"
proof (induction bs arbitrary: n)
  case Nil
  show ?case by (cases n) simp_all
next
  case (Cons b bs)
  then show ?case by (cases n) (simp_all add: hex2_def strtol_hex2_def scan_hex2_hex2)
qed

text \<open>The staged payload of a notification that arrives alone.\<close>

lemma staged:
  assumes "0 \<notin> set d" "d \<noteq> []" "length d < 511"
  shows "s_rpc_payload_ready (coap_response_handler 2 d s)" "cstr (s_rpc_payload_buf (coap_response_handler 2 d s)) = d"
  using assms cstr_append [OF assms(1), of "0 # z" for z] by (simp_all add: coap_response_handler_def Let_def cstr_def)

definition coap_text :: "u8 list \<Rightarrow> u8 list" where
  "coap_text bs = (if take 2 bs = ascii ''CF'' then drop 2 bs else bs)"

lemma coap_command_text_hex: "length bs \<le> 255 \<Longrightarrow> coap_command_text (to_hex bs) = coap_text bs"
proof -
  assume l: "length bs \<le> 255"
  then have d: "coap_hex_decode 255 (to_hex bs) = bs" by (simp add: coap_hex_decode_to_hex)
  consider "bs = []" | a where "bs = [a]" | a b r where "bs = a # b # r" by (cases bs; cases "tl bs") auto
  then show ?thesis
    unfolding coap_command_text_def d by cases (auto simp: coap_text_def byte_at_def ascii_def Let_def)
qed

section \<open>The steps of the two tasks\<close>

datatype coap_event =
    CoapPoll coap_exchange
  | CoapPollArrival coap_arrival
  | CoapPollDone bool bool
  | CoapPublish coap_exchange coap_exchange
  | CoapPostArrival coap_arrival
  | CoapPostDone coap_exchange
  | CoapEnqueue bool "u8 list"

fun coap_step :: "coap_event \<Rightarrow> coap_st \<Rightarrow> coap_st" where
  "coap_step (CoapPoll x) s = coap_polling_turn x s"
| "coap_step (CoapPollArrival a) s = coap_poll_arrival a s"
| "coap_step (CoapPollDone alloc room) s = coap_poll_done alloc room s"
| "coap_step (CoapPublish x1 x2) s = coap_publish_turn x1 x2 s"
| "coap_step (CoapPostArrival a) s = coap_post_arrival a s"
| "coap_step (CoapPostDone x2) s = coap_post_done x2 s"
| "coap_step (CoapEnqueue room d) s = snd (coap_enqueue_telemetry room (Some d) s)"

fun coap_run :: "coap_event list \<Rightarrow> coap_st \<Rightarrow> coap_st" where
  "coap_run [] s = s"
| "coap_run (e # es) s = coap_run es (coap_step e s)"

lemma coap_run_append: "coap_run (es @ es') s = coap_run es' (coap_run es s)"
  by (induction es arbitrary: s) simp_all

fun coap_commands :: "coap_out list \<Rightarrow> config_command list" where
  "coap_commands [] = []"
| "coap_commands (CoapCommand c # os) = c # coap_commands os"
| "coap_commands (_ # os) = coap_commands os"

lemma coap_commands_append [simp]: "coap_commands (a @ b) = coap_commands a @ coap_commands b"
  by (induction a rule: coap_commands.induct) simp_all

text \<open>Steps that may fall into the wait of a poll: all but those of the polling task itself; and those that put a
  payload into the buffer: arrivals for either task.\<close>

fun in_wait :: "coap_event \<Rightarrow> bool" where
  "in_wait (CoapPoll x) = False"
| "in_wait (CoapPollDone alloc room) = False"
| "in_wait _ = True"

definition fills_buffer :: "coap_arrival \<Rightarrow> bool" where
  "fills_buffer a = (case a of CoapResponse cls d \<Rightarrow> cls = 2 \<and> d \<noteq> [] \<and> length d < 511 | CoapNack \<Rightarrow> False)"

fun stages :: "coap_event \<Rightarrow> bool" where
  "stages (CoapPollArrival a) = fills_buffer a"
| "stages (CoapPostArrival a) = fills_buffer a"
| "stages _ = False"

text \<open>What the polling task keeps through its wait: \<open>poll_view\<close>; and the buffer, which arrivals change.\<close>

definition poll_view :: "coap_st \<Rightarrow> bool \<times> int \<times> bool \<times> config_command list" where
  "poll_view s = (co_waiting s, co_last_rpc_id s, handler_queue (cgw s), coap_commands (coap_outs s))"

definition buffer_view :: "coap_st \<Rightarrow> bool \<times> u8 list" where
  "buffer_view s = (s_rpc_payload_ready s, s_rpc_payload_buf s)"

lemma poll_view_core: "coap_core s = coap_core s' \<Longrightarrow> coap_commands (coap_outs s) = coap_commands (coap_outs s') \<Longrightarrow> poll_view s = poll_view s'"
  by (simp add: poll_view_def coap_core_def)

lemma view_updates [simp]:
  "poll_view (s\<lparr>co_post := p\<rparr>) = poll_view s" "buffer_view (s\<lparr>co_post := p\<rparr>) = buffer_view s"
  "poll_view (s\<lparr>g_coap_publish_queue := q\<rparr>) = poll_view s" "buffer_view (s\<lparr>g_coap_publish_queue := q\<rparr>) = buffer_view s"
  "poll_view (s\<lparr>co_publish_task := b\<rparr>) = poll_view s" "buffer_view (s\<lparr>co_publish_task := b\<rparr>) = buffer_view s"
  "buffer_view (s\<lparr>co_responded := b\<rparr>) = buffer_view s" "buffer_view (s\<lparr>s_coap_server_connected := b\<rparr>) = buffer_view s"
  "buffer_view (coap_online st s) = buffer_view s" "buffer_view (coap_emit os s) = buffer_view s"
  "buffer_view (coap_nack_handler s) = buffer_view s"
  by (simp_all add: poll_view_def buffer_view_def coap_online_def coap_emit_def coap_nack_handler_def)

lemma post_views [simp]:
  "poll_view (snd (coap_post_to_resource x p b s)) = poll_view s"
  "buffer_view (snd (coap_post_to_resource x p b s)) = buffer_view s"
  "poll_view (coap_post_wait_over s) = poll_view s" "buffer_view (coap_post_wait_over s) = buffer_view s"
proof -
  show "poll_view (snd (coap_post_to_resource x p b s)) = poll_view s"
    by (rule poll_view_core [OF coap_post_effect(1)]) (simp add: coap_post_to_resource_def)
  show "poll_view (coap_post_wait_over s) = poll_view s" by (rule poll_view_core) simp_all
qed (simp_all add: coap_post_to_resource_def coap_post_wait_over_def)

lemma turn_views [simp]:
  "poll_view (coap_answer_turn x telem json s) = poll_view s" "buffer_view (coap_answer_turn x telem json s) = buffer_view s"
  "poll_view (coap_publish_turn x1 x2 s) = poll_view s" "buffer_view (coap_publish_turn x1 x2 s) = buffer_view s"
  "poll_view (coap_post_done x2 s) = poll_view s" "buffer_view (coap_post_done x2 s) = buffer_view s"
  "poll_view (snd (coap_enqueue_telemetry room d s)) = poll_view s"
  "buffer_view (snd (coap_enqueue_telemetry room d s)) = buffer_view s"
proof -
  show a: "poll_view (coap_answer_turn x telem json s) = poll_view s"
    "buffer_view (coap_answer_turn x telem json s) = buffer_view s" for x telem json s
    by (simp_all add: coap_answer_turn_def case_prod_beta)
  show "poll_view (coap_publish_turn x1 x2 s) = poll_view s" "buffer_view (coap_publish_turn x1 x2 s) = buffer_view s"
    by (auto simp: coap_publish_turn_def case_prod_beta a Let_def split: option.split list.split)
  show "poll_view (coap_post_done x2 s) = poll_view s" "buffer_view (coap_post_done x2 s) = buffer_view s"
    by (auto simp: coap_post_done_def a split: option.split coap_post.split)
  show "poll_view (snd (coap_enqueue_telemetry room d s)) = poll_view s"
    "buffer_view (snd (coap_enqueue_telemetry room d s)) = buffer_view s"
    by (auto simp: coap_enqueue_telemetry_def split: option.split)
qed

lemma arrival_views [simp]:
  "poll_view (coap_poll_arrival a s) = poll_view s" "poll_view (coap_post_arrival a s) = poll_view s"
  "\<not> fills_buffer a \<Longrightarrow> buffer_view (coap_poll_arrival a s) = buffer_view s"
  "\<not> fills_buffer a \<Longrightarrow> buffer_view (coap_post_arrival a s) = buffer_view s"
proof -
  show "poll_view (coap_poll_arrival a s) = poll_view s" "poll_view (coap_post_arrival a s) = poll_view s"
    by (rule poll_view_core, simp_all)+
  show "\<not> fills_buffer a \<Longrightarrow> buffer_view (coap_poll_arrival a s) = buffer_view s"
    "\<not> fills_buffer a \<Longrightarrow> buffer_view (coap_post_arrival a s) = buffer_view s"
    by (auto simp: coap_poll_arrival_def coap_post_arrival_def fills_buffer_def coap_response_handler_def Let_def split: coap_arrival.splits)
qed

lemma wait_step:
  assumes "in_wait e"
  shows "poll_view (coap_step e s) = poll_view s" "\<not> stages e \<Longrightarrow> buffer_view (coap_step e s) = buffer_view s"
  using assms by (cases e; simp)+

lemma wait_run:
  assumes "\<forall>e \<in> set es. in_wait e"
  shows "poll_view (coap_run es s) = poll_view s" "\<forall>e \<in> set es. \<not> stages e \<Longrightarrow> buffer_view (coap_run es s) = buffer_view s"
  using assms by (induction es arbitrary: s) (simp_all add: wait_step)

text \<open>
  C29. A command in a notification is forwarded as it was sent, if it is the last payload of the wait. A poll whose request is sent
  waits; of the payloads put into the staging buffer until it ends, be they notifications or responses to the POSTs of the
  other task, only the last is looked at, and the others are lost. When this is a notification in the
  server's format, which fits into the buffer, with any method and the hexadecimal text of some bytes as its parameter, these bytes, without a
  leading \<open>CF\<close>, go to the command task, terminated and marked with their type and the
  source, and nothing else goes there, unless the identifier is that of the call before; provided the type is known, there is memory, and
  there is room. No length limit of the decoding applies: what fits into the buffer is decoded in full.
\<close>

theorem coap_command_forwarded:
  fixes s :: coap_st and x :: coap_exchange and alloc room :: bool and bs m :: "u8 list"
  assumes polled: "co_poll_task s" "co_polling_running s" "\<not> co_waiting s" "coap_delivered x"
    and wait: "\<forall>e \<in> set before. in_wait e" "\<forall>e \<in> set after. in_wait e \<and> \<not> stages e"
    and fits: "length (coap_call k m (to_hex bs)) \<le> 510"
    and call: "k < 2147483648" "34 \<notin> set m" "0 \<notin> set m" "bs \<noteq> []"
  defines "cmd \<equiv> coap_text bs"
    and "s' \<equiv> coap_run ([CoapPoll x] @ before @ [CoapPollArrival (CoapResponse 2 (coap_call k m (to_hex bs)))] @ after @ [CoapPollDone alloc room]) s"
  shows "coap_outs (coap_polling_turn x s) =
      coap_outs s @ [CoapObserve (coap_peer_of (coap_cfg s)) (path_segments (coap_poll_path (coap_cfg s)))] \<and>
    coap_commands (coap_outs s') = coap_commands (coap_outs s) @
      (if int k \<noteq> co_last_rpc_id s \<and> config_parse_type cmd (word_of_nat (length cmd)) \<noteq> CONFIG_TYPE_UNKNOWN \<and>
         handler_queue (cgw s) \<and> alloc \<and> room
       then [\<lparr>cc_type = config_parse_type cmd (word_of_nat (length cmd)),
               raw_data = cmd @ 0 # zeros (16383 - length cmd), data_len = word_of_nat (length cmd),
               cc_source = CMD_SOURCE_COAP, cc_waiter = None\<rparr>]
       else []) \<and> co_last_rpc_id s' = int k"
proof -
  let ?h = "to_hex bs" and ?d = "coap_call k m (to_hex bs)"
  let ?s1 = "coap_polling_turn x s"
  let ?s2 = "coap_run before ?s1"
  let ?s3 = "coap_response_handler 2 ?d ?s2"
  let ?s4 = "coap_run after ?s3"
  let ?s5 = "?s4\<lparr>co_waiting := False, s_rpc_payload_ready := False\<rparr>"
  have s1: "?s1 = coap_emit [CoapObserve (coap_peer_of (coap_cfg s)) (path_segments (coap_poll_path (coap_cfg s)))]
      (s\<lparr>s_rpc_payload_ready := False, co_waiting := True\<rparr>)"
    using polled by (simp add: coap_polling_turn_def coap_poll_rpc_def coap_delivered_def)
  then have v1: "poll_view ?s1 = (True, co_last_rpc_id s, handler_queue (cgw s), coap_commands (coap_outs s))"
    by (simp add: poll_view_def coap_emit_def)
  have v2: "poll_view ?s2 = poll_view ?s1" by (rule wait_run(1) [OF wait(1)])
  then have w2: "co_waiting ?s2" unfolding v1 by (simp add: poll_view_def)
  have v3: "poll_view ?s3 = poll_view ?s2" by (rule poll_view_core) simp_all
  have in_wait: "\<forall>e \<in> set after. in_wait e" and silent: "\<forall>e \<in> set after. \<not> stages e" using wait(2) by auto
  have v4: "poll_view ?s4 = poll_view ?s3" by (rule wait_run(1) [OF in_wait])
  have b4: "buffer_view ?s4 = buffer_view ?s3" by (rule wait_run(2) [OF in_wait silent])
  have h: "?h \<noteq> []" "hd ?h \<noteq> 32"
    using call(4) nibble(2) [OF nibble_range(1)] by (cases bs; simp add: hex2_def)+
  note parts = coap_call_parts [OF call(1,2) to_hex_plain(2) h to_hex_plain(1)]
  have len: "length bs \<le> 255" using fits by (simp add: coap_call_def json_string_def)
  have "0 \<notin> set ?d"
    using call digits_short [OF call(1)] to_hex_plain(1) by (auto simp: coap_call_def json_string_def ascii_def)
  note st = staged [OF this, of ?s2]
  have ne: "?d \<noteq> []" "length ?d < 511" using fits by (simp_all add: coap_call_def)
  have f4: "co_waiting ?s4" "co_last_rpc_id ?s4 = co_last_rpc_id s" "handler_queue (cgw ?s4) = handler_queue (cgw s)"
    "coap_commands (coap_outs ?s4) = coap_commands (coap_outs s)"
    using v4 unfolding v3 v2 v1 by (simp_all add: poll_view_def)
  have r4: "s_rpc_payload_ready ?s4" "cstr (s_rpc_payload_buf ?s4) = ?d"
    using b4 st ne by (simp_all add: buffer_view_def)
  have s': "s' = coap_handle_rpc alloc room ?s5"
    unfolding s'_def using w2 f4(1) r4(1)
    by (simp add: coap_run_append coap_poll_arrival_def coap_poll_done_def)
  have cmd: "coap_command_text ?h = cmd" using coap_command_text_hex [OF len] by (simp add: cmd_def)
  have "length cmd \<le> 255" using len by (auto simp: cmd_def coap_text_def)
  note raw = raw_short [of cmd]
  have t: "cstr (s_rpc_payload_buf ?s5) = ?d" using r4 by simp
  have "coap_commands (coap_outs s') = coap_commands (coap_outs s) @
      (if int k \<noteq> co_last_rpc_id s \<and> config_parse_type cmd (word_of_nat (length cmd)) \<noteq> CONFIG_TYPE_UNKNOWN \<and>
         handler_queue (cgw s) \<and> alloc \<and> room
       then [\<lparr>cc_type = config_parse_type cmd (word_of_nat (length cmd)),
               raw_data = cmd @ 0 # zeros (16383 - length cmd), data_len = word_of_nat (length cmd),
               cc_source = CMD_SOURCE_COAP, cc_waiter = None\<rparr>]
       else []) \<and> co_last_rpc_id s' = int k"
    unfolding s' coap_handle_rpc_def t coap_call_keys(1) [OF call(2) to_hex_plain(2)] parts Let_def option.case cmd
    using f4 raw \<open>length cmd \<le> 255\<close>
    by (auto simp: coap_forward_def make_command_def fill_array_string coap_emit_def Let_def)
  then show ?thesis using s1 by (simp add: coap_emit_def)
qed

section \<open>A call is not forwarded twice in a row\<close>

text \<open>The identifiers of the staged payloads that a step looks at.\<close>

fun coap_seen :: "coap_event \<Rightarrow> coap_st \<Rightarrow> int option list" where
  "coap_seen (CoapPollDone alloc room) s =
     (if co_waiting s \<and> s_rpc_payload_ready s then [coap_rpc_id (cstr (s_rpc_payload_buf s))] else [])"
| "coap_seen _ s = []"

fun coap_run_seen :: "coap_event list \<Rightarrow> coap_st \<Rightarrow> int option list" where
  "coap_run_seen [] s = []"
| "coap_run_seen (e # es) s = coap_seen e s @ coap_run_seen es (coap_step e s)"

lemma coap_handle_effect:
  assumes "coap_rpc_id (cstr (s_rpc_payload_buf s)) = Some k"
  shows "co_last_rpc_id (coap_handle_rpc alloc room s) = k"
    "length (coap_commands (coap_outs (coap_handle_rpc alloc room s))) \<le>
       length (coap_commands (coap_outs s)) + (if k \<ge> 0 \<and> k = co_last_rpc_id s then 0 else 1)"
  using assms
  by (auto simp: coap_handle_rpc_def coap_forward_def coap_emit_def Let_def split: option.split)

lemma coap_step_unseen:
  assumes "coap_seen e s = []"
  shows "co_last_rpc_id (coap_step e s) = co_last_rpc_id s \<and> coap_commands (coap_outs (coap_step e s)) = coap_commands (coap_outs s)"
proof (cases "in_wait e")
  case True
  then show ?thesis using wait_step(1) [of e s] by (simp add: poll_view_def)
next
  case False
  then consider x where "e = CoapPoll x" | alloc room where "e = CoapPollDone alloc room" by (cases e) auto
  then show ?thesis
  proof cases
    case 1
    have "co_last_rpc_id (snd (coap_poll_rpc x s)) = co_last_rpc_id s \<and>
        coap_commands (coap_outs (snd (coap_poll_rpc x s))) = coap_commands (coap_outs s)"
      by (auto simp: coap_poll_rpc_def coap_emit_def coap_online_def Let_def)
    then show ?thesis by (simp add: 1 coap_polling_turn_def)
  next
    case 2
    with assms show ?thesis by (auto simp: coap_poll_done_def Let_def split: if_splits)
  qed
qed

lemma coap_step_seen:
  assumes "coap_seen e s = [Some k]"
  shows "co_last_rpc_id (coap_step e s) = k \<and> length (coap_commands (coap_outs (coap_step e s))) \<le>
       length (coap_commands (coap_outs s)) + (if k \<ge> 0 \<and> k = co_last_rpc_id s then 0 else 1)"
proof -
  let ?s1 = "s\<lparr>co_waiting := False, s_rpc_payload_ready := False\<rparr>"
  obtain alloc room where e: "e = CoapPollDone alloc room" using assms by (cases e) auto
  have p: "co_waiting s" "s_rpc_payload_ready s" "coap_rpc_id (cstr (s_rpc_payload_buf ?s1)) = Some k"
    using assms by (auto simp: e split: if_splits)
  then have s': "coap_step e s = coap_handle_rpc alloc room ?s1" by (simp add: e coap_poll_done_def)
  show ?thesis using coap_handle_effect [OF p(3), of alloc room] unfolding s' by simp
qed

lemma coap_seen_one: "coap_seen e s = [] \<or> (\<exists>i. coap_seen e s = [i])"
  by (cases e) simp_all

text \<open>
  C27. A call that is sent again is not carried out again. As long as every payload that a poll finds is the same call, whatever arrives beside
  it, whatever is published, and however the steps of the two tasks, their waits included, fall, at most one command goes to
  the command task; none at all if the call is the last one that was taken.
\<close>

theorem coap_call_once:
  assumes "k \<ge> 0" "\<forall>i \<in> set (coap_run_seen es s). i = Some k"
  shows "length (coap_commands (coap_outs (coap_run es s))) \<le>
    length (coap_commands (coap_outs s)) + (if k = co_last_rpc_id s then 0 else 1)"
  using assms(2)
proof (induction es arbitrary: s)
  case (Cons e es)
  note IH = Cons.IH [of "coap_step e s"]
  have rest: "\<forall>i \<in> set (coap_run_seen es (coap_step e s)). i = Some k" using Cons.prems by simp
  show ?case
  proof (cases "coap_seen e s")
    case Nil
    then show ?thesis using IH rest coap_step_unseen [OF Nil] by simp
  next
    case (Cons i js)
    then have "coap_seen e s = [Some k]" using Cons.prems coap_seen_one [of e s] by auto
    from coap_step_seen [OF this] show ?thesis using IH rest assms(1) by (auto split: if_splits)
  qed
qed simp

section \<open>The port of the calls\<close>

definition coap_rpc_command :: "u8 list \<Rightarrow> config_command" where
  "coap_rpc_command d = fst (make_command (config_parse_type d (word_of_nat (length d))) d CMD_SOURCE_COAP)"

interpretation coap_port: command_port coap_rpc_command 255
proof (unfold_locales, goal_cases)
  case (1 d)
  then show ?case using raw_short [of d] by (auto simp: coap_rpc_command_def make_command_def fill_array_string)
qed (simp_all add: coap_rpc_command_def make_command_def fill_array_string)

section \<open>At work\<close>

definition demo_coap :: coap_config_data where
  "demo_coap = coap_defaults\<lparr>cp_resource_path := arr 128 (ascii ''/api/v1/'' @ ascii [CHR 0x7B] @ ascii ''token'' @ ascii [CHR 0x7D] @ ascii ''/telemetry''),
     cp_device_token := arr 65 (ascii ''T7'')\<rparr>"

definition demo_coap_st :: coap_st where
  "demo_coap_st = \<lparr>g_coap_publish_queue = Some [], co_publish_task = True, co_poll_task = True, co_task_running = True,
     co_polling_running = True, s_coap_server_connected = False, co_last_rpc_id = 4, s_rpc_payload_buf = zeros 512,
     s_rpc_payload_ready = False, co_waiting = False, co_post = None, co_responded = False, cgw = demo_task, coap_outs = []\<rparr>"

definition demo_exchange :: coap_exchange where
  "demo_exchange = \<lparr>resolved = True, context_ok = True, session_ok = True, pdu_ok = True, send_ok = True\<rparr>"

definition demo_notification :: coap_arrival where
  "demo_notification = CoapResponse 2 (coap_call 5 (ascii ''set'') (to_hex (ascii ''CFML:1'')))"

lemma demo_coap_fields:
  "co_publish_task demo_coap_st" "co_task_running demo_coap_st" "co_poll_task demo_coap_st" "co_polling_running demo_coap_st"
  "g_coap_publish_queue demo_coap_st = Some []" "co_last_rpc_id demo_coap_st = 4" "coap_outs demo_coap_st = []"
  "coap_delivered demo_exchange" "handler_queue (cgw demo_coap_st)" "\<not> co_waiting demo_coap_st" "co_post demo_coap_st = None"
  by (simp_all add: demo_coap_st_def demo_exchange_def coap_delivered_def demo_task_def)

theorem coap_telemetry_exact_witness:
  "\<exists>hex. coap_outs (coap_publish_whole ((demo_exchange, [CoapNack]), (demo_exchange, [CoapResponse 2 [65]]))
        (snd (coap_enqueue_telemetry False (Some [1, 255]) demo_coap_st))) =
      map (\<lambda>p. CoapPost (coap_peer_of (coap_cfg demo_coap_st)) (path_segments p) ([123] @ json_string ''data'' hex @ [125]))
        [coap_telemetry_path (coap_cfg demo_coap_st), coap_answer_path (coap_cfg demo_coap_st) 4] \<and>
      hex_decode 4096 hex = [1, 255]"
  using coap_telemetry_exact [of demo_coap_st "[[1, 255]]" "[((demo_exchange, [CoapNack]), (demo_exchange, [CoapResponse 2 [65]]))]" False]
  by (auto simp: demo_coap_fields)

lemma coap_paths_exact_applied:
  "path_segments (coap_answer_path demo_coap 5) = [ascii ''api'', ascii ''v1'', ascii ''T7'', ascii ''rpc'', ascii ''5'']"
proof -
  have d: "coap_ok demo_coap" "cstr (cp_device_token demo_coap) = ascii ''T7''"
    "cstr (cp_resource_path demo_coap) = path_of ([ascii ''api'', ascii ''v1''] @ [ascii [CHR 0x7B] @ ascii ''token'' @ ascii [CHR 0x7D], ascii ''telemetry''])"
    "\<forall>x \<in> set ([ascii ''api'', ascii ''v1''] @ [cstr (cp_device_token demo_coap)]). x \<noteq> [] \<and> 47 \<notin> set x"
    "strstr_pos (path_of ([ascii ''api'', ascii ''v1''] @ [ascii [CHR 0x7B] @ ascii ''token'' @ ascii [CHR 0x7D], ascii ''telemetry'']))
       (ascii [CHR 0x7B] @ ascii ''token'' @ ascii [CHR 0x7D]) = Some (Suc (length (path_of [ascii ''api'', ascii ''v1''])))"
    "strstr_pos (path_of ([ascii ''api'', ascii ''v1''] @ [cstr (cp_device_token demo_coap), ascii ''telemetry'']))
       (ascii ''/telemetry'') = Some (length (path_of ([ascii ''api'', ascii ''v1''] @ [cstr (cp_device_token demo_coap)])))"
    "ascii (dec_digits 5) = ascii ''5''"
    by code_simp+
  show ?thesis using coap_paths_exact [OF d(1,3-6), of 5] d(2,7) by simp
qed

text \<open>A poll in whose wait another call arrives before, and the response to a POST without a payload after the notification.\<close>

definition demo_before :: "coap_event list" where
  "demo_before = [CoapPollArrival (CoapResponse 2 (coap_call 9 (ascii ''get'') (to_hex (ascii ''WF:a''))))]"

definition demo_after :: "coap_event list" where
  "demo_after = [CoapEnqueue False [65], CoapPublish demo_exchange demo_exchange, CoapPostArrival (CoapResponse 2 [])]"

lemma demo_call5:
  "coap_text (ascii ''CFML:1'') = ascii ''ML:1''" "config_parse_type (ascii ''ML:1'') 4 \<noteq> CONFIG_TYPE_UNKNOWN"
  "length (ascii ''ML:1'') = 4" "34 \<notin> set (ascii ''set'')" "0 \<notin> set (ascii ''set'')" "ascii ''CFML:1'' \<noteq> []"
  "length (coap_call 5 (ascii ''set'') (to_hex (ascii ''CFML:1''))) \<le> 510"
  by code_simp+

lemma demo_waits: "\<forall>e \<in> set demo_before. in_wait e" "\<forall>e \<in> set demo_after. in_wait e \<and> \<not> stages e"
  by (simp_all add: demo_before_def demo_after_def fills_buffer_def)

theorem coap_command_forwarded_witness:
  "coap_commands (coap_outs (coap_run
      ([CoapPoll demo_exchange] @ demo_before @ [CoapPollArrival demo_notification] @ demo_after @ [CoapPollDone True True]) demo_coap_st)) =
    [\<lparr>cc_type = config_parse_type (ascii ''ML:1'') 4, raw_data = ascii ''ML:1'' @ 0 # zeros 16379, data_len = 4,
       cc_source = CMD_SOURCE_COAP, cc_waiter = None\<rparr>]"
  using coap_command_forwarded [where k = 5 and m = "ascii ''set''" and bs = "ascii ''CFML:1''" and s = demo_coap_st and
      x = demo_exchange and alloc = True and room = True and before = demo_before and after = demo_after,
    OF demo_coap_fields(3,4,10,8) demo_waits demo_call5(7) _ demo_call5(4-6)] demo_call5(1-3)
  by (simp add: demo_coap_fields demo_notification_def)

text \<open>A poll in which one call arrives, as an observer of identifiers sees it.\<close>

lemma coap_run_seen_append: "coap_run_seen (es @ es') s = coap_run_seen es s @ coap_run_seen es' (coap_run es s)"
  by (induction es arbitrary: s) simp_all

definition demo_poll :: "coap_event list" where
  "demo_poll = [CoapPoll demo_exchange, CoapPollArrival demo_notification, CoapPollDone True True]"

lemma poll_again:
  "co_poll_task (coap_handle_rpc alloc room s) = co_poll_task s" "co_polling_running (coap_handle_rpc alloc room s) = co_polling_running s"
  "co_waiting (coap_handle_rpc alloc room s) = co_waiting s"
  by (auto simp: coap_handle_rpc_def coap_forward_def coap_emit_def Let_def split: option.split)

lemma demo_poll_sees:
  assumes "co_poll_task s" "co_polling_running s" "\<not> co_waiting s"
  shows "coap_run_seen demo_poll s = [Some 5]"
    "co_poll_task (coap_run demo_poll s)" "co_polling_running (coap_run demo_poll s)" "\<not> co_waiting (coap_run demo_poll s)"
proof -
  let ?d = "coap_call 5 (ascii ''set'') (to_hex (ascii ''CFML:1''))"
  let ?s1 = "coap_polling_turn demo_exchange s"
  have s1: "co_waiting ?s1" "co_poll_task ?s1" "co_polling_running ?s1"
    using assms by (simp_all add: coap_polling_turn_def coap_poll_rpc_def demo_exchange_def coap_emit_def)
  then have a: "coap_poll_arrival demo_notification ?s1 = coap_response_handler 2 ?d ?s1"
    by (simp add: coap_poll_arrival_def demo_notification_def)
  have core: "coap_core (coap_response_handler 2 ?d ?s1) = coap_core ?s1" by simp
  note f = coap_core_fields [OF core]
  have d: "0 \<notin> set ?d" "?d \<noteq> []" "length ?d < 511" "coap_rpc_id ?d = Some 5" by code_simp+
  note st = staged [OF d(1-3), of ?s1]
  show "coap_run_seen demo_poll s = [Some 5]"
    using st s1 f by (simp add: demo_poll_def a d(4))
  show "co_poll_task (coap_run demo_poll s)" "co_polling_running (coap_run demo_poll s)" "\<not> co_waiting (coap_run demo_poll s)"
    using st s1 f by (simp_all add: demo_poll_def a coap_poll_done_def poll_again)
qed

theorem coap_call_once_witness:
  "length (coap_commands (coap_outs (coap_run (demo_poll @ demo_poll) demo_coap_st))) \<le> 1"
  using coap_call_once [of 5 "demo_poll @ demo_poll" demo_coap_st] demo_poll_sees [of demo_coap_st]
    demo_poll_sees(1) [of "coap_run demo_poll demo_coap_st"]
  by (simp add: coap_run_seen_append demo_coap_fields)

end
