(* ===== verification/Server_Uplink.thy ===== *)
theory Server_Uplink
  imports Coap_Client
begin

text \<open>
  \<open>server_handler_enqueue_uplink\<close> of \<open>Application/MCU_LAN_Handler/src/mcu_lan_handler_uplink.c\<close>: what
  the LAN handler forwards goes to the queue of the client of the configured server. The three clients
  are a triple of their states.

  The property: exactly the selected client takes the message, and what it then sends is the message.
\<close>

type_synonym clients = "mqtt_st \<times> http_st \<times> coap_st"

definition server_handler_enqueue_uplink :: "server_type \<Rightarrow> bool \<Rightarrow> u8 list option \<Rightarrow> clients \<Rightarrow> bool \<times> clients" where
  "server_handler_enqueue_uplink t room dat cl =
     (case (dat, cl) of
        (None, _) \<Rightarrow> (False, cl)
      | (Some d, (m, h, c)) \<Rightarrow>
          if length d = 0 then (False, cl)
          else case t of
            CONFIG_SERVERTYPE_MQTT \<Rightarrow> (let (ok, m') = mqtt_enqueue_telemetry room dat m in (ok, (m', h, c)))
          | CONFIG_SERVERTYPE_HTTP \<Rightarrow> (let (ok, h') = http_enqueue_telemetry room dat h in (ok, (m, h', c)))
          | CONFIG_SERVERTYPE_COAP \<Rightarrow> (let (ok, c') = coap_enqueue_telemetry room dat c in (ok, (m, h, c'))))"

text \<open>One turn of the publishing task of a client, which is at its queue and has no call to answer, and what it has sent.\<close>

definition client_ready :: "server_type \<Rightarrow> clients \<Rightarrow> bool" where
  "client_ready t cl = (case cl of (m, h, c) \<Rightarrow> (case t of
     CONFIG_SERVERTYPE_MQTT \<Rightarrow> publishing m \<and> g_last_rpc_id m < 0 \<and> g_mqtt_publish_queue m = Some []
   | CONFIG_SERVERTYPE_HTTP \<Rightarrow> publish_task h \<and> s_task_running h \<and> s_last_rpc_id h < 0 \<and> \<not> s_answering h \<and> g_http_publish_queue h = Some []
   | CONFIG_SERVERTYPE_COAP \<Rightarrow> co_publish_task c \<and> co_task_running c \<and> co_last_rpc_id c < 0 \<and> co_post c = None \<and> g_coap_publish_queue c = Some []))"

datatype sent_message = SentMqtt mqtt_out | SentHttp http_out | SentCoap coap_out

definition client_sent :: "server_type \<Rightarrow> clients \<Rightarrow> sent_message list" where
  "client_sent t cl = (case cl of (m, h, c) \<Rightarrow> (case t of
     CONFIG_SERVERTYPE_MQTT \<Rightarrow> map SentMqtt (mqtt_outs m)
   | CONFIG_SERVERTYPE_HTTP \<Rightarrow> map SentHttp (http_outs h)
   | CONFIG_SERVERTYPE_COAP \<Rightarrow> map SentCoap (coap_outs c)))"

definition publish_turn :: "server_type \<Rightarrow> http_reply \<Rightarrow> coap_exchange \<times> coap_arrival list \<Rightarrow> clients \<Rightarrow> clients" where
  "publish_turn t r x cl = (case cl of (m, h, c) \<Rightarrow> (case t of
     CONFIG_SERVERTYPE_MQTT \<Rightarrow> (mqtt_publish_turn False m, h, c)
   | CONFIG_SERVERTYPE_HTTP \<Rightarrow> (m, http_publish_turn True r h, c)
   | CONFIG_SERVERTYPE_COAP \<Rightarrow> (m, h, coap_publish_whole (x, x) c)))"

definition server_message :: "server_type \<Rightarrow> clients \<Rightarrow> u8 list \<Rightarrow> sent_message" where
  "server_message t cl body = (case cl of (m, h, c) \<Rightarrow> (case t of
     CONFIG_SERVERTYPE_MQTT \<Rightarrow> SentMqtt (MqttPublish (cstr (mq_publish_topic (mqtt_ctx m))) body)
   | CONFIG_SERVERTYPE_HTTP \<Rightarrow> SentHttp (HttpPost (build_url (hp_server_url (http_cfg h)) (hp_auth_token (http_cfg h)) 512) body)
   | CONFIG_SERVERTYPE_COAP \<Rightarrow> SentCoap (CoapPost (coap_peer_of (coap_cfg c)) (path_segments (coap_telemetry_path (coap_cfg c))) body)))"

lemma uplink_published:
  fixes room :: bool and cl :: clients and t :: server_type and d :: "u8 list"
  assumes "client_ready t cl" "d \<noteq> []" "length d \<le> 2047" "init_ok r" "coap_delivered (fst x)"
  defines "res \<equiv> server_handler_enqueue_uplink t room (Some d) cl"
  shows "fst res \<and> client_sent t (publish_turn t r x (snd res)) =
    client_sent t cl @ [server_message t cl ([123] @ json_string ''data'' (to_hex d) @ [125])]"
proof -
  obtain m h c where cl: "cl = (m, h, c)" by (cases cl)
  have len: "length d \<le> 2048" using assms(3) by simp
  show ?thesis
  proof (cases t)
    case CONFIG_SERVERTYPE_MQTT
    have q: "publishing m \<and> g_last_rpc_id m < 0" "g_mqtt_publish_queue m = Some []"
      using assms(1) by (simp_all add: client_ready_def cl CONFIG_SERVERTYPE_MQTT)
    show ?thesis
      using mqtt_queue.in_order [OF q, of "[d]" "[False]" room] mqtt_queue.takes [OF q(2) assms(2), of room] assms(2,3) len
      by (simp add: res_def server_handler_enqueue_uplink_def client_sent_def publish_turn_def server_message_def cl
          CONFIG_SERVERTYPE_MQTT mqtt_queue.put_def mqtt_message_def telemetry_json_exact case_prod_beta)
  next
    case CONFIG_SERVERTYPE_HTTP
    have q: "publish_task h \<and> s_task_running h \<and> s_last_rpc_id h < 0 \<and> \<not> s_answering h" "g_http_publish_queue h = Some []"
      using assms(1) by (simp_all add: client_ready_def cl CONFIG_SERVERTYPE_HTTP)
    show ?thesis
      using http_queue.in_order [OF q, of "[d]" "[r]" room] http_queue.takes [OF q(2) assms(2), of room] assms(2-4) len
      by (simp add: res_def server_handler_enqueue_uplink_def client_sent_def publish_turn_def server_message_def cl
          CONFIG_SERVERTYPE_HTTP http_queue.put_def http_message_def http_json_exact case_prod_beta)
  next
    case CONFIG_SERVERTYPE_COAP
    have q: "co_publish_task c \<and> co_task_running c \<and> co_post c = None" "g_coap_publish_queue c = Some []" "co_last_rpc_id c < 0"
      using assms(1) by (simp_all add: client_ready_def cl CONFIG_SERVERTYPE_COAP)
    show ?thesis
      using coap_queue.in_order [OF q(1,2), of "[d]" "[(x, x)]" room] coap_queue.takes [OF q(2) assms(2), of room] assms(2,3,5) len q(3)
      by (simp add: res_def server_handler_enqueue_uplink_def client_sent_def publish_turn_def server_message_def cl
          CONFIG_SERVERTYPE_COAP coap_queue.put_def coap_message_def coap_json_exact case_prod_beta)
  qed
qed

end
