(* ===== verification/Lte.thy ===== *)
theory Lte
  imports Config_Task
begin

text \<open>
  \<open>Middleware/LTE_Handler/src/lte_handler.c\<close>, the handler of the modem, and \<open>lte_connect.c\<close> of
  \<open>Application/Internet_Communication_Handler/lte_handler\<close>, the task that keeps the connection.

  The modem drivers are outside: \<open>lte_world\<close> is what they answer, a list of outputs what they are asked for. The handler's mutex is in
  the model, because what the code does with it decides what a lost connection leads to: an operation \<open>Returns\<close> or \<open>Blocks\<close>. The event
  group is two bits. The user name and the password do not occur, since the support for authentication is not
  configured; a failed \<open>ESP_ERROR_CHECK\<close>, which restarts the chip, is left out, and so is the clock set over the network.

  The properties: nothing is ever dialled by the handler itself; what a lost connection leads to; what a failed initialisation
  leaves; when a dead connection is restarted.
\<close>

section \<open>State\<close>

datatype lte_state =
    LTE_STATE_IDLE | LTE_STATE_INITIALIZING | LTE_STATE_INITIALIZED | LTE_STATE_REGISTERING | LTE_STATE_REGISTERED
  | LTE_STATE_CONNECTING | LTE_STATE_RECONNECTING | LTE_STATE_CONNECTED | LTE_STATE_DISCONNECTED | LTE_STATE_ERROR

record lte_network_info =
  net_ip :: "u8 list"
  net_netmask :: "u8 list"
  net_gateway :: "u8 list"
  net_dns1 :: "u8 list"
  net_dns2 :: "u8 list"

record lte_modem_info =
  mi_imei :: "u8 list"
  mi_imsi :: "u8 list"
  mi_module_name :: "u8 list"
  mi_operator_name :: "u8 list"
  mi_rssi :: u32
  mi_ber :: u32

text \<open>\<open>lte_handler_ctx_t\<close>. The mutex is not recursive; \<open>lh_mutex\<close>: a task holds it and will not give it back
  before it takes it again.\<close>

record lte_handler_ctx =
  lh_comm :: lte_comm_type
  lh_auto_reconnect :: bool
  lh_timeout_ms :: u32
  lh_max_attempts :: u32
  lh_state :: lte_state
  lh_dte :: bool
  lh_dce :: bool
  lh_adapter :: bool
  lh_netif :: bool
  lh_modem_info :: lte_modem_info
  lh_network_info :: lte_network_info
  lh_modem_info_valid :: bool
  lh_network_info_valid :: bool
  lh_mutex :: bool
  lh_reconnect_attempts :: u32
  lh_bg_task :: bool
  lh_connect_bit :: bool
  lh_disconnect_bit :: bool
  lh_initialized :: bool

datatype lte_out =
    LtePins u8 u8 | LteModemInit lte_comm_type | LteModemDeinit lte_comm_type | LtePdp "u8 list" | LteSetApn "u8 list"
  | LtePppStart lte_comm_type | LtePppStop lte_comm_type | LtePublicDns | LteSntpInit

record lte_sys =
  lctx :: "lte_handler_ctx option"
  g_not_ppp_to_lan :: bool
  lte_handlers :: bool                  \<comment> \<open>the handlers of the IP and PPP events are registered\<close>
  ltk :: task_st                        \<comment> \<open>g_lte_ctx and the LAN handler\<close>
  is_internet_connected :: bool
  g_lte_sntp_started :: bool
  s_dns_applied :: bool
  offline_timeout_ticks :: u32
  last_monitor :: u32
  last_reconnect_attempt :: u32
  reconnect_count :: u32
  lte_outs :: "lte_out list"

datatype lte_ip_event = IP_EVENT_PPP_GOT_IP lte_network_info | IP_EVENT_PPP_LOST_IP | IP_EVENT_OTHER

text \<open>What the modem drivers answer. \<open>lw_init_events\<close> are the events of addresses while \<open>modem_board_init\<close> waits for
  its connection, \<open>lw_got_ip\<close> is the one during the wait of \<open>lte_handler_connect\<close>.\<close>

record lte_world =
  lw_calloc :: bool
  lw_sync :: bool
  lw_dte :: bool
  lw_dce :: bool
  lw_adapter :: bool
  lw_info :: lte_modem_info
  lw_signal :: "(u32 \<times> u32) option"
  lw_modem_board_init :: esp_err
  lw_init_events :: "lte_ip_event list"
  lw_set_apn :: esp_err
  lw_ppp_start :: esp_err
  lw_got_ip :: "lte_network_info option"
  lw_ppp_stop :: esp_err

text \<open>An operation returns, or waits for ever for the mutex.\<close>

datatype 'a lte_run = Returns 'a lte_sys | Blocks lte_sys

fun lte_then :: "'a lte_run \<Rightarrow> ('a \<Rightarrow> lte_sys \<Rightarrow> 'b lte_run) \<Rightarrow> 'b lte_run" where
  "lte_then (Returns a s) f = f a s"
| "lte_then (Blocks s) f = Blocks s"

definition upd_ctx :: "(lte_handler_ctx \<Rightarrow> lte_handler_ctx) \<Rightarrow> lte_sys \<Rightarrow> lte_sys" where
  "upd_ctx f s = s\<lparr>lctx := map_option f (lctx s)\<rparr>"

definition lte_emit :: "lte_out list \<Rightarrow> lte_sys \<Rightarrow> lte_sys" where
  "lte_emit os s = s\<lparr>lte_outs := lte_outs s @ os\<rparr>"

abbreviation lte_context_of :: "lte_sys \<Rightarrow> lte_config_context" where
  "lte_context_of s \<equiv> g_lte_ctx (cfg (ltk s))"

definition set_lte_context :: "(lte_config_context \<Rightarrow> lte_config_context) \<Rightarrow> lte_sys \<Rightarrow> lte_sys" where
  "set_lte_context f s = s\<lparr>ltk := (ltk s)\<lparr>cfg := (cfg (ltk s))\<lparr>g_lte_ctx := f (lte_context_of s)\<rparr>\<rparr>\<rparr>"

section \<open>The handler\<close>

definition set_state :: "lte_state \<Rightarrow> lte_sys \<Rightarrow> unit lte_run" where
  "set_state new_state s =
     (case lctx s of
        None \<Rightarrow> Returns () s
      | Some c \<Rightarrow> if lh_mutex c then Blocks s else Returns () (upd_ctx (\<lambda>c. c\<lparr>lh_state := new_state\<rparr>) s))"

definition on_ip_event :: "lte_ip_event \<Rightarrow> lte_sys \<Rightarrow> unit lte_run" where
  "on_ip_event e s =
     (if g_not_ppp_to_lan s then Returns () s
      else case e of
        IP_EVENT_PPP_GOT_IP info \<Rightarrow>
          let s1 = lte_emit [LtePublicDns] s
          in if lctx s1 = None then Returns () s1
             else lte_then (set_state LTE_STATE_CONNECTED
                    (upd_ctx (\<lambda>c. c\<lparr>lh_network_info := info, lh_network_info_valid := True\<rparr>) s1))
                    (\<lambda>_ s2. Returns () (upd_ctx (\<lambda>c. c\<lparr>lh_connect_bit := True\<rparr>) s2))
      | IP_EVENT_PPP_LOST_IP \<Rightarrow>
          if lctx s = None then Returns () s
          else set_state LTE_STATE_DISCONNECTED (upd_ctx (\<lambda>c. c\<lparr>lh_network_info_valid := False\<rparr>) s)
      | IP_EVENT_OTHER \<Rightarrow> Returns () s)"

text \<open>\<open>NETIF_PPP_ERRORNONE\<close> is the event 0; the errors and ends of a connection are one case.\<close>

datatype lte_ppp_event = PPP_ERRORNONE | PPP_ENDED | PPP_OTHER

definition on_ppp_changed :: "lte_ppp_event \<Rightarrow> lte_sys \<Rightarrow> unit lte_run" where
  "on_ppp_changed e s =
     (case e of
        PPP_ENDED \<Rightarrow>
          (case lctx s of
             None \<Rightarrow> Returns () s
           | Some c \<Rightarrow>
               let s1 = upd_ctx (\<lambda>c. c\<lparr>lh_network_info_valid := False, lh_disconnect_bit := True\<rparr>) s
               in if lh_state c \<noteq> LTE_STATE_DISCONNECTED then set_state LTE_STATE_DISCONNECTED s1 else Returns () s1)
      | PPP_ERRORNONE \<Rightarrow> Returns () (lte_emit [LtePublicDns] s)
      | PPP_OTHER \<Rightarrow> Returns () s)"

definition uart_modem_ppp_stop :: "lte_sys \<Rightarrow> unit lte_run" where
  "uart_modem_ppp_stop s = set_state LTE_STATE_DISCONNECTED (upd_ctx (\<lambda>c. c\<lparr>lh_disconnect_bit := True\<rparr>) s)"

definition uart_modem_init :: "lte_world \<Rightarrow> lte_sys \<Rightarrow> esp_err \<times> lte_sys" where
  "uart_modem_init w s =
     (if \<not> lw_dte w then (ESP_FAIL, s)
      else
        let s1 = upd_ctx (\<lambda>c. c\<lparr>lh_dte := True\<rparr>) s
        in if \<not> lw_dce w then (ESP_FAIL, s1)
           else
             (ESP_OK, lte_emit [LteModemInit LTE_HANDLER_UART] (upd_ctx (\<lambda>c. c\<lparr>lh_dce := True, lh_modem_info_valid := True,
                 lh_modem_info := (case lw_signal w of
                    None \<Rightarrow> (lw_info w)\<lparr>mi_rssi := mi_rssi (lh_modem_info c), mi_ber := mi_ber (lh_modem_info c)\<rparr>
                  | Some (rssi, ber) \<Rightarrow> (lw_info w)\<lparr>mi_rssi := rssi, mi_ber := ber\<rparr>)\<rparr>) s1)))"

fun on_ip_events :: "lte_ip_event list \<Rightarrow> lte_sys \<Rightarrow> unit lte_run" where
  "on_ip_events [] s = Returns () s"
| "on_ip_events (e # es) s = lte_then (on_ip_event e s) (\<lambda>_ s'. on_ip_events es s')"

definition usb_modem_init :: "lte_world \<Rightarrow> lte_sys \<Rightarrow> esp_err lte_run" where
  "usb_modem_init w s =
     (if lw_modem_board_init w \<noteq> ESP_OK then Returns (lw_modem_board_init w) s
      else lte_then (on_ip_events (lw_init_events w) (lte_emit [LteModemInit LTE_HANDLER_USB] s)) (\<lambda>_ s1. Returns ESP_OK s1))"

definition lte_handler_disconnect :: "lte_world \<Rightarrow> lte_sys \<Rightarrow> esp_err lte_run" where
  "lte_handler_disconnect w s =
     (case lctx s of
        None \<Rightarrow> Returns ESP_ERR_INVALID_STATE s
      | Some c \<Rightarrow>
          if lh_state c \<noteq> LTE_STATE_CONNECTED \<and> lh_state c \<noteq> LTE_STATE_CONNECTING \<and> lh_state c \<noteq> LTE_STATE_RECONNECTING
          then Returns ESP_OK s
          else
            let s1 = upd_ctx (\<lambda>c. c\<lparr>lh_disconnect_bit := False\<rparr>) (lte_emit [LtePppStop (lh_comm c)] s)
            in lte_then (set_state LTE_STATE_DISCONNECTED s1)
                 (\<lambda>_ s2. Returns (lw_ppp_stop w) (upd_ctx (\<lambda>c. c\<lparr>lh_network_info_valid := False\<rparr>) s2)))"

definition lte_handler_deinit :: "lte_world \<Rightarrow> lte_sys \<Rightarrow> esp_err lte_run" where
  "lte_handler_deinit w s0 =
     (case lctx s0 of
        None \<Rightarrow> Returns ESP_ERR_INVALID_STATE s0
      | Some c \<Rightarrow>
          let s = upd_ctx (\<lambda>c. c\<lparr>lh_auto_reconnect := False\<rparr>) s0;
              r = (if lh_state c \<in> {LTE_STATE_CONNECTED, LTE_STATE_CONNECTING, LTE_STATE_RECONNECTING}
                   then lte_handler_disconnect w s else Returns ESP_OK s)
          in lte_then r (\<lambda>_ s1. Returns ESP_OK ((lte_emit [LteModemDeinit (lh_comm c)] s1)\<lparr>lctx := None, lte_handlers := False\<rparr>)))"

definition new_lte_ctx :: "lte_config_data \<Rightarrow> lte_handler_ctx" where
  "new_lte_ctx x = \<lparr>lh_comm = lt_comm_type x, lh_auto_reconnect = lt_auto_reconnect x, lh_timeout_ms = lt_reconnect_timeout_ms x,
     lh_max_attempts = lt_max_reconnect_attempts x, lh_state = LTE_STATE_IDLE, lh_dte = False, lh_dce = False, lh_adapter = False,
     lh_netif = False, lh_modem_info = \<lparr>mi_imei = [], mi_imsi = [], mi_module_name = [], mi_operator_name = [], mi_rssi = 0, mi_ber = 0\<rparr>,
     lh_network_info = \<lparr>net_ip = [], net_netmask = [], net_gateway = [], net_dns1 = [], net_dns2 = []\<rparr>,
     lh_modem_info_valid = False, lh_network_info_valid = False, lh_mutex = False, lh_reconnect_attempts = 0, lh_bg_task = False,
     lh_connect_bit = False, lh_disconnect_bit = False, lh_initialized = False\<rparr>"

text \<open>The modem of the kind that is configured; for the serial modem the adapter and the network
  interface too.\<close>

definition lte_modem_setup :: "lte_world \<Rightarrow> lte_comm_type \<Rightarrow> lte_sys \<Rightarrow> esp_err lte_run" where
  "lte_modem_setup w comm s =
     (case comm of
        LTE_HANDLER_UART \<Rightarrow>
          (let (ret, s1) = uart_modem_init w s
           in if ret \<noteq> ESP_OK then Returns ret s1
              else if \<not> lw_adapter w then Returns ESP_FAIL s1
              else Returns ESP_OK (upd_ctx (\<lambda>c. c\<lparr>lh_adapter := True, lh_netif := True\<rparr>) s1))
      | LTE_HANDLER_USB \<Rightarrow> usb_modem_init w s)"

definition lte_handler_init :: "lte_world \<Rightarrow> lte_config_data \<Rightarrow> lte_sys \<Rightarrow> esp_err lte_run" where
  "lte_handler_init w x s0 =
     (if lctx s0 \<noteq> None then Returns ESP_OK s0
      else if \<not> lw_calloc w then Returns ESP_ERR_NO_MEM s0
      else
        let s = s0\<lparr>lctx := Some (new_lte_ctx x)\<rparr>
        in if \<not> lw_sync w then lte_then (lte_handler_deinit w s) (\<lambda>_ s'. Returns ESP_ERR_NO_MEM s')
           else lte_then (set_state LTE_STATE_INITIALIZING s) (\<lambda>_ s1.
             lte_then (lte_modem_setup w (lt_comm_type x) ((upd_ctx (\<lambda>c. c\<lparr>lh_initialized := True\<rparr>) s1)\<lparr>lte_handlers := True\<rparr>)) (\<lambda>ret s3.
               if ret \<noteq> ESP_OK then lte_then (lte_handler_deinit w s3) (\<lambda>_ s'. Returns ret s')
               else lte_then (set_state LTE_STATE_INITIALIZED s3) (\<lambda>_ s4.
                 lte_then (set_state LTE_STATE_CONNECTED (upd_ctx (\<lambda>c. c\<lparr>lh_bg_task := True\<rparr>) s4)) (\<lambda>_ s5. Returns ESP_OK s5)))))"

text \<open>The rest of \<open>lte_handler_connect\<close>, once it is in the state of connecting and has given the mutex back.\<close>

definition lte_dial :: "lte_world \<Rightarrow> lte_comm_type \<Rightarrow> lte_sys \<Rightarrow> esp_err lte_run" where
  "lte_dial w comm s =
     (let apn = cstr (lt_apn (lx_cfg (lte_context_of s)));
          (ret, s1) = (case comm of
             LTE_HANDLER_UART \<Rightarrow> (lw_ppp_start w, lte_emit [LtePdp apn, LtePppStart comm] s)
           | LTE_HANDLER_USB \<Rightarrow>
               if lw_set_apn w \<noteq> ESP_OK then (lw_set_apn w, lte_emit [LteSetApn apn] s)
               else (lw_ppp_start w, lte_emit [LteSetApn apn, LtePppStart comm] s))
      in if ret \<noteq> ESP_OK then lte_then (set_state LTE_STATE_ERROR s1) (\<lambda>_ s2. Returns ret s2)
         else
           lte_then (case lw_got_ip w of Some info \<Rightarrow> on_ip_event (IP_EVENT_PPP_GOT_IP info) s1 | None \<Rightarrow> Returns () s1) (\<lambda>_ s2.
             if (case lctx s2 of Some c \<Rightarrow> lh_connect_bit c | None \<Rightarrow> False)
             then Returns ESP_OK (upd_ctx (\<lambda>c. c\<lparr>lh_connect_bit := False, lh_reconnect_attempts := 0\<rparr>) s2)
             else lte_then (set_state LTE_STATE_ERROR s2) (\<lambda>_ s3. Returns ESP_ERR_TIMEOUT s3)))"

text \<open>A mutex that is held is held for longer than the five seconds of the wait.\<close>

definition lte_handler_connect :: "lte_world \<Rightarrow> lte_sys \<Rightarrow> esp_err lte_run" where
  "lte_handler_connect w s =
     (case lctx s of
        None \<Rightarrow> Returns ESP_ERR_INVALID_STATE s
      | Some c \<Rightarrow>
          if lh_mutex c then Returns ESP_ERR_TIMEOUT s
          else
            let s1 = upd_ctx (\<lambda>c. c\<lparr>lh_mutex := True\<rparr>) s
            in if lh_state c = LTE_STATE_CONNECTED \<or> lh_state c = LTE_STATE_CONNECTING
               then Returns ESP_OK (upd_ctx (\<lambda>c. c\<lparr>lh_mutex := False\<rparr>) s1)
               else lte_then (set_state LTE_STATE_CONNECTING s1) (\<lambda>_ s2.
                 lte_dial w (lh_comm c) (upd_ctx (\<lambda>c. c\<lparr>lh_mutex := False\<rparr>) s2)))"

text \<open>A turn of the background task up to the delay before the reconnection (\<open>reconnect_timeout_ms\<close>);
  the result says whether it goes on to \<open>lte_bg_reconnect\<close> after the delay. Anything may
  happen in between.\<close>

definition lte_handler_bg_turn :: "lte_sys \<Rightarrow> bool lte_run" where
  "lte_handler_bg_turn s =
     (case lctx s of
        None \<Rightarrow> Returns False s
      | Some c \<Rightarrow>
          if lh_initialized c \<and> lh_auto_reconnect c \<and> lh_state c = LTE_STATE_DISCONNECTED \<and>
             (lh_max_attempts c = 0 \<or> lh_reconnect_attempts c < lh_max_attempts c)
          then lte_then (set_state LTE_STATE_RECONNECTING (upd_ctx (\<lambda>c. c\<lparr>lh_reconnect_attempts := lh_reconnect_attempts c + 1\<rparr>) s))
                 (\<lambda>_ s1. Returns True s1)
          else Returns False s)"

definition lte_bg_reconnect :: "lte_world \<Rightarrow> lte_sys \<Rightarrow> unit lte_run" where
  "lte_bg_reconnect w s = lte_then (lte_handler_connect w s) (\<lambda>_ s1. Returns () s1)"

definition lte_handler_is_connected :: "lte_sys \<Rightarrow> bool" where
  "lte_handler_is_connected s = (case lctx s of None \<Rightarrow> False | Some c \<Rightarrow> lh_state c = LTE_STATE_CONNECTED)"

definition lte_handler_get_state :: "lte_sys \<Rightarrow> lte_state lte_run" where
  "lte_handler_get_state s =
     (case lctx s of
        None \<Rightarrow> Returns LTE_STATE_IDLE s
      | Some c \<Rightarrow> if lh_mutex c then Blocks s else Returns (lh_state c) s)"

text \<open>The accessors of the two records copy what \<open>get\<close> selects.\<close>

definition lte_handler_get_network :: "(lte_network_info \<Rightarrow> 'a) \<Rightarrow> lte_sys \<Rightarrow> esp_err \<times> 'a option" where
  "lte_handler_get_network get s =
     (case lctx s of
        None \<Rightarrow> (ESP_ERR_INVALID_ARG, None)
      | Some c \<Rightarrow> if \<not> lh_network_info_valid c then (ESP_ERR_INVALID_STATE, None)
                  else if lh_mutex c then (ESP_ERR_TIMEOUT, None)
                  else (ESP_OK, Some (get (lh_network_info c))))"

definition lte_handler_get_modem :: "(lte_modem_info \<Rightarrow> 'a) \<Rightarrow> lte_sys \<Rightarrow> esp_err \<times> 'a option" where
  "lte_handler_get_modem get s =
     (case lctx s of
        None \<Rightarrow> (ESP_ERR_INVALID_ARG, None)
      | Some c \<Rightarrow> if \<not> lh_modem_info_valid c then (ESP_ERR_INVALID_STATE, None)
                  else if lh_mutex c then (ESP_ERR_TIMEOUT, None)
                  else (ESP_OK, Some (get (lh_modem_info c))))"

definition lte_handler_get_signal_strength :: "(esp_err \<times> u32 \<times> u32) \<Rightarrow> lte_sys \<Rightarrow> (esp_err \<times> u32 \<times> u32) \<times> lte_sys" where
  "lte_handler_get_signal_strength answer s =
     (case lctx s of
        None \<Rightarrow> ((ESP_ERR_INVALID_ARG, 0, 0), s)
      | Some c \<Rightarrow>
          if lh_mutex c then ((ESP_ERR_TIMEOUT, 0, 0), s)
          else if lh_comm c = LTE_HANDLER_UART \<and> \<not> lh_dce c then ((ESP_ERR_INVALID_STATE, 0, 0), s)
          else (answer, case answer of (ret, rssi, ber) \<Rightarrow>
             if ret = ESP_OK
             then upd_ctx (\<lambda>c. c\<lparr>lh_modem_info := (lh_modem_info c)\<lparr>mi_rssi := rssi, mi_ber := ber\<rparr>\<rparr>) s else s))"

definition lte_handler_set_auto_reconnect :: "bool \<Rightarrow> lte_sys \<Rightarrow> esp_err \<times> lte_sys" where
  "lte_handler_set_auto_reconnect enable s =
     (case lctx s of
        None \<Rightarrow> (ESP_ERR_INVALID_STATE, s)
      | Some c \<Rightarrow> if lh_mutex c then (ESP_ERR_TIMEOUT, s) else (ESP_OK, upd_ctx (\<lambda>c. c\<lparr>lh_auto_reconnect := enable\<rparr>) s))"

definition lte_handler_set_reconnect_params :: "u32 \<Rightarrow> u32 \<Rightarrow> lte_sys \<Rightarrow> esp_err \<times> lte_sys" where
  "lte_handler_set_reconnect_params timeout_ms max_attempts s =
     (case lctx s of
        None \<Rightarrow> (ESP_ERR_INVALID_STATE, s)
      | Some c \<Rightarrow> if lh_mutex c then (ESP_ERR_TIMEOUT, s)
                  else (ESP_OK, upd_ctx (\<lambda>c. c\<lparr>lh_timeout_ms := timeout_ms, lh_max_attempts := max_attempts\<rparr>) s))"

section \<open>The connection task\<close>

definition lte_init_with_config :: "lte_world \<Rightarrow> lte_sys \<Rightarrow> esp_err lte_run" where
  "lte_init_with_config w s0 =
     (let old = (if lx_initialized (lte_context_of s0)
            then lte_then (lte_handler_disconnect w s0) (\<lambda>_ s. lte_then (lte_handler_deinit w s)
                   (\<lambda>_ s'. Returns () (set_lte_context (\<lambda>x. x\<lparr>lx_initialized := False\<rparr>) s')))
            else Returns () s0)
      in lte_then old (\<lambda>_ s1.
           let x = lx_cfg (lte_context_of s1)
           in lte_then (lte_handler_init w x (lte_emit [LtePins (lt_pwr_pin x) (lt_rst_pin x)] s1)) (\<lambda>ret s2.
                if ret \<noteq> ESP_OK then Returns ret s2
                else lte_handler_connect w (set_lte_context (\<lambda>x. x\<lparr>lx_initialized := True\<rparr>) s2))))"

text \<open>The task before its loop, after the wait for the modem's power.\<close>

definition lte_task_begin :: "lte_world \<Rightarrow> lte_sys \<Rightarrow> esp_err lte_run" where
  "lte_task_begin w s = lte_init_with_config w (s\<lparr>last_monitor := 0, last_reconnect_attempt := 0, reconnect_count := 0\<rparr>)"

definition lte_take_config :: "lte_config_data \<Rightarrow> lte_sys \<Rightarrow> lte_sys" where
  "lte_take_config new_cfg s =
     (set_lte_context (\<lambda>x. x\<lparr>lx_cfg := (lx_cfg x)\<lparr>lt_apn := strncpy 63 (lt_apn (lx_cfg x)) (lt_apn new_cfg),
          lt_username := strncpy 31 (lt_username (lx_cfg x)) (lt_username new_cfg),
          lt_password := strncpy 31 (lt_password (lx_cfg x)) (lt_password new_cfg),
          lt_comm_type := lt_comm_type new_cfg, lt_auto_reconnect := lt_auto_reconnect new_cfg,
          lt_reconnect_timeout_ms := lt_reconnect_timeout_ms new_cfg,
          lt_max_reconnect_attempts := lt_max_reconnect_attempts new_cfg\<rparr>\<rparr>) s)\<lparr>reconnect_count := 0\<rparr>"

definition lte_link_up :: "lte_world \<Rightarrow> lte_sys \<Rightarrow> unit lte_run" where
  "lte_link_up w s0 =
     (let s1 = (if \<not> is_internet_connected s0
                then s0\<lparr>is_internet_connected := True,
                        ltk := (ltk s0)\<lparr>lan := mcu_lan_handler_set_internet_status INTERNET_STATUS_ONLINE (lan (ltk s0))\<rparr>\<rparr>
                else s0);
          s2 = (if g_lte_sntp_started s1 then s1 else lte_emit [LteSntpInit] (s1\<lparr>g_lte_sntp_started := True\<rparr>));
          s3 = s2\<lparr>reconnect_count := 0\<rparr>;
          s4 = (if s_dns_applied s3 then s3 else lte_emit [LtePublicDns] (s3\<lparr>s_dns_applied := True\<rparr>))
      in if mcu_lan_handler_get_internet_status (lan (ltk s4)) = INTERNET_STATUS_OFFLINE
         then
           let s5 = s4\<lparr>offline_timeout_ticks := offline_timeout_ticks s4 + 1\<rparr>
           in if offline_timeout_ticks s5 \<ge> 180
              then lte_then (lte_init_with_config w s5)
                     (\<lambda>_ s6. Returns () (s6\<lparr>offline_timeout_ticks := 0, s_dns_applied := False\<rparr>))
              else Returns () s5
         else Returns () (s4\<lparr>offline_timeout_ticks := 0\<rparr>))"

definition lte_link_down :: "lte_world \<Rightarrow> u32 \<Rightarrow> u32 \<Rightarrow> lte_sys \<Rightarrow> unit lte_run" where
  "lte_link_down w reconnect_interval now s0 =
     lte_then (lte_handler_get_state (s0\<lparr>is_internet_connected := False\<rparr>)) (\<lambda>_ s.
       let limit = lt_max_reconnect_attempts (lx_cfg (lte_context_of s))
       in if (limit = 0 \<or> reconnect_count s < limit) \<and> now - last_reconnect_attempt s \<ge> reconnect_interval
          then lte_then (lte_handler_connect w s)
                 (\<lambda>_ s1. Returns () (s1\<lparr>reconnect_count := reconnect_count s1 + 1, last_reconnect_attempt := now\<rparr>))
          else Returns () s)"

text \<open>One turn of the task; the intervals of one and of ten seconds in ticks are parameters.\<close>

definition lte_task_turn :: "lte_world \<Rightarrow> u32 \<Rightarrow> u32 \<Rightarrow> lte_config_data option \<Rightarrow> u32 \<Rightarrow> lte_sys \<Rightarrow> unit lte_run" where
  "lte_task_turn w monitor_interval reconnect_interval new_cfg now s0 =
     (if \<not> lx_task_running (lte_context_of s0) then Returns () s0
      else
        lte_then (case new_cfg of
             Some c \<Rightarrow> if lte_queue (ltk s0) then lte_then (lte_init_with_config w (lte_take_config c s0)) (\<lambda>_ s. Returns () s)
                       else Returns () s0
           | None \<Rightarrow> Returns () s0) (\<lambda>_ s1.
          if now - last_monitor s1 \<ge> monitor_interval
          then
            lte_then (if \<not> lx_initialized (lte_context_of s1) then Returns () s1
                      else if lte_handler_is_connected s1 then lte_link_up w s1
                      else lte_link_down w reconnect_interval now s1)
              (\<lambda>_ s2. Returns () (s2\<lparr>last_monitor := now\<rparr>))
          else Returns () s1))"

text \<open>Start and stop; \<open>created\<close>: memory for the task, and the task created.\<close>

definition lte_connect_task_start :: "bool \<Rightarrow> lte_sys \<Rightarrow> lte_sys" where
  "lte_connect_task_start created s =
     (if lx_task_running (lte_context_of s) then s
      else if byte_at (lt_apn (lx_cfg (lte_context_of s))) 0 = 0 then s
      else set_lte_context (\<lambda>x. x\<lparr>lx_initialized := False, lx_task_running := created\<rparr>) s)"

definition lte_connect_task_stop :: "lte_world \<Rightarrow> lte_sys \<Rightarrow> unit lte_run" where
  "lte_connect_task_stop w s0 =
     (if \<not> lx_task_running (lte_context_of s0) then Returns () s0
      else
        let s = set_lte_context (\<lambda>x. x\<lparr>lx_task_running := False\<rparr>) s0
        in if \<not> lx_initialized (lte_context_of s) then Returns () s
           else lte_then (if lte_handler_is_connected s then lte_then (lte_handler_disconnect w s) (\<lambda>_ s1. Returns () s1) else Returns () s)
                  (\<lambda>_ s2. lte_then (lte_handler_deinit w s2)
                     (\<lambda>_ s3. Returns () (set_lte_context (\<lambda>x. x\<lparr>lx_initialized := False\<rparr>) s3))))"

section \<open>All steps of the program\<close>

datatype lte_action =
    LteIp lte_ip_event | LtePpp lte_ppp_event | LteUartStopped | LteBg | LteBgReconnect lte_world | LteBegin lte_world
  | LteTurn lte_world u32 u32 "lte_config_data option" u32 | LteStart bool | LteStop lte_world
  | LteSignal "esp_err \<times> u32 \<times> u32" | LteAuto bool | LteParams u32 u32 | LteState

fun after :: "'a lte_run \<Rightarrow> lte_sys" where
  "after (Returns a s) = s"
| "after (Blocks s) = s"

fun lte_step :: "lte_action \<Rightarrow> lte_sys \<Rightarrow> lte_sys" where
  "lte_step (LteIp e) s = after (on_ip_event e s)"
| "lte_step (LtePpp e) s = after (on_ppp_changed e s)"
| "lte_step LteUartStopped s = after (uart_modem_ppp_stop s)"
| "lte_step LteBg s = after (lte_handler_bg_turn s)"
| "lte_step (LteBgReconnect w) s = after (lte_bg_reconnect w s)"
| "lte_step (LteBegin w) s = after (lte_task_begin w s)"
| "lte_step (LteTurn w mi ri c now) s = after (lte_task_turn w mi ri c now s)"
| "lte_step (LteStart created) s = lte_connect_task_start created s"
| "lte_step (LteStop w) s = after (lte_connect_task_stop w s)"
| "lte_step (LteSignal a) s = snd (lte_handler_get_signal_strength a s)"
| "lte_step (LteAuto b) s = snd (lte_handler_set_auto_reconnect b s)"
| "lte_step (LteParams t m) s = snd (lte_handler_set_reconnect_params t m s)"
| "lte_step LteState s = after (lte_handler_get_state s)"

text \<open>The dials among the outputs.\<close>

fun is_dial :: "lte_out \<Rightarrow> bool" where
  "is_dial (LtePdp a) = True"
| "is_dial (LteSetApn a) = True"
| "is_dial (LtePppStart c) = True"
| "is_dial _ = False"

definition dials :: "lte_sys \<Rightarrow> lte_out list" where
  "dials s = filter is_dial (lte_outs s)"


lemma dials_upd [simp]: "dials (upd_ctx f s) = dials s" by (simp add: dials_def upd_ctx_def)
lemma dials_set_lte [simp]: "dials (set_lte_context f s) = dials s" by (simp add: dials_def set_lte_context_def)
lemma dials_emit [simp]: "dials (lte_emit os s) = dials s @ filter is_dial os" by (simp add: dials_def lte_emit_def)
lemma dials_fields [simp]:
  "dials (s\<lparr>lctx := a\<rparr>) = dials s" "dials (s\<lparr>lte_handlers := b\<rparr>) = dials s" "dials (s\<lparr>ltk := c\<rparr>) = dials s"
  "dials (s\<lparr>is_internet_connected := b\<rparr>) = dials s" "dials (s\<lparr>g_lte_sntp_started := b\<rparr>) = dials s"
  "dials (s\<lparr>s_dns_applied := b\<rparr>) = dials s" "dials (s\<lparr>offline_timeout_ticks := n\<rparr>) = dials s"
  "dials (s\<lparr>last_monitor := n\<rparr>) = dials s" "dials (s\<lparr>last_reconnect_attempt := n\<rparr>) = dials s" "dials (s\<lparr>reconnect_count := n\<rparr>) = dials s"
  by (simp_all add: dials_def)

text \<open>A run that dials nowhere.\<close>

definition silent :: "lte_sys \<Rightarrow> 'a lte_run \<Rightarrow> bool" where
  "silent s r \<longleftrightarrow> dials (after r) = dials s"

lemma silent_Returns [simp]: "silent s (Returns a s') \<longleftrightarrow> dials s' = dials s" by (simp add: silent_def)
lemma silent_Blocks [simp]: "silent s (Blocks s') \<longleftrightarrow> dials s' = dials s" by (simp add: silent_def)
lemma silent_then: "silent s r \<Longrightarrow> (\<And>a s'. dials s' = dials s \<Longrightarrow> silent s (f a s')) \<Longrightarrow> silent s (lte_then r f)"
  by (cases r) auto

lemma silent_trans: "silent s' r \<Longrightarrow> dials s' = dials s \<Longrightarrow> silent s r"
  by (simp add: silent_def)


lemma set_state_silent: "silent s (set_state x s)"
  by (auto simp: set_state_def split: option.split)
lemmas set_state_silent' = silent_trans [OF set_state_silent]
lemma on_ip_silent: "silent s (on_ip_event e s)"
  by (auto simp: on_ip_event_def Let_def intro!: silent_then set_state_silent' split: lte_ip_event.split)
lemma on_ppp_silent: "silent s (on_ppp_changed e s)"
  by (auto simp: on_ppp_changed_def Let_def intro!: silent_then set_state_silent' split: lte_ppp_event.split option.split)
lemma on_ips_silent: "silent s (on_ip_events es s)"
  by (induction es arbitrary: s) (auto intro!: silent_then on_ip_silent intro: silent_trans)
lemma disconnect_silent: "silent s (lte_handler_disconnect w s)"
  by (auto simp: lte_handler_disconnect_def Let_def intro!: silent_then set_state_silent' split: option.split)
lemmas disconnect_silent' = silent_trans [OF disconnect_silent]
lemma deinit_silent: "silent s (lte_handler_deinit w s)"
  by (auto simp: lte_handler_deinit_def Let_def intro!: silent_then disconnect_silent' split: option.split)
lemmas deinit_silent' = silent_trans [OF deinit_silent]
lemma setup_silent: "silent s (lte_modem_setup w x s)"
  by (auto simp: lte_modem_setup_def uart_modem_init_def usb_modem_init_def Let_def intro!: silent_then silent_trans [OF on_ips_silent]
      split: lte_comm_type.split)
lemma init_silent: "silent s (lte_handler_init w x s)"
  by (auto simp: lte_handler_init_def Let_def intro!: silent_then set_state_silent' deinit_silent' silent_trans [OF setup_silent])

text \<open>The mutex is taken, and then taken again.\<close>

lemma connect_cases:
  "lte_handler_connect w s =
     (case lctx s of
        None \<Rightarrow> Returns ESP_ERR_INVALID_STATE s
      | Some c \<Rightarrow>
          if lh_mutex c then Returns ESP_ERR_TIMEOUT s
          else if lh_state c \<in> {LTE_STATE_CONNECTED, LTE_STATE_CONNECTING} then Returns ESP_OK s
          else Blocks (upd_ctx (\<lambda>c. c\<lparr>lh_mutex := True\<rparr>) s))"
  by (auto simp: lte_handler_connect_def set_state_def upd_ctx_def Let_def split: option.split)

lemma connect_silent: "silent s (lte_handler_connect w s)"
  by (auto simp: connect_cases split: option.split)
lemmas connect_silent' = silent_trans [OF connect_silent]

lemma init_with_config_silent: "silent s (lte_init_with_config w s)"
  by (auto simp: lte_init_with_config_def Let_def intro!: silent_then disconnect_silent' deinit_silent' silent_trans [OF init_silent] connect_silent')
lemmas init_with_config_silent' = silent_trans [OF init_with_config_silent]

lemma link_up_silent: "silent s (lte_link_up w s)"
  by (auto simp: lte_link_up_def Let_def intro!: silent_then init_with_config_silent')
lemma link_down_silent: "silent s (lte_link_down w ri now s)"
  by (auto simp: lte_link_down_def lte_handler_get_state_def Let_def intro!: silent_then connect_silent' split: option.split)
lemma turn_silent: "silent s (lte_task_turn w mi ri c now s)"
  by (auto simp: lte_task_turn_def lte_take_config_def Let_def split: option.split
      intro!: silent_then init_with_config_silent' silent_trans [OF link_up_silent] silent_trans [OF link_down_silent])

lemma bg_silent: "silent s (lte_handler_bg_turn s)"
  by (auto simp: lte_handler_bg_turn_def intro!: silent_then set_state_silent' split: option.split)
lemma bg_reconnect_silent: "silent s (lte_bg_reconnect w s)"
  by (auto simp: lte_bg_reconnect_def intro!: silent_then connect_silent')
lemma stop_silent: "silent s (lte_connect_task_stop w s)"
  by (auto simp: lte_connect_task_stop_def Let_def intro!: silent_then disconnect_silent' deinit_silent')

lemma step_silent: "dials (lte_step x s) = dials s"
proof (cases x)
  case LteUartStopped
  then show ?thesis using set_state_silent' [of "upd_ctx (\<lambda>c. c\<lparr>lh_disconnect_bit := True\<rparr>) s" s]
    by (simp add: uart_modem_ppp_stop_def silent_def)
next
  case (LteSignal a)
  then show ?thesis by (auto simp: lte_handler_get_signal_strength_def split: option.split prod.split)
qed (use on_ip_silent on_ppp_silent bg_silent bg_reconnect_silent init_with_config_silent' turn_silent stop_silent in
  \<open>auto simp: silent_def lte_task_begin_def lte_connect_task_start_def lte_handler_set_auto_reconnect_def
     lte_handler_set_reconnect_params_def lte_handler_get_state_def split: option.split\<close>)

interpretation lte_calls: invariant_step lte_step "\<lambda>s. dials s = ds" for ds
  by unfold_locales (simp add: step_silent)

text \<open>
  C35. The handler never dials. Whatever happens, in whatever order, with all events, tasks, starts and stops, not one of the operations
  sends the modem an access point name or asks it to start a connection: \<open>lte_handler_connect\<close> either finds the connection up already, or
  waits for a mutex it holds itself. What is left are the connections the USB driver makes while it is initialised.
\<close>

theorem lte_never_dials: "dials (fold lte_step xs s) = dials s"
  by (rule lte_calls.run_inv) (rule refl)

section \<open>The mutex taken twice\<close>

lemma upd_ctx_fields [simp]:
  "ltk (upd_ctx f s) = ltk s" "is_internet_connected (upd_ctx f s) = is_internet_connected s" "lctx (upd_ctx f s) = map_option f (lctx s)"
  "lte_handlers (upd_ctx f s) = lte_handlers s" "g_not_ppp_to_lan (upd_ctx f s) = g_not_ppp_to_lan s"
  "lte_outs (upd_ctx f s) = lte_outs s" "offline_timeout_ticks (upd_ctx f s) = offline_timeout_ticks s"
  by (simp_all add: upd_ctx_def)

lemma emit_fields [simp]:
  "ltk (lte_emit os s) = ltk s" "is_internet_connected (lte_emit os s) = is_internet_connected s" "lctx (lte_emit os s) = lctx s"
  "lte_handlers (lte_emit os s) = lte_handlers s" "g_not_ppp_to_lan (lte_emit os s) = g_not_ppp_to_lan s"
  "lte_outs (lte_emit os s) = lte_outs s @ os" "offline_timeout_ticks (lte_emit os s) = offline_timeout_ticks s"
  by (simp_all add: lte_emit_def)

lemma set_lte_fields [simp]:
  "is_internet_connected (set_lte_context f s) = is_internet_connected s" "lctx (set_lte_context f s) = lctx s"
  "lte_context_of (set_lte_context f s) = f (lte_context_of s)" "lan (ltk (set_lte_context f s)) = lan (ltk s)"
  "lte_handlers (set_lte_context f s) = lte_handlers s" "lte_outs (set_lte_context f s) = lte_outs s"
  by (simp_all add: set_lte_context_def)

text \<open>What still works while a task that waits for the mutex holds it.\<close>

definition lte_stuck :: "lte_sys \<Rightarrow> bool" where
  "lte_stuck s \<longleftrightarrow> lte_handler_get_state s = Blocks s \<and>
     (\<forall>a. lte_handler_get_signal_strength a s = ((ESP_ERR_TIMEOUT, 0, 0), s)) \<and>
     (\<forall>b. lte_handler_set_auto_reconnect b s = (ESP_ERR_TIMEOUT, s)) \<and>
     (\<forall>w. lte_handler_connect w s = Returns ESP_ERR_TIMEOUT s) \<and>
     (\<not> g_not_ppp_to_lan s \<longrightarrow> (\<forall>info. \<exists>s'. on_ip_event (IP_EVENT_PPP_GOT_IP info) s = Blocks s'))"

lemma held_stuck: "lctx s = Some c \<Longrightarrow> lh_mutex c \<Longrightarrow> lte_stuck s"
  by (auto simp: lte_stuck_def lte_handler_get_state_def lte_handler_get_signal_strength_def lte_handler_set_auto_reconnect_def
      connect_cases on_ip_event_def set_state_def Let_def)

text \<open>
  C9. A lost connection stops the task for good. When the monitor finds that the modem is not connected and tries to connect again, the task
  takes the handler's mutex and, in \<open>set_state\<close>, waits for it once more: it never returns, and keeps the mutex. From then on (\<open>lte_stuck\<close>)
  the operations that wait for the mutex with a bound give up: connecting, reading the signal strength and setting the automatic
  reconnection return \<open>ESP_ERR_TIMEOUT\<close> and change nothing. Those that wait without one do not return: reading the state, and, when the
  handler looks at PPP events, the event of a new address, which blocks the task of the event loop.
\<close>

theorem lte_lost_link_hangs:
  assumes c: "lctx s = Some c" "\<not> lh_mutex c" "lh_state c \<notin> {LTE_STATE_CONNECTED, LTE_STATE_CONNECTING}"
    and running: "lx_task_running (lte_context_of s)" "lx_initialized (lte_context_of s)"
    and due: "now - last_monitor s \<ge> mi" "now - last_reconnect_attempt s \<ge> ri"
      "lt_max_reconnect_attempts (lx_cfg (lte_context_of s)) = 0 \<or> reconnect_count s < lt_max_reconnect_attempts (lx_cfg (lte_context_of s))"
  shows "\<exists>s'. lte_task_turn w mi ri None now s = Blocks s' \<and> \<not> is_internet_connected s' \<and> lte_stuck s' \<and>
    lctx s' = Some (c\<lparr>lh_mutex := True\<rparr>)"
proof -
  have "lte_task_turn w mi ri None now s = Blocks (upd_ctx (\<lambda>c. c\<lparr>lh_mutex := True\<rparr>) (s\<lparr>is_internet_connected := False\<rparr>))"
    using assms by (simp add: lte_task_turn_def lte_handler_is_connected_def lte_link_down_def lte_handler_get_state_def connect_cases)
  then show ?thesis using c by (auto intro: held_stuck)
qed

text \<open>
  C11. The reconnection blocks the switch to the other connection. When the connection ends and reconnecting is switched on, the handler's own
  task sets the state to reconnecting and, after its delay, when no event has come in it, is caught in the same way. To
  stop the LTE connection then, as the Internet monitor does before it starts the fallback, is to wait for that mutex: after the modem has
  been told to stop, the caller does not return either.
\<close>

theorem lte_reconnect_blocks_stop:
  assumes c: "lctx s = Some c" "\<not> lh_mutex c" "lh_initialized c" "lh_auto_reconnect c"
    and lost: "\<not> g_not_ppp_to_lan s" "lh_max_attempts c = 0 \<or> lh_reconnect_attempts c < lh_max_attempts c"
    and running: "lx_task_running (lte_context_of s)" "lx_initialized (lte_context_of s)"
  shows "\<exists>s1 s2 s3 s4. on_ip_event IP_EVENT_PPP_LOST_IP s = Returns () s1 \<and> lte_handler_bg_turn s1 = Returns True s2 \<and>
    lte_bg_reconnect w s2 = Blocks s3 \<and> lte_stuck s3 \<and>
    lte_connect_task_stop w' s3 = Blocks s4 \<and> lte_outs s4 = lte_outs s @ [LtePppStop (lh_comm c)]"
proof -
  let ?s1 = "upd_ctx (\<lambda>c. c\<lparr>lh_network_info_valid := False, lh_state := LTE_STATE_DISCONNECTED\<rparr>) s"
  have "on_ip_event IP_EVENT_PPP_LOST_IP s = Returns () ?s1"
    using c(1,2) lost(1) by (simp add: on_ip_event_def set_state_def upd_ctx_def)
  moreover let ?s2 = "upd_ctx (\<lambda>c. c\<lparr>lh_reconnect_attempts := lh_reconnect_attempts c + 1, lh_state := LTE_STATE_RECONNECTING\<rparr>) ?s1"
  have "lte_handler_bg_turn ?s1 = Returns True ?s2"
    using c lost(2) by (simp add: lte_handler_bg_turn_def set_state_def upd_ctx_def)
  moreover let ?s3 = "upd_ctx (\<lambda>c. c\<lparr>lh_mutex := True\<rparr>) ?s2"
  have "lte_bg_reconnect w ?s2 = Blocks ?s3"
    using c by (simp add: lte_bg_reconnect_def connect_cases)
  moreover have "lte_stuck ?s3" using c(1) by (auto intro: held_stuck)
  moreover have "\<exists>s4. lte_connect_task_stop w' ?s3 = Blocks s4 \<and> lte_outs s4 = lte_outs s @ [LtePppStop (lh_comm c)]"
    using c(1) running by (simp add: lte_connect_task_stop_def lte_handler_is_connected_def lte_handler_deinit_def
        lte_handler_disconnect_def set_state_def Let_def)
  ultimately show ?thesis by blast
qed

section \<open>Initialisation\<close>

definition mutex_free :: "lte_sys \<Rightarrow> bool" where
  "mutex_free s \<longleftrightarrow> (\<exists>c. lctx s = Some c \<and> \<not> lh_mutex c)"

text \<open>With a free mutex, an event returns and leaves all but the state of the connection.\<close>

lemma ip_event_returns:
  assumes "lctx s = Some c" "\<not> lh_mutex c"
  shows "\<exists>s' c'. on_ip_event e s = Returns () s' \<and> lctx s' = Some c' \<and> \<not> lh_mutex c' \<and> lh_initialized c' = lh_initialized c \<and>
    lh_comm c' = lh_comm c \<and> ltk s' = ltk s \<and> lte_handlers s' = lte_handlers s \<and> (\<exists>os. lte_outs s' = lte_outs s @ os)"
  using assms by (cases e) (auto simp: on_ip_event_def set_state_def Let_def)

lemma ip_events_return:
  assumes "lctx s = Some c" "\<not> lh_mutex c"
  shows "\<exists>s' c'. on_ip_events es s = Returns () s' \<and> lctx s' = Some c' \<and> \<not> lh_mutex c' \<and> lh_initialized c' = lh_initialized c \<and>
    lh_comm c' = lh_comm c \<and> ltk s' = ltk s \<and> lte_handlers s' = lte_handlers s \<and> (\<exists>os. lte_outs s' = lte_outs s @ os)"
  using assms
proof (induction es arbitrary: s c)
  case (Cons e es)
  obtain s' c' where e: "on_ip_event e s = Returns () s'" "lctx s' = Some c'" "\<not> lh_mutex c'" "lh_initialized c' = lh_initialized c"
    "lh_comm c' = lh_comm c" "ltk s' = ltk s" "lte_handlers s' = lte_handlers s" "\<exists>os. lte_outs s' = lte_outs s @ os"
    using ip_event_returns [OF Cons.prems, of e] by blast
  from Cons.IH [OF e(2,3)] e show ?case by auto
qed auto

lemma setup_returns:
  assumes "lctx s = Some c" "\<not> lh_mutex c"
  shows "\<exists>ret s' c'. lte_modem_setup w k s = Returns ret s' \<and> lctx s' = Some c' \<and> \<not> lh_mutex c' \<and> lh_initialized c' = lh_initialized c \<and>
    lh_comm c' = lh_comm c \<and> ltk s' = ltk s \<and> lte_handlers s' = lte_handlers s \<and> (\<exists>os. lte_outs s' = lte_outs s @ os)"
proof (cases k)
  case LTE_HANDLER_UART
  with assms show ?thesis by (auto simp: lte_modem_setup_def uart_modem_init_def Let_def)
next
  case LTE_HANDLER_USB
  have "lctx (lte_emit [LteModemInit LTE_HANDLER_USB] s) = Some c" using assms by simp
  from ip_events_return [OF this assms(2), of "lw_init_events w"] LTE_HANDLER_USB show ?thesis
    using assms by (auto simp: lte_modem_setup_def usb_modem_init_def)
qed

lemma disconnect_returns:
  assumes "lctx s = Some c" "\<not> lh_mutex c"
  shows "\<exists>ret s' c'. lte_handler_disconnect w s = Returns ret s' \<and> lctx s' = Some c' \<and> \<not> lh_mutex c' \<and> lh_comm c' = lh_comm c \<and>
    lh_state c' \<notin> {LTE_STATE_CONNECTED, LTE_STATE_CONNECTING, LTE_STATE_RECONNECTING} \<and> ltk s' = ltk s \<and>
    lte_outs s' = lte_outs s @ (if lh_state c \<in> {LTE_STATE_CONNECTED, LTE_STATE_CONNECTING, LTE_STATE_RECONNECTING} then [LtePppStop (lh_comm c)] else [])"
  using assms by (auto simp: lte_handler_disconnect_def set_state_def Let_def)

lemma deinit_returns:
  assumes "lctx s = Some c" "\<not> lh_mutex c"
  shows "\<exists>s'. lte_handler_deinit w s = Returns ESP_OK s' \<and> lctx s' = None \<and> \<not> lte_handlers s' \<and> ltk s' = ltk s \<and>
    lte_outs s' = lte_outs s @ (if lh_state c \<in> {LTE_STATE_CONNECTED, LTE_STATE_CONNECTING, LTE_STATE_RECONNECTING} then [LtePppStop (lh_comm c)] else [])
      @ [LteModemDeinit (lh_comm c)]"
  using assms by (auto simp: lte_handler_deinit_def lte_handler_disconnect_def set_state_def Let_def)

text \<open>All or nothing.\<close>

lemma init_returns:
  assumes "lctx s = None" "\<not> lte_handlers s"
  shows "\<exists>ret s'. lte_handler_init w x s = Returns ret s' \<and> ltk s' = ltk s \<and> (\<exists>os. lte_outs s' = lte_outs s @ os) \<and>
    (if ret = ESP_OK then lte_handlers s' \<and> (\<exists>c. lctx s' = Some c \<and> \<not> lh_mutex c \<and> lh_initialized c \<and> lh_bg_task c \<and> lh_state c = LTE_STATE_CONNECTED)
     else lctx s' = None \<and> \<not> lte_handlers s')"
proof (cases "lw_calloc w \<and> lw_sync w")
  case False
  with assms show ?thesis by (auto simp: lte_handler_init_def lte_handler_deinit_def new_lte_ctx_def Let_def)
next
  case True
  let ?c = "(new_lte_ctx x)\<lparr>lh_state := LTE_STATE_INITIALIZING, lh_initialized := True\<rparr>"
  let ?s = "s\<lparr>lctx := Some ?c, lte_handlers := True\<rparr>"
  obtain ret s1 c1 where m: "lte_modem_setup w (lt_comm_type x) ?s = Returns ret s1" "lctx s1 = Some c1" "\<not> lh_mutex c1" "lh_initialized c1"
    "ltk s1 = ltk s" "lte_handlers s1" "\<exists>os. lte_outs s1 = lte_outs s @ os"
    using setup_returns [of ?s ?c w "lt_comm_type x"] by (auto simp: new_lte_ctx_def)
  have start: "lte_handler_init w x s = lte_then (Returns ret s1) (\<lambda>ret s3.
               if ret \<noteq> ESP_OK then lte_then (lte_handler_deinit w s3) (\<lambda>_ s'. Returns ret s')
               else lte_then (set_state LTE_STATE_INITIALIZED s3) (\<lambda>_ s4.
                 lte_then (set_state LTE_STATE_CONNECTED (upd_ctx (\<lambda>c. c\<lparr>lh_bg_task := True\<rparr>) s4)) (\<lambda>_ s5. Returns ESP_OK s5)))"
    using True assms m(1) by (simp add: lte_handler_init_def set_state_def upd_ctx_def Let_def new_lte_ctx_def)
  show ?thesis
  proof (cases "ret = ESP_OK")
    case True
    with m show ?thesis by (auto simp: start set_state_def)
  next
    case False
    with m deinit_returns [OF m(2,3), of w] show ?thesis by (auto simp: start)
  qed
qed

lemma init_with_config_returns:
  assumes "if lx_initialized (lte_context_of s) then mutex_free s else lctx s = None \<and> \<not> lte_handlers s"
  shows "\<exists>ret s'. lte_init_with_config w s = Returns ret s' \<and>
    (\<forall>c. lx_initialized (lte_context_of s) \<longrightarrow> lctx s = Some c \<longrightarrow> lh_state c = LTE_STATE_CONNECTED \<longrightarrow> (\<exists>rest. lte_outs s' = lte_outs s @
       [LtePppStop (lh_comm c), LteModemDeinit (lh_comm c),
        LtePins (lt_pwr_pin (lx_cfg (lte_context_of s))) (lt_rst_pin (lx_cfg (lte_context_of s)))] @ rest)) \<and>
    (if ret = ESP_OK then lx_initialized (lte_context_of s') \<and> mutex_free s' \<and> lte_handler_is_connected s' \<and> lte_handlers s'
     else \<not> lx_initialized (lte_context_of s') \<and> lctx s' = None \<and> \<not> lte_handlers s')"
proof -
  let ?old = "if lx_initialized (lte_context_of s)
            then lte_then (lte_handler_disconnect w s) (\<lambda>_ s. lte_then (lte_handler_deinit w s)
                   (\<lambda>_ s'. Returns () (set_lte_context (\<lambda>x. x\<lparr>lx_initialized := False\<rparr>) s')))
            else Returns () s"
  obtain s1 where s1: "?old = Returns () s1" "lctx s1 = None" "\<not> lte_handlers s1" "\<not> lx_initialized (lte_context_of s1)"
    "lx_cfg (lte_context_of s1) = lx_cfg (lte_context_of s)"
    "\<forall>c. lx_initialized (lte_context_of s) \<longrightarrow> lctx s = Some c \<longrightarrow> lh_state c = LTE_STATE_CONNECTED \<longrightarrow>
       lte_outs s1 = lte_outs s @ [LtePppStop (lh_comm c), LteModemDeinit (lh_comm c)]"
  proof (cases "lx_initialized (lte_context_of s)")
    case True
    with assms obtain c where c: "lctx s = Some c" "\<not> lh_mutex c" by (auto simp: mutex_free_def)
    obtain r sd cd where d: "lte_handler_disconnect w s = Returns r sd" "lctx sd = Some cd" "\<not> lh_mutex cd"
      "lh_comm cd = lh_comm c" "lh_state cd \<notin> {LTE_STATE_CONNECTED, LTE_STATE_CONNECTING, LTE_STATE_RECONNECTING}" "ltk sd = ltk s"
      "lte_outs sd = lte_outs s @ (if lh_state c \<in> {LTE_STATE_CONNECTED, LTE_STATE_CONNECTING, LTE_STATE_RECONNECTING} then [LtePppStop (lh_comm c)] else [])"
      using disconnect_returns [OF c, of w] by blast
    from deinit_returns [OF d(2,3), of w] d c(1) True that show ?thesis by auto
  qed (use assms in auto)
  let ?x = "lx_cfg (lte_context_of s1)"
  obtain ret s2 where i: "lte_handler_init w ?x (lte_emit [LtePins (lt_pwr_pin ?x) (lt_rst_pin ?x)] s1) = Returns ret s2" "ltk s2 = ltk s1"
    "\<exists>os. lte_outs s2 = lte_outs s1 @ LtePins (lt_pwr_pin ?x) (lt_rst_pin ?x) # os"
    "if ret = ESP_OK then lte_handlers s2 \<and> (\<exists>c. lctx s2 = Some c \<and> \<not> lh_mutex c \<and> lh_initialized c \<and> lh_bg_task c \<and> lh_state c = LTE_STATE_CONNECTED)
     else lctx s2 = None \<and> \<not> lte_handlers s2"
    using init_returns [of "lte_emit [LtePins (lt_pwr_pin ?x) (lt_rst_pin ?x)] s1" w ?x] s1 by auto
  show ?thesis
  proof (cases "ret = ESP_OK")
    case True
    with i(4) obtain c where c: "lctx s2 = Some c" "\<not> lh_mutex c" "lh_state c = LTE_STATE_CONNECTED" "lte_handlers s2" by auto
    with True i(1,3) s1(1,5,6) show ?thesis
      by (auto simp add: lte_init_with_config_def Let_def connect_cases mutex_free_def lte_handler_is_connected_def)
  next
    case False
    with i s1 show ?thesis by (auto simp add: lte_init_with_config_def Let_def)
  qed
qed

section \<open>Turns of the task\<close>

primrec lte_turns :: "lte_world \<Rightarrow> u32 \<Rightarrow> u32 \<Rightarrow> u32 list \<Rightarrow> lte_sys \<Rightarrow> unit lte_run" where
  "lte_turns w mi ri [] s = Returns () s"
| "lte_turns w mi ri (now # nows) s = lte_then (lte_task_turn w mi ri None now s) (\<lambda>_ s1. lte_turns w mi ri nows s1)"

fun spaced :: "u32 \<Rightarrow> u32 \<Rightarrow> u32 list \<Rightarrow> bool" where
  "spaced mi t [] = True"
| "spaced mi t (now # nows) = (mi \<le> now - t \<and> spaced mi now nows)"

lemma lte_turns_append: "lte_turns w mi ri (xs @ ys) s = lte_then (lte_turns w mi ri xs s) (\<lambda>_ s1. lte_turns w mi ri ys s1)"
proof (induction xs arbitrary: s)
  case (Cons x xs)
  then show ?case by (cases "lte_task_turn w mi ri None x s") simp_all
qed simp

text \<open>
  C34. A modem that cannot be set up is given up. When the initialisation of the task fails, it leaves no context and no handlers, and in
  every later turn, without a new configuration, the task does nothing but note the time: the \<open>auto-reconnect\<close> the code counts on
  does not exist.
\<close>

theorem lte_failed_init_final:
  assumes "lctx s = None" "\<not> lte_handlers s" "\<not> lx_initialized (lte_context_of s)"
    and "lte_task_begin w s = Returns e s1" "\<not> lx_initialized (lte_context_of s1)"
  shows "e \<noteq> ESP_OK \<and> lctx s1 = None \<and> \<not> lte_handlers s1 \<and>
    (\<exists>t. lte_turns w' mi ri nows s1 = Returns () (s1\<lparr>last_monitor := t\<rparr>))"
proof -
  let ?s = "s\<lparr>last_monitor := 0, last_reconnect_attempt := 0, reconnect_count := 0\<rparr>"
  have "e \<noteq> ESP_OK \<and> lctx s1 = None \<and> \<not> lte_handlers s1"
    using init_with_config_returns [of ?s w] assms by (auto simp: lte_task_begin_def split: if_splits)
  moreover have "\<exists>t. lte_turns w' mi ri nows (s1\<lparr>last_monitor := t0\<rparr>) = Returns () (s1\<lparr>last_monitor := t\<rparr>)" for t0
  proof (induction nows arbitrary: t0)
    case (Cons now nows)
    have "\<exists>t. lte_task_turn w' mi ri None now (s1\<lparr>last_monitor := t0\<rparr>) = Returns () (s1\<lparr>last_monitor := t\<rparr>)"
      using assms(5) by (auto simp: lte_task_turn_def)
    with Cons.IH show ?case by auto
  qed auto
  from this [of "last_monitor s1"] have "\<exists>t. lte_turns w' mi ri nows s1 = Returns () (s1\<lparr>last_monitor := t\<rparr>)" by simp
  ultimately show ?thesis by blast
qed

text \<open>
  A serial modem is reported online without a connection. After the modem has answered, \<open>lte_handler_init\<close> sets the state to
  connected, so that nothing is dialled; and the next turn of the monitor tells the rest of the gateway that the Internet is
  reached, while there is no address.
\<close>

lemma lte_uart_online_unconnected:
  assumes "lctx s = None" "\<not> lte_handlers s" "\<not> lx_initialized (lte_context_of s)" "lx_task_running (lte_context_of s)"
    and "lt_comm_type (lx_cfg (lte_context_of s)) = LTE_HANDLER_UART" "\<not> is_internet_connected s"
    and w: "lw_calloc w" "lw_sync w" "lw_dte w" "lw_dce w" "lw_adapter w" and "now \<ge> mi"
  shows "\<exists>s1 s2 c. lte_task_begin w s = Returns ESP_OK s1 \<and> lte_task_turn w mi ri None now s1 = Returns () s2 \<and>
    is_internet_connected s2 \<and> mcu_lan_handler_get_internet_status (lan (ltk s2)) = INTERNET_STATUS_ONLINE \<and>
    dials s2 = dials s \<and> lctx s2 = Some c \<and> \<not> lh_network_info_valid c"
proof -
  let ?s = "s\<lparr>last_monitor := 0, last_reconnect_attempt := 0, reconnect_count := 0\<rparr>" and ?x = "lx_cfg (lte_context_of s)"
  have "\<exists>s2 c. lte_handler_init w ?x (lte_emit [LtePins (lt_pwr_pin ?x) (lt_rst_pin ?x)] ?s) = Returns ESP_OK s2 \<and> lctx s2 = Some c \<and>
      \<not> lh_mutex c \<and> lh_state c = LTE_STATE_CONNECTED \<and> \<not> lh_network_info_valid c \<and> ltk s2 = ltk s \<and>
      is_internet_connected s2 = is_internet_connected s \<and> last_monitor s2 = 0"
    using assms by (simp add: lte_handler_init_def lte_modem_setup_def uart_modem_init_def set_state_def new_lte_ctx_def Let_def upd_ctx_def lte_emit_def)
  then obtain s2 c where i: "lte_handler_init w ?x (lte_emit [LtePins (lt_pwr_pin ?x) (lt_rst_pin ?x)] ?s) = Returns ESP_OK s2" "lctx s2 = Some c"
      "\<not> lh_mutex c" "lh_state c = LTE_STATE_CONNECTED" "\<not> lh_network_info_valid c" "ltk s2 = ltk s"
      "\<not> is_internet_connected s2" "last_monitor s2 = 0" using assms(6) by blast
  let ?s1 = "set_lte_context (\<lambda>x. x\<lparr>lx_initialized := True\<rparr>) s2"
  have b: "lte_task_begin w s = Returns ESP_OK ?s1"
    using assms(3) i by (simp add: lte_task_begin_def lte_init_with_config_def Let_def connect_cases)
  have "dials ?s1 = dials s"
    using init_with_config_silent [of ?s w] b by (simp add: lte_task_begin_def silent_def)
  moreover have m: "last_monitor ?s1 = 0" using i(8) by (simp add: set_lte_context_def)
  moreover have "\<exists>s3. lte_task_turn w mi ri None now ?s1 = Returns () s3 \<and> is_internet_connected s3 \<and>
      mcu_lan_handler_get_internet_status (lan (ltk s3)) = INTERNET_STATUS_ONLINE \<and> dials s3 = dials ?s1 \<and> lctx s3 = Some c"
    using assms(4) i m \<open>now \<ge> mi\<close>
    by (simp add: lte_task_turn_def lte_handler_is_connected_def lte_link_up_def Let_def mcu_lan_handler_get_internet_status_def
        mcu_lan_handler_set_internet_status_def)
  ultimately show ?thesis using b i(5) by metis
qed

section \<open>The zombie detector\<close>

definition restarts :: "lte_sys \<Rightarrow> lte_out list" where
  "restarts s = filter (\<lambda>x. x \<noteq> LtePublicDns \<and> x \<noteq> LteSntpInit) (lte_outs s)"

text \<open>A connection that the application reports as offline.\<close>

definition zombie :: "lte_sys \<Rightarrow> lte_handler_ctx \<Rightarrow> bool" where
  "zombie s c \<longleftrightarrow> lctx s = Some c \<and> \<not> lh_mutex c \<and> lh_state c = LTE_STATE_CONNECTED \<and> lx_task_running (lte_context_of s) \<and>
     lx_initialized (lte_context_of s) \<and> is_internet_connected s \<and> mcu_lan_handler_get_internet_status (lan (ltk s)) = INTERNET_STATUS_OFFLINE"

lemma zombie_turn:
  assumes "zombie s c" "mi \<le> now - last_monitor s"
  shows "\<exists>s1. zombie s1 c \<and> lte_context_of s1 = lte_context_of s \<and> restarts s1 = restarts s \<and>
    offline_timeout_ticks s1 = offline_timeout_ticks s + 1 \<and>
    lte_task_turn w mi ri None now s =
      (if offline_timeout_ticks s + 1 \<ge> 180
       then lte_then (lte_init_with_config w s1) (\<lambda>_ s6. Returns () (s6\<lparr>offline_timeout_ticks := 0, s_dns_applied := False, last_monitor := now\<rparr>))
       else Returns () (s1\<lparr>last_monitor := now\<rparr>))"
proof -
  let ?s2 = "if g_lte_sntp_started s then s else lte_emit [LteSntpInit] (s\<lparr>g_lte_sntp_started := True\<rparr>)"
  let ?s3 = "?s2\<lparr>reconnect_count := 0\<rparr>"
  let ?s4 = "if s_dns_applied ?s3 then ?s3 else lte_emit [LtePublicDns] (?s3\<lparr>s_dns_applied := True\<rparr>)"
  let ?s5 = "?s4\<lparr>offline_timeout_ticks := offline_timeout_ticks ?s4 + 1\<rparr>"
  have f: "ltk ?s4 = ltk s" "lctx ?s4 = lctx s" "is_internet_connected ?s4 = is_internet_connected s" "restarts ?s4 = restarts s"
    "offline_timeout_ticks ?s4 = offline_timeout_ticks s"
    by (simp_all add: restarts_def)
  have z: "zombie ?s5 c" "restarts ?s5 = restarts s" using assms(1) f by (simp_all add: zombie_def restarts_def)
  have "lte_link_up w s = (if offline_timeout_ticks ?s5 \<ge> 180
       then lte_then (lte_init_with_config w ?s5) (\<lambda>_ s6. Returns () (s6\<lparr>offline_timeout_ticks := 0, s_dns_applied := False\<rparr>)) else Returns () ?s5)"
    using assms(1) unfolding zombie_def lte_link_up_def Let_def f(1) by simp
  with assms z f show ?thesis
    by (intro exI [of _ ?s5] conjI; (cases "lte_init_with_config w ?s5")?)
      (simp_all add: lte_task_turn_def lte_handler_is_connected_def zombie_def)
qed

lemma zombie_turns:
  assumes "zombie s c" "spaced mi (last_monitor s) nows" "unat (offline_timeout_ticks s) + length nows < 180"
  shows "\<exists>s1. lte_turns w mi ri nows s = Returns () s1 \<and> zombie s1 c \<and> lte_context_of s1 = lte_context_of s \<and> restarts s1 = restarts s \<and>
    unat (offline_timeout_ticks s1) = unat (offline_timeout_ticks s) + length nows \<and>
    last_monitor s1 = (if nows = [] then last_monitor s else last nows)"
  using assms
proof (induction nows arbitrary: s)
  case (Cons now nows)
  have n: "unat (offline_timeout_ticks s + 1) = unat (offline_timeout_ticks s) + 1"
    using Cons.prems(3) by (subst unat_add_lem [THEN iffD1]) simp_all
  then have k: "\<not> offline_timeout_ticks s + 1 \<ge> 180" using Cons.prems(3) by (simp add: word_le_nat_alt)
  obtain s1 where s1: "zombie s1 c" "lte_context_of s1 = lte_context_of s" "restarts s1 = restarts s"
    "offline_timeout_ticks s1 = offline_timeout_ticks s + 1" "lte_task_turn w mi ri None now s = Returns () (s1\<lparr>last_monitor := now\<rparr>)"
    using zombie_turn [OF Cons.prems(1), of mi now w ri] Cons.prems(2) k by auto
  have "zombie (s1\<lparr>last_monitor := now\<rparr>) c" "restarts (s1\<lparr>last_monitor := now\<rparr>) = restarts s1" using s1(1) by (simp_all add: zombie_def restarts_def)
  with Cons.IH [of "s1\<lparr>last_monitor := now\<rparr>"] Cons.prems s1 n show ?case by auto
qed auto

text \<open>
  C21. A dead connection is restarted after three minutes. While the application reports that it is offline although the modem counts as connected,
  each turn of the monitor, a second or more after the one before, counts; for 179 turns nothing is asked of the modem. The 180th shuts it down and sets it up again,
  and returns; the counter is back at 0. Afterwards the modem is connected or, if it did not come up, given up.
\<close>

theorem lte_zombie_restart:
  assumes "zombie s c" "offline_timeout_ticks s = 0" "spaced mi (last_monitor s) nows"
  shows "(length nows < 180 \<longrightarrow>
      (\<exists>s1. lte_turns w mi ri nows s = Returns () s1 \<and> zombie s1 c \<and> restarts s1 = restarts s)) \<and>
    (length nows = 180 \<longrightarrow>
      (\<exists>s1 rest. lte_turns w mi ri nows s = Returns () s1 \<and> offline_timeout_ticks s1 = 0 \<and>
         restarts s1 = restarts s @ [LtePppStop (lh_comm c), LteModemDeinit (lh_comm c),
           LtePins (lt_pwr_pin (lx_cfg (lte_context_of s))) (lt_rst_pin (lx_cfg (lte_context_of s)))] @ rest \<and>
         lte_handler_is_connected s1 = lx_initialized (lte_context_of s1)))"
proof (intro conjI impI)
  assume "length nows < 180"
  then show "\<exists>s1. lte_turns w mi ri nows s = Returns () s1 \<and> zombie s1 c \<and> restarts s1 = restarts s"
    using zombie_turns [OF assms(1,3), of w ri] assms(2) by auto
next
  assume n: "length nows = 180"
  then obtain ts now where ts: "nows = ts @ [now]" "length ts = 179" by (cases nows rule: rev_cases) auto
  have sp: "spaced mi t (xs @ [y]) \<Longrightarrow> spaced mi t xs \<and> mi \<le> y - (if xs = [] then t else last xs)" for t xs y
    by (induction mi t xs rule: spaced.induct) auto
  obtain s1 where s1: "lte_turns w mi ri ts s = Returns () s1" "zombie s1 c" "lte_context_of s1 = lte_context_of s" "restarts s1 = restarts s"
    "unat (offline_timeout_ticks s1) = 179" "last_monitor s1 = (if ts = [] then last_monitor s else last ts)"
    using zombie_turns [OF assms(1), of mi ts w ri] sp assms(2,3) ts by auto
  then have tick: "offline_timeout_ticks s1 = 179" by (simp add: word_unat_eq_iff)
  obtain s2 where s2: "zombie s2 c" "lte_context_of s2 = lte_context_of s" "restarts s2 = restarts s"
    "lte_task_turn w mi ri None now s1 =
      lte_then (lte_init_with_config w s2) (\<lambda>_ s6. Returns () (s6\<lparr>offline_timeout_ticks := 0, s_dns_applied := False, last_monitor := now\<rparr>))"
    using zombie_turn [OF s1(2), of mi now w ri] sp [of "last_monitor s" ts now] assms(3) ts(1) s1 tick by auto
  have "if lx_initialized (lte_context_of s2) then mutex_free s2 else lctx s2 = None \<and> \<not> lte_handlers s2"
    using s2(1) by (auto simp: zombie_def mutex_free_def)
  from init_with_config_returns [OF this, of w] obtain ret s3 where s3: "lte_init_with_config w s2 = Returns ret s3"
    "\<forall>c. lx_initialized (lte_context_of s2) \<longrightarrow> lctx s2 = Some c \<longrightarrow> lh_state c = LTE_STATE_CONNECTED \<longrightarrow> (\<exists>rest. lte_outs s3 = lte_outs s2 @
       [LtePppStop (lh_comm c), LteModemDeinit (lh_comm c),
        LtePins (lt_pwr_pin (lx_cfg (lte_context_of s2))) (lt_rst_pin (lx_cfg (lte_context_of s2)))] @ rest)"
    "if ret = ESP_OK then lx_initialized (lte_context_of s3) \<and> mutex_free s3 \<and> lte_handler_is_connected s3 \<and> lte_handlers s3
     else \<not> lx_initialized (lte_context_of s3) \<and> lctx s3 = None \<and> \<not> lte_handlers s3" by auto
  let ?s = "s3\<lparr>offline_timeout_ticks := 0, s_dns_applied := False, last_monitor := now\<rparr>"
  have "lte_turns w mi ri nows s = Returns () ?s" using s1(1) s2(4) s3(1) by (simp add: ts(1) lte_turns_append)
  moreover have "\<exists>rest. restarts ?s = restarts s @ [LtePppStop (lh_comm c), LteModemDeinit (lh_comm c),
           LtePins (lt_pwr_pin (lx_cfg (lte_context_of s))) (lt_rst_pin (lx_cfg (lte_context_of s)))] @ rest"
    using s3(2) s2(1-3) by (auto simp: zombie_def restarts_def)
  moreover have "lte_handler_is_connected ?s = lx_initialized (lte_context_of ?s)"
    using s3(3) by (auto simp: lte_handler_is_connected_def split: if_splits)
  ultimately show "\<exists>s1 rest. lte_turns w mi ri nows s = Returns () s1 \<and> offline_timeout_ticks s1 = 0 \<and>
         restarts s1 = restarts s @ [LtePppStop (lh_comm c), LteModemDeinit (lh_comm c),
           LtePins (lt_pwr_pin (lx_cfg (lte_context_of s))) (lt_rst_pin (lx_cfg (lte_context_of s)))] @ rest \<and>
         lte_handler_is_connected s1 = lx_initialized (lte_context_of s1)" by fastforce
qed

section \<open>At work\<close>

text \<open>A gateway whose task has just been started, for a modem of the given kind; one that is connected; and one whose connection is
  lost.\<close>

definition demo_lte :: "lte_comm_type \<Rightarrow> lte_sys" where
  "demo_lte k = \<lparr>lctx = None, g_not_ppp_to_lan = False, lte_handlers = False,
     ltk = demo_task\<lparr>cfg := demo_cfg\<lparr>g_lte_ctx := \<lparr>lx_initialized = False, lx_task_running = True,
       lx_cfg = lte_config_zero\<lparr>lt_apn := arr 64 (ascii ''m-wap''), lt_comm_type := k, lt_pwr_pin := 5, lt_rst_pin := 6\<rparr>\<rparr>\<rparr>\<rparr>,
     is_internet_connected = False, g_lte_sntp_started = False, s_dns_applied = False, offline_timeout_ticks = 0,
     last_monitor = 0, last_reconnect_attempt = 0, reconnect_count = 0, lte_outs = []\<rparr>"

definition demo_lte_ctx :: "lte_state \<Rightarrow> lte_handler_ctx" where
  "demo_lte_ctx st = (new_lte_ctx lte_config_zero)\<lparr>lh_auto_reconnect := True, lh_initialized := True, lh_bg_task := True, lh_state := st\<rparr>"

definition demo_lte_up :: "lte_state \<Rightarrow> lte_sys" where
  "demo_lte_up st = set_lte_context (\<lambda>x. x\<lparr>lx_initialized := True\<rparr>)
     ((demo_lte LTE_HANDLER_USB)\<lparr>lctx := Some (demo_lte_ctx st), lte_handlers := True, is_internet_connected := True\<rparr>)"

definition demo_lte_world :: "bool \<Rightarrow> lte_world" where
  "demo_lte_world good = \<lparr>lw_calloc = True, lw_sync = True, lw_dte = True, lw_dce = True, lw_adapter = good,
     lw_info = \<lparr>mi_imei = [], mi_imsi = [], mi_module_name = [], mi_operator_name = [], mi_rssi = 0, mi_ber = 0\<rparr>,
     lw_signal = None, lw_modem_board_init = ESP_OK, lw_init_events = [], lw_set_apn = ESP_OK, lw_ppp_start = ESP_OK, lw_got_ip = None,
     lw_ppp_stop = ESP_OK\<rparr>"

lemma demo_up:
  "lctx (demo_lte_up st) = Some (demo_lte_ctx st)" "lx_task_running (lte_context_of (demo_lte_up st))"
  "lx_initialized (lte_context_of (demo_lte_up st))" "last_monitor (demo_lte_up st) = 0" "last_reconnect_attempt (demo_lte_up st) = 0"
  "lt_max_reconnect_attempts (lx_cfg (lte_context_of (demo_lte_up st))) = 0" "\<not> g_not_ppp_to_lan (demo_lte_up st)"
  "is_internet_connected (demo_lte_up st)" "offline_timeout_ticks (demo_lte_up st) = 0"
  "mcu_lan_handler_get_internet_status (lan (ltk (demo_lte_up st))) = INTERNET_STATUS_OFFLINE"
  by (simp_all add: demo_lte_up_def demo_lte_def set_lte_context_def lte_config_zero_def demo_task_def lan_app_boot_def
      mcu_lan_handler_get_internet_status_def)

lemma demo_lost_ctx:
  "\<not> lh_mutex (demo_lte_ctx st)" "lh_state (demo_lte_ctx st) = st" "lh_initialized (demo_lte_ctx st)" "lh_auto_reconnect (demo_lte_ctx st)"
  "lh_max_attempts (demo_lte_ctx st) = 0"
  by (simp_all add: demo_lte_ctx_def new_lte_ctx_def lte_config_zero_def)

theorem lte_lost_link_hangs_witness:
  "\<exists>s'. lte_task_turn (demo_lte_world True) 100 1000 None 1000 (demo_lte_up LTE_STATE_DISCONNECTED) = Blocks s'"
  using lte_lost_link_hangs [OF demo_up(1) demo_lost_ctx(1) _ demo_up(2,3), of LTE_STATE_DISCONNECTED 100 1000 1000 "demo_lte_world True"]
  by (auto simp: demo_lost_ctx demo_up)

theorem lte_reconnect_blocks_stop_witness:
  "\<exists>s1 s2 s3 s4. on_ip_event IP_EVENT_PPP_LOST_IP (demo_lte_up LTE_STATE_CONNECTED) = Returns () s1 \<and>
     lte_handler_bg_turn s1 = Returns True s2 \<and> lte_bg_reconnect (demo_lte_world True) s2 = Blocks s3 \<and>
     lte_connect_task_stop (demo_lte_world True) s3 = Blocks s4"
  using lte_reconnect_blocks_stop [OF demo_up(1) demo_lost_ctx(1,3,4) demo_up(7) _ demo_up(2,3),
      of LTE_STATE_CONNECTED "demo_lte_world True" "demo_lte_world True"] demo_lost_ctx(5) by blast

lemma demo_fresh:
  "lctx (demo_lte k) = None" "\<not> lte_handlers (demo_lte k)" "\<not> lx_initialized (lte_context_of (demo_lte k))"
  "lx_task_running (lte_context_of (demo_lte k))" "lt_comm_type (lx_cfg (lte_context_of (demo_lte k))) = k" "\<not> is_internet_connected (demo_lte k)"
  by (simp_all add: demo_lte_def)

lemma lte_uart_online_unconnected_applied:
  "\<exists>s1 s2. lte_task_begin (demo_lte_world True) (demo_lte LTE_HANDLER_UART) = Returns ESP_OK s1 \<and>
     lte_task_turn (demo_lte_world True) 100 1000 None 1500 s1 = Returns () s2 \<and> is_internet_connected s2"
  using lte_uart_online_unconnected [OF demo_fresh(1-6), of "demo_lte_world True" 100 1500 1000] by (auto simp: demo_lte_world_def)

theorem lte_failed_init_final_witness:
  "\<exists>s1 t. lte_task_begin (demo_lte_world False) (demo_lte LTE_HANDLER_UART) = Returns ESP_FAIL s1 \<and>
     lte_turns (demo_lte_world True) 100 1000 [1500, 1600, 1700] s1 = Returns () (s1\<lparr>last_monitor := t\<rparr>)"
proof -
  let ?s = "demo_lte LTE_HANDLER_UART" and ?w = "demo_lte_world False"
  have "\<exists>s1. lte_task_begin ?w ?s = Returns ESP_FAIL s1 \<and> \<not> lx_initialized (lte_context_of s1)"
    using demo_fresh [of LTE_HANDLER_UART]
    by (simp add: lte_task_begin_def lte_init_with_config_def lte_handler_init_def lte_modem_setup_def uart_modem_init_def set_state_def
        lte_handler_deinit_def demo_lte_world_def Let_def new_lte_ctx_def)
  then obtain s1 where s1: "lte_task_begin ?w ?s = Returns ESP_FAIL s1" "\<not> lx_initialized (lte_context_of s1)" by blast
  with lte_failed_init_final [OF demo_fresh(1-3) s1, of "demo_lte_world True" 100 1000 "[1500, 1600, 1700]"] show ?thesis by blast
qed

theorem lte_zombie_restart_witness:
  "\<exists>s1. lte_turns (demo_lte_world True) 1 10 (map word_of_nat [1..<181]) (demo_lte_up LTE_STATE_CONNECTED) = Returns () s1 \<and>
     LteModemDeinit (lh_comm (demo_lte_ctx LTE_STATE_CONNECTED)) \<in> set (restarts s1)"
proof -
  have z: "zombie (demo_lte_up LTE_STATE_CONNECTED) (demo_lte_ctx LTE_STATE_CONNECTED)" by (simp add: zombie_def demo_up demo_lost_ctx)
  have "spaced 1 0 (map word_of_nat [1..<181])" by code_simp
  then have "spaced 1 (last_monitor (demo_lte_up LTE_STATE_CONNECTED)) (map word_of_nat [1..<181])" by (simp add: demo_up)
  from lte_zombie_restart [OF z demo_up(9) this, of "demo_lte_world True" 10] show ?thesis by auto
qed

end
