(* ===== verification/Wifi_Station.thy ===== *)
theory Wifi_Station
  imports Fota
begin

text \<open>
  \<open>Application/Internet_Communication_Handler/wifi_handler/src/wifi_connect.c\<close>, the connection to a Wi-Fi network: the handler of the driver's
  events, the task of the first connection, the task that takes new networks from the queue, start and stop, and the
  access point of the configuration mode.

  The Wi-Fi driver is outside: its events are inputs, a list of outputs is what it is asked for; a failed \<open>ESP_ERROR_CHECK\<close>, which
  restarts the chip, is left out. \<open>fota_ap\<close> is the state of \<open>Fota\<close>. The clock is set from the network as in \<open>Ethernet\<close>.

  The properties: how often a lost network is tried; when a new network is used, and when it is not.
\<close>

section \<open>State\<close>

text \<open>The fields of \<open>wifi_config_t\<close> that are set, for the station.\<close>

datatype wifi_threshold = WIFI_AUTH_WPA2_PSK | WIFI_AUTH_WPA2_ENTERPRISE

record wifi_sta_config =
  sta_ssid :: "u8 list"
  sta_password :: "u8 list"
  sta_threshold :: wifi_threshold
  sta_sae_both :: bool                  \<comment> \<open>\<open>sae_pwe_h2e\<close> is \<open>WPA3_SAE_PWE_BOTH\<close>\<close>

datatype wifi_out =
    WifiInit | WifiSta wifi_sta_config | WifiIdentity "u8 list" | WifiEapUser "u8 list" | WifiEapPassword "u8 list"
  | WifiEnterprise bool | WifiStart | WifiConnect | WifiDisconnect | WifiStop | WifiDeinit | WifiAp | WifiSntp

text \<open>\<open>w_group\<close> is the event group with its two bits, \<open>WIFI_CONNECTED_BIT\<close> and \<open>WIFI_FAIL_BIT\<close>. \<open>w_init_task\<close> and
  \<open>w_config_task\<close>: the tasks exist; \<open>w_waits\<close>: the first one is in its wait for a bit.\<close>

record wifi_sys =
  wtk :: task_st                        \<comment> \<open>g_wifi_ctx and its queue\<close>
  g_wifi_netif :: bool
  s_ap_netif :: bool
  w_group :: "(bool \<times> bool) option"
  w_handlers :: bool
  s_retry_num :: nat
  s_wifi_connected :: bool
  s_reconnect_request :: bool
  s_pending_config :: wifi_sta_config
  g_wifi_reconfig_mutex :: bool
  wifi_connect_task_close :: bool
  w_init_task :: bool
  w_waits :: bool
  w_config_task :: bool
  g_wifi_sntp_started :: bool
  w_online :: bool                      \<comment> \<open>is_internet_connected\<close>
  fota_ap :: fota_ap_st
  w_outs :: "wifi_out list"

record wifi_env =
  we_free :: bool                       \<comment> \<open>the mutex\<close>
  we_eap :: "esp_err list"              \<comment> \<open>the answers of the four calls of the enterprise set-up\<close>
  we_mutex :: bool                      \<comment> \<open>a mutex can be created\<close>
  we_init :: esp_err                    \<comment> \<open>esp_wifi_init\<close>
  we_task :: bool                       \<comment> \<open>a task can be created\<close>

abbreviation WIFI_ESP_MAXIMUM_RETRY :: nat where "WIFI_ESP_MAXIMUM_RETRY \<equiv> 3"

definition wifi_emit :: "wifi_out list \<Rightarrow> wifi_sys \<Rightarrow> wifi_sys" where
  "wifi_emit os s = s\<lparr>w_outs := w_outs s @ os\<rparr>"

abbreviation wifi_ctx :: "wifi_sys \<Rightarrow> wifi_config_context" where
  "wifi_ctx s \<equiv> g_wifi_ctx (cfg (wtk s))"

definition set_wifi_ctx :: "wifi_config_context \<Rightarrow> wifi_sys \<Rightarrow> wifi_sys" where
  "set_wifi_ctx x s = s\<lparr>wtk := (wtk s)\<lparr>cfg := (cfg (wtk s))\<lparr>g_wifi_ctx := x\<rparr>\<rparr>\<rparr>"

section \<open>Events\<close>

definition wifi_init_sntp :: "wifi_sys \<Rightarrow> wifi_sys" where
  "wifi_init_sntp s = (if g_wifi_sntp_started s then s else wifi_emit [WifiSntp] (s\<lparr>g_wifi_sntp_started := True\<rparr>))"

datatype wifi_event = WIFI_EVENT_STA_START | WIFI_EVENT_STA_DISCONNECTED | IP_EVENT_STA_GOT_IP | WIFI_EVENT_OTHER

text \<open>\<open>None\<close>: the assertion in \<open>xEventGroupSetBits\<close> fails, and the chip restarts.\<close>

definition event_handler :: "wifi_env \<Rightarrow> wifi_event \<Rightarrow> wifi_sys \<Rightarrow> wifi_sys option" where
  "event_handler env e s =
     (case e of
        WIFI_EVENT_STA_START \<Rightarrow> Some (wifi_emit [WifiConnect] s)
      | WIFI_EVENT_STA_DISCONNECTED \<Rightarrow>
          (let should_reconnect = (g_wifi_reconfig_mutex s \<and> we_free env \<and> s_reconnect_request s);
               s1 = (if should_reconnect then s\<lparr>s_reconnect_request := False, s_retry_num := 0\<rparr> else s);
               r = (if fota_ap_is_running (fota_ap s1) then Some s1
                    else if should_reconnect then Some (wifi_emit [WifiSta (s_pending_config s), WifiConnect] s1)
                    else if s_retry_num s1 < WIFI_ESP_MAXIMUM_RETRY
                    then Some ((wifi_emit [WifiConnect] s1)\<lparr>s_retry_num := s_retry_num s1 + 1\<rparr>)
                    else (case w_group s1 of None \<Rightarrow> None | Some (c, f) \<Rightarrow> Some (s1\<lparr>w_group := Some (c, True)\<rparr>)))
           in map_option (\<lambda>s. s\<lparr>s_wifi_connected := False\<rparr>) r)
      | IP_EVENT_STA_GOT_IP \<Rightarrow>
          (case w_group s of
             None \<Rightarrow> None
           | Some (c, f) \<Rightarrow>
               Some (wifi_init_sntp (s\<lparr>s_retry_num := 0, s_wifi_connected := True, w_group := Some (True, f), w_online := True\<rparr>)))
      | WIFI_EVENT_OTHER \<Rightarrow> Some s)"

section \<open>The first connection\<close>

fun eap_calls :: "esp_err list \<Rightarrow> wifi_out list \<Rightarrow> wifi_sys \<Rightarrow> esp_err \<times> wifi_sys" where
  "eap_calls (r # rs) (x # xs) s = (if r \<noteq> ESP_OK then (r, wifi_emit [x] s) else eap_calls rs xs (wifi_emit [x] s))"
| "eap_calls _ _ s = (ESP_OK, s)"

definition wifi_configure_enterprise :: "wifi_env \<Rightarrow> u8 list \<Rightarrow> u8 list \<Rightarrow> wifi_sys \<Rightarrow> esp_err \<times> wifi_sys" where
  "wifi_configure_enterprise env username password s =
     eap_calls (we_eap env) [WifiIdentity (cstr username), WifiEapUser (cstr username), WifiEapPassword (cstr password), WifiEnterprise True] s"

definition sta_config :: "u8 list \<Rightarrow> u8 list \<Rightarrow> wifi_auth_mode \<Rightarrow> wifi_sta_config" where
  "sta_config ssid pass auth_mode =
     (if auth_mode = WIFI_AUTH_MODE_ENTERPRISE
      then \<lparr>sta_ssid = strncpy 32 (zeros 32) ssid, sta_password = zeros 64, sta_threshold = WIFI_AUTH_WPA2_ENTERPRISE, sta_sae_both = False\<rparr>
      else \<lparr>sta_ssid = strncpy 32 (zeros 32) ssid, sta_password = strncpy 64 (zeros 64) pass, sta_threshold = WIFI_AUTH_WPA2_PSK, sta_sae_both = True\<rparr>)"

text \<open>\<open>wifi_init_sta\<close> up to its wait for a bit, and whether it comes to it.\<close>

definition wifi_init_sta :: "wifi_env \<Rightarrow> u8 list \<Rightarrow> u8 list \<Rightarrow> u8 list \<Rightarrow> wifi_auth_mode \<Rightarrow> wifi_sys \<Rightarrow> bool \<times> wifi_sys" where
  "wifi_init_sta env ssid pass username auth_mode s =
     (let s1 = (if \<not> g_wifi_netif s
                then wifi_emit [WifiInit] (s\<lparr>w_group := Some (False, False), g_wifi_netif := True, w_handlers := True\<rparr>)
                else if w_group s = None then s\<lparr>w_group := Some (False, False)\<rparr> else s);
          s2 = wifi_emit [WifiSta (sta_config ssid pass auth_mode)] s1;
          (ret, s3) = (if auth_mode = WIFI_AUTH_MODE_ENTERPRISE then wifi_configure_enterprise env username pass s2 else (ESP_OK, s2))
      in if ret \<noteq> ESP_OK then (False, s3)
         else if \<not> g_wifi_reconfig_mutex s3 \<and> \<not> we_mutex env then (False, s3)
         else (True, wifi_emit [WifiStart] (s3\<lparr>g_wifi_reconfig_mutex := True\<rparr>)))"

definition start_config_task :: "wifi_env \<Rightarrow> wifi_sys \<Rightarrow> wifi_sys" where
  "start_config_task env s =
     s\<lparr>w_init_task := False, w_waits := False, w_config_task := w_config_task s \<or> \<not> wifi_connect_task_close s \<and> we_task env\<rparr>"

definition wifi_connect_init_task :: "wifi_env \<Rightarrow> wifi_sys \<Rightarrow> wifi_sys" where
  "wifi_connect_init_task env s =
     (let x = wifi_ctx s;
          auth = (if cstr (wx_username x) \<noteq> [] then WIFI_AUTH_MODE_ENTERPRISE else WIFI_AUTH_MODE_PERSONAL);
          (waits, s1) = wifi_init_sta env (wx_ssid x) (wx_pass x) (if auth = WIFI_AUTH_MODE_ENTERPRISE then wx_username x else [])
                          auth (set_wifi_ctx (x\<lparr>wx_auth_mode := auth\<rparr>) s)
      in if waits then s1\<lparr>w_waits := True\<rparr> else start_config_task env s1)"

text \<open>The end of the wait, when a bit is set or the event group is deleted.\<close>

definition wifi_init_done :: "wifi_env \<Rightarrow> wifi_sys \<Rightarrow> wifi_sys" where
  "wifi_init_done env s =
     (case w_group s of
        None \<Rightarrow> start_config_task env s
      | Some (c, f) \<Rightarrow>
          if c then start_config_task env (s\<lparr>s_wifi_connected := True\<rparr>)
          else if f then start_config_task env s
          else s)"

section \<open>New credentials\<close>

text \<open>One turn of \<open>wifi_config_task\<close>, with what it takes from its queue.\<close>

definition wifi_take_config :: "wifi_env \<Rightarrow> wifi_config_data \<Rightarrow> wifi_sys \<Rightarrow> wifi_sys" where
  "wifi_take_config env c s =
     (let ssid_len = length (cstr (wf_ssid c)); pass_len = length (cstr (wf_password c)); username_len = length (cstr (wf_username c))
      in if \<not> (ssid_len > 0 \<and> ssid_len < 33 \<and> pass_len < 65) then s
         else
           let x = (wifi_ctx s)\<lparr>wx_ssid := set_str 64 (wx_ssid (wifi_ctx s)) (wf_ssid c),
                                wx_pass := set_str 64 (wx_pass (wifi_ctx s)) (wf_password c)\<rparr>;
               x1 = (if username_len > 0 \<and> username_len < 65
                     then x\<lparr>wx_username := set_str 64 (wx_username x) (wf_username c), wx_auth_mode := WIFI_AUTH_MODE_ENTERPRISE\<rparr>
                     else x\<lparr>wx_auth_mode := WIFI_AUTH_MODE_PERSONAL\<rparr>);
               s1 = (set_wifi_ctx x1 s)\<lparr>s_pending_config := sta_config (wx_ssid x1) (wx_pass x1) (wx_auth_mode x1)\<rparr>;
               s2 = (if wx_auth_mode x1 = WIFI_AUTH_MODE_ENTERPRISE
                     then snd (wifi_configure_enterprise env (wx_username x1) (wx_pass x1) s1)
                     else wifi_emit [WifiEnterprise False] s1)
           in if g_wifi_reconfig_mutex s2 \<and> we_free env
              then let s3 = s2\<lparr>s_reconnect_request := True\<rparr>
                   in if s_wifi_connected s3 then wifi_emit [WifiDisconnect] s3 else s3
              else s2)"

definition wifi_config_turn :: "wifi_env \<Rightarrow> wifi_config_data option \<Rightarrow> wifi_sys \<Rightarrow> wifi_sys" where
  "wifi_config_turn env item s =
     (if wifi_connect_task_close s then s\<lparr>w_config_task := False\<rparr>
      else if wifi_queue (wtk s)
      then (case item of Some c \<Rightarrow> wifi_take_config env c s | None \<Rightarrow> s)
      else s)"

section \<open>Start and stop\<close>

definition wifi_connect_task_start :: "wifi_env \<Rightarrow> wifi_sys \<Rightarrow> wifi_sys" where
  "wifi_connect_task_start env s = s\<lparr>wifi_connect_task_close := False, w_init_task := w_init_task s \<or> we_task env\<rparr>"

definition wifi_connect_task_stop :: "wifi_sys \<Rightarrow> wifi_sys" where
  "wifi_connect_task_stop s =
     (if wifi_connect_task_close s then s
      else
        let s1 = s\<lparr>wifi_connect_task_close := True\<rparr>
        in if \<not> g_wifi_netif s1 then s1
           else (wifi_emit [WifiEnterprise False, WifiStop] s1)\<lparr>w_group := None\<rparr>)"

definition wifi_ap_start :: "wifi_env \<Rightarrow> wifi_sys \<Rightarrow> wifi_sys" where
  "wifi_ap_start env s =
     (let s1 = (if g_wifi_netif s
                then (wifi_emit [WifiDeinit] ((wifi_connect_task_stop s)\<lparr>w_handlers := False\<rparr>))\<lparr>g_wifi_netif := False\<rparr>
                else s);
          s2 = wifi_emit [WifiInit] (s1\<lparr>s_ap_netif := True\<rparr>)
      in if we_init env \<noteq> ESP_OK then s2 else wifi_emit [WifiAp, WifiStart] s2)"

definition wifi_get_connection_status :: "wifi_sys \<Rightarrow> bool" where
  "wifi_get_connection_status s = s_wifi_connected s"

section \<open>Attempts\<close>

fun wifi_events :: "(wifi_env \<times> wifi_event) list \<Rightarrow> wifi_sys \<Rightarrow> wifi_sys option" where
  "wifi_events [] s = Some s"
| "wifi_events ((env, e) # es) s = (case event_handler env e s of None \<Rightarrow> None | Some s1 \<Rightarrow> wifi_events es s1)"

fun is_attempt :: "wifi_out \<Rightarrow> bool" where
  "is_attempt WifiConnect = True"
| "is_attempt WifiDisconnect = True"
| "is_attempt WifiStart = True"
| "is_attempt (WifiSta c) = True"
| "is_attempt _ = False"

definition attempts :: "wifi_sys \<Rightarrow> wifi_out list" where
  "attempts s = filter is_attempt (w_outs s)"

lemma emit_wifi [simp]:
  "w_outs (wifi_emit os s) = w_outs s @ os" "attempts (wifi_emit os s) = attempts s @ filter is_attempt os"
  "s_retry_num (wifi_emit os s) = s_retry_num s" "s_wifi_connected (wifi_emit os s) = s_wifi_connected s"
  "w_group (wifi_emit os s) = w_group s" "fota_ap (wifi_emit os s) = fota_ap s" "s_reconnect_request (wifi_emit os s) = s_reconnect_request s"
  "g_wifi_reconfig_mutex (wifi_emit os s) = g_wifi_reconfig_mutex s" "wtk (wifi_emit os s) = wtk s"
  "s_pending_config (wifi_emit os s) = s_pending_config s" "g_wifi_netif (wifi_emit os s) = g_wifi_netif s"
  "wifi_connect_task_close (wifi_emit os s) = wifi_connect_task_close s"
  by (simp_all add: wifi_emit_def attempts_def)

lemma attempts_fields [simp]:
  "attempts (s\<lparr>wtk := a\<rparr>) = attempts s" "attempts (s\<lparr>s_pending_config := b\<rparr>) = attempts s" "attempts (s\<lparr>s_reconnect_request := d\<rparr>) = attempts s"
  "attempts (s\<lparr>s_wifi_connected := d\<rparr>) = attempts s" "attempts (s\<lparr>w_config_task := d\<rparr>) = attempts s"
  by (simp_all add: attempts_def)

lemma set_ctx_wifi [simp]:
  "w_outs (set_wifi_ctx x s) = w_outs s" "attempts (set_wifi_ctx x s) = attempts s" "s_retry_num (set_wifi_ctx x s) = s_retry_num s"
  "s_wifi_connected (set_wifi_ctx x s) = s_wifi_connected s" "w_group (set_wifi_ctx x s) = w_group s" "fota_ap (set_wifi_ctx x s) = fota_ap s"
  "g_wifi_reconfig_mutex (set_wifi_ctx x s) = g_wifi_reconfig_mutex s" "wifi_ctx (set_wifi_ctx x s) = x"
  "g_wifi_netif (set_wifi_ctx x s) = g_wifi_netif s" "s_reconnect_request (set_wifi_ctx x s) = s_reconnect_request s"
  "wifi_connect_task_close (set_wifi_ctx x s) = wifi_connect_task_close s" "wifi_queue (wtk (set_wifi_ctx x s)) = wifi_queue (wtk s)"
  by (simp_all add: set_wifi_ctx_def attempts_def)

lemma eap_calls_keep:
  "s_retry_num (snd (eap_calls rs xs s)) = s_retry_num s" "s_wifi_connected (snd (eap_calls rs xs s)) = s_wifi_connected s"
  "w_group (snd (eap_calls rs xs s)) = w_group s" "fota_ap (snd (eap_calls rs xs s)) = fota_ap s"
  "g_wifi_reconfig_mutex (snd (eap_calls rs xs s)) = g_wifi_reconfig_mutex s" "wtk (snd (eap_calls rs xs s)) = wtk s"
  "s_pending_config (snd (eap_calls rs xs s)) = s_pending_config s" "s_reconnect_request (snd (eap_calls rs xs s)) = s_reconnect_request s"
  "wifi_connect_task_close (snd (eap_calls rs xs s)) = wifi_connect_task_close s"
  by (induction rs xs s rule: eap_calls.induct) auto

lemma eap_attempts: "filter is_attempt xs = [] \<Longrightarrow> attempts (snd (eap_calls rs xs s)) = attempts s"
  by (induction rs xs s rule: eap_calls.induct) (auto split: if_splits)

lemma enterprise_keep [simp]:
  "s_retry_num (snd (wifi_configure_enterprise env u p s)) = s_retry_num s" "s_wifi_connected (snd (wifi_configure_enterprise env u p s)) = s_wifi_connected s"
  "w_group (snd (wifi_configure_enterprise env u p s)) = w_group s" "fota_ap (snd (wifi_configure_enterprise env u p s)) = fota_ap s"
  "g_wifi_reconfig_mutex (snd (wifi_configure_enterprise env u p s)) = g_wifi_reconfig_mutex s"
  "wtk (snd (wifi_configure_enterprise env u p s)) = wtk s" "s_pending_config (snd (wifi_configure_enterprise env u p s)) = s_pending_config s"
  "attempts (snd (wifi_configure_enterprise env u p s)) = attempts s"
  "s_reconnect_request (snd (wifi_configure_enterprise env u p s)) = s_reconnect_request s"
  "wifi_connect_task_close (snd (wifi_configure_enterprise env u p s)) = wifi_connect_task_close s"
  by (simp_all add: wifi_configure_enterprise_def eap_calls_keep eap_attempts)

lemma init_keeps_retries: "s_retry_num (wifi_connect_init_task env s) = s_retry_num s"
proof -
  have "s_retry_num (snd (wifi_init_sta env a b c d s)) = s_retry_num s" for a b c d s
    by (simp add: wifi_init_sta_def Let_def case_prod_beta)
  then have "w = snd (wifi_init_sta env a b c d s') \<Longrightarrow> s_retry_num w = s_retry_num s'" for w a b c d s' by simp
  then show ?thesis
    by (auto simp: wifi_connect_init_task_def start_config_task_def Let_def split: prod.split) (metis snd_conv set_ctx_wifi(3))+
qed

text \<open>
  C39. A lost network is tried three times. While no address comes in between, and no new network has been asked for, \<open>n\<close> reports of a lost connection lead to \<open>n\<close>
  attempts, but to no more than are left of three; the next one sets the bit for a failure, and none after that is tried. The
  count is kept over a stop and a new start, which therefore has one attempt only after a failure.
\<close>

theorem wifi_retries_exact:
  assumes "w_group s = Some (c, f)" "\<not> fota_ap_is_running (fota_ap s)" "\<not> s_reconnect_request s" "s_retry_num s \<le> WIFI_ESP_MAXIMUM_RETRY"
  shows "(\<exists>s'. wifi_events (map (\<lambda>env. (env, WIFI_EVENT_STA_DISCONNECTED)) envs) s = Some s' \<and>
      w_outs s' = w_outs s @ replicate (min (length envs) (WIFI_ESP_MAXIMUM_RETRY - s_retry_num s)) WifiConnect \<and>
      w_group s' = Some (c, f \<or> WIFI_ESP_MAXIMUM_RETRY - s_retry_num s < length envs)) \<and>
    s_retry_num (wifi_connect_init_task env (wifi_connect_task_start env' (wifi_connect_task_stop s))) = s_retry_num s"
proof
  show "\<exists>s'. wifi_events (map (\<lambda>env. (env, WIFI_EVENT_STA_DISCONNECTED)) envs) s = Some s' \<and>
      w_outs s' = w_outs s @ replicate (min (length envs) (WIFI_ESP_MAXIMUM_RETRY - s_retry_num s)) WifiConnect \<and>
      w_group s' = Some (c, f \<or> WIFI_ESP_MAXIMUM_RETRY - s_retry_num s < length envs)"
    using assms
  proof (induction envs arbitrary: s f)
    case (Cons e envs)
    show ?case
    proof (cases "s_retry_num s < WIFI_ESP_MAXIMUM_RETRY")
      case True
      let ?s = "((wifi_emit [WifiConnect] s)\<lparr>s_retry_num := s_retry_num s + 1\<rparr>)\<lparr>s_wifi_connected := False\<rparr>"
      have "min (length (e # envs)) (WIFI_ESP_MAXIMUM_RETRY - s_retry_num s) = Suc (min (length envs) (WIFI_ESP_MAXIMUM_RETRY - s_retry_num ?s))"
        using True by simp
      moreover have "(WIFI_ESP_MAXIMUM_RETRY - s_retry_num s < length (e # envs)) = (WIFI_ESP_MAXIMUM_RETRY - s_retry_num ?s < length envs)"
        using True by simp linarith
      moreover have "event_handler e WIFI_EVENT_STA_DISCONNECTED s = Some ?s"
        using True Cons.prems by (simp add: event_handler_def)
      ultimately show ?thesis using Cons.IH [of ?s f] Cons.prems True by simp
    next
      case False
      let ?s = "(s\<lparr>w_group := Some (c, True)\<rparr>)\<lparr>s_wifi_connected := False\<rparr>"
      from Cons.IH [of ?s True] Cons.prems False show ?thesis by (simp add: event_handler_def fota_ap_is_running_def)
    qed
  qed auto
next
  have "s_retry_num (wifi_connect_task_start env' (wifi_connect_task_stop s)) = s_retry_num s"
    by (simp add: wifi_connect_task_start_def wifi_connect_task_stop_def Let_def)
  then show "s_retry_num (wifi_connect_init_task env (wifi_connect_task_start env' (wifi_connect_task_stop s))) = s_retry_num s"
    by (simp add: init_keeps_retries)
qed

section \<open>New networks\<close>

definition valid_network :: "wifi_config_data \<Rightarrow> bool" where
  "valid_network c \<longleftrightarrow> cstr (wf_ssid c) \<noteq> [] \<and> length (cstr (wf_ssid c)) \<le> 32 \<and> length (cstr (wf_password c)) \<le> 64"

lemma take_config_quiet:
  assumes "\<not> s_wifi_connected s"
  shows "attempts (wifi_take_config env c s) = attempts s \<and> \<not> s_wifi_connected (wifi_take_config env c s)"
proof (cases "wx_auth_mode (wifi_ctx (wifi_take_config env c s)) = WIFI_AUTH_MODE_ENTERPRISE")
  case True
  with assms show ?thesis by (auto simp: wifi_take_config_def Let_def)
next
  case False
  with assms show ?thesis by (auto simp: wifi_take_config_def Let_def)
qed

lemma take_config_request:
  "s_reconnect_request s \<or> valid_network c \<and> g_wifi_reconfig_mutex s \<and> we_free env \<Longrightarrow> s_reconnect_request (wifi_take_config env c s)"
  by (auto simp: wifi_take_config_def valid_network_def Let_def)

lemma take_config_flags [simp]:
  "g_wifi_reconfig_mutex (wifi_take_config env c s) = g_wifi_reconfig_mutex s" "wifi_queue (wtk (wifi_take_config env c s)) = wifi_queue (wtk s)"
  "wifi_connect_task_close (wifi_take_config env c s) = wifi_connect_task_close s"
  by (simp_all add: wifi_take_config_def Let_def)

text \<open>The task is there to take networks from its queue.\<close>

definition listening :: "wifi_sys \<Rightarrow> bool" where
  "listening s \<longleftrightarrow> g_wifi_reconfig_mutex s \<and> wifi_queue (wtk s) \<and> \<not> wifi_connect_task_close s"

lemma turn_listening:
  "listening s \<Longrightarrow> listening (wifi_config_turn env item s)"
  by (cases item) (simp_all add: listening_def wifi_config_turn_def)

lemma turn_quiet:
  assumes "\<not> s_wifi_connected s"
  shows "attempts (wifi_config_turn env item s) = attempts s \<and> \<not> s_wifi_connected (wifi_config_turn env item s)"
  using assms take_config_quiet by (cases item) (simp_all add: wifi_config_turn_def)

lemma turn_request:
  "listening s \<Longrightarrow> s_reconnect_request s \<or> (\<exists>c. item = Some c \<and> valid_network c \<and> we_free env) \<Longrightarrow> s_reconnect_request (wifi_config_turn env item s)"
  using take_config_request by (cases item) (auto simp: wifi_config_turn_def listening_def)

text \<open>
  C33. A new network is not tried once the gateway has given up. While there is no connection, and no event to come, since the last attempt has been
  reported as failed, a network taken from the queue leads to no attempt: the driver is neither given the network nor asked to
  connect, however many follow. The request is noted, for an event that does not come before a restart.
\<close>

theorem wifi_new_network_ignored:
  fixes xs :: "(wifi_env \<times> wifi_config_data option) list" and s :: wifi_sys
  assumes "\<not> s_wifi_connected s" "listening s"
  defines "s1 \<equiv> fold (\<lambda>(env, item). wifi_config_turn env item) xs s"
  shows "attempts s1 = attempts s \<and> \<not> s_wifi_connected s1 \<and>
    ((\<exists>env c. (env, Some c) \<in> set xs \<and> valid_network c \<and> we_free env) \<longrightarrow> s_reconnect_request s1)"
proof -
  have "attempts (fold (\<lambda>(env, item). wifi_config_turn env item) xs s) = attempts s \<and>
    \<not> s_wifi_connected (fold (\<lambda>(env, item). wifi_config_turn env item) xs s) \<and>
    (s_reconnect_request s \<or> (\<exists>env c. (env, Some c) \<in> set xs \<and> valid_network c \<and> we_free env) \<longrightarrow>
      s_reconnect_request (fold (\<lambda>(env, item). wifi_config_turn env item) xs s))"
    using assms(1,2)
  proof (induction xs arbitrary: s)
    case (Cons x xs)
    obtain env item where x: "x = (env, item)" by (cases x)
    note q = turn_quiet [OF Cons.prems(1), of env item] turn_listening [OF Cons.prems(2), of env item]
    from turn_request [OF Cons.prems(2), of item env] Cons.IH [of "wifi_config_turn env item s"] q show ?case by (auto simp: x)
  qed simp
  then show ?thesis by (simp add: s1_def)
qed

text \<open>What the driver is told of a network.\<close>

definition network_setup :: "u8 list \<Rightarrow> u8 list \<Rightarrow> u8 list \<Rightarrow> wifi_out list" where
  "network_setup ssid pass user =
     (if user = [] then [WifiEnterprise False]
      else [WifiIdentity user, WifiEapUser user, WifiEapPassword pass, WifiEnterprise True])"

definition network_config :: "u8 list \<Rightarrow> u8 list \<Rightarrow> u8 list \<Rightarrow> wifi_sta_config" where
  "network_config ssid pass user =
     \<lparr>sta_ssid = ssid @ zeros (32 - length ssid), sta_password = (if user = [] then pass @ zeros (64 - length pass) else zeros 64),
      sta_threshold = (if user = [] then WIFI_AUTH_WPA2_PSK else WIFI_AUTH_WPA2_ENTERPRISE), sta_sae_both = (user = [])\<rparr>"

lemma strncpy_fresh: "length (cstr a) \<le> n \<Longrightarrow> strncpy n (zeros n) a = cstr a @ zeros (n - length (cstr a))"
  by (simp add: strncpy_def zeros_def)

text \<open>The arrays of a queued network: 64 bytes with a terminator; and those of the context.\<close>

definition network_arrays :: "wifi_config_data \<Rightarrow> wifi_config_context \<Rightarrow> bool" where
  "network_arrays c x \<longleftrightarrow> c_array 64 (wf_ssid c) \<and> c_array 64 (wf_password c) \<and> c_array 64 (wf_username c) \<and>
     length (wx_ssid x) = 64 \<and> length (wx_pass x) = 64 \<and> length (wx_username x) = 64"

lemma take_config_connected:
  assumes v: "valid_network c" and a: "network_arrays c (wifi_ctx s)" and s: "s_wifi_connected s" "listening s"
    and e: "we_free env" "we_eap env = replicate 4 ESP_OK"
  shows "w_outs (wifi_config_turn env (Some c) s) = w_outs s @
      network_setup (cstr (wf_ssid c)) (cstr (wf_password c)) (cstr (wf_username c)) @ [WifiDisconnect] \<and>
    s_reconnect_request (wifi_config_turn env (Some c) s) \<and> fota_ap (wifi_config_turn env (Some c) s) = fota_ap s \<and>
    listening (wifi_config_turn env (Some c) s) \<and>
    s_pending_config (wifi_config_turn env (Some c) s) = network_config (cstr (wf_ssid c)) (cstr (wf_password c)) (cstr (wf_username c))"
proof -
  have l: "length (cstr (wf_ssid c)) < 33" "length (cstr (wf_password c)) < 65" "cstr (wf_ssid c) \<noteq> []"
    using v by (auto simp: valid_network_def)
  have c: "cstr (set_str 64 (wx_ssid (wifi_ctx s)) (wf_ssid c)) = cstr (wf_ssid c)"
    "cstr (set_str 64 (wx_pass (wifi_ctx s)) (wf_password c)) = cstr (wf_password c)"
    "cstr (set_str 64 (wx_username (wifi_ctx s)) (wf_username c)) = cstr (wf_username c)"
    using a by (simp_all add: network_arrays_def cstr_set_str)
  have n: "sta_config (set_str 64 (wx_ssid (wifi_ctx s)) (wf_ssid c)) (set_str 64 (wx_pass (wifi_ctx s)) (wf_password c)) m =
      network_config (cstr (wf_ssid c)) (cstr (wf_password c)) u" if "m = WIFI_AUTH_MODE_ENTERPRISE \<longleftrightarrow> u \<noteq> []" for m u
    using that l by (simp add: sta_config_def network_config_def strncpy_fresh c)
  have q: "wifi_queue (wtk s)" "g_wifi_reconfig_mutex s" "\<not> wifi_connect_task_close s" using s(2) by (simp_all add: listening_def)
  have eap: "eap_calls (replicate 4 ESP_OK) [a, b, d, f] s' = (ESP_OK, wifi_emit [a, b, d, f] s')" for a b d f s'
    by (simp add: eval_nat_numeral wifi_emit_def)
  have lt: "length (cstr (wf_username c)) < 65" using a length_takeWhile_le [of "\<lambda>x. x \<noteq> 0" "wf_username c"] by (simp add: network_arrays_def c_array_def cstr_def)
  have turn: "wifi_config_turn env (Some c) s = wifi_take_config env c s" using q by (simp add: wifi_config_turn_def)
  show ?thesis
  proof (cases "cstr (wf_username c) = []")
    case True
    with n [of WIFI_AUTH_MODE_PERSONAL "[]"] q l e s(1) show ?thesis
      by (simp add: turn wifi_take_config_def Let_def network_setup_def listening_def)
  next
    case False
    with n [of WIFI_AUTH_MODE_ENTERPRISE "cstr (wf_username c)"] q l e s(1) lt show ?thesis
      by (simp add: turn wifi_take_config_def wifi_configure_enterprise_def eap c Let_def network_setup_def listening_def)
  qed
qed

text \<open>
  C22. A new network is used. While the gateway is connected, a network from the queue, with a name of 1 to 32 bytes, is told to the driver
  byte by byte, with the set-up of its kind of authentication, and the old connection is given up; when its end is reported, the driver gets the
  new network and connects. But while the access point for the LAN side's firmware is on, the request is dropped with that event: no
  network is set any more, whatever events follow, and the connection that is made later is to the old one.
\<close>

theorem wifi_new_network_used:
  fixes s s1 :: wifi_sys and c :: wifi_config_data and env env' :: wifi_env
  assumes "valid_network c" "network_arrays c (wifi_ctx s)" "s_wifi_connected s" "listening s"
    and "we_free env" "we_eap env = replicate 4 ESP_OK" "we_free env'"
  defines "user \<equiv> cstr (wf_username c)"
  defines "s1 \<equiv> wifi_config_turn env (Some c) s"
  shows "w_outs s1 = w_outs s @ network_setup (cstr (wf_ssid c)) (cstr (wf_password c)) user @ [WifiDisconnect] \<and>
    (\<exists>s2. event_handler env' WIFI_EVENT_STA_DISCONNECTED s1 = Some s2 \<and> \<not> s_reconnect_request s2 \<and>
      (if \<not> fota_ap_is_running (fota_ap s)
       then w_outs s2 = w_outs s1 @ [WifiSta (network_config (cstr (wf_ssid c)) (cstr (wf_password c)) user), WifiConnect]
       else w_outs s2 = w_outs s1 \<and>
         (\<forall>es s3. wifi_events es s2 = Some s3 \<longrightarrow> (\<exists>os. w_outs s3 = w_outs s1 @ os \<and> (\<forall>n. WifiSta n \<notin> set os)))))"
proof -
  note t = take_config_connected [OF assms(1-6), folded s1_def user_def]
  have later: "\<exists>os. w_outs s3 = w_outs s2 @ os \<and> (\<forall>n. WifiSta n \<notin> set os)"
    if "wifi_events es s2 = Some s3" "\<not> s_reconnect_request s2" for es s2 s3
    using that
  proof (induction es arbitrary: s2)
    case (Cons e es)
    obtain env e' where e: "e = (env, e')" by (cases e)
    obtain sa where sa: "event_handler env e' s2 = Some sa" "wifi_events es sa = Some s3" using Cons.prems(1) by (auto simp: e split: option.splits)
    then have k: "\<not> s_reconnect_request sa \<and> (\<exists>os. w_outs sa = w_outs s2 @ os \<and> (\<forall>n. WifiSta n \<notin> set os))"
      using Cons.prems(2) by (auto simp: event_handler_def wifi_init_sntp_def Let_def split: wifi_event.splits if_splits option.splits)
    with Cons.IH [OF sa(2)] show ?case by (metis (no_types, lifting) append_assoc set_append Un_iff)
  qed auto
  show ?thesis
  proof (cases "fota_ap_is_running (fota_ap s)")
    case True
    then have "\<exists>s2. event_handler env' WIFI_EVENT_STA_DISCONNECTED s1 = Some s2 \<and> \<not> s_reconnect_request s2 \<and> w_outs s2 = w_outs s1"
      using t assms(7) by (auto simp: event_handler_def listening_def)
    with t True later show ?thesis by (metis (no_types, lifting))
  next
    case False
    with t assms(7) show ?thesis by (simp add: event_handler_def listening_def)
  qed
qed

section \<open>At work\<close>

definition demo_wifi_env :: wifi_env where
  "demo_wifi_env = \<lparr>we_free = True, we_eap = replicate 4 ESP_OK, we_mutex = True, we_init = ESP_OK, we_task = True\<rparr>"

definition demo_wifi :: "bool \<Rightarrow> bool \<Rightarrow> wifi_sys" where
  "demo_wifi up ap = \<lparr>wtk = demo_task, g_wifi_netif = True, s_ap_netif = False, w_group = Some (up, \<not> up), w_handlers = True,
     s_retry_num = (if up then 0 else 3), s_wifi_connected = up, s_reconnect_request = False,
     s_pending_config = sta_config [] [] WIFI_AUTH_MODE_PERSONAL, g_wifi_reconfig_mutex = True, wifi_connect_task_close = False,
     w_init_task = False, w_waits = False, w_config_task = True, g_wifi_sntp_started = True, w_online = up,
     fota_ap = \<lparr>s_fota_ap_netif = ap, s_fota_ap_running = ap, s_was_apsta = ap, wifi_now = (if ap then WIFI_MODE_APSTA else WIFI_MODE_STA),
       ap_listening = False, ap_outs = []\<rparr>, w_outs = []\<rparr>"

definition demo_network :: wifi_config_data where
  "demo_network = \<lparr>wf_username = zeros 64, wf_ssid = arr 64 (ascii ''Office''), wf_password = arr 64 (ascii ''secret''),
     wf_auth_mode = WIFI_AUTH_MODE_PERSONAL\<rparr>"

lemma demo_net: "cstr (wf_ssid demo_network) = ascii ''Office''" "cstr (wf_password demo_network) = ascii ''secret''" "cstr (wf_username demo_network) = []"
  by (simp_all add: demo_network_def) code_simp+

theorem wifi_retries_exact_witness:
  "\<exists>s'. wifi_events (map (\<lambda>env. (env, WIFI_EVENT_STA_DISCONNECTED)) (replicate 5 demo_wifi_env)) (demo_wifi True False) = Some s' \<and>
     w_outs s' = [WifiConnect, WifiConnect, WifiConnect]"
proof -
  have d: "w_group (demo_wifi True False) = Some (True, False)" "\<not> fota_ap_is_running (fota_ap (demo_wifi True False))"
    "\<not> s_reconnect_request (demo_wifi True False)" "s_retry_num (demo_wifi True False) = 0" "w_outs (demo_wifi True False) = []"
    by (simp_all add: demo_wifi_def fota_ap_is_running_def)
  have "replicate 3 WifiConnect = [WifiConnect, WifiConnect, WifiConnect]" by (simp add: eval_nat_numeral)
  then show ?thesis
    using wifi_retries_exact [OF d(1-3), of "replicate 5 demo_wifi_env" demo_wifi_env demo_wifi_env, unfolded d(4,5)]
    by (simp del: replicate_Suc replicate.simps map_replicate) force?
qed

lemma demo_valid: "valid_network demo_network"
  by (simp add: valid_network_def demo_net ascii_def)

lemma demo_listening: "listening (demo_wifi up ap)"
  by (simp add: listening_def demo_wifi_def demo_task_def)

theorem wifi_new_network_ignored_witness:
  "attempts (wifi_config_turn demo_wifi_env (Some demo_network) (demo_wifi False False)) = [] \<and>
   s_reconnect_request (wifi_config_turn demo_wifi_env (Some demo_network) (demo_wifi False False))"
  using wifi_new_network_ignored [of "demo_wifi False False" "[(demo_wifi_env, Some demo_network)]", OF _ demo_listening] demo_valid
  by (simp add: demo_wifi_def attempts_def demo_wifi_env_def)

lemma demo_arrays: "network_arrays demo_network (wifi_ctx (demo_wifi up ap))"
proof -
  have "c_array 64 (wf_ssid demo_network)" "c_array 64 (wf_password demo_network)" "c_array 64 (wf_username demo_network)"
    by (simp_all add: c_array_def) code_simp+
  moreover have "length (wx_ssid (g_wifi_ctx demo_cfg)) = 64" "length (wx_pass (g_wifi_ctx demo_cfg)) = 64" "length (wx_username (g_wifi_ctx demo_cfg)) = 64"
    by code_simp+
  ultimately show ?thesis by (simp add: network_arrays_def demo_wifi_def demo_task_def)
qed

theorem wifi_new_network_used_witness:
  "\<exists>s2. event_handler demo_wifi_env WIFI_EVENT_STA_DISCONNECTED (wifi_config_turn demo_wifi_env (Some demo_network) (demo_wifi True False)) = Some s2 \<and>
     last (w_outs s2) = WifiConnect \<and> WifiSta (network_config (ascii ''Office'') (ascii ''secret'') []) \<in> set (w_outs s2)"
proof -
  have e: "we_free demo_wifi_env" "we_eap demo_wifi_env = replicate 4 ESP_OK" by (simp_all add: demo_wifi_env_def)
  have s: "s_wifi_connected (demo_wifi True False)" "\<not> fota_ap_is_running (fota_ap (demo_wifi True False))"
    by (simp_all add: demo_wifi_def fota_ap_is_running_def)
  from wifi_new_network_used [OF demo_valid demo_arrays s(1) demo_listening e e(1)] s(2) show ?thesis by (auto simp: demo_net)
qed

end
