(* ===== verification/Ethernet.thy ===== *)
theory Ethernet
  imports TCA_Stack Lan_Downlink
begin

text \<open>
  \<open>Application/Internet_Communication_Handler/ethernet_handler/src/eth_connect.c\<close>, the connection over a W5500: power and reset of its
  adapter through the expander of \<open>TCA_Stack\<close>, set-up and release of the driver, the events of the link, start and stop, and the callback
  that sets the clock chip of \<open>PCF8563\<close> from the network.

  The Ethernet and SPI drivers are outside, \<open>eth_env\<close> is what they answer. The address is static, as configured.

  The properties: the adapter's pins; the set-up is whole or nothing, and works once; the accounts of the connection agree;
  the clock holds the network's time.
\<close>

section \<open>State\<close>

datatype eth_out = EthSetMac "u8 list" | EthStaticIp | EthSntp | EthStarted | EthStopped

text \<open>\<open>s_eth_devices\<close> are the MAC and PHY objects that exist; the MAC is a device on the SPI bus. \<open>eth_events\<close>, \<open>ip_events\<close>: the handler is
  registered for the events of the link and of the address.\<close>

record eth_sys =
  est :: stack_st
  elan :: lan_app
  eth_online :: bool                    \<comment> \<open>is_internet_connected\<close>
  g_eth_netif :: bool
  s_eth_handle :: bool
  s_eth_glue :: bool
  eth_bus :: bool                       \<comment> \<open>the SPI bus is initialised\<close>
  eth_events :: bool
  ip_events :: bool
  s_eth_macs :: nat
  s_eth_phys :: nat
  s_eth_connected :: bool
  eth_sntp_synced :: bool
  eth_sntp_started :: bool
  s_task_running :: bool
  s_task_handle :: bool
  eth_outs :: "eth_out list"

record eth_env =
  ee_bus :: esp_err
  ee_netif :: bool
  ee_eth_events :: esp_err
  ee_ip_events :: esp_err
  ee_mac :: bool
  ee_phy :: bool
  ee_install :: esp_err
  ee_base_mac :: "esp_err \<times> u8 list"
  ee_set_mac :: esp_err
  ee_glue :: bool
  ee_attach :: esp_err
  ee_start :: esp_err

definition eth_emit :: "eth_out list \<Rightarrow> eth_sys \<Rightarrow> eth_sys" where
  "eth_emit os s = s\<lparr>eth_outs := eth_outs s @ os\<rparr>"

section \<open>The adapter\<close>

abbreviation ETH_ADAPTER_STACK_ID :: u8 where "ETH_ADAPTER_STACK_ID \<equiv> 1"
abbreviation ETH_ADAPTER_POWER_PIN :: u8 where "ETH_ADAPTER_POWER_PIN \<equiv> 4"
abbreviation ETH_ADAPTER_RESET_PIN :: u8 where "ETH_ADAPTER_RESET_PIN \<equiv> 5"
abbreviation ETH_ADAPTER_INT_PIN :: u8 where "ETH_ADAPTER_INT_PIN \<equiv> 6"

text \<open>The writes of levels, each with its pause; the first that fails ends them.\<close>

fun adapter_levels :: "i2c_drv \<Rightarrow> (u8 \<times> bool \<times> nat) list \<Rightarrow> stack_st \<Rightarrow> esp_err \<times> stack_st" where
  "adapter_levels drv [] g = (ESP_OK, g)"
| "adapter_levels drv ((pin, level, ms) # xs) g =
     (let (ret, g1) = stack_handler_gpio_write drv ETH_ADAPTER_STACK_ID pin level g
      in if ret \<noteq> ESP_OK then (ret, g1)
         else adapter_levels drv xs (if ms = 0 then g1 else g1\<lparr>stk_i2c := delay_ms ms (stk_i2c g1)\<rparr>))"

definition eth_prepare_adapter :: "i2c_drv \<Rightarrow> stack_st \<Rightarrow> esp_err \<times> stack_st" where
  "eth_prepare_adapter drv g =
     (if stack_handler_get_module_id ETH_ADAPTER_STACK_ID g \<noteq> ''015'' then (ESP_ERR_INVALID_STATE, g)
      else
        let (ret, g1) = stack_handler_gpio_set_direction drv ETH_ADAPTER_STACK_ID ETH_ADAPTER_POWER_PIN True g
        in if ret \<noteq> ESP_OK then (ret, g1)
           else
             let (ret, g2) = stack_handler_gpio_set_direction drv ETH_ADAPTER_STACK_ID ETH_ADAPTER_RESET_PIN True g1
             in if ret \<noteq> ESP_OK then (ret, g2)
                else
                  let (_, g3) = stack_handler_gpio_set_direction drv ETH_ADAPTER_STACK_ID ETH_ADAPTER_INT_PIN False g2
                  in adapter_levels drv
                       [(ETH_ADAPTER_POWER_PIN, True, 0), (ETH_ADAPTER_RESET_PIN, True, 20),
                        (ETH_ADAPTER_RESET_PIN, False, 10), (ETH_ADAPTER_RESET_PIN, True, 120)] g3)"

section \<open>The driver\<close>

text \<open>\<open>spi_bus_free\<close> refuses while a device is on the bus, and \<open>spi_bus_initialize\<close> while the bus is in use.\<close>

definition eth_release_resources :: "bool \<Rightarrow> eth_sys \<Rightarrow> eth_sys" where
  "eth_release_resources unregister_events s =
     (let s1 = s\<lparr>s_eth_glue := False, s_eth_handle := False\<rparr>;
          s2 = (if unregister_events then s1\<lparr>eth_events := False, ip_events := False\<rparr> else s1)
      in s2\<lparr>g_eth_netif := False, eth_bus := eth_bus s2 \<and> 0 < s_eth_macs s2\<rparr>)"

definition eth_mac_of :: "u8 list \<Rightarrow> u8 list" where
  "eth_mac_of base = base[0 := (base ! 0 OR 0x02) AND 0xFE, 5 := base ! 5 XOR 0x01]"

definition eth_set_default_mac :: "eth_env \<Rightarrow> eth_sys \<Rightarrow> esp_err \<times> eth_sys" where
  "eth_set_default_mac env s =
     (case ee_base_mac env of
        (ret, base_mac) \<Rightarrow>
          if ret \<noteq> ESP_OK then (ret, s)
          else if ee_set_mac env \<noteq> ESP_OK then (ee_set_mac env, s)
          else (ESP_OK, eth_emit [EthSetMac (eth_mac_of base_mac)] s))"

definition eth_driver_init :: "eth_env \<Rightarrow> eth_sys \<Rightarrow> esp_err \<times> eth_sys" where
  "eth_driver_init env s =
     (if \<not> ee_mac env then (ESP_FAIL, eth_release_resources True s)
      else
        let s1 = s\<lparr>s_eth_macs := s_eth_macs s + 1\<rparr>
        in if \<not> ee_phy env then (ESP_FAIL, eth_release_resources True (s1\<lparr>s_eth_macs := s_eth_macs s1 - 1\<rparr>))
           else
             let s2 = s1\<lparr>s_eth_phys := s_eth_phys s1 + 1\<rparr>
             in if ee_install env \<noteq> ESP_OK
                then (ee_install env,
                      eth_release_resources True (s2\<lparr>s_eth_phys := s_eth_phys s2 - 1, s_eth_macs := s_eth_macs s2 - 1\<rparr>))
                else
                  let (ret, s3) = eth_set_default_mac env (s2\<lparr>s_eth_handle := True\<rparr>)
                  in if ret \<noteq> ESP_OK then (ret, eth_release_resources True s3)
                     else if \<not> ee_glue env then (ESP_FAIL, eth_release_resources True s3)
                     else
                       let s4 = s3\<lparr>s_eth_glue := True\<rparr>
                       in if ee_attach env \<noteq> ESP_OK then (ee_attach env, eth_release_resources True s4)
                          else if ee_start env \<noteq> ESP_OK then (ee_start env, eth_release_resources True s4)
                          else (ESP_OK, eth_emit [EthStarted] s4))"

definition eth_spi_hw_init :: "i2c_drv \<Rightarrow> eth_env \<Rightarrow> eth_sys \<Rightarrow> esp_err \<times> eth_sys" where
  "eth_spi_hw_init drv env s =
     (let (ret, g) = eth_prepare_adapter drv (est s);
          s1 = s\<lparr>est := g\<rparr>
      in if ret \<noteq> ESP_OK then (ret, s1)
         else if eth_bus s1 then (ESP_ERR_INVALID_STATE, s1)
         else if ee_bus env \<noteq> ESP_OK then (ee_bus env, s1)
         else
           let s2 = s1\<lparr>eth_bus := True\<rparr>
           in if \<not> ee_netif env then (ESP_FAIL, eth_release_resources False s2)
              else
                let s3 = eth_emit [EthStaticIp] (s2\<lparr>g_eth_netif := True\<rparr>)
                in if ee_eth_events env \<noteq> ESP_OK then (ee_eth_events env, eth_release_resources False s3)
                   else
                     let s4 = s3\<lparr>eth_events := True\<rparr>
                     in if ee_ip_events env \<noteq> ESP_OK then (ee_ip_events env, eth_release_resources True s4)
                        else eth_driver_init env (s4\<lparr>ip_events := True\<rparr>))"

section \<open>Events, start and stop\<close>

definition eth_init_sntp :: "eth_sys \<Rightarrow> eth_sys" where
  "eth_init_sntp s = (if eth_sntp_started s then s else eth_emit [EthSntp] (s\<lparr>eth_sntp_started := True\<rparr>))"

definition set_eth_online :: "bool \<Rightarrow> eth_sys \<Rightarrow> eth_sys" where
  "set_eth_online up s =
     s\<lparr>s_eth_connected := up, eth_online := up,
       elan := mcu_lan_handler_set_internet_status (if up then INTERNET_STATUS_ONLINE else INTERNET_STATUS_OFFLINE) (elan s)\<rparr>"

datatype eth_event = ETHERNET_EVENT_CONNECTED | ETHERNET_EVENT_DISCONNECTED | IP_EVENT_ETH_GOT_IP | ETHERNET_EVENT_OTHER

text \<open>The address is static, so the link alone makes the connection.\<close>

definition eth_event_handler :: "eth_event \<Rightarrow> eth_sys \<Rightarrow> eth_sys" where
  "eth_event_handler e s =
     (case e of
        ETHERNET_EVENT_CONNECTED \<Rightarrow> eth_init_sntp (set_eth_online True s)
      | ETHERNET_EVENT_DISCONNECTED \<Rightarrow> set_eth_online False s
      | IP_EVENT_ETH_GOT_IP \<Rightarrow> eth_init_sntp (set_eth_online True s)
      | ETHERNET_EVENT_OTHER \<Rightarrow> s)"

text \<open>The callback of a time from the network, which sets the clock chip.\<close>

definition sntp_sync_notification_cb :: "i2c_drv \<Rightarrow> nat option \<Rightarrow> tm option \<Rightarrow> i2c_st \<Rightarrow> i2c_st" where
  "sntp_sync_notification_cb drv h tv s =
     (case tv of
        None \<Rightarrow> s
      | Some timeinfo \<Rightarrow>
          let (ret, s1) = pcf8563_write_time drv h (Some timeinfo) s
          in if ret = ESP_OK
             then snd (pcf8563_start drv h (snd (pcf8563_clear_voltage_low_flag drv h s1)))
             else s1)"

text \<open>The task up to its loop, which only waits.\<close>

definition eth_task :: "i2c_drv \<Rightarrow> eth_env \<Rightarrow> eth_sys \<Rightarrow> eth_sys" where
  "eth_task drv env s =
     (let (ret, s1) = eth_spi_hw_init drv env s
      in if ret \<noteq> ESP_OK then s1\<lparr>s_task_running := False, s_task_handle := False\<rparr> else s1)"

definition eth_connect_task_start :: "bool \<Rightarrow> eth_sys \<Rightarrow> eth_sys" where
  "eth_connect_task_start created s =
     (if s_task_running s then s
      else s\<lparr>s_task_running := created, s_task_handle := created \<or> s_task_handle s, s_eth_connected := False, eth_sntp_synced := False\<rparr>)"

definition eth_connect_task_stop :: "eth_sys \<Rightarrow> eth_sys" where
  "eth_connect_task_stop s =
     (if \<not> s_task_running s then s
      else
        let s1 = s\<lparr>s_task_running := False, s_task_handle := False\<rparr>;
            s2 = (if s_eth_handle s1 then eth_emit [EthStopped] s1 else s1)
        in set_eth_online False (eth_release_resources True s2))"

definition eth_is_connected :: "eth_sys \<Rightarrow> bool" where
  "eth_is_connected s = s_eth_connected s"

section \<open>The adapter\<close>

lemma set_direction_effect:
  assumes "register_device drv d f" and "slot_ready d i g" and "is_valid_pin pin"
    and "stack_handler_gpio_set_direction drv i pin is_out g = (ret, g1)"
  shows "ret = ESP_OK \<and> slot_ready d i g1 \<and> g_module_id g1 = g_module_id g \<and>
    (\<forall>q < 16. pin_bit (regs_of d f (stk_i2c g1)) 2 q = pin_bit (regs_of d f (stk_i2c g)) 2 q)"
proof -
  from assms(3) obtain port k where map: "get_tca_mapping pin = (port, k)" and p: "port = 0 \<or> port = 1"
    by (rule get_tca_mapping_pin) blast
  have "pin_bit (regs_of d f (stk_i2c g1)) 2 q = pin_bit (regs_of d f (stk_i2c g)) 2 q" if "q < 16" for q
  proof -
    have "q div 8 < 2" using that by auto
    with assms p show ?thesis
      by (auto simp: stack_handler_gpio_set_direction_def slot_ready_def map
          tca_read_config_register_inst_def tca_configure_port_inst_def tca_reg_effect pin_bit_def Let_def)
  qed
  then show ?thesis
    using assms p
    by (auto simp: stack_handler_gpio_set_direction_def slot_ready_def map
        tca_read_config_register_inst_def tca_configure_port_inst_def tca_reg_effect Let_def)
qed

lemma gpio_write_keeps:
  assumes "slot_ready d i g" "stack_handler_gpio_write drv i pin level g = (ret, g1)"
  shows "slot_ready d i (g1\<lparr>stk_i2c := x\<rparr>) \<and> slot_ready d i g1"
  using assms by (auto simp: stack_handler_gpio_write_def slot_ready_def Let_def split: if_splits prod.splits)

lemma adapter_levels_effect:
  assumes "register_device drv d f" "slot_ready d 1 g" "\<forall>(pin, level, ms) \<in> set xs. is_valid_pin pin"
    and "adapter_levels drv xs g = (ret, g1)"
  shows "ret = ESP_OK \<and> (\<forall>q < 16. pin_bit (regs_of d f (stk_i2c g1)) 2 q =
    fold (\<lambda>(pin, level, ms) b. if q = unat pin then level else b) xs (pin_bit (regs_of d f (stk_i2c g)) 2 q))"
  using assms(2-)
proof (induction xs arbitrary: g)
  case (Cons x xs)
  obtain pin level ms where x: "x = (pin, level, ms)" by (cases x)
  obtain r g2 where w: "stack_handler_gpio_write drv 1 pin level g = (r, g2)" by (cases "stack_handler_gpio_write drv 1 pin level g")
  have v: "is_valid_pin pin" using Cons.prems(2) x by auto
  note e = gpio_write_effect [OF assms(1) Cons.prems(1) v w]
  let ?g = "if ms = 0 then g2 else g2\<lparr>stk_i2c := delay_ms ms (stk_i2c g2)\<rparr>"
  have h: "regs_of d f (delay_ms ms s) = regs_of d f s" for s by (simp add: delay_ms_def)
  have "adapter_levels drv xs ?g = (ret, g1)" using Cons.prems(3) e by (simp add: x w)
  moreover have "slot_ready d 1 ?g" using gpio_write_keeps [OF Cons.prems(1) w] by simp
  ultimately show ?case using Cons.IH [of ?g] Cons.prems(2) e by (auto simp: x h)
qed simp

text \<open>
  The adapter is powered and reset. With the Ethernet module in slot 1 and an expander that works, \<open>eth_prepare_adapter\<close> succeeds, the power pin and the
  reset pin are high at its end, and every other output pin of the slot keeps its level; with any other module it fails and
  touches nothing.
\<close>

lemma eth_adapter_ready:
  assumes "register_device drv d f" "slot_ready d 1 g" "eth_prepare_adapter drv g = (ret, g1)"
  shows "if g_module_id g ! 1 = ''015''
    then ret = ESP_OK \<and> (\<forall>q < 16. pin_bit (regs_of d f (stk_i2c g1)) 2 q = (q = 4 \<or> q = 5 \<or> pin_bit (regs_of d f (stk_i2c g)) 2 q))
    else ret = ESP_ERR_INVALID_STATE \<and> g1 = g"
proof -
  have m: "stack_handler_get_module_id 1 g = g_module_id g ! 1" using assms(2) by (simp add: stack_handler_get_module_id_def slot_ready_def)
  have v: "is_valid_pin 4" "is_valid_pin 5" "is_valid_pin 6" by (simp_all add: is_valid_pin_def)
  show ?thesis
  proof (cases "g_module_id g ! 1 = ''015''")
    case True
    obtain r1 ga where a: "stack_handler_gpio_set_direction drv 1 4 True g = (r1, ga)" by fastforce
    obtain r2 gb where b: "stack_handler_gpio_set_direction drv 1 5 True ga = (r2, gb)" by fastforce
    obtain r3 gc where c: "stack_handler_gpio_set_direction drv 1 6 False gb = (r3, gc)" by fastforce
    note ea = set_direction_effect [OF assms(1,2) v(1) a]
    note eb = set_direction_effect [OF assms(1) _ v(2) b] and ec = set_direction_effect [OF assms(1) _ v(3) c]
    have l: "adapter_levels drv [(4, True, 0), (5, True, 20), (5, False, 10), (5, True, 120)] gc = (ret, g1)"
      using assms(3) ea eb True by (simp add: eth_prepare_adapter_def m a b c)
    have "slot_ready d 1 gc" using ea eb ec by blast
    from adapter_levels_effect [OF assms(1) this _ l] ea eb ec v True show ?thesis by simp
  next
    case False
    with assms(3) m show ?thesis by (simp add: eth_prepare_adapter_def)
  qed
qed

section \<open>The driver\<close>

lemma eth_driver_fails:
  "eth_driver_init env s = (ret, s1) \<Longrightarrow> ret \<noteq> ESP_OK \<Longrightarrow>
     \<not> g_eth_netif s1 \<and> \<not> s_eth_handle s1 \<and> \<not> s_eth_glue s1 \<and> \<not> eth_events s1 \<and> \<not> ip_events s1 \<and>
     (eth_bus s1 \<longrightarrow> 0 < s_eth_macs s1)"
  by (auto simp: eth_driver_init_def eth_set_default_mac_def eth_release_resources_def eth_emit_def Let_def split: if_splits prod.splits)

lemma eth_driver_runs:
  "eth_driver_init env s = (ESP_OK, s1) \<Longrightarrow> s_eth_handle s1 \<and> s_eth_glue s1 \<and> s_eth_macs s1 = s_eth_macs s + 1 \<and> eth_bus s1 = eth_bus s \<and>
     g_eth_netif s1 = g_eth_netif s \<and> eth_events s1 = eth_events s \<and> ip_events s1 = ip_events s \<and> s_task_running s1 = s_task_running s"
  by (auto simp: eth_driver_init_def eth_set_default_mac_def eth_release_resources_def eth_emit_def Let_def split: if_splits prod.splits)

text \<open>Nothing of the interface is there, and no handler.\<close>

definition eth_down :: "eth_sys \<Rightarrow> bool" where
  "eth_down s \<longleftrightarrow> \<not> g_eth_netif s \<and> \<not> s_eth_handle s \<and> \<not> s_eth_glue s \<and> \<not> eth_events s \<and> \<not> ip_events s"

definition eth_up :: "eth_sys \<Rightarrow> bool" where
  "eth_up s \<longleftrightarrow> g_eth_netif s \<and> s_eth_handle s \<and> s_eth_glue s \<and> eth_events s \<and> ip_events s \<and> eth_bus s \<and> 0 < s_eth_macs s"

lemma eth_init_cases:
  assumes "eth_down s" "eth_spi_hw_init drv env s = (ret, s1)"
  shows "if ret = ESP_OK then eth_up s1 \<and> \<not> eth_bus s \<and> s_task_running s1 = s_task_running s else eth_down s1"
proof -
  obtain r g where g: "eth_prepare_adapter drv (est s) = (r, g)" by fastforce
  let ?s = "eth_emit [EthStaticIp] (s\<lparr>est := g, eth_bus := True, g_eth_netif := True\<rparr>)\<lparr>eth_events := True, ip_events := True\<rparr>"
  obtain rd sd where d: "eth_driver_init env ?s = (rd, sd)" by fastforce
  show ?thesis
  proof (cases "r = ESP_OK \<and> \<not> eth_bus s \<and> ee_bus env = ESP_OK \<and> ee_netif env \<and> ee_eth_events env = ESP_OK \<and> ee_ip_events env = ESP_OK")
    case True
    then have "ret = rd" "s1 = sd" using assms(2) d by (simp_all add: eth_spi_hw_init_def g Let_def eth_emit_def)
    with True eth_driver_fails [OF d] eth_driver_runs [of env ?s sd] d show ?thesis
      by (auto simp: eth_down_def eth_up_def eth_emit_def)
  next
    case False
    with assms show ?thesis
      by (auto simp: eth_spi_hw_init_def g Let_def eth_down_def eth_release_resources_def eth_emit_def split: if_splits)
  qed
qed

text \<open>
  C32. The Ethernet connection is set up as a whole or not at all, and once only. A failed initialisation leaves no interface, no driver, no
  handler and ends the task; a successful one leaves all of them. A stop takes them down again, but not the MAC object, which stays a
  device on the SPI bus: the bus is not freed, and every initialisation after a stop fails, whatever the hardware does.
\<close>

theorem eth_starts_once:
  fixes env env' :: eth_env and drv drv' :: i2c_drv and s :: eth_sys
  assumes "eth_down s" "s_task_running s"
  defines "s1 \<equiv> eth_task drv env s"
  defines "s2 \<equiv> eth_connect_task_stop s1"
  shows "(if s_task_running s1 then eth_up s1 else eth_down s1) \<and>
    eth_down s2 \<and> \<not> s_task_running s2 \<and>
    (s_task_running s1 \<longrightarrow>
      (let s3 = eth_task drv' env' (eth_connect_task_start True s2) in eth_down s3 \<and> \<not> s_task_running s3))"
proof -
  obtain ret si where i: "eth_spi_hw_init drv env s = (ret, si)" by fastforce
  note c = eth_init_cases [OF assms(1) i]
  have r: "s_task_running s1 \<longleftrightarrow> ret = ESP_OK" "ret = ESP_OK \<Longrightarrow> s1 = si" "eth_up s1 = eth_up si" "eth_down s1 = eth_down si"
    using c assms(2) by (auto simp: s1_def eth_task_def i eth_up_def eth_down_def)
  have one: "if s_task_running s1 then eth_up s1 else eth_down s1" using c r by auto
  have two: "eth_down s2 \<and> \<not> s_task_running s2 \<and> (s_task_running s1 \<longrightarrow> eth_bus s2)"
    using one by (cases "s_task_running s1") (auto simp: s2_def eth_connect_task_stop_def set_eth_online_def eth_release_resources_def eth_emit_def Let_def eth_down_def eth_up_def)
  have three: "eth_down s3 \<and> \<not> s_task_running s3" if "s_task_running s1" "s3 = eth_task drv' env' (eth_connect_task_start True s2)" for s3
  proof -
    let ?s = "eth_connect_task_start True s2"
    have d: "eth_down ?s" "eth_bus ?s" using two that(1) by (simp_all add: eth_connect_task_start_def eth_down_def)
    obtain r3 s4 where i3: "eth_spi_hw_init drv' env' ?s = (r3, s4)" by fastforce
    from eth_init_cases [OF d(1) i3] d(2) have "r3 \<noteq> ESP_OK" "eth_down s4" by (auto split: if_splits)
    then show ?thesis by (simp add: that(2) eth_task_def i3 eth_down_def)
  qed
  show ?thesis unfolding Let_def using one two three [OF _ refl] by blast
qed

text \<open>The address of the interface: that of the station, marked as local, of a single device, and other in its last bit.\<close>

lemma eth_mac_local:
  assumes "length base = 6"
  shows "bit (eth_mac_of base ! 0) 1 \<and> \<not> bit (eth_mac_of base ! 0) 0 \<and> eth_mac_of base ! 5 = base ! 5 XOR 1 \<and>
    (\<forall>i. 0 < i \<and> i < 5 \<longrightarrow> eth_mac_of base ! i = base ! i)"
proof -
  have "bit ((x OR 0x02) AND 0xFE :: u8) 1" "\<not> bit ((x OR 0x02) AND 0xFE :: u8) 0" for x :: u8
    by (simp_all add: bit_and_iff bit_or_iff)
  then show ?thesis using assms by (simp add: eth_mac_of_def)
qed

section \<open>The state of the connection\<close>

definition eth_flags_agree :: "eth_sys \<Rightarrow> bool" where
  "eth_flags_agree s \<longleftrightarrow> eth_online s = s_eth_connected s \<and>
     mcu_lan_handler_get_internet_status (elan s) = (if s_eth_connected s then INTERNET_STATUS_ONLINE else INTERNET_STATUS_OFFLINE)"

interpretation eth: invariant_step eth_event_handler eth_flags_agree
  by unfold_locales (auto simp: eth_flags_agree_def eth_event_handler_def set_eth_online_def eth_init_sntp_def eth_emit_def
      mcu_lan_handler_set_internet_status_def mcu_lan_handler_get_internet_status_def split: eth_event.split)

text \<open>
  C40. The three accounts of the connection agree. Along every sequence of events of the link and the address, the flag of the driver, the gateway's flag and
  the status told to the LAN side are the same; after the last link event they are what it said; and after a stop all three are off.
\<close>

theorem eth_status_follows_link:
  assumes "eth_flags_agree s"
  shows "eth_flags_agree (fold eth_event_handler es s) \<and>
    (eth_is_connected (fold eth_event_handler (es @ [e]) s) =
      (case e of ETHERNET_EVENT_CONNECTED \<Rightarrow> True | IP_EVENT_ETH_GOT_IP \<Rightarrow> True | ETHERNET_EVENT_DISCONNECTED \<Rightarrow> False
       | ETHERNET_EVENT_OTHER \<Rightarrow> eth_is_connected (fold eth_event_handler es s))) \<and>
    (s_task_running s \<longrightarrow> eth_flags_agree (eth_connect_task_stop (fold eth_event_handler es s)) \<and>
      \<not> eth_is_connected (eth_connect_task_stop (fold eth_event_handler es s)))"
proof -
  have "s_task_running (fold eth_event_handler es s) = s_task_running s"
  proof (induction es arbitrary: s)
    case (Cons e es)
    have "s_task_running (eth_event_handler e s) = s_task_running s"
      by (simp add: eth_event_handler_def set_eth_online_def eth_init_sntp_def eth_emit_def split: eth_event.split)
    with Cons.IH [of "eth_event_handler e s"] show ?case by simp
  qed simp
  moreover have "eth_is_connected (fold eth_event_handler (es @ [e]) s) =
      (case e of ETHERNET_EVENT_CONNECTED \<Rightarrow> True | IP_EVENT_ETH_GOT_IP \<Rightarrow> True | ETHERNET_EVENT_DISCONNECTED \<Rightarrow> False
       | ETHERNET_EVENT_OTHER \<Rightarrow> eth_is_connected (fold eth_event_handler es s))"
    by (simp add: eth_is_connected_def eth_event_handler_def set_eth_online_def eth_init_sntp_def eth_emit_def split: eth_event.split)
  ultimately show ?thesis using eth.run_inv [OF assms, of es]
    by (auto simp: eth_connect_task_stop_def set_eth_online_def eth_flags_agree_def eth_is_connected_def Let_def
        mcu_lan_handler_set_internet_status_def mcu_lan_handler_get_internet_status_def)
qed

section \<open>The clock\<close>

text \<open>
  A time from the network sets the clock chip: it then holds that time, runs, and its flag of a low voltage is clear.
\<close>

lemma eth_sync_sets_clock:
  fixes drv :: i2c_drv and t t0 :: tm and s :: i2c_st and d :: nat and b :: bool
  assumes "register_device drv d f" "valid_tm t"
  defines "s1 \<equiv> sntp_sync_notification_cb drv (Some d) (Some t) s"
  shows "(\<exists>s2. pcf8563_read_time drv (Some d) (Some t0) s1 =
       (ESP_OK, Some (t\<lparr>tm_yday := tm_yday t0, tm_isdst := tm_isdst t0\<rparr>), s2)) \<and>
    fst (snd (pcf8563_is_running drv (Some d) (Some b) s1)) = Some True \<and>
    fst (snd (pcf8563_check_voltage_low drv (Some d) (Some b) s1)) = Some False"
proof -
  obtain ret sw where w: "pcf8563_write_time drv (Some d) (Some t) s = (ret, sw)" by fastforce
  note e = pcf8563_write_time_effect [OF assms(1), where t = t and s = s, unfolded w]
  have "pcf8563_encode t ! 0 = dec_to_bcd (word_of_int (tm_sec t)) AND 0x7F" by (simp add: pcf8563_encode_def Let_def)
  then have vl: "regs_of d f sw 2 AND PCF8563_SECONDS_VL = 0" using e(2) [of 0] by (simp add: and.assoc)
  then have vl': "regs_of d f sw (Suc (Suc 0)) AND PCF8563_SECONDS_VL = 0" by (simp add: numeral_2_eq_2)
  obtain sc where c: "pcf8563_clear_voltage_low_flag drv (Some d) sw = (ESP_OK, sc)" "regs_of d f sc = regs_of d f sw"
    using vl' assms(1) by (simp add: pcf8563_clear_voltage_low_flag_def pcf_ops)
  have s1: "s1 = snd (pcf8563_start drv (Some d) sc)" using e(1) c(1) by (simp add: s1_def sntp_sync_notification_cb_def w)
  have R: "regs_of d f s1 = (regs_of d f sw)(0 := regs_of d f sw 0 AND NOT PCF8563_CTRL1_STOP)"
    using pcf8563_start_effect(2) [OF assms(1), of sc] by (simp add: s1 c(2))
  have "map (\<lambda>i. regs_of d f s1 (2 + i)) [0..<7] = pcf8563_encode t"
    by (rule nth_equalityI) (use e(2) R in auto)
  then have "\<exists>s2. pcf8563_read_time drv (Some d) (Some t0) s1 = (ESP_OK, Some (t\<lparr>tm_yday := tm_yday t0, tm_isdst := tm_isdst t0\<rparr>), s2)"
    using assms(1,2) by (auto simp: pcf8563_read_time_def register_device_ops pcf8563_decode_encode)
  moreover have "fst (snd (pcf8563_is_running drv (Some d) (Some b) s1)) = Some True"
    using assms(1) R by (simp add: pcf8563_is_running_def pcf_ops and.assoc)
  moreover have "fst (snd (pcf8563_check_voltage_low drv (Some d) (Some b) s1)) = Some False"
    using assms(1) R vl vl' by (simp add: pcf8563_check_voltage_low_def pcf_ops)
  ultimately show ?thesis by blast
qed

section \<open>At work\<close>

definition demo_eth_stack :: stack_st where
  "demo_eth_stack = \<lparr>g_tca = replicate 2 (tca_inst_zero\<lparr>dev_handle := Some 7\<rparr>), g_module_id = [''003'', ''015''],
     g_slot_present = [True, True], g_initialized = True, stk_i2c = i2c_boot\<rparr>"

definition demo_eth :: eth_sys where
  "demo_eth = \<lparr>est = demo_eth_stack, elan = lan_app_boot, eth_online = False, g_eth_netif = False, s_eth_handle = False, s_eth_glue = False,
     eth_bus = False, eth_events = False, ip_events = False, s_eth_macs = 0, s_eth_phys = 0, s_eth_connected = False,
     eth_sntp_synced = False, eth_sntp_started = False, s_task_running = True, s_task_handle = True, eth_outs = []\<rparr>"

definition demo_eth_env :: eth_env where
  "demo_eth_env = \<lparr>ee_bus = ESP_OK, ee_netif = True, ee_eth_events = ESP_OK, ee_ip_events = ESP_OK, ee_mac = True, ee_phy = True,
     ee_install = ESP_OK, ee_base_mac = (ESP_OK, [0x24, 0x6F, 0x28, 1, 2, 3]), ee_set_mac = ESP_OK, ee_glue = True,
     ee_attach = ESP_OK, ee_start = ESP_OK\<rparr>"

lemma demo_eth_slot: "slot_ready 7 1 demo_eth_stack"
  by (simp add: slot_ready_def demo_eth_stack_def is_valid_stack_id_def)

lemma eth_adapter_ready_applied:
  "fst (eth_prepare_adapter (chip_drv (\<lambda>_. 0)) demo_eth_stack) = ESP_OK \<and>
   pin_bit (regs_of 7 (\<lambda>_. 0) (stk_i2c (snd (eth_prepare_adapter (chip_drv (\<lambda>_. 0)) demo_eth_stack)))) 2 5"
  using eth_adapter_ready [OF chip_drv_register_device demo_eth_slot surjective_pairing, of "\<lambda>_. 0"] by (simp add: demo_eth_stack_def)

theorem eth_starts_once_witness:
  "let s1 = eth_task (chip_drv (\<lambda>_. 0)) demo_eth_env demo_eth;
       s3 = eth_task (chip_drv (\<lambda>_. 0)) demo_eth_env (eth_connect_task_start True (eth_connect_task_stop s1))
   in eth_up s1 \<and> eth_down s3"
proof -
  have p: "fst (eth_prepare_adapter (chip_drv (\<lambda>_. 0)) demo_eth_stack) = ESP_OK"
    using eth_adapter_ready [OF chip_drv_register_device demo_eth_slot surjective_pairing, of "\<lambda>_. 0"] by (simp add: demo_eth_stack_def)
  have "s_task_running (eth_task (chip_drv (\<lambda>_. 0)) demo_eth_env demo_eth)"
    using p by (simp add: eth_task_def eth_spi_hw_init_def demo_eth_def demo_eth_env_def eth_driver_init_def eth_set_default_mac_def
        eth_emit_def Let_def case_prod_beta)
  with eth_starts_once [of demo_eth "chip_drv (\<lambda>_. 0)" demo_eth_env "chip_drv (\<lambda>_. 0)" demo_eth_env] show ?thesis
    by (simp add: eth_down_def demo_eth_def Let_def)
qed

theorem eth_status_follows_link_witness:
  "eth_is_connected (fold eth_event_handler [ETHERNET_EVENT_DISCONNECTED, ETHERNET_EVENT_CONNECTED] demo_eth)"
proof -
  have "eth_flags_agree demo_eth"
    by (simp add: eth_flags_agree_def demo_eth_def lan_app_boot_def mcu_lan_handler_get_internet_status_def)
  from eth_status_follows_link [OF this, of "[ETHERNET_EVENT_DISCONNECTED]" ETHERNET_EVENT_CONNECTED] show ?thesis by simp
qed

lemma eth_sync_sets_clock_applied:
  "let t = \<lparr>tm_sec = 7, tm_min = 59, tm_hour = 23, tm_mday = 28, tm_mon = 1, tm_year = 126, tm_wday = 6, tm_yday = 0, tm_isdst = 0\<rparr>;
       drv = chip_drv (\<lambda>_. 0xFF)
   in \<exists>s2. pcf8563_read_time drv (Some 3) (Some t) (sntp_sync_notification_cb drv (Some 3) (Some t) i2c_boot) = (ESP_OK, Some t, s2)"
  unfolding Let_def
  using eth_sync_sets_clock [OF chip_drv_register_device, where f = "\<lambda>_. 0xFF" and d = 3 and s = i2c_boot
      and t = "\<lparr>tm_sec = 7, tm_min = 59, tm_hour = 23, tm_mday = 28, tm_mon = 1, tm_year = 126, tm_wday = 6, tm_yday = 0, tm_isdst = 0\<rparr>"
      and ?t0.0 = "\<lparr>tm_sec = 7, tm_min = 59, tm_hour = 23, tm_mday = 28, tm_mon = 1, tm_year = 126, tm_wday = 6, tm_yday = 0, tm_isdst = 0\<rparr>"]
  by (simp add: valid_tm_def)

end
