(* ===== verification/Spec2Isabelle.thy ===== *)
theory Spec2Isabelle
  imports PCF8563 TCA_Stack BQ25892 INA230 BQ27441 Power_Source Power_Monitor Main_App Internet_Monitor
    Frames Lan_Comm Lan_Downlink Lan_Uplink Config_Parse Config_NVS Config_Task Uart_Input Captive_Dns Fota Text_Search Telemetry_Port Mqtt_Client Http_Client Coap_Client Server_Uplink Lte Wifi_Station Ethernet
begin

text \<open>
  Verification development of the firmware of a WAN gateway on an ESP32-S3. The gateway has one
  SPI link to a second microcontroller that runs the local radios (the LAN side), one of three
  connections to the internet (Wi-Fi, LTE, Ethernet), one of three server protocols (MQTT, HTTP,
  CoAP), a battery supply it supervises itself, and takes its configuration from UART, USB, a
  web page or the server. All paths below are under \<open>src/\<close>.

  \<^bold>\<open>Theories and the code they model.\<close>

  \<^item> \<open>Gw_Prelude\<close>: words, error codes, byte order, lists; the locales \<open>invariant_step\<close> and
    \<open>reg8_port\<close> (a byte register read, masked and written back) that the chip drivers interpret.
  \<^item> \<open>I2C_Support\<close>, \<open>PCF8563\<close>, \<open>TCA_Stack\<close>, \<open>BQ25892\<close>, \<open>INA230\<close>, \<open>BQ27441\<close>: \<open>BSP/i2c_dev_support\<close>
    and \<open>BSP/stack_handler\<close>, the I2C layer and the chips on it: clock, I/O expanders, charger, system
    monitor, fuel gauge. The static handle of a driver is an \<open>option\<close>, a bus transaction an element
    of a history.
  \<^item> \<open>Power_Source\<close>, \<open>Power_Monitor\<close>: \<open>main/pwr_source_handler.c\<close> and
    \<open>main/pwr_monitor_task.c\<close>, the power status, the charge control and the task that runs them.
  \<^item> \<open>Main_App\<close>: \<open>main/DA2_esp.c\<close>, power rails, status LED (the table of \<open>RGB_LED_STATUS.md\<close>), buttons,
    mode changes, main loop.
  \<^item> \<open>Frames\<close>, \<open>Lan_Comm\<close>: the frame constants and \<open>BSP/MCU_LAN_Communication/src/lan_comm.c\<close>,
    the SPI link with its frame parser.
  \<^item> \<open>Lan_Downlink\<close>, \<open>Lan_Uplink\<close>: \<open>Application/MCU_LAN_Handler/src/mcu_lan_handler_downlink.c\<close> and
    \<open>mcu_lan_handler_uplink.c\<close>, one state \<open>lan_app\<close> of their shared globals, one handler per
    frame, the receive loop's iteration \<open>uplink_iteration\<close>.
  \<^item> \<open>Config_Parse\<close>, \<open>Config_NVS\<close>, \<open>Config_Task\<close>: \<open>Application/Config_Handler/src/config_handler.c\<close>
    (the parsers, then the task) and \<open>config_load_save.c\<close> (the storage), with the configuration records
    of \<open>config_handler.h\<close>; in \<open>Config_Task\<close> the locale \<open>command_port\<close>, what a source of commands owes the task,
    interpreted for the serial port, MQTT, HTTP and CoAP.
  \<^item> \<open>Internet_Monitor\<close>: \<open>Application/Internet_Monitor_Handler/src/internet_monitor.c\<close>, start-up
    gate and failover, as a machine whose steps are the seconds the task sleeps.
  \<^item> \<open>Uart_Input\<close>: \<open>Application/Data_Communication_Handler/src/uart_handler.c\<close>, the command line on the
    serial port: line assembly, configuration report, forwarding of commands.
  \<^item> \<open>Mqtt_Client\<close>: \<open>Application/Server_Communication_Handler/mqtt_handler/src/mqtt_handler.c\<close>,
    telemetry, remote procedure calls and the configuration of the MQTT client.
  \<^item> \<open>Http_Client\<close>: \<open>Application/Server_Communication_Handler/http_handler/src/http_handler.c\<close>, the same over
    HTTP: posted telemetry, long polling for calls, their answers.
  \<^item> \<open>Coap_Client\<close>: \<open>Application/Server_Communication_Handler/coap_handler/src/coap_handler.c\<close>, the same over CoAP.
  \<^item> \<open>Telemetry_Port\<close>, \<open>Server_Uplink\<close>: the locale \<open>telemetry_port\<close>, the contract of a client's queue, interpreted for the
    three clients; \<open>server_handler_enqueue_uplink\<close>, which chooses one.
  \<^item> \<open>Lte\<close>: \<open>Middleware/LTE_Handler/src/lte_handler.c\<close> and \<open>lte_connect.c\<close> of
    \<open>Application/Internet_Communication_Handler/lte_handler\<close>, the handler of the modem, with the mutex it waits for, and the task over it.
  \<^item> \<open>Wifi_Station\<close>, \<open>Ethernet\<close>: \<open>wifi_connect.c\<close> and \<open>eth_connect.c\<close> under \<open>Application/Internet_Communication_Handler\<close>, the
    other two connections: events, tasks, new networks, adapter and driver.
  \<^item> \<open>Fota\<close>: \<open>Application/FOTA/src/fota_handler.c\<close> and \<open>fota_ap.c\<close>, the download of the gateway's own firmware and the access
    point for the LAN side's.
  \<^item> \<open>Text_Search\<close>: lemmas on \<open>strstr\<close> and \<open>strchr\<close>, which the clients and \<open>Fota\<close> share.
  \<^item> \<open>Captive_Dns\<close>: \<open>Application/Web_Config_Handler/src/captive_dns.c\<close>, the name server of the access point.

  \<^bold>\<open>How they interact.\<close> A command reaches \<open>config_handler_task\<close>, which parses it (\<open>Config_Parse\<close>), stores the result
  (\<open>Config_NVS\<close>), answers, and hands the commands of the LAN side to
  \<open>mcu_lan_handler_update_config\<close> (\<open>Lan_Downlink\<close>). \<open>process_data_query\<close> (\<open>Lan_Uplink\<close>) delivers them, the
  firmware triggers and the server's messages over \<open>Lan_Comm\<close>; data and answers come back through
  \<open>process_data_from_lan\<close>. The properties of this theory follow a
  LAN command, a sensor's data and a network typed or sent through all of it. The power
  monitor calls \<open>power_rails_apply\<close> (\<open>Main_App\<close>) on a change of the supply; the rails are pins of the expander of
  \<open>TCA_Stack\<close>. The internet type and fallback set by a command are those the \<open>Internet_Monitor\<close>
  reads after the restart; a network handed over by the task is what \<open>Wifi_Station\<close> takes from its queue; what the monitor stops and starts for LTE is \<open>lte_connect_task_stop\<close> and \<open>lte_connect_task_start\<close> of \<open>Lte\<close>, which also
  sets the Internet status the clients and the monitor of its connection share through \<open>Lan_Downlink\<close>.

  \<^bold>\<open>Code outside the repository\<close> is a parameter or an input. The I2C driver is a function
  from the history of transactions and the next one to its response; \<open>register_device\<close> is the
  documented behaviour of a register-file chip, and \<open>chip_drv\<close> has it. The NVS library is a
  function of the same kind; \<open>nvs_reliable\<close> states its documented behaviour (a committed value
  survives a power failure, an uncommitted one need not), and \<open>flash\<close> has it. Allocation,
  mutexes, queues, ticks, probes, link states and received SPI transactions are inputs of the
  operations (\<open>lan_env\<close>, \<open>mon_env\<close>, \<open>rgb_env\<close> and booleans); the conversion of milliseconds to ticks is a parameter.
  What the code starts, stops, prints or publishes is a list of outputs.

  \<^bold>\<open>Steps.\<close> One operation, or one iteration of a task's loop, is a step. Where a task waits in the middle of it and what other
  tasks do meanwhile bears on the result, the step ends at the wait and a new one begins after it: the sleeps of the monitor
  (\<open>mon_phase\<close>), the reconnection delay of the LTE handler (\<open>lte_bg_reconnect\<close>), the POST of an answer over HTTP
  (\<open>http_answer_done\<close>), the waits of both CoAP tasks (\<open>coap_poll_done\<close>, \<open>coap_post_done\<close>), the request of a configuration from the LAN
  side. Properties over runs then hold for every order of these steps. Elsewhere a bounded wait inside an operation is part of its step, and
  what arrives during it is an input. Within a step the tasks are taken not to interrupt each other.

  \<^bold>\<open>What the lemmas show.\<close> The chip theories give the effect of each operation on the registers;
  the properties on time, pins, voltages, capacity and charge control rest on these effects. \<open>Lan_Comm\<close> proves the
  link's invariant over all runs through \<open>invariant_step\<close>, and an exact parser. \<open>Lan_Uplink\<close> proves
  order, forwarding and firmware-update ordering, and facts on what can never happen. \<open>Config_Parse\<close> gives
  each command format with its printer and proves that parsing the printed text gives the
  fields back, and that no input overruns an array. \<open>Config_NVS\<close> states the contract of a stored configuration as
  the locale \<open>persistent_config\<close>, interpreted for each configuration. \<open>Config_Task\<close> proves
  the answer discipline, that refused commands change nothing, and that carried-out ones
  survive a power failure. \<open>Internet_Monitor\<close> has the failover automaton \<open>link_move\<close> as its
  abstract specification, a simulation, and the exact switching conditions over the results
  of the checks. \<open>Fota\<close> proves that only a whole image is booted and that an update ends; \<open>Lte\<close>, over all sequences of events, that the handler
  never dials, and where its tasks wait for ever. \<open>Wifi_Station\<close> says how often a network is tried and when a new one is used,
  \<open>Ethernet\<close> that the driver is set up as a whole or not at all. \<open>Main_App\<close> proves the rail policy on the pins of the chip and the LED's
  priorities. \<open>Http_Client\<close> and \<open>Coap_Client\<close> say, over all orders of their tasks' steps, when a call is
  carried out again.

  \<^bold>\<open>Bounds.\<close> Sizes are those of the code: 16384 bytes for commands and SPI buffers, 16380 for a
  delivered configuration, 20 queued messages, field arrays of 32 to 256 bytes. Loops of the
  code with a constant bound recurse on it (\<open>await_ack\<close> three rounds, \<open>find_seps\<close> eleven separators); the
  others are structural on the input, or have a measure (\<open>lan_comm_parse_dma_buffer\<close>). No fuel is used beyond these bounds.

  \<^bold>\<open>Not modelled.\<close> The modem drivers, adapted from third-party code, and the web server are only touched where
  the modelled code reads or writes their state; the display is presentation; \<open>managed_components\<close>
  and \<open>examples\<close> are third-party code and scrap copies. A pause without effect on the state
  (\<open>vTaskDelay\<close>) is left out except in these steps and where its length is a property (chip sequences).
\<close>

fun publications :: "lan_out list \<Rightarrow> (command_source \<times> nat option \<times> u8 list) list" where
  "publications [] = []"
| "publications (OutPublish src w m # os) = (src, w, m) # publications os"
| "publications (_ # os) = publications os"

lemma publications_append [simp]: "publications (a @ b) = publications a @ publications b"
  by (induction a rule: publications.induct) simp_all

lemma publications_io [simp]:
  "publications (map OutUart ms) = []" "publications (map OutUsb ms) = []"
  by (induction ms) simp_all

text \<open>The cache entry of a command, once the task has handed it over.\<close>

lemma accepted_cache:
  assumes "ml_accepted env cmd"
  shows "cmd_source (g_config_cache (lan (config_handler_task drv env (Some cmd) s))) = cc_source cmd"
    and "result_waiter (g_config_cache (lan (config_handler_task drv env (Some cmd) s))) = cc_waiter cmd"
proof -
  have "unat (data_len cmd - 3) \<noteq> 0" using assms unfolding ml_accepted_def by unat_arith
  then show "cmd_source (g_config_cache (lan (config_handler_task drv env (Some cmd) s))) = cc_source cmd"
    "result_waiter (g_config_cache (lan (config_handler_task drv env (Some cmd) s))) = cc_waiter cmd"
    using assms
  by (auto simp: config_handler_task_def ml_accepted_def exec_mcu_lan_def mcu_lan_handler_update_config_def
      signal_data_ready_def failed_def bytes_at_def Let_def split: prod.splits option.splits if_splits)
qed

lemma delivery_keeps_waiter:
  "cmd_source (g_config_cache (downlink_handle_config_request env g)) = cmd_source (g_config_cache g)"
  "result_waiter (g_config_cache (downlink_handle_config_request env g)) = result_waiter (g_config_cache g)"
  by (simp_all add: downlink_handle_config_request_def Let_def)

lemma ack_received_fields [simp]:
  "outs (ack_received env g) = outs g" "g_config_cache (ack_received env g) = g_config_cache g"
  by (simp_all add: ack_received_def downlink_send_ack_to_lan_def)

lemma publish_result_fields:
  assumes "waiter_free env"
  shows "outs (publish_result env src resp g) = outs g @ [OutPublish src (result_waiter (g_config_cache g)) (cstr resp)]"
    and "result_waiter (g_config_cache (publish_result env src resp g)) = None"
  using assms by (simp_all add: publish_result_def mcu_lan_handler_take_config_result_waiter_def)

lemma answer_published:
  fixes p :: "u8 list" and len :: u16
  defines "dat \<equiv> drop DATA_PACKET_HEADER_SIZE p" and "n \<equiv> be16 (p ! 5) (p ! 6)"
  assumes frame: "DATA_PACKET_HEADER_SIZE + unat n \<le> unat len" and free: "src_free env" "waiter_free env"
    and src: "cmd_source (g_config_cache g) \<in> {CMD_SOURCE_UART, CMD_SOURCE_USB, CMD_SOURCE_HTTP}"
    and result: "is_config_result_payload (Some (drop (fst (locate_response dat n)) dat))"
  shows "publications (outs (process_data_from_lan env p len g)) = publications (outs g) @
      [(cmd_source (g_config_cache g), result_waiter (g_config_cache g), cstr (drop (fst (locate_response dat n)) dat))]"
    and "result_waiter (g_config_cache (process_data_from_lan env p len g)) = None"
  using assms
  by (auto simp: process_data_from_lan_def mcu_lan_handler_get_config_source_def Let_def not_less
      publish_result_fields case_prod_beta)

text \<open>
  C10. The answer to a LAN command reaches the party that sent it, once. When the task has handed
  a command over to the LAN side, with or without its delivery to the LAN microcontroller in between, and
  the command came from the UART, the USB port or the web page, a data frame with a configuration result
  from the LAN microcontroller publishes exactly one result: to the source and the waiter of that
  command, which is filled in with the answer (cut to 127 characters) and the verdict its wording
  gives. The waiter is gone then, so a later frame cannot release it again.
\<close>

theorem lan_answer_reaches_sender:
  fixes p :: "u8 list" and len :: u16
  defines "dat \<equiv> drop DATA_PACKET_HEADER_SIZE p" and "n \<equiv> be16 (p ! 5) (p ! 6)"
  defines "resp \<equiv> drop (fst (locate_response dat n)) dat"
  assumes accepted: "ml_accepted env cmd"
    and source: "cc_source cmd \<in> {CMD_SOURCE_UART, CMD_SOURCE_USB, CMD_SOURCE_HTTP}"
    and taken: "g = lan (config_handler_task drv env (Some cmd) s)"
    and delivered: "g' \<in> {g, downlink_handle_config_request env1 g}"
    and frame: "DATA_PACKET_HEADER_SIZE + unat n \<le> unat len" and free: "src_free env2" "waiter_free env2"
    and result: "is_config_result_payload (Some resp)"
  shows "publications (outs (process_data_from_lan env2 p len g')) =
      publications (outs g') @ [(cc_source cmd, cc_waiter cmd, cstr resp)] \<and>
    result_waiter (g_config_cache (process_data_from_lan env2 p len g')) = None \<and>
    config_handler_publish_result_from_line (cc_source cmd) (cc_waiter cmd) (Some (cstr resp)) =
      (case cc_waiter cmd of None \<Rightarrow> []
       | Some w \<Rightarrow> [CfgWaiter w (config_result_is_success_message (Some (cstr resp))) (take 127 (cstr resp))])"
proof -
  have cache: "cmd_source (g_config_cache g') = cc_source cmd" "result_waiter (g_config_cache g') = cc_waiter cmd"
    using delivered accepted_cache [OF accepted, of drv s] by (auto simp: taken delivery_keeps_waiter)
  have "starts_with resp ''CFBL:'' \<or> starts_with resp ''CFLR:'' \<or> starts_with resp ''CFZB:'' \<or>
      starts_with resp ''CFRS:'' \<or> starts_with resp ''CFBG:'' \<or>
      starts_with resp ''BR:JSON:'' \<or> starts_with resp ''LR:JSON:''"
    using result by (simp add: is_config_result_payload_def)
  then have "cstr resp \<noteq> []" by (auto simp: starts_with_def ascii_def)
  then have ne: "byte_at (cstr resp) 0 \<noteq> 0"
    using cstr_no_zero [of resp] by (cases "cstr resp") (auto simp: byte_at_def)
  have "config_handler_publish_result_from_line (cc_source cmd) (cc_waiter cmd) (Some (cstr resp)) =
      (case cc_waiter cmd of None \<Rightarrow> []
       | Some w \<Rightarrow> [CfgWaiter w (config_result_is_success_message (Some (cstr resp))) (take 127 (cstr resp))])"
    using ne by (simp add: config_handler_publish_result_from_line_def config_result_signal_waiter_def
        cstr_free [OF cstr_no_zero] split: option.split)
  then show ?thesis
    using answer_published [OF frame [unfolded n_def] free, of g'] source result
    by (simp add: cache resp_def dat_def n_def)
qed

text \<open>A LAN command of the web page, and the answer of the LAN microcontroller.\<close>

definition demo_answer :: "u8 list" where
  "demo_answer = [0x44, 0x54] @ ascii ''CFG'' @ [0, 7] @ ascii ''CFLR:OK'' @ zeros 4"

theorem lan_answer_reaches_sender_witness:
  "let cmd = demo_command CONFIG_TYPE_MCU_LAN ''ML:CFLR:7'' CMD_SOURCE_HTTP (Some 7);
       g = lan (config_handler_task flash demo_env (Some cmd) demo_task)
   in publications (outs (process_data_from_lan demo_env demo_answer 14 g)) =
        publications (outs g) @ [(CMD_SOURCE_HTTP, Some 7, ascii ''CFLR:OK'')]"
proof -
  let ?cmd = "demo_command CONFIG_TYPE_MCU_LAN ''ML:CFLR:7'' CMD_SOURCE_HTTP (Some 7)"
  let ?g = "lan (config_handler_task flash demo_env (Some ?cmd) demo_task)"
  have a: "ml_accepted demo_env ?cmd" by code_simp
  have src: "cc_source ?cmd \<in> {CMD_SOURCE_UART, CMD_SOURCE_USB, CMD_SOURCE_HTTP}" "cc_source ?cmd = CMD_SOURCE_HTTP"
    "cc_waiter ?cmd = Some 7" by (simp_all add: demo_command_def)
  have f: "DATA_PACKET_HEADER_SIZE + unat (be16 (demo_answer ! 5) (demo_answer ! 6)) \<le> unat (14 :: u16)"
    by code_simp
  have e: "src_free demo_env" "waiter_free demo_env" by (simp_all add: demo_env_def)
  have r: "cstr (drop (fst (locate_response (drop DATA_PACKET_HEADER_SIZE demo_answer)
      (be16 (demo_answer ! 5) (demo_answer ! 6)))) (drop DATA_PACKET_HEADER_SIZE demo_answer)) = ascii ''CFLR:OK''"
    by code_simp
  have p: "is_config_result_payload (Some (drop (fst (locate_response (drop DATA_PACKET_HEADER_SIZE demo_answer)
      (be16 (demo_answer ! 5) (demo_answer ! 6)))) (drop DATA_PACKET_HEADER_SIZE demo_answer)))"
    by code_simp
  show ?thesis
    using lan_answer_reaches_sender [OF a src(1) refl _ f e p, where g' = ?g and drv = flash and s = demo_task, unfolded r]
    by (simp add: Let_def src(2,3))
qed

text \<open>
  C12. A network typed on the serial port is the network after the next restart. Let a Wi-Fi
  command with any name of 1 to 63 printable bytes, password and user name of up to 63, arrive
  on the port, in any pieces, and let there be memory and room in the queue. Then exactly this command is
  queued and acknowledged; the task that takes it reports \<open>WF:OK\<close> on the port; and after a power
  failure the stored configuration has that name, that password, that user name and that mode.
\<close>

theorem typed_network_survives_restart:
  fixes a :: wifi_auth_mode and user :: "u8 list option"
  assumes fields: "printable ssid" "ssid \<noteq> []" "length ssid < 64" "printable pass" "length pass < 64"
      "\<And>u. user = Some u \<Longrightarrow> printable u \<and> length u < 64"
    and port: "uart_handler_running u0" "line_buf u0 = []"
      "concat chunks = ascii ''CF'' @ wifi_command ssid pass user (auth_text a) @ [13, 10]"
    and world: "cmd_alloc (world (turn u0))" "cmd_room (world (turn u0))" "handler_queue (gateway (world (turn u0)))"
    and store: "nvs_reliable drv" "sized_contexts (cfg s)"
    and boot: "nvs_log b = logged (nvs_log (cfg (config_handler_task drv env (Some c) s))) NvsPowerCycle"
    and c: "c = typed_command (ascii ''CF'' @ wifi_command ssid pass user (auth_text a))"
  shows "uart_outs (fold (uart_read world) chunks u0) =
      uart_outs u0 @ [UartQueued c, UartLine (ascii ''OK:CMD_QUEUED'')] \<and>
    CfgUartResult True (ascii ''WF:OK'') \<in> set (cfg_outs (config_handler_task drv env (Some c) s)) \<and>
    (let x = g_wifi_ctx (snd (load_wifi_config_from_nvs drv b)) in
     cstr (wx_ssid x) = ssid \<and> cstr (wx_pass x) = pass \<and>
     cstr (wx_username x) = (case user of None \<Rightarrow> [] | Some u \<Rightarrow> u) \<and> wx_auth_mode x = a)"
proof -
  let ?line = "ascii ''CF'' @ wifi_command ssid pass user (auth_text a)"
  note line = typed_wifi_line [of ssid pass user a, OF fields(1,3,4,5,6)]
  have typed: "concat chunks = ?line @ [13, 10]" using port(3) by simp
  have lim: "length (wifi_command ssid pass user (auth_text a)) \<le> 16383" using line(4) by simp
  have f: "plain COLON ssid" "plain COLON pass" "\<forall>u. user = Some u \<longrightarrow> plain COLON u \<and> length u < 64"
    using fields by (auto simp: printable_def)
  note stored = uart_port.network_stored [where user = user, OF f(1) fields(2,3) f(2) fields(5) f(3) lim store c boot]
  have "uart_outs (fold (uart_read world) chunks u0) = uart_outs u0 @
      process_uart_line (world (turn u0)) (s_mode_switch_callback u0) ?line"
    using fold_uart_byte [of u0 "concat chunks" world] fold_uart_read [OF port(1), of world chunks] port(2) line(1,2)
    by (simp add: Let_def typed)
  moreover have "process_uart_line (world (turn u0)) cb ?line = [UartQueued c, UartLine (ascii ''OK:CMD_QUEUED'')]" for cb
  proof -
    have short: "length ?line < UART_BUF_SIZE" "length ?line - 16385 = 0" using line(4) by (simp_all add: ascii_def)
    have "cc_type (typed_command ?line) \<noteq> CONFIG_TYPE_UNKNOWN" using stored by (simp add: c)
    with cf_line [OF line(3) short(1), of "world (turn u0)" cb] world short(2)
    show ?thesis by (simp add: c overrun_def uart_println_def) (simp add: cstr_def ascii_def)
  qed
  moreover have "cc_source c = CMD_SOURCE_UART" by (simp add: c typed_command_def)
  ultimately show ?thesis using stored uart_network_answer [of c drv s env] by simp
qed

theorem typed_network_survives_restart_witness:
  "let c = typed_command (ascii ''CFWF:Home:secret:PERSONAL'');
       x = g_wifi_ctx (snd (load_wifi_config_from_nvs flash
             (demo_cfg\<lparr>nvs_log := logged (nvs_log (cfg (config_handler_task flash demo_env (Some c) demo_task))) NvsPowerCycle\<rparr>)))
   in uart_outs (fold (uart_read (\<lambda>_. demo_uart)) [ascii ''CFWF:Home:sec'', ascii ''ret:PERSONAL'' @ [13], [10]] demo_uart_st) =
        [UartQueued c, UartLine (ascii ''OK:CMD_QUEUED'')] \<and>
      cstr (wx_ssid x) = ascii ''Home'' \<and> cstr (wx_pass x) = ascii ''secret'' \<and> wx_auth_mode x = WIFI_AUTH_MODE_PERSONAL"
proof -
  let ?cmd = "wifi_command (ascii ''Home'') (ascii ''secret'') None (auth_text WIFI_AUTH_MODE_PERSONAL)"
  have cmd: "ascii ''CFWF:Home:secret:PERSONAL'' = ascii ''CF'' @ ?cmd"
    by (simp add: wifi_command_def auth_text_def ascii_def)
  have t: "printable (ascii ''Home'')" "ascii ''Home'' \<noteq> []" "length (ascii ''Home'') < 64"
    "printable (ascii ''secret'')" "length (ascii ''secret'') < 64"
    by (simp_all add: printable_def plain_def ascii_def)
  have p: "uart_handler_running demo_uart_st" "line_buf demo_uart_st = []"
    "concat [ascii ''CFWF:Home:sec'', ascii ''ret:PERSONAL'' @ [13], [10]] = ascii ''CF'' @ ?cmd @ [13, 10]"
    by (simp_all add: demo_uart_st_def wifi_command_def auth_text_def ascii_def)
  have w: "cmd_alloc demo_uart" "cmd_room demo_uart" "handler_queue (gateway demo_uart)" "uart_outs demo_uart_st = []"
    by (simp_all add: demo_uart_def demo_task_def demo_uart_st_def)
  let ?c = "typed_command (ascii ''CF'' @ ?cmd)"
  let ?b = "demo_cfg\<lparr>nvs_log := logged (nvs_log (cfg (config_handler_task flash demo_env (Some ?c) demo_task))) NvsPowerCycle\<rparr>"
  have b: "nvs_log ?b = logged (nvs_log (cfg (config_handler_task flash demo_env (Some ?c) demo_task))) NvsPowerCycle"
    by simp
  from typed_network_survives_restart [where user = None, OF t _ p w(1,2,3) flash_reliable demo_sized b refl] w(4)
  show ?thesis unfolding cmd Let_def by simp
qed

text \<open>
  C13. A network typed on the serial port is the one the gateway changes to. Let the gateway be connected, and a Wi-Fi command with any name, password and user name that fit be
  carried out. The network handed to the Wi-Fi task makes the driver give up its connection and, with a name of up to 32 bytes, connect
  to that name with that password, or that user name where one is given, whatever mode the command names. A longer name, though
  reported as \<open>WF:OK\<close> and stored, is passed over.
\<close>

theorem typed_network_used:
  fixes a :: wifi_auth_mode and user :: "u8 list option" and w :: wifi_sys
  assumes fields: "printable ssid" "ssid \<noteq> []" "length ssid < 64" "printable pass" "length pass < 64"
      "\<And>u. user = Some u \<Longrightarrow> printable u \<and> length u < 64"
    and c: "c = typed_command (ascii ''CF'' @ wifi_command ssid pass user (auth_text a))" and queue: "wifi_queue s"
    and w: "sized_contexts (cfg (wtk w))" "s_wifi_connected w" "listening w" "\<not> fota_ap_is_running (fota_ap w)"
    and e: "we_free e" "we_eap e = replicate 4 ESP_OK" "we_free e'"
  shows "\<exists>n os. cfg_outs (config_handler_task drv env (Some c) s) = cfg_outs s @ CfgWifiQueue n # os \<and>
    (if length ssid \<le> 32
     then \<exists>w2. event_handler e' WIFI_EVENT_STA_DISCONNECTED (wifi_config_turn e (Some n) w) = Some w2 \<and>
       (let u = (case user of None \<Rightarrow> [] | Some u \<Rightarrow> u)
        in w_outs w2 = w_outs w @ network_setup ssid pass u @ [WifiDisconnect, WifiSta (network_config ssid pass u), WifiConnect])
     else wifi_config_turn e (Some n) w = w)"
proof -
  have f: "plain COLON ssid" "plain COLON pass" "\<forall>u. user = Some u \<longrightarrow> plain COLON u \<and> length u < 64"
    using fields by (auto simp: printable_def)
  have lim: "length (wifi_command ssid pass user (auth_text a)) \<le> 16383"
    using typed_wifi_line(4) [of ssid pass user a, OF fields(1,3,4,5,6)] by simp
  let ?n = "\<lparr>wf_username = (case user of None \<Rightarrow> zeros 64 | Some u \<Rightarrow> arr 64 u), wf_ssid = arr 64 ssid,
          wf_password = arr 64 pass, wf_auth_mode = a\<rparr>"
  obtain os where out: "cfg_outs (config_handler_task drv env (Some c) s) = cfg_outs s @ CfgWifiQueue ?n # os"
    using uart_port.network_handed_over [where user = user, OF f(1) fields(2,3) f(2) fields(5) f(3) lim queue c] by blast
  have t: "cstr (wf_ssid ?n) = ssid" "cstr (wf_password ?n) = pass" "cstr (wf_username ?n) = (case user of None \<Rightarrow> [] | Some u \<Rightarrow> u)"
    using f by (auto simp: cstr_put_str plain_def split: option.split)
  have arrays: "network_arrays ?n (wifi_ctx w)"
    using w(1) fields f c_array_arr [of "[]" 64] by (auto simp: network_arrays_def sized_contexts_def c_array_arr Let_def arr_Nil split: option.split)
  have "if length ssid \<le> 32
     then \<exists>w2. event_handler e' WIFI_EVENT_STA_DISCONNECTED (wifi_config_turn e (Some ?n) w) = Some w2 \<and>
       (let u = (case user of None \<Rightarrow> [] | Some u \<Rightarrow> u)
        in w_outs w2 = w_outs w @ network_setup ssid pass u @ [WifiDisconnect, WifiSta (network_config ssid pass u), WifiConnect])
     else wifi_config_turn e (Some ?n) w = w"
  proof (cases "length ssid \<le> 32")
    case True
    then have v: "valid_network ?n" unfolding valid_network_def t using fields by simp
    show ?thesis
      using take_config_connected [OF v arrays w(2,3) e(1,2), unfolded t] True w(4) e(3)
      by (simp add: event_handler_def listening_def Let_def)
  next
    case False
    then show ?thesis using t w(3) by (simp add: wifi_config_turn_def wifi_take_config_def listening_def)
  qed
  with out show ?thesis by blast
qed

theorem typed_network_used_witness:
  "\<exists>n w2. CfgWifiQueue n \<in> set (cfg_outs (config_handler_task flash demo_env (Some (typed_command (ascii ''CFWF:Home:secret:PERSONAL''))) demo_task)) \<and>
     event_handler demo_wifi_env WIFI_EVENT_STA_DISCONNECTED (wifi_config_turn demo_wifi_env (Some n) (demo_wifi True False)) = Some w2 \<and>
     last (w_outs w2) = WifiConnect"
proof -
  let ?cmd = "wifi_command (ascii ''Home'') (ascii ''secret'') None (auth_text WIFI_AUTH_MODE_PERSONAL)"
  have cmd: "ascii ''CFWF:Home:secret:PERSONAL'' = ascii ''CF'' @ ?cmd"
    by (simp add: wifi_command_def auth_text_def ascii_def)
  have t: "printable (ascii ''Home'')" "ascii ''Home'' \<noteq> []" "length (ascii ''Home'') < 64"
    "printable (ascii ''secret'')" "length (ascii ''secret'') < 64" "length (ascii ''Home'') \<le> 32"
    by (simp_all add: printable_def plain_def ascii_def)
  have w: "sized_contexts (cfg (wtk (demo_wifi True False)))" "s_wifi_connected (demo_wifi True False)"
    "\<not> fota_ap_is_running (fota_ap (demo_wifi True False))" "wifi_queue demo_task"
    using demo_sized by (simp_all add: demo_wifi_def fota_ap_is_running_def demo_task_def)
  have e: "we_free demo_wifi_env" "we_eap demo_wifi_env = replicate 4 ESP_OK" by (simp_all add: demo_wifi_env_def)
  from typed_network_used [where user = None, OF t(1-5) _ refl w(4) w(1,2) demo_listening w(3) e e(1), where a = WIFI_AUTH_MODE_PERSONAL and drv = flash and env = demo_env] t(6)
  show ?thesis unfolding cmd by (auto simp: Let_def)
qed

text \<open>
  C16. A network sent by the server is the network after the next restart, without an answer. A
  Wi-Fi command of up to 253 bytes in a call, for any name, password, user name and mode that fit,
  goes to the command task as it was sent; the stored configuration after a power failure has exactly
  these values. The task gives no answer to the caller, neither a result line nor a waiter.
\<close>

theorem rpc_network_survives_restart:
  fixes a :: wifi_auth_mode and user :: "u8 list option" and ssid pass m rest junk :: "u8 list"
  defines "cmd \<equiv> wifi_command ssid pass user (auth_text a)"
  defines "json \<equiv> rpc_json m (to_hex (ascii ''CF'' @ cmd))"
  assumes fields: "plain COLON ssid" "ssid \<noteq> []" "length ssid < 64" "plain COLON pass" "length pass < 64"
      "\<forall>u. user = Some u \<longrightarrow> plain COLON u \<and> length u < 64"
    and call: "k < 2147483648" "34 \<notin> set m" "0 \<notin> set m" "length cmd \<le> 253"
    and world: "mq_alloc e" "mq_room e" "handler_queue (gw s)"
    and store: "nvs_reliable drv" "sized_contexts (cfg t)"
    and boot: "nvs_log b = logged (nvs_log (cfg (config_handler_task drv env (Some (rpc_command cmd)) t))) NvsPowerCycle"
  shows "mqtt_outs (mqtt_event_handler e (MQTT_EVENT_DATA (rpc_topic k @ rest) (length (rpc_topic k))
        (json @ junk) (length json)) s) = mqtt_outs s @ [MqttCommand (rpc_command cmd)] \<and>
    (let x = g_wifi_ctx (snd (load_wifi_config_from_nvs drv b)) in
     cstr (wx_ssid x) = ssid \<and> cstr (wx_pass x) = pass \<and>
     cstr (wx_username x) = (case user of None \<Rightarrow> [] | Some u \<Rightarrow> u) \<and> wx_auth_mode x = a) \<and>
    filter answers (cfg_outs (config_handler_task drv env (Some (rpc_command cmd)) t)) = filter answers (cfg_outs t)"
proof -
  let ?c = "rpc_command cmd"
  note stored = mqtt_port.network_stored [OF fields call(4) [unfolded cmd_def] store refl boot [unfolded cmd_def],
      folded cmd_def]
  have c: "?c = \<lparr>cc_type = config_parse_type cmd (word_of_nat (length cmd)), raw_data = cmd @ 0 # zeros (16383 - length cmd),
      data_len = word_of_nat (length cmd), cc_source = CMD_SOURCE_MQTT, cc_waiter = None\<rparr>"
    using call(4) raw_short [of cmd] by (simp add: rpc_command_def make_command_def fill_array_string)
  then have ty: "config_parse_type cmd (word_of_nat (length cmd)) = CONFIG_TYPE_WIFI" using stored by simp
  have sent: "mqtt_outs (mqtt_event_handler e (MQTT_EVENT_DATA (rpc_topic k @ rest) (length (rpc_topic k))
      (json @ junk) (length json)) s) = mqtt_outs s @ [MqttCommand ?c]"
    using rpc_config_effect [OF call(1-3), of cmd e rest junk s] call(4) world ty
    by (simp add: json_def c mqtt_emit_def)
  have silent: "filter answers (cfg_outs (config_handler_task drv env (Some ?c) t)) = filter answers (cfg_outs t)"
  proof -
    obtain s' where w: "exec_wifi drv ?c t = (ok ''WF:OK'', s')" using stored by (cases "exec_wifi drv ?c t") simp
    then have "filter answers (cfg_outs s') = filter answers (cfg_outs t)"
      by (auto simp: exec_wifi_def ok_def failed_def cout_def Let_def split: option.splits if_splits)
    with w stored show ?thesis
      by (simp add: config_handler_task_def ok_def cout_def config_handler_publish_result_def
          config_result_signal_waiter_def c)
  qed
  from sent stored silent show ?thesis by simp
qed

theorem rpc_network_survives_restart_witness:
  "let c = rpc_command (ascii ''WF:Home:secret:PERSONAL'');
       x = g_wifi_ctx (snd (load_wifi_config_from_nvs flash
             (demo_cfg\<lparr>nvs_log := logged (nvs_log (cfg (config_handler_task flash demo_env (Some c) demo_task))) NvsPowerCycle\<rparr>)))
   in cstr (wx_ssid x) = ascii ''Home'' \<and> cstr (wx_pass x) = ascii ''secret'' \<and> wx_auth_mode x = WIFI_AUTH_MODE_PERSONAL"
proof -
  let ?cmd = "wifi_command (ascii ''Home'') (ascii ''secret'') None (auth_text WIFI_AUTH_MODE_PERSONAL)"
  have cmd: "ascii ''WF:Home:secret:PERSONAL'' = ?cmd" by (simp add: wifi_command_def auth_text_def ascii_def)
  have t: "plain COLON (ascii ''Home'')" "ascii ''Home'' \<noteq> []" "length (ascii ''Home'') < 64"
    "plain COLON (ascii ''secret'')" "length (ascii ''secret'') < 64"
    "\<forall>u. None = Some u \<longrightarrow> plain COLON u \<and> length u < 64"
    by (simp_all add: plain_def ascii_def)
  have l: "(3 :: nat) < 2147483648" "34 \<notin> set (ascii ''set'')" "0 \<notin> set (ascii ''set'')" "length ?cmd \<le> 253"
    by (simp_all add: wifi_command_def auth_text_def ascii_def)
  have w: "mq_alloc demo_mqtt_env" "mq_room demo_mqtt_env" "handler_queue (gw demo_mqtt_st)"
    by (simp_all add: demo_mqtt_env_def demo_mqtt_st_def demo_task_def)
  let ?b = "demo_cfg\<lparr>nvs_log := logged (nvs_log (cfg (config_handler_task flash demo_env (Some (rpc_command ?cmd)) demo_task))) NvsPowerCycle\<rparr>"
  have b: "nvs_log ?b = logged (nvs_log (cfg (config_handler_task flash demo_env (Some (rpc_command ?cmd)) demo_task))) NvsPowerCycle"
    by simp
  from rpc_network_survives_restart [OF t l w flash_reliable demo_sized b]
  show ?thesis unfolding cmd Let_def by simp
qed

text \<open>
  C8. What a sensor sends arrives at the server, whichever server is configured. While the gateway is online and no local
  interface is waiting, a complete data frame from the LAN side makes the handler forward its type and
  payload; the client of the configured server, its queue empty, its publishing task not in the middle of an
  earlier message and the request going out, takes it, and with its next turn, no poll falling into it, sends exactly one message, to its configured address, as hexadecimal text that decodes to that type and payload; for payloads of up to 2044 bytes,
  the limit of the MQTT and HTTP clients, and when no call is waiting for an answer or being answered.
\<close>

theorem sensor_data_published:
  fixes room :: bool and cl :: clients and t :: server_type and ty dat pad :: "u8 list" and env :: lan_env and g :: lan_app
  assumes frame: "length ty = 3" "length dat \<le> 2044" "length dat + length pad < 65000"
      "\<not> is_config_result_payload (Some (dat @ pad))"
    and handler: "malloc_ok env" "mcu_lan_handler_get_config_source env g \<notin> {CMD_SOURCE_UART, CMD_SOURCE_USB, CMD_SOURCE_HTTP}"
      "g_internet_status g = INTERNET_STATUS_ONLINE"
    and client: "client_ready t cl" "init_ok r" "coap_delivered (fst x)"
  defines "res \<equiv> server_handler_enqueue_uplink t room (Some (ty @ dat)) cl"
  shows "process_data_from_lan env (dt_frame ty dat pad) (word_of_nat (length (dt_frame ty dat pad))) g =
      load_tx (load_free env) [0x02, 0x11, 1] (out [OutUplink (ty @ dat)] g) \<and>
    fst res \<and>
    (\<exists>hex. hex_decode 4096 hex = ty @ dat \<and>
      client_sent t (publish_turn t r x (snd res)) =
        client_sent t cl @ [server_message t cl ([123] @ json_string ''data'' hex @ [125])])"
proof -
  have d: "ty @ dat \<noteq> []" "length (ty @ dat) \<le> 2047" using frame(1,2) by auto
  have "hex_decode 4096 (to_hex (ty @ dat)) = take 4096 (ty @ dat)" by (rule hex_decode_to_hex)
  also have "\<dots> = ty @ dat" using d(2) by (intro take_all) linarith
  finally show ?thesis
    using uplink_published [OF client(1) d client(2,3), of room]
      data_frame_forwarded [OF frame(1,3) handler(1,2) frame(4)] handler(3)
    by (intro conjI exI [of _ "to_hex (ty @ dat)"]) (simp_all only: res_def if_True simp_thms)
qed

definition demo_clients :: clients where
  "demo_clients = (demo_mqtt_st, demo_http_st\<lparr>g_http_publish_queue := Some []\<rparr>, demo_coap_st\<lparr>co_last_rpc_id := -1\<rparr>)"

theorem sensor_data_published_witness:
  "\<forall>t. \<exists>hex. hex_decode 4096 hex = ascii ''LOR'' @ [7, 0, 9] \<and>
     client_sent t (publish_turn t (demo_reply []) (demo_exchange, []) (snd (server_handler_enqueue_uplink t False (Some (ascii ''LOR'' @ [7, 0, 9])) demo_clients))) =
       client_sent t demo_clients @ [server_message t demo_clients ([123] @ json_string ''data'' hex @ [125])]"
  (is "\<forall>t. ?P t")
proof
  fix t
  let ?g = "demo_app\<lparr>g_internet_status := INTERNET_STATUS_ONLINE\<rparr>"
  have "client_ready t demo_clients"
    by (cases t) (simp_all add: client_ready_def demo_clients_def demo_mqtt_st_def demo_http_st_def demo_coap_st_def publishing_def)
  moreover have "mcu_lan_handler_get_config_source demo_env ?g = CMD_SOURCE_MQTT" "malloc_ok demo_env"
    by (simp_all add: mcu_lan_handler_get_config_source_def demo_env_def demo_app_def lan_app_boot_def)
  moreover have "\<not> is_config_result_payload (Some ([7, 0, 9] @ [0, 0]))"
    by (simp add: is_config_result_payload_def starts_with_def cstr_def ascii_def)
  moreover have "init_ok (demo_reply [])" "coap_delivered (fst (demo_exchange, []))" by (simp_all add: demo_reply_def demo_coap_fields)
  ultimately show "?P t"
    using sensor_data_published [of "ascii ''LOR''" "[7, 0, 9]" "[0, 0]" demo_env ?g t demo_clients "demo_reply []" "(demo_exchange, [])" False]
    by simp
qed

end
